(* ===== verification/Go_Base.thy ===== *)
theory Go_Base
  imports Main "HOL-Library.Word"
begin

text \<open>
  Prelude of the development: the Go values the program computes with.

  \<^item> \<open>int64\<close> is Go's two's-complement 64-bit integer, a \<open>64 word\<close>: sums and differences wrap,
    comparisons read the word with \<open>sint\<close>.
  \<^item> Go strings are byte strings, modelled as \<open>string\<close>.  The functions of package \<open>strings\<close> that
    the program calls are defined here for ASCII text: \<open>to_lower\<close> folds the 26 letters and
    \<open>trim_space\<close> removes the six ASCII white-space bytes; other bytes pass through unchanged.
  \<^item> A Go function that returns \<open>(T, error)\<close> returns \<open>'e + 'a\<close> here, \<open>Inl\<close> being the error.

  The collections \<open>string_simps\<close> and \<open>result_simps\<close> gather the rewrite rules that the component
  theories hand to \<open>simp\<close> and \<open>auto\<close>.
\<close>

named_theorems string_simps
named_theorems result_simps

section \<open>64-bit integers\<close>

type_synonym int64 = "64 word"

text \<open>The signed reading of a word: what Go prints and compares.\<close>

abbreviation i64 :: "int64 \<Rightarrow> int" where
  "i64 x \<equiv> sint x"

text \<open>\<open>abs64\<close> of the pipeline and importer packages; the most negative value is its own negation.\<close>

definition abs64 :: "int64 \<Rightarrow> int64" where
  "abs64 x = (if i64 x < 0 then - x else x)"

text \<open>The range of a signed 64-bit value, as integers.\<close>

definition in_int64 :: "int \<Rightarrow> bool" where
  "in_int64 n \<longleftrightarrow> - (2 ^ 63) \<le> n \<and> n < 2 ^ 63"

lemma i64_range: "in_int64 (i64 x)"
proof -
  have "- (2 ^ 63) \<le> sint x" "sint x < 2 ^ 63"
    using sint_ge [of x] sint_lt [of x] by simp_all
  then show ?thesis by (simp add: in_int64_def)
qed

lemma i64_of_int [simp]: "in_int64 n \<Longrightarrow> i64 (word_of_int n) = n"
  by (simp add: in_int64_def sint_word_ariths signed_of_int signed_take_bit_int_eq_self)

lemma word_of_int_i64 [simp]: "word_of_int (i64 x) = x"
  by simp

lemma i64_eq_iff: "x = y \<longleftrightarrow> i64 x = i64 y"
  by (metis word_of_int_i64)

lemma i64_zero [simp]: "i64 0 = 0"
  by simp

lemma i64_add: "in_int64 (i64 x + i64 y) \<Longrightarrow> i64 (x + y) = i64 x + i64 y"
proof -
  assume "in_int64 (i64 x + i64 y)"
  then have "i64 (word_of_int (i64 x + i64 y)) = i64 x + i64 y" by (rule i64_of_int)
  then show ?thesis by (simp only: of_int_add word_of_int_i64)
qed

lemma i64_diff: "in_int64 (i64 x - i64 y) \<Longrightarrow> i64 (x - y) = i64 x - i64 y"
proof -
  assume "in_int64 (i64 x - i64 y)"
  then have "i64 (word_of_int (i64 x - i64 y)) = i64 x - i64 y" by (rule i64_of_int)
  then show ?thesis by (simp only: of_int_diff word_of_int_i64)
qed

lemma i64_uminus: "in_int64 (- i64 x) \<Longrightarrow> i64 (- x) = - i64 x"
proof -
  assume "in_int64 (- i64 x)"
  then have "i64 (word_of_int (- i64 x)) = - i64 x" by (rule i64_of_int)
  then show ?thesis by (simp only: of_int_minus word_of_int_i64)
qed

lemma i64_sum_list:
  assumes "\<And>k. k \<le> length xs \<Longrightarrow> in_int64 (\<Sum>x\<leftarrow>take k xs. i64 x)"
  shows "i64 (sum_list xs) = (\<Sum>x\<leftarrow>xs. i64 x)"
proof -
  have "in_int64 (\<Sum>x\<leftarrow>xs. i64 x)" using assms [of "length xs"] by simp
  moreover have "sum_list xs = word_of_int (\<Sum>x\<leftarrow>xs. i64 x)"
    by (induction xs) simp_all
  ultimately show ?thesis by simp
qed

text \<open>A sum of non-negative values wraps only when the true sum leaves the range.\<close>

lemma i64_sum_list_word: "word_of_int (\<Sum>x\<leftarrow>xs. i64 x) = sum_list (xs :: int64 list)"
  by (induction xs) simp_all

lemma i64_sum_list_bounded:
  "in_int64 (\<Sum>x\<leftarrow>xs. i64 x) \<Longrightarrow> i64 (sum_list xs) = (\<Sum>x\<leftarrow>xs. i64 x)"
  by (metis i64_of_int i64_sum_list_word)

lemma abs64_nonneg: "x \<noteq> word_of_int (- (2 ^ 63)) \<Longrightarrow> 0 \<le> i64 (abs64 x)"
proof -
  assume ne: "x \<noteq> word_of_int (- (2 ^ 63))"
  have "i64 x \<noteq> - (2 ^ 63)"
    using ne by (metis word_of_int_i64)
  then have "in_int64 (- i64 x)"
    using i64_range [of x] by (auto simp: in_int64_def)
  then show ?thesis by (auto simp: abs64_def i64_uminus)
qed

lemma i64_abs64: "x \<noteq> word_of_int (- (2 ^ 63)) \<Longrightarrow> i64 (abs64 x) = \<bar>i64 x\<bar>"
proof -
  assume ne: "x \<noteq> word_of_int (- (2 ^ 63))"
  have "i64 x \<noteq> - (2 ^ 63)"
    using ne by (metis word_of_int_i64)
  then have "in_int64 (- i64 x)"
    using i64_range [of x] by (auto simp: in_int64_def)
  then show ?thesis by (auto simp: abs64_def i64_uminus)
qed

lemma abs64_zero_iff [simp]: "abs64 x = 0 \<longleftrightarrow> x = 0"
  by (auto simp: abs64_def)

section \<open>Results\<close>

text \<open>Go's \<open>if err != nil { return err }\<close> after a call.\<close>

definition rbind :: "'e + 'a \<Rightarrow> ('a \<Rightarrow> 'e + 'b) \<Rightarrow> 'e + 'b" where
  "rbind r f = (case r of Inl e \<Rightarrow> Inl e | Inr x \<Rightarrow> f x)"

lemma rbind_simps [simp]: "rbind (Inl e) f = Inl e" "rbind (Inr x) f = f x"
  by (simp_all add: rbind_def)

lemma rbind_Inr_iff [result_simps]: "rbind r f = Inr y \<longleftrightarrow> (\<exists>x. r = Inr x \<and> f x = Inr y)"
  by (cases r) simp_all

lemma rbind_Inl_iff [result_simps]:
  "rbind r f = Inl e \<longleftrightarrow> r = Inl e \<or> (\<exists>x. r = Inr x \<and> f x = Inl e)"
  by (cases r) auto

section \<open>Strings\<close>

definition is_space :: "char \<Rightarrow> bool" where
  "is_space c \<longleftrightarrow> c \<in> set [CHR '' '', CHR 0x09, CHR 0x0A, CHR 0x0B, CHR 0x0C, CHR 0x0D]"

definition trim_left :: "string \<Rightarrow> string" where
  "trim_left s = dropWhile is_space s"

definition trim_space :: "string \<Rightarrow> string" where
  "trim_space s = rev (trim_left (rev (trim_left s)))"

definition lower_char :: "char \<Rightarrow> char" where
  "lower_char c =
     (case map_of (zip ''ABCDEFGHIJKLMNOPQRSTUVWXYZ'' ''abcdefghijklmnopqrstuvwxyz'') c of
        None \<Rightarrow> c | Some d \<Rightarrow> d)"

definition to_lower :: "string \<Rightarrow> string" where
  "to_lower s = map lower_char s"

definition has_prefix :: "string \<Rightarrow> string \<Rightarrow> bool" where
  "has_prefix s p \<longleftrightarrow> take (length p) s = p"

definition has_suffix :: "string \<Rightarrow> string \<Rightarrow> bool" where
  "has_suffix s p \<longleftrightarrow> has_prefix (rev s) (rev p)"

definition trim_prefix :: "string \<Rightarrow> string \<Rightarrow> string" where
  "trim_prefix s p = (if has_prefix s p then drop (length p) s else s)"

definition trim_suffix :: "string \<Rightarrow> string \<Rightarrow> string" where
  "trim_suffix s p = (if has_suffix s p then take (length s - length p) s else s)"

fun contains :: "string \<Rightarrow> string \<Rightarrow> bool" where
  "contains [] sub = (sub = [])"
| "contains (c # s) sub = (has_prefix (c # s) sub \<or> contains s sub)"

fun index_byte :: "string \<Rightarrow> char \<Rightarrow> nat option" where
  "index_byte [] c = None"
| "index_byte (x # s) c = (if x = c then Some 0 else map_option Suc (index_byte s c))"

fun join :: "string list \<Rightarrow> string \<Rightarrow> string" where
  "join [] sep = []"
| "join [s] sep = s"
| "join (s # t # ss) sep = s @ sep @ join (t # ss) sep"

text \<open>\<open>strings.Fields\<close>: the maximal runs of non-space bytes.\<close>

fun str_fields_acc :: "string \<Rightarrow> string \<Rightarrow> string list" where
  "str_fields_acc acc [] = (if acc = [] then [] else [rev acc])"
| "str_fields_acc acc (c # s) =
     (if is_space c then (if acc = [] then str_fields_acc [] s else rev acc # str_fields_acc [] s)
      else str_fields_acc (c # acc) s)"

definition str_fields :: "string \<Rightarrow> string list" where
  "str_fields s = str_fields_acc [] s"

text \<open>\<open>strings.NewReplacer\<close> with one-byte patterns and empty replacements.\<close>

definition remove_bytes :: "string \<Rightarrow> string \<Rightarrow> string" where
  "remove_bytes bad s = filter (\<lambda>c. c \<notin> set bad) s"

definition is_digit :: "char \<Rightarrow> bool" where
  "is_digit c \<longleftrightarrow> c \<in> set ''0123456789''"

definition digit_val :: "char \<Rightarrow> int" where
  "digit_val c = (case index_byte ''0123456789'' c of None \<Rightarrow> 0 | Some n \<Rightarrow> int n)"

definition digit_char :: "int \<Rightarrow> char" where
  "digit_char n = ''0123456789'' ! nat (n mod 10)"

function nat_str :: "int \<Rightarrow> string" where
  "nat_str n = (if n < 10 then [digit_char n] else nat_str (n div 10) @ [digit_char n])"
  by pat_completeness auto
termination
  by (relation "measure nat") auto

declare nat_str.simps [simp del]

text \<open>\<open>strconv.Itoa\<close> and \<open>strconv.FormatInt(_, 10)\<close>.\<close>

definition int_str :: "int \<Rightarrow> string" where
  "int_str i = (if i < 0 then ''-'' @ nat_str (- i) else nat_str i)"

definition digits_int :: "string \<Rightarrow> int" where
  "digits_int s = foldl (\<lambda>a c. 10 * a + digit_val c) 0 s"

text \<open>\<open>fmt\<close>'s verb \<open>%q\<close>: double quotes, with the escapes Go uses for control bytes.\<close>

definition hex_digit :: "int \<Rightarrow> char" where
  "hex_digit n = ''0123456789abcdef'' ! nat (n mod 16)"

definition quote_char :: "char \<Rightarrow> string" where
  "quote_char c =
     (if c = CHR 0x22 then [CHR 0x5C, CHR 0x22] else if c = CHR 0x5C then [CHR 0x5C, CHR 0x5C]
      else if c = CHR 0x07 then [CHR 0x5C, CHR ''a''] else if c = CHR 0x08 then [CHR 0x5C, CHR ''b'']
      else if c = CHR 0x0C then [CHR 0x5C, CHR ''f''] else if c = CHR 0x0A then [CHR 0x5C, CHR ''n'']
      else if c = CHR 0x0D then [CHR 0x5C, CHR ''r''] else if c = CHR 0x09 then [CHR 0x5C, CHR ''t'']
      else if c = CHR 0x0B then [CHR 0x5C, CHR ''v'']
      else let n = of_char c :: int in
        if n < 32 \<or> n = 127 then [CHR 0x5C, CHR ''x'', hex_digit (n div 16), hex_digit n] else [c])"

definition fmt_q :: "string \<Rightarrow> string" where
  "fmt_q s = [CHR 0x22] @ concat (map quote_char s) @ [CHR 0x22]"

subsection \<open>Facts about strings\<close>

lemma trim_left_idem [simp]: "trim_left (trim_left s) = trim_left s"
  by (simp add: trim_left_def)

lemma trim_left_Nil [simp]: "trim_left [] = []"
  by (simp add: trim_left_def)

lemma trim_left_rev_trim: "trim_left (rev (trim_left (rev (trim_left s)))) = rev (trim_left (rev (trim_left s)))"
proof -
  let ?t = "trim_left s"
  have "rev (dropWhile is_space (rev ?t)) = [] \<or> hd (rev (dropWhile is_space (rev ?t))) = hd ?t \<and> ?t \<noteq> []"
  proof (cases "rev (dropWhile is_space (rev ?t))")
    case Nil
    then show ?thesis by simp
  next
    case (Cons a l)
    have "?t = rev (dropWhile is_space (rev ?t)) @ rev (takeWhile is_space (rev ?t))"
      by (metis rev_append rev_rev_ident takeWhile_dropWhile_id)
    then have "hd ?t = a" using Cons by (metis append_Cons list.sel(1))
    then show ?thesis using Cons by auto
  qed
  then show ?thesis
    by (metis (no_types, lifting) dropWhile_eq_self_iff hd_dropWhile trim_left_def trim_left_Nil)
qed

lemma trim_space_idem [simp]: "trim_space (trim_space s) = trim_space s"
  by (metis rev_rev_ident trim_left_idem trim_left_rev_trim trim_space_def)

lemma trim_space_Nil [simp]: "trim_space [] = []"
  by (simp add: trim_space_def)

lemma has_prefix_append [simp]: "has_prefix (p @ s) p"
  by (simp add: has_prefix_def)

lemma has_prefix_iff: "has_prefix s p \<longleftrightarrow> (\<exists>t. s = p @ t)"
  by (metis append_eq_conv_conj append_take_drop_id has_prefix_def)

lemma has_suffix_iff: "has_suffix s p \<longleftrightarrow> (\<exists>t. s = t @ p)"
  by (metis has_prefix_iff has_suffix_def rev_append rev_rev_ident)

lemma contains_iff: "contains s sub \<longleftrightarrow> (\<exists>u v. s = u @ sub @ v)"
proof (induction s)
  case Nil
  then show ?case by auto
next
  case (Cons c s)
  have "(\<exists>u v. c # s = u @ sub @ v) \<longleftrightarrow> (\<exists>v. c # s = sub @ v) \<or> (\<exists>u v. s = u @ sub @ v)"
    by (metis append_Cons append_Nil list.exhaust list.inject)
  then show ?case using Cons by (simp add: has_prefix_iff)
qed

lemma lower_char_idem [simp]: "lower_char (lower_char c) = lower_char c"
proof (cases "c \<in> set ''ABCDEFGHIJKLMNOPQRSTUVWXYZ''")
  case True
  then show ?thesis by (auto simp: lower_char_def)
next
  case False
  then show ?thesis by (simp add: lower_char_def)
qed

lemma to_lower_idem [simp]: "to_lower (to_lower s) = to_lower s"
  by (simp add: to_lower_def)

lemma length_to_lower [simp]: "length (to_lower s) = length s"
  by (simp add: to_lower_def)

lemma mod10_cases: "nat (n mod 10) \<in> {0, 1, 2, 3, 4, 5, 6, 7, 8, 9}" for n :: int
proof -
  have "0 \<le> n mod 10" "n mod 10 < 10" by simp_all
  then have "n mod 10 = 0 \<or> n mod 10 = 1 \<or> n mod 10 = 2 \<or> n mod 10 = 3 \<or> n mod 10 = 4 \<or>
    n mod 10 = 5 \<or> n mod 10 = 6 \<or> n mod 10 = 7 \<or> n mod 10 = 8 \<or> n mod 10 = 9" by arith
  then show ?thesis by auto
qed

lemma is_digit_digit_char [simp]: "is_digit (digit_char n)"
  using mod10_cases [of n] by (auto simp: is_digit_def digit_char_def)

lemma digit_val_nth: "k < 10 \<Longrightarrow> digit_val (''0123456789'' ! k) = int k"
proof -
  assume "k < 10"
  then have "k \<in> {0, 1, 2, 3, 4, 5, 6, 7, 8, 9}" by auto
  then show ?thesis by (auto simp: digit_val_def)
qed

lemma digit_val_digit_char [simp]: "digit_val (digit_char n) = n mod 10"
  by (simp add: digit_char_def digit_val_nth nat_less_iff)

lemma digit_val_range: "0 \<le> digit_val c" "digit_val c < 10"
proof -
  have "index_byte ''0123456789'' c = Some k \<Longrightarrow> k < 10" for k
    by (auto split: if_splits)
  then show "0 \<le> digit_val c" "digit_val c < 10"
    by (auto simp: digit_val_def split: option.splits)
qed

lemma is_digit_not_space: "is_digit c \<Longrightarrow> \<not> is_space c"
  by (auto simp: is_digit_def is_space_def)

lemma digit_char_not_space [simp]: "\<not> is_space (digit_char n)"
  by (simp add: is_digit_not_space)

lemma digits_int_append: "digits_int (s @ [c]) = 10 * digits_int s + digit_val c"
  by (simp add: digits_int_def)

lemma digits_int_nat_str [simp]: "0 \<le> n \<Longrightarrow> digits_int (nat_str n) = n"
proof (induction n rule: nat_str.induct)
  case (1 n)
  show ?case
  proof (cases "n < 10")
    case True
    then show ?thesis using "1.prems" by (subst nat_str.simps) (simp add: digits_int_def)
  next
    case False
    then show ?thesis using 1 by (subst nat_str.simps) (simp add: digits_int_append)
  qed
qed

lemma nat_str_digits: "list_all is_digit (nat_str n)"
proof (induction n rule: nat_str.induct)
  case (1 n)
  then show ?case by (subst nat_str.simps) auto
qed

lemma nat_str_nonempty [simp]: "nat_str n \<noteq> []"
  by (subst nat_str.simps) simp

lemma nat_str_inj: "0 \<le> m \<Longrightarrow> 0 \<le> n \<Longrightarrow> nat_str m = nat_str n \<longleftrightarrow> m = n"
  by (metis digits_int_nat_str)

section \<open>Lists and association lists\<close>

text \<open>Go's sum over a slice field: \<open>for _, x := range xs { acc += f(x) }\<close>.\<close>

definition sum64 :: "('a \<Rightarrow> int64) \<Rightarrow> 'a list \<Rightarrow> int64" where
  "sum64 f xs = foldl (\<lambda>a x. a + f x) 0 xs"

lemma foldl_add_sum_list: "foldl (\<lambda>a x. a + f x) (a :: int64) xs = a + sum_list (map f xs)"
  by (induction xs arbitrary: a) (simp_all add: add.assoc)

lemma sum64_eq_sum_list: "sum64 f xs = sum_list (map f xs)"
  by (simp add: sum64_def foldl_add_sum_list)

lemma sum64_Nil [simp]: "sum64 f [] = 0"
  by (simp add: sum64_eq_sum_list)

lemma sum64_Cons [simp]: "sum64 f (x # xs) = f x + sum64 f xs"
  by (simp add: sum64_eq_sum_list)

lemma sum64_append [simp]: "sum64 f (xs @ ys) = sum64 f xs + sum64 f ys"
  by (simp add: sum64_eq_sum_list)

lemma sum64_map [simp]: "sum64 f (map g xs) = sum64 (\<lambda>x. f (g x)) xs"
  by (simp add: sum64_eq_sum_list comp_def)

lemma sum64_i64:
  "in_int64 (\<Sum>x\<leftarrow>xs. i64 (f x)) \<Longrightarrow> i64 (sum64 f xs) = (\<Sum>x\<leftarrow>xs. i64 (f x))"
  using i64_sum_list_bounded [of "map f xs"] by (simp add: sum64_eq_sum_list comp_def)

text \<open>
  Order-preserving removal of repeated elements, the \<open>seen\<close>-map idiom of the code: an element is
  kept the first time it is met.
\<close>

fun dedup_from :: "'a list \<Rightarrow> 'a list \<Rightarrow> 'a list" where
  "dedup_from seen [] = []"
| "dedup_from seen (x # xs) =
     (if x \<in> set seen then dedup_from seen xs else x # dedup_from (x # seen) xs)"

lemma set_dedup_from: "set (dedup_from seen xs) = set xs - set seen"
  by (induction seen xs rule: dedup_from.induct) auto

lemma distinct_dedup_from: "distinct (dedup_from seen xs)"
  by (induction seen xs rule: dedup_from.induct) (auto simp: set_dedup_from)

lemma dedup_from_id: "distinct xs \<Longrightarrow> set xs \<inter> set seen = {} \<Longrightarrow> dedup_from seen xs = xs"
  by (induction seen xs rule: dedup_from.induct) auto

text \<open>
  Stable sorting by a strict order, the effect of \<open>sort.SliceStable\<close> and of \<open>ORDER BY\<close>: equal elements
  keep their order.
\<close>

fun insert_by :: "('a \<Rightarrow> 'a \<Rightarrow> bool) \<Rightarrow> 'a \<Rightarrow> 'a list \<Rightarrow> 'a list" where
  "insert_by lt x [] = [x]"
| "insert_by lt x (y # ys) = (if lt x y then x # y # ys else y # insert_by lt x ys)"

definition sort_by :: "('a \<Rightarrow> 'a \<Rightarrow> bool) \<Rightarrow> 'a list \<Rightarrow> 'a list" where
  "sort_by lt xs = foldl (\<lambda>acc x. insert_by lt x acc) [] xs"

text \<open>A strict weak order: asymmetric, and incomparability is transitive.\<close>

definition strict_weak :: "('a \<Rightarrow> 'a \<Rightarrow> bool) \<Rightarrow> bool" where
  "strict_weak lt \<longleftrightarrow> (\<forall>a b. lt a b \<longrightarrow> \<not> lt b a) \<and> (\<forall>a b c. \<not> lt b a \<longrightarrow> \<not> lt c b \<longrightarrow> \<not> lt c a)"

lemma set_insert_by [simp]: "set (insert_by lt x ys) = insert x (set ys)"
  by (induction ys) auto

lemma foldl_insert_by_set: "set (foldl (\<lambda>acc x. insert_by lt x acc) acc xs) = set acc \<union> set xs"
  by (induction xs arbitrary: acc) auto

lemma set_sort_by [simp]: "set (sort_by lt xs) = set xs"
  by (simp add: sort_by_def foldl_insert_by_set)

lemma length_insert_by [simp]: "length (insert_by lt x ys) = Suc (length ys)"
  by (induction ys) auto

lemma foldl_insert_by_length: "length (foldl (\<lambda>acc x. insert_by lt x acc) acc xs) = length acc + length xs"
  by (induction xs arbitrary: acc) auto

lemma length_sort_by [simp]: "length (sort_by lt xs) = length xs"
  by (simp add: sort_by_def foldl_insert_by_length)

lemma distinct_insert_by: "distinct (insert_by lt x ys) \<longleftrightarrow> x \<notin> set ys \<and> distinct ys"
  by (induction ys) auto

lemma foldl_insert_by_distinct:
  "distinct (foldl (\<lambda>acc x. insert_by lt x acc) acc xs) \<longleftrightarrow> distinct acc \<and> distinct xs \<and> set acc \<inter> set xs = {}"
  by (induction xs arbitrary: acc) (auto simp: distinct_insert_by)

lemma distinct_sort_by [simp]: "distinct (sort_by lt xs) = distinct xs"
  by (simp add: sort_by_def foldl_insert_by_distinct)

lemma sorted_insert_by:
  assumes "strict_weak lt" "sorted_wrt (\<lambda>a b. \<not> lt b a) ys"
  shows "sorted_wrt (\<lambda>a b. \<not> lt b a) (insert_by lt x ys)"
  using assms(2)
proof (induction ys)
  case Nil
  then show ?case by simp
next
  case (Cons y ys)
  have tr: "\<not> lt b a \<Longrightarrow> \<not> lt c b \<Longrightarrow> \<not> lt c a" and as: "lt a b \<Longrightarrow> \<not> lt b a" for a b c
    using assms(1) unfolding strict_weak_def by blast+
  show ?case
  proof (cases "lt x y")
    case True
    then have "\<forall>z\<in>set (y # ys). \<not> lt z x" using Cons.prems as tr by (metis list.set_cases set_ConsD sorted_wrt.simps(2))
    then show ?thesis using True Cons.prems by simp
  next
    case False
    then show ?thesis using Cons by auto
  qed
qed

lemma sorted_sort_by: "strict_weak lt \<Longrightarrow> sorted_wrt (\<lambda>a b. \<not> lt b a) (sort_by lt xs)"
proof -
  assume h: "strict_weak lt"
  have "sorted_wrt (\<lambda>a b. \<not> lt b a) acc \<Longrightarrow>
      sorted_wrt (\<lambda>a b. \<not> lt b a) (foldl (\<lambda>acc x. insert_by lt x acc) acc xs)" for acc
    by (induction xs arbitrary: acc) (auto simp: sorted_insert_by h)
  then show ?thesis by (simp add: sort_by_def)
qed

section \<open>The order of strings\<close>

text \<open>Go compares strings byte by byte.\<close>

fun str_less :: "string \<Rightarrow> string \<Rightarrow> bool" where
  "str_less [] b = (b \<noteq> [])"
| "str_less (c # s) [] = False"
| "str_less (c # s) (d # t) = ((of_char c :: int) < of_char d \<or> (c = d \<and> str_less s t))"

lemma str_less_irrefl [simp]: "\<not> str_less s s"
  by (induction s) auto

lemma str_less_trans: "str_less a b \<Longrightarrow> str_less b c \<Longrightarrow> str_less a c"
proof (induction a b arbitrary: c rule: str_less.induct)
  case (1 b)
  then show ?case by (cases b; cases c) auto
next
  case (3 x s y t)
  then show ?case by (cases c) auto
qed simp

lemma str_less_total: "a = b \<or> str_less a b \<or> str_less b a"
proof (induction a b rule: str_less.induct)
  case (1 b)
  then show ?case by auto
next
  case (3 c s d t)
  then show ?case using inj_of_char [where 'a = int] by (auto simp: inj_def)
qed simp

end
