(* ===== verification/Go_Float.thy ===== *)
theory Go_Float
  imports Complex_Main Go_Base
begin

text \<open>
  Go's \<open>float64\<close> as the program uses it: finite values are rationals, every operation is the exact
  rational operation followed by \<open>fl64\<close>, which rounds to the nearest IEEE binary64 value, ties to
  even, with gradual underflow.  \<open>flog2\<close> finds the binary exponent, so the rounding is executable.
  \<open>math_round\<close> is \<open>math.Round\<close> and \<open>float_to_int64\<close> the conversion \<open>int64(f)\<close>, which on
  amd64 yields the most negative integer for every value out of range, infinities and NaN included.

  The main fact is the relative error bound \<open>fl64_relative\<close>; \<open>cents_exact\<close> draws from it that a
  decimal amount of cents survives the float computation \<open>math.Round(value * 100)\<close>.
\<close>

section \<open>Rounding to binary64\<close>

definition pow2 :: "int \<Rightarrow> rat" where
  "pow2 e = (if 0 \<le> e then 2 ^ nat e else 1 / 2 ^ nat (- e))"

function bits :: "int \<Rightarrow> int" where
  "bits n = (if n \<le> 0 then 0 else 1 + bits (n div 2))"
  by pat_completeness auto
termination
  by (relation "measure nat") auto

declare bits.simps [simp del]

definition flog2 :: "rat \<Rightarrow> int" where
  "flog2 q = (case quotient_of q of (n, d) \<Rightarrow>
     let k = bits n - bits d in if pow2 k \<le> q then k else k - 1)"

definition round_half_even :: "rat \<Rightarrow> int" where
  "round_half_even q =
     (let f = \<lfloor>q\<rfloor>; r = q - of_int f
      in if r < 1 / 2 then f else if 1 / 2 < r then f + 1 else if even f then f else f + 1)"

definition ulp_exp :: "rat \<Rightarrow> int" where
  "ulp_exp q = max (flog2 \<bar>q\<bar> - 52) (- 1074)"

definition fl64 :: "rat \<Rightarrow> rat" where
  "fl64 q = (if q = 0 then 0
     else sgn q * of_int (round_half_even (\<bar>q\<bar> / pow2 (ulp_exp q))) * pow2 (ulp_exp q))"

subsection \<open>Error bounds\<close>

lemma pow2_pos [simp]: "0 < pow2 e"
  by (simp add: pow2_def)

lemma pow2_nonzero [simp]: "pow2 e \<noteq> 0"
  using pow2_pos [of e] by linarith

lemma abs_pow2 [simp]: "\<bar>pow2 e\<bar> = pow2 e"
  using pow2_pos [of e] by linarith

lemma pow2_powi: "pow2 e = 2 powi e"
  by (simp add: pow2_def power_int_def inverse_eq_divide power_one_over)

lemma pow2_add: "pow2 (a + b) = pow2 a * pow2 b"
  by (simp add: pow2_powi power_int_add)

lemma pow2_mono: "a \<le> b \<Longrightarrow> pow2 a \<le> pow2 b"
  by (simp add: pow2_powi power_int_increasing)

lemma pow2_of_nat: "pow2 (int n) = 2 ^ n"
  by (simp add: pow2_def)

lemma pow2_Suc: "pow2 (1 + e) = 2 * pow2 e"
  by (simp add: pow2_add pow2_def [of 1])

lemma bits_bounds: "0 < n \<Longrightarrow> 2 ^ nat (bits n - 1) \<le> n \<and> n < 2 ^ nat (bits n) \<and> 0 < bits n"
proof (induction n rule: bits.induct)
  case (1 n)
  show ?case
  proof (cases "n div 2 = 0")
    case True
    then have "n = 1" using "1.prems" by presburger
    then show ?thesis by (simp add: bits.simps)
  next
    case False
    then have pos: "0 < n div 2" using "1.prems" by presburger
    have ih: "2 ^ nat (bits (n div 2) - 1) \<le> n div 2 \<and> n div 2 < 2 ^ nat (bits (n div 2)) \<and>
        0 < bits (n div 2)"
      by (rule "1.IH") (use "1.prems" pos in auto)
    then obtain k where k: "bits (n div 2) = 1 + int k"
      by (metis add.commute zless_iff_Suc_zadd add_0 of_nat_Suc)
    have b: "bits n = 2 + int k"
      using "1.prems" k by (subst bits.simps) simp
    have "2 ^ k \<le> n div 2" "n div 2 < 2 * 2 ^ k" using ih k by (simp_all add: nat_add_distrib)
    then have "2 * 2 ^ k \<le> n" "n < 2 * (2 * 2 ^ k)" by presburger+
    then show ?thesis by (simp add: b nat_add_distrib)
  qed
qed

lemma bits_pow2: "0 < n \<Longrightarrow> pow2 (bits n - 1) \<le> of_int n \<and> of_int n < pow2 (bits n)"
proof -
  assume n: "0 < n"
  have b: "2 ^ nat (bits n - 1) \<le> n" "n < 2 ^ nat (bits n)" "0 < bits n"
    using bits_bounds [OF n] by simp_all
  have "of_int (2 ^ nat (bits n - 1)) \<le> (of_int n :: rat)" using b(1) by (simp only: of_int_le_iff)
  moreover have "of_int n < (of_int (2 ^ nat (bits n)) :: rat)" using b(2) by (simp only: of_int_less_iff)
  ultimately show ?thesis using b(3) by (simp add: pow2_def)
qed

lemma flog2_bounds:
  assumes "0 < q"
  shows "pow2 (flog2 q) \<le> q \<and> q < 2 * pow2 (flog2 q)"
proof -
  obtain n d where nd: "quotient_of q = (n, d)" by (cases "quotient_of q")
  have d: "0 < d" using nd quotient_of_denom_pos by blast
  have q: "q = of_int n / of_int d" using nd quotient_of_div by blast
  have n: "0 < n" using assms q d by (simp add: zero_less_divide_iff)
  let ?a = "bits n" and ?b = "bits d"
  have A': "pow2 (?a - 1) \<le> of_int n" "of_int n < pow2 ?a" using bits_pow2 [OF n] by auto
  have B': "pow2 (?b - 1) \<le> of_int d" "of_int d < pow2 ?b" using bits_pow2 [OF d] by auto
  let ?k = "?a - ?b"
  have d': "0 < (of_int d :: rat)" using d by simp
  have up: "q < 2 * pow2 ?k"
  proof -
    have e: "pow2 (?a) = 2 * pow2 ?k * pow2 (?b - 1)"
    proof -
      have "?a = 1 + (?k + (?b - 1))" by simp
      then have "pow2 ?a = 2 * pow2 (?k + (?b - 1))" by (metis pow2_Suc)
      then show ?thesis by (simp only: pow2_add mult.assoc)
    qed
    have "of_int n < 2 * pow2 ?k * pow2 (?b - 1)" using A'(2) e by simp
    also have "\<dots> \<le> 2 * pow2 ?k * of_int d"
      using B'(1) by (simp add: mult_left_mono less_imp_le)
    finally show ?thesis using d' by (simp add: q divide_less_eq)
  qed
  have low: "pow2 (?k - 1) \<le> q"
  proof -
    have e: "pow2 (?a - 1) = pow2 (?k - 1) * pow2 (?b)"
      by (simp add: pow2_add [symmetric])
    have "pow2 (?k - 1) * of_int d \<le> pow2 (?k - 1) * pow2 (?b)"
      using B'(2) by (simp add: mult_left_mono less_imp_le)
    also have "\<dots> \<le> of_int n" using A'(1) e by simp
    finally show ?thesis using d' by (simp add: q le_divide_eq)
  qed
  have half: "pow2 ?k = 2 * pow2 (?k - 1)" using pow2_Suc [of "?k - 1"] by simp
  show ?thesis
    using up low half nd by (auto simp: flog2_def Let_def)
qed

lemma round_half_even_error: "\<bar>of_int (round_half_even q) - q\<bar> \<le> 1 / 2"
proof -
  obtain f where f: "\<lfloor>q\<rfloor> = f" by simp
  then have "of_int f \<le> q" "q < of_int f + 1" by linarith+
  then show ?thesis unfolding round_half_even_def Let_def f by (auto simp: abs_if)
qed

lemma fl64_zero [simp]: "fl64 0 = 0"
  by (simp add: fl64_def)

lemma fl64_error: "\<bar>fl64 q - q\<bar> \<le> pow2 (ulp_exp q) / 2"
proof (cases "q = 0")
  case True
  then show ?thesis by (simp add: less_imp_le)
next
  case False
  let ?u = "pow2 (ulp_exp q)"
  let ?r = "of_int (round_half_even (\<bar>q\<bar> / ?u)) :: rat"
  have s: "\<bar>sgn q\<bar> = 1" "q = sgn q * \<bar>q\<bar>" using False by (simp_all add: sgn_if)
  have "fl64 q - q = sgn q * (?r * ?u - \<bar>q\<bar>)"
    using False s(2) by (simp add: fl64_def algebra_simps)
  then have "\<bar>fl64 q - q\<bar> = \<bar>?r * ?u - \<bar>q\<bar>\<bar>" using s(1) by (simp add: abs_mult)
  also have "?r * ?u - \<bar>q\<bar> = (?r - \<bar>q\<bar> / ?u) * ?u" by (simp add: field_simps)
  also have "\<bar>\<dots>\<bar> = \<bar>?r - \<bar>q\<bar> / ?u\<bar> * ?u" by (simp add: abs_mult)
  also have "\<dots> \<le> 1 / 2 * ?u"
    by (rule mult_right_mono [OF round_half_even_error]) (simp add: less_imp_le)
  finally show ?thesis by simp
qed

text \<open>In the normal range the relative error is at most \<open>2 ^ -53\<close>.\<close>

lemma fl64_relative:
  assumes "pow2 (- 1022) \<le> \<bar>q\<bar>"
  shows "\<bar>fl64 q - q\<bar> \<le> \<bar>q\<bar> / 2 ^ 53"
proof -
  have pos: "0 < \<bar>q\<bar>" using assms pow2_pos [of "- 1022"] by linarith
  let ?e = "flog2 \<bar>q\<bar>"
  have b: "pow2 ?e \<le> \<bar>q\<bar>" "\<bar>q\<bar> < 2 * pow2 ?e" using flog2_bounds [OF pos] by auto
  have "- 1022 \<le> ?e"
  proof (rule ccontr)
    assume "\<not> - 1022 \<le> ?e"
    then have "1 + ?e \<le> - 1022" by simp
    then have "pow2 (1 + ?e) \<le> pow2 (- 1022)" by (rule pow2_mono)
    then have "2 * pow2 ?e \<le> pow2 (- 1022)" by (simp add: pow2_add pow2_def [of 1])
    then show False using b(2) assms by linarith
  qed
  then have u: "ulp_exp q = ?e - 52" by (simp add: ulp_exp_def)
  have "pow2 (?e - 52) * 2 ^ 52 = pow2 ?e"
    using pow2_add [of "?e - 52" 52] by (simp add: pow2_def [of 52])
  then have "pow2 (ulp_exp q) / 2 = pow2 ?e / 2 ^ 53" unfolding u by (simp add: field_simps)
  also have "\<dots> \<le> \<bar>q\<bar> / 2 ^ 53" using b(1) by (simp add: divide_right_mono)
  finally show ?thesis using fl64_error [of q] by linarith
qed

text \<open>Rounding does not leave the unit interval.\<close>

lemma round_half_even_le: "q \<le> of_int n \<Longrightarrow> round_half_even q \<le> n"
proof -
  assume a: "q \<le> of_int n"
  have e: "\<bar>of_int (round_half_even q) - q\<bar> \<le> 1 / 2" by (rule round_half_even_error)
  show ?thesis
  proof (rule ccontr)
    assume "\<not> round_half_even q \<le> n"
    then have "of_int (n + 1) \<le> (of_int (round_half_even q) :: rat)" by (simp only: of_int_le_iff)
    then have "of_int n + 1 / 2 < (of_int (round_half_even q) :: rat)" by simp
    then show False using e a by (simp add: abs_if split: if_splits)
  qed
qed

lemma round_half_even_nonneg: "0 \<le> q \<Longrightarrow> 0 \<le> round_half_even q"
  by (simp add: round_half_even_def Let_def)

lemma fl64_nonneg: "0 \<le> q \<Longrightarrow> 0 \<le> fl64 q"
proof -
  assume q: "0 \<le> q"
  have "0 \<le> round_half_even (\<bar>q\<bar> / pow2 (ulp_exp q))"
    by (rule round_half_even_nonneg) (simp add: less_imp_le)
  then show ?thesis using q by (simp add: fl64_def less_imp_le)
qed

lemma fl64_le_one:
  assumes "0 \<le> q" "q \<le> 1"
  shows "fl64 q \<le> 1"
proof (cases "q = 0 \<or> q = 1")
  case True
  have "fl64 1 = 1" by code_simp
  then show ?thesis using True by auto
next
  case False
  then have q: "0 < q" "q < 1" using assms by auto
  have "pow2 (flog2 q) < pow2 0" using flog2_bounds [OF q(1)] q(2) by (simp add: pow2_def [of 0])
  then have "flog2 q < 0" using pow2_mono [of 0 "flog2 q"] by (auto simp: not_le [symmetric])
  then have u: "ulp_exp q \<le> - 53" using q by (simp add: ulp_exp_def)
  define n where "n = nat (- ulp_exp q)"
  have pn: "pow2 (ulp_exp q) = 1 / 2 ^ n" using u by (simp add: pow2_def n_def)
  have "round_half_even (q / pow2 (ulp_exp q)) \<le> 2 ^ n"
    by (rule round_half_even_le) (use q pn in simp)
  then have "of_int (round_half_even (q / pow2 (ulp_exp q))) \<le> (of_int (2 ^ n) :: rat)"
    by (simp only: of_int_le_iff)
  then show ?thesis using q pn by (simp add: fl64_def)
qed

section \<open>Rounding to integers and conversion\<close>

definition math_round :: "rat \<Rightarrow> int" where
  "math_round q = (if 0 \<le> q then \<lfloor>q + 1 / 2\<rfloor> else - \<lfloor>- q + 1 / 2\<rfloor>)"

lemma math_round_near: "\<bar>q - of_int n\<bar> < 1 / 2 \<Longrightarrow> math_round q = n"
proof -
  assume a: "\<bar>q - of_int n\<bar> < 1 / 2"
  show ?thesis
  proof (cases "0 \<le> q")
    case True
    have "\<lfloor>q + 1 / 2\<rfloor> = n" by (rule floor_unique) (use a in \<open>linarith+\<close>)
    then show ?thesis using True by (simp add: math_round_def)
  next
    case False
    have "\<lfloor>- q + 1 / 2\<rfloor> = - n" by (rule floor_unique) (use a in \<open>simp_all add: abs_if split: if_splits\<close>)
    then show ?thesis using False by (simp add: math_round_def)
  qed
qed

datatype fval = Fin rat | NonFin

definition float_to_int64 :: "rat \<Rightarrow> int64" where
  "float_to_int64 q =
     (let t = (if 0 \<le> q then \<lfloor>q\<rfloor> else - \<lfloor>- q\<rfloor>)
      in if - (2 ^ 63) \<le> t \<and> t < 2 ^ 63 then word_of_int t else word_of_int (- (2 ^ 63)))"

lemma float_to_int64_of_int: "in_int64 n \<Longrightarrow> float_to_int64 (of_int n) = word_of_int n"
  by (simp add: float_to_int64_def in_int64_def Let_def)

text \<open>
  Two roundings of relative error \<open>2 ^ -53\<close> move an integral number of cents by less than a half, so
  \<open>math.Round(value * 100)\<close> is exact up to \<open>2 ^ 50\<close> cents, some eleven trillion dollars.
\<close>

lemma cents_exact:
  assumes "\<bar>n\<bar> \<le> 2 ^ 50"
  shows "math_round (fl64 (fl64 (of_int n / 100) * 100)) = n"
proof (cases "n = 0")
  case True
  then show ?thesis using math_round_near [of 0 0] by simp
next
  case False
  let ?q = "of_int n / 100 :: rat" and ?N = "\<bar>of_int n\<bar> :: rat"
  have N: "1 \<le> ?N" "?N \<le> 2 ^ 50"
  proof -
    have "1 \<le> \<bar>n\<bar>" using False by simp
    then have "of_int 1 \<le> (of_int \<bar>n\<bar> :: rat)" by (simp only: of_int_le_iff)
    then show "1 \<le> ?N" by simp
    have "of_int \<bar>n\<bar> \<le> (of_int (2 ^ 50) :: rat)" using assms by (simp only: of_int_le_iff)
    then show "?N \<le> 2 ^ 50" by simp
  qed
  have small: "pow2 (- 1022) \<le> 1 / 2 ^ 10"
  proof -
    have "pow2 (- 1022) \<le> pow2 (- 10)" by (rule pow2_mono) simp
    then show ?thesis by (simp add: pow2_def)
  qed
  have q1: "\<bar>fl64 ?q - ?q\<bar> \<le> ?N / 100 / 2 ^ 53"
  proof -
    have "1 / 2 ^ 10 \<le> \<bar>?q\<bar>" using N(1) by simp
    then show ?thesis using fl64_relative [of ?q] small by simp
  qed
  let ?p = "fl64 ?q * 100"
  have p: "\<bar>?p - of_int n\<bar> \<le> ?N / 2 ^ 53"
  proof -
    have "?p - of_int n = (fl64 ?q - ?q) * 100" by (simp add: algebra_simps)
    then have "\<bar>?p - of_int n\<bar> = \<bar>fl64 ?q - ?q\<bar> * 100" by (simp only: abs_mult abs_numeral)
    then show ?thesis using q1 by simp
  qed
  have pN: "\<bar>?p\<bar> \<le> 2 * ?N" "?N / 2 \<le> \<bar>?p\<bar>"
  proof -
    have "?N / 2 ^ 53 \<le> ?N / 2" using N(1) by simp
    then show "\<bar>?p\<bar> \<le> 2 * ?N" "?N / 2 \<le> \<bar>?p\<bar>" using p by (simp_all add: abs_if split: if_splits)
  qed
  have "\<bar>fl64 ?p - ?p\<bar> \<le> \<bar>?p\<bar> / 2 ^ 53"
  proof (rule fl64_relative)
    have "1 / 2 ^ 10 \<le> \<bar>?p\<bar>" using pN(2) N(1) by simp
    then show "pow2 (- 1022) \<le> \<bar>?p\<bar>" using small by linarith
  qed
  then have "\<bar>fl64 ?p - ?p\<bar> \<le> 2 * ?N / 2 ^ 53" using pN(1) by simp
  then have "\<bar>fl64 ?p - of_int n\<bar> \<le> 3 * ?N / 2 ^ 53" using p by (simp add: abs_if split: if_splits)
  also have "\<dots> \<le> 3 * 2 ^ 50 / 2 ^ 53" using N(2) by simp
  finally have "\<bar>fl64 ?p - of_int n\<bar> < 1 / 2" by simp
  then show ?thesis by (rule math_round_near)
qed

section \<open>Printing\<close>

text \<open>\<open>fmt\<close>'s verb \<open>%.2f\<close>: the exact binary value, correctly rounded to two decimals.\<close>

definition fmt_f2 :: "rat \<Rightarrow> string" where
  "fmt_f2 q =
     (let n = round_half_even (\<bar>q\<bar> * 100)
      in (if q < 0 then ''-'' else []) @ nat_str (n div 100) @ ''.'' @
         [digit_char (n mod 100 div 10), digit_char n])"

lemma fl64_uminus: "fl64 (- q) = - fl64 q"
  by (simp add: fl64_def ulp_exp_def sgn_minus)

end
