(* ===== verification/Go_Time.thy ===== *)
theory Go_Time
  imports Go_Base
begin

text \<open>
  The part of Go's package \<open>time\<close> that the program uses: calendar dates, \<open>time.Parse\<close> and
  \<open>Time.Format\<close>.  A layout is the list of chunks Go splits it into (\<open>Lit\<close> for literal text, one
  constructor per recognised element), \<open>parse_layout\<close> consumes the value chunk by chunk as Go's loop
  does, and the day is checked against the month last.  \<open>parse_iso_exact\<close> and \<open>parse_iso_format\<close> show
  that layout \<open>2006-01-02\<close> reads exactly the strings it prints.
\<close>

record date =
  d_year :: int
  d_month :: int
  d_day :: int

definition is_leap :: "int \<Rightarrow> bool" where
  "is_leap y \<longleftrightarrow> y mod 4 = 0 \<and> (y mod 100 \<noteq> 0 \<or> y mod 400 = 0)"

definition days_in :: "int \<Rightarrow> int \<Rightarrow> int" where
  "days_in m y = (if m = 2 then (if is_leap y then 29 else 28)
                  else if m \<in> set [4, 6, 9, 11] then 30 else 31)"

definition valid_date :: "date \<Rightarrow> bool" where
  "valid_date d \<longleftrightarrow> 1 \<le> d_month d \<and> d_month d \<le> 12 \<and> 1 \<le> d_day d \<and> d_day d \<le> days_in (d_month d) (d_year d)"

text \<open>Chronological order on dates (\<open>Before\<close>, \<open>After\<close> negate it).\<close>

definition date_le :: "date \<Rightarrow> date \<Rightarrow> bool" where
  "date_le a b \<longleftrightarrow> d_year a < d_year b \<or> d_year a = d_year b \<and>
     (d_month a < d_month b \<or> d_month a = d_month b \<and> d_day a \<le> d_day b)"

lemma date_le_refl [simp]: "date_le d d"
  by (simp add: date_le_def)

lemma date_le_trans: "date_le a b \<Longrightarrow> date_le b c \<Longrightarrow> date_le a c"
  by (auto simp: date_le_def)

lemma date_le_antisym: "date_le a b \<Longrightarrow> date_le b a \<Longrightarrow> a = b"
  by (auto simp: date_le_def)

lemma date_le_total: "date_le a b \<or> date_le b a"
  by (auto simp: date_le_def)

section \<open>Layouts\<close>

datatype chunk = Lit string | LongYear | ShortYear | ZeroMonth | NumMonth | MonthName | LongMonthName
  | ZeroDay | Day

text \<open>Literal text of a layout; a space of the layout matches any number of spaces of the value.\<close>

function skip_lit :: "string \<Rightarrow> string \<Rightarrow> string option" where
  "skip_lit v [] = Some v"
| "skip_lit v (c # p) =
     (if c = CHR '' '' then
        (if v \<noteq> [] \<and> hd v \<noteq> CHR '' '' then None
         else skip_lit (dropWhile (\<lambda>x. x = CHR '' '') v) (dropWhile (\<lambda>x. x = CHR '' '') p))
      else case v of [] \<Rightarrow> None | x # v' \<Rightarrow> if x = c then skip_lit v' p else None)"
  by pat_completeness auto
termination
  by (relation "measure (\<lambda>(v, p). length p)") (auto intro: le_imp_less_Suc length_dropWhile_le)

declare skip_lit.simps [simp del]

text \<open>\<open>getnum\<close>: one or two digits, exactly two when fixed.\<close>

definition getnum :: "string \<Rightarrow> bool \<Rightarrow> (int \<times> string) option" where
  "getnum s fixed = (case s of
     [] \<Rightarrow> None
   | a # r \<Rightarrow> if \<not> is_digit a then None
       else case r of
         [] \<Rightarrow> if fixed then None else Some (digit_val a, r)
       | b # r' \<Rightarrow> if \<not> is_digit b then (if fixed then None else Some (digit_val a, r))
                   else Some (10 * digit_val a + digit_val b, r'))"

text \<open>\<open>atoi\<close> of package \<open>time\<close>: an optional sign, then digits to the end.\<close>

definition time_atoi :: "string \<Rightarrow> int option" where
  "time_atoi s =
     (let (neg, ds) = (case s of [] \<Rightarrow> (False, [])
                       | c # t \<Rightarrow> if c = CHR ''-'' then (True, t)
                                  else if c = CHR ''+'' then (False, t) else (False, s))
      in if list_all is_digit ds then Some (if neg then - digits_int ds else digits_int ds) else None)"

definition short_months :: "string list" where
  "short_months = [''Jan'', ''Feb'', ''Mar'', ''Apr'', ''May'', ''Jun'', ''Jul'', ''Aug'', ''Sep'',
     ''Oct'', ''Nov'', ''Dec'']"

definition long_months :: "string list" where
  "long_months = [''January'', ''February'', ''March'', ''April'', ''May'', ''June'', ''July'',
     ''August'', ''September'', ''October'', ''November'', ''December'']"

fun lookup_name :: "int \<Rightarrow> string list \<Rightarrow> string \<Rightarrow> (int \<times> string) option" where
  "lookup_name i [] v = None"
| "lookup_name i (n # ns) v =
     (if length n \<le> length v \<and> to_lower (take (length n) v) = to_lower n
      then Some (i, drop (length n) v) else lookup_name (i + 1) ns v)"

text \<open>One chunk: the date read so far and the rest of the value.\<close>

fun parse_chunk :: "chunk \<Rightarrow> date \<Rightarrow> string \<Rightarrow> (date \<times> string) option" where
  "parse_chunk (Lit p) d v = map_option (Pair d) (skip_lit v p)"
| "parse_chunk LongYear d v =
     (if length v < 4 \<or> \<not> is_digit (hd v) then None
      else map_option (\<lambda>y. (d\<lparr>d_year := y\<rparr>, drop 4 v)) (time_atoi (take 4 v)))"
| "parse_chunk ShortYear d v =
     (if length v < 2 then None
      else map_option (\<lambda>y. (d\<lparr>d_year := (if 69 \<le> y then y + 1900 else y + 2000)\<rparr>, drop 2 v))
             (time_atoi (take 2 v)))"
| "parse_chunk ZeroMonth d v =
     (case getnum v True of None \<Rightarrow> None
      | Some (m, r) \<Rightarrow> if m \<le> 0 \<or> 12 < m then None else Some (d\<lparr>d_month := m\<rparr>, r))"
| "parse_chunk NumMonth d v =
     (case getnum v False of None \<Rightarrow> None
      | Some (m, r) \<Rightarrow> if m \<le> 0 \<or> 12 < m then None else Some (d\<lparr>d_month := m\<rparr>, r))"
| "parse_chunk MonthName d v =
     map_option (\<lambda>(m, r). (d\<lparr>d_month := m\<rparr>, r)) (lookup_name 1 short_months v)"
| "parse_chunk LongMonthName d v =
     map_option (\<lambda>(m, r). (d\<lparr>d_month := m\<rparr>, r)) (lookup_name 1 long_months v)"
| "parse_chunk ZeroDay d v = map_option (\<lambda>(n, r). (d\<lparr>d_day := n\<rparr>, r)) (getnum v True)"
| "parse_chunk Day d v = map_option (\<lambda>(n, r). (d\<lparr>d_day := n\<rparr>, r)) (getnum v False)"

fun parse_chunks :: "chunk list \<Rightarrow> date \<Rightarrow> string \<Rightarrow> date option" where
  "parse_chunks [] d v = (if v = [] then Some d else None)"
| "parse_chunks (c # cs) d v =
     (case parse_chunk c d v of None \<Rightarrow> None | Some (d', v') \<Rightarrow> parse_chunks cs d' v')"

definition parse_layout :: "chunk list \<Rightarrow> string \<Rightarrow> date option" where
  "parse_layout cs v =
     (case parse_chunks cs \<lparr>d_year = 0, d_month = 1, d_day = 1\<rparr> v of
        None \<Rightarrow> None
      | Some d \<Rightarrow> if d_day d < 1 \<or> days_in (d_month d) (d_year d) < d_day d then None else Some d)"

text \<open>The layout \<open>2006-01-02\<close>, for reading and for printing.\<close>

definition iso_layout :: "chunk list" where
  "iso_layout = [LongYear, Lit ''-'', ZeroMonth, Lit ''-'', ZeroDay]"

definition parse_iso :: "string \<Rightarrow> date option" where
  "parse_iso v = parse_layout iso_layout v"

definition pad_left :: "nat \<Rightarrow> string \<Rightarrow> string" where
  "pad_left n s = replicate (n - length s) CHR ''0'' @ s"

definition format_iso :: "date \<Rightarrow> string" where
  "format_iso d =
     (if d_year d < 0 then ''-'' else []) @ pad_left 4 (nat_str \<bar>d_year d\<bar>) @ ''-'' @
     pad_left 2 (nat_str (d_month d)) @ ''-'' @ pad_left 2 (nat_str (d_day d))"

section \<open>Reading and printing agree\<close>

lemma getnum_True_iff:
  "getnum s True = Some (n, r) \<longleftrightarrow>
     (\<exists>a b. s = a # b # r \<and> is_digit a \<and> is_digit b \<and> n = 10 * digit_val a + digit_val b)"
  by (auto simp: getnum_def split: list.splits if_splits)

lemma digit_cases: "is_digit c \<Longrightarrow> \<exists>k. 0 \<le> k \<and> k < 10 \<and> c = digit_char k \<and> digit_val c = k"
proof -
  assume "is_digit c"
  then obtain k where "k < length ''0123456789''" "''0123456789'' ! k = c"
    unfolding is_digit_def in_set_conv_nth by blast
  then have k: "k < 10" "c = ''0123456789'' ! k" by simp_all
  then have "c = digit_char (int k)" by (simp add: digit_char_def)
  then show ?thesis using k by (intro exI [of _ "int k"]) simp
qed

lemma nat_str_small: "n < 10 \<Longrightarrow> nat_str n = [digit_char n]"
  by (subst nat_str.simps) simp

lemma digit_char_0 [simp]: "digit_char 0 = CHR ''0''"
  by (simp add: digit_char_def)

lemma pad2: "0 \<le> a \<Longrightarrow> a < 10 \<Longrightarrow> 0 \<le> b \<Longrightarrow> b < 10 \<Longrightarrow>
  pad_left 2 (nat_str (10 * a + b)) = [digit_char a, digit_char b]"
proof -
  assume ab: "0 \<le> a" "a < 10" "0 \<le> b" "b < 10"
  show ?thesis
  proof (cases "a = 0")
    case True
    then show ?thesis using ab
      by (simp add: pad_left_def nat_str_small numeral_2_eq_2)
  next
    case False
    then have "(10 * a + b) div 10 = a" "\<not> 10 * a + b < 10" using ab by simp_all
    then show ?thesis using ab False
      by (simp add: pad_left_def nat_str.simps [of "10 * a + b"] nat_str_small digit_char_def)
  qed
qed

lemma nat_str_snoc: "0 < a \<Longrightarrow> 0 \<le> b \<Longrightarrow> b < 10 \<Longrightarrow> nat_str (10 * a + b) = nat_str a @ [digit_char b]"
  by (subst nat_str.simps) (simp add: digit_char_def)

lemma length_nat_str: "0 \<le> n \<Longrightarrow> n < 10 ^ k \<Longrightarrow> 0 < k \<Longrightarrow> length (nat_str n) \<le> k"
proof (induction n arbitrary: k rule: nat_str.induct)
  case (1 n)
  show ?case
  proof (cases "n < 10")
    case True
    then show ?thesis using "1.prems" by (subst nat_str.simps) simp
  next
    case False
    then obtain j where j: "k = Suc j" "0 < j"
      using "1.prems" by (cases k; cases "k - 1") auto
    have "n div 10 < 10 ^ j" using "1.prems" j by (simp add: int_div_less_self div_less_iff_less_mult)
    then have "length (nat_str (n div 10)) \<le> j" using "1.IH" [OF False] "1.prems" j by simp
    then show ?thesis using False j by (subst nat_str.simps) simp
  qed
qed

lemma pad_snoc:
  assumes "0 \<le> a" "0 \<le> b" "b < 10" "0 < n" "a < 10 ^ n"
  shows "pad_left (Suc n) (nat_str (10 * a + b)) = pad_left n (nat_str a) @ [digit_char b]"
proof (cases "a = 0")
  case True
  obtain m where "n = Suc m" using assms(4) by (cases n) simp_all
  then show ?thesis using True assms(2,3)
    by (simp add: pad_left_def nat_str_small replicate_app_Cons_same)
next
  case False
  then show ?thesis using assms length_nat_str [of a n]
    by (simp add: pad_left_def nat_str_snoc Suc_diff_le)
qed

lemma pad4:
  assumes "0 \<le> a" "a < 10" "0 \<le> b" "b < 10" "0 \<le> c" "c < 10" "0 \<le> d" "d < 10"
  shows "pad_left 4 (nat_str (10 * (10 * (10 * a + b) + c) + d)) =
    [digit_char a, digit_char b, digit_char c, digit_char d]"
proof -
  have "pad_left (Suc 3) (nat_str (10 * (10 * (10 * a + b) + c) + d)) =
      pad_left 3 (nat_str (10 * (10 * a + b) + c)) @ [digit_char d]"
    using assms by (intro pad_snoc) simp_all
  moreover have "pad_left (Suc 2) (nat_str (10 * (10 * a + b) + c)) =
      pad_left 2 (nat_str (10 * a + b)) @ [digit_char c]"
    using assms by (intro pad_snoc) simp_all
  moreover have "Suc 3 = 4" "Suc 2 = 3" by simp_all
  ultimately show ?thesis using pad2 assms by (simp only: append.simps)
qed

lemma skip_minus: "skip_lit v ''-'' = Some r \<longleftrightarrow> v = CHR ''-'' # r"
  by (cases v) (auto simp: skip_lit.simps)

lemma digits4_exist:
  assumes "0 \<le> y" "y \<le> (9999 :: int)"
  obtains a b c e where "0 \<le> a" "a < 10" "0 \<le> b" "b < 10" "0 \<le> c" "c < 10" "0 \<le> e" "e < 10"
    "y = 10 * (10 * (10 * a + b) + c) + e"
proof
  let ?y1 = "y div 10" let ?y2 = "?y1 div 10" let ?y3 = "?y2 div 10"
  have y1: "0 \<le> ?y1" "?y1 \<le> 999" using assms by arith+
  then have y2: "0 \<le> ?y2" "?y2 \<le> 99" by arith+
  then show "0 \<le> ?y3" "?y3 < 10" by arith+
  show "0 \<le> ?y2 mod 10" "?y2 mod 10 < 10" "0 \<le> ?y1 mod 10" "?y1 mod 10 < 10"
    "0 \<le> y mod 10" "y mod 10 < 10" by simp_all
  show "y = 10 * (10 * (10 * ?y3 + ?y2 mod 10) + ?y1 mod 10) + y mod 10"
    by (simp only: mult_div_mod_eq)
qed

lemma time_atoi_digits: "list_all is_digit s \<Longrightarrow> s \<noteq> [] \<Longrightarrow> time_atoi s = Some (digits_int s)"
  by (cases s) (auto simp: time_atoi_def is_digit_def)

lemma time_atoi_digit_head:
  "is_digit c \<Longrightarrow> time_atoi (c # s) = Some y \<longleftrightarrow> list_all is_digit s \<and> y = digits_int (c # s)"
  by (auto simp: time_atoi_def is_digit_def)

lemma digits_int4:
  "digits_int [a, b, c, d] =
     10 * (10 * (10 * digit_val a + digit_val b) + digit_val c) + digit_val d"
  by (simp add: digits_int_def)

lemma parse_iso_inv:
  assumes "parse_iso s = Some d"
  shows "valid_date d \<and> 0 \<le> d_year d \<and> d_year d \<le> 9999 \<and> format_iso d = s"
proof -
  from assms obtain y m n where d: "d = \<lparr>d_year = y, d_month = m, d_day = n\<rparr>" by (cases d)
  from assms obtain r1 r2 where
    y: "\<not> length s < 4" "is_digit (hd s)" "time_atoi (take 4 s) = Some y" "drop 4 s = CHR ''-'' # r1"
    and m: "getnum r1 True = Some (m, CHR ''-'' # r2)" "1 \<le> m" "m \<le> 12"
    and n: "getnum r2 True = Some (n, [])" "1 \<le> n" "n \<le> days_in m y"
    unfolding d
    by (auto simp: parse_iso_def parse_layout_def iso_layout_def skip_minus not_le
        split: option.splits if_splits prod.splits)
  obtain a b c e t where s: "s = a # b # c # e # t"
    using y(1) by (cases s; cases "tl s"; cases "tl (tl s)"; cases "tl (tl (tl s))") auto
  have dig: "is_digit a" "is_digit b" "is_digit c" "is_digit e" and yv: "y = digits_int [a, b, c, e]"
    using y s by (auto simp: time_atoi_digit_head)
  from digit_cases [OF dig(1)] digit_cases [OF dig(2)] digit_cases [OF dig(3)] digit_cases [OF dig(4)]
  obtain ka kb kc ke where k: "0 \<le> ka" "ka < 10" "a = digit_char ka" "0 \<le> kb" "kb < 10" "b = digit_char kb"
    "0 \<le> kc" "kc < 10" "c = digit_char kc" "0 \<le> ke" "ke < 10" "e = digit_char ke" by metis
  have yk: "y = 10 * (10 * (10 * ka + kb) + kc) + ke" using k by (simp add: yv digits_int4)
  have fy: "pad_left 4 (nat_str \<bar>y\<bar>) = [a, b, c, e]" and y0: "0 \<le> y" "y \<le> 9999"
    using pad4 [of ka kb kc ke] k yk by (auto simp: abs_of_nonneg)
  obtain ma mb where mm: "r1 = ma # mb # CHR ''-'' # r2" "is_digit ma" "is_digit mb"
    "m = 10 * digit_val ma + digit_val mb" using m(1) by (auto simp: getnum_True_iff)
  obtain na nb where nn: "r2 = [na, nb]" "is_digit na" "is_digit nb"
    "n = 10 * digit_val na + digit_val nb" using n(1) by (auto simp: getnum_True_iff)
  have fm: "pad_left 2 (nat_str m) = [ma, mb]"
    using pad2 [of "digit_val ma" "digit_val mb"] digit_cases [OF mm(2)] digit_cases [OF mm(3)] mm(4)
    by (metis digit_val_range)
  have fn: "pad_left 2 (nat_str n) = [na, nb]"
    using pad2 [of "digit_val na" "digit_val nb"] digit_cases [OF nn(2)] digit_cases [OF nn(3)] nn(4)
    by (metis digit_val_range)
  show ?thesis
    using y0 m n y s mm nn fy fm fn by (simp add: d format_iso_def valid_date_def)
qed

lemma getnum_pad2: "0 \<le> n \<Longrightarrow> n \<le> 99 \<Longrightarrow> getnum (pad_left 2 (nat_str n) @ r) True = Some (n, r)"
  using pad2 [of "n div 10" "n mod 10"] by (simp add: getnum_True_iff)

lemma parse_iso_format:
  assumes "valid_date d" "0 \<le> d_year d" "d_year d \<le> 9999"
  shows "parse_iso (format_iso d) = Some d"
proof -
  obtain y m n where d: "d = \<lparr>d_year = y, d_month = m, d_day = n\<rparr>" by (cases d)
  have y: "0 \<le> y" "y \<le> 9999" using assms d by simp_all
  then obtain a b c e where a: "0 \<le> a" "a < 10" "0 \<le> b" "b < 10" "0 \<le> c" "c < 10" "0 \<le> e" "e < 10"
    and ya: "y = 10 * (10 * (10 * a + b) + c) + e" by (rule digits4_exist)
  let ?Y = "[digit_char a, digit_char b, digit_char c, digit_char e]"
  have fy: "pad_left 4 (nat_str \<bar>y\<bar>) = ?Y"
    using pad4 [OF a] y ya by (simp only: abs_of_nonneg)
  have yv: "digits_int ?Y = y"
    using ya a by (simp add: digits_int4)
  have ty: "time_atoi ?Y = Some y"
    using yv by (simp add: time_atoi_digits)
  have mn: "1 \<le> m" "m \<le> 12" "1 \<le> n" "n \<le> days_in m y" using assms d by (simp_all add: valid_date_def)
  have "days_in m y \<le> 31" by (simp add: days_in_def)
  then have n99: "n \<le> 99" using mn by simp
  let ?N = "pad_left 2 (nat_str n)" and ?M = "pad_left 2 (nat_str m)"
  have f: "format_iso d = ?Y @ CHR ''-'' # ?M @ CHR ''-'' # ?N"
    using y fy by (simp add: d format_iso_def)
  have gm: "getnum (?M @ CHR ''-'' # ?N) True = Some (m, CHR ''-'' # ?N)"
    using mn by (intro getnum_pad2) simp_all
  have gn: "getnum ?N True = Some (n, [])"
    using getnum_pad2 [of n "[]"] mn n99 by simp
  have sk: "skip_lit (CHR ''-'' # r) ''-'' = Some r" for r by (simp add: skip_minus)
  have "parse_chunks iso_layout \<lparr>d_year = 0, d_month = 1, d_day = 1\<rparr> (format_iso d) = Some d"
    unfolding iso_layout_def f using mn by (simp add: ty gm gn sk d)
  then show ?thesis using mn by (simp add: parse_iso_def parse_layout_def d)
qed

lemma parse_iso_valid: "parse_iso s = Some d \<Longrightarrow> valid_date d"
  by (simp add: parse_iso_inv)

lemma parse_iso_exact: "parse_iso s = Some d \<longleftrightarrow>
  valid_date d \<and> 0 \<le> d_year d \<and> d_year d \<le> 9999 \<and> s = format_iso d"
  using parse_iso_inv parse_iso_format by blast

end
