(* ===== verification/Pipeline_Stages.thy ===== *)
theory Pipeline_Stages
  imports Go_Float Go_Time
begin

text \<open>
  The extract and classify-account stages of \<open>internal/pipeline\<close> (\<open>pipeline.go\<close>, \<open>extract.go\<close>,
  \<open>classify.go\<close>): the request builders, the response parsers, the deterministic validators and the
  confidence gate.  A nullable JSON field is an \<open>option\<close>; money is \<open>int64\<close> cents; a confidence is a
  \<open>float64\<close>.  \<open>json.Unmarshal\<close> into a result struct is the argument \<open>unmarshal\<close> of the parsers: it maps
  the response text to a struct or an error message.  The lemmas characterise each validator by the
  arithmetic relations it enforces and show that a gate advances only on a valid, confident result.
\<close>

named_theorems gate_simps

section \<open>Gate and code fences\<close>

definition ExtractConfidenceMin :: rat where
  "ExtractConfidenceMin = fl64 (75 / 100)"

definition ClassifyConfidenceMin :: rat where
  "ClassifyConfidenceMin = fl64 (80 / 100)"

definition VendorConfidenceMin :: rat where
  "VendorConfidenceMin = fl64 (85 / 100)"

record outcome =
  o_advance :: bool
  o_status :: string
  o_issues :: "string list"

definition gate :: "rat \<Rightarrow> rat \<Rightarrow> string list \<Rightarrow> outcome" where
  "gate confidence mn issues =
     (if length issues = 0 \<and> mn \<le> confidence
      then \<lparr>o_advance = True, o_status = ''ok'', o_issues = []\<rparr>
      else \<lparr>o_advance = False, o_status = ''needs_review'', o_issues = issues\<rparr>)"

lemma gate_advance_iff [gate_simps]: "o_advance (gate c m is) \<longleftrightarrow> is = [] \<and> m \<le> c"
  by (simp add: gate_def)

lemma gate_issues [gate_simps]: "o_issues (gate c m is) = is"
  by (simp add: gate_def)

definition fence :: string where
  "fence = [CHR 0x60, CHR 0x60, CHR 0x60]"

definition stripCodeFence :: "string \<Rightarrow> string" where
  "stripCodeFence s0 =
     (let s = trim_space s0 in
      if \<not> has_prefix s fence then s
      else let s1 = trim_prefix s fence;
               s2 = (case index_byte s1 (CHR 0x0A) of None \<Rightarrow> s1 | Some i \<Rightarrow> drop (i + 1) s1);
               s3 = trim_suffix (trim_space s2) fence
           in trim_space s3)"

section \<open>Extract\<close>

record line_item =
  li_description :: string
  li_quantity :: "rat option"
  li_amount :: int64

record extract_result =
  x_vendor :: "string option"
  x_date :: "string option"
  x_currency :: "string option"
  x_subtotal :: "int64 option"
  x_tax :: "int64 option"
  x_total :: "int64 option"
  x_items :: "line_item list"
  x_confidence :: rat

definition extractSystem :: string where
  \<open>extractSystem =
      ''You extract structured fields from the raw text of a receipt or invoice.\<newline>'' @
      ''Rules:\<newline>'' @
      ''- Extract ONLY what is present in the text. If a field is not legible, return null '' @
      [CHR 0xE2, CHR 0x80, CHR 0x94] @
      '' never guess.\<newline>'' @
      ''- All monetary amounts are INTEGER CENTS (e.g. $12.34 '' @
      [CHR 0xE2, CHR 0x86, CHR 0x92] @
      '' 1234). Never a decimal or a string.\<newline>'' @
      ''- date is ISO 8601 (YYYY-MM-DD); currency is the ISO 4217 code (e.g. USD).\<newline>'' @
      ''- line_items: include one object per itemized line if the receipt is itemized; otherwise'' @
      '' return [].\<newline>'' @
      ''- Do NOT compute totals or taxes that are not printed. Do NOT invent a vendor.\<newline>'' @
      ''- confidence is your honest 0.0'' @
      [CHR 0xE2, CHR 0x80, CHR 0x93] @
      ''1.0 certainty in the WHOLE extraction; a blurry or ambiguous receipt\<newline>'' @
      ''  scores low.\<newline>'' @
      ''Return ONLY valid JSON matching the schema.''\<close>

definition ExtractSchema :: string where
  \<open>ExtractSchema =
      ''{\<newline>'' @
      ''  "type": "object",\<newline>'' @
      ''  "additionalProperties": false,\<newline>'' @
      ''  "required": ["vendor_name","date","currency","subtotal_cents","tax_cents","total_cents'' @
      ''","line_items","confidence"],\<newline>'' @
      ''  "properties": {\<newline>'' @
      ''    "vendor_name": {"type": ["string","null"]},\<newline>'' @
      ''    "date": {"type": ["string","null"]},\<newline>'' @
      ''    "currency": {"type": ["string","null"]},\<newline>'' @
      ''    "subtotal_cents": {"type": ["integer","null"]},\<newline>'' @
      ''    "tax_cents": {"type": ["integer","null"]},\<newline>'' @
      ''    "total_cents": {"type": ["integer","null"]},\<newline>'' @
      ''    "line_items": {\<newline>'' @
      ''      "type": "array",\<newline>'' @
      ''      "items": {\<newline>'' @
      ''        "type": "object",\<newline>'' @
      ''        "additionalProperties": false,\<newline>'' @
      ''        "required": ["description","quantity","amount_cents"],\<newline>'' @
      ''        "properties": {\<newline>'' @
      ''          "description": {"type": "string"},\<newline>'' @
      ''          "quantity": {"type": ["number","null"]},\<newline>'' @
      ''          "amount_cents": {"type": "integer"}\<newline>'' @
      ''        }\<newline>'' @
      ''      }\<newline>'' @
      ''    },\<newline>'' @
      ''    "confidence": {"type": "number"}\<newline>'' @
      ''  }\<newline>'' @
      ''}''\<close>

definition BuildExtractRequest :: "string \<Rightarrow> string \<times> string \<times> string" where
  "BuildExtractRequest ocrText = (extractSystem, ''Receipt text:\<newline>'' @ ocrText, ExtractSchema)"

definition ParseExtract :: "(string \<Rightarrow> string + extract_result) \<Rightarrow> string \<Rightarrow> string + extract_result" where
  "ParseExtract unmarshal raw =
     (case unmarshal (stripCodeFence raw) of
        Inl e \<Rightarrow> Inl (''extract: invalid JSON: '' @ e)
      | Inr r \<Rightarrow> Inr r)"

definition centsTolerance :: int where
  "centsTolerance = 2"

definition confidence_issues :: "rat \<Rightarrow> string list" where
  "confidence_issues c = (if c < 0 \<or> 1 < c then [''confidence '' @ fmt_f2 c @ '' out of range''] else [])"

definition extract_total_issues :: "extract_result \<Rightarrow> string list" where
  "extract_total_issues r =
     (case (x_total r, x_subtotal r, x_tax r) of
        (Some t, Some s, Some x) \<Rightarrow>
          let want = s + x in
          if centsTolerance < i64 (abs64 (t - want))
          then [''total '' @ int_str (i64 t) @ '' != subtotal '' @ int_str (i64 s) @ '' + tax '' @ int_str (i64 x)]
          else []
      | _ \<Rightarrow> [])"

definition extract_items_issues :: "extract_result \<Rightarrow> string list" where
  "extract_items_issues r =
     (if 0 < length (x_items r) then
        let sm = sum64 li_amount (x_items r) in
        case x_subtotal r of
          Some s \<Rightarrow>
            if centsTolerance < i64 (abs64 (sm - s))
            then [''line items sum '' @ int_str (i64 sm) @ '' != subtotal '' @ int_str (i64 s)] else []
        | None \<Rightarrow>
            (case x_total r of
               Some t \<Rightarrow>
                 if centsTolerance < i64 (abs64 (sm - t))
                 then [''line items sum '' @ int_str (i64 sm) @ '' != total '' @ int_str (i64 t)] else []
             | None \<Rightarrow> [])
      else [])"

definition extract_format_issues :: "extract_result \<Rightarrow> string list" where
  "extract_format_issues r =
     (case x_date r of
        None \<Rightarrow> []
      | Some d \<Rightarrow> if d \<noteq> [] \<and> parse_iso d = None then [''date '' @ fmt_q d @ '' is not YYYY-MM-DD''] else []) @
     (case x_currency r of
        None \<Rightarrow> []
      | Some c \<Rightarrow> if c \<noteq> [] \<and> length c \<noteq> 3
                  then [''currency '' @ fmt_q c @ '' is not a 3-letter ISO 4217 code''] else [])"

definition ValidateExtract :: "extract_result \<Rightarrow> string list" where
  "ValidateExtract r =
     confidence_issues (x_confidence r) @ extract_total_issues r @ extract_items_issues r @
     extract_format_issues r"

definition GateExtract :: "extract_result \<Rightarrow> outcome" where
  "GateExtract r = gate (x_confidence r) ExtractConfidenceMin (ValidateExtract r)"

section \<open>Classify-account\<close>

record account_ref =
  ar_code :: string
  ar_name :: string
  ar_type :: string

record classify_result =
  c_account :: string
  c_confidence :: rat
  c_reason :: string

definition classifySystem :: string where
  \<open>classifySystem =
      ''You assign a single general-ledger account to a purchase receipt.\<newline>'' @
      ''Choose EXACTLY ONE account_code from the chart of accounts listed below. Never invent a '' @
      ''code and never\<newline>'' @
      ''return free text '' @
      [CHR 0xE2, CHR 0x80, CHR 0x94] @
      '' the code must appear verbatim in the list. If nothing fits well, pick the closest\<newline>'' @
      ''account and lower your confidence. confidence is your honest 0.0'' @
      [CHR 0xE2, CHR 0x80, CHR 0x93] @
      ''1.0 certainty; ambiguous receipts\<newline>'' @
      ''score low. Return ONLY valid JSON matching the schema.\<newline>'' @
      ''\<newline>'' @
      ''Chart of accounts:\<newline>''\<close>

definition ClassifySchema :: string where
  \<open>ClassifySchema =
      ''{\<newline>'' @
      ''  "type": "object",\<newline>'' @
      ''  "additionalProperties": false,\<newline>'' @
      ''  "required": ["account_code","confidence","reason"],\<newline>'' @
      ''  "properties": {\<newline>'' @
      ''    "account_code": {"type": "string"},\<newline>'' @
      ''    "confidence": {"type": "number"},\<newline>'' @
      ''    "reason": {"type": "string"}\<newline>'' @
      ''  }\<newline>'' @
      ''}''\<close>

text \<open>The separator \<open>" \<emdash> "\<close> of the prompts and memos, in UTF-8.\<close>

definition em_dash :: string where
  "em_dash = [CHR '' '', CHR 0xE2, CHR 0x80, CHR 0x94, CHR '' '']"

definition summarizeForClassify :: "extract_result \<Rightarrow> string" where
  "summarizeForClassify r =
     (case x_vendor r of None \<Rightarrow> [] | Some v \<Rightarrow> ''vendor: '' @ v @ ''\<newline>'') @
     (case x_total r of None \<Rightarrow> [] | Some t \<Rightarrow> ''total_cents: '' @ int_str (i64 t) @ ''\<newline>'') @
     (if 0 < length (x_items r)
      then ''line_items:\<newline>'' @ concat (map (\<lambda>li. ''  - '' @ li_description li @ ''\<newline>'') (x_items r))
      else [])"

definition account_line :: "account_ref \<Rightarrow> string" where
  "account_line a = ''- '' @ ar_code a @ em_dash @ ar_name a @ '' ('' @ ar_type a @ '')\<newline>''"

definition BuildClassifyRequest :: "extract_result \<Rightarrow> account_ref list \<Rightarrow> string \<times> string \<times> string" where
  "BuildClassifyRequest r accounts =
     (classifySystem @ concat (map account_line accounts),
      ''Receipt:\<newline>'' @ summarizeForClassify r, ClassifySchema)"

definition ParseClassify :: "(string \<Rightarrow> string + classify_result) \<Rightarrow> string \<Rightarrow> string + classify_result" where
  "ParseClassify unmarshal raw =
     (case unmarshal (stripCodeFence raw) of
        Inl e \<Rightarrow> Inl (''classify: invalid JSON: '' @ e)
      | Inr r \<Rightarrow> Inr r)"

definition ValidateClassify :: "classify_result \<Rightarrow> account_ref list \<Rightarrow> string list" where
  "ValidateClassify r accounts =
     confidence_issues (c_confidence r) @
     (if \<not> list_ex (\<lambda>a. ar_code a = c_account r) accounts
      then [''account_code '' @ fmt_q (c_account r) @ '' is not in the offered chart of accounts'']
      else [])"

definition GateClassify :: "classify_result \<Rightarrow> account_ref list \<Rightarrow> outcome" where
  "GateClassify r accounts = gate (c_confidence r) ClassifyConfidenceMin (ValidateClassify r accounts)"

section \<open>What the gates enforce\<close>

lemma confidence_issues_Nil [gate_simps]: "confidence_issues c = [] \<longleftrightarrow> 0 \<le> c \<and> c \<le> 1"
  by (auto simp: confidence_issues_def)

lemma extract_total_issues_Nil [gate_simps]:
  "extract_total_issues r = [] \<longleftrightarrow>
     (\<forall>t s x. x_total r = Some t \<longrightarrow> x_subtotal r = Some s \<longrightarrow> x_tax r = Some x \<longrightarrow>
        i64 (abs64 (t - (s + x))) \<le> 2)"
  by (auto simp: extract_total_issues_def Let_def centsTolerance_def split: option.splits)

lemma extract_items_issues_Nil [gate_simps]:
  "extract_items_issues r = [] \<longleftrightarrow>
     (x_items r \<noteq> [] \<longrightarrow>
        (\<forall>s. x_subtotal r = Some s \<longrightarrow> i64 (abs64 (sum64 li_amount (x_items r) - s)) \<le> 2) \<and>
        (\<forall>t. x_subtotal r = None \<longrightarrow> x_total r = Some t \<longrightarrow>
            i64 (abs64 (sum64 li_amount (x_items r) - t)) \<le> 2))"
  by (auto simp: extract_items_issues_def Let_def centsTolerance_def split: option.splits)

lemma extract_format_issues_Nil [gate_simps]:
  "extract_format_issues r = [] \<longleftrightarrow>
     (\<forall>d. x_date r = Some d \<longrightarrow> d \<noteq> [] \<longrightarrow> (\<exists>t. parse_iso d = Some t)) \<and>
     (\<forall>c. x_currency r = Some c \<longrightarrow> c \<noteq> [] \<longrightarrow> length c = 3)"
  by (auto simp: extract_format_issues_def split: option.splits)

lemma ValidateClassify_Nil [gate_simps]:
  "ValidateClassify r accounts = [] \<longleftrightarrow>
     0 \<le> c_confidence r \<and> c_confidence r \<le> 1 \<and> c_account r \<in> ar_code ` set accounts"
  by (auto simp: ValidateClassify_def gate_simps list_ex_iff image_iff) metis

end
