(* ===== verification/Pipeline_Vendor.thy ===== *)
theory Pipeline_Vendor
  imports Pipeline_Stages
begin

text \<open>
  The vendor-match stage, \<open>internal/pipeline/vendor.go\<close>: name folding, the deterministic exact match,
  the request builder and validator of the AI adjudication, and the trigram ranking that makes the
  candidate shortlist.  Normalised names hold only lower-case letters and digits, so Go's runes are
  bytes here.  \<open>sort.SliceStable\<close> by descending score is \<open>sort_key\<close> on the negated score, which is
  stable.  The lemmas state soundness and completeness of the exact match, what the validator
  enforces, that scores stay in the unit interval, and that the ranking returns the best candidates.
\<close>

record vendor_ref =
  vr_id :: string
  vr_name :: string
  vr_tax_id :: string
  vr_pattern :: string
  vr_default_account :: string

record proposed_vendor =
  pv_name :: string
  pv_pattern :: string
  pv_tax_id :: "string option"
  pv_website :: "string option"

record vendor_match =
  vm_vendor_id :: "string option"
  vm_is_new :: bool
  vm_proposed :: "proposed_vendor option"
  vm_confidence :: rat
  vm_reason :: string

section \<open>Name folding and exact match\<close>

definition is_alnum_lower :: "char \<Rightarrow> bool" where
  "is_alnum_lower c \<longleftrightarrow> c \<in> set ''abcdefghijklmnopqrstuvwxyz0123456789''"

definition company_suffixes :: "string list" where
  "company_suffixes = [''inc'', ''llc'', ''ltd'', ''co'', ''corp'', ''company'']"

definition NormalizeVendorName :: "string \<Rightarrow> string" where
  "NormalizeVendorName s = foldl trim_suffix (filter is_alnum_lower (to_lower s)) company_suffixes"

fun ExactVendorMatch_loop :: "string \<Rightarrow> vendor_ref list \<Rightarrow> string option" where
  "ExactVendorMatch_loop want [] = None"
| "ExactVendorMatch_loop want (c # cs) =
     (if NormalizeVendorName (vr_name c) = want then Some (vr_id c) else ExactVendorMatch_loop want cs)"

definition ExactVendorMatch :: "string \<Rightarrow> vendor_ref list \<Rightarrow> string option" where
  "ExactVendorMatch raw candidates =
     (let want = NormalizeVendorName raw in
      if want = [] then None else ExactVendorMatch_loop want candidates)"

section \<open>AI adjudication\<close>

definition vendorSystem :: string where
  \<open>vendorSystem =
      ''You match a raw vendor name from a receipt to one of the candidate vendors below,\<newline>'' @
      ''or, if none matches (or there are no candidates), RECOMMEND a new vendor. Rules:\<newline>'' @
      ''- If a candidate is clearly the same vendor: set vendor_id to its id (verbatim from the '' @
      ''list),\<newline>'' @
      ''  is_new_vendor=false, proposed_vendor=null.\<newline>'' @
      ''- Otherwise: set vendor_id=null, is_new_vendor=true, and fill proposed_vendor so the sys'' @
      ''tem can create\<newline>'' @
      ''  the vendor:\<newline>'' @
      ''    - name: a CLEAN canonical vendor name (fix messy receipt formatting, e.g. "SQ *BLUE '' @
      ''BOTTLE" '' @
      [CHR 0xE2, CHR 0x86, CHR 0x92] @
      ''\<newline>'' @
      ''      "Blue Bottle Coffee"; drop store numbers, POS prefixes, and payment-processor nois'' @
      ''e).\<newline>'' @
      ''    - match_pattern: a short, distinctive UPPERCASE substring that will appear on THIS v'' @
      ''endor'' @
      [CHR 0x27] @
      ''s future\<newline>'' @
      ''      receipts (used to auto-match later). Pick something specific, not a generic word.\<newline>'' @
      ''    - tax_id / website: only if printed on the receipt, else null.\<newline>'' @
      ''- A wrong match misfiles every future receipt from this vendor '' @
      [CHR 0xE2, CHR 0x80, CHR 0x94] @
      '' be CONSERVATIVE. When unsure, prefer a\<newline>'' @
      ''  new-vendor recommendation over a doubtful match, and lower your confidence.\<newline>'' @
      ''Return ONLY valid JSON matching the schema.\<newline>'' @
      ''\<newline>'' @
      ''Candidate vendors:\<newline>''\<close>

definition VendorSchema :: string where
  \<open>VendorSchema =
      ''{\<newline>'' @
      ''  "type": "object",\<newline>'' @
      ''  "additionalProperties": false,\<newline>'' @
      ''  "required": ["vendor_id","is_new_vendor","proposed_vendor","confidence","reason"],\<newline>'' @
      ''  "properties": {\<newline>'' @
      ''    "vendor_id": {"type": ["string","null"]},\<newline>'' @
      ''    "is_new_vendor": {"type": "boolean"},\<newline>'' @
      ''    "proposed_vendor": {\<newline>'' @
      ''      "type": ["object","null"],\<newline>'' @
      ''      "additionalProperties": false,\<newline>'' @
      ''      "required": ["name","match_pattern","tax_id","website"],\<newline>'' @
      ''      "properties": {\<newline>'' @
      ''        "name": {"type": "string"},\<newline>'' @
      ''        "match_pattern": {"type": "string"},\<newline>'' @
      ''        "tax_id": {"type": ["string","null"]},\<newline>'' @
      ''        "website": {"type": ["string","null"]}\<newline>'' @
      ''      }\<newline>'' @
      ''    },\<newline>'' @
      ''    "confidence": {"type": "number"},\<newline>'' @
      ''    "reason": {"type": "string"}\<newline>'' @
      ''  }\<newline>'' @
      ''}''\<close>

definition vendor_line :: "vendor_ref \<Rightarrow> string" where
  "vendor_line c =
     (if vr_tax_id c \<noteq> []
      then ''- id='' @ vr_id c @ '' name='' @ fmt_q (vr_name c) @ '' tax_id='' @ vr_tax_id c @ ''\<newline>''
      else ''- id='' @ vr_id c @ '' name='' @ fmt_q (vr_name c) @ ''\<newline>'')"

definition BuildVendorMatchRequest :: "string \<Rightarrow> vendor_ref list \<Rightarrow> string \<times> string \<times> string" where
  "BuildVendorMatchRequest raw candidates =
     (vendorSystem @ concat (map vendor_line candidates), ''Raw vendor from receipt: '' @ raw, VendorSchema)"

definition ParseVendorMatch :: "(string \<Rightarrow> string + vendor_match) \<Rightarrow> string \<Rightarrow> string + vendor_match" where
  "ParseVendorMatch unmarshal raw =
     (case unmarshal (stripCodeFence raw) of
        Inl e \<Rightarrow> Inl (''vendor-match: invalid JSON: '' @ e)
      | Inr r \<Rightarrow> Inr r)"

definition ValidateVendorMatch :: "vendor_match \<Rightarrow> vendor_ref list \<Rightarrow> string list" where
  "ValidateVendorMatch r candidates =
     confidence_issues (vm_confidence r) @
     (case vm_vendor_id r of
        Some vid \<Rightarrow>
          if vm_is_new r then [''vendor_id set but is_new_vendor is true'']
          else if \<not> list_ex (\<lambda>c. vr_id c = vid) candidates
               then [''vendor_id '' @ fmt_q vid @ '' is not in the candidate list''] else []
      | None \<Rightarrow>
          if vm_is_new r then
            (case vm_proposed r of
               None \<Rightarrow> [''is_new_vendor but proposed_vendor is null'']
             | Some p \<Rightarrow>
                 if trim_space (pv_name p) = [] then [''proposed_vendor.name is empty'']
                 else if trim_space (pv_pattern p) = [] then [''proposed_vendor.match_pattern is empty'']
                 else [])
          else [''no vendor_id and is_new_vendor is false (undecided)''])"

definition GateVendorMatch :: "vendor_match \<Rightarrow> vendor_ref list \<Rightarrow> outcome" where
  "GateVendorMatch r candidates = gate (vm_confidence r) VendorConfidenceMin (ValidateVendorMatch r candidates)"

section \<open>Candidate ranking\<close>

definition vendorCandidateMinScore :: rat where
  "vendorCandidateMinScore = fl64 (2 / 10)"

fun windows3 :: "string \<Rightarrow> string list" where
  "windows3 (a # b # c # s) = [a, b, c] # windows3 (b # c # s)"
| "windows3 _ = []"

text \<open>The set of trigrams, as the list of the map's keys without repetition.\<close>

definition trigrams :: "string \<Rightarrow> string list" where
  "trigrams s = (if length s < 3 then (if s \<noteq> [] then [s] else []) else dedup_from [] (windows3 s))"

definition trigramJaccard :: "string \<Rightarrow> string \<Rightarrow> rat" where
  "trigramJaccard a b =
     (let ta = trigrams a; tb = trigrams b;
          inter = length (filter (\<lambda>t. t \<in> set tb) ta);
          uni = int (length ta) + int (length tb) - int inter
      in if uni = 0 then 0 else fl64 (of_int (int inter) / of_int uni))"

definition vendorSimilarity :: "string \<Rightarrow> string \<Rightarrow> rat" where
  "vendorSimilarity a b =
     (if a = [] \<or> b = [] then 0
      else if a = b then 1
      else if contains a b \<or> contains b a then fl64 (8 / 10)
      else trigramJaccard a b)"

definition vendorScore :: "string \<Rightarrow> vendor_ref \<Rightarrow> rat" where
  "vendorScore queryNorm c =
     (let s = vendorSimilarity queryNorm (NormalizeVendorName (vr_name c));
          pn = NormalizeVendorName (vr_pattern c)
      in if pn \<noteq> []
         then (if contains queryNorm pn then max s (fl64 (9 / 10)) else max s (trigramJaccard queryNorm pn))
         else s)"

definition scored_candidates :: "string \<Rightarrow> vendor_ref list \<Rightarrow> (vendor_ref \<times> rat) list" where
  "scored_candidates qn candidates =
     filter (\<lambda>(c, s). vendorCandidateMinScore \<le> s) (map (\<lambda>c. (c, vendorScore qn c)) candidates)"

definition RankVendorCandidates :: "string \<Rightarrow> vendor_ref list \<Rightarrow> nat \<Rightarrow> vendor_ref list" where
  "RankVendorCandidates query candidates limit =
     (let qn = NormalizeVendorName query in
      if qn = [] \<or> length candidates = 0 then []
      else let ranked = sort_key (\<lambda>(c, s). - s) (scored_candidates qn candidates);
               cut = (if 0 < limit \<and> limit < length ranked then take limit ranked else ranked)
           in map fst cut)"

section \<open>Properties of the matcher\<close>

lemma ExactVendorMatch_loop_Some:
  "ExactVendorMatch_loop want cs = Some i \<longleftrightarrow>
     (\<exists>us c vs. cs = us @ c # vs \<and> vr_id c = i \<and> NormalizeVendorName (vr_name c) = want \<and>
        (\<forall>u\<in>set us. NormalizeVendorName (vr_name u) \<noteq> want))"
proof (induction cs)
  case Nil
  then show ?case by simp
next
  case (Cons c cs)
  show ?case
  proof (cases "NormalizeVendorName (vr_name c) = want")
    case True
    then show ?thesis by (fastforce simp: Cons_eq_append_conv)
  next
    case False
    have "(\<exists>us d vs. c # cs = us @ d # vs \<and> vr_id d = i \<and> NormalizeVendorName (vr_name d) = want \<and>
          (\<forall>u\<in>set us. NormalizeVendorName (vr_name u) \<noteq> want)) \<longleftrightarrow>
        (\<exists>us d vs. cs = us @ d # vs \<and> vr_id d = i \<and> NormalizeVendorName (vr_name d) = want \<and>
          (\<forall>u\<in>set us. NormalizeVendorName (vr_name u) \<noteq> want))" (is "?L \<longleftrightarrow> ?R")
    proof
      assume ?L
      then obtain us d vs where *: "c # cs = us @ d # vs" "vr_id d = i" "NormalizeVendorName (vr_name d) = want"
        "\<forall>u\<in>set us. NormalizeVendorName (vr_name u) \<noteq> want" by blast
      then obtain us' where "us = c # us'" using False by (cases us) auto
      then show ?R using * by auto
    next
      assume ?R
      then obtain us d vs where "cs = us @ d # vs" "vr_id d = i" "NormalizeVendorName (vr_name d) = want"
        "\<forall>u\<in>set us. NormalizeVendorName (vr_name u) \<noteq> want" by blast
      then show ?L using False by (intro exI [of _ "c # us"] exI [of _ d] exI [of _ vs]) simp
    qed
    then show ?thesis using Cons False by simp
  qed
qed

lemma ExactVendorMatch_loop_None:
  "ExactVendorMatch_loop want cs = None \<longleftrightarrow> (\<forall>c\<in>set cs. NormalizeVendorName (vr_name c) \<noteq> want)"
  by (induction cs) auto

lemma ExactVendorMatch_offered: "ExactVendorMatch raw cs = Some i \<Longrightarrow> i \<in> vr_id ` set cs"
  by (auto simp: ExactVendorMatch_def Let_def ExactVendorMatch_loop_Some split: if_splits)

lemma ValidateVendorMatch_Nil [gate_simps]:
  "ValidateVendorMatch r cs = [] \<longleftrightarrow>
     0 \<le> vm_confidence r \<and> vm_confidence r \<le> 1 \<and>
     ((\<exists>v. vm_vendor_id r = Some v \<and> \<not> vm_is_new r \<and> v \<in> vr_id ` set cs) \<or>
      (\<exists>p. vm_vendor_id r = None \<and> vm_is_new r \<and> vm_proposed r = Some p \<and>
          trim_space (pv_name p) \<noteq> [] \<and> trim_space (pv_pattern p) \<noteq> []))"
  by (force simp: ValidateVendorMatch_def gate_simps list_ex_iff split: option.splits)

subsection \<open>Scores\<close>

lemma trigrams_distinct: "distinct (trigrams s)"
  by (simp add: trigrams_def distinct_dedup_from)

lemma inter_le: "length (filter (\<lambda>t. t \<in> set tb) ta) \<le> length tb" if "distinct ta"
proof -
  have "length (filter (\<lambda>t. t \<in> set tb) ta) = card (set (filter (\<lambda>t. t \<in> set tb) ta))"
    using that by (simp only: distinct_card distinct_filter)
  also have "\<dots> \<le> card (set tb)" by (rule card_mono) auto
  also have "\<dots> \<le> length tb" by (rule card_length)
  finally show ?thesis .
qed

lemma trigramJaccard_unit: "0 \<le> trigramJaccard a b \<and> trigramJaccard a b \<le> 1"
proof -
  let ?n = "length (filter (\<lambda>t. t \<in> set (trigrams b)) (trigrams a))"
  let ?u = "int (length (trigrams a)) + int (length (trigrams b)) - int ?n"
  have nb: "?n \<le> length (trigrams b)" by (rule inter_le) (rule trigrams_distinct)
  have na: "?n \<le> length (trigrams a)" by simp
  have le: "int ?n \<le> ?u" using na nb by linarith
  show ?thesis
  proof (cases "?u = 0")
    case True
    then show ?thesis by (simp add: trigramJaccard_def Let_def)
  next
    case False
    then have u: "0 < ?u" using le by linarith
    have "(of_int (int ?n) :: rat) \<le> of_int ?u" using le by (simp only: of_int_le_iff)
    moreover have "(0 :: rat) < of_int ?u" using u by (simp only: of_int_0_less_iff)
    ultimately have "of_int (int ?n) / of_int ?u \<le> (1 :: rat)" "0 \<le> (of_int (int ?n) / of_int ?u :: rat)"
      by (simp_all add: divide_le_eq)
    then show ?thesis
      using False by (simp only: trigramJaccard_def Let_def if_False fl64_le_one fl64_nonneg simp_thms)
  qed
qed

lemma vendorSimilarity_unit: "0 \<le> vendorSimilarity a b \<and> vendorSimilarity a b \<le> 1"
  by (simp add: vendorSimilarity_def trigramJaccard_unit fl64_nonneg fl64_le_one)

lemma vendorScore_unit: "0 \<le> vendorScore q c \<and> vendorScore q c \<le> 1"
  using vendorSimilarity_unit [of q "NormalizeVendorName (vr_name c)"]
    trigramJaccard_unit [of q "NormalizeVendorName (vr_pattern c)"]
  by (auto simp: vendorScore_def Let_def le_max_iff_disj fl64_nonneg fl64_le_one)

lemma vendorScore_exact:
  "qn \<noteq> [] \<Longrightarrow> NormalizeVendorName (vr_name c) = qn \<Longrightarrow> vendorScore qn c = 1"
  using vendorScore_unit [of qn c] by (auto simp: vendorScore_def vendorSimilarity_def Let_def max_def)

subsection \<open>The shortlist\<close>

lemma set_scored_candidates:
  "set (scored_candidates qn cs) = {(c, vendorScore qn c) | c. c \<in> set cs \<and> vendorCandidateMinScore \<le> vendorScore qn c}"
  by (auto simp: scored_candidates_def)

lemma RankVendorCandidates_decomp:
  assumes "NormalizeVendorName q \<noteq> []"
  obtains rest where
    "sort_key (\<lambda>(c, s). - s) (scored_candidates (NormalizeVendorName q) cs) =
       map (\<lambda>c. (c, vendorScore (NormalizeVendorName q) c)) (RankVendorCandidates q cs limit) @ rest"
    "limit = 0 \<or> length (RankVendorCandidates q cs limit) < limit \<Longrightarrow> rest = []"
proof -
  let ?qn = "NormalizeVendorName q"
  let ?R = "sort_key (\<lambda>(c, s). - s) (scored_candidates ?qn cs)"
  let ?k = "if 0 < limit then limit else length ?R"
  have e: "RankVendorCandidates q cs limit = map fst (take ?k ?R)"
    using assms by (cases cs) (auto simp: RankVendorCandidates_def Let_def scored_candidates_def)
  have "map (\<lambda>c. (c, vendorScore ?qn c)) (map fst (take ?k ?R)) = take ?k ?R"
    unfolding map_map
    by (rule map_idI) (auto simp: set_scored_candidates dest!: in_set_takeD)
  then have m: "?R = map (\<lambda>c. (c, vendorScore ?qn c)) (RankVendorCandidates q cs limit) @ drop ?k ?R"
    by (simp add: e)
  show thesis
    by (rule that [OF m]) (auto simp: e split: if_splits)
qed

abbreviation score_of :: "string \<Rightarrow> vendor_ref \<Rightarrow> rat" where
  "score_of q c \<equiv> vendorScore (NormalizeVendorName q) c"

lemma RankVendorCandidates_blank: "NormalizeVendorName q = [] \<Longrightarrow> RankVendorCandidates q cs limit = []"
  by (simp add: RankVendorCandidates_def)

lemma RankVendorCandidates_length: "0 < limit \<Longrightarrow> length (RankVendorCandidates q cs limit) \<le> limit"
  by (auto simp: RankVendorCandidates_def Let_def)

lemma sorted_desc_snd: "sorted (map (\<lambda>(c, s :: rat). - s) xs) \<longleftrightarrow> sorted_wrt (\<lambda>p q. snd q \<le> snd p) xs"
  by (simp add: sorted_wrt_map case_prod_unfold)

text \<open>Every listed vendor was a candidate and scores at least the floor.\<close>

lemma RankVendorCandidates_sound:
  assumes "c \<in> set (RankVendorCandidates q cs limit)"
  shows "c \<in> set cs \<and> vendorCandidateMinScore \<le> score_of q c"
proof (cases "NormalizeVendorName q = []")
  case True
  then show ?thesis using assms by (simp add: RankVendorCandidates_blank)
next
  case False
  then obtain rest where
    "sort_key (\<lambda>(c, s). - s) (scored_candidates (NormalizeVendorName q) cs) =
       map (\<lambda>c. (c, score_of q c)) (RankVendorCandidates q cs limit) @ rest"
    by (rule RankVendorCandidates_decomp [where limit = limit and cs = cs]) (rule that)
  from arg_cong [OF this, of set]
  have "set (map (\<lambda>c. (c, score_of q c)) (RankVendorCandidates q cs limit)) \<subseteq>
      set (scored_candidates (NormalizeVendorName q) cs)"
    unfolding set_sort set_append by (rule ord_le_eq_trans [OF Un_upper1 sym])
  then show ?thesis using assms by (auto simp: set_scored_candidates)
qed

text \<open>The list is in descending order of score, and what it leaves out scores no more than what it keeps.\<close>

lemma RankVendorCandidates_sorted:
  "sorted_wrt (\<lambda>c d. score_of q d \<le> score_of q c) (RankVendorCandidates q cs limit)"
proof (cases "NormalizeVendorName q = []")
  case True
  then show ?thesis by (simp add: RankVendorCandidates_blank)
next
  case False
  then obtain rest where e:
    "sort_key (\<lambda>(c, s). - s) (scored_candidates (NormalizeVendorName q) cs) =
       map (\<lambda>c. (c, score_of q c)) (RankVendorCandidates q cs limit) @ rest"
    by (rule RankVendorCandidates_decomp [where limit = limit and cs = cs]) blast
  have "sorted (map (\<lambda>(c, s). - s) (map (\<lambda>c. (c, score_of q c)) (RankVendorCandidates q cs limit) @ rest))"
    by (simp only: e [symmetric] sorted_sort_key)
  then show ?thesis
    by (simp add: sorted_wrt_append sorted_wrt_map)
qed

lemma RankVendorCandidates_best:
  assumes "NormalizeVendorName q \<noteq> []" "c \<in> set cs" "vendorCandidateMinScore \<le> score_of q c"
    "c \<notin> set (RankVendorCandidates q cs limit)"
  shows "0 < limit \<and> length (RankVendorCandidates q cs limit) = limit \<and>
    (\<forall>d\<in>set (RankVendorCandidates q cs limit). score_of q c \<le> score_of q d)"
proof -
  obtain rest where e:
    "sort_key (\<lambda>(c, s). - s) (scored_candidates (NormalizeVendorName q) cs) =
       map (\<lambda>c. (c, score_of q c)) (RankVendorCandidates q cs limit) @ rest"
    and r: "limit = 0 \<or> length (RankVendorCandidates q cs limit) < limit \<Longrightarrow> rest = []"
    using RankVendorCandidates_decomp [OF assms(1)] by metis
  have "(c, score_of q c) \<in> set (sort_key (\<lambda>(c, s). - s) (scored_candidates (NormalizeVendorName q) cs))"
    using assms by (auto simp: set_scored_candidates)
  then have m: "(c, score_of q c) \<in> set rest" using assms(4) unfolding e by auto
  then have "rest \<noteq> []" by auto
  then have l: "0 < limit" "length (RankVendorCandidates q cs limit) = limit"
    using r RankVendorCandidates_length [of limit q cs] by (cases "limit = 0"; force)+
  have "sorted (map (\<lambda>(c, s). - s) (map (\<lambda>c. (c, score_of q c)) (RankVendorCandidates q cs limit) @ rest))"
    by (simp only: e [symmetric] sorted_sort_key)
  then have "\<forall>x\<in>set (map (\<lambda>c. (c, score_of q c)) (RankVendorCandidates q cs limit)). \<forall>y\<in>set rest. snd y \<le> snd x"
    unfolding sorted_desc_snd sorted_wrt_append by blast
  then show ?thesis using l m by force
qed

text \<open>A candidate with the exact name always makes the shortlist or is displaced by full scores only.\<close>

lemma RankVendorCandidates_exact_first:
  assumes "ExactVendorMatch q cs = Some i"
  shows "\<exists>c rest. RankVendorCandidates q cs limit = c # rest \<and> score_of q c = 1"
proof -
  let ?qn = "NormalizeVendorName q"
  have ne: "?qn \<noteq> []" using assms by (auto simp: ExactVendorMatch_def Let_def split: if_splits)
  then obtain c where c: "c \<in> set cs" "NormalizeVendorName (vr_name c) = ?qn"
    using assms by (force simp: ExactVendorMatch_def Let_def ExactVendorMatch_loop_Some)
  then have s: "score_of q c = 1" using ne by (simp add: vendorScore_exact)
  have min: "vendorCandidateMinScore \<le> 1" by (simp add: vendorCandidateMinScore_def fl64_le_one)
  show ?thesis
  proof (cases "c \<in> set (RankVendorCandidates q cs limit)")
    case True
    then obtain d rest where R: "RankVendorCandidates q cs limit = d # rest" by (metis list.exhaust list.set_cases)
    then have "score_of q c \<le> score_of q d"
      using True RankVendorCandidates_sorted [of q cs limit] by auto
    then show ?thesis using R s vendorScore_unit [of ?qn d] by auto
  next
    case False
    then have b: "0 < limit" "length (RankVendorCandidates q cs limit) = limit"
      "\<forall>d\<in>set (RankVendorCandidates q cs limit). 1 \<le> score_of q d"
      using RankVendorCandidates_best [OF ne c(1)] s min by auto
    then obtain d rest where R: "RankVendorCandidates q cs limit = d # rest"
      by (metis length_0_conv list.exhaust not_less_zero)
    then show ?thesis using b(3) vendorScore_unit [of ?qn d] by (metis antisym_conv list.set_intros(1))
  qed
qed

end
