(* ===== verification/Build_Entry.thy ===== *)
theory Build_Entry
  imports Pipeline_Stages
begin

text \<open>
  The deterministic last stage, \<open>internal/pipeline/build_entry.go\<close>: a draft journal entry from the
  extracted and classified facts, and the check \<open>AssertBalanced\<close> that guards its output.  The lemmas
  show that whatever \<open>BuildEntry\<close> returns balances as a sum of integers, not only modulo \<open>2^64\<close>, and
  say exactly when it returns an entry.
\<close>

record entry_line =
  el_account :: string
  el_debit :: int64
  el_credit :: int64

record draft_entry =
  de_date :: string
  de_memo :: string
  de_lines :: "entry_line list"
  de_total :: int64

record build_entry_input =
  bi_extract :: extract_result
  bi_expense :: string
  bi_credit :: string
  bi_tax :: string

definition derefStr :: "string option \<Rightarrow> string" where
  "derefStr s = (case s of None \<Rightarrow> [] | Some v \<Rightarrow> v)"

definition buildMemo :: "extract_result \<Rightarrow> string" where
  "buildMemo r =
     (let p1 = (case x_vendor r of Some v \<Rightarrow> if v \<noteq> [] then [v] else [] | None \<Rightarrow> []);
          p2 = (case x_date r of Some d \<Rightarrow> if d \<noteq> [] then [d] else [] | None \<Rightarrow> [])
      in join (p1 @ p2) em_dash)"

fun assert_loop :: "entry_line list \<Rightarrow> int64 \<Rightarrow> int64 \<Rightarrow> string + int64 \<times> int64" where
  "assert_loop [] debits credits = Inr (debits, credits)"
| "assert_loop (l # ls) debits credits =
     (if i64 (el_debit l) < 0 \<or> i64 (el_credit l) < 0
      then Inl (''build-entry: negative amount on account '' @ el_account l)
      else assert_loop ls (debits + el_debit l) (credits + el_credit l))"

definition AssertBalanced :: "draft_entry \<Rightarrow> string option" where
  "AssertBalanced e =
     (case assert_loop (de_lines e) 0 0 of
        Inl err \<Rightarrow> Some err
      | Inr (debits, credits) \<Rightarrow>
          if debits \<noteq> credits
          then Some (''build-entry: unbalanced (debits '' @ int_str (i64 debits) @ '' != credits '' @
                 int_str (i64 credits) @ '')'')
          else if debits \<noteq> de_total e
          then Some (''build-entry: entry total '' @ int_str (i64 (de_total e)) @ '' != debit total '' @
                 int_str (i64 debits))
          else None)"

definition debit_line :: "string \<Rightarrow> int64 \<Rightarrow> entry_line" where
  "debit_line a c = \<lparr>el_account = a, el_debit = c, el_credit = 0\<rparr>"

definition credit_line :: "string \<Rightarrow> int64 \<Rightarrow> entry_line" where
  "credit_line a c = \<lparr>el_account = a, el_debit = 0, el_credit = c\<rparr>"

definition entry_legs :: "build_entry_input \<Rightarrow> int64 \<Rightarrow> string + entry_line list" where
  "entry_legs i tot =
     (case (x_tax (bi_extract i), x_subtotal (bi_extract i)) of
        (Some tax, Some sub) \<Rightarrow>
          if bi_tax i \<noteq> [] then
            if centsTolerance < i64 (abs64 (sub + tax - tot))
            then Inl (''build-entry: subtotal '' @ int_str (i64 sub) @ '' + tax '' @ int_str (i64 tax) @
                   '' != total '' @ int_str (i64 tot))
            else Inr [debit_line (bi_expense i) sub, debit_line (bi_tax i) tax, credit_line (bi_credit i) tot]
          else Inr [debit_line (bi_expense i) tot, credit_line (bi_credit i) tot]
      | _ \<Rightarrow> Inr [debit_line (bi_expense i) tot, credit_line (bi_credit i) tot])"

definition BuildEntry :: "build_entry_input \<Rightarrow> string + draft_entry" where
  "BuildEntry i =
     (case x_total (bi_extract i) of
        None \<Rightarrow> Inl ''build-entry: receipt has no total''
      | Some tot \<Rightarrow>
          if bi_expense i = [] \<or> bi_credit i = []
          then Inl ''build-entry: expense and credit accounts are required''
          else if i64 tot \<le> 0 then Inl (''build-entry: non-positive total '' @ int_str (i64 tot))
          else rbind (entry_legs i tot) (\<lambda>lines.
            let entry = \<lparr>de_date = derefStr (x_date (bi_extract i)), de_memo = buildMemo (bi_extract i),
                         de_lines = lines, de_total = tot\<rparr>
            in case AssertBalanced entry of Some err \<Rightarrow> Inl err | None \<Rightarrow> Inr entry))"

section \<open>Balance\<close>

text \<open>The double-entry invariant over the integers.\<close>

definition line_ok :: "entry_line \<Rightarrow> bool" where
  "line_ok l \<longleftrightarrow> 0 \<le> i64 (el_debit l) \<and> 0 \<le> i64 (el_credit l)"

lemma assert_loop_Inr:
  "assert_loop ls d c = Inr (d', c') \<longleftrightarrow>
     list_all line_ok ls \<and> d' = d + sum64 el_debit ls \<and> c' = c + sum64 el_credit ls"
  by (induction ls arbitrary: d c) (auto simp: line_ok_def add.assoc)

lemma assert_loop_Inl:
  "assert_loop ls d c = Inl e \<Longrightarrow> \<exists>l\<in>set ls. \<not> line_ok l \<and>
     e = ''build-entry: negative amount on account '' @ el_account l"
  by (induction ls arbitrary: d c) (auto simp: line_ok_def split: if_splits)

lemma AssertBalanced_None:
  "AssertBalanced e = None \<longleftrightarrow>
     list_all line_ok (de_lines e) \<and> sum64 el_debit (de_lines e) = de_total e \<and>
     sum64 el_credit (de_lines e) = de_total e"
proof (cases "assert_loop (de_lines e) 0 0")
  case (Inl err)
  then have "\<not> list_all line_ok (de_lines e)"
    using assert_loop_Inl [OF Inl] by (auto simp: list_all_iff)
  then show ?thesis using Inl by (simp add: AssertBalanced_def)
next
  case (Inr p)
  then obtain d c where e: "assert_loop (de_lines e) 0 0 = Inr (d, c)" by (cases p) simp
  then have "list_all line_ok (de_lines e)" "d = sum64 el_debit (de_lines e)" "c = sum64 el_credit (de_lines e)"
    by (simp_all add: assert_loop_Inr)
  then show ?thesis by (auto simp: AssertBalanced_def e)
qed

lemma wrap_sum_pos:
  assumes "0 \<le> i64 a" "0 \<le> i64 b" "a + b = t" "0 \<le> i64 t"
  shows "i64 a + i64 b = i64 t"
proof -
  have "i64 a < 2 ^ 63" "i64 b < 2 ^ 63" using i64_range [of a] i64_range [of b] by (simp_all add: in_int64_def)
  show ?thesis
  proof (cases "in_int64 (i64 a + i64 b)")
    case True
    then show ?thesis using assms(3) i64_add [OF True] by simp
  next
    case False
    then have ge: "2 ^ 63 \<le> i64 a + i64 b" using assms by (simp add: in_int64_def)
    let ?k = "i64 a + i64 b - 2 ^ 64"
    have "in_int64 ?k" using ge \<open>i64 a < 2 ^ 63\<close> \<open>i64 b < 2 ^ 63\<close> by (simp add: in_int64_def)
    then have k: "i64 (word_of_int ?k) = ?k" by (rule i64_of_int)
    have w: "(word_of_int ?k :: int64) = a + b"
    proof -
      have "(word_of_int (2 ^ 64) :: int64) = 0" by simp
      then show ?thesis by (simp only: of_int_diff of_int_add word_of_int_i64) simp
    qed
    have "i64 t = ?k" using k by (simp only: w assms(3))
    then have "i64 t < 0" using \<open>i64 a < 2 ^ 63\<close> \<open>i64 b < 2 ^ 63\<close> by simp
    then show ?thesis using assms(4) by simp
  qed
qed

text \<open>The integer form of the invariant: non-negative legs whose debits and credits both sum to the total.\<close>

definition balanced :: "draft_entry \<Rightarrow> bool" where
  "balanced e \<longleftrightarrow> list_all line_ok (de_lines e) \<and>
     (\<Sum>l\<leftarrow>de_lines e. i64 (el_debit l)) = i64 (de_total e) \<and>
     (\<Sum>l\<leftarrow>de_lines e. i64 (el_credit l)) = i64 (de_total e)"

lemma BuildEntry_Inr_cases:
  assumes "BuildEntry i = Inr e"
  obtains (split) tot sub tax where
      "x_total (bi_extract i) = Some tot" "x_subtotal (bi_extract i) = Some sub" "x_tax (bi_extract i) = Some tax"
      "bi_tax i \<noteq> []" "0 < i64 tot" "bi_expense i \<noteq> []" "bi_credit i \<noteq> []" "de_total e = tot"
      "de_lines e = [debit_line (bi_expense i) sub, debit_line (bi_tax i) tax, credit_line (bi_credit i) tot]"
      "AssertBalanced e = None"
  | (plain) tot where
      "x_total (bi_extract i) = Some tot" "0 < i64 tot" "bi_expense i \<noteq> []" "bi_credit i \<noteq> []"
      "de_total e = tot"
      "de_lines e = [debit_line (bi_expense i) tot, credit_line (bi_credit i) tot]"
      "AssertBalanced e = None"
      "x_tax (bi_extract i) = None \<or> x_subtotal (bi_extract i) = None \<or> bi_tax i = []"
  using assms
  by (auto simp: BuildEntry_def entry_legs_def Let_def rbind_def split: option.splits if_splits sum.splits)

lemma BuildEntry_balanced_aux: "BuildEntry i = Inr e \<Longrightarrow> balanced e"
proof (elim BuildEntry_Inr_cases)
  fix tot sub tax
  assume h: "0 < i64 tot" "de_total e = tot"
    "de_lines e = [debit_line (bi_expense i) sub, debit_line (bi_tax i) tax, credit_line (bi_credit i) tot]"
    "AssertBalanced e = None"
  then have "0 \<le> i64 sub" "0 \<le> i64 tax" "sub + tax = tot"
    by (auto simp: AssertBalanced_None line_ok_def debit_line_def credit_line_def)
  then have "i64 sub + i64 tax = i64 tot" using h(1) by (intro wrap_sum_pos) simp_all
  then show "balanced e" using h
    by (auto simp: balanced_def AssertBalanced_None debit_line_def credit_line_def)
next
  fix tot
  assume h: "0 < i64 tot" "de_total e = tot"
    "de_lines e = [debit_line (bi_expense i) tot, credit_line (bi_credit i) tot]"
    "AssertBalanced e = None"
  then show "balanced e"
    by (auto simp: balanced_def AssertBalanced_None debit_line_def credit_line_def)
qed

text \<open>
  When \<open>BuildEntry\<close> returns an entry: positive total, both accounts, and, when the tax is split off,
  non-negative parts that add up exactly.
\<close>

lemma BuildEntry_defined:
  "(\<exists>e. BuildEntry i = Inr e) \<longleftrightarrow>
     (\<exists>tot. x_total (bi_extract i) = Some tot \<and> 0 < i64 tot \<and> bi_expense i \<noteq> [] \<and> bi_credit i \<noteq> [] \<and>
       (\<forall>sub tax. x_subtotal (bi_extract i) = Some sub \<and> x_tax (bi_extract i) = Some tax \<and> bi_tax i \<noteq> [] \<longrightarrow>
          0 \<le> i64 sub \<and> 0 \<le> i64 tax \<and> sub + tax = tot))" (is "?L \<longleftrightarrow> ?R")
proof
  assume ?L
  then obtain e where "BuildEntry i = Inr e" ..
  then show ?R
    by (elim BuildEntry_Inr_cases)
       (auto simp: AssertBalanced_None line_ok_def debit_line_def credit_line_def)
next
  assume ?R
  then obtain tot where t: "x_total (bi_extract i) = Some tot" "0 < i64 tot" "bi_expense i \<noteq> []"
    "bi_credit i \<noteq> []" and
    s: "\<And>sub tax. x_subtotal (bi_extract i) = Some sub \<Longrightarrow> x_tax (bi_extract i) = Some tax \<Longrightarrow> bi_tax i \<noteq> [] \<Longrightarrow>
          0 \<le> i64 sub \<and> 0 \<le> i64 tax \<and> sub + tax = tot" by blast
  have no: "AssertBalanced \<lparr>de_date = d, de_memo = m, de_lines = ls, de_total = tot\<rparr> = None \<longleftrightarrow>
      list_all line_ok ls \<and> sum64 el_debit ls = tot \<and> sum64 el_credit ls = tot" for d m ls
    by (simp add: AssertBalanced_None)
  have "\<exists>ls. entry_legs i tot = Inr ls \<and> list_all line_ok ls \<and> sum64 el_debit ls = tot \<and> sum64 el_credit ls = tot"
  proof (cases "x_tax (bi_extract i) \<noteq> None \<and> x_subtotal (bi_extract i) \<noteq> None \<and> bi_tax i \<noteq> []")
    case True
    then obtain tax sub where "x_tax (bi_extract i) = Some tax" "x_subtotal (bi_extract i) = Some sub" "bi_tax i \<noteq> []"
      by blast
    moreover from this have "0 \<le> i64 sub" "0 \<le> i64 tax" "sub + tax = tot" using s by blast+
    ultimately show ?thesis using t
      by (auto simp: entry_legs_def line_ok_def debit_line_def credit_line_def abs64_def centsTolerance_def)
  next
    case False
    then have "entry_legs i tot = Inr [debit_line (bi_expense i) tot, credit_line (bi_credit i) tot]"
      by (auto simp: entry_legs_def split: option.splits)
    then show ?thesis using t by (simp add: line_ok_def debit_line_def credit_line_def)
  qed
  then obtain ls where ls: "entry_legs i tot = Inr ls" "list_all line_ok ls" "sum64 el_debit ls = tot"
    "sum64 el_credit ls = tot" by blast
  then have "AssertBalanced \<lparr>de_date = d, de_memo = m, de_lines = ls, de_total = tot\<rparr> = None" for d m
    by (simp add: no)
  then show ?L using t ls(1) by (simp add: BuildEntry_def Let_def)
qed

end
