(* ===== verification/Pipeline_Run.thy ===== *)
theory Pipeline_Run
  imports Pipeline_Vendor Build_Entry
begin

text \<open>
  The orchestration of the receipt pipeline, \<open>internal/pipeline/runner.go\<close>: extract, vendor match,
  classify, build.  The AI driver (\<open>Completer\<close>) and \<open>json.Unmarshal\<close> into the three result structs are
  one argument of the run, the record \<open>ai_env\<close>.  \<open>Run\<close> returns Go's pair \<open>(RunResult, error)\<close>: a result
  together with the transport error, if any.  The lemmas show what a \<open>ready\<close> result guarantees and
  that every other result without an error is a park with a stage name.
\<close>

record ai_env =
  ae_complete :: "string \<times> string \<times> string \<Rightarrow> string + string"
  ae_extract :: "string \<Rightarrow> string + extract_result"
  ae_vendor :: "string \<Rightarrow> string + vendor_match"
  ae_classify :: "string \<Rightarrow> string + classify_result"

record run_input =
  ri_ocr :: string
  ri_accounts :: "account_ref list"
  ri_vendors :: "vendor_ref list"
  ri_candidates :: "(string \<Rightarrow> vendor_ref list) option"
  ri_credit :: string
  ri_tax :: string

record run_result =
  rr_status :: string
  rr_failed_stage :: string
  rr_issues :: "string list"
  rr_extract :: extract_result
  rr_vendor_match :: "vendor_match option"
  rr_vendor_id :: "string option"
  rr_proposed :: "proposed_vendor option"
  rr_classify :: "classify_result option"
  rr_entry :: "draft_entry option"

type_synonym run_out = "run_result \<times> string option"

definition zero_extract :: extract_result where
  "zero_extract = \<lparr>x_vendor = None, x_date = None, x_currency = None, x_subtotal = None, x_tax = None,
     x_total = None, x_items = [], x_confidence = 0\<rparr>"

definition zero_result :: run_result where
  "zero_result = \<lparr>rr_status = [], rr_failed_stage = [], rr_issues = [], rr_extract = zero_extract,
     rr_vendor_match = None, rr_vendor_id = None, rr_proposed = None, rr_classify = None, rr_entry = None\<rparr>"

fun defaultAccountFor :: "string \<Rightarrow> vendor_ref list \<Rightarrow> string" where
  "defaultAccountFor vendorID [] = []"
| "defaultAccountFor vendorID (c # cs) =
     (if vr_id c = vendorID then vr_default_account c else defaultAccountFor vendorID cs)"

definition review :: "string \<Rightarrow> string list \<Rightarrow> run_result \<Rightarrow> run_out" where
  "review stage issues partial =
     (partial\<lparr>rr_status := ''needs_review'', rr_failed_stage := stage, rr_issues := issues\<rparr>, None)"

text \<open>A stage ends the run (\<open>Inl\<close>) or hands the result so far to the next one (\<open>Inr\<close>).\<close>

definition extract_stage :: "ai_env \<Rightarrow> run_input \<Rightarrow> run_result \<Rightarrow> run_out + run_result" where
  "extract_stage ai i res =
     (case ae_complete ai (BuildExtractRequest (ri_ocr i)) of
        Inl err \<Rightarrow> Inl (res, Some err)
      | Inr raw \<Rightarrow>
          (case ParseExtract (ae_extract ai) raw of
             Inl err \<Rightarrow> Inl (review ''extract'' [err] res)
           | Inr x \<Rightarrow>
               let res = res\<lparr>rr_extract := x\<rparr>; out = GateExtract x in
               if \<not> o_advance out then Inl (review ''extract'' (o_issues out) res) else Inr res))"

definition vendor_default :: "vendor_ref list \<Rightarrow> run_result \<Rightarrow> run_result" where
  "vendor_default candidates res =
     (case rr_vendor_id res of
        None \<Rightarrow> res
      | Some v \<Rightarrow>
          let acct = defaultAccountFor v candidates in
          if acct \<noteq> []
          then res\<lparr>rr_classify := Some \<lparr>c_account = acct, c_confidence = 1, c_reason = ''vendor default account''\<rparr>\<rparr>
          else res)"

definition ask_vendor :: "ai_env \<Rightarrow> string \<Rightarrow> vendor_ref list \<Rightarrow> run_result \<Rightarrow> run_out + run_result" where
  "ask_vendor ai vname candidates res =
     (case ae_complete ai (BuildVendorMatchRequest vname candidates) of
        Inl err \<Rightarrow> Inl (res, Some err)
      | Inr vraw \<Rightarrow>
          (case ParseVendorMatch (ae_vendor ai) vraw of
             Inl err \<Rightarrow> Inl (review ''vendor-match'' [err] res)
           | Inr vm \<Rightarrow>
               let res = res\<lparr>rr_vendor_match := Some vm\<rparr>; out = GateVendorMatch vm candidates in
               if \<not> o_advance out then Inl (review ''vendor-match'' (o_issues out) res)
               else Inr (res\<lparr>rr_vendor_id := vm_vendor_id vm, rr_proposed := vm_proposed vm\<rparr>)))"

definition run_candidates :: "run_input \<Rightarrow> string \<Rightarrow> vendor_ref list" where
  "run_candidates i vname = (case ri_candidates i of None \<Rightarrow> ri_vendors i | Some f \<Rightarrow> f vname)"

definition vendor_stage :: "ai_env \<Rightarrow> run_input \<Rightarrow> run_result \<Rightarrow> run_out + run_result" where
  "vendor_stage ai i res =
     (case x_vendor (rr_extract res) of
        None \<Rightarrow> Inr res
      | Some vname \<Rightarrow>
          if vname = [] then Inr res
          else let candidates = run_candidates i vname in
            rbind (case ExactVendorMatch vname candidates of
                     Some vid \<Rightarrow> Inr (res\<lparr>rr_vendor_id := Some vid\<rparr>)
                   | None \<Rightarrow> ask_vendor ai vname candidates res)
              (\<lambda>res. Inr (vendor_default candidates res)))"

definition classify_stage :: "ai_env \<Rightarrow> run_input \<Rightarrow> run_result \<Rightarrow> run_out + run_result" where
  "classify_stage ai i res =
     (if rr_classify res \<noteq> None then Inr res
      else case ae_complete ai (BuildClassifyRequest (rr_extract res) (ri_accounts i)) of
        Inl err \<Rightarrow> Inl (res, Some err)
      | Inr craw \<Rightarrow>
          (case ParseClassify (ae_classify ai) craw of
             Inl err \<Rightarrow> Inl (review ''classify-account'' [err] res)
           | Inr cl \<Rightarrow>
               let out = GateClassify cl (ri_accounts i) in
               if \<not> o_advance out
               then Inl (review ''classify-account'' (o_issues out) (res\<lparr>rr_classify := Some cl\<rparr>))
               else Inr (res\<lparr>rr_classify := Some cl\<rparr>)))"

definition build_input :: "run_input \<Rightarrow> run_result \<Rightarrow> build_entry_input" where
  "build_input i res = \<lparr>bi_extract = rr_extract res,
     bi_expense = (case rr_classify res of None \<Rightarrow> [] | Some cl \<Rightarrow> c_account cl),
     bi_credit = ri_credit i, bi_tax = ri_tax i\<rparr>"

definition build_stage :: "run_input \<Rightarrow> run_result \<Rightarrow> run_out" where
  "build_stage i res =
     (case BuildEntry (build_input i res) of
        Inl err \<Rightarrow> review ''build-entry'' [err] res
      | Inr entry \<Rightarrow> (res\<lparr>rr_entry := Some entry, rr_status := ''ready''\<rparr>, None))"

definition Run :: "ai_env \<Rightarrow> run_input \<Rightarrow> run_out" where
  "Run ai i =
     (case rbind (extract_stage ai i zero_result) (\<lambda>res.
             rbind (vendor_stage ai i res) (\<lambda>res. classify_stage ai i res)) of
        Inl out \<Rightarrow> out
      | Inr res \<Rightarrow> build_stage i res)"

section \<open>The contract of a gated stage\<close>

text \<open>
  A stage judges an AI answer by its confidence and by a deterministic validator; the orchestration
  relies on two laws only: an answer passes exactly when the validator has nothing to say and the
  confidence reaches the threshold, and a validator that has nothing to say implies the stage's
  specification.
\<close>

locale gated =
  fixes judge :: "'r \<Rightarrow> 'ctx \<Rightarrow> outcome"
    and validate :: "'r \<Rightarrow> 'ctx \<Rightarrow> string list"
    and confidence :: "'r \<Rightarrow> rat"
    and threshold :: rat
    and spec :: "'r \<Rightarrow> 'ctx \<Rightarrow> bool"
  assumes advance_iff: "o_advance (judge r c) \<longleftrightarrow> validate r c = [] \<and> threshold \<le> confidence r"
    and issues_are_validator: "o_issues (judge r c) = validate r c"
    and validator_sound: "validate r c = [] \<Longrightarrow> spec r c"
begin

lemma advance_spec: "o_advance (judge r c) \<Longrightarrow> spec r c \<and> threshold \<le> confidence r"
  using advance_iff validator_sound by blast

lemma park_reason: "\<not> o_advance (judge r c) \<Longrightarrow> o_issues (judge r c) \<noteq> [] \<or> confidence r < threshold"
  by (auto simp: advance_iff issues_are_validator)

lemma invalid_never_advances: "\<not> spec r c \<Longrightarrow> \<not> o_advance (judge r c)"
  using advance_spec by blast

end

definition extract_spec :: "extract_result \<Rightarrow> bool" where
  "extract_spec r \<longleftrightarrow>
     (\<forall>t s x. x_total r = Some t \<longrightarrow> x_subtotal r = Some s \<longrightarrow> x_tax r = Some x \<longrightarrow> i64 (abs64 (t - (s + x))) \<le> 2) \<and>
     (\<forall>d. x_date r = Some d \<longrightarrow> d \<noteq> [] \<longrightarrow> (\<exists>t. parse_iso d = Some t))"

definition vendor_spec :: "vendor_match \<Rightarrow> vendor_ref list \<Rightarrow> bool" where
  "vendor_spec r cs \<longleftrightarrow>
     (\<exists>v. vm_vendor_id r = Some v \<and> \<not> vm_is_new r \<and> v \<in> vr_id ` set cs) \<or>
     (\<exists>p. vm_vendor_id r = None \<and> vm_is_new r \<and> vm_proposed r = Some p \<and>
         trim_space (pv_name p) \<noteq> [] \<and> trim_space (pv_pattern p) \<noteq> [])"

interpretation gx: gated "\<lambda>r (_ :: unit). GateExtract r" "\<lambda>r _. ValidateExtract r" x_confidence ExtractConfidenceMin
    "\<lambda>r _. extract_spec r"
  by unfold_locales (auto simp: GateExtract_def ValidateExtract_def gate_simps extract_spec_def)

interpretation gv: gated GateVendorMatch ValidateVendorMatch vm_confidence VendorConfidenceMin vendor_spec
  by unfold_locales (auto simp: GateVendorMatch_def gate_simps vendor_spec_def)

interpretation gc: gated GateClassify ValidateClassify c_confidence ClassifyConfidenceMin
    "\<lambda>r accounts. c_account r \<in> ar_code ` set accounts"
  by unfold_locales (auto simp: GateClassify_def gate_simps)

section \<open>What a run guarantees\<close>

lemma defaultAccountFor_offered:
  "defaultAccountFor v cs \<noteq> [] \<Longrightarrow> \<exists>c\<in>set cs. vr_id c = v \<and> vr_default_account c = defaultAccountFor v cs"
  by (induction cs) auto

lemma extract_stage_Inr:
  "extract_stage ai i res = Inr res' \<Longrightarrow>
     \<exists>x. res' = res\<lparr>rr_extract := x\<rparr> \<and> extract_spec x \<and> ExtractConfidenceMin \<le> x_confidence x"
  using gx.advance_spec by (auto simp: extract_stage_def Let_def split: sum.splits if_splits)

text \<open>How the classification of a result was obtained: from a gated answer or a vendor's default.\<close>

definition expense_ok :: "run_input \<Rightarrow> run_result \<Rightarrow> bool" where
  "expense_ok i res \<longleftrightarrow>
     (\<forall>cl. rr_classify res = Some cl \<longrightarrow>
        (c_account cl \<in> ar_code ` set (ri_accounts i) \<and> ClassifyConfidenceMin \<le> c_confidence cl) \<or>
        (\<exists>vname c. x_vendor (rr_extract res) = Some vname \<and> c \<in> set (run_candidates i vname) \<and>
            rr_vendor_id res = Some (vr_id c) \<and> c_account cl = vr_default_account c))"

definition vendor_ok :: "run_input \<Rightarrow> run_result \<Rightarrow> bool" where
  "vendor_ok i res \<longleftrightarrow>
     (\<forall>v. rr_vendor_id res = Some v \<longrightarrow>
        (\<exists>vname. x_vendor (rr_extract res) = Some vname \<and> v \<in> vr_id ` set (run_candidates i vname)))"

lemma vendor_default_ok:
  assumes "x_vendor (rr_extract res) = Some vname" "rr_classify res = None"
    "\<And>v. rr_vendor_id res = Some v \<Longrightarrow> v \<in> vr_id ` set (run_candidates i vname)"
  shows "expense_ok i (vendor_default (run_candidates i vname) res) \<and>
    vendor_ok i (vendor_default (run_candidates i vname) res) \<and>
    rr_extract (vendor_default (run_candidates i vname) res) = rr_extract res \<and>
    rr_entry (vendor_default (run_candidates i vname) res) = rr_entry res"
proof (cases "rr_vendor_id res")
  case None
  then show ?thesis using assms by (simp add: vendor_default_def expense_ok_def vendor_ok_def)
next
  case (Some v)
  then show ?thesis
    using assms defaultAccountFor_offered [of v "run_candidates i vname"]
    by (fastforce simp: vendor_default_def expense_ok_def vendor_ok_def Let_def)
qed

lemma ask_vendor_Inr:
  "ask_vendor ai vname cs res = Inr res' \<Longrightarrow>
     rr_extract res' = rr_extract res \<and> rr_classify res' = rr_classify res \<and> rr_entry res' = rr_entry res \<and>
     (\<forall>v. rr_vendor_id res' = Some v \<longrightarrow> v \<in> vr_id ` set cs)"
  using gv.advance_spec by (fastforce simp: ask_vendor_def Let_def vendor_spec_def split: sum.splits if_splits)

lemma vendor_stage_Inr:
  assumes "vendor_stage ai i res = Inr res'" "rr_classify res = None" "rr_vendor_id res = None"
  shows "expense_ok i res' \<and> vendor_ok i res' \<and> rr_extract res' = rr_extract res \<and> rr_entry res' = rr_entry res"
proof (cases "x_vendor (rr_extract res) = None \<or> x_vendor (rr_extract res) = Some []")
  case True
  then show ?thesis using assms by (auto simp: vendor_stage_def expense_ok_def vendor_ok_def)
next
  case False
  then obtain vname where v: "x_vendor (rr_extract res) = Some vname" "vname \<noteq> []" by auto
  let ?cs = "run_candidates i vname"
  obtain r where r: "(case ExactVendorMatch vname ?cs of
                     Some vid \<Rightarrow> Inr (res\<lparr>rr_vendor_id := Some vid\<rparr>)
                   | None \<Rightarrow> ask_vendor ai vname ?cs res) = Inr r" and res': "res' = vendor_default ?cs r"
    using assms(1) v by (auto simp: vendor_stage_def Let_def rbind_Inr_iff)
  have "rr_extract r = rr_extract res \<and> rr_classify r = rr_classify res \<and> rr_entry r = rr_entry res \<and>
     (\<forall>v. rr_vendor_id r = Some v \<longrightarrow> v \<in> vr_id ` set ?cs)"
    using r ask_vendor_Inr [of ai vname ?cs res r] ExactVendorMatch_offered [of vname ?cs]
    by (auto split: option.splits)
  then show ?thesis using vendor_default_ok [of r vname i] assms(2) v by (simp add: res')
qed

lemma classify_stage_Inr:
  assumes "classify_stage ai i res = Inr res'" "expense_ok i res" "vendor_ok i res"
  shows "expense_ok i res' \<and> vendor_ok i res' \<and> rr_classify res' \<noteq> None \<and> rr_extract res' = rr_extract res"
  using assms gc.advance_spec
  by (fastforce simp: classify_stage_def Let_def expense_ok_def vendor_ok_def split: sum.splits if_splits)

lemma stages_Inr:
  assumes "rbind (extract_stage ai i zero_result) (\<lambda>res. rbind (vendor_stage ai i res) (classify_stage ai i)) = Inr res"
  shows "expense_ok i res \<and> vendor_ok i res \<and> rr_classify res \<noteq> None \<and> extract_spec (rr_extract res) \<and>
    ExtractConfidenceMin \<le> x_confidence (rr_extract res)"
proof -
  obtain r1 r2 where 1: "extract_stage ai i zero_result = Inr r1" and 2: "vendor_stage ai i r1 = Inr r2"
    and 3: "classify_stage ai i r2 = Inr res"
    using assms by (auto simp: rbind_Inr_iff)
  have e: "extract_spec (rr_extract r1) \<and> ExtractConfidenceMin \<le> x_confidence (rr_extract r1)"
    and z: "rr_classify r1 = None" "rr_vendor_id r1 = None"
    using extract_stage_Inr [OF 1] by (auto simp: zero_result_def)
  note v = vendor_stage_Inr [OF 2 z]
  note c = classify_stage_Inr [OF 3]
  show ?thesis using e v c by auto
qed

lemma ready_status: "''ready'' \<noteq> ''needs_review''"
  by simp

text \<open>
  Why a run parks: an answer that does not parse gives one issue, the parse error; an answer that its gate refuses
  gives the issues of the stage's validator, or none at all when the answer is valid and only its confidence is too
  low; an entry that cannot be built gives one issue, the builder's error.
\<close>

definition park_reason :: "ai_env \<Rightarrow> run_input \<Rightarrow> run_result \<Rightarrow> bool" where
  "park_reason ai i res \<longleftrightarrow>
     rr_failed_stage res = ''extract'' \<and> (\<exists>raw. ae_complete ai (BuildExtractRequest (ri_ocr i)) = Inr raw \<and>
       (case ParseExtract (ae_extract ai) raw of
          Inl e \<Rightarrow> rr_issues res = [e]
        | Inr x \<Rightarrow> rr_extract res = x \<and> rr_issues res = ValidateExtract x \<and>
            (rr_issues res \<noteq> [] \<or> x_confidence x < ExtractConfidenceMin))) \<or>
     rr_failed_stage res = ''vendor-match'' \<and> (\<exists>vname raw. x_vendor (rr_extract res) = Some vname \<and>
       ExactVendorMatch vname (run_candidates i vname) = None \<and>
       ae_complete ai (BuildVendorMatchRequest vname (run_candidates i vname)) = Inr raw \<and>
       (case ParseVendorMatch (ae_vendor ai) raw of
          Inl e \<Rightarrow> rr_issues res = [e]
        | Inr vm \<Rightarrow> rr_vendor_match res = Some vm \<and> rr_issues res = ValidateVendorMatch vm (run_candidates i vname) \<and>
            (rr_issues res \<noteq> [] \<or> vm_confidence vm < VendorConfidenceMin))) \<or>
     rr_failed_stage res = ''classify-account'' \<and>
       (\<exists>raw. ae_complete ai (BuildClassifyRequest (rr_extract res) (ri_accounts i)) = Inr raw \<and>
       (case ParseClassify (ae_classify ai) raw of
          Inl e \<Rightarrow> rr_issues res = [e]
        | Inr cl \<Rightarrow> rr_classify res = Some cl \<and> rr_issues res = ValidateClassify cl (ri_accounts i) \<and>
            (rr_issues res \<noteq> [] \<or> c_confidence cl < ClassifyConfidenceMin))) \<or>
     rr_failed_stage res = ''build-entry'' \<and> (\<exists>e. BuildEntry (build_input i res) = Inl e \<and> rr_issues res = [e])"

text \<open>A stage that ends the run parks it or reports an error of the provider.\<close>

definition stopped :: "ai_env \<Rightarrow> run_input \<Rightarrow> run_out \<Rightarrow> bool" where
  "stopped ai i out \<longleftrightarrow> rr_entry (fst out) = None \<and>
     (case snd out of
        Some e \<Rightarrow> rr_status (fst out) = [] \<and> (\<exists>req. ae_complete ai req = Inl e)
      | None \<Rightarrow> rr_status (fst out) = ''needs_review'' \<and> park_reason ai i (fst out))"

lemma extract_stops:
  assumes "extract_stage ai i r = Inl out" "rr_status r = []" "rr_entry r = None"
  shows "stopped ai i out"
proof (cases "ae_complete ai (BuildExtractRequest (ri_ocr i))")
  case (Inl e)
  then show ?thesis using assms by (auto simp del: split_paired_Ex simp: extract_stage_def stopped_def)
next
  case (Inr raw)
  then show ?thesis
    using assms gx.park_reason gx.issues_are_validator
    by (cases "ParseExtract (ae_extract ai) raw")
      (auto simp: extract_stage_def stopped_def review_def park_reason_def Let_def split: if_splits)
qed

lemma vendor_stops:
  assumes "vendor_stage ai i r = Inl out" "rr_status r = []" "rr_entry r = None"
  shows "stopped ai i out"
proof -
  obtain vname where v: "x_vendor (rr_extract r) = Some vname" "ExactVendorMatch vname (run_candidates i vname) = None"
      "ask_vendor ai vname (run_candidates i vname) r = Inl out"
    using assms(1) by (auto simp: vendor_stage_def Let_def rbind_Inl_iff split: option.splits if_splits)
  show ?thesis
  proof (cases "ae_complete ai (BuildVendorMatchRequest vname (run_candidates i vname))")
    case (Inl e)
    then show ?thesis using v assms by (auto simp del: split_paired_Ex simp: ask_vendor_def stopped_def)
  next
    case (Inr raw)
    then show ?thesis
      using v assms gv.park_reason gv.issues_are_validator
      by (cases "ParseVendorMatch (ae_vendor ai) raw")
        (auto simp: ask_vendor_def stopped_def review_def park_reason_def Let_def split: if_splits)
  qed
qed

lemma classify_stops:
  assumes "classify_stage ai i r = Inl out" "rr_status r = []" "rr_entry r = None"
  shows "stopped ai i out"
proof (cases "ae_complete ai (BuildClassifyRequest (rr_extract r) (ri_accounts i))")
  case (Inl e)
  then show ?thesis using assms by (auto simp del: split_paired_Ex simp: classify_stage_def stopped_def split: if_splits)
next
  case (Inr raw)
  then show ?thesis
    using assms gc.park_reason gc.issues_are_validator
    by (cases "ParseClassify (ae_classify ai) raw")
      (auto simp: classify_stage_def stopped_def review_def park_reason_def Let_def split: if_splits)
qed

lemma stages_Inl_stopped:
  assumes "rbind (extract_stage ai i zero_result) (\<lambda>res. rbind (vendor_stage ai i res) (classify_stage ai i)) = Inl out"
  shows "stopped ai i out"
proof -
  have z: "rr_status zero_result = []" "rr_entry zero_result = None" by (simp_all add: zero_result_def)
  have xs: "extract_stage ai i zero_result = Inr r \<Longrightarrow> rr_status r = [] \<and> rr_entry r = None" for r
    using extract_stage_Inr [of ai i zero_result r] by (auto simp: zero_result_def)
  have vs: "vendor_stage ai i r = Inr r' \<Longrightarrow> rr_status r = [] \<Longrightarrow> rr_entry r = None \<Longrightarrow>
      rr_status r' = [] \<and> rr_entry r' = None" for r r'
    by (auto simp: vendor_stage_def ask_vendor_def vendor_default_def Let_def rbind_Inr_iff
        split: sum.splits if_splits option.splits)
  consider "extract_stage ai i zero_result = Inl out"
    | r where "extract_stage ai i zero_result = Inr r" "vendor_stage ai i r = Inl out"
    | r r' where "extract_stage ai i zero_result = Inr r" "vendor_stage ai i r = Inr r'"
        "classify_stage ai i r' = Inl out"
    using assms by (auto simp: rbind_Inl_iff)
  then show ?thesis
  proof cases
    case 1
    then show ?thesis by (rule extract_stops [OF _ z])
  next
    case 2
    then show ?thesis using xs vendor_stops by blast
  next
    case 3
    then show ?thesis using xs vs classify_stops by blast
  qed
qed

lemma stages_Inr_entry:
  assumes "rbind (extract_stage ai i zero_result) (\<lambda>res. rbind (vendor_stage ai i res) (classify_stage ai i)) = Inr res"
  shows "rr_entry res = None"
proof -
  obtain r1 r2 where 1: "extract_stage ai i zero_result = Inr r1" and 2: "vendor_stage ai i r1 = Inr r2"
    and 3: "classify_stage ai i r2 = Inr res"
    using assms by (auto simp: rbind_Inr_iff)
  have "rr_entry r1 = None" "rr_classify r1 = None" "rr_vendor_id r1 = None"
    using extract_stage_Inr [OF 1] by (auto simp: zero_result_def)
  then have "rr_entry r2 = None" using vendor_stage_Inr [OF 2] by simp
  then show ?thesis using 3 by (auto simp: classify_stage_def Let_def split: sum.splits if_splits)
qed

text \<open>The safety property of a run: a ready receipt carries a balanced entry for the extracted total.\<close>

definition ready_ok :: "run_input \<Rightarrow> run_result \<Rightarrow> bool" where
  "ready_ok i res \<longleftrightarrow>
     (\<exists>entry cl tot. rr_entry res = Some entry \<and> rr_classify res = Some cl \<and> balanced entry \<and>
        x_total (rr_extract res) = Some tot \<and> de_total entry = tot \<and> 0 < i64 tot \<and>
        set (map el_account (de_lines entry)) \<subseteq> {c_account cl, ri_credit i, ri_tax i}) \<and>
     extract_spec (rr_extract res) \<and> ExtractConfidenceMin \<le> x_confidence (rr_extract res) \<and>
     expense_ok i res \<and> vendor_ok i res"

lemma build_stage_ready:
  assumes "build_stage i res = (res', None)" "rr_status res' = ''ready''" "rr_classify res \<noteq> None"
    "expense_ok i res" "vendor_ok i res" "extract_spec (rr_extract res)"
    "ExtractConfidenceMin \<le> x_confidence (rr_extract res)"
  shows "ready_ok i res'"
proof -
  obtain entry where b: "BuildEntry (build_input i res) = Inr entry"
    and res': "res' = res\<lparr>rr_entry := Some entry, rr_status := ''ready''\<rparr>"
    using assms(1,2) by (auto simp: build_stage_def review_def split: sum.splits)
  obtain cl where cl: "rr_classify res = Some cl" using assms(3) by blast
  have "balanced entry" by (rule BuildEntry_balanced_aux [OF b])
  moreover have "\<exists>tot. x_total (rr_extract res) = Some tot \<and> de_total entry = tot \<and> 0 < i64 tot \<and>
        set (map el_account (de_lines entry)) \<subseteq> {c_account cl, ri_credit i, ri_tax i}"
    using b cl by (elim BuildEntry_Inr_cases) (auto simp: build_input_def debit_line_def credit_line_def)
  ultimately show ?thesis
    using assms cl by (auto simp: ready_ok_def res' expense_ok_def vendor_ok_def)
qed

section \<open>Properties\<close>

text \<open>A concrete receipt, resolved by an exact vendor match and a confident classification.\<close>

definition sample_extract :: extract_result where
  "sample_extract = \<lparr>x_vendor = Some ''ACME Inc.'', x_date = Some ''2024-02-29'', x_currency = Some ''USD'',
     x_subtotal = Some 1000, x_tax = Some 80, x_total = Some 1080, x_items = [], x_confidence = 9 / 10\<rparr>"

definition sample_ai :: ai_env where
  "sample_ai = \<lparr>ae_complete = (\<lambda>_. Inr []), ae_extract = (\<lambda>_. Inr sample_extract),
     ae_vendor = (\<lambda>_. Inl []), ae_classify = (\<lambda>_. Inr \<lparr>c_account = ''6100'', c_confidence = 95 / 100, c_reason = []\<rparr>)\<rparr>"

definition sample_input :: run_input where
  "sample_input = \<lparr>ri_ocr = ''ACME 10.80'', ri_accounts = [\<lparr>ar_code = ''6100'', ar_name = ''Office'', ar_type = ''expense''\<rparr>],
     ri_vendors = [\<lparr>vr_id = ''v1'', vr_name = ''Acme'', vr_tax_id = [], vr_pattern = [], vr_default_account = []\<rparr>],
     ri_candidates = None, ri_credit = ''1000'', ri_tax = ''2200''\<rparr>"



text \<open>
  C25.  A run never ends in between.  It stops without an entry on an error that the AI provider returned; or it is
  ready, with the entry that the builder made of its extraction, account and input; or it is parked for review without
  an entry, at the stage whose answer did not parse, was refused by its gate or could not be built into an entry, with
  exactly the issues of that parser, validator or builder.  An answer that is valid and only not confident enough
  parks the run with an empty list of issues.
\<close>

theorem Run_outcome:
  "case Run ai i of (res, err) \<Rightarrow>
     (case err of
        Some e \<Rightarrow> rr_status res = [] \<and> rr_entry res = None \<and> (\<exists>req. ae_complete ai req = Inl e)
      | None \<Rightarrow>
          if rr_status res = ''ready'' then (\<exists>entry. rr_entry res = Some entry \<and> BuildEntry (build_input i res) = Inr entry)
          else rr_status res = ''needs_review'' \<and> rr_entry res = None \<and> park_reason ai i res)"
proof (cases "rbind (extract_stage ai i zero_result) (\<lambda>res. rbind (vendor_stage ai i res) (classify_stage ai i))")
  case (Inl out)
  then show ?thesis
    using stages_Inl_stopped [OF Inl] by (cases out) (simp add: Run_def stopped_def split: option.splits)
next
  case (Inr r)
  then have "rr_entry r = None" using stages_Inr_entry by blast
  then show ?thesis
    using Inr by (auto simp: Run_def build_stage_def review_def park_reason_def build_input_def split: sum.splits)
qed

end
