(* ===== verification/Search_Docs.thy ===== *)
theory Search_Docs
  imports Go_Time Go_Float
begin

text \<open>
  The search documents, \<open>internal/search/search.go\<close>: the records handed to the search service and the
  functions that build them from ledger rows, receipts, accounts, vendors, statements and mileage, with
  \<open>NormalizeQuery\<close> and \<open>BestCandidate\<close>.  An instant is its Unix time in seconds; Go's zero time is
  \<open>zero_time\<close>; \<open>time.Now()\<close> is the argument \<open>now\<close>.  The lemmas show that the normal form of a query
  has no repeated or blank part, that a transaction's document lists each account once and carries the
  debit total, and that \<open>BestCandidate\<close> returns a best-scoring usable candidate.
\<close>

section \<open>Instants\<close>

type_synonym instant = int

definition zero_time :: instant where
  "zero_time = - 62135596800"

text \<open>Days since 1970-01-01 of a date of the proleptic Gregorian calendar, and back.\<close>

definition days_of_date :: "date \<Rightarrow> int" where
  "days_of_date d =
     (let y = (if d_month d \<le> 2 then d_year d - 1 else d_year d);
          era = y div 400;
          yoe = y - era * 400;
          mp = (d_month d + 9) mod 12;
          doy = (153 * mp + 2) div 5 + d_day d - 1;
          doe = yoe * 365 + yoe div 4 - yoe div 100 + doy
      in era * 146097 + doe - 719468)"

definition date_of_days :: "int \<Rightarrow> date" where
  "date_of_days n =
     (let z = n + 719468;
          era = z div 146097;
          doe = z - era * 146097;
          yoe = (doe - doe div 1460 + doe div 36524 - doe div 146096) div 365;
          y = yoe + era * 400;
          doy = doe - (365 * yoe + yoe div 4 - yoe div 100);
          mp = (5 * doy + 2) div 153;
          d = doy - (153 * mp + 2) div 5 + 1;
          m = (if mp < 10 then mp + 3 else mp - 9)
      in \<lparr>d_year = (if m \<le> 2 then y + 1 else y), d_month = m, d_day = d\<rparr>)"

text \<open>\<open>date.Unix()\<close> for a date at midnight UTC, and the date of an instant.\<close>

definition date_unix :: "date \<Rightarrow> instant" where
  "date_unix d = days_of_date d * 86400"

definition instant_date :: "instant \<Rightarrow> date" where
  "instant_date t = date_of_days (t div 86400)"

section \<open>Documents\<close>

record transaction_document =
  td_id :: string
  td_tenant :: string
  td_entity :: string
  td_transaction :: string
  td_date :: string
  td_date_unix :: int
  td_memo :: string
  td_description :: string
  td_account_ids :: "string list"
  td_account_names :: "string list"
  td_role_tags :: "string list"
  td_amount :: int64
  td_source :: string
  td_posted_at :: instant

record search_document =
  sd_id :: string
  sd_tenant :: string
  sd_entity :: string
  sd_kind :: string
  sd_object :: string
  sd_account :: string
  sd_account_name :: string
  sd_title :: string
  sd_subtitle :: string
  sd_body :: string
  sd_status :: string
  sd_tags :: "string list"
  sd_date :: string
  sd_date_unix :: int
  sd_amount :: int64
  sd_href :: string
  sd_indexed_at :: instant

record vendor_document =
  vd_id :: string
  vd_tenant :: string
  vd_entity :: string
  vd_name :: string
  vd_aliases :: "string list"
  vd_pattern :: string
  vd_tax_id :: string
  vd_website :: string
  vd_account :: string
  vd_receipts :: int
  vd_seen :: int

text \<open>The calls that change the search service's collections.\<close>

datatype search_call =
    UpsertTransaction transaction_document
  | UpsertDocument search_document
  | UpsertVendor vendor_document
  | DeleteDocument string
  | DeleteVendor string

record candidate =
  ca_transaction :: string
  ca_account :: string
  ca_account_name :: string
  ca_role_tags :: "string list"
  ca_memo :: string
  ca_description :: string
  ca_amount :: int64
  ca_date :: string
  ca_score :: rat

section \<open>Helpers\<close>

fun normalize_parts :: "string list \<Rightarrow> string list \<Rightarrow> string list" where
  "normalize_parts seen [] = []"
| "normalize_parts seen (p # ps) =
     (let n = join (str_fields (trim_space p)) '' '' in
      if n = [] then normalize_parts seen ps
      else if to_lower n \<in> set seen then normalize_parts seen ps
      else n # normalize_parts (to_lower n # seen) ps)"

definition NormalizeQuery :: "string list \<Rightarrow> string" where
  "NormalizeQuery parts = join (normalize_parts [] parts) '' ''"

fun first_non_blank :: "string list \<Rightarrow> string" where
  "first_non_blank [] = []"
| "first_non_blank (v # vs) = (if trim_space v \<noteq> [] then v else first_non_blank vs)"

definition firstNonEmpty :: "string list \<Rightarrow> string" where
  "firstNonEmpty vs = first_non_blank vs"

definition firstString :: "string list \<Rightarrow> string" where
  "firstString vs = first_non_blank vs"

fun best_loop :: "candidate \<Rightarrow> candidate list \<Rightarrow> candidate" where
  "best_loop best [] = best"
| "best_loop best (c # cs) = (if ca_score best < ca_score c then best_loop c cs else best_loop best cs)"

definition BestCandidate :: "candidate list \<Rightarrow> rat \<Rightarrow> candidate option" where
  "BestCandidate candidates minScore =
     (case candidates of
        [] \<Rightarrow> None
      | c # cs \<Rightarrow>
          let best = best_loop c cs in
          if trim_space (ca_account best) = [] \<or> ca_score best < minScore then None else Some best)"

section \<open>Building documents\<close>

record entry_data =
  ed_account :: string
  ed_debit :: int64
  ed_credit :: int64

record account_data =
  ad_id :: string
  ad_entity :: string
  ad_name :: string
  ad_type :: string
  ad_tags :: "string list"
  ad_created :: instant

record receipt_data =
  rd_id :: string
  rd_entity :: string
  rd_kind :: string
  rd_status :: string
  rd_content_type :: string
  rd_original :: string
  rd_total :: int64
  rd_tags :: "string list"
  rd_uploaded :: instant

record statement_data =
  st_id :: string
  st_entity :: string
  st_account :: string
  st_account_name :: string
  st_account_type :: string
  st_source_name :: string
  st_period_start :: "date option"
  st_period_end :: "date option"
  st_ending :: int64
  st_status :: string
  st_notes :: string
  st_created :: instant
  st_updated :: instant

record vendor_data =
  vda_id :: string
  vda_entity :: string
  vda_name :: string
  vda_pattern :: string
  vda_tax_id :: string
  vda_website :: string
  vda_account :: string
  vda_aliases :: "string list"
  vda_receipts :: int
  vda_seen :: int

record mileage_data =
  md_id :: string
  md_entity :: string
  md_date :: "date option"
  md_start :: string
  md_end :: string
  md_purpose :: string
  md_context :: string
  md_created :: instant
  md_updated :: instant

text \<open>A Go map filled in slice order: the last account with an id wins; a missing key reads as zero.\<close>

definition name_by_id :: "account_data list \<Rightarrow> string \<Rightarrow> string" where
  "name_by_id accounts i = (case find (\<lambda>a. ad_id a = i) (rev accounts) of None \<Rightarrow> [] | Some a \<Rightarrow> ad_name a)"

definition tags_by_id :: "account_data list \<Rightarrow> string \<Rightarrow> string list" where
  "tags_by_id accounts i = (case find (\<lambda>a. ad_id a = i) (rev accounts) of None \<Rightarrow> [] | Some a \<Rightarrow> ad_tags a)"

definition doc_account_ids :: "entry_data list \<Rightarrow> string list" where
  "doc_account_ids entries = dedup_from [] (filter (\<lambda>a. trim_space a \<noteq> []) (map ed_account entries))"

definition TransactionDocumentFromData ::
  "string \<Rightarrow> string \<Rightarrow> string \<Rightarrow> date \<Rightarrow> string \<Rightarrow> entry_data list \<Rightarrow> account_data list \<Rightarrow> instant \<Rightarrow> transaction_document" where
  "TransactionDocumentFromData tenant tid ent d memo entries accounts created =
     (let ids = doc_account_ids entries;
          names = filter (\<lambda>n. n \<noteq> []) (map (name_by_id accounts) ids);
          tags = dedup_from [] (filter (\<lambda>t. trim_space t \<noteq> []) (concat (map (tags_by_id accounts) ids)))
      in \<lparr>td_id = tid, td_tenant = tenant, td_entity = ent, td_transaction = tid, td_date = format_iso d,
          td_date_unix = date_unix d, td_memo = memo,
          td_description = NormalizeQuery [memo, join names '' '', join tags '' ''], td_account_ids = ids,
          td_account_names = names, td_role_tags = tags, td_amount = sum64 ed_debit entries,
          td_source = ''transaction'', td_posted_at = created\<rparr>)"

definition SearchDocumentFromTransaction :: "instant \<Rightarrow> transaction_document \<Rightarrow> search_document" where
  "SearchDocumentFromTransaction now doc =
     (let dateUnix = (if td_date_unix doc = 0
            then (case parse_iso (td_date doc) of None \<Rightarrow> 0 | Some d \<Rightarrow> date_unix d) else td_date_unix doc);
          indexedAt = (if td_posted_at doc = zero_time then now else td_posted_at doc)
      in \<lparr>sd_id = ''transaction_'' @ td_transaction doc, sd_tenant = td_tenant doc, sd_entity = td_entity doc,
          sd_kind = ''transaction'', sd_object = td_transaction doc, sd_account = firstString (td_account_ids doc),
          sd_account_name = firstString (td_account_names doc), sd_title = firstNonEmpty [td_memo doc, ''Transaction''],
          sd_subtitle = join (td_account_names doc) '', '',
          sd_body = NormalizeQuery [td_memo doc, td_description doc, join (td_account_names doc) '' '',
            join (td_role_tags doc) '' ''],
          sd_status = ''posted'', sd_tags = td_role_tags doc, sd_date = td_date doc, sd_date_unix = dateUnix,
          sd_amount = td_amount doc, sd_href = ''/transactions'', sd_indexed_at = indexedAt\<rparr>)"

definition SearchDocumentFromReceipt :: "instant \<Rightarrow> string \<Rightarrow> receipt_data \<Rightarrow> search_document" where
  "SearchDocumentFromReceipt now tenant r =
     (let kind = (if trim_space (rd_kind r) = [] then ''receipt'' else rd_kind r);
          title = firstNonEmpty [rd_original r, kind];
          known = rd_uploaded r \<noteq> zero_time;
          href = (if kind = ''import'' then ''/imports/'' @ rd_id r else ''/receipts/'' @ rd_id r)
      in \<lparr>sd_id = kind @ ''_'' @ rd_id r, sd_tenant = tenant, sd_entity = rd_entity r, sd_kind = kind,
          sd_object = rd_id r, sd_account = [], sd_account_name = [], sd_title = title,
          sd_subtitle = firstNonEmpty [join (rd_tags r) '', '', rd_status r],
          sd_body = NormalizeQuery [title, rd_content_type r, rd_status r, kind, join (rd_tags r) '' ''],
          sd_status = rd_status r, sd_tags = rd_tags r,
          sd_date = (if known then format_iso (instant_date (rd_uploaded r)) else []),
          sd_date_unix = (if known then rd_uploaded r else 0), sd_amount = rd_total r, sd_href = href,
          sd_indexed_at = (if known then rd_uploaded r else now)\<rparr>)"

definition SearchDocumentFromAccount :: "instant \<Rightarrow> string \<Rightarrow> account_data \<Rightarrow> search_document" where
  "SearchDocumentFromAccount now tenant a =
     \<lparr>sd_id = ''account_'' @ ad_id a, sd_tenant = tenant, sd_entity = ad_entity a, sd_kind = ''account'',
      sd_object = ad_id a, sd_account = ad_id a, sd_account_name = ad_name a,
      sd_title = firstNonEmpty [ad_name a, ''Account''], sd_subtitle = ad_type a,
      sd_body = NormalizeQuery [ad_name a, ad_type a, join (ad_tags a) '' ''], sd_status = ''active'',
      sd_tags = ad_tags a, sd_date = [], sd_date_unix = 0, sd_amount = 0, sd_href = ''/accounts'',
      sd_indexed_at = (if ad_created a = zero_time then now else ad_created a)\<rparr>"

definition SearchDocumentFromVendor :: "instant \<Rightarrow> string \<Rightarrow> vendor_data \<Rightarrow> search_document" where
  "SearchDocumentFromVendor now tenant v =
     \<lparr>sd_id = ''vendor_'' @ vda_id v, sd_tenant = tenant, sd_entity = vda_entity v, sd_kind = ''vendor'',
      sd_object = vda_id v, sd_account = vda_account v, sd_account_name = [],
      sd_title = firstNonEmpty [vda_name v, ''Vendor''],
      sd_subtitle = (if vda_pattern v = [] then vda_website v else vda_pattern v),
      sd_body = NormalizeQuery [vda_name v, vda_pattern v, vda_website v], sd_status = ''active'', sd_tags = [],
      sd_date = [], sd_date_unix = 0, sd_amount = 0, sd_href = ''/vendors'', sd_indexed_at = now\<rparr>"

definition VendorDocumentFromData :: "string \<Rightarrow> vendor_data \<Rightarrow> vendor_document" where
  "VendorDocumentFromData tenant v =
     \<lparr>vd_id = vda_id v, vd_tenant = tenant, vd_entity = vda_entity v, vd_name = vda_name v,
      vd_aliases = vda_aliases v, vd_pattern = vda_pattern v, vd_tax_id = vda_tax_id v, vd_website = vda_website v,
      vd_account = vda_account v, vd_receipts = vda_receipts v, vd_seen = vda_seen v\<rparr>"

definition indexed_at :: "instant \<Rightarrow> instant \<Rightarrow> instant \<Rightarrow> instant" where
  "indexed_at now updated created =
     (if updated \<noteq> zero_time then updated else if created \<noteq> zero_time then created else now)"

definition SearchDocumentFromStatement :: "instant \<Rightarrow> string \<Rightarrow> statement_data \<Rightarrow> search_document" where
  "SearchDocumentFromStatement now tenant s =
     (let title0 = firstNonEmpty [st_account_name s, ''Account statement''];
          title = (case (st_period_start s, st_period_end s) of (Some _, Some _) \<Rightarrow> title0 @ '' statement'' | _ \<Rightarrow> title0);
          period = (case (st_period_start s, st_period_end s) of
              (Some a, Some b) \<Rightarrow> format_iso a @ '' to '' @ format_iso b | _ \<Rightarrow> [])
      in \<lparr>sd_id = ''statement_'' @ st_id s, sd_tenant = tenant, sd_entity = st_entity s, sd_kind = ''statement'',
          sd_object = st_id s, sd_account = st_account s, sd_account_name = st_account_name s, sd_title = title,
          sd_subtitle = firstNonEmpty [period, st_status s],
          sd_body = NormalizeQuery [st_account_name s, st_account_type s, st_source_name s, st_status s, st_notes s, period],
          sd_status = st_status s, sd_tags = [],
          sd_date = (case st_period_end s of None \<Rightarrow> [] | Some d \<Rightarrow> format_iso d),
          sd_date_unix = (case st_period_end s of None \<Rightarrow> 0 | Some d \<Rightarrow> date_unix d), sd_amount = st_ending s,
          sd_href = ''/statements'', sd_indexed_at = indexed_at now (st_updated s) (st_created s)\<rparr>)"

definition SearchDocumentFromMileage :: "instant \<Rightarrow> string \<Rightarrow> mileage_data \<Rightarrow> search_document" where
  "SearchDocumentFromMileage now tenant m =
     \<lparr>sd_id = ''mileage_'' @ md_id m, sd_tenant = tenant, sd_entity = md_entity m, sd_kind = ''mileage'',
      sd_object = md_id m, sd_account = [], sd_account_name = [], sd_title = firstNonEmpty [md_purpose m, ''Mileage''],
      sd_subtitle = join (filter (\<lambda>l. l \<noteq> []) [md_start m, md_end m]) '' to '',
      sd_body = NormalizeQuery [md_purpose m, md_start m, md_end m, md_context m], sd_status = ''logged'', sd_tags = [],
      sd_date = (case md_date m of None \<Rightarrow> [] | Some d \<Rightarrow> format_iso d),
      sd_date_unix = (case md_date m of None \<Rightarrow> 0 | Some d \<Rightarrow> date_unix d), sd_amount = 0, sd_href = ''/mileage'',
      sd_indexed_at = indexed_at now (md_updated m) (md_created m)\<rparr>"

section \<open>Properties\<close>

text \<open>The parts of a normalised query: none is blank and no two agree up to case.\<close>

lemma normalize_parts_distinct:
  "distinct (map to_lower (normalize_parts seen ps)) \<and> set (map to_lower (normalize_parts seen ps)) \<inter> set seen = {} \<and>
   [] \<notin> set (normalize_parts seen ps)"
  by (induction seen ps rule: normalize_parts.induct) (auto simp: Let_def)

lemma best_loop_mem: "best_loop b cs \<in> set (b # cs)"
  by (induction cs arbitrary: b) auto

lemma best_loop_ge: "ca_score b \<le> ca_score (best_loop b cs)"
proof (induction cs arbitrary: b)
  case Nil
  then show ?case by simp
next
  case (Cons d cs)
  show ?case using Cons [of d] Cons [of b] by (cases "ca_score b < ca_score d") auto
qed

lemma best_loop_max: "c \<in> set cs \<Longrightarrow> ca_score c \<le> ca_score (best_loop b cs)"
proof (induction cs arbitrary: b)
  case Nil
  then show ?case by simp
next
  case (Cons d cs)
  have "ca_score d \<le> ca_score (best_loop b (d # cs))"
    using best_loop_ge [of d cs] best_loop_ge [of b cs] by (cases "ca_score b < ca_score d") auto
  then show ?case using Cons by auto
qed

lemma BestCandidate_Some:
  "BestCandidate cs m = Some b \<Longrightarrow>
     b \<in> set cs \<and> (\<forall>c\<in>set cs. ca_score c \<le> ca_score b) \<and> m \<le> ca_score b \<and> trim_space (ca_account b) \<noteq> []"
  using best_loop_mem [of "hd cs" "tl cs"] best_loop_ge [of "hd cs" "tl cs"] best_loop_max [of _ "tl cs" "hd cs"]
  by (auto simp: BestCandidate_def Let_def split: list.splits if_splits)

lemma doc_account_ids_props:
  "distinct (doc_account_ids es) \<and> set (doc_account_ids es) = {a \<in> ed_account ` set es. trim_space a \<noteq> []}"
  by (auto simp: doc_account_ids_def distinct_dedup_from set_dedup_from)

lemma TransactionDocument_amount:
  "td_amount (TransactionDocumentFromData ten t e d m es as c) = sum64 ed_debit es"
  by (simp add: TransactionDocumentFromData_def Let_def)

end
