(* ===== verification/Search_Query.thy ===== *)
theory Search_Query
  imports Search_Docs
begin

text \<open>
  The query side of \<open>internal/search/typesense.go\<close>: the request bodies of the four searches, the filter
  expressions with their escaping, limits, and scores.  The HTTP exchange with the Typesense service
  (\<open>doJSON\<close>) is the argument \<open>post\<close> of each search.  The lemmas show tenant isolation: read the way
  Typesense reads a filter, where text between back quotes is literal, the expression of every search is
  a conjunction whose first two clauses fix the tenant and the entity, whatever the caller supplies.
\<close>

definition bq :: char where
  "bq = CHR 0x60"

definition escapeFilterValue :: "string \<Rightarrow> string" where
  "escapeFilterValue v = [bq] @ filter (\<lambda>c. c \<noteq> bq) v @ [bq]"

definition escapedFilterValues :: "string list \<Rightarrow> string list" where
  "escapedFilterValues vs = map escapeFilterValue (filter (\<lambda>v. trim_space v \<noteq> []) vs)"

definition entityFilter :: "string \<Rightarrow> string \<Rightarrow> string" where
  "entityFilter tenantID entityID =
     join ((if trim_space tenantID \<noteq> [] then [''tenant_id:='' @ escapeFilterValue tenantID] else []) @
           (if trim_space entityID \<noteq> [] then [''entity_id:='' @ escapeFilterValue entityID] else [])) '' && ''"

definition searchQ :: "string \<Rightarrow> string" where
  "searchQ query = (let q = trim_space query in if q = [] then ''*'' else q)"

definition dateUnixFromQuery :: "string \<Rightarrow> bool \<Rightarrow> int option" where
  "dateUnixFromQuery value endOfDay =
     (let v = trim_space value in
      if v = [] then None
      else case parse_iso v of
        None \<Rightarrow> None
      | Some d \<Rightarrow> Some (if endOfDay then date_unix d + 86399 else date_unix d))"

section \<open>Scores\<close>

definition textMatchScore :: "int64 \<Rightarrow> rat" where
  "textMatchScore raw =
     (if i64 raw \<le> 0 then fl64 (1 / 2)
      else if 1000000 \<le> i64 raw then 1
      else fl64 (fl64 (1 / 2) + fl64 (of_int (i64 raw) / 2000000)))"

definition amountSimilarity :: "int64 \<Rightarrow> int64 \<Rightarrow> rat" where
  "amountSimilarity want got =
     (if i64 want \<le> 0 \<or> i64 got \<le> 0 then 1
      else let diff0 = want - got;
               diff = (if i64 diff0 < 0 then - diff0 else diff0)
           in if diff = 0 then 1
              else let larger = (if i64 want < i64 got then got else want);
                       ratio = fl64 (fl64 (of_int (i64 diff)) / fl64 (of_int (i64 larger)))
                   in if 1 \<le> ratio then fl64 (1 / 2) else fl64 (1 - fl64 (ratio * fl64 (1 / 2))))"

section \<open>Requests\<close>

record search_body =
  sb_q :: string
  sb_query_by :: string
  sb_filter_by :: string
  sb_per_page :: int
  sb_sort_by :: string

record document_query =
  dq_tenant :: string
  dq_entity :: string
  dq_query :: string
  dq_kinds :: "string list"
  dq_statuses :: "string list"
  dq_accounts :: "string list"
  dq_tags :: "string list"
  dq_start :: string
  dq_end :: string
  dq_limit :: int

record scoped_query =
  sq_tenant :: string
  sq_entity :: string
  sq_query :: string
  sq_amount :: int64
  sq_limit :: int

definition clamp_limit :: "int \<Rightarrow> int \<Rightarrow> int \<Rightarrow> int" where
  "clamp_limit mx dflt limit = (if limit \<le> 0 \<or> mx < limit then dflt else limit)"

definition scope_missing :: "string \<Rightarrow> string \<Rightarrow> bool" where
  "scope_missing tenantID entityID \<longleftrightarrow> trim_space tenantID = [] \<or> trim_space entityID = []"

definition ErrScopeRequired :: string where
  "ErrScopeRequired = ''tenant_id and entity_id are required''"

definition values_clause :: "string \<Rightarrow> string list \<Rightarrow> string" where
  "values_clause field vs =
     (if 0 < length vs
      then (let escaped = escapedFilterValues vs in
            if 0 < length escaped then '' && '' @ field @ '':=['' @ join escaped '','' @ '']'' else [])
      else [])"

definition document_filter :: "document_query \<Rightarrow> string" where
  "document_filter q =
     entityFilter (dq_tenant q) (dq_entity q) @ values_clause ''kind'' (dq_kinds q) @
     values_clause ''status'' (dq_statuses q) @ values_clause ''account_id'' (dq_accounts q) @
     values_clause ''tags'' (dq_tags q) @
     (case dateUnixFromQuery (dq_start q) False of None \<Rightarrow> [] | Some t \<Rightarrow> '' && date_unix:>='' @ int_str t) @
     (case dateUnixFromQuery (dq_end q) True of None \<Rightarrow> [] | Some t \<Rightarrow> '' && date_unix:<='' @ int_str t)"

definition document_body :: "document_query \<Rightarrow> search_body" where
  "document_body q = \<lparr>sb_q = searchQ (dq_query q),
     sb_query_by = ''title,subtitle,body,status,kind,account_name,tags'', sb_filter_by = document_filter q,
     sb_per_page = clamp_limit 50 20 (dq_limit q), sb_sort_by = ''_text_match:desc,date_unix:desc''\<rparr>"

definition transaction_body :: "int \<Rightarrow> int \<Rightarrow> scoped_query \<Rightarrow> search_body" where
  "transaction_body mx dflt q = \<lparr>sb_q = searchQ (sq_query q),
     sb_query_by = ''memo,description,account_names,account_role_tags'',
     sb_filter_by = entityFilter (sq_tenant q) (sq_entity q),
     sb_per_page = clamp_limit mx dflt (sq_limit q), sb_sort_by = ''_text_match:desc,date_unix:desc''\<rparr>"

definition vendor_body :: "scoped_query \<Rightarrow> search_body" where
  "vendor_body q = \<lparr>sb_q = searchQ (sq_query q), sb_query_by = ''name,aliases,match_pattern'',
     sb_filter_by = entityFilter (sq_tenant q) (sq_entity q),
     sb_per_page = clamp_limit 50 10 (sq_limit q), sb_sort_by = ''_text_match:desc,receipt_count:desc''\<rparr>"

section \<open>Searches\<close>

text \<open>\<open>post\<close> sends a body to a collection and returns the hits with their text-match numbers.\<close>

definition SearchDocuments ::
  "(search_body \<Rightarrow> string + (search_document \<times> int64) list) \<Rightarrow> document_query \<Rightarrow> string + (search_document \<times> rat) list" where
  "SearchDocuments post q =
     (if scope_missing (dq_tenant q) (dq_entity q) then Inl ErrScopeRequired
      else rbind (post (document_body q)) (\<lambda>hits. Inr (map (\<lambda>(d, m). (d, textMatchScore m)) hits)))"

definition SearchTransactions ::
  "(search_body \<Rightarrow> string + (transaction_document \<times> int64) list) \<Rightarrow> scoped_query \<Rightarrow>
     string + (transaction_document \<times> rat) list" where
  "SearchTransactions post q =
     (if scope_missing (sq_tenant q) (sq_entity q) then Inl ErrScopeRequired
      else rbind (post (transaction_body 50 10 q)) (\<lambda>hits. Inr (map (\<lambda>(d, m). (d, textMatchScore m)) hits)))"

definition SearchVendors ::
  "(search_body \<Rightarrow> string + (vendor_document \<times> int64) list) \<Rightarrow> scoped_query \<Rightarrow> string + (vendor_document \<times> rat) list" where
  "SearchVendors post q =
     (if scope_missing (sq_tenant q) (sq_entity q) then Inl ErrScopeRequired
      else rbind (post (vendor_body q)) (\<lambda>hits. Inr (map (\<lambda>(d, m). (d, textMatchScore m)) hits)))"

definition hd_or_empty :: "string list \<Rightarrow> string" where
  "hd_or_empty xs = (case xs of [] \<Rightarrow> [] | x # _ \<Rightarrow> x)"

definition candidate_of :: "scoped_query \<Rightarrow> transaction_document \<times> int64 \<Rightarrow> candidate" where
  "candidate_of q = (\<lambda>(doc, m).
     let score = textMatchScore m;
         score' = (if 0 < i64 (sq_amount q) \<and> 0 < i64 (td_amount doc)
                   then fl64 (score * amountSimilarity (sq_amount q) (td_amount doc)) else score)
     in \<lparr>ca_transaction = td_transaction doc, ca_account = hd_or_empty (td_account_ids doc),
         ca_account_name = hd_or_empty (td_account_names doc), ca_role_tags = td_role_tags doc, ca_memo = td_memo doc,
         ca_description = td_description doc, ca_amount = td_amount doc, ca_date = td_date doc, ca_score = score'\<rparr>)"

definition SuggestCandidates ::
  "(search_body \<Rightarrow> string + (transaction_document \<times> int64) list) \<Rightarrow> scoped_query \<Rightarrow> string + candidate list" where
  "SuggestCandidates post q =
     (if scope_missing (sq_tenant q) (sq_entity q) then Inl ErrScopeRequired
      else rbind (post (transaction_body 10 5 q)) (\<lambda>hits. Inr (map (candidate_of q) hits)))"

text \<open>The writes: the document that is sent, or the error that stops it.\<close>

definition checked_transaction :: "transaction_document \<Rightarrow> string + transaction_document" where
  "checked_transaction d =
     (if scope_missing (td_tenant d) (td_entity d) then Inl ErrScopeRequired
      else Inr (d\<lparr>td_id := (if td_id d = [] then td_transaction d else td_id d),
                 td_source := (if td_source d = [] then ''transaction'' else td_source d)\<rparr>))"

definition checked_document :: "instant \<Rightarrow> search_document \<Rightarrow> string + search_document" where
  "checked_document now d =
     (if scope_missing (sd_tenant d) (sd_entity d) then Inl ErrScopeRequired
      else if trim_space (sd_kind d) = [] \<or> trim_space (sd_object d) = [] then Inl ''kind and object_id are required''
      else Inr (d\<lparr>sd_id := (if sd_id d = [] then sd_kind d @ ''_'' @ sd_object d else sd_id d),
                 sd_indexed_at := (if sd_indexed_at d = zero_time then now else sd_indexed_at d)\<rparr>))"

definition checked_vendor :: "vendor_document \<Rightarrow> string + vendor_document" where
  "checked_vendor d =
     (if scope_missing (vd_tenant d) (vd_entity d) then Inl ErrScopeRequired
      else if trim_space (vd_id d) = [] then Inl ''vendor document id is required''
      else Inr d)"

section \<open>Reading a filter expression\<close>

text \<open>Split at \<open>&&\<close> outside back quotes, as the service does.\<close>

fun clauses_from :: "bool \<Rightarrow> string \<Rightarrow> string \<Rightarrow> string list" where
  "clauses_from quoted acc [] = [rev acc]"
| "clauses_from quoted acc (c # s) =
     (if c = bq then clauses_from (\<not> quoted) (c # acc) s
      else if \<not> quoted \<and> c = CHR '' '' \<and> take 3 s = ''&& '' then rev acc # clauses_from False [] (drop 3 s)
      else clauses_from quoted (c # acc) s)"

definition filter_clauses :: "string \<Rightarrow> string list" where
  "filter_clauses s = clauses_from False [] s"

text \<open>A piece of text that the reader passes over without splitting or changing its quoting.\<close>

definition inert :: "string \<Rightarrow> bool" where
  "inert x \<longleftrightarrow> (\<forall>acc rest. clauses_from False acc (x @ rest) = clauses_from False (rev x @ acc) rest)"

lemma inert_plain: "CHR '' '' \<notin> set x \<Longrightarrow> bq \<notin> set x \<Longrightarrow> inert x"
proof -
  have "clauses_from False acc (x @ rest) = clauses_from False (rev x @ acc) rest"
    if "CHR '' '' \<notin> set x" "bq \<notin> set x" for acc rest
    using that by (induction x arbitrary: acc) auto
  then show "CHR '' '' \<notin> set x \<Longrightarrow> bq \<notin> set x \<Longrightarrow> inert x" by (simp add: inert_def)
qed

lemma inert_append: "inert x \<Longrightarrow> inert y \<Longrightarrow> inert (x @ y)"
  by (simp add: inert_def)

lemma inert_Nil: "inert []"
  by (simp add: inert_def)

lemma quoted_passes: "bq \<notin> set v \<Longrightarrow> clauses_from True acc (v @ bq # rest) = clauses_from False (bq # rev v @ acc) rest"
  by (induction v arbitrary: acc) auto

lemma inert_escape: "inert (escapeFilterValue v)"
  by (simp add: inert_def escapeFilterValue_def quoted_passes)

lemma inert_join_escaped: "inert (join (escapedFilterValues vs) '','')"
proof -
  have "inert (join (map escapeFilterValue ws) '','')" for ws
  proof (induction "map escapeFilterValue ws" "'',''" arbitrary: ws rule: join.induct)
    case (3 s t ss)
    then obtain w u ws' where ws: "ws = w # u # ws'" "t # ss = map escapeFilterValue (u # ws')" by (auto simp: Cons_eq_map_conv)
    have "inert (join (map escapeFilterValue (u # ws')) '','')" using 3(1) [of "u # ws'"] ws by simp
    then show ?case
      using inert_append [OF inert_escape [of w] inert_append [OF inert_plain [of "'',''"]]]
      by (simp add: ws bq_def)
  qed (auto simp: inert_Nil Cons_eq_map_conv inert_escape)
  then show ?thesis by (simp add: escapedFilterValues_def)
qed

lemma clauses_inert_end: "inert x \<Longrightarrow> clauses_from False acc x = [rev acc @ x]"
  unfolding inert_def by (metis append_Nil2 clauses_from.simps(1) rev_append rev_rev_ident)

lemma clauses_inert_amp:
  "inert x \<Longrightarrow> clauses_from False acc (x @ '' && '' @ rest) = (rev acc @ x) # clauses_from False [] rest"
  by (simp add: inert_def bq_def)

text \<open>Inert clauses joined with \<open>&&\<close> are read back as they are.\<close>

lemma clauses_conj:
  "list_all inert (c # cs) \<Longrightarrow> filter_clauses (c @ concat (map (\<lambda>d. '' && '' @ d) cs)) = c # cs"
proof -
  have "list_all inert (c # cs) \<Longrightarrow> clauses_from False acc (c @ concat (map (\<lambda>d. '' && '' @ d) cs)) = (rev acc @ c) # cs" for acc
  proof (induction cs arbitrary: c acc)
    case Nil
    then show ?case by (simp add: clauses_inert_end)
  next
    case (Cons d ds)
    then have "clauses_from False acc (c @ '' && '' @ (d @ concat (map (\<lambda>d. '' && '' @ d) ds))) =
        (rev acc @ c) # clauses_from False [] (d @ concat (map (\<lambda>d. '' && '' @ d) ds))"
      by (intro clauses_inert_amp) simp
    then show ?case using Cons.IH [of d "[]"] Cons.prems by simp
  qed
  then show "list_all inert (c # cs) \<Longrightarrow> filter_clauses (c @ concat (map (\<lambda>d. '' && '' @ d) cs)) = c # cs"
    by (simp add: filter_clauses_def)
qed

definition opt_clause :: "string \<Rightarrow> string list \<Rightarrow> string list" where
  "opt_clause field vs = (if escapedFilterValues vs = [] then [] else [field @ '':=['' @ join (escapedFilterValues vs) '','' @ '']''])"

lemma values_clause_eq: "values_clause field vs = concat (map (\<lambda>d. '' && '' @ d) (opt_clause field vs))"
  by (auto simp: values_clause_def opt_clause_def Let_def escapedFilterValues_def)

lemma inert_opt_clause:
  assumes "CHR '' '' \<notin> set field" "bq \<notin> set field"
  shows "list_all inert (opt_clause field vs)"
proof -
  have "inert ((field @ '':=['') @ join (escapedFilterValues vs) '','' @ '']'')"
    by (intro inert_append inert_join_escaped inert_plain) (use assms in \<open>auto simp: bq_def\<close>)
  then show ?thesis by (simp add: opt_clause_def)
qed

lemma bq_chars:
  "CHR '' '' \<notin> set ''kind''" "CHR '' '' \<notin> set ''status''" "CHR '' '' \<notin> set ''account_id''" "CHR '' '' \<notin> set ''tags''"
  "bq \<notin> set ''kind''" "bq \<notin> set ''status''" "bq \<notin> set ''account_id''" "bq \<notin> set ''tags''"
  by (simp_all add: bq_def)

lemma inert_opt_clauses:
  "list_all inert (opt_clause ''kind'' vs)" "list_all inert (opt_clause ''status'' vs)"
  "list_all inert (opt_clause ''account_id'' vs)" "list_all inert (opt_clause ''tags'' vs)"
  using inert_opt_clause [of "''kind''"] inert_opt_clause [of "''status''"] inert_opt_clause [of "''account_id''"]
    inert_opt_clause [of "''tags''"] by (simp_all only: bq_chars simp_thms)

lemma nat_str_inert: "inert (nat_str n)"
proof (rule inert_plain)
  have d: "\<forall>c\<in>set (nat_str n). is_digit c" using nat_str_digits [of n] by (simp add: list_all_iff)
  have "\<not> is_digit (CHR '' '')" "\<not> is_digit bq" by (simp_all add: is_digit_def bq_def)
  then show "CHR '' '' \<notin> set (nat_str n)" "bq \<notin> set (nat_str n)" using d by blast+
qed

lemma int_str_inert: "inert (int_str n)"
proof -
  have "inert (''-'' @ nat_str (- n))" by (intro inert_append nat_str_inert inert_plain) (simp_all add: bq_def)
  then show ?thesis by (simp add: int_str_def nat_str_inert)
qed

lemma scope_clause_inert: "inert (''tenant_id:='' @ escapeFilterValue t)" "inert (''entity_id:='' @ escapeFilterValue e)"
  by (rule inert_append [OF inert_plain inert_escape]; simp add: bq_def)+

lemma entityFilter_scoped:
  "\<not> scope_missing t e \<Longrightarrow>
     entityFilter t e = (''tenant_id:='' @ escapeFilterValue t) @ concat (map (\<lambda>d. '' && '' @ d) [''entity_id:='' @ escapeFilterValue e])"
  by (simp add: entityFilter_def scope_missing_def)

lemma entityFilter_clauses:
  "\<not> scope_missing t e \<Longrightarrow>
     filter_clauses (entityFilter t e) = [''tenant_id:='' @ escapeFilterValue t, ''entity_id:='' @ escapeFilterValue e]"
  by (subst entityFilter_scoped, assumption, rule clauses_conj) (simp only: list.pred_inject scope_clause_inert simp_thms)

definition date_clauses :: "document_query \<Rightarrow> string list" where
  "date_clauses q =
     (case dateUnixFromQuery (dq_start q) False of None \<Rightarrow> [] | Some t \<Rightarrow> [''date_unix:>='' @ int_str t]) @
     (case dateUnixFromQuery (dq_end q) True of None \<Rightarrow> [] | Some t \<Rightarrow> [''date_unix:<='' @ int_str t])"

lemma date_clauses_inert: "list_all inert (date_clauses q)"
proof -
  have "inert (''date_unix:>='' @ int_str t)" "inert (''date_unix:<='' @ int_str t)" for t
    by (rule inert_append [OF inert_plain int_str_inert]; simp add: bq_def)+
  then show ?thesis unfolding date_clauses_def by (simp only: list_all_append list.pred_inject split: option.split) simp
qed

lemma document_filter_eq:
  "\<not> scope_missing (dq_tenant q) (dq_entity q) \<Longrightarrow>
     document_filter q = (''tenant_id:='' @ escapeFilterValue (dq_tenant q)) @
       concat (map (\<lambda>d. '' && '' @ d)
         ((''entity_id:='' @ escapeFilterValue (dq_entity q)) # opt_clause ''kind'' (dq_kinds q) @
          opt_clause ''status'' (dq_statuses q) @ opt_clause ''account_id'' (dq_accounts q) @
          opt_clause ''tags'' (dq_tags q) @ date_clauses q))"
  by (simp add: document_filter_def entityFilter_scoped values_clause_eq date_clauses_def split: option.split)

lemma document_filter_clauses:
  "\<not> scope_missing (dq_tenant q) (dq_entity q) \<Longrightarrow>
     filter_clauses (document_filter q) =
       (''tenant_id:='' @ escapeFilterValue (dq_tenant q)) # (''entity_id:='' @ escapeFilterValue (dq_entity q)) #
       opt_clause ''kind'' (dq_kinds q) @ opt_clause ''status'' (dq_statuses q) @
       opt_clause ''account_id'' (dq_accounts q) @ opt_clause ''tags'' (dq_tags q) @ date_clauses q"
  by (subst document_filter_eq, assumption, subst clauses_conj)
    (simp_all only: list.pred_inject list_all_append scope_clause_inert inert_opt_clauses
      date_clauses_inert simp_thms)

end
