(* ===== verification/Db.thy ===== *)
theory Db
  imports Search_Docs
begin

text \<open>
  The PostgreSQL database as the stores of \<open>internal/db\<close> use it: one record of tables, a statement
  monad and transactions.

  \<^item> A table is the list of its rows in insertion order; row types carry the columns that the modelled
    code reads or writes.  A nullable column is an \<open>option\<close>; \<open>TIMESTAMPTZ\<close> is an integer instant.
  \<^item> \<open>'a dbm\<close> is a Go function with results \<open>('a, error)\<close> that talks to the database: it takes the
    state and returns the error (\<open>Inl\<close>) or the value together with the new state.
  \<^item> Every SQL statement, \<open>BEGIN\<close> and \<open>COMMIT\<close> included, may fail for reasons outside the program (a lost
    connection, a timeout): the \<open>n\<close>-th statement fails iff \<open>db_fail n\<close>.  A statement that fails leaves
    the tables alone.  All theorems are stated for an arbitrary \<open>db_fail\<close>.
  \<^item> A transaction that ends without a successful \<open>COMMIT\<close> restores the tables it started from.
  \<^item> \<open>gen_random_uuid()\<close> is PostgreSQL's: the \<open>n\<close>-th value drawn is \<open>db_uuid n\<close>, an arbitrary function;
    the primary-key constraints are checked by the inserts, so no freshness is assumed.
  \<^item> The order of \<open>TEXT\<close> and \<open>UUID\<close> values in \<open>ORDER BY\<close> is the database's, an arbitrary \<open>db_text_less\<close>.
  \<^item> \<open>db_outbox\<close> is the trace of the changes sent to the search service, an external index whose
    answers the program ignores.
  \<^item> Identifiers are compared as strings; a text that is not a UUID matches no row.
\<close>

section \<open>Rows\<close>

record entity_row =
  ent_id :: string
  ent_tenant :: string
  ent_name :: string
  ent_context :: string
  ent_fy_month :: int
  ent_fy_day :: int
  ent_created :: int

record account_row =
  ac_id :: string
  ac_entity :: string
  ac_name :: string
  ac_type :: string
  ac_code :: "string option"
  ac_created :: int

record receipt_row =
  rc_id :: string
  rc_entity :: string
  rc_storage_key :: string
  rc_content_type :: string
  rc_size :: int64
  rc_status :: string
  rc_kind :: string
  rc_total :: "int64 option"
  rc_uploaded :: int
  rc_attached :: "int option"
  rc_original :: "string option"
  rc_vendor_id :: "string option"
  rc_vendor_raw :: "string option"

record tx_row =
  tx_id :: string
  tx_entity :: string
  tx_date :: date
  tx_memo :: "string option"
  tx_receipt :: "string option"
  tx_created :: int

text \<open>Rows of \<open>entries\<close> and of \<open>draft_entries\<close> have the same columns; \<open>en_tx\<close> is the parent's id.\<close>

record entry_row =
  en_id :: string
  en_tx :: string
  en_account :: string
  en_debit :: int64
  en_credit :: int64

record draft_row =
  dt_id :: string
  dt_receipt :: string
  dt_entity :: string
  dt_date :: date
  dt_memo :: "string option"
  dt_created :: int
  dt_updated :: int

record import_row =
  ir_id :: string
  ir_receipt :: string
  ir_entity :: string
  ir_index :: int
  ir_date :: date
  ir_vendor :: string
  ir_memo :: "string option"
  ir_amount :: int64
  ir_direction :: string
  ir_account :: "string option"
  ir_fingerprint :: string
  ir_status :: string
  ir_tx :: "string option"
  ir_raw :: string

record vendor_row =
  ve_id :: string
  ve_entity :: string
  ve_name :: string
  ve_normalized :: string
  ve_pattern :: "string option"
  ve_tax_id :: "string option"
  ve_website :: "string option"
  ve_account :: "string option"
  ve_receipts :: int
  ve_seen :: "int option"

record alias_row =
  al_id :: string
  al_vendor :: string
  al_entity :: string
  al_raw :: string
  al_normalized :: string
  al_count :: int
  al_seen :: int

record rule_row =
  vu_id :: string
  vu_entity :: string
  vu_match :: string
  vu_pattern :: string
  vu_account :: string
  vu_created :: int

record job_row =
  jb_id :: string
  jb_receipt :: string
  jb_stage :: string
  jb_status :: string
  jb_attempts :: int
  jb_max :: int
  jb_locked_until :: "int option"
  jb_locked_by :: "string option"
  jb_error :: "string option"
  jb_created :: int
  jb_updated :: int

record batch_job_row =
  bj_id :: string
  bj_kind :: string
  bj_provider :: string
  bj_model :: string
  bj_batch :: string
  bj_status :: string
  bj_count :: int
  bj_submitted :: int
  bj_error :: "string option"
  bj_completed :: "int option"

record batch_item_row =
  bi_id :: string
  bi_job :: string
  bi_custom :: string
  bi_ref :: string
  bi_status :: string
  bi_error :: "string option"

record pstate_row =
  ps_receipt :: string
  ps_stage :: string
  ps_status :: string
  ps_extract_json :: "string option"
  ps_vendor_json :: "string option"
  ps_classify_json :: "string option"
  ps_failed_stage :: "string option"
  ps_issues :: "string option"
  ps_running :: "int option"
  ps_updated :: int

record audit_row =
  au_entity :: string
  au_actor :: "string option"
  au_type :: string
  au_object :: "string option"
  au_action :: string
  au_details :: "(string \<times> string) list"

text \<open>The rows of the processing artifacts: OCR runs, suggestions, processing errors and display summaries.\<close>

record ocr_row =
  oc_id :: string
  oc_receipt :: string
  oc_provider :: string
  oc_status :: string
  oc_text :: "string option"
  oc_data :: string
  oc_error :: "string option"
  oc_hash :: "string option"
  oc_version :: int
  oc_created :: int

record suggestion_row =
  sg_id :: string
  sg_receipt :: string
  sg_provider :: string
  sg_model :: string
  sg_status :: string
  sg_prompt :: string
  sg_raw :: string
  sg_parsed :: string
  sg_confidence :: "rat option"
  sg_error :: "string option"
  sg_hash :: "string option"
  sg_version :: int
  sg_prompt_tokens :: "int64 option"
  sg_completion_tokens :: "int64 option"
  sg_total_tokens :: "int64 option"
  sg_cost :: "int64 option"
  sg_created :: int

record error_row =
  er_id :: string
  er_entity :: string
  er_receipt :: "string option"
  er_mileage :: "string option"
  er_stage :: string
  er_error :: string
  er_created :: int
  er_resolved :: "int option"
  er_note :: "string option"

text \<open>The column \<open>receipts.ai_summary\<close>: the vendor (name, confidence, reason, new) and the account
  (identifier, confidence, reason) of \<open>models.ReceiptAISummary\<close>.\<close>

record ai_summary =
  as_vendor :: "(string \<times> rat \<times> string \<times> bool) option"
  as_account :: "(string \<times> rat \<times> string) option"

record artifacts =
  art_ocr :: "ocr_row list"
  art_suggestions :: "suggestion_row list"
  art_errors :: "error_row list"
  art_summaries :: "(string \<times> ai_summary) list"

text \<open>Users, tenants, memberships and sessions.\<close>

record user_row =
  us_id :: string
  us_email :: string
  us_hash :: string
  us_tenant :: "string option"
  us_admin :: bool
  us_created :: int

record tenant_row =
  tn_id :: string
  tn_name :: string
  tn_created :: int

text \<open>A row of \<open>tenant_memberships\<close> or of \<open>entity_users\<close>: \<open>mb_of\<close> is the tenant or the entity.\<close>

record member_row =
  mb_id :: string
  mb_of :: string
  mb_user :: string
  mb_role :: string
  mb_created :: int

record refresh_row =
  rt_id :: string
  rt_user :: string
  rt_tenant :: string
  rt_hash :: string
  rt_expires :: int
  rt_created :: int
  rt_used :: "int option"
  rt_revoked :: "int option"

record mfa_row =
  mf_user :: string
  mf_secret :: string
  mf_enabled :: bool
  mf_codes :: "string list"

text \<open>The single row of \<open>system_settings\<close>; its JSON column holds the two switches, \<open>{}\<close> reads as both off.\<close>

record settings_data =
  sd_require_mfa :: bool
  sd_session_timeout :: bool

record settings_row =
  sy_setup_complete :: bool
  sy_completed :: "int option"
  sy_data :: settings_data
  sy_updated :: int

record org =
  og_users :: "user_row list"
  og_tenants :: "tenant_row list"
  og_tenant_members :: "member_row list"
  og_entity_members :: "member_row list"
  og_refresh :: "refresh_row list"
  og_mfa :: "mfa_row list"
  og_steps :: "(string \<times> int) list"
  og_system :: "settings_row option"

text \<open>Bank statements, mileage, tax settings, tags, texts attached to receipts and trips, preferences and the
  rows of the task scheduler.\<close>

record statement_row =
  bs_id :: string
  bs_entity :: string
  bs_account :: string
  bs_receipt :: "string option"
  bs_from :: date
  bs_to :: date
  bs_starting :: int64
  bs_ending :: int64
  bs_status :: string
  bs_notes :: "string option"
  bs_created :: int
  bs_updated :: int

record mileage_row =
  mg_id :: string
  mg_entity :: string
  mg_user :: "string option"
  mg_receipt :: "string option"
  mg_date :: date
  mg_miles :: rat
  mg_from :: "string option"
  mg_to :: "string option"
  mg_purpose :: "string option"
  mg_created :: int
  mg_updated :: int

record rate_row =
  ra_year :: int
  ra_cents :: int
  ra_created :: int
  ra_updated :: int

record tax_row =
  tz_entity :: string
  tz_year :: int
  tz_office :: "int option"
  tz_total :: "int option"
  tz_cell :: "int option"
  tz_internet :: "int option"
  tz_created :: int
  tz_updated :: int

record tag_row =
  tg_id :: string
  tg_entity :: string
  tg_name :: string
  tg_created :: int

record prefs_row =
  pf_user :: string
  pf_entity :: "string option"
  pf_theme :: string
  pf_created :: int
  pf_updated :: int

record task_row =
  tk_name :: string
  tk_interval :: int
  tk_enabled :: bool
  tk_next :: int
  tk_running :: "int option"
  tk_last :: "int option"
  tk_status :: "string option"
  tk_error :: "string option"
  tk_duration :: "int option"
  tk_updated :: int

record extra =
  ex_statements :: "statement_row list"
  ex_mileage :: "mileage_row list"
  ex_rates :: "rate_row list"
  ex_tax :: "tax_row list"
  ex_tags :: "tag_row list"
  ex_receipt_tags :: "(string \<times> string) list"
  ex_receipt_ctx :: "(string \<times> string) list"
  ex_mileage_ctx :: "(string \<times> string) list"
  ex_prefs :: "prefs_row list"
  ex_tasks :: "task_row list"

record db =
  db_fail :: "nat \<Rightarrow> bool"
  db_uuid :: "nat \<Rightarrow> string"
  db_now :: int
  db_tick :: nat
  db_seq :: nat
  db_entities :: "entity_row list"
  db_accounts :: "account_row list"
  db_receipts :: "receipt_row list"
  db_txs :: "tx_row list"
  db_entries :: "entry_row list"
  db_drafts :: "draft_row list"
  db_draft_entries :: "entry_row list"
  db_import_rows :: "import_row list"
  db_vendors :: "vendor_row list"
  db_aliases :: "alias_row list"
  db_rules :: "rule_row list"
  db_jobs :: "job_row list"
  db_batch_jobs :: "batch_job_row list"
  db_batch_items :: "batch_item_row list"
  db_pstates :: "pstate_row list"
  db_role_tags :: "(string \<times> string) list"
  db_today :: date
  db_audit :: "audit_row list"
  db_outbox :: "search_call list"
  db_art :: artifacts
  db_org :: org
  db_extra :: extra
  db_text_less :: "string \<Rightarrow> string \<Rightarrow> bool"

definition empty_db :: db where
  "empty_db = \<lparr>db_fail = (\<lambda>_. False), db_uuid = (\<lambda>n. CHR ''u'' # replicate n CHR ''1''), db_now = 0, db_tick = 0, db_seq = 0,
     db_entities = [], db_accounts = [], db_receipts = [], db_txs = [], db_entries = [], db_drafts = [],
     db_draft_entries = [], db_import_rows = [], db_vendors = [], db_aliases = [], db_rules = [], db_jobs = [],
     db_batch_jobs = [], db_batch_items = [], db_pstates = [],
     db_role_tags = [], db_today = \<lparr>d_year = 2024, d_month = 1, d_day = 1\<rparr>, db_audit = [], db_outbox = [],
     db_art = \<lparr>art_ocr = [], art_suggestions = [], art_errors = [], art_summaries = []\<rparr>,
     db_org = \<lparr>og_users = [], og_tenants = [], og_tenant_members = [], og_entity_members = [], og_refresh = [], og_mfa = [],
       og_steps = [], og_system = None\<rparr>,
     db_extra = \<lparr>ex_statements = [], ex_mileage = [], ex_rates = [], ex_tax = [], ex_tags = [], ex_receipt_tags = [],
       ex_receipt_ctx = [], ex_mileage_ctx = [], ex_prefs = [], ex_tasks = []\<rparr>, db_text_less = (\<lambda>_ _. False)\<rparr>"

section \<open>Errors and the statement monad\<close>

text \<open>The sentinel errors of \<open>internal/db/errors.go\<close>, constraint violations (\<open>ErrEmailTaken\<close>: the one of
  \<open>users_email_key\<close>), driver failures, and
  \<open>errors.New\<close> texts.\<close>

datatype db_error =
    ErrNotFound | ErrConflict | ErrReceiptAlreadyAttached | ErrAccountEntityMismatch | ErrAccountInUse
  | ErrReceiptEntityMismatch | ErrUnavailable | ErrConstraint | ErrEmailTaken | ErrDriver | ErrText string

text \<open>\<open>err.Error()\<close>.\<close>

definition error_text :: "db_error \<Rightarrow> string" where
  "error_text e = (case e of
     ErrNotFound \<Rightarrow> ''not found'' | ErrConflict \<Rightarrow> ''conflict'' | ErrReceiptAlreadyAttached \<Rightarrow> ''receipt already attached''
   | ErrAccountEntityMismatch \<Rightarrow> ''account entity mismatch'' | ErrAccountInUse \<Rightarrow> ''account in use''
   | ErrReceiptEntityMismatch \<Rightarrow> ''receipt entity mismatch'' | ErrUnavailable \<Rightarrow> ''database unavailable''
   | ErrConstraint \<Rightarrow> ''constraint violation'' | ErrEmailTaken \<Rightarrow> ''unique violation: users_email_key''
   | ErrDriver \<Rightarrow> ''driver error'' | ErrText t \<Rightarrow> t)"

type_synonym 'a dbm = "db \<Rightarrow> (db_error + 'a) \<times> db"

definition dret :: "'a \<Rightarrow> 'a dbm" where
  "dret x s = (Inr x, s)"

definition dthrow :: "db_error \<Rightarrow> 'a dbm" where
  "dthrow e s = (Inl e, s)"

definition dbind :: "'a dbm \<Rightarrow> ('a \<Rightarrow> 'b dbm) \<Rightarrow> 'b dbm" where
  "dbind m f s = (case m s of (Inl e, s') \<Rightarrow> (Inl e, s') | (Inr x, s') \<Rightarrow> f x s')"

text \<open>The error becomes a value: \<open>x, err := f()\<close> without an early return.\<close>

definition dtry :: "'a dbm \<Rightarrow> (db_error + 'a) dbm" where
  "dtry m s = (case m s of (r, s') \<Rightarrow> (Inr r, s'))"

definition stmt :: "'a dbm \<Rightarrow> 'a dbm" where
  "stmt q s =
     (let s' = s\<lparr>db_tick := db_tick s + 1\<rparr> in
      if db_fail s (db_tick s) then (Inl ErrDriver, s')
      else case q s' of (Inl e, _) \<Rightarrow> (Inl e, s') | (Inr x, s'') \<Rightarrow> (Inr x, s''))"

text \<open>Restore the tables, keeping the counters.\<close>

definition rollback :: "db \<Rightarrow> db \<Rightarrow> db" where
  "rollback s s' = s\<lparr>db_tick := db_tick s', db_seq := db_seq s'\<rparr>"

definition transact :: "'a dbm \<Rightarrow> 'a dbm" where
  "transact m s =
     (case stmt (dret ()) s of
        (Inl e, s1) \<Rightarrow> (Inl e, s1)
      | (Inr _, s1) \<Rightarrow>
          (case m s1 of
             (Inl e, s2) \<Rightarrow> (Inl e, rollback s1 s2)
           | (Inr x, s2) \<Rightarrow>
               (case stmt (dret x) s2 of
                  (Inl e, s3) \<Rightarrow> (Inl e, rollback s1 s3)
                | (Inr y, s3) \<Rightarrow> (Inr y, s3))))"

definition next_uuid :: "db \<Rightarrow> string" where
  "next_uuid s = db_uuid s (db_seq s)"

definition nullString :: "string \<Rightarrow> string option" where
  "nullString s = (if s = [] then None else Some s)"

definition strOf :: "string option \<Rightarrow> string" where
  "strOf v = (case v of None \<Rightarrow> [] | Some s \<Rightarrow> s)"

text \<open>Go's \<open>for _, x := range xs { if err := f(x); err != nil { return err } }\<close>.\<close>

fun dfor :: "'a list \<Rightarrow> ('a \<Rightarrow> unit dbm) \<Rightarrow> unit dbm" where
  "dfor [] f = dret ()"
| "dfor (x # xs) f = dbind (f x) (\<lambda>_. dfor xs f)"

section \<open>Reasoning about the monad\<close>

named_theorems db_simps

lemma dret_eq [db_simps]: "dret x s = (r, s') \<longleftrightarrow> r = Inr x \<and> s' = s"
  by (auto simp: dret_def)

lemma dthrow_eq [db_simps]: "dthrow e s = (r, s') \<longleftrightarrow> r = Inl e \<and> s' = s"
  by (auto simp: dthrow_def)

lemma dbind_Inr [db_simps]: "dbind m f s = (Inr y, s'') \<longleftrightarrow> (\<exists>x s'. m s = (Inr x, s') \<and> f x s' = (Inr y, s''))"
  by (auto simp: dbind_def split: prod.splits sum.splits)

lemma dbind_Inl [db_simps]: "dbind m f s = (Inl e, s'') \<longleftrightarrow>
    m s = (Inl e, s'') \<or> (\<exists>x s'. m s = (Inr x, s') \<and> f x s' = (Inl e, s''))"
  by (auto simp: dbind_def split: prod.splits sum.splits)

lemma dtry_eq [db_simps]: "dtry m s = (r, s') \<longleftrightarrow> (\<exists>r'. m s = (r', s') \<and> r = Inr r')"
  by (auto simp: dtry_def split: prod.splits)

lemma result_Inr: "\<not> isl (fst p) \<Longrightarrow> p = (Inr (projr (fst p)), snd p)"
  by (cases p) (simp add: sum.collapse)

lemma result_Inl: "isl (fst p) \<Longrightarrow> p = (Inl (projl (fst p)), snd p)"
  by (cases p) (simp add: sum.collapse)

text \<open>Two states that differ in the statement and identifier counters only.\<close>

definition same_tables :: "db \<Rightarrow> db \<Rightarrow> bool" where
  "same_tables s s' \<longleftrightarrow> s' = s\<lparr>db_tick := db_tick s', db_seq := db_seq s'\<rparr>"

lemma same_tables_refl [simp]: "same_tables s s"
  by (simp add: same_tables_def)

lemma same_tables_trans [trans]: "same_tables s t \<Longrightarrow> same_tables t u \<Longrightarrow> same_tables s u"
  by (cases s; cases t; cases u) (simp add: same_tables_def)

lemma same_tables_tick [simp]: "same_tables s (s\<lparr>db_tick := n\<rparr>)"
  by (cases s) (simp add: same_tables_def)

lemma same_tables_seq [simp]: "same_tables s (s\<lparr>db_seq := n\<rparr>)"
  by (cases s) (simp add: same_tables_def)

lemma same_tables_rollback: "same_tables s1 (rollback s1 s2)"
  by (simp add: same_tables_def rollback_def)

lemma same_tables_fields:
  assumes "same_tables s s'"
  shows "db_fail s' = db_fail s" "db_uuid s' = db_uuid s" "db_now s' = db_now s"
    "db_entities s' = db_entities s" "db_accounts s' = db_accounts s" "db_receipts s' = db_receipts s"
    "db_txs s' = db_txs s" "db_entries s' = db_entries s" "db_drafts s' = db_drafts s"
    "db_draft_entries s' = db_draft_entries s" "db_import_rows s' = db_import_rows s"
    "db_vendors s' = db_vendors s" "db_aliases s' = db_aliases s" "db_rules s' = db_rules s"
    "db_jobs s' = db_jobs s" "db_batch_jobs s' = db_batch_jobs s" "db_batch_items s' = db_batch_items s"
    "db_pstates s' = db_pstates s" "db_role_tags s' = db_role_tags s" "db_text_less s' = db_text_less s" "db_today s' = db_today s" "db_audit s' = db_audit s" "db_outbox s' = db_outbox s" "db_art s' = db_art s"
    "db_org s' = db_org s" "db_extra s' = db_extra s"
  using assms by (cases s; cases s'; simp add: same_tables_def)+

lemma stmt_Inr: "stmt q s = (Inr x, s') \<longleftrightarrow>
    \<not> db_fail s (db_tick s) \<and> q (s\<lparr>db_tick := db_tick s + 1\<rparr>) = (Inr x, s')"
  by (auto simp: stmt_def Let_def split: prod.splits sum.splits)

lemma stmt_Inl: "stmt q s = (Inl e, s') \<Longrightarrow>
    s' = s\<lparr>db_tick := db_tick s + 1\<rparr> \<and> (e = ErrDriver \<or> (\<exists>u. q s' = (Inl e, u)))"
  by (auto simp: stmt_def Let_def split: prod.splits sum.splits if_splits)

lemma stmt_Inl_tables: "stmt q s = (Inl e, s') \<Longrightarrow> same_tables s s'"
  using stmt_Inl by fastforce

lemma stmt_dret_Inr [db_simps]: "stmt (dret x) s = (Inr y, s') \<longleftrightarrow>
    \<not> db_fail s (db_tick s) \<and> y = x \<and> s' = s\<lparr>db_tick := db_tick s + 1\<rparr>"
  by (auto simp: stmt_Inr dret_def)

text \<open>A statement guarded by a constraint check.\<close>

lemma guarded_Inr: "(if P then (Inl e, u) else (Inr a, b)) = (Inr x, s') \<longleftrightarrow> \<not> P \<and> x = a \<and> s' = b"
  by auto

text \<open>A failed transaction has no effect on the tables; a successful one is its body.\<close>

lemma transact_Inl:
  assumes "transact m s = (Inl e, s')"
  shows "same_tables s s'"
proof -
  have st: "stmt (dret x) s0 = (r, s1) \<Longrightarrow> same_tables s0 s1" for x :: 'b and s0 r s1
    by (auto simp: stmt_def dret_def Let_def split: if_splits)
  have st': "stmt (dret x) s0 = (r, s1) \<Longrightarrow> same_tables s0 s1" for x :: unit and s0 r s1
    by (auto simp: stmt_def dret_def Let_def split: if_splits)
  show ?thesis
    using assms unfolding transact_def
    by (auto split: prod.splits sum.splits dest!: st st' intro: same_tables_trans [OF _ same_tables_rollback])
qed

lemma transact_Inr:
  assumes "transact m s = (Inr x, s')"
  shows "\<exists>s1 s2. same_tables s s1 \<and> m s1 = (Inr x, s2) \<and> same_tables s2 s'"
proof -
  obtain r1 s1 where 1: "stmt (dret ()) s = (r1, s1)" by (cases "stmt (dret ()) s")
  obtain r2 s2 where 2: "m s1 = (r2, s2)" by (cases "m s1")
  have r1: "r1 = Inr ()" "same_tables s s1"
    using assms 1 by (auto simp: transact_def db_simps split: sum.splits)
  then obtain y where y: "r2 = Inr y" using assms 1 2 by (auto simp: transact_def split: sum.splits)
  obtain r3 s3 where 3: "stmt (dret y) s2 = (r3, s3)" by (cases "stmt (dret y) s2")
  then have "r3 = Inr x \<and> s3 = s'" using assms 1 2 r1 y by (auto simp: transact_def split: sum.splits)
  then show ?thesis using 2 3 r1 y by (intro exI [of _ s1] exI [of _ s2]) (auto simp: db_simps)
qed

lemma dfor_Inr_append:
  "dfor (xs @ ys) f s = (Inr (), s') \<longleftrightarrow> (\<exists>t. dfor xs f s = (Inr (), t) \<and> dfor ys f t = (Inr (), s'))"
  by (induction xs arbitrary: s) (auto simp: db_simps)

section \<open>Statements shared by the stores\<close>

text \<open>\<open>SELECT ... WHERE P\<close> into one row or into a slice.\<close>

definition select_one :: "(db \<Rightarrow> 'r list) \<Rightarrow> ('r \<Rightarrow> bool) \<Rightarrow> 'r option dbm" where
  "select_one tbl P = stmt (\<lambda>s. (Inr (find P (tbl s)), s))"

definition select_all :: "(db \<Rightarrow> 'r list) \<Rightarrow> 'r list dbm" where
  "select_all q = stmt (\<lambda>s. (Inr (q s), s))"

text \<open>\<open>sql.ErrNoRows\<close> becomes \<open>ErrNotFound\<close>.\<close>

definition get_row :: "(db \<Rightarrow> 'r list) \<Rightarrow> ('r \<Rightarrow> bool) \<Rightarrow> 'r dbm" where
  "get_row tbl P = dbind (select_one tbl P) (\<lambda>r. case r of None \<Rightarrow> dthrow ErrNotFound | Some x \<Rightarrow> dret x)"

lemma select_one_Inr [db_simps]: "select_one tbl P s = (Inr r, s') \<longleftrightarrow>
    \<not> db_fail s (db_tick s) \<and> r = find P (tbl (s\<lparr>db_tick := db_tick s + 1\<rparr>)) \<and> s' = s\<lparr>db_tick := db_tick s + 1\<rparr>"
  by (auto simp: select_one_def stmt_Inr)

lemma select_all_Inr [db_simps]: "select_all q s = (Inr r, s') \<longleftrightarrow>
    \<not> db_fail s (db_tick s) \<and> r = q (s\<lparr>db_tick := db_tick s + 1\<rparr>) \<and> s' = s\<lparr>db_tick := db_tick s + 1\<rparr>"
  by (auto simp: select_all_def stmt_Inr)

lemma select_tables: "select_one tbl P s = (r, s') \<Longrightarrow> same_tables s s'" "select_all q s = (r', s'') \<Longrightarrow> same_tables s s''"
  by (auto simp: select_one_def select_all_def stmt_def Let_def split: if_splits)

lemma get_row_tables: "get_row tbl P s = (r, s') \<Longrightarrow> same_tables s s'"
  by (auto simp: get_row_def dbind_def dthrow_def dret_def dest!: select_tables split: prod.splits sum.splits option.splits)

lemma get_row_Inr: "get_row tbl P s = (Inr r, s') \<longleftrightarrow>
    \<not> db_fail s (db_tick s) \<and> find P (tbl (s\<lparr>db_tick := db_tick s + 1\<rparr>)) = Some r \<and> s' = s\<lparr>db_tick := db_tick s + 1\<rparr>"
  by (auto simp: get_row_def db_simps split: option.splits)

section \<open>Invariants of the tables\<close>

definition keeps :: "(db \<Rightarrow> bool) \<Rightarrow> 'a dbm \<Rightarrow> bool" where
  "keeps I m \<longleftrightarrow> (\<forall>s. I s \<longrightarrow> I (snd (m s)))"

text \<open>
  The contract between the statement monad and the invariants of the components: an invariant speaks of
  the tables only.  Then every program built from statements that keep it keeps it, whichever
  statements fail.
\<close>

locale table_invariant =
  fixes I :: "db \<Rightarrow> bool"
  assumes tables_only: "same_tables s s' \<Longrightarrow> I s' = I s"
begin

lemma keep_dret [intro]: "keeps I (dret x)"
  by (simp add: keeps_def dret_def)

lemma keep_dthrow [intro]: "keeps I (dthrow e)"
  by (simp add: keeps_def dthrow_def)

lemma keep_dbind [intro]: "keeps I m \<Longrightarrow> (\<And>x. keeps I (f x)) \<Longrightarrow> keeps I (dbind m f)"
  unfolding keeps_def dbind_def by (fastforce split: prod.splits sum.splits)

lemma keep_dtry [intro]: "keeps I m \<Longrightarrow> keeps I (dtry m)"
  unfolding keeps_def dtry_def by (auto split: prod.splits)

lemma keep_stmt:
  assumes "\<And>s x s'. I s \<Longrightarrow> q s = (Inr x, s') \<Longrightarrow> I s'"
  shows "keeps I (stmt q)"
  unfolding keeps_def
proof (intro allI impI)
  fix s assume "I s"
  then have t: "I (s\<lparr>db_tick := db_tick s + 1\<rparr>)" using tables_only same_tables_tick by blast
  obtain r u where q: "q (s\<lparr>db_tick := db_tick s + 1\<rparr>) = (r, u)" by (cases "q (s\<lparr>db_tick := db_tick s + 1\<rparr>)")
  show "I (snd (stmt q s))"
  proof (cases r)
    case (Inl e)
    then show ?thesis using q t by (simp add: stmt_def Let_def)
  next
    case (Inr x)
    then have "I u" using assms [OF t] q by blast
    then show ?thesis using Inr q t by (simp add: stmt_def Let_def)
  qed
qed

lemma keep_select_one [intro]: "keeps I (select_one tbl P)"
  unfolding select_one_def by (rule keep_stmt) auto

lemma keep_select_all [intro]: "keeps I (select_all q)"
  unfolding select_all_def by (rule keep_stmt) auto

lemma keep_get_row [intro]: "keeps I (get_row tbl P)"
  unfolding get_row_def by (rule keep_dbind) (auto split: option.split)

lemma keep_option: "keeps I a \<Longrightarrow> (\<And>x. keeps I (f x)) \<Longrightarrow> keeps I (case r of None \<Rightarrow> a | Some x \<Rightarrow> f x)"
  by (cases r) auto

lemma keep_sum: "(\<And>e. keeps I (g e)) \<Longrightarrow> (\<And>x. keeps I (f x)) \<Longrightarrow> keeps I (case r of Inl e \<Rightarrow> g e | Inr x \<Rightarrow> f x)"
  by (cases r) auto

lemma keep_if: "(P \<Longrightarrow> keeps I a) \<Longrightarrow> (\<not> P \<Longrightarrow> keeps I b) \<Longrightarrow> keeps I (if P then a else b)"
  by auto

lemmas keep_flow = keep_dret keep_dthrow keep_dbind keep_dtry keep_option keep_sum keep_if keep_select_one
  keep_select_all keep_get_row

lemma keep_dfor [intro]: "(\<And>x. keeps I (f x)) \<Longrightarrow> keeps I (dfor xs f)"
  by (induction xs) auto

lemma keep_transact [intro]:
  assumes "keeps I m"
  shows "keeps I (transact m)"
  unfolding keeps_def
proof (intro allI impI)
  fix s assume s: "I s"
  obtain r s' where e: "transact m s = (r, s')" by (cases "transact m s")
  show "I (snd (transact m s))"
  proof (cases r)
    case (Inl x)
    have "same_tables s s'" by (rule transact_Inl [OF e [unfolded Inl]])
    then show ?thesis using e s tables_only [of s s'] by simp
  next
    case (Inr x)
    obtain s1 s2 where t: "same_tables s s1" "m s1 = (Inr x, s2)" "same_tables s2 s'"
      using transact_Inr [OF e [unfolded Inr]] by blast
    have "I s1" using tables_only [OF t(1)] s by simp
    then have "I (snd (m s1))" using assms by (simp add: keeps_def)
    then show ?thesis using e tables_only [OF t(3)] t(2) by simp
  qed
qed

lemma keepsD: "keeps I m \<Longrightarrow> I s \<Longrightarrow> m s = (r, s') \<Longrightarrow> I s'"
  unfolding keeps_def by (metis snd_conv)

end

lemma tables_sym: "same_tables s s' \<Longrightarrow> same_tables s' s"
  by (cases s; cases s') (simp add: same_tables_def)

text \<open>A program that only reads keeps the tables it started from.\<close>

interpretation reads: table_invariant "same_tables s"
  by unfold_locales (metis tables_sym same_tables_trans)

lemma readsD: "keeps (same_tables s) m \<Longrightarrow> m s = (r, s') \<Longrightarrow> same_tables s s'"
  using reads.keepsD [of s m s r s'] by simp

lemma select_reads [intro]: "keeps (same_tables s) (stmt (\<lambda>s. (Inr (f s), s)))"
  by (rule reads.keep_stmt) auto

end
