(* ===== verification/Ledger.thy ===== *)
theory Ledger
  imports Db
begin

text \<open>
  The ledger store, \<open>internal/db/transactions.go\<close>: posting a transaction with its entries, directly or
  from a receipt's draft, and reading transactions back.  The inserts check the constraints of the
  schema in \<open>db/migrations\<close>: primary keys, foreign keys, non-negative amounts and exactly one non-zero
  side per entry.  \<open>Create_Inr\<close> and \<open>CreateFromDraft_Inr\<close> describe a successful post completely: the
  guards that held and the rows added; the corresponding \<open>Inl\<close> lemmas say what an error may leave behind.
\<close>

text \<open>\<open>models.DraftEntry\<close>, \<open>models.Entry\<close>, \<open>models.Transaction\<close> and \<open>models.DraftTransaction\<close>.\<close>

record draft_line =
  dl_id :: string
  dl_draft :: string
  dl_account :: string
  dl_debit :: int64
  dl_credit :: int64

type_synonym entry = entry_row

record transaction =
  tr_id :: string
  tr_entity :: string
  tr_date :: date
  tr_memo :: string
  tr_created :: int

record draft_tx =
  dr_id :: string
  dr_receipt :: string
  dr_entity :: string
  dr_date :: date
  dr_memo :: string
  dr_entries :: "draft_line list"
  dr_created :: int
  dr_updated :: int

section \<open>The operations\<close>

definition validateBalanced :: "draft_line list \<Rightarrow> db_error option" where
  "validateBalanced entries =
     (let debit = sum64 dl_debit entries; credit = sum64 dl_credit entries in
      if debit \<noteq> credit then Some (ErrText ''entries not balanced'')
      else if debit = 0 \<and> credit = 0 then Some (ErrText ''entries empty'')
      else None)"

definition select_account_entity :: "string \<Rightarrow> string option dbm" where
  "select_account_entity a = stmt (\<lambda>s. (Inr (map_option ac_entity (find (\<lambda>r. ac_id r = a) (db_accounts s))), s))"

fun validateEntries_loop :: "string \<Rightarrow> string list \<Rightarrow> draft_line list \<Rightarrow> unit dbm" where
  "validateEntries_loop ent seen [] = dret ()"
| "validateEntries_loop ent seen (e # es) =
     (if dl_account e \<in> set seen then validateEntries_loop ent seen es
      else dbind (select_account_entity (dl_account e)) (\<lambda>r.
        case r of
          None \<Rightarrow> dthrow ErrAccountEntityMismatch
        | Some ae \<Rightarrow>
            if ae \<noteq> ent then dthrow ErrAccountEntityMismatch
            else validateEntries_loop ent (dl_account e # seen) es))"

definition validateEntriesForEntity :: "string \<Rightarrow> draft_line list \<Rightarrow> unit dbm" where
  "validateEntriesForEntity ent entries = validateEntries_loop ent [] entries"

definition lockReceiptForAttach :: "string \<Rightarrow> string \<Rightarrow> unit dbm" where
  "lockReceiptForAttach rid ent =
     dbind (stmt (\<lambda>s. (Inr (find (\<lambda>r. rc_id r = rid) (db_receipts s)), s))) (\<lambda>row.
       case row of
         None \<Rightarrow> dthrow ErrNotFound
       | Some r \<Rightarrow>
           if rc_entity r \<noteq> ent then dthrow ErrReceiptEntityMismatch
           else if rc_attached r \<noteq> None then dthrow ErrReceiptAlreadyAttached
           else dret ())"

definition mark_posted :: "int \<Rightarrow> string \<Rightarrow> receipt_row \<Rightarrow> receipt_row" where
  "mark_posted now rid r =
     (if rc_id r = rid \<and> rc_attached r = None then r\<lparr>rc_status := ''posted'', rc_attached := Some now\<rparr> else r)"

definition attachReceipt :: "string \<Rightarrow> unit dbm" where
  "attachReceipt rid =
     dbind (stmt (\<lambda>s. (Inr (length (filter (\<lambda>r. rc_id r = rid \<and> rc_attached r = None) (db_receipts s))),
                       s\<lparr>db_receipts := map (mark_posted (db_now s) rid) (db_receipts s)\<rparr>)))
       (\<lambda>rows. if rows = 0 then dthrow ErrReceiptAlreadyAttached else dret ())"

definition insert_transaction :: "string \<Rightarrow> date \<Rightarrow> string option \<Rightarrow> string option \<Rightarrow> string dbm" where
  "insert_transaction ent d memo receipt = stmt (\<lambda>s.
     let i = next_uuid s; s' = s\<lparr>db_seq := db_seq s + 1\<rparr> in
     if i \<in> tx_id ` set (db_txs s) \<or> ent \<notin> ent_id ` set (db_entities s) \<or>
        (\<exists>r\<in>set_option receipt. r \<notin> rc_id ` set (db_receipts s))
     then (Inl ErrConstraint, s')
     else (Inr i, s'\<lparr>db_txs := db_txs s @ [\<lparr>tx_id = i, tx_entity = ent, tx_date = d, tx_memo = memo,
             tx_receipt = receipt, tx_created = db_now s\<rparr>]\<rparr>))"

text \<open>The \<open>CHECK\<close> constraints of \<open>entries\<close> and \<open>draft_entries\<close>.\<close>

definition entry_check :: "int64 \<Rightarrow> int64 \<Rightarrow> bool" where
  "entry_check debit credit \<longleftrightarrow> 0 \<le> i64 debit \<and> 0 \<le> i64 credit \<and> (debit = 0) \<noteq> (credit = 0)"

definition insert_entry :: "string \<Rightarrow> draft_line \<Rightarrow> entry dbm" where
  "insert_entry t e = stmt (\<lambda>s.
     let i = next_uuid s; s' = s\<lparr>db_seq := db_seq s + 1\<rparr>;
         row = \<lparr>en_id = i, en_tx = t, en_account = dl_account e, en_debit = dl_debit e, en_credit = dl_credit e\<rparr> in
     if i \<in> en_id ` set (db_entries s) \<or> t \<notin> tx_id ` set (db_txs s) \<or>
        dl_account e \<notin> ac_id ` set (db_accounts s) \<or> \<not> entry_check (dl_debit e) (dl_credit e)
     then (Inl ErrConstraint, s')
     else (Inr row, s'\<lparr>db_entries := db_entries s @ [row]\<rparr>))"

fun insert_entries :: "string \<Rightarrow> draft_line list \<Rightarrow> entry list dbm" where
  "insert_entries t [] = dret []"
| "insert_entries t (e # es) =
     dbind (insert_entry t e) (\<lambda>row. dbind (insert_entries t es) (\<lambda>rows. dret (row # rows)))"

definition transactionFromRow :: "tx_row \<Rightarrow> transaction" where
  "transactionFromRow row = \<lparr>tr_id = tx_id row, tr_entity = tx_entity row, tr_date = tx_date row,
     tr_memo = strOf (tx_memo row), tr_created = tx_created row\<rparr>"

definition TransactionStore_GetByID :: "string \<Rightarrow> transaction dbm" where
  "TransactionStore_GetByID i =
     dbind (stmt (\<lambda>s. (Inr (find (\<lambda>r. tx_id r = i) (db_txs s)), s))) (\<lambda>row.
       case row of None \<Rightarrow> dthrow ErrNotFound | Some r \<Rightarrow> dret (transactionFromRow r))"

definition Create_body ::
  "string \<Rightarrow> date \<Rightarrow> string \<Rightarrow> string \<Rightarrow> draft_line list \<Rightarrow> (string \<times> entry list) dbm" where
  "Create_body ent d memo receipt entries =
     dbind (validateEntriesForEntity ent entries) (\<lambda>_.
     dbind (if receipt \<noteq> [] then lockReceiptForAttach receipt ent else dret ()) (\<lambda>_.
     dbind (insert_transaction ent d (nullString memo) (nullString receipt)) (\<lambda>t.
     dbind (insert_entries t entries) (\<lambda>out.
     dbind (if receipt \<noteq> [] then attachReceipt receipt else dret ()) (\<lambda>_.
     dret (t, out))))))"

definition TransactionStore_Create ::
  "string \<Rightarrow> date \<Rightarrow> string \<Rightarrow> string \<Rightarrow> draft_line list \<Rightarrow> (transaction \<times> entry list) dbm" where
  "TransactionStore_Create ent d memo receipt entries =
     (case validateBalanced entries of
        Some err \<Rightarrow> dthrow err
      | None \<Rightarrow>
          dbind (transact (Create_body ent d memo receipt entries)) (\<lambda>(t, out).
          dbind (TransactionStore_GetByID t) (\<lambda>tr. dret (tr, out))))"

definition CreateFromDraft_body :: "draft_tx \<Rightarrow> string \<Rightarrow> (string \<times> entry list) dbm" where
  "CreateFromDraft_body draft receipt =
     dbind (validateEntriesForEntity (dr_entity draft) (dr_entries draft)) (\<lambda>_.
     dbind (lockReceiptForAttach receipt (dr_entity draft)) (\<lambda>_.
     dbind (insert_transaction (dr_entity draft) (dr_date draft) (nullString (dr_memo draft)) (Some receipt)) (\<lambda>t.
     dbind (insert_entries t (dr_entries draft)) (\<lambda>out.
     dbind (attachReceipt receipt) (\<lambda>_.
     dret (t, out))))))"

definition TransactionStore_CreateFromDraft :: "draft_tx \<Rightarrow> string \<Rightarrow> (transaction \<times> entry list) dbm" where
  "TransactionStore_CreateFromDraft draft receipt =
     (case validateBalanced (dr_entries draft) of
        Some err \<Rightarrow> dthrow err
      | None \<Rightarrow>
          dbind (transact (CreateFromDraft_body draft receipt)) (\<lambda>(t, out).
          dbind (TransactionStore_GetByID t) (\<lambda>tr. dret (tr, out))))"

text \<open>
  \<open>ORDER BY date DESC, created_at DESC LIMIT n\<close>; rows that tie on both keys, and the entries of a
  transaction, come in table order (PostgreSQL leaves their order open).
\<close>

definition tx_before :: "tx_row \<Rightarrow> tx_row \<Rightarrow> bool" where
  "tx_before a b \<longleftrightarrow> \<not> date_le (tx_date a) (tx_date b) \<or> (tx_date a = tx_date b \<and> tx_created b < tx_created a)"

definition in_period :: "date option \<Rightarrow> date option \<Rightarrow> date \<Rightarrow> bool" where
  "in_period start en d \<longleftrightarrow>
     (case start of None \<Rightarrow> True | Some a \<Rightarrow> date_le a d) \<and> (case en of None \<Rightarrow> True | Some b \<Rightarrow> date_le d b)"

definition select_txs :: "string \<Rightarrow> date option \<Rightarrow> date option \<Rightarrow> int \<Rightarrow> db \<Rightarrow> tx_row list" where
  "select_txs ent start en limit s =
     take (nat limit) (sort_by tx_before (filter (\<lambda>t. tx_entity t = ent \<and> in_period start en (tx_date t)) (db_txs s)))"

definition TransactionStore_List ::
  "string \<Rightarrow> date option \<Rightarrow> date option \<Rightarrow> int \<Rightarrow> (transaction \<times> entry list) list dbm" where
  "TransactionStore_List ent start en limit0 =
     (let limit = (if limit0 \<le> 0 then 100 else limit0) in
      dbind (stmt (\<lambda>s. (Inr (select_txs ent start en limit s), s))) (\<lambda>rows.
        if length rows = 0 then dret []
        else dbind (stmt (\<lambda>s. (Inr (filter (\<lambda>e. en_tx e \<in> set (map tx_id rows)) (db_entries s)), s))) (\<lambda>entryRows.
          dret (map (\<lambda>row. (transactionFromRow row, filter (\<lambda>e. en_tx e = tx_id row) entryRows)) rows))))"

section \<open>Successful and failed posts\<close>

lemma validateBalanced_None:
  "validateBalanced es = None \<longleftrightarrow> sum64 dl_debit es = sum64 dl_credit es \<and> sum64 dl_debit es \<noteq> 0"
  by (auto simp: validateBalanced_def Let_def)

lemma select_account_entity_Inr:
  "select_account_entity a s = (Inr r, s') \<Longrightarrow>
     same_tables s s' \<and> r = map_option ac_entity (find (\<lambda>r. ac_id r = a) (db_accounts s))"
  by (auto simp: select_account_entity_def stmt_Inr)

lemma validateEntries_loop_Inr:
  "validateEntries_loop ent seen es s = (Inr u, s') \<Longrightarrow>
     same_tables s s' \<and>
     (\<forall>e\<in>set es. dl_account e \<in> set seen \<or>
        map_option ac_entity (find (\<lambda>r. ac_id r = dl_account e) (db_accounts s)) = Some ent)"
proof (induction ent seen es arbitrary: s rule: validateEntries_loop.induct)
  case (1 ent seen)
  then show ?case by (simp add: db_simps)
next
  case (2 ent seen e es)
  show ?case
  proof (cases "dl_account e \<in> set seen")
    case True
    then show ?thesis using 2 by simp
  next
    case False
    then obtain ae t where a: "select_account_entity (dl_account e) s = (Inr (Some ae), t)" and ae: "ae = ent"
      and r: "validateEntries_loop ent (dl_account e # seen) es t = (Inr u, s')"
      using "2.prems" by (auto simp: db_simps split: option.splits if_splits)
    note st = select_account_entity_Inr [OF a]
    have "same_tables t s' \<and> (\<forall>e'\<in>set es. dl_account e' \<in> set (dl_account e # seen) \<or>
        map_option ac_entity (find (\<lambda>r. ac_id r = dl_account e') (db_accounts t)) = Some ent)"
      by (rule "2.IH"(2) [OF False _ r]) (use ae in auto)
    then show ?thesis
      using st ae same_tables_trans [of s t s'] by (auto simp: same_tables_fields(5) [of s t])
  qed
qed

lemma lockReceiptForAttach_Inr:
  "lockReceiptForAttach rid ent s = (Inr u, s') \<Longrightarrow>
     same_tables s s' \<and> (\<exists>r. find (\<lambda>r. rc_id r = rid) (db_receipts s) = Some r \<and> rc_entity r = ent \<and> rc_attached r = None)"
  by (auto simp: lockReceiptForAttach_def db_simps stmt_Inr split: option.splits if_splits)

text \<open>A state without its counters: what a statement may change besides them is written on the right.\<close>

lemma insert_transaction_Inr:
  "insert_transaction ent d memo rc s = (Inr i, s') \<Longrightarrow>
     same_tables (s\<lparr>db_txs := db_txs s @ [\<lparr>tx_id = i, tx_entity = ent, tx_date = d, tx_memo = memo,
             tx_receipt = rc, tx_created = db_now s\<rparr>]\<rparr>) s' \<and>
     i \<notin> tx_id ` set (db_txs s) \<and> ent \<in> ent_id ` set (db_entities s)"
  by (auto simp: insert_transaction_def stmt_Inr Let_def next_uuid_def same_tables_def split: if_splits)

lemma insert_entry_Inr:
  "insert_entry t e s = (Inr row, s') \<Longrightarrow>
     same_tables (s\<lparr>db_entries := db_entries s @ [row]\<rparr>) s' \<and> en_id row \<notin> en_id ` set (db_entries s) \<and>
     en_tx row = t \<and> en_account row = dl_account e \<and> en_debit row = dl_debit e \<and> en_credit row = dl_credit e \<and>
     entry_check (dl_debit e) (dl_credit e) \<and> dl_account e \<in> ac_id ` set (db_accounts s)"
  by (auto simp: insert_entry_def stmt_Inr Let_def next_uuid_def same_tables_def split: if_splits)

definition line_of :: "entry \<Rightarrow> string \<times> int64 \<times> int64" where
  "line_of e = (en_account e, en_debit e, en_credit e)"

definition dline_of :: "draft_line \<Rightarrow> string \<times> int64 \<times> int64" where
  "dline_of e = (dl_account e, dl_debit e, dl_credit e)"

lemma same_tables_entries_shift:
  assumes "same_tables (s\<lparr>db_entries := db_entries s @ xs\<rparr>) t" "same_tables (t\<lparr>db_entries := db_entries t @ ys\<rparr>) u"
  shows "same_tables (s\<lparr>db_entries := db_entries s @ xs @ ys\<rparr>) u"
  using assms by (cases s; cases t; cases u) (simp add: same_tables_def)

lemma insert_entries_Inr:
  "insert_entries t es s = (Inr rows, s') \<Longrightarrow>
     same_tables (s\<lparr>db_entries := db_entries s @ rows\<rparr>) s' \<and> map line_of rows = map dline_of es \<and>
     (\<forall>r\<in>set rows. en_tx r = t \<and> entry_check (en_debit r) (en_credit r)) \<and>
     distinct (map en_id rows) \<and> en_id ` set rows \<inter> en_id ` set (db_entries s) = {}"
proof (induction es arbitrary: s rows)
  case Nil
  then show ?case by (simp add: db_simps)
next
  case (Cons e es)
  then obtain row s1 rows' where 1: "insert_entry t e s = (Inr row, s1)" and
    2: "insert_entries t es s1 = (Inr rows', s')" and r: "rows = row # rows'"
    by (auto simp: db_simps)
  note i = insert_entry_Inr [OF 1] and ih = Cons.IH [OF 2]
  have s1: "db_entries s1 = db_entries s @ [row]"
    using i same_tables_fields(8) [of "s\<lparr>db_entries := db_entries s @ [row]\<rparr>" s1] by simp
  have "same_tables (s\<lparr>db_entries := db_entries s @ [row] @ rows'\<rparr>) s'"
    by (rule same_tables_entries_shift) (use i ih in auto)
  then show ?case using i ih s1 by (auto simp: r line_of_def dline_of_def)
qed

lemma sum64_lines: "map line_of rows = map dline_of es \<Longrightarrow> sum64 en_debit rows = sum64 dl_debit es \<and> sum64 en_credit rows = sum64 dl_credit es"
proof -
  assume h: "map line_of rows = map dline_of es"
  have "map en_debit rows = map dl_debit es"
    using arg_cong [OF h, of "map (fst \<circ> snd)"] by (simp add: comp_def line_of_def dline_of_def)
  moreover have "map en_credit rows = map dl_credit es"
    using arg_cong [OF h, of "map (snd \<circ> snd)"] by (simp add: comp_def line_of_def dline_of_def)
  ultimately show ?thesis by (simp add: sum64_eq_sum_list)
qed

lemma attachReceipt_Inr:
  "attachReceipt rid s = (Inr u, s') \<Longrightarrow>
     same_tables (s\<lparr>db_receipts := map (mark_posted (db_now s) rid) (db_receipts s)\<rparr>) s'"
  by (auto simp: attachReceipt_def db_simps stmt_Inr same_tables_def split: if_splits)

text \<open>\<open>Create\<close> and \<open>CreateFromDraft\<close> run the same statements; only the optional receipt differs.\<close>

definition post_body ::
  "string \<Rightarrow> date \<Rightarrow> string \<Rightarrow> string option \<Rightarrow> draft_line list \<Rightarrow> (string \<times> entry list) dbm" where
  "post_body ent d memo rc entries =
     dbind (validateEntriesForEntity ent entries) (\<lambda>_.
     dbind (case rc of None \<Rightarrow> dret () | Some r \<Rightarrow> lockReceiptForAttach r ent) (\<lambda>_.
     dbind (insert_transaction ent d (nullString memo) rc) (\<lambda>t.
     dbind (insert_entries t entries) (\<lambda>out.
     dbind (case rc of None \<Rightarrow> dret () | Some r \<Rightarrow> attachReceipt r) (\<lambda>_.
     dret (t, out))))))"

lemma Create_body_eq: "Create_body ent d memo receipt es = post_body ent d memo (nullString receipt) es"
  by (auto simp: Create_body_def post_body_def nullString_def)

lemma CreateFromDraft_body_eq:
  "CreateFromDraft_body draft receipt =
     post_body (dr_entity draft) (dr_date draft) (dr_memo draft) (Some receipt) (dr_entries draft)"
  by (simp add: CreateFromDraft_body_def post_body_def)

definition new_tx :: "string \<Rightarrow> string \<Rightarrow> date \<Rightarrow> string \<Rightarrow> string option \<Rightarrow> int \<Rightarrow> tx_row" where
  "new_tx i ent d memo rc now = \<lparr>tx_id = i, tx_entity = ent, tx_date = d, tx_memo = nullString memo,
     tx_receipt = rc, tx_created = now\<rparr>"

definition attach_all :: "int \<Rightarrow> string option \<Rightarrow> receipt_row list \<Rightarrow> receipt_row list" where
  "attach_all now rc rs = (case rc of None \<Rightarrow> rs | Some r \<Rightarrow> map (mark_posted now r) rs)"

text \<open>The rows a successful post adds.\<close>

definition post_state :: "db \<Rightarrow> tx_row \<Rightarrow> entry list \<Rightarrow> db" where
  "post_state s t rows = s\<lparr>db_txs := db_txs s @ [t], db_entries := db_entries s @ rows,
     db_receipts := attach_all (db_now s) (tx_receipt t) (db_receipts s)\<rparr>"

definition account_entity_of :: "db \<Rightarrow> string \<Rightarrow> string option" where
  "account_entity_of s a = map_option ac_entity (find (\<lambda>r. ac_id r = a) (db_accounts s))"

text \<open>The guards of a successful post, on the state before it.\<close>

definition post_ok :: "db \<Rightarrow> tx_row \<Rightarrow> draft_line list \<Rightarrow> entry list \<Rightarrow> bool" where
  "post_ok s t es rows \<longleftrightarrow>
     tx_id t \<notin> tx_id ` set (db_txs s) \<and> tx_entity t \<in> ent_id ` set (db_entities s) \<and>
     (\<forall>e\<in>set es. account_entity_of s (dl_account e) = Some (tx_entity t)) \<and>
     (\<forall>r. tx_receipt t = Some r \<longrightarrow>
        (\<exists>c. find (\<lambda>c. rc_id c = r) (db_receipts s) = Some c \<and> rc_entity c = tx_entity t \<and> rc_attached c = None)) \<and>
     map line_of rows = map dline_of es \<and>
     (\<forall>r\<in>set rows. en_tx r = tx_id t \<and> entry_check (en_debit r) (en_credit r)) \<and>
     distinct (map en_id rows) \<and> en_id ` set rows \<inter> en_id ` set (db_entries s) = {}"

lemma post_ok_same_tables: "same_tables s s' \<Longrightarrow> post_ok s' t es rows = post_ok s t es rows"
  by (simp add: post_ok_def account_entity_of_def same_tables_fields [of s s'])

lemma post_state_same_tables: "same_tables s s' \<Longrightarrow> same_tables (post_state s t rows) (post_state s' t rows)"
  by (cases s; cases s') (simp add: post_state_def same_tables_def)

lemma post_body_Inr:
  assumes "post_body ent d memo rc es s = (Inr (i, rows), s')"
  shows "same_tables (post_state s (new_tx i ent d memo rc (db_now s)) rows) s' \<and>
    post_ok s (new_tx i ent d memo rc (db_now s)) es rows"
proof -
  obtain s1 s2 s3 s4 where 1: "validateEntriesForEntity ent es s = (Inr (), s1)"
    and 2: "(case rc of None \<Rightarrow> dret () | Some r \<Rightarrow> lockReceiptForAttach r ent) s1 = (Inr (), s2)"
    and 3: "insert_transaction ent d (nullString memo) rc s2 = (Inr i, s3)"
    and 4: "insert_entries i es s3 = (Inr rows, s4)"
    and 5: "(case rc of None \<Rightarrow> dret () | Some r \<Rightarrow> attachReceipt r) s4 = (Inr (), s')"
    using assms by (auto simp: post_body_def db_simps)
  note v = validateEntries_loop_Inr [OF 1 [unfolded validateEntriesForEntity_def]]
  have l: "same_tables s1 s2 \<and> (\<forall>r. rc = Some r \<longrightarrow>
     (\<exists>c. find (\<lambda>c. rc_id c = r) (db_receipts s1) = Some c \<and> rc_entity c = ent \<and> rc_attached c = None))"
    using 2 lockReceiptForAttach_Inr by (auto simp: db_simps split: option.splits)
  note t = insert_transaction_Inr [OF 3] and e = insert_entries_Inr [OF 4]
  have a: "same_tables (s4\<lparr>db_receipts := attach_all (db_now s4) rc (db_receipts s4)\<rparr>) s'"
    using 5 attachReceipt_Inr by (auto simp: attach_all_def db_simps split: option.splits)
  have s2: "same_tables s s2" using v l same_tables_trans by blast
  note f2 = same_tables_fields [OF s2]
  let ?t = "new_tx i ent d memo rc (db_now s)"
  have s3: "same_tables (s\<lparr>db_txs := db_txs s @ [?t]\<rparr>) s3"
    using t s2 by (cases s; cases s2; cases s3) (simp add: same_tables_def new_tx_def)
  have s4: "same_tables (s\<lparr>db_txs := db_txs s @ [?t], db_entries := db_entries s @ rows\<rparr>) s4"
    using s3 e by (cases s; cases s3; cases s4) (simp add: same_tables_def)
  have s5: "same_tables (post_state s ?t rows) s'"
    using s4 a by (cases s; cases s4; cases s') (simp add: same_tables_def post_state_def new_tx_def)
  have "post_ok s2 ?t es rows"
    using v l t e s2 same_tables_fields [OF s3]
    by (simp add: post_ok_def new_tx_def account_entity_of_def f2 same_tables_fields [of s s1])
  then show ?thesis using s5 post_ok_same_tables [OF s2] by simp
qed

section \<open>The invariant of the books\<close>

definition entries_of :: "db \<Rightarrow> string \<Rightarrow> entry list" where
  "entries_of s i = filter (\<lambda>e. en_tx e = i) (db_entries s)"

text \<open>
  What the tables of a running system satisfy: keys are unique; every entry is well formed and on an
  account of its transaction's entity; every transaction's debits equal its credits; a transaction made
  from a receipt refers to a receipt of its own entity that is marked attached, and no receipt has two
  transactions.
\<close>

definition keys_ok :: "db \<Rightarrow> bool" where
  "keys_ok s \<longleftrightarrow> distinct (map tx_id (db_txs s)) \<and> distinct (map en_id (db_entries s)) \<and>
     distinct (map rc_id (db_receipts s)) \<and> distinct (map ac_id (db_accounts s))"

definition entries_ok :: "db \<Rightarrow> bool" where
  "entries_ok s \<longleftrightarrow> (\<forall>e\<in>set (db_entries s). entry_check (en_debit e) (en_credit e) \<and>
     (\<exists>t\<in>set (db_txs s). tx_id t = en_tx e \<and> account_entity_of s (en_account e) = Some (tx_entity t)))"

definition tx_balanced :: "db \<Rightarrow> tx_row \<Rightarrow> bool" where
  "tx_balanced s t \<longleftrightarrow>
     sum64 en_debit (entries_of s (tx_id t)) = sum64 en_credit (entries_of s (tx_id t)) \<and>
     sum64 en_debit (entries_of s (tx_id t)) \<noteq> 0"

definition receipts_ok :: "db \<Rightarrow> bool" where
  "receipts_ok s \<longleftrightarrow>
     (\<forall>t\<in>set (db_txs s). \<forall>r. tx_receipt t = Some r \<longrightarrow>
        (\<exists>c\<in>set (db_receipts s). rc_id c = r \<and> rc_attached c \<noteq> None \<and> rc_entity c = tx_entity t)) \<and>
     (\<forall>t\<in>set (db_txs s). \<forall>u\<in>set (db_txs s). tx_receipt t \<noteq> None \<longrightarrow> tx_receipt t = tx_receipt u \<longrightarrow> t = u)"

definition books_ok :: "db \<Rightarrow> bool" where
  "books_ok s \<longleftrightarrow> keys_ok s \<and> entries_ok s \<and> (\<forall>t\<in>set (db_txs s). tx_balanced s t) \<and> receipts_ok s"

lemma books_ok_same_tables: "same_tables s s' \<Longrightarrow> books_ok s' = books_ok s"
  by (simp add: books_ok_def keys_ok_def entries_ok_def tx_balanced_def receipts_ok_def entries_of_def
      account_entity_of_def same_tables_fields [of s s'])

lemma books_ok_empty: "books_ok empty_db"
  by (simp add: books_ok_def keys_ok_def entries_ok_def receipts_ok_def empty_db_def)

lemma mark_posted_simps [simp]:
  "rc_id (mark_posted now r c) = rc_id c" "rc_entity (mark_posted now r c) = rc_entity c"
  "rc_attached c \<noteq> None \<Longrightarrow> mark_posted now r c = c"
  "rc_id c = r \<Longrightarrow> rc_attached (mark_posted now r c) \<noteq> None"
  by (auto simp: mark_posted_def)

lemma attach_all_mem:
  "c \<in> set rs \<Longrightarrow> \<exists>c'\<in>set (attach_all now rc rs). rc_id c' = rc_id c \<and> rc_entity c' = rc_entity c \<and>
     (rc_attached c \<noteq> None \<or> rc = Some (rc_id c) \<longrightarrow> rc_attached c' \<noteq> None)"
proof (cases rc)
  case None
  then show "c \<in> set rs \<Longrightarrow> ?thesis" by (auto simp: attach_all_def)
next
  case (Some r)
  assume "c \<in> set rs"
  then have "mark_posted now r c \<in> set (attach_all now rc rs)" by (simp add: attach_all_def Some)
  then show ?thesis using Some by (intro bexI [of _ "mark_posted now r c"]) (auto simp: mark_posted_def)
qed

lemma map_rc_id_attach_all [simp]: "map rc_id (attach_all now rc rs) = map rc_id rs"
  by (auto simp: attach_all_def split: option.splits)

lemma find_Some_mem: "find P xs = Some x \<Longrightarrow> x \<in> set xs \<and> P x"
  by (induction xs) (auto split: if_splits)

lemma entries_of_post_new:
  assumes "post_ok s t es rows" "entries_ok s"
  shows "entries_of (post_state s t rows) (tx_id t) = rows"
proof -
  have fresh: "tx_id t \<notin> tx_id ` set (db_txs s)" using assms(1) by (simp add: post_ok_def)
  have "en_tx e \<noteq> tx_id t" if ed: "e \<in> set (db_entries s)" for e
  proof -
    obtain u where "u \<in> set (db_txs s)" "tx_id u = en_tx e"
      using assms(2) ed unfolding entries_ok_def by blast
    then show ?thesis using fresh by (metis imageI)
  qed
  then have "filter (\<lambda>e. en_tx e = tx_id t) (db_entries s) = []" by (simp add: filter_empty_conv)
  moreover have "filter (\<lambda>e. en_tx e = tx_id t) rows = rows"
    using assms(1) by (simp add: filter_id_conv post_ok_def)
  ultimately show ?thesis by (simp add: entries_of_def post_state_def)
qed

lemma entries_of_post_old:
  assumes "post_ok s t es rows" "i \<noteq> tx_id t"
  shows "entries_of (post_state s t rows) i = entries_of s i"
proof -
  have "filter (\<lambda>e. en_tx e = i) rows = []"
    using assms by (auto simp: filter_empty_conv post_ok_def)
  then show ?thesis by (simp add: entries_of_def post_state_def)
qed

lemma post_lines_accounts:
  assumes "map line_of rows = map dline_of es" "\<forall>e\<in>set es. P (dl_account e)" "r \<in> set rows"
  shows "P (en_account r)"
proof -
  have "line_of r \<in> dline_of ` set es"
    using assms(1,3) by (metis image_eqI list.set_map)
  then show ?thesis using assms(2) by (auto simp: line_of_def dline_of_def)
qed

lemma books_ok_receipt:
  assumes "books_ok s" "u \<in> set (db_txs s)" "tx_receipt u = Some r"
  obtains c where "c \<in> set (db_receipts s)" "rc_id c = r" "rc_attached c \<noteq> None" "rc_entity c = tx_entity u"
  using assms unfolding books_ok_def receipts_ok_def by blast

lemma receipts_ok_post:
  assumes "books_ok s" "post_ok s t es rows"
  shows "receipts_ok (post_state s t rows)"
proof -
  let ?s = "post_state s t rows"
  have old: "\<exists>c\<in>set (db_receipts ?s). rc_id c = r \<and> rc_attached c \<noteq> None \<and> rc_entity c = tx_entity u"
    if ud: "u \<in> set (db_txs s)" "tx_receipt u = Some r" for u r
  proof -
    obtain c where c: "c \<in> set (db_receipts s)" "rc_id c = r" "rc_attached c \<noteq> None" "rc_entity c = tx_entity u"
      by (rule books_ok_receipt [OF assms(1) ud])
    obtain c' where "c' \<in> set (db_receipts ?s)" "rc_id c' = rc_id c" "rc_entity c' = rc_entity c" "rc_attached c' \<noteq> None"
      using attach_all_mem [OF c(1), of "db_now s" "tx_receipt t"] c(3) by (auto simp: post_state_def)
    then show ?thesis using c by (intro bexI [of _ c']) simp_all
  qed
  have new: "\<exists>c\<in>set (db_receipts ?s). rc_id c = r \<and> rc_attached c \<noteq> None \<and> rc_entity c = tx_entity t"
    and unused: "\<forall>u\<in>set (db_txs s). tx_receipt u \<noteq> Some r" if r: "tx_receipt t = Some r" for r
  proof -
    obtain c where "find (\<lambda>c. rc_id c = r) (db_receipts s) = Some c" and ce: "rc_entity c = tx_entity t" and
      ca: "rc_attached c = None" using assms(2) r by (auto simp: post_ok_def)
    then have c: "c \<in> set (db_receipts s)" "rc_id c = r" using find_Some_mem by fastforce+
    show "\<exists>c\<in>set (db_receipts ?s). rc_id c = r \<and> rc_attached c \<noteq> None \<and> rc_entity c = tx_entity t"
      using attach_all_mem [OF c(1), of "db_now s" "tx_receipt t"] r ce c(2) by (auto simp: post_state_def)
    have inj: "inj_on rc_id (set (db_receipts s))"
      using assms(1) by (simp add: books_ok_def keys_ok_def distinct_map)
    have "c' = c" if "c' \<in> set (db_receipts s)" "rc_id c' = r" for c'
      using inj_onD [OF inj _ that(1) c(1)] that(2) c(2) by simp
    moreover have "\<exists>c'\<in>set (db_receipts s). rc_id c' = r \<and> rc_attached c' \<noteq> None"
      if "u \<in> set (db_txs s)" "tx_receipt u = Some r" for u
      by (rule books_ok_receipt [OF assms(1) that]) blast
    ultimately show "\<forall>u\<in>set (db_txs s). tx_receipt u \<noteq> Some r" using ca by metis
  qed
  have "\<forall>u\<in>set (db_txs ?s). \<forall>r. tx_receipt u = Some r \<longrightarrow>
        (\<exists>c\<in>set (db_receipts ?s). rc_id c = r \<and> rc_attached c \<noteq> None \<and> rc_entity c = tx_entity u)"
    using old new by (auto simp: post_state_def)
  moreover have "u = v" if uv: "u \<in> set (db_txs ?s)" "v \<in> set (db_txs ?s)" "tx_receipt u \<noteq> None"
      "tx_receipt u = tx_receipt v" for u v
  proof -
    have "\<forall>u\<in>set (db_txs s). \<forall>v\<in>set (db_txs s). tx_receipt u \<noteq> None \<longrightarrow> tx_receipt u = tx_receipt v \<longrightarrow> u = v"
      using assms(1) unfolding books_ok_def receipts_ok_def by blast
    moreover have "u = t \<or> u \<in> set (db_txs s)" "v = t \<or> v \<in> set (db_txs s)"
      using uv(1,2) by (auto simp: post_state_def)
    moreover obtain r where r: "tx_receipt u = Some r" using uv(3) by blast
    moreover have "tx_receipt v = Some r" using r uv(4) by simp
    moreover have "tx_receipt t = Some r \<Longrightarrow> x \<in> set (db_txs s) \<Longrightarrow> tx_receipt x \<noteq> Some r" for x
      using unused by blast
    ultimately show ?thesis by (elim disjE) auto
  qed
  ultimately show ?thesis unfolding receipts_ok_def by blast
qed

lemma books_ok_post:
  assumes "books_ok s" "post_ok s t es rows" "validateBalanced es = None"
  shows "books_ok (post_state s t rows)"
proof -
  let ?s = "post_state s t rows"
  have k: "keys_ok ?s"
    using assms(1,2) by (auto simp: books_ok_def keys_ok_def post_ok_def post_state_def)
  have eo: "entries_ok s" using assms(1) by (simp add: books_ok_def)
  have ae: "account_entity_of ?s = account_entity_of s"
    by (auto simp: account_entity_of_def post_state_def fun_eq_iff)
  have "account_entity_of s (en_account r) = Some (tx_entity t)" if "r \<in> set rows" for r
    using post_lines_accounts [of rows es "\<lambda>a. account_entity_of s a = Some (tx_entity t)" r] assms(2) that
    by (simp add: post_ok_def)
  then have e: "entries_ok ?s"
    using eo assms(2) unfolding entries_ok_def ae by (auto simp: post_state_def post_ok_def)
  have "tx_balanced ?s u" if "u \<in> set (db_txs s)" for u
  proof -
    have "tx_id t \<notin> tx_id ` set (db_txs s)" using assms(2) by (simp add: post_ok_def)
    then have ne: "tx_id u \<noteq> tx_id t" using that by (metis imageI)
    have "tx_balanced s u" using assms(1) that unfolding books_ok_def by blast
    then show ?thesis unfolding tx_balanced_def entries_of_post_old [OF assms(2) ne] .
  qed
  moreover have "sum64 dl_debit es = sum64 dl_credit es" "sum64 dl_credit es \<noteq> 0"
    using assms(3) by (auto simp: validateBalanced_None)
  then have "tx_balanced ?s t"
    using assms(2) sum64_lines [of rows es] entries_of_post_new [OF assms(2) eo]
    by (simp add: tx_balanced_def post_ok_def)
  ultimately show ?thesis
    using k e receipts_ok_post [OF assms(1,2)] by (auto simp: books_ok_def post_state_def)
qed

section \<open>Posting as a whole\<close>

text \<open>Both operations: validate, run the transaction, read the row back.\<close>

definition post_op ::
  "string \<Rightarrow> date \<Rightarrow> string \<Rightarrow> string option \<Rightarrow> draft_line list \<Rightarrow> (transaction \<times> entry list) dbm" where
  "post_op ent d memo rc es =
     (case validateBalanced es of
        Some err \<Rightarrow> dthrow err
      | None \<Rightarrow>
          dbind (transact (post_body ent d memo rc es)) (\<lambda>(t, out).
          dbind (TransactionStore_GetByID t) (\<lambda>tr. dret (tr, out))))"

lemma Create_eq: "TransactionStore_Create ent d memo receipt es = post_op ent d memo (nullString receipt) es"
  by (simp add: TransactionStore_Create_def post_op_def Create_body_eq split: option.split)

lemma CreateFromDraft_eq:
  "TransactionStore_CreateFromDraft draft receipt =
     post_op (dr_entity draft) (dr_date draft) (dr_memo draft) (Some receipt) (dr_entries draft)"
  by (simp add: TransactionStore_CreateFromDraft_def post_op_def CreateFromDraft_body_eq split: option.split)

lemmas post_eqs = Create_eq CreateFromDraft_eq

text \<open>\<open>posted s s' t rows\<close>: the tables of \<open>s'\<close> are those of \<open>s\<close> with the transaction posted.\<close>

definition posted :: "db \<Rightarrow> db \<Rightarrow> tx_row \<Rightarrow> draft_line list \<Rightarrow> entry list \<Rightarrow> bool" where
  "posted s s' t es rows \<longleftrightarrow> same_tables (post_state s t rows) s' \<and> post_ok s t es rows \<and> validateBalanced es = None"

lemma GetByID_tables: "TransactionStore_GetByID i s = (r, s') \<Longrightarrow> same_tables s s'"
  by (auto simp: TransactionStore_GetByID_def dbind_def stmt_def Let_def dthrow_def dret_def
      split: option.splits if_splits)

lemma transact_post_body:
  assumes "transact (post_body ent d memo rc es) s = (Inr (i, rows), s')" "validateBalanced es = None"
  shows "posted s s' (new_tx i ent d memo rc (db_now s)) es rows"
proof -
  obtain s1 s2 where 1: "same_tables s s1" "post_body ent d memo rc es s1 = (Inr (i, rows), s2)" "same_tables s2 s'"
    using transact_Inr [OF assms(1)] by blast
  note b = post_body_Inr [OF 1(2)]
  have n: "db_now s1 = db_now s" using 1(1) by (simp add: same_tables_fields)
  have "same_tables (post_state s (new_tx i ent d memo rc (db_now s)) rows) s'"
    using post_state_same_tables [OF 1(1)] b 1(3) n by (metis same_tables_trans)
  then show ?thesis
    using b assms(2) post_ok_same_tables [OF 1(1)] n by (simp add: posted_def)
qed

lemma find_append_new: "\<forall>x\<in>set xs. \<not> P x \<Longrightarrow> P y \<Longrightarrow> find P (xs @ [y]) = Some y"
  by (induction xs) auto

lemma post_op_Inr:
  assumes "post_op ent d memo rc es s = (Inr (tr, out), s')"
  shows "posted s s' (new_tx (tr_id tr) ent d memo rc (db_now s)) es out \<and>
    tr = transactionFromRow (new_tx (tr_id tr) ent d memo rc (db_now s))"
proof -
  obtain i s1 where v: "validateBalanced es = None" and
    t: "transact (post_body ent d memo rc es) s = (Inr (i, out), s1)" and
    g: "TransactionStore_GetByID i s1 = (Inr tr, s')"
    using assms by (auto simp: post_op_def db_simps split: option.splits)
  let ?t = "new_tx i ent d memo rc (db_now s)"
  have p: "posted s s1 ?t es out" by (rule transact_post_body [OF t v])
  have txs: "db_txs s1 = db_txs s @ [?t]"
    using p by (auto simp: posted_def post_state_def dest: same_tables_fields(7))
  have "tx_id ?t \<notin> tx_id ` set (db_txs s)" using p by (simp add: posted_def post_ok_def)
  then have "\<forall>x\<in>set (db_txs s). tx_id x \<noteq> i" by (auto simp: new_tx_def)
  then have "find (\<lambda>r. tx_id r = i) (db_txs s1) = Some ?t"
    unfolding txs by (rule find_append_new) (simp add: new_tx_def)
  then have tr: "tr = transactionFromRow ?t"
    using g by (auto simp: TransactionStore_GetByID_def db_simps stmt_Inr)
  have "same_tables s1 s'" by (rule GetByID_tables [OF g])
  then have "posted s s' ?t es out" using p by (auto simp: posted_def intro: same_tables_trans)
  moreover have "tr_id tr = i" by (simp add: tr transactionFromRow_def new_tx_def)
  ultimately show ?thesis using tr by simp
qed

text \<open>An error leaves the tables alone, unless only the read after the commit failed.\<close>

lemma post_op_Inl:
  assumes "post_op ent d memo rc es s = (Inl e, s')"
  shows "same_tables s s' \<or>
    (e \<in> {ErrNotFound, ErrDriver} \<and> (\<exists>i rows. posted s s' (new_tx i ent d memo rc (db_now s)) es rows))"
proof (cases "validateBalanced es")
  case (Some err)
  then show ?thesis using assms by (simp add: post_op_def db_simps)
next
  case None
  consider "transact (post_body ent d memo rc es) s = (Inl e, s')"
    | i out s1 where "transact (post_body ent d memo rc es) s = (Inr (i, out), s1)"
        "TransactionStore_GetByID i s1 = (Inl e, s')"
    using assms None by (auto simp: post_op_def db_simps)
  then show ?thesis
  proof cases
    case 1
    then show ?thesis by (simp add: transact_Inl)
  next
    case 2
    have p: "posted s s1 (new_tx i ent d memo rc (db_now s)) es out" by (rule transact_post_body [OF 2(1) None])
    have "same_tables s1 s'" by (rule GetByID_tables [OF 2(2)])
    then have "posted s s' (new_tx i ent d memo rc (db_now s)) es out"
      using p by (auto simp: posted_def intro: same_tables_trans)
    moreover have "e \<in> {ErrNotFound, ErrDriver}"
      using 2(2) by (auto simp: TransactionStore_GetByID_def db_simps split: option.splits dest!: stmt_Inl)
    ultimately show ?thesis by blast
  qed
qed

text \<open>When the database itself does not fail, an error always means that nothing was posted.\<close>

lemma GetByID_posted:
  assumes "posted s s1 (new_tx i ent d memo rc now) es rows" "\<forall>n. \<not> db_fail s n"
  shows "\<exists>tr s'. TransactionStore_GetByID i s1 = (Inr tr, s')"
proof -
  let ?t = "new_tx i ent d memo rc now"
  have st: "same_tables (post_state s ?t rows) s1" using assms(1) by (simp add: posted_def)
  have txs: "db_txs s1 = db_txs s @ [?t]" and f: "db_fail s1 = db_fail s"
    using same_tables_fields(1,7) [OF st] by (simp_all add: post_state_def)
  have "tx_id ?t \<notin> tx_id ` set (db_txs s)" using assms(1) by (simp add: posted_def post_ok_def)
  then have "\<forall>x\<in>set (db_txs s). tx_id x \<noteq> i" by (auto simp: new_tx_def)
  then have "find (\<lambda>r. tx_id r = i) (db_txs s1) = Some ?t"
    unfolding txs by (rule find_append_new) (simp add: new_tx_def)
  then show ?thesis
    using assms(2) f by (simp add: TransactionStore_GetByID_def dbind_def stmt_def Let_def dret_def)
qed

lemma post_op_Inl_reliable:
  assumes "post_op ent d memo rc es s = (Inl e, s')" "\<forall>n. \<not> db_fail s n"
  shows "same_tables s s'"
proof (cases "validateBalanced es")
  case (Some err)
  then show ?thesis using assms by (simp add: post_op_def db_simps)
next
  case None
  consider "transact (post_body ent d memo rc es) s = (Inl e, s')"
    | i out s1 where "transact (post_body ent d memo rc es) s = (Inr (i, out), s1)"
        "TransactionStore_GetByID i s1 = (Inl e, s')"
    using assms(1) None by (auto simp: post_op_def db_simps)
  then show ?thesis
  proof cases
    case 1
    then show ?thesis by (simp add: transact_Inl)
  next
    case 2
    have "posted s s1 (new_tx i ent d memo rc (db_now s)) es out" by (rule transact_post_body [OF 2(1) None])
    from GetByID_posted [OF this assms(2)] show ?thesis using 2(2) by auto
  qed
qed

lemma posted_books_ok: "posted s s' t es rows \<Longrightarrow> books_ok s \<Longrightarrow> books_ok s'"
  using books_ok_post books_ok_same_tables by (auto simp: posted_def)

lemma post_op_books_ok: "books_ok s \<Longrightarrow> books_ok (snd (post_op ent d memo rc es s))"
proof -
  assume b: "books_ok s"
  obtain r s' where r: "post_op ent d memo rc es s = (r, s')" by (cases "post_op ent d memo rc es s")
  show ?thesis
  proof (cases r)
    case (Inl e)
    then show ?thesis using post_op_Inl [of ent d memo rc es s e s'] r b books_ok_same_tables posted_books_ok by fastforce
  next
    case (Inr x)
    then obtain tr out where "r = Inr (tr, out)" by (cases x) simp
    then show ?thesis using post_op_Inr r b posted_books_ok by fastforce
  qed
qed

text \<open>A receipt that has been attached can never be posted again.\<close>

lemma lockReceiptForAttach_attached:
  assumes "find (\<lambda>r. rc_id r = rid) (db_receipts s) = Some c" "rc_attached c \<noteq> None"
    "lockReceiptForAttach rid ent s = (Inr u, s')"
  shows False
  using lockReceiptForAttach_Inr [OF assms(3)] assms(1,2) by auto

lemma post_op_attached:
  assumes "find (\<lambda>r. rc_id r = rid) (db_receipts s) = Some c" "rc_attached c \<noteq> None"
  shows "\<exists>e s'. post_op ent d memo (Some rid) es s = (Inl e, s') \<and> same_tables s s'"
proof -
  obtain r s' where r: "post_op ent d memo (Some rid) es s = (r, s')" by (cases "post_op ent d memo (Some rid) es s")
  have no: "\<not> posted s s2 (new_tx i ent d memo (Some rid) (db_now s)) es rows" for i rows s2
    using assms by (auto simp: posted_def post_ok_def new_tx_def)
  show ?thesis
  proof (cases r)
    case (Inl e)
    then show ?thesis using post_op_Inl [of ent d memo "Some rid" es s e s'] r no by auto
  next
    case (Inr x)
    then obtain tr out where "r = Inr (tr, out)" by (cases x) simp
    then show ?thesis using post_op_Inr [of ent d memo "Some rid" es s tr out s'] r no by auto
  qed
qed

end
