(* ===== verification/Stores.thy ===== *)
theory Stores
  imports Ledger
begin

text \<open>
  The stores around the ledger: receipts (\<open>internal/db/receipts.go\<close>, \<open>receipts_list.go\<close>), accounts with
  their role tags (\<open>accounts.go\<close>, \<open>account_role_tags.go\<close>), receipt drafts (\<open>drafts.go\<close>) and import rows
  (\<open>import_rows.go\<close>).  Each operation of a store is one definition; the lemmas show that every one of
  them keeps the invariant of the books, whichever statements fail, and characterise the guarded ones.
\<close>

section \<open>Receipts\<close>

record receipt =
  r_id :: string
  r_entity :: string
  r_storage_key :: string
  r_content_type :: string
  r_size :: int64
  r_status :: string
  r_kind :: string
  r_total :: int64
  r_uploaded :: int
  r_attached :: "int option"
  r_original :: string
  r_vendor_id :: string
  r_vendor_raw :: string

definition receiptFromRow :: "receipt_row \<Rightarrow> receipt" where
  "receiptFromRow row = \<lparr>r_id = rc_id row, r_entity = rc_entity row, r_storage_key = rc_storage_key row,
     r_content_type = rc_content_type row, r_size = rc_size row, r_status = rc_status row, r_kind = rc_kind row,
     r_total = (case rc_total row of None \<Rightarrow> 0 | Some t \<Rightarrow> t), r_uploaded = rc_uploaded row,
     r_attached = rc_attached row, r_original = strOf (rc_original row), r_vendor_id = strOf (rc_vendor_id row),
     r_vendor_raw = strOf (rc_vendor_raw row)\<rparr>"

definition ReceiptStore_GetByID :: "string \<Rightarrow> receipt dbm" where
  "ReceiptStore_GetByID i = dbind (get_row db_receipts (\<lambda>r. rc_id r = i)) (\<lambda>r. dret (receiptFromRow r))"

definition ReceiptStore_GetEntityID :: "string \<Rightarrow> string dbm" where
  "ReceiptStore_GetEntityID i = dbind (get_row db_receipts (\<lambda>r. rc_id r = i)) (\<lambda>r. dret (rc_entity r))"

definition ReceiptStore_Create ::
  "string \<Rightarrow> string \<Rightarrow> string \<Rightarrow> string \<Rightarrow> string \<Rightarrow> string \<Rightarrow> int64 \<Rightarrow> int64 \<Rightarrow> receipt dbm" where
  "ReceiptStore_Create ent storageKey contentType status kind originalName sizeBytes totalCents =
     (let tot = (if 0 < i64 totalCents then Some totalCents else None) in
      dbind (stmt (\<lambda>s.
        let i = next_uuid s; s' = s\<lparr>db_seq := db_seq s + 1\<rparr> in
        if i \<in> rc_id ` set (db_receipts s) \<or> ent \<notin> ent_id ` set (db_entities s) then (Inl ErrConstraint, s')
        else (Inr i, s'\<lparr>db_receipts := db_receipts s @ [\<lparr>rc_id = i, rc_entity = ent, rc_storage_key = storageKey,
                rc_content_type = contentType, rc_size = sizeBytes, rc_status = status, rc_kind = kind,
                rc_total = tot, rc_uploaded = db_now s, rc_attached = None, rc_original = Some originalName,
                rc_vendor_id = None, rc_vendor_raw = None\<rparr>]\<rparr>)))
       ReceiptStore_GetByID)"

text \<open>\<open>UPDATE receipts SET ... WHERE id = $1\<close>, with the number of rows affected.\<close>

definition update_receipts :: "string \<Rightarrow> (receipt_row \<Rightarrow> receipt_row) \<Rightarrow> db \<Rightarrow> (db_error + nat) \<times> db" where
  "update_receipts i f s =
     (Inr (length (filter (\<lambda>r. rc_id r = i) (db_receipts s))),
      s\<lparr>db_receipts := map (\<lambda>r. if rc_id r = i then f r else r) (db_receipts s)\<rparr>)"

definition ReceiptStore_UpdateStatus :: "string \<Rightarrow> string \<Rightarrow> unit dbm" where
  "ReceiptStore_UpdateStatus i status =
     dbind (stmt (update_receipts i (\<lambda>r. r\<lparr>rc_status := status\<rparr>))) (\<lambda>_. dret ())"

definition vendor_fk :: "string option \<Rightarrow> db \<Rightarrow> bool" where
  "vendor_fk v s \<longleftrightarrow> (case v of None \<Rightarrow> True | Some i \<Rightarrow> i \<in> ve_id ` set (db_vendors s))"

definition ReceiptStore_UpdateResolvedVendorID :: "string \<Rightarrow> string \<Rightarrow> unit dbm" where
  "ReceiptStore_UpdateResolvedVendorID i vendorID =
     dbind (stmt (\<lambda>s. if i \<in> rc_id ` set (db_receipts s) \<and> \<not> vendor_fk (nullString vendorID) s then (Inl ErrConstraint, s)
                      else update_receipts i (\<lambda>r. r\<lparr>rc_vendor_id := nullString vendorID\<rparr>) s))
       (\<lambda>n. if n = 0 then dthrow ErrNotFound else dret ())"

definition ReceiptStore_SetResolvedVendor :: "string \<Rightarrow> string \<Rightarrow> string \<Rightarrow> unit dbm" where
  "ReceiptStore_SetResolvedVendor i vendorID rawVendor =
     dbind (stmt (\<lambda>s. if i \<in> rc_id ` set (db_receipts s) \<and> \<not> vendor_fk (nullString vendorID) s then (Inl ErrConstraint, s)
                      else update_receipts i
                        (\<lambda>r. r\<lparr>rc_vendor_id := nullString vendorID, rc_vendor_raw := nullString rawVendor\<rparr>) s))
       (\<lambda>_. dret ())"

definition select_receipts :: "(receipt_row \<Rightarrow> bool) \<Rightarrow> int \<Rightarrow> db \<Rightarrow> receipt_row list" where
  "select_receipts P limit s =
     take (nat limit) (sort_by (\<lambda>a b. rc_uploaded b < rc_uploaded a) (filter P (db_receipts s)))"

definition ReceiptStore_List :: "string \<Rightarrow> string \<Rightarrow> int \<Rightarrow> receipt list dbm" where
  "ReceiptStore_List ent status limit0 =
     (let limit = (if limit0 \<le> 0 then 100 else limit0) in
      dbind (select_all (select_receipts (\<lambda>r. rc_entity r = ent \<and> (status \<noteq> [] \<longrightarrow> rc_status r = status)) limit))
        (\<lambda>rows. dret (map receiptFromRow rows)))"

definition ReceiptStore_ListByKind :: "string \<Rightarrow> string \<Rightarrow> string \<Rightarrow> int \<Rightarrow> receipt list dbm" where
  "ReceiptStore_ListByKind ent kind status limit0 =
     (let limit = (if limit0 \<le> 0 then 100 else limit0) in
      dbind (select_all (select_receipts
          (\<lambda>r. rc_entity r = ent \<and> rc_kind r = kind \<and> (status \<noteq> [] \<longrightarrow> rc_status r = status)) limit))
        (\<lambda>rows. dret (map receiptFromRow rows)))"

section \<open>Accounts\<close>

record account =
  a_id :: string
  a_entity :: string
  a_name :: string
  a_type :: string
  a_code :: string
  a_tags :: "string list"
  a_created :: int

definition replace_dash :: "string \<Rightarrow> string" where
  "replace_dash s = map (\<lambda>c. if c = CHR ''-'' then CHR ''_'' else c) s"

definition normalizeAccountRoleTag :: "string \<Rightarrow> string" where
  "normalizeAccountRoleTag tag = join (str_fields (replace_dash (trim_space (to_lower tag)))) ''_''"

definition normalizeAccountRoleTags :: "string list \<Rightarrow> string list" where
  "normalizeAccountRoleTags tags = dedup_from [] (filter (\<lambda>t. t \<noteq> []) (map normalizeAccountRoleTag tags))"

definition allowed_role_tags :: "string list" where
  "allowed_role_tags = [''utilities'', ''cell_phone'', ''internet'']"

definition ListByAccountID :: "string \<Rightarrow> string list dbm" where
  "ListByAccountID aid =
     dbind (select_all (\<lambda>s. sort_by (\<lambda>p q. db_text_less s (snd p) (snd q)) (filter (\<lambda>p. fst p = aid) (db_role_tags s))))
       (\<lambda>rows. dret (map snd rows))"

definition setForAccountTx :: "string \<Rightarrow> string list \<Rightarrow> unit dbm" where
  "setForAccountTx aid roleTags =
     dbind (stmt (\<lambda>s. (Inr (), s\<lparr>db_role_tags := filter (\<lambda>p. fst p \<noteq> aid) (db_role_tags s)\<rparr>))) (\<lambda>_.
     dfor (normalizeAccountRoleTags roleTags) (\<lambda>t. stmt (\<lambda>s.
       if (aid, t) \<in> set (db_role_tags s) \<or> aid \<notin> ac_id ` set (db_accounts s) \<or> t \<notin> set allowed_role_tags
       then (Inl ErrConstraint, s)
       else (Inr (), s\<lparr>db_role_tags := db_role_tags s @ [(aid, t)]\<rparr>))))"

definition accountFromRow :: "account_row \<Rightarrow> account dbm" where
  "accountFromRow row =
     dbind (ListByAccountID (ac_id row)) (\<lambda>tags.
       dret \<lparr>a_id = ac_id row, a_entity = ac_entity row, a_name = ac_name row, a_type = ac_type row,
             a_code = strOf (ac_code row), a_tags = tags, a_created = ac_created row\<rparr>)"

definition AccountStore_GetByID :: "string \<Rightarrow> account dbm" where
  "AccountStore_GetByID i = dbind (get_row db_accounts (\<lambda>r. ac_id r = i)) accountFromRow"

definition AccountStore_GetEntityID :: "string \<Rightarrow> string dbm" where
  "AccountStore_GetEntityID i = dbind (get_row db_accounts (\<lambda>r. ac_id r = i)) (\<lambda>r. dret (ac_entity r))"

text \<open>\<open>ORDER BY code IS NULL, code, name\<close>.\<close>

definition account_before :: "(string \<Rightarrow> string \<Rightarrow> bool) \<Rightarrow> account_row \<Rightarrow> account_row \<Rightarrow> bool" where
  "account_before lt a b \<longleftrightarrow>
     (case (ac_code a, ac_code b) of
        (Some _, None) \<Rightarrow> True
      | (None, Some _) \<Rightarrow> False
      | (Some c, Some d) \<Rightarrow> lt c d \<or> (\<not> lt d c \<and> lt (ac_name a) (ac_name b))
      | (None, None) \<Rightarrow> lt (ac_name a) (ac_name b))"

fun accountsFromRows :: "account_row list \<Rightarrow> account list dbm" where
  "accountsFromRows [] = dret []"
| "accountsFromRows (r # rs) = dbind (accountFromRow r) (\<lambda>a. dbind (accountsFromRows rs) (\<lambda>as. dret (a # as)))"

definition AccountStore_ListForEntity :: "string \<Rightarrow> int \<Rightarrow> account list dbm" where
  "AccountStore_ListForEntity ent limit0 =
     (let limit = (if limit0 \<le> 0 then 200 else limit0) in
      dbind (select_all (\<lambda>s. take (nat limit) (sort_by (account_before (db_text_less s))
               (filter (\<lambda>a. ac_entity a = ent) (db_accounts s)))))
        accountsFromRows)"

definition AccountStore_Create :: "string \<Rightarrow> string \<Rightarrow> string \<Rightarrow> string \<Rightarrow> string list option \<Rightarrow> account dbm" where
  "AccountStore_Create ent name typ code roleTags =
     dbind (transact
       (dbind (stmt (\<lambda>s.
          let i = next_uuid s; s' = s\<lparr>db_seq := db_seq s + 1\<rparr> in
          if i \<in> ac_id ` set (db_accounts s) \<or> ent \<notin> ent_id ` set (db_entities s) \<or>
             (ent, name) \<in> (\<lambda>a. (ac_entity a, ac_name a)) ` set (db_accounts s)
          then (Inl ErrConstraint, s')
          else (Inr i, s'\<lparr>db_accounts := db_accounts s @ [\<lparr>ac_id = i, ac_entity = ent, ac_name = name, ac_type = typ,
                  ac_code = nullString code, ac_created = db_now s\<rparr>]\<rparr>))) (\<lambda>i.
        dbind (case roleTags of None \<Rightarrow> dret () | Some tags \<Rightarrow> setForAccountTx i tags) (\<lambda>_. dret i))))
     AccountStore_GetByID"

definition AccountStore_Update :: "string \<Rightarrow> string \<Rightarrow> string \<Rightarrow> string \<Rightarrow> string list option \<Rightarrow> account dbm" where
  "AccountStore_Update accountID name typ code roleTags =
     dbind (transact
       (dbind (stmt (\<lambda>s.
          case find (\<lambda>a. ac_id a = accountID) (db_accounts s) of
            None \<Rightarrow> (Inr None, s)
          | Some a \<Rightarrow>
              if \<exists>b\<in>set (db_accounts s). ac_id b \<noteq> accountID \<and> ac_entity b = ac_entity a \<and> ac_name b = name
              then (Inl ErrConstraint, s)
              else (Inr (Some accountID), s\<lparr>db_accounts := map (\<lambda>b. if ac_id b = accountID
                      then b\<lparr>ac_name := name, ac_type := typ, ac_code := nullString code\<rparr> else b) (db_accounts s)\<rparr>))) (\<lambda>r.
        case r of
          None \<Rightarrow> dthrow ErrNotFound
        | Some i \<Rightarrow>
            dbind (case roleTags of None \<Rightarrow> dret () | Some tags \<Rightarrow> setForAccountTx i tags) (\<lambda>_. dret i))))
     AccountStore_GetByID"

text \<open>The foreign keys that restrict deleting an account, besides \<open>entries\<close>.\<close>

definition account_referenced :: "string \<Rightarrow> db \<Rightarrow> bool" where
  "account_referenced a s \<longleftrightarrow>
     a \<in> en_account ` set (db_entries s) \<or> a \<in> en_account ` set (db_draft_entries s) \<or>
     Some a \<in> ir_account ` set (db_import_rows s) \<or> a \<in> vu_account ` set (db_rules s)"

definition AccountStore_Delete :: "string \<Rightarrow> unit dbm" where
  "AccountStore_Delete accountID =
     dbind (select_all (\<lambda>s. filter (\<lambda>e. en_account e = accountID) (db_entries s))) (\<lambda>used.
     if used \<noteq> [] then dthrow ErrAccountInUse
     else dbind (dtry (stmt (\<lambda>s.
            if accountID \<in> ac_id ` set (db_accounts s) \<and> account_referenced accountID s then (Inl ErrConstraint, s)
            else (Inr (length (filter (\<lambda>a. ac_id a = accountID) (db_accounts s))),
                  s\<lparr>db_accounts := filter (\<lambda>a. ac_id a \<noteq> accountID) (db_accounts s),
                    db_role_tags := filter (\<lambda>p. fst p \<noteq> accountID) (db_role_tags s),
                    db_vendors := map (\<lambda>v. if ve_account v = Some accountID then v\<lparr>ve_account := None\<rparr> else v) (db_vendors s),
                    db_extra := (db_extra s)\<lparr>ex_statements := filter (\<lambda>t. bs_account t \<noteq> accountID) (ex_statements (db_extra s))\<rparr>\<rparr>))))
       (\<lambda>r. case r of
          Inl e \<Rightarrow> dthrow (if e = ErrConstraint then ErrAccountInUse else e)
        | Inr n \<Rightarrow> if n = 0 then dthrow ErrNotFound else dret ()))"

definition AccountStore_FindDefaultCashAccount :: "string \<Rightarrow> account dbm" where
  "AccountStore_FindDefaultCashAccount ent =
     dbind (select_all (\<lambda>s. take 1 (sort_by (\<lambda>a b. ac_created b < ac_created a)
              (filter (\<lambda>a. ac_entity a = ent \<and> to_lower (ac_name a) = ''cash'') (db_accounts s))))) (\<lambda>rows.
     case rows of [] \<Rightarrow> dthrow ErrNotFound | r # _ \<Rightarrow> accountFromRow r)"

section \<open>Drafts\<close>

definition draftFromRows :: "draft_row \<Rightarrow> entry_row list \<Rightarrow> draft_tx" where
  "draftFromRows dt entries = \<lparr>dr_id = dt_id dt, dr_receipt = dt_receipt dt, dr_entity = dt_entity dt,
     dr_date = dt_date dt, dr_memo = strOf (dt_memo dt),
     dr_entries = map (\<lambda>r. \<lparr>dl_id = en_id r, dl_draft = en_tx r, dl_account = en_account r, dl_debit = en_debit r,
       dl_credit = en_credit r\<rparr>) entries,
     dr_created = dt_created dt, dr_updated = dt_updated dt\<rparr>"

definition DraftStore_GetByReceiptID :: "string \<Rightarrow> draft_tx dbm" where
  "DraftStore_GetByReceiptID receiptID =
     dbind (get_row db_drafts (\<lambda>d. dt_receipt d = receiptID)) (\<lambda>dt.
     dbind (select_all (\<lambda>s. sort_by (\<lambda>a b. db_text_less s (en_id a) (en_id b))
              (filter (\<lambda>e. en_tx e = dt_id dt) (db_draft_entries s)))) (\<lambda>rows.
     dret (draftFromRows dt rows)))"

definition sql_no_rows :: db_error where
  "sql_no_rows = ErrText ''sql: no rows in result set''"

definition insert_draft :: "string \<Rightarrow> string dbm" where
  "insert_draft receiptID =
     dbind (stmt (\<lambda>s.
       case find (\<lambda>r. rc_id r = receiptID) (db_receipts s) of
         None \<Rightarrow> (Inr None, s)
       | Some r \<Rightarrow>
           let i = next_uuid s; s' = s\<lparr>db_seq := db_seq s + 1\<rparr> in
           if i \<in> dt_id ` set (db_drafts s) \<or> receiptID \<in> dt_receipt ` set (db_drafts s) then (Inl ErrConstraint, s')
           else (Inr (Some i), s'\<lparr>db_drafts := db_drafts s @ [\<lparr>dt_id = i, dt_receipt = receiptID, dt_entity = rc_entity r,
                   dt_date = db_today s, dt_memo = None, dt_created = db_now s, dt_updated = db_now s\<rparr>]\<rparr>)))
       (\<lambda>r. case r of None \<Rightarrow> dthrow sql_no_rows | Some i \<Rightarrow> dret i)"

definition DraftStore_EnsureForReceipt :: "string \<Rightarrow> draft_tx dbm" where
  "DraftStore_EnsureForReceipt receiptID =
     dbind (dtry (DraftStore_GetByReceiptID receiptID)) (\<lambda>r.
     case r of
       Inr draft \<Rightarrow> dret draft
     | Inl e \<Rightarrow>
         if e \<noteq> ErrNotFound then dthrow e
         else dbind (insert_draft receiptID) (\<lambda>_. DraftStore_GetByReceiptID receiptID))"

definition delete_draft_entries :: "string \<Rightarrow> unit dbm" where
  "delete_draft_entries d = stmt (\<lambda>s. (Inr (), s\<lparr>db_draft_entries := filter (\<lambda>e. en_tx e \<noteq> d) (db_draft_entries s)\<rparr>))"

definition insert_draft_entry :: "string \<Rightarrow> draft_line \<Rightarrow> unit dbm" where
  "insert_draft_entry d e = stmt (\<lambda>s.
     let i = next_uuid s; s' = s\<lparr>db_seq := db_seq s + 1\<rparr>;
         row = \<lparr>en_id = i, en_tx = d, en_account = dl_account e, en_debit = dl_debit e, en_credit = dl_credit e\<rparr> in
     if i \<in> en_id ` set (db_draft_entries s) \<or> d \<notin> dt_id ` set (db_drafts s) \<or>
        dl_account e \<notin> ac_id ` set (db_accounts s) \<or> \<not> entry_check (dl_debit e) (dl_credit e)
     then (Inl ErrConstraint, s')
     else (Inr (), s'\<lparr>db_draft_entries := db_draft_entries s @ [row]\<rparr>))"

definition DraftStore_SetEntriesByReceipt :: "string \<Rightarrow> draft_line list \<Rightarrow> unit dbm" where
  "DraftStore_SetEntriesByReceipt receiptID entries =
     dbind (DraftStore_GetByReceiptID receiptID) (\<lambda>draft.
     transact (dbind (delete_draft_entries (dr_id draft)) (\<lambda>_. dfor entries (insert_draft_entry (dr_id draft)))))"

definition DraftStore_UpdateDraft :: "string \<Rightarrow> date \<Rightarrow> string \<Rightarrow> draft_line list \<Rightarrow> draft_tx dbm" where
  "DraftStore_UpdateDraft receiptID d memo entries =
     (case validateBalanced entries of
        Some err \<Rightarrow> dthrow err
      | None \<Rightarrow>
          dbind (DraftStore_GetByReceiptID receiptID) (\<lambda>draft.
          dbind (transact
            (dbind (stmt (\<lambda>s. (Inr (), s\<lparr>db_drafts := map (\<lambda>t. if dt_id t = dr_id draft
                      then t\<lparr>dt_date := d, dt_memo := nullString memo, dt_updated := db_now s\<rparr> else t) (db_drafts s)\<rparr>))) (\<lambda>_.
             dbind (delete_draft_entries (dr_id draft)) (\<lambda>_.
             dfor entries (insert_draft_entry (dr_id draft)))))) (\<lambda>_.
          DraftStore_GetByReceiptID receiptID)))"

section \<open>Import rows\<close>

text \<open>\<open>models.ImportRow\<close> as the stores return it, and as \<open>ReplaceForReceipt\<close> takes it.\<close>

record import_model =
  im_id :: string
  im_receipt :: string
  im_entity :: string
  im_index :: int
  im_date :: date
  im_vendor :: string
  im_memo :: string
  im_amount :: int64
  im_direction :: string
  im_account :: string
  im_fingerprint :: string
  im_status :: string
  im_tx :: string
  im_raw :: string

definition importRowFromRow :: "import_row \<Rightarrow> import_model" where
  "importRowFromRow r = \<lparr>im_id = ir_id r, im_receipt = ir_receipt r, im_entity = ir_entity r, im_index = ir_index r,
     im_date = ir_date r, im_vendor = ir_vendor r, im_memo = strOf (ir_memo r), im_amount = ir_amount r,
     im_direction = ir_direction r, im_account = strOf (ir_account r), im_fingerprint = ir_fingerprint r,
     im_status = ir_status r, im_tx = strOf (ir_tx r), im_raw = ir_raw r\<rparr>"

definition coalesce :: "'a option \<Rightarrow> 'a option \<Rightarrow> 'a option" where
  "coalesce a b = (case a of None \<Rightarrow> b | Some _ \<Rightarrow> a)"

text \<open>\<open>ON CONFLICT (receipt_id, row_index) DO UPDATE\<close>: the excluded row is \<open>e\<close>.\<close>

definition merge_import_row :: "import_row \<Rightarrow> import_row \<Rightarrow> import_row" where
  "merge_import_row old e = old\<lparr>ir_date := ir_date e, ir_vendor := ir_vendor e, ir_memo := ir_memo e,
     ir_amount := ir_amount e, ir_direction := ir_direction e,
     ir_account := coalesce (ir_account old) (ir_account e), ir_fingerprint := ir_fingerprint e,
     ir_status := (if ir_tx old \<noteq> None then ir_status old else ir_status e), ir_raw := ir_raw e\<rparr>"

definition upsert_import_row :: "string \<Rightarrow> string \<Rightarrow> import_model \<Rightarrow> unit dbm" where
  "upsert_import_row receiptID ent m = stmt (\<lambda>s.
     let i = next_uuid s; s' = s\<lparr>db_seq := db_seq s + 1\<rparr>;
         e = \<lparr>ir_id = i, ir_receipt = receiptID, ir_entity = ent, ir_index = im_index m, ir_date = im_date m,
              ir_vendor = im_vendor m, ir_memo = nullString (im_memo m), ir_amount = im_amount m,
              ir_direction = im_direction m, ir_account = nullString (im_account m),
              ir_fingerprint = im_fingerprint m,
              ir_status = (if im_status m = [] then ''needs_review'' else im_status m), ir_tx = None,
              ir_raw = (if im_raw m = [] then ''[]'' else im_raw m)\<rparr>;
         hit = (\<lambda>r. ir_receipt r = receiptID \<and> ir_index r = im_index m) in
     if receiptID \<notin> rc_id ` set (db_receipts s) \<or> ent \<notin> ent_id ` set (db_entities s) \<or>
        (im_account m \<noteq> [] \<and> im_account m \<notin> ac_id ` set (db_accounts s))
     then (Inl ErrConstraint, s')
     else if list_ex hit (db_import_rows s)
     then (Inr (), s'\<lparr>db_import_rows := map (\<lambda>r. if hit r then merge_import_row r e else r) (db_import_rows s)\<rparr>)
     else if i \<in> ir_id ` set (db_import_rows s) then (Inl ErrConstraint, s')
     else (Inr (), s'\<lparr>db_import_rows := db_import_rows s @ [e]\<rparr>))"

definition ImportRowStore_ReplaceForReceipt :: "string \<Rightarrow> string \<Rightarrow> import_model list \<Rightarrow> unit dbm" where
  "ImportRowStore_ReplaceForReceipt receiptID ent rows =
     transact (dbind (stmt (\<lambda>s. (Inr (), s\<lparr>db_import_rows :=
         filter (\<lambda>r. \<not> (ir_receipt r = receiptID \<and> ir_tx r = None)) (db_import_rows s)\<rparr>))) (\<lambda>_.
       dfor rows (upsert_import_row receiptID ent)))"

definition ImportRowStore_ListByReceiptID :: "string \<Rightarrow> import_model list dbm" where
  "ImportRowStore_ListByReceiptID receiptID =
     dbind (select_all (\<lambda>s. sort_by (\<lambda>a b. ir_index a < ir_index b)
              (filter (\<lambda>r. ir_receipt r = receiptID) (db_import_rows s)))) (\<lambda>rows.
     dret (map importRowFromRow rows))"

definition ImportRowStore_GetByReceiptAndIndex :: "string \<Rightarrow> int \<Rightarrow> import_model dbm" where
  "ImportRowStore_GetByReceiptAndIndex receiptID rowIndex =
     dbind (get_row db_import_rows (\<lambda>r. ir_receipt r = receiptID \<and> ir_index r = rowIndex)) (\<lambda>r. dret (importRowFromRow r))"

definition ImportRowStore_getByID :: "string \<Rightarrow> import_model dbm" where
  "ImportRowStore_getByID i = dbind (get_row db_import_rows (\<lambda>r. ir_id r = i)) (\<lambda>r. dret (importRowFromRow r))"

definition ImportRowStore_UpdateAccount :: "string \<Rightarrow> int \<Rightarrow> string \<Rightarrow> import_model dbm" where
  "ImportRowStore_UpdateAccount receiptID rowIndex accountID =
     dbind (stmt (\<lambda>s.
       let hit = (\<lambda>r. ir_receipt r = receiptID \<and> ir_index r = rowIndex) in
       case find hit (db_import_rows s) of
         None \<Rightarrow> (Inr None, s)
       | Some r \<Rightarrow>
           if accountID \<notin> ac_id ` set (db_accounts s) then (Inl ErrConstraint, s)
           else (Inr (Some (ir_id r)), s\<lparr>db_import_rows := map (\<lambda>r. if hit r
                   then r\<lparr>ir_account := Some accountID,
                          ir_status := (if ir_status r = ''posted'' then ir_status r else ''mapped'')\<rparr> else r) (db_import_rows s)\<rparr>)))
       (\<lambda>r. case r of None \<Rightarrow> dthrow ErrNotFound | Some i \<Rightarrow> ImportRowStore_getByID i)"

definition ImportRowStore_MarkPosted :: "string \<Rightarrow> string \<Rightarrow> unit dbm" where
  "ImportRowStore_MarkPosted i transactionID =
     dbind (stmt (\<lambda>s.
       let hit = (\<lambda>r. ir_id r = i \<and> ir_tx r = None) in
       if list_ex hit (db_import_rows s) \<and> transactionID \<notin> tx_id ` set (db_txs s) then (Inl ErrConstraint, s)
       else (Inr (length (filter hit (db_import_rows s))),
             s\<lparr>db_import_rows := map (\<lambda>r. if hit r then r\<lparr>ir_status := ''posted'', ir_tx := Some transactionID\<rparr> else r)
                 (db_import_rows s)\<rparr>)))
       (\<lambda>n. if n = 0 then dthrow ErrReceiptAlreadyAttached else dret ())"

section \<open>Role tags\<close>

lemma lower_replace_dash: "to_lower (replace_dash (to_lower s)) = replace_dash (to_lower s)"
proof -
  have "lower_char (if lower_char c = CHR ''-'' then CHR ''_'' else lower_char c) =
      (if lower_char c = CHR ''-'' then CHR ''_'' else lower_char c)" for c
    by (simp add: lower_char_def [of "CHR ''_''"])
  then show ?thesis by (simp add: replace_dash_def to_lower_def)
qed

section \<open>Every operation keeps the books\<close>

text \<open>The parts of a receipt and of an account the books depend on.\<close>

definition receipt_view :: "receipt_row \<Rightarrow> string \<times> string \<times> bool" where
  "receipt_view r = (rc_id r, rc_entity r, rc_attached r \<noteq> None)"

definition account_view :: "account_row \<Rightarrow> string \<times> string" where
  "account_view a = (ac_id a, ac_entity a)"

definition receipt_backs :: "(string \<times> string \<times> bool) list \<Rightarrow> tx_row \<Rightarrow> bool" where
  "receipt_backs vs t \<longleftrightarrow> (\<forall>r. tx_receipt t = Some r \<longrightarrow> (r, tx_entity t, True) \<in> set vs)"

definition one_tx_per_receipt :: "tx_row list \<Rightarrow> bool" where
  "one_tx_per_receipt ts \<longleftrightarrow> (\<forall>t\<in>set ts. \<forall>u\<in>set ts. tx_receipt t \<noteq> None \<longrightarrow> tx_receipt t = tx_receipt u \<longrightarrow> t = u)"

lemma find_view: "map_option ac_entity (find (\<lambda>r. ac_id r = a) as) = map_option snd (find (\<lambda>p. fst p = a) (map account_view as))"
  by (induction as) (auto simp: account_view_def)

lemma books_ok_view:
  "books_ok s \<longleftrightarrow>
     distinct (map tx_id (db_txs s)) \<and> distinct (map en_id (db_entries s)) \<and>
     distinct (map fst (map receipt_view (db_receipts s))) \<and> distinct (map fst (map account_view (db_accounts s))) \<and>
     (\<forall>e\<in>set (db_entries s). entry_check (en_debit e) (en_credit e) \<and>
        (\<exists>t\<in>set (db_txs s). tx_id t = en_tx e \<and>
           map_option snd (find (\<lambda>p. fst p = en_account e) (map account_view (db_accounts s))) = Some (tx_entity t))) \<and>
     (\<forall>t\<in>set (db_txs s). tx_balanced s t) \<and>
     (\<forall>t\<in>set (db_txs s). receipt_backs (map receipt_view (db_receipts s)) t) \<and> one_tx_per_receipt (db_txs s)"
proof -
  have "map fst (map receipt_view rs) = map rc_id rs" for rs by (simp add: receipt_view_def)
  moreover have "map fst (map account_view as) = map ac_id as" for as by (simp add: account_view_def)
  moreover have "receipt_backs (map receipt_view rs) t \<longleftrightarrow> (\<forall>r. tx_receipt t = Some r \<longrightarrow>
      (\<exists>c\<in>set rs. rc_id c = r \<and> rc_attached c \<noteq> None \<and> rc_entity c = tx_entity t))" for rs t
    unfolding receipt_backs_def receipt_view_def by (simp only: set_map image_iff prod.inject) metis
  ultimately show ?thesis
    unfolding books_ok_def keys_ok_def entries_ok_def receipts_ok_def one_tx_per_receipt_def account_entity_of_def find_view
    by (simp only: conj_assoc)
qed

text \<open>An update that leaves the ledger tables and the two views alone keeps the books.\<close>

lemma books_ok_frame:
  assumes "books_ok s" "db_txs s' = db_txs s" "db_entries s' = db_entries s"
    "map receipt_view (db_receipts s') = map receipt_view (db_receipts s)"
    "map account_view (db_accounts s') = map account_view (db_accounts s)"
  shows "books_ok s'"
proof -
  have "tx_balanced s' = tx_balanced s" using assms(3) by (simp add: fun_eq_iff tx_balanced_def entries_of_def)
  then show ?thesis using assms(1) unfolding books_ok_view assms(2-5) by simp
qed

lemma books_ok_new_receipt:
  assumes "books_ok s" "db_txs s' = db_txs s" "db_entries s' = db_entries s" "db_accounts s' = db_accounts s"
    "db_receipts s' = db_receipts s @ [r]" "rc_id r \<notin> rc_id ` set (db_receipts s)"
  shows "books_ok s'"
proof -
  have b: "tx_balanced s' = tx_balanced s" using assms(3) by (simp add: fun_eq_iff tx_balanced_def entries_of_def)
  have m: "receipt_backs vs t \<Longrightarrow> receipt_backs (vs @ [v]) t" for vs v t by (auto simp: receipt_backs_def)
  have d: "distinct (map fst (map receipt_view (db_receipts s')))"
    using assms(1,5,6) by (auto simp: books_ok_view receipt_view_def)
  show ?thesis using assms(1) d m unfolding books_ok_view b assms(2-4) by (simp add: assms(5))
qed

lemma find_append_other: "\<not> P y \<Longrightarrow> find P (xs @ [y]) = find P xs"
  by (induction xs) auto

lemma find_filter_other: "(\<And>x. P x \<Longrightarrow> Q x) \<Longrightarrow> find P (filter Q xs) = find P xs"
  by (induction xs) auto

lemma books_ok_accounts:
  assumes "books_ok s" "db_txs s' = db_txs s" "db_entries s' = db_entries s" "db_receipts s' = db_receipts s"
    "distinct (map ac_id (db_accounts s'))"
    "\<And>e. e \<in> set (db_entries s) \<Longrightarrow> account_entity_of s' (en_account e) = account_entity_of s (en_account e)"
  shows "books_ok s'"
proof -
  have b: "tx_balanced s' = tx_balanced s" using assms(3) by (simp add: fun_eq_iff tx_balanced_def entries_of_def)
  have "entries_ok s'" using assms(1) unfolding books_ok_def entries_ok_def assms(2,3) by (simp add: assms(6))
  then show ?thesis
    using assms(1,5) unfolding books_ok_def keys_ok_def receipts_ok_def b assms(2-4) by blast
qed

interpretation books: table_invariant books_ok
  by unfold_locales (rule books_ok_same_tables)

named_theorems books_keep

lemma keep_update_receipts:
  assumes "\<And>r. receipt_view (f r) = receipt_view r" "books_ok s" "update_receipts i f s = (Inr x, s')"
  shows "books_ok s'"
  by (rule books_ok_frame [OF assms(2)]) (use assms(3) in \<open>auto simp: update_receipts_def assms(1)\<close>)

lemma keep_ReceiptStore_GetByID [books_keep]: "keeps books_ok (ReceiptStore_GetByID i)"
  unfolding ReceiptStore_GetByID_def by auto

lemma keep_ReceiptStore_Create [books_keep]: "keeps books_ok (ReceiptStore_Create ent k ct st kd nm sz tot)"
  unfolding ReceiptStore_Create_def Let_def
  by (intro books.keep_dbind books.keep_stmt keep_ReceiptStore_GetByID)
     (auto split: if_splits intro: books_ok_new_receipt)

lemma keep_ReceiptStore_UpdateStatus [books_keep]: "keeps books_ok (ReceiptStore_UpdateStatus i st)"
  unfolding ReceiptStore_UpdateStatus_def
  by (intro books.keep_dbind books.keep_stmt books.keep_dret) (rule keep_update_receipts, auto simp: receipt_view_def)

lemma keep_update_receipts_fk:
  assumes "\<And>r. receipt_view (f r) = receipt_view r" "books_ok s"
    "(if P then (Inl e, s) else update_receipts i f s) = (Inr x, s')"
  shows "books_ok s'"
  using assms keep_update_receipts [OF assms(1,2)] by (auto split: if_splits)

lemma keep_ReceiptStore_UpdateResolvedVendorID [books_keep]: "keeps books_ok (ReceiptStore_UpdateResolvedVendorID i v)"
  unfolding ReceiptStore_UpdateResolvedVendorID_def
  by (intro books.keep_dbind books.keep_stmt)
     (rule keep_update_receipts_fk, auto simp: receipt_view_def)

lemma keep_ReceiptStore_SetResolvedVendor [books_keep]: "keeps books_ok (ReceiptStore_SetResolvedVendor i v w)"
  unfolding ReceiptStore_SetResolvedVendor_def
  by (intro books.keep_dbind books.keep_stmt books.keep_dret)
     (rule keep_update_receipts_fk, auto simp: receipt_view_def)

lemma keep_frame:
  assumes "\<And>s x s'. q s = (Inr x, s') \<Longrightarrow> db_txs s' = db_txs s \<and> db_entries s' = db_entries s \<and>
      db_receipts s' = db_receipts s \<and> db_accounts s' = db_accounts s"
  shows "keeps books_ok (stmt q)"
proof (rule books.keep_stmt)
  fix s x s' assume "books_ok s" "q s = (Inr x, s')"
  then show "books_ok s'" by (intro books_ok_frame [of s s']) (simp_all add: assms)
qed

lemma keep_ListByAccountID [books_keep]: "keeps books_ok (ListByAccountID a)"
  unfolding ListByAccountID_def by auto

lemma keep_accountFromRow [books_keep]: "keeps books_ok (accountFromRow r)"
  unfolding accountFromRow_def by (auto intro: keep_ListByAccountID)

lemma keep_AccountStore_GetByID [books_keep]: "keeps books_ok (AccountStore_GetByID i)"
  unfolding AccountStore_GetByID_def by (auto intro: keep_accountFromRow)

lemma keep_setForAccountTx [books_keep]: "keeps books_ok (setForAccountTx a tags)"
  unfolding setForAccountTx_def
  by (intro books.keep_dbind books.keep_dfor keep_frame) (auto split: if_splits)

lemma keep_set_tags: "keeps books_ok (case tags of None \<Rightarrow> dret () | Some ts \<Rightarrow> setForAccountTx i ts)"
  by (auto split: option.split intro: keep_setForAccountTx)

lemma account_entity_of_append:
  "a \<noteq> ac_id r \<Longrightarrow> account_entity_of (s\<lparr>db_accounts := db_accounts s @ [r]\<rparr>) a = account_entity_of s a"
  by (simp add: account_entity_of_def find_append_other)

lemma books_ok_entry_account:
  "books_ok s \<Longrightarrow> e \<in> set (db_entries s) \<Longrightarrow> \<exists>x. account_entity_of s (en_account e) = Some x"
  unfolding books_ok_def entries_ok_def by blast

lemma books_ok_new_account:
  assumes "books_ok s" "db_txs s' = db_txs s" "db_entries s' = db_entries s" "db_receipts s' = db_receipts s"
    "db_accounts s' = db_accounts s @ [r]" "ac_id r \<notin> ac_id ` set (db_accounts s)"
  shows "books_ok s'"
proof (rule books_ok_accounts [OF assms(1-4)])
  show "distinct (map ac_id (db_accounts s'))" using assms by (auto simp: books_ok_def keys_ok_def)
  fix e assume "e \<in> set (db_entries s)"
  then obtain a where "find (\<lambda>r. ac_id r = en_account e) (db_accounts s) = Some a"
    using books_ok_entry_account [OF assms(1)] by (auto simp: account_entity_of_def)
  then have "a \<in> set (db_accounts s)" "ac_id a = en_account e" using find_Some_mem by fastforce+
  then have "en_account e \<noteq> ac_id r" using assms(6) by (metis imageI)
  then show "account_entity_of s' (en_account e) = account_entity_of s (en_account e)"
    by (simp add: account_entity_of_def assms(5) find_append_other)
qed

lemma keep_AccountStore_Create [books_keep]: "keeps books_ok (AccountStore_Create ent nm ty cd tags)"
  unfolding AccountStore_Create_def Let_def
  by (intro books.keep_dbind books.keep_transact books.keep_stmt books.keep_dret keep_set_tags keep_AccountStore_GetByID)
     (auto split: if_splits intro: books_ok_new_account)

lemma keep_AccountStore_Update [books_keep]: "keeps books_ok (AccountStore_Update i nm ty cd tags)"
proof -
  have "books_ok s'" if "books_ok s" "db_txs s' = db_txs s" "db_entries s' = db_entries s" "db_receipts s' = db_receipts s"
      "db_accounts s' = map (\<lambda>b. if ac_id b = i then b\<lparr>ac_name := nm, ac_type := ty, ac_code := nullString cd\<rparr> else b) (db_accounts s)"
    for s s'
    by (rule books_ok_frame [OF that(1-3)]) (auto simp: that account_view_def)
  then show ?thesis
    unfolding AccountStore_Update_def
    by (intro books.keep_flow books.keep_transact books.keep_stmt keep_AccountStore_GetByID keep_set_tags)
       (auto split: if_splits option.splits)
qed

lemma books_ok_delete_account:
  assumes "books_ok s" "db_txs s' = db_txs s" "db_entries s' = db_entries s" "db_receipts s' = db_receipts s"
    "db_accounts s' = filter (\<lambda>a. ac_id a \<noteq> i) (db_accounts s)" "i \<notin> en_account ` set (db_entries s)"
  shows "books_ok s'"
proof (rule books_ok_accounts [OF assms(1-4)])
  show "distinct (map ac_id (db_accounts s'))"
    using assms(1) by (simp add: books_ok_def keys_ok_def assms(5) distinct_map_filter)
  fix e assume "e \<in> set (db_entries s)"
  then have "en_account e \<noteq> i" using assms(6) by blast
  then show "account_entity_of s' (en_account e) = account_entity_of s (en_account e)"
    by (simp add: account_entity_of_def assms(5)) (subst find_filter_other, auto)
qed

lemma books_ok_no_such_account:
  assumes "books_ok s" "i \<notin> ac_id ` set (db_accounts s)"
  shows "i \<notin> en_account ` set (db_entries s)"
proof
  assume "i \<in> en_account ` set (db_entries s)"
  then obtain e where "e \<in> set (db_entries s)" "en_account e = i" by blast
  then obtain a where "find (\<lambda>r. ac_id r = i) (db_accounts s) = Some a"
    using books_ok_entry_account [OF assms(1)] by (auto simp: account_entity_of_def)
  then have "a \<in> set (db_accounts s)" "ac_id a = i" using find_Some_mem by fastforce+
  then show False using assms(2) by (metis imageI)
qed

lemma keep_AccountStore_Delete [books_keep]: "keeps books_ok (AccountStore_Delete i)"
proof -
  have "books_ok s'" if "books_ok s" "i \<in> ac_id ` set (db_accounts s) \<longrightarrow> \<not> account_referenced i s"
      "db_txs s' = db_txs s" "db_entries s' = db_entries s" "db_receipts s' = db_receipts s"
      "db_accounts s' = filter (\<lambda>a. ac_id a \<noteq> i) (db_accounts s)" for s s'
  proof (rule books_ok_delete_account [OF that(1,3-6)])
    show "i \<notin> en_account ` set (db_entries s)"
      using that(1,2) books_ok_no_such_account by (auto simp: account_referenced_def)
  qed
  then show ?thesis
    unfolding AccountStore_Delete_def
    by (intro books.keep_flow books.keep_stmt) (auto split: if_splits)
qed

lemma keep_DraftStore_GetByReceiptID [books_keep]: "keeps books_ok (DraftStore_GetByReceiptID r)"
  unfolding DraftStore_GetByReceiptID_def by auto

lemma keep_insert_draft: "keeps books_ok (insert_draft r)"
  unfolding insert_draft_def
  by (intro books.keep_dbind keep_frame) (auto simp: Let_def split: option.splits if_splits)

lemma keep_DraftStore_EnsureForReceipt [books_keep]: "keeps books_ok (DraftStore_EnsureForReceipt r)"
  unfolding DraftStore_EnsureForReceipt_def
  by (intro books.keep_dbind books.keep_dtry keep_DraftStore_GetByReceiptID)
     (auto split: sum.splits intro: keep_insert_draft keep_DraftStore_GetByReceiptID)

lemma keep_delete_draft_entries: "keeps books_ok (delete_draft_entries d)"
  unfolding delete_draft_entries_def by (rule keep_frame) auto

lemma keep_insert_draft_entry: "keeps books_ok (insert_draft_entry d e)"
  unfolding insert_draft_entry_def by (rule keep_frame) (auto simp: Let_def split: if_splits)

lemma keep_DraftStore_SetEntriesByReceipt [books_keep]: "keeps books_ok (DraftStore_SetEntriesByReceipt r es)"
  unfolding DraftStore_SetEntriesByReceipt_def
  by (intro books.keep_dbind books.keep_transact books.keep_dfor keep_DraftStore_GetByReceiptID
      keep_delete_draft_entries keep_insert_draft_entry)

lemma keep_DraftStore_UpdateDraft [books_keep]: "keeps books_ok (DraftStore_UpdateDraft r d m es)"
  unfolding DraftStore_UpdateDraft_def
  by (cases "validateBalanced es")
     (auto intro!: books.keep_dbind books.keep_transact books.keep_dfor keep_DraftStore_GetByReceiptID
      keep_delete_draft_entries keep_insert_draft_entry keep_frame)

lemma keep_upsert_import_row: "keeps books_ok (upsert_import_row r ent m)"
  unfolding upsert_import_row_def by (rule keep_frame) (auto simp: Let_def split: if_splits)

lemma keep_ImportRowStore_ReplaceForReceipt [books_keep]: "keeps books_ok (ImportRowStore_ReplaceForReceipt r ent rows)"
  unfolding ImportRowStore_ReplaceForReceipt_def
  by (intro books.keep_transact books.keep_dbind books.keep_dfor keep_upsert_import_row keep_frame) auto

lemma keep_ImportRowStore_UpdateAccount [books_keep]: "keeps books_ok (ImportRowStore_UpdateAccount r i a)"
  unfolding ImportRowStore_UpdateAccount_def ImportRowStore_getByID_def
  by (intro books.keep_dbind keep_frame) (auto simp: Let_def split: if_splits option.splits)

lemma keep_ImportRowStore_MarkPosted [books_keep]: "keeps books_ok (ImportRowStore_MarkPosted i t)"
  unfolding ImportRowStore_MarkPosted_def
  by (intro books.keep_dbind keep_frame) (auto simp: Let_def split: if_splits)

lemma keep_posting [books_keep]:
  "keeps books_ok (TransactionStore_Create ent d m rc es)" "keeps books_ok (TransactionStore_CreateFromDraft dr rcp)"
  by (simp_all add: keeps_def post_eqs post_op_books_ok)

end
