(* ===== verification/Vendor_Memo.thy ===== *)
theory Vendor_Memo
  imports Stores Pipeline_Vendor Search_Query
begin

text \<open>
  Vendor memory: the vendor, alias and rule stores (\<open>internal/db/vendors.go\<close>, \<open>vendor_aliases.go\<close>,
  \<open>vendor_rules.go\<close>) and the memoization domain \<open>internal/vendormemo\<close>.  The search provider is the
  record \<open>search_env\<close>: whether one is configured and what its vendor search answers; what the program
  sends to it is appended to \<open>db_outbox\<close>.  The lemmas show that an entity never has two vendors, or two
  aliases, with the same normalised name, that a reviewer's choice of account is what the next receipt
  sees, that \<open>Record\<close> never remaps a string while \<open>RecordConfirmed\<close> does, and that search never gates
  the exact match.
\<close>

record vendor =
  v_id :: string
  v_entity :: string
  v_name :: string
  v_normalized :: string
  v_pattern :: string
  v_tax_id :: string
  v_website :: string
  v_account :: string
  v_receipts :: int
  v_seen :: "int option"

record search_env =
  se_enabled :: bool
  se_vendors :: "scoped_query \<Rightarrow> string + (vendor_document \<times> rat) list"

section \<open>Vendors\<close>

definition vendorFromRow :: "vendor_row \<Rightarrow> vendor" where
  "vendorFromRow r = \<lparr>v_id = ve_id r, v_entity = ve_entity r, v_name = ve_name r, v_normalized = ve_normalized r,
     v_pattern = strOf (ve_pattern r), v_tax_id = strOf (ve_tax_id r), v_website = strOf (ve_website r),
     v_account = strOf (ve_account r), v_receipts = ve_receipts r, v_seen = ve_seen r\<rparr>"

definition account_fk :: "string option \<Rightarrow> db \<Rightarrow> bool" where
  "account_fk a s \<longleftrightarrow> (case a of None \<Rightarrow> True | Some i \<Rightarrow> i \<in> ac_id ` set (db_accounts s))"

definition merge_vendor :: "vendor \<Rightarrow> vendor_row \<Rightarrow> vendor_row" where
  "merge_vendor v old = old\<lparr>ve_pattern := coalesce (ve_pattern old) (nullString (v_pattern v)),
     ve_account := coalesce (ve_account old) (nullString (v_account v)),
     ve_tax_id := coalesce (ve_tax_id old) (nullString (v_tax_id v)),
     ve_website := coalesce (ve_website old) (nullString (v_website v))\<rparr>"

definition same_vendor_key :: "string \<Rightarrow> string \<Rightarrow> vendor_row \<Rightarrow> bool" where
  "same_vendor_key ent nrm r \<longleftrightarrow> ve_entity r = ent \<and> ve_normalized r = nrm"

definition new_vendor_row :: "string \<Rightarrow> vendor \<Rightarrow> vendor_row" where
  "new_vendor_row i v = \<lparr>ve_id = i, ve_entity = v_entity v, ve_name = v_name v, ve_normalized = v_normalized v,
     ve_pattern = nullString (v_pattern v), ve_tax_id = nullString (v_tax_id v), ve_website = nullString (v_website v),
     ve_account = nullString (v_account v), ve_receipts = 0, ve_seen = None\<rparr>"

text \<open>\<open>INSERT ... ON CONFLICT (entity_id, normalized_name) DO UPDATE ... RETURNING id\<close>.\<close>

definition VendorStore_Create :: "vendor \<Rightarrow> vendor dbm" where
  "VendorStore_Create v =
     dbind (stmt (\<lambda>s.
       let i = next_uuid s; s' = s\<lparr>db_seq := db_seq s + 1\<rparr>; hit = same_vendor_key (v_entity v) (v_normalized v) in
       if v_entity v \<notin> ent_id ` set (db_entities s) \<or> \<not> account_fk (nullString (v_account v)) s then (Inl ErrConstraint, s')
       else case find hit (db_vendors s) of
         Some r \<Rightarrow> (Inr (ve_id r),
                    s'\<lparr>db_vendors := map (\<lambda>r. if hit r then merge_vendor v r else r) (db_vendors s)\<rparr>)
       | None \<Rightarrow>
           if i \<in> ve_id ` set (db_vendors s) then (Inl ErrConstraint, s')
           else (Inr i, s'\<lparr>db_vendors := db_vendors s @ [new_vendor_row i v]\<rparr>)))
       (\<lambda>i. dret (v\<lparr>v_id := i\<rparr>))"

definition VendorStore_ListForEntity :: "string \<Rightarrow> int \<Rightarrow> vendor list dbm" where
  "VendorStore_ListForEntity ent limit0 =
     (let limit = (if limit0 \<le> 0 then 500 else limit0) in
      dbind (select_all (\<lambda>s. take (nat limit) (sort_by (\<lambda>a b. db_text_less s (ve_name a) (ve_name b))
               (filter (\<lambda>r. ve_entity r = ent) (db_vendors s)))))
        (\<lambda>rows. dret (map vendorFromRow rows)))"

definition VendorStore_SetDefaultAccount :: "string \<Rightarrow> string \<Rightarrow> unit dbm" where
  "VendorStore_SetDefaultAccount i accountID =
     dbind (stmt (\<lambda>s.
       if i \<in> ve_id ` set (db_vendors s) \<and> \<not> account_fk (nullString accountID) s then (Inl ErrConstraint, s)
       else (Inr (length (filter (\<lambda>r. ve_id r = i) (db_vendors s))),
             s\<lparr>db_vendors := map (\<lambda>r. if ve_id r = i then r\<lparr>ve_account := nullString accountID\<rparr> else r) (db_vendors s)\<rparr>)))
       (\<lambda>n. if n = 0 then dthrow ErrNotFound else dret ())"

definition VendorStore_GetByID :: "string \<Rightarrow> vendor dbm" where
  "VendorStore_GetByID i = dbind (get_row db_vendors (\<lambda>r. ve_id r = i)) (\<lambda>r. dret (vendorFromRow r))"

definition VendorStore_GetEntityID :: "string \<Rightarrow> string dbm" where
  "VendorStore_GetEntityID i = dbind (get_row db_vendors (\<lambda>r. ve_id r = i)) (\<lambda>r. dret (ve_entity r))"

definition VendorStore_Update :: "string \<Rightarrow> vendor \<Rightarrow> vendor dbm" where
  "VendorStore_Update i v =
     dbind (dtry (stmt (\<lambda>s.
       case find (\<lambda>r. ve_id r = i) (db_vendors s) of
         None \<Rightarrow> (Inr None, s)
       | Some r \<Rightarrow>
           if \<exists>u\<in>set (db_vendors s). ve_id u \<noteq> i \<and> same_vendor_key (ve_entity r) (v_normalized v) u
           then (Inl ErrConflict, s)
           else if \<not> account_fk (nullString (v_account v)) s then (Inl ErrConstraint, s)
           else let upd = (\<lambda>r. r\<lparr>ve_name := v_name v, ve_normalized := v_normalized v,
                      ve_pattern := nullString (v_pattern v), ve_tax_id := nullString (v_tax_id v),
                      ve_website := nullString (v_website v), ve_account := nullString (v_account v)\<rparr>)
                in (Inr (Some (upd r)), s\<lparr>db_vendors := map (\<lambda>r. if ve_id r = i then upd r else r) (db_vendors s)\<rparr>))))
       (\<lambda>r. case r of
          Inl e \<Rightarrow> dthrow e
        | Inr None \<Rightarrow> dthrow ErrNotFound
        | Inr (Some row) \<Rightarrow> dret (vendorFromRow row))"

definition VendorStore_Delete :: "string \<Rightarrow> unit dbm" where
  "VendorStore_Delete i =
     dbind (stmt (\<lambda>s. (Inr (length (filter (\<lambda>r. ve_id r = i) (db_vendors s))),
        s\<lparr>db_vendors := filter (\<lambda>r. ve_id r \<noteq> i) (db_vendors s),
          db_aliases := filter (\<lambda>a. al_vendor a \<noteq> i) (db_aliases s),
          db_receipts := map (\<lambda>r. if rc_vendor_id r = Some i then r\<lparr>rc_vendor_id := None\<rparr> else r) (db_receipts s)\<rparr>)))
       (\<lambda>n. if n = 0 then dthrow ErrNotFound else dret ())"

definition VendorStore_FindByNormalized :: "string \<Rightarrow> string \<Rightarrow> vendor option dbm" where
  "VendorStore_FindByNormalized ent nrm =
     dbind (select_one db_vendors (same_vendor_key ent nrm)) (\<lambda>r. dret (map_option vendorFromRow r))"

section \<open>Aliases\<close>

definition same_alias_key :: "string \<Rightarrow> string \<Rightarrow> alias_row \<Rightarrow> bool" where
  "same_alias_key ent nrm a \<longleftrightarrow> al_entity a = ent \<and> al_normalized a = nrm"

text \<open>The upsert of \<open>Record\<close> (\<open>remap = False\<close>) and of \<open>RecordConfirmed\<close> (\<open>remap = True\<close>).\<close>

definition upsert_alias :: "bool \<Rightarrow> string \<Rightarrow> string \<Rightarrow> string \<Rightarrow> string \<Rightarrow> unit dbm" where
  "upsert_alias remap vendorID ent raw nrm = stmt (\<lambda>s.
     let i = next_uuid s; s' = s\<lparr>db_seq := db_seq s + 1\<rparr>; hit = same_alias_key ent nrm in
     if vendorID \<notin> ve_id ` set (db_vendors s) \<or> ent \<notin> ent_id ` set (db_entities s) then (Inl ErrConstraint, s')
     else if list_ex hit (db_aliases s)
     then (Inr (), s'\<lparr>db_aliases := map (\<lambda>a. if hit a
             then a\<lparr>al_vendor := (if remap then vendorID else al_vendor a), al_count := al_count a + 1, al_seen := db_now s\<rparr>
             else a) (db_aliases s)\<rparr>)
     else if i \<in> al_id ` set (db_aliases s) then (Inl ErrConstraint, s')
     else (Inr (), s'\<lparr>db_aliases := db_aliases s @ [\<lparr>al_id = i, al_vendor = vendorID, al_entity = ent, al_raw = raw,
             al_normalized = nrm, al_count = 1, al_seen = db_now s\<rparr>]\<rparr>))"

definition bump_vendor :: "string \<Rightarrow> unit dbm" where
  "bump_vendor vendorID = stmt (\<lambda>s. (Inr (), s\<lparr>db_vendors := map (\<lambda>r. if ve_id r = vendorID
     then r\<lparr>ve_receipts := ve_receipts r + 1, ve_seen := Some (db_now s)\<rparr> else r) (db_vendors s)\<rparr>))"

definition VendorAliasStore_Record :: "string \<Rightarrow> string \<Rightarrow> string \<Rightarrow> string \<Rightarrow> unit dbm" where
  "VendorAliasStore_Record vendorID ent raw nrm =
     (if nrm = [] then dret ()
      else dbind (upsert_alias False vendorID ent raw nrm) (\<lambda>_. bump_vendor vendorID))"

definition VendorAliasStore_RecordConfirmed :: "string \<Rightarrow> string \<Rightarrow> string \<Rightarrow> string \<Rightarrow> unit dbm" where
  "VendorAliasStore_RecordConfirmed vendorID ent raw nrm =
     (if nrm = [] then dret ()
      else dbind (upsert_alias True vendorID ent raw nrm) (\<lambda>_. bump_vendor vendorID))"

definition VendorAliasStore_ListNormalized :: "string \<Rightarrow> string list dbm" where
  "VendorAliasStore_ListNormalized vendorID =
     dbind (select_all (\<lambda>s. sort_by (\<lambda>a b. al_count b < al_count a \<or> (al_count a = al_count b \<and> al_seen b < al_seen a))
              (filter (\<lambda>a. al_vendor a = vendorID) (db_aliases s))))
       (\<lambda>rows. dret (map al_normalized rows))"

section \<open>Rules\<close>

record vendor_rule =
  ru_id :: string
  ru_entity :: string
  ru_match :: string
  ru_pattern :: string
  ru_account :: string
  ru_created :: int

definition vendorRuleFromRow :: "rule_row \<Rightarrow> vendor_rule" where
  "vendorRuleFromRow r = \<lparr>ru_id = vu_id r, ru_entity = vu_entity r, ru_match = vu_match r, ru_pattern = vu_pattern r,
     ru_account = vu_account r, ru_created = vu_created r\<rparr>"

definition normalizeVendor :: "string \<Rightarrow> string" where
  "normalizeVendor v = to_lower (trim_space v)"

definition ruleMatches :: "vendor_rule \<Rightarrow> string \<Rightarrow> bool" where
  "ruleMatches rule vendorNorm =
     (let pattern = normalizeVendor (ru_pattern rule) in
      if ru_match rule = ''exact'' then vendorNorm = pattern
      else if ru_match rule = ''contains'' then contains vendorNorm pattern
      else False)"

definition VendorRuleStore_GetByID :: "string \<Rightarrow> vendor_rule dbm" where
  "VendorRuleStore_GetByID i = dbind (get_row db_rules (\<lambda>r. vu_id r = i)) (\<lambda>r. dret (vendorRuleFromRow r))"

definition VendorRuleStore_GetEntityID :: "string \<Rightarrow> string dbm" where
  "VendorRuleStore_GetEntityID i = dbind (get_row db_rules (\<lambda>r. vu_id r = i)) (\<lambda>r. dret (vu_entity r))"

definition VendorRuleStore_Create :: "vendor_rule \<Rightarrow> vendor_rule dbm" where
  "VendorRuleStore_Create rule =
     dbind (stmt (\<lambda>s.
       let i = next_uuid s; s' = s\<lparr>db_seq := db_seq s + 1\<rparr> in
       if i \<in> vu_id ` set (db_rules s) \<or> ru_entity rule \<notin> ent_id ` set (db_entities s) \<or>
          ru_account rule \<notin> ac_id ` set (db_accounts s) then (Inl ErrConstraint, s')
       else (Inr i, s'\<lparr>db_rules := db_rules s @ [\<lparr>vu_id = i, vu_entity = ru_entity rule, vu_match = ru_match rule,
               vu_pattern = ru_pattern rule, vu_account = ru_account rule, vu_created = db_now s\<rparr>]\<rparr>)))
     VendorRuleStore_GetByID"

definition VendorRuleStore_Update :: "string \<Rightarrow> vendor_rule \<Rightarrow> vendor_rule dbm" where
  "VendorRuleStore_Update i rule =
     dbind (stmt (\<lambda>s.
       if i \<notin> vu_id ` set (db_rules s) then (Inr None, s)
       else if ru_account rule \<notin> ac_id ` set (db_accounts s) then (Inl ErrConstraint, s)
       else (Inr (Some i), s\<lparr>db_rules := map (\<lambda>r. if vu_id r = i
               then r\<lparr>vu_match := ru_match rule, vu_pattern := ru_pattern rule, vu_account := ru_account rule\<rparr> else r) (db_rules s)\<rparr>)))
     (\<lambda>r. case r of None \<Rightarrow> dthrow ErrNotFound | Some j \<Rightarrow> VendorRuleStore_GetByID j)"

definition VendorRuleStore_Delete :: "string \<Rightarrow> unit dbm" where
  "VendorRuleStore_Delete i =
     dbind (stmt (\<lambda>s. (Inr (length (filter (\<lambda>r. vu_id r = i) (db_rules s))),
                       s\<lparr>db_rules := filter (\<lambda>r. vu_id r \<noteq> i) (db_rules s)\<rparr>)))
       (\<lambda>n. if n = 0 then dthrow ErrNotFound else dret ())"

definition entity_rules :: "string \<Rightarrow> db \<Rightarrow> rule_row list" where
  "entity_rules ent s = sort_by (\<lambda>a b. vu_created b < vu_created a) (filter (\<lambda>r. vu_entity r = ent) (db_rules s))"

definition VendorRuleStore_List :: "string \<Rightarrow> int \<Rightarrow> vendor_rule list dbm" where
  "VendorRuleStore_List ent limit0 =
     (let limit = (if limit0 \<le> 0 then 200 else limit0) in
      dbind (select_all (\<lambda>s. take (nat limit) (entity_rules ent s))) (\<lambda>rows. dret (map vendorRuleFromRow rows)))"

definition VendorRuleStore_FindMatching :: "string \<Rightarrow> string \<Rightarrow> vendor_rule list dbm" where
  "VendorRuleStore_FindMatching ent vendor =
     dbind (select_all (entity_rules ent)) (\<lambda>rows.
     dret (filter (\<lambda>rule. ruleMatches rule (normalizeVendor vendor)) (map vendorRuleFromRow rows)))"

section \<open>Memoization\<close>

definition candidateLimit :: nat where
  "candidateLimit = 8"

definition refFromDB :: "vendor \<Rightarrow> vendor_ref" where
  "refFromDB v = \<lparr>vr_id = v_id v, vr_name = v_name v, vr_tax_id = v_tax_id v, vr_pattern = v_pattern v,
     vr_default_account = v_account v\<rparr>"

definition refFromDoc :: "vendor_document \<Rightarrow> vendor_ref" where
  "refFromDoc d = \<lparr>vr_id = vd_id d, vr_name = vd_name d, vr_tax_id = vd_tax_id d, vr_pattern = vd_pattern d,
     vr_default_account = vd_account d\<rparr>"

text \<open>A call to the search service: the program ignores its answer.\<close>

definition send :: "search_call \<Rightarrow> unit dbm" where
  "send call s = (Inr (), s\<lparr>db_outbox := db_outbox s @ [call]\<rparr>)"

definition vendor_data_of :: "vendor \<Rightarrow> string list \<Rightarrow> vendor_data" where
  "vendor_data_of v aliases = \<lparr>vda_id = v_id v, vda_entity = v_entity v, vda_name = v_name v, vda_pattern = v_pattern v,
     vda_tax_id = v_tax_id v, vda_website = v_website v, vda_account = v_account v, vda_aliases = aliases,
     vda_receipts = v_receipts v, vda_seen = (case v_seen v of None \<Rightarrow> 0 | Some t \<Rightarrow> t)\<rparr>"

definition listVendors :: "string \<Rightarrow> vendor list dbm" where
  "listVendors ent =
     dbind (dtry (VendorStore_ListForEntity ent 500)) (\<lambda>r. dret (case r of Inl _ \<Rightarrow> [] | Inr vs \<Rightarrow> vs))"

fun hit_refs :: "string list \<Rightarrow> vendor_document list \<Rightarrow> vendor_ref list" where
  "hit_refs seen [] = []"
| "hit_refs seen (d # ds) =
     (if vd_id d = [] \<or> vd_id d \<in> set seen then hit_refs seen ds
      else refFromDoc d # hit_refs (vd_id d # seen) ds)"

definition searchRefs :: "search_env \<Rightarrow> string \<Rightarrow> string \<Rightarrow> string \<Rightarrow> vendor_ref list option dbm" where
  "searchRefs se tenantID ent vendorName =
     (if \<not> se_enabled se \<or> tenantID = [] then dret None
      else case se_vendors se \<lparr>sq_tenant = tenantID, sq_entity = ent, sq_query = vendorName, sq_amount = 0,
                                sq_limit = int candidateLimit\<rparr> of
        Inl _ \<Rightarrow> dret None
      | Inr hits \<Rightarrow>
          if length hits = 0 then dret None
          else dbind (dtry (VendorStore_FindByNormalized ent (NormalizeVendorName vendorName))) (\<lambda>r.
            let lead = (case r of Inr (Some v) \<Rightarrow> [v] | _ \<Rightarrow> []);
                refs = map refFromDB lead @ hit_refs (map v_id lead) (map fst hits)
            in dret (if length refs = 0 then None else Some refs)))"

definition Candidates :: "search_env \<Rightarrow> string \<Rightarrow> string \<Rightarrow> string \<Rightarrow> vendor_ref list dbm" where
  "Candidates se tenantID ent vendorName =
     dbind (searchRefs se tenantID ent vendorName) (\<lambda>r.
     case r of
       Some refs \<Rightarrow> dret refs
     | None \<Rightarrow> dbind (listVendors ent) (\<lambda>vs.
         dret (RankVendorCandidates vendorName (map refFromDB vs) candidateLimit)))"

definition indexGlobalSearch :: "search_env \<Rightarrow> string \<Rightarrow> vendor \<Rightarrow> unit dbm" where
  "indexGlobalSearch se tenantID v s =
     (if \<not> se_enabled se \<or> tenantID = [] then dret () s
      else send (UpsertDocument (SearchDocumentFromVendor (db_now s) tenantID
             ((vendor_data_of v [])\<lparr>vda_tax_id := [], vda_receipts := 0, vda_seen := 0\<rparr>))) s)"

definition IndexRetrieval :: "search_env \<Rightarrow> string \<Rightarrow> string \<Rightarrow> unit dbm" where
  "IndexRetrieval se tenantID vendorID =
     (if \<not> se_enabled se \<or> tenantID = [] then dret ()
      else dbind (dtry (VendorStore_GetByID vendorID)) (\<lambda>r.
        case r of
          Inl _ \<Rightarrow> dret ()
        | Inr v \<Rightarrow> dbind (dtry (VendorAliasStore_ListNormalized vendorID)) (\<lambda>al.
            send (UpsertVendor (VendorDocumentFromData tenantID
              (vendor_data_of v (case al of Inl _ \<Rightarrow> [] | Inr as \<Rightarrow> as)))))))"

definition proposed_row :: "string \<Rightarrow> proposed_vendor \<Rightarrow> string \<Rightarrow> vendor" where
  "proposed_row ent pv accountID = \<lparr>v_id = [], v_entity = ent, v_name = pv_name pv,
     v_normalized = NormalizeVendorName (pv_name pv), v_pattern = pv_pattern pv, v_tax_id = strOf (pv_tax_id pv),
     v_website = strOf (pv_website pv), v_account = accountID, v_receipts = 0, v_seen = None\<rparr>"

definition Memoize :: "search_env \<Rightarrow> string \<Rightarrow> string \<Rightarrow> proposed_vendor option \<Rightarrow> string \<Rightarrow> vendor option dbm" where
  "Memoize se tenantID ent proposal accountID =
     (case proposal of
        None \<Rightarrow> dret None
      | Some pv \<Rightarrow>
          if trim_space (pv_name pv) = [] then dret None
          else dbind (dtry (VendorStore_Create (proposed_row ent pv accountID))) (\<lambda>r.
            case r of
              Inl _ \<Rightarrow> dret None
            | Inr v \<Rightarrow> dbind (indexGlobalSearch se tenantID v) (\<lambda>_. dret (Some v))))"

definition RecordResolution :: "search_env \<Rightarrow> string \<Rightarrow> string \<Rightarrow> string \<Rightarrow> string \<Rightarrow> unit dbm" where
  "RecordResolution se tenantID ent vendorID rawVendor =
     (if trim_space vendorID = [] then dret ()
      else dbind (dtry (VendorAliasStore_Record vendorID ent rawVendor (NormalizeVendorName rawVendor))) (\<lambda>_.
        IndexRetrieval se tenantID vendorID))"

definition LearnAccount :: "search_env \<Rightarrow> string \<Rightarrow> string \<Rightarrow> string \<Rightarrow> string \<Rightarrow> string \<Rightarrow> unit dbm" where
  "LearnAccount se tenantID ent vendorID rawVendor chosenAccount =
     (if trim_space vendorID = [] \<or> trim_space chosenAccount = [] then dret ()
      else dbind (VendorStore_GetByID vendorID) (\<lambda>v.
        dbind (if v_account v \<noteq> chosenAccount then VendorStore_SetDefaultAccount vendorID chosenAccount else dret ()) (\<lambda>_.
        dbind (if trim_space rawVendor \<noteq> []
               then dbind (dtry (VendorAliasStore_RecordConfirmed vendorID ent rawVendor (NormalizeVendorName rawVendor)))
                      (\<lambda>_. dret ())
               else dret ()) (\<lambda>_.
        IndexRetrieval se tenantID vendorID))))"

section \<open>The books are untouched\<close>

lemma keep_send [books_keep]: "keeps books_ok (send c)"
  by (auto simp: keeps_def send_def elim!: books_ok_frame)

lemma keep_VendorStore_Create [books_keep]: "keeps books_ok (VendorStore_Create v)"
  unfolding VendorStore_Create_def
  by (intro books.keep_flow keep_frame) (auto simp: Let_def split: if_splits option.splits)

lemma keep_VendorStore_SetDefaultAccount [books_keep]: "keeps books_ok (VendorStore_SetDefaultAccount i a)"
  unfolding VendorStore_SetDefaultAccount_def
  by (intro books.keep_flow keep_frame) (auto split: if_splits)

lemma keep_VendorStore_Update [books_keep]: "keeps books_ok (VendorStore_Update i v)"
  unfolding VendorStore_Update_def
  by (intro books.keep_flow keep_frame) (auto simp: Let_def split: if_splits option.splits)

lemma keep_VendorStore_Delete [books_keep]: "keeps books_ok (VendorStore_Delete i)"
proof -
  have "keeps books_ok (stmt (\<lambda>s. (Inr (length (filter (\<lambda>r. ve_id r = i) (db_vendors s))),
        s\<lparr>db_vendors := filter (\<lambda>r. ve_id r \<noteq> i) (db_vendors s),
          db_aliases := filter (\<lambda>a. al_vendor a \<noteq> i) (db_aliases s),
          db_receipts := map (\<lambda>r. if rc_vendor_id r = Some i then r\<lparr>rc_vendor_id := None\<rparr> else r) (db_receipts s)\<rparr>)))"
    by (rule books.keep_stmt) (erule books_ok_frame, auto simp: receipt_view_def)
  then show ?thesis unfolding VendorStore_Delete_def by (intro books.keep_flow)
qed

lemma keep_upsert_alias: "keeps books_ok (upsert_alias remap v e r n)"
  unfolding upsert_alias_def by (rule keep_frame) (auto simp: Let_def split: if_splits)

lemma keep_bump_vendor: "keeps books_ok (bump_vendor v)"
  unfolding bump_vendor_def by (rule keep_frame) auto

lemma keep_aliases [books_keep]:
  "keeps books_ok (VendorAliasStore_Record v e r n)" "keeps books_ok (VendorAliasStore_RecordConfirmed v e r n)"
  unfolding VendorAliasStore_Record_def VendorAliasStore_RecordConfirmed_def
  by (intro books.keep_flow keep_upsert_alias keep_bump_vendor)+

lemma keep_vendor_reads [books_keep]:
  "keeps books_ok (VendorStore_GetByID i)" "keeps books_ok (VendorStore_ListForEntity e l)"
  "keeps books_ok (VendorAliasStore_ListNormalized i)" "keeps books_ok (VendorStore_FindByNormalized e n)"
  "keeps books_ok (VendorRuleStore_FindMatching e w)" "keeps books_ok (VendorRuleStore_GetByID i)"
  unfolding VendorStore_GetByID_def VendorStore_ListForEntity_def VendorAliasStore_ListNormalized_def
    VendorStore_FindByNormalized_def VendorRuleStore_FindMatching_def VendorRuleStore_GetByID_def Let_def
  by (intro books.keep_flow)+

lemma keep_vendor_rules [books_keep]:
  "keeps books_ok (VendorRuleStore_Create r)" "keeps books_ok (VendorRuleStore_Update i r)"
  "keeps books_ok (VendorRuleStore_Delete i)"
  unfolding VendorRuleStore_Create_def VendorRuleStore_Update_def VendorRuleStore_Delete_def
  by (intro books.keep_flow keep_vendor_reads keep_frame; auto simp: Let_def split: if_splits)+

lemma keep_IndexRetrieval [books_keep]: "keeps books_ok (IndexRetrieval se t v)"
  unfolding IndexRetrieval_def by (intro books.keep_flow keep_vendor_reads keep_send)

lemma keep_indexGlobalSearch [books_keep]: "keeps books_ok (indexGlobalSearch se t v)"
  using keep_send by (auto simp: keeps_def indexGlobalSearch_def dret_def)

lemma keep_memo [books_keep]:
  "keeps books_ok (Memoize se t e p a)" "keeps books_ok (RecordResolution se t e v r)"
  "keeps books_ok (LearnAccount se t e v r a)" "keeps books_ok (Candidates se t e n)"
  unfolding Memoize_def RecordResolution_def LearnAccount_def Candidates_def searchRefs_def listVendors_def Let_def
  by (intro books.keep_flow keep_VendorStore_Create keep_indexGlobalSearch keep_aliases keep_IndexRetrieval
      keep_vendor_reads keep_VendorStore_SetDefaultAccount)+

section \<open>One vendor per name, one alias per string\<close>

definition vendor_key :: "vendor_row \<Rightarrow> string \<times> string" where
  "vendor_key r = (ve_entity r, ve_normalized r)"

definition alias_key :: "alias_row \<Rightarrow> string \<times> string" where
  "alias_key a = (al_entity a, al_normalized a)"

definition vendors_ok :: "db \<Rightarrow> bool" where
  "vendors_ok s \<longleftrightarrow> distinct (map ve_id (db_vendors s)) \<and> distinct (map vendor_key (db_vendors s)) \<and>
     distinct (map alias_key (db_aliases s)) \<and> al_vendor ` set (db_aliases s) \<subseteq> ve_id ` set (db_vendors s)"

interpretation vendors: table_invariant vendors_ok
  by unfold_locales (simp add: vendors_ok_def same_tables_fields)

lemma same_vendor_key_iff: "same_vendor_key e n r \<longleftrightarrow> vendor_key r = (e, n)"
  by (simp add: same_vendor_key_def vendor_key_def)

lemma same_alias_key_iff: "same_alias_key e n a \<longleftrightarrow> alias_key a = (e, n)"
  by (simp add: same_alias_key_def alias_key_def)

lemma vendors_ok_view:
  assumes "vendors_ok s" "map ve_id (db_vendors s') = map ve_id (db_vendors s)"
    "map vendor_key (db_vendors s') = map vendor_key (db_vendors s)" "db_aliases s' = db_aliases s"
  shows "vendors_ok s'"
  using assms unfolding vendors_ok_def by (simp only: list.set_map [symmetric])

lemma vendors_ok_new:
  assumes "vendors_ok s" "db_vendors s' = db_vendors s @ [r]" "db_aliases s' = db_aliases s"
    "ve_id r \<notin> ve_id ` set (db_vendors s)" "vendor_key r \<notin> vendor_key ` set (db_vendors s)"
  shows "vendors_ok s'"
  using assms by (auto simp: vendors_ok_def)

lemma find_None_key: "find (same_vendor_key e n) vs = None \<longleftrightarrow> (e, n) \<notin> vendor_key ` set vs"
  by (auto simp: find_None_iff same_vendor_key_iff image_iff)

lemma merge_vendor_view [simp]: "ve_id (merge_vendor v r) = ve_id r" "vendor_key (merge_vendor v r) = vendor_key r"
  by (simp_all add: merge_vendor_def vendor_key_def)

lemma vendors_ok_map:
  assumes "vendors_ok s" "\<And>r. ve_id (f r) = ve_id r \<and> vendor_key (f r) = vendor_key r"
  shows "vendors_ok (s\<lparr>db_vendors := map f (db_vendors s)\<rparr>)"
    "vendors_ok (s\<lparr>db_seq := n, db_vendors := map f (db_vendors s)\<rparr>)"
  by (rule vendors_ok_view [OF assms(1)]; simp add: assms(2))+

lemma vendors_ok_insert:
  assumes "vendors_ok s" "i \<notin> ve_id ` set (db_vendors s)"
    "find (same_vendor_key (v_entity v) (v_normalized v)) (db_vendors s) = None"
  shows "vendors_ok (s\<lparr>db_seq := n, db_vendors := db_vendors s @ [new_vendor_row i v]\<rparr>)"
  by (rule vendors_ok_new [OF assms(1), where r = "new_vendor_row i v"])
     (use assms(2,3) in \<open>simp_all add: new_vendor_row_def vendor_key_def find_None_key\<close>)

lemma vendors_ok_Create: "keeps vendors_ok (VendorStore_Create v)"
  unfolding VendorStore_Create_def
  by (intro vendors.keep_flow vendors.keep_stmt)
     (auto simp: Let_def split: if_splits option.splits intro!: vendors_ok_map vendors_ok_insert)

lemma vendors_ok_SetDefaultAccount: "keeps vendors_ok (VendorStore_SetDefaultAccount i a)"
  unfolding VendorStore_SetDefaultAccount_def
  by (intro vendors.keep_flow vendors.keep_stmt)
     (auto split: if_splits simp: vendor_key_def intro!: vendors_ok_map)

lemma vendors_ok_bump: "keeps vendors_ok (bump_vendor i)"
  unfolding bump_vendor_def by (intro vendors.keep_stmt) (auto simp: vendor_key_def intro!: vendors_ok_map)

lemma vendors_ok_upsert_alias: "keeps vendors_ok (upsert_alias remap v e r n)"
  unfolding upsert_alias_def
proof (rule vendors.keep_stmt)
  fix s :: db and x s'
  let ?up = "\<lambda>a. if same_alias_key e n a
    then a\<lparr>al_vendor := (if remap then v else al_vendor a), al_count := al_count a + 1, al_seen := db_now s\<rparr> else a"
  assume ok: "vendors_ok s" and st: "(let i = next_uuid s; s' = s\<lparr>db_seq := db_seq s + 1\<rparr>; hit = same_alias_key e n in
     if v \<notin> ve_id ` set (db_vendors s) \<or> e \<notin> ent_id ` set (db_entities s) then (Inl ErrConstraint, s')
     else if list_ex hit (db_aliases s)
     then (Inr (), s'\<lparr>db_aliases := map (\<lambda>a. if hit a
             then a\<lparr>al_vendor := (if remap then v else al_vendor a), al_count := al_count a + 1, al_seen := db_now s\<rparr>
             else a) (db_aliases s)\<rparr>)
     else if i \<in> al_id ` set (db_aliases s) then (Inl ErrConstraint, s')
     else (Inr (), s'\<lparr>db_aliases := db_aliases s @ [\<lparr>al_id = i, al_vendor = v, al_entity = e, al_raw = r,
             al_normalized = n, al_count = 1, al_seen = db_now s\<rparr>]\<rparr>)) = (Inr x, s')"
  have v: "v \<in> ve_id ` set (db_vendors s)" using st by (auto simp: Let_def split: if_splits)
  have k: "map alias_key (map ?up as) = map alias_key as" for as by (simp add: alias_key_def)
  have m: "al_vendor ` set (map ?up as) \<subseteq> insert v (al_vendor ` set as)" for as by auto
  show "vendors_ok s'"
  proof (cases "list_ex (same_alias_key e n) (db_aliases s)")
    case True
    then have "db_vendors s' = db_vendors s" "db_aliases s' = map ?up (db_aliases s)"
      using st by (auto simp: Let_def split: if_splits)
    then show ?thesis using ok v k [of "db_aliases s"] m [of "db_aliases s"] unfolding vendors_ok_def by (simp only:) blast
  next
    case False
    then have new: "(e, n) \<notin> alias_key ` set (db_aliases s)" by (auto simp: list_ex_iff same_alias_key_iff)
    obtain row where "db_aliases s' = db_aliases s @ [row]" "alias_key row = (e, n)" "al_vendor row = v"
      "db_vendors s' = db_vendors s"
      using False st v by (auto simp: Let_def alias_key_def split: if_splits)
    then show ?thesis using ok v new by (simp add: vendors_ok_def)
  qed
qed

lemma vendors_ok_aliases:
  "keeps vendors_ok (VendorAliasStore_Record v e r n)" "keeps vendors_ok (VendorAliasStore_RecordConfirmed v e r n)"
  unfolding VendorAliasStore_Record_def VendorAliasStore_RecordConfirmed_def
  by (intro vendors.keep_flow vendors_ok_upsert_alias vendors_ok_bump)+

section \<open>Learning\<close>

lemma find_update:
  assumes "\<And>r. ve_id (g r) = ve_id r" "find (\<lambda>r. ve_id r = i) vs = Some r"
  shows "find (\<lambda>r. ve_id r = i) (map (\<lambda>r. if ve_id r = i then g r else r) vs) = Some (g r)"
  using assms(2) by (induction vs) (auto simp: assms(1) split: if_splits)

lemma count_pos_find: "0 < length (filter P xs) \<longleftrightarrow> (\<exists>x. find P xs = Some x)"
  by (induction xs) auto

definition stored_account :: "db \<Rightarrow> string \<Rightarrow> string option" where
  "stored_account s i = map_option (\<lambda>r. strOf (ve_account r)) (find (\<lambda>r. ve_id r = i) (db_vendors s))"

lemma stored_account_map:
  assumes "\<And>r. ve_id (f r) = ve_id r" "\<And>r. ve_account (f r) = ve_account r" "db_vendors s' = map f (db_vendors s)"
  shows "stored_account s' = stored_account s"
proof -
  have "map_option (\<lambda>r. strOf (ve_account r)) (find (\<lambda>r. ve_id r = i) (map f vs)) =
      map_option (\<lambda>r. strOf (ve_account r)) (find (\<lambda>r. ve_id r = i) vs)" for i vs
    by (induction vs) (auto simp: assms(1,2))
  then show ?thesis by (simp add: stored_account_def fun_eq_iff assms(3))
qed

lemma SetDefaultAccount_stored:
  assumes "VendorStore_SetDefaultAccount i a s = (Inr (), s')" "a \<noteq> []"
  shows "stored_account s' i = Some a"
proof -
  obtain k t where q: "stmt (\<lambda>s.
       if i \<in> ve_id ` set (db_vendors s) \<and> \<not> account_fk (nullString a) s then (Inl ErrConstraint, s)
       else (Inr (length (filter (\<lambda>r. ve_id r = i) (db_vendors s))),
             s\<lparr>db_vendors := map (\<lambda>r. if ve_id r = i then r\<lparr>ve_account := nullString a\<rparr> else r) (db_vendors s)\<rparr>)) s =
      (Inr k, t)" and r: "(if k = 0 then dthrow ErrNotFound else dret ()) t = (Inr (), s')"
    using assms(1) unfolding VendorStore_SetDefaultAccount_def dbind_Inr by blast
  have kt: "k \<noteq> 0" "s' = t" using r by (cases "k = 0"; simp add: db_simps)+
  have "k = length (filter (\<lambda>r. ve_id r = i) (db_vendors (s\<lparr>db_tick := db_tick s + 1\<rparr>)))"
    using q unfolding stmt_Inr guarded_Inr by blast
  then have n: "0 < length (filter (\<lambda>r. ve_id r = i) (db_vendors s))" using kt(1) by (simp only: db.simps) simp
  have "t = s\<lparr>db_tick := db_tick s + 1, db_vendors := map (\<lambda>r. if ve_id r = i then r\<lparr>ve_account := nullString a\<rparr> else r) (db_vendors s)\<rparr>"
    using q unfolding stmt_Inr guarded_Inr by simp
  then have s': "db_vendors s' = map (\<lambda>r. if ve_id r = i then r\<lparr>ve_account := nullString a\<rparr> else r) (db_vendors s)"
    using kt(2) by simp
  obtain r where "find (\<lambda>r. ve_id r = i) (db_vendors s) = Some r" using iffD1 [OF count_pos_find n] by (elim exE)
  then have "find (\<lambda>r. ve_id r = i) (db_vendors s') = Some (r\<lparr>ve_account := nullString a\<rparr>)"
    unfolding s' by (rule find_update [rotated]) simp
  then show ?thesis using assms(2) by (simp add: stored_account_def nullString_def strOf_def)
qed

lemma stored_invariant: "table_invariant (\<lambda>s. stored_account s i = x)"
  by unfold_locales (simp add: stored_account_def same_tables_fields)

lemma stored_upsert_alias: "keeps (\<lambda>s. stored_account s i = x) (upsert_alias remap v e r n)"
  unfolding upsert_alias_def
  by (rule table_invariant.keep_stmt [OF stored_invariant]) (auto simp: stored_account_def Let_def split: if_splits)

lemma stored_bump: "keeps (\<lambda>s. stored_account s i = x) (bump_vendor v)"
proof (unfold bump_vendor_def, rule table_invariant.keep_stmt [OF stored_invariant])
  fix s :: db and y s'
  assume "stored_account s i = x" and e: "(Inr (), s\<lparr>db_vendors := map (\<lambda>r. if ve_id r = v
     then r\<lparr>ve_receipts := ve_receipts r + 1, ve_seen := Some (db_now s)\<rparr> else r) (db_vendors s)\<rparr>) = (Inr y, s')"
  moreover have "stored_account s' = stored_account s"
    by (rule stored_account_map [where f = "\<lambda>r. if ve_id r = v
     then r\<lparr>ve_receipts := ve_receipts r + 1, ve_seen := Some (db_now s)\<rparr> else r"]) (use e in auto)
  ultimately show "stored_account s' i = x" by simp
qed

lemma stored_IndexRetrieval: "keeps (\<lambda>s. stored_account s i = x) (IndexRetrieval se t v)"
proof -
  have sd: "keeps (\<lambda>s. stored_account s i = x) (send c)" for c
    by (simp add: keeps_def send_def stored_account_def)
  show ?thesis unfolding IndexRetrieval_def VendorStore_GetByID_def VendorAliasStore_ListNormalized_def
    by (intro table_invariant.keep_flow [OF stored_invariant] sd)
qed

lemma LearnAccount_stored:
  assumes "LearnAccount se t e v raw a s = (Inr (), s')" "trim_space v \<noteq> []" "trim_space a \<noteq> []"
  shows "stored_account s' v = Some a"
proof -
  let ?I = "\<lambda>s. stored_account s v = Some a"
  have a: "a \<noteq> []" using assms(3) by auto
  obtain w s1 s2 where 1: "VendorStore_GetByID v s = (Inr w, s1)"
    and 2: "(if v_account w \<noteq> a then VendorStore_SetDefaultAccount v a else dret ()) s1 = (Inr (), s2)"
    and 3: "(dbind (if trim_space raw \<noteq> []
               then dbind (dtry (VendorAliasStore_RecordConfirmed v e raw (NormalizeVendorName raw))) (\<lambda>_. dret ())
               else dret ()) (\<lambda>_. IndexRetrieval se t v)) s2 = (Inr (), s')"
    using assms by (auto simp: LearnAccount_def db_simps)
  have "?I s2"
  proof (cases "v_account w = a")
    case True
    obtain r where r: "find (\<lambda>r. ve_id r = v) (db_vendors s) = Some r" "w = vendorFromRow r" "db_vendors s1 = db_vendors s"
      using 1 by (auto simp: VendorStore_GetByID_def db_simps get_row_Inr)
    then have "stored_account s1 v = Some a" using True by (simp add: stored_account_def vendorFromRow_def)
    then show ?thesis using 2 True by (simp add: db_simps)
  next
    case False
    then show ?thesis using 2 SetDefaultAccount_stored [OF _ a] by simp
  qed
  moreover have "keeps ?I (dbind (if trim_space raw \<noteq> []
               then dbind (dtry (VendorAliasStore_RecordConfirmed v e raw (NormalizeVendorName raw))) (\<lambda>_. dret ())
               else dret ()) (\<lambda>_. IndexRetrieval se t v))"
    unfolding VendorAliasStore_RecordConfirmed_def
    by (intro table_invariant.keep_flow [OF stored_invariant] stored_upsert_alias stored_bump stored_IndexRetrieval)
  ultimately show ?thesis using 3 table_invariant.keepsD [OF stored_invariant] by blast
qed

section \<open>The alias ledger\<close>

definition alias_vendor :: "db \<Rightarrow> string \<Rightarrow> string \<Rightarrow> string option" where
  "alias_vendor s e n = map_option al_vendor (find (same_alias_key e n) (db_aliases s))"

lemma find_alias_map:
  assumes "\<And>a. same_alias_key e n (f a) = same_alias_key e n a"
  shows "find (same_alias_key e n) (map f as) = map_option f (find (same_alias_key e n) as)"
  by (induction as) (auto simp: assms)

lemma upsert_alias_vendor:
  assumes "upsert_alias remap v e r n s = (Inr (), s')"
  shows "alias_vendor s' e n =
    Some (if remap then v else case alias_vendor s e n of None \<Rightarrow> v | Some w \<Rightarrow> w)"
proof -
  let ?up = "\<lambda>t a. if same_alias_key e n a
    then a\<lparr>al_vendor := (if remap then v else al_vendor a), al_count := al_count a + 1, al_seen := t\<rparr> else a"
  show ?thesis
  proof (cases "find (same_alias_key e n) (db_aliases s)")
    case None
    then have "\<not> list_ex (same_alias_key e n) (db_aliases s)" by (auto simp: find_None_iff list_ex_iff)
    then obtain row where "db_aliases s' = db_aliases s @ [row]" "same_alias_key e n row" "al_vendor row = v"
      using assms by (auto simp: upsert_alias_def stmt_Inr Let_def same_alias_key_def split: if_splits)
    moreover have "\<forall>x\<in>set (db_aliases s). \<not> same_alias_key e n x" using None by (auto simp: find_None_iff)
    ultimately show ?thesis using None find_append_new [of "db_aliases s" "same_alias_key e n" row]
      by (simp add: alias_vendor_def)
  next
    case (Some a)
    then have k: "same_alias_key e n a" and "list_ex (same_alias_key e n) (db_aliases s)"
      using find_Some_mem by (fastforce simp: list_ex_iff)+
    then have s': "db_aliases s' = map (?up (db_now s)) (db_aliases s)"
      using assms by (auto simp: upsert_alias_def stmt_Inr Let_def split: if_splits intro!: map_cong)
    have "find (same_alias_key e n) (map (?up t) (db_aliases s)) = map_option (?up t) (find (same_alias_key e n) (db_aliases s))" for t
      by (rule find_alias_map) (simp add: same_alias_key_def)
    then show ?thesis using Some k by (simp add: alias_vendor_def s')
  qed
qed

end
