(* ===== verification/Ledger_Http.thy ===== *)
theory Ledger_Http
  imports Vendor_Memo
begin

text \<open>
  The HTTP handlers of the ledger: \<open>internal/http/transactions.go\<close>, \<open>drafts.go\<close>, \<open>vendor_feedback.go\<close>
  and the import-row handlers of \<open>imports.go\<close>, with \<open>audit.go\<close> and \<open>respond.go\<close>.  A handler takes the
  decoded request (\<open>None\<close> when the body does not bind) and the database and returns the response and the
  database; authentication and authorisation run before it and are modelled elsewhere.  The stores that
  are Go interfaces (\<open>TransactionStore\<close>, \<open>AccountStatementStore\<close>) are fields of the handler context \<open>hc\<close>;
  the other stores are the model's own, with a flag for \<open>nil\<close>.

  The locale \<open>posting_store\<close> is the contract of the \<open>TransactionStore\<close> interface; the handlers'
  guarantees are proved from it, and it is interpreted on the PostgreSQL store of theory \<open>Ledger\<close>.
\<close>

section \<open>Context, responses and control flow\<close>

record transaction_store =
  ts_create :: "string \<Rightarrow> date \<Rightarrow> string \<Rightarrow> string \<Rightarrow> draft_line list \<Rightarrow> (transaction \<times> entry list) dbm"
  ts_from_draft :: "draft_tx \<Rightarrow> string \<Rightarrow> (transaction \<times> entry list) dbm"
  ts_list :: "string \<Rightarrow> date option \<Rightarrow> date option \<Rightarrow> int \<Rightarrow> (transaction \<times> entry list) list dbm"

definition NewTransactionStore :: transaction_store where
  "NewTransactionStore = \<lparr>ts_create = TransactionStore_Create, ts_from_draft = TransactionStore_CreateFromDraft,
     ts_list = TransactionStore_List\<rparr>"

text \<open>\<open>hc_statement\<close> is \<open>accountStatements.GetBySourceReceiptID\<close>, reduced to entity and account.\<close>

record hc =
  hc_transactions :: "transaction_store option"
  hc_statement :: "(string \<Rightarrow> (string \<times> string) dbm) option"
  hc_entities :: bool
  hc_drafts :: bool
  hc_accounts :: bool
  hc_receipts :: bool
  hc_import_rows :: bool
  hc_audit :: bool
  hc_vendors :: bool
  hc_search :: search_env
  hc_user :: string
  hc_tenant :: string

datatype body =
    BError string
  | BTransaction transaction "entry list"
  | BTransactions string "(transaction \<times> entry list) list"
  | BDraft draft_tx
  | BImportRows "import_model list"
  | BImportRow import_model
  | BImportPost transaction import_model
  | BBulk int int int "(int \<times> string \<times> string \<times> string) list"
  | BObj "(string \<times> string) list"
  | BList "(string \<times> string) list list"
  | BEmpty

type_synonym response = "int \<times> body"
type_synonym handler = "db \<Rightarrow> response \<times> db"

definition respond :: "int \<Rightarrow> body \<Rightarrow> handler" where
  "respond status b s = ((status, b), s)"

definition respondError :: "int \<Rightarrow> string \<Rightarrow> handler" where
  "respondError status code = respond status (BError code)"

text \<open>Call a store; branch on its error.\<close>

definition hcall :: "'a dbm \<Rightarrow> (db_error \<Rightarrow> handler) \<Rightarrow> ('a \<Rightarrow> handler) \<Rightarrow> handler" where
  "hcall m onErr k s = (case m s of (Inl e, s') \<Rightarrow> onErr e s' | (Inr x, s') \<Rightarrow> k x s')"

text \<open>A call whose error is dropped.\<close>

definition best_effort :: "'a dbm \<Rightarrow> unit dbm" where
  "best_effort m = dbind (dtry m) (\<lambda>_. dret ())"

definition hthen :: "unit dbm \<Rightarrow> handler \<Rightarrow> handler" where
  "hthen m k s = k (snd (m s))"

definition AuditStore_Create :: "audit_row \<Rightarrow> unit dbm" where
  "AuditStore_Create ev = stmt (\<lambda>s.
     if au_entity ev \<notin> ent_id ` set (db_entities s) then (Inl ErrConstraint, s)
     else (Inr (), s\<lparr>db_audit := db_audit s @ [ev]\<rparr>))"

definition auditEvent ::
  "hc \<Rightarrow> string \<Rightarrow> string \<Rightarrow> string \<Rightarrow> string \<Rightarrow> string \<Rightarrow> (string \<times> string) list \<Rightarrow> unit dbm" where
  "auditEvent h ent actor objType objID action details =
     (if \<not> hc_audit h \<or> ent = [] then dret ()
      else best_effort (AuditStore_Create \<lparr>au_entity = ent, au_actor = nullString actor, au_type = objType,
             au_object = nullString objID, au_action = action, au_details = details\<rparr>))"

definition accountDataOf :: "account \<Rightarrow> account_data" where
  "accountDataOf a = \<lparr>ad_id = a_id a, ad_entity = [], ad_name = a_name a, ad_type = [], ad_tags = a_tags a,
     ad_created = zero_time\<rparr>"

definition entryDataOf :: "entry \<Rightarrow> entry_data" where
  "entryDataOf e = \<lparr>ed_account = en_account e, ed_debit = en_debit e, ed_credit = en_credit e\<rparr>"

definition transactionSearchDocument :: "hc \<Rightarrow> transaction \<Rightarrow> entry list \<Rightarrow> transaction_document dbm" where
  "transactionSearchDocument h tr entries =
     dbind (if hc_accounts h \<and> tr_entity tr \<noteq> [] then dtry (AccountStore_ListForEntity (tr_entity tr) 1000)
            else dret (Inr [])) (\<lambda>r.
     dret (TransactionDocumentFromData (hc_tenant h) (tr_id tr) (tr_entity tr) (tr_date tr) (tr_memo tr)
             (map entryDataOf entries) (case r of Inl _ \<Rightarrow> [] | Inr as \<Rightarrow> map accountDataOf as) (tr_created tr)))"

definition indexTransaction :: "hc \<Rightarrow> transaction \<Rightarrow> entry list \<Rightarrow> unit dbm" where
  "indexTransaction h tr entries =
     (if \<not> se_enabled (hc_search h) then dret ()
      else dbind (transactionSearchDocument h tr entries) (\<lambda>doc.
        if td_transaction doc = [] then dret ()
        else dbind (send (UpsertTransaction doc)) (\<lambda>_ s.
          send (UpsertDocument (SearchDocumentFromTransaction (db_now s) doc)) s)))"

section \<open>Transactions\<close>

record line_req =
  lq_account :: string
  lq_debit :: int64
  lq_credit :: int64

record create_req =
  cq_entity :: string
  cq_date :: string
  cq_memo :: string
  cq_receipt :: string
  cq_lines :: "line_req list"

text \<open>The line checks shared by the create and the draft-update handler: the code's error code, or the entries.\<close>

fun check_lines :: "line_req list \<Rightarrow> string + draft_line list" where
  "check_lines [] = Inr []"
| "check_lines (l # ls) =
     (if lq_account l = [] then Inl ''MISSING_FIELDS''
      else if (lq_debit l = 0) = (lq_credit l = 0) then Inl ''INVALID_ENTRY''
      else rbind (check_lines ls) (\<lambda>es. Inr (\<lparr>dl_id = [], dl_draft = [], dl_account = lq_account l,
             dl_debit = lq_debit l, dl_credit = lq_credit l\<rparr> # es)))"

definition handleTransactionCreate :: "hc \<Rightarrow> create_req option \<Rightarrow> handler" where
  "handleTransactionCreate h body =
     (case hc_transactions h of
        None \<Rightarrow> respondError 501 ''NOT_IMPLEMENTED''
      | Some ts \<Rightarrow>
          if \<not> hc_entities h then respondError 501 ''NOT_IMPLEMENTED''
          else case body of
            None \<Rightarrow> respondError 400 ''BAD_REQUEST''
          | Some req \<Rightarrow>
              if cq_entity req = [] \<or> cq_date req = [] \<or> length (cq_lines req) = 0 then respondError 400 ''MISSING_FIELDS''
              else case parse_iso (cq_date req) of
                None \<Rightarrow> respondError 400 ''INVALID_DATE''
              | Some d \<Rightarrow>
                  (case check_lines (cq_lines req) of
                     Inl code \<Rightarrow> respondError 400 code
                   | Inr entries \<Rightarrow>
                       hcall (ts_create ts (cq_entity req) d (cq_memo req) (cq_receipt req) entries)
                         (\<lambda>e. if e = ErrReceiptAlreadyAttached then respondError 409 ''RECEIPT_ALREADY_ATTACHED''
                              else respondError 400 ''INVALID_TRANSACTION'')
                         (\<lambda>(tr, out).
                           hthen (auditEvent h (cq_entity req) (hc_user h) ''transaction'' (tr_id tr) ''transaction.created''
                                    [(''transaction_id'', tr_id tr), (''receipt_id'', cq_receipt req),
                                     (''lines'', int_str (int (length out)))])
                           (hthen (indexTransaction h tr out)
                           (respond 201 (BTransaction tr out))))))"

text \<open>\<open>queryLimit\<close>: the query parameter, \<open>None\<close> when it is not an integer.\<close>

definition queryLimit :: "int option \<Rightarrow> int \<Rightarrow> int \<Rightarrow> int" where
  "queryLimit v dflt mx = (case v of None \<Rightarrow> dflt | Some n \<Rightarrow> if 0 < n \<and> n \<le> mx then n else dflt)"

definition parse_bound :: "string \<Rightarrow> date option option" where
  "parse_bound v = (if v = [] then Some None else map_option Some (parse_iso v))"

definition handleTransactionList :: "hc \<Rightarrow> string \<Rightarrow> string \<Rightarrow> string \<Rightarrow> int option \<Rightarrow> handler" where
  "handleTransactionList h ent startDate endDate limit =
     (case hc_transactions h of
        None \<Rightarrow> respondError 501 ''NOT_IMPLEMENTED''
      | Some ts \<Rightarrow>
          if \<not> hc_entities h then respondError 501 ''NOT_IMPLEMENTED''
          else if ent = [] then respondError 400 ''MISSING_FIELDS''
          else case parse_bound startDate of
            None \<Rightarrow> respondError 400 ''INVALID_DATE''
          | Some start \<Rightarrow>
              (case parse_bound endDate of
                 None \<Rightarrow> respondError 400 ''INVALID_DATE''
               | Some en \<Rightarrow>
                   hcall (ts_list ts ent start en (queryLimit limit 100 1000))
                     (\<lambda>_. respondError 500 ''INTERNAL_ERROR'')
                     (\<lambda>rows. respond 200 (BTransactions ent rows))))"

section \<open>Drafts and reviewer feedback\<close>

fun pick_loop :: "(string \<Rightarrow> string) \<Rightarrow> string \<Rightarrow> int64 \<Rightarrow> entry list \<Rightarrow> string" where
  "pick_loop typeByID best bestAmt [] = best"
| "pick_loop typeByID best bestAmt (e # es) =
     (if i64 (en_debit e) \<le> 0 \<or> to_lower (typeByID (en_account e)) \<noteq> ''expense'' then pick_loop typeByID best bestAmt es
      else if i64 bestAmt < i64 (en_debit e) then pick_loop typeByID (en_account e) (en_debit e) es
      else pick_loop typeByID best bestAmt es)"

definition pickExpenseAccount :: "entry list \<Rightarrow> (string \<Rightarrow> string) \<Rightarrow> string" where
  "pickExpenseAccount entries typeByID = pick_loop typeByID [] 0 entries"

definition type_by_id :: "account list \<Rightarrow> string \<Rightarrow> string" where
  "type_by_id accounts i = (case find (\<lambda>a. a_id a = i) (rev accounts) of None \<Rightarrow> [] | Some a \<Rightarrow> a_type a)"

definition chosenExpenseAccount :: "string \<Rightarrow> entry list \<Rightarrow> string dbm" where
  "chosenExpenseAccount ent entries =
     dbind (dtry (AccountStore_ListForEntity ent 1000)) (\<lambda>r.
     dret (case r of Inl _ \<Rightarrow> [] | Inr accounts \<Rightarrow> pickExpenseAccount entries (type_by_id accounts)))"

definition learnFromPostedReceipt :: "hc \<Rightarrow> string \<Rightarrow> string \<Rightarrow> entry list \<Rightarrow> unit dbm" where
  "learnFromPostedReceipt h ent receiptID entries =
     (if \<not> hc_vendors h \<or> \<not> hc_receipts h \<or> \<not> hc_accounts h then dret ()
      else dbind (dtry (ReceiptStore_GetByID receiptID)) (\<lambda>r.
        case r of
          Inl _ \<Rightarrow> dret ()
        | Inr receipt \<Rightarrow>
            if trim_space (r_vendor_id receipt) = [] then dret ()
            else dbind (chosenExpenseAccount ent entries) (\<lambda>account.
              if account = [] then dret ()
              else best_effort (LearnAccount (hc_search h) (hc_tenant h) ent (r_vendor_id receipt)
                     (r_vendor_raw receipt) account))))"

definition handleDraftGet :: "hc \<Rightarrow> string \<Rightarrow> handler" where
  "handleDraftGet h receiptID =
     (if \<not> hc_drafts h \<or> \<not> hc_entities h then respondError 501 ''NOT_IMPLEMENTED''
      else hcall (DraftStore_GetByReceiptID receiptID)
        (\<lambda>e. if e = ErrNotFound then respondError 404 ''NOT_FOUND'' else respondError 500 ''INTERNAL_ERROR'')
        (\<lambda>draft. respond 200 (BDraft draft)))"

definition handleDraftPost :: "hc \<Rightarrow> string \<Rightarrow> handler" where
  "handleDraftPost h receiptID =
     (case hc_transactions h of
        None \<Rightarrow> respondError 501 ''NOT_IMPLEMENTED''
      | Some ts \<Rightarrow>
          if \<not> hc_drafts h \<or> \<not> hc_entities h then respondError 501 ''NOT_IMPLEMENTED''
          else hcall (DraftStore_GetByReceiptID receiptID)
            (\<lambda>e. if e = ErrNotFound then respondError 404 ''NOT_FOUND'' else respondError 500 ''INTERNAL_ERROR'')
            (\<lambda>draft.
              hcall (ts_from_draft ts draft receiptID)
                (\<lambda>e. if e = ErrReceiptAlreadyAttached then respondError 409 ''RECEIPT_ALREADY_ATTACHED''
                     else respondError 400 ''INVALID_DRAFT'')
                (\<lambda>(tr, entries).
                  hthen (auditEvent h (dr_entity draft) (hc_user h) ''transaction'' (tr_id tr) ''transaction.posted''
                           [(''draft_id'', dr_id draft), (''transaction_id'', tr_id tr), (''receipt_id'', receiptID)])
                  (hthen (indexTransaction h tr entries)
                  (hthen (learnFromPostedReceipt h (dr_entity draft) receiptID entries)
                  (respond 201 (BTransaction tr entries)))))))"

record update_draft_req =
  uq_date :: string
  uq_memo :: string
  uq_entries :: "line_req list"

definition handleDraftUpdate :: "hc \<Rightarrow> string \<Rightarrow> update_draft_req option \<Rightarrow> handler" where
  "handleDraftUpdate h receiptID body =
     (if \<not> hc_drafts h \<or> \<not> hc_entities h then respondError 501 ''NOT_IMPLEMENTED''
      else case body of
        None \<Rightarrow> respondError 400 ''BAD_REQUEST''
      | Some req \<Rightarrow>
          if uq_date req = [] \<or> length (uq_entries req) = 0 then respondError 400 ''MISSING_FIELDS''
          else case parse_iso (uq_date req) of
            None \<Rightarrow> respondError 400 ''INVALID_DATE''
          | Some d \<Rightarrow>
              (case check_lines (uq_entries req) of
                 Inl code \<Rightarrow> respondError 400 code
               | Inr entries \<Rightarrow>
                   hcall (DraftStore_UpdateDraft receiptID d (uq_memo req) entries)
                     (\<lambda>_. respondError 500 ''INTERNAL_ERROR'')
                     (\<lambda>updated.
                       hthen (auditEvent h (dr_entity updated) (hc_user h) ''draft'' (dr_id updated) ''draft.updated''
                                [(''draft_id'', dr_id updated), (''entries'', int_str (int (length (dr_entries updated))))])
                       (respond 200 (BDraft updated)))))"

definition handleReceiptSetVendor :: "hc \<Rightarrow> string \<Rightarrow> string option \<Rightarrow> handler" where
  "handleReceiptSetVendor h receiptID body =
     (if \<not> hc_receipts h \<or> \<not> hc_vendors h then respondError 501 ''NOT_IMPLEMENTED''
      else case body of
        None \<Rightarrow> respondError 400 ''BAD_REQUEST''
      | Some vendorID \<Rightarrow>
          let store = hcall (ReceiptStore_UpdateResolvedVendorID receiptID vendorID)
                (\<lambda>e. if e = ErrNotFound then respondError 404 ''NOT_FOUND'' else respondError 500 ''INTERNAL_ERROR'')
                (\<lambda>_. respond 204 BEmpty)
          in if trim_space vendorID \<noteq> []
             then hcall (ReceiptStore_GetEntityID receiptID) (\<lambda>_. respondError 404 ''NOT_FOUND'')
                    (\<lambda>ent. hcall (VendorStore_GetByID vendorID) (\<lambda>_. respondError 400 ''INVALID_VENDOR'')
                      (\<lambda>v. if v_entity v \<noteq> ent then respondError 400 ''INVALID_VENDOR'' else store))
             else store)"

section \<open>Import rows\<close>

definition importRowEntries :: "import_model \<Rightarrow> string \<Rightarrow> draft_line list" where
  "importRowEntries row cash =
     (let line = (\<lambda>a d c. \<lparr>dl_id = [], dl_draft = [], dl_account = a, dl_debit = d, dl_credit = c\<rparr>) in
      if i64 (im_amount row) \<le> 0 \<or> im_account row = [] \<or> cash = [] then []
      else if im_direction row = ''inflow'' then [line cash (im_amount row) 0, line (im_account row) 0 (im_amount row)]
      else [line (im_account row) (im_amount row) 0, line cash 0 (im_amount row)])"

definition importRowMemo :: "import_model \<Rightarrow> string" where
  "importRowMemo row =
     (if im_memo row \<noteq> [] \<and> im_memo row \<noteq> im_vendor row then im_vendor row @ '' - '' @ im_memo row else im_vendor row)"

definition importReceiptOffsetAccountID :: "hc \<Rightarrow> string \<Rightarrow> string \<Rightarrow> string dbm" where
  "importReceiptOffsetAccountID h receiptID ent =
     (let cash = dbind (AccountStore_FindDefaultCashAccount ent) (\<lambda>a. dret (a_id a)) in
      case hc_statement h of
        None \<Rightarrow> cash
      | Some find_statement \<Rightarrow>
          dbind (dtry (find_statement receiptID)) (\<lambda>r.
          case r of
            Inr (sent, account) \<Rightarrow> if sent = ent \<and> account \<noteq> [] then dret account else cash
          | Inl e \<Rightarrow> if e \<noteq> ErrNotFound then dthrow e else cash))"

definition postImportRow :: "hc \<Rightarrow> transaction_store \<Rightarrow> import_model \<Rightarrow> string \<Rightarrow> transaction dbm" where
  "postImportRow h ts row cash =
     (let entries = importRowEntries row cash in
      if length entries = 0 then dthrow (ErrText ''invalid import row'')
      else dbind (ts_create ts (im_entity row) (im_date row) (importRowMemo row) [] entries) (\<lambda>(tr, out).
           dbind (ImportRowStore_MarkPosted (im_id row) (tr_id tr)) (\<lambda>_.
           dbind (indexTransaction h tr out) (\<lambda>_. dret tr))))"

definition handleImportRowsList :: "hc \<Rightarrow> string \<Rightarrow> handler" where
  "handleImportRowsList h importID =
     (if \<not> hc_import_rows h \<or> \<not> hc_receipts h then respondError 501 ''NOT_IMPLEMENTED''
      else hcall (ReceiptStore_GetByID importID)
        (\<lambda>e. if e = ErrNotFound then respondError 404 ''NOT_FOUND'' else respondError 500 ''INTERNAL_ERROR'')
        (\<lambda>receipt. if r_kind receipt \<noteq> ''import'' then respondError 404 ''NOT_FOUND''
          else hcall (ImportRowStore_ListByReceiptID importID) (\<lambda>_. respondError 500 ''INTERNAL_ERROR'')
            (\<lambda>rows. respond 200 (BImportRows rows))))"

text \<open>\<open>parseRowIndexParam\<close>: the path parameter, \<open>None\<close> when \<open>Atoi\<close> fails.\<close>

definition parseRowIndexParam :: "int option \<Rightarrow> int option" where
  "parseRowIndexParam v = (case v of None \<Rightarrow> None | Some n \<Rightarrow> if n \<le> 0 then None else Some n)"

definition handleImportRowUpdate :: "hc \<Rightarrow> string \<Rightarrow> int option \<Rightarrow> string option \<Rightarrow> handler" where
  "handleImportRowUpdate h importID idx body =
     (if \<not> hc_import_rows h \<or> \<not> hc_receipts h \<or> \<not> hc_accounts h then respondError 501 ''NOT_IMPLEMENTED''
      else case parseRowIndexParam idx of
        None \<Rightarrow> respondError 400 ''INVALID_ROW_INDEX''
      | Some rowIndex \<Rightarrow>
          (case body of
             None \<Rightarrow> respondError 400 ''BAD_REQUEST''
           | Some accountID \<Rightarrow>
               if trim_space accountID = [] then respondError 400 ''MISSING_FIELDS''
               else hcall (ReceiptStore_GetByID importID)
                 (\<lambda>e. if e = ErrNotFound then respondError 404 ''NOT_FOUND'' else respondError 500 ''INTERNAL_ERROR'')
                 (\<lambda>receipt. hcall (AccountStore_GetEntityID accountID) (\<lambda>_. respondError 400 ''INVALID_ACCOUNT'')
                   (\<lambda>ent. if ent \<noteq> r_entity receipt then respondError 400 ''INVALID_ACCOUNT''
                     else hcall (ImportRowStore_UpdateAccount importID rowIndex accountID)
                       (\<lambda>e. if e = ErrNotFound then respondError 404 ''NOT_FOUND'' else respondError 500 ''INTERNAL_ERROR'')
                       (\<lambda>row. respond 200 (BImportRow row))))))"

definition handleImportRowPost :: "hc \<Rightarrow> string \<Rightarrow> int option \<Rightarrow> handler" where
  "handleImportRowPost h importID idx =
     (case hc_transactions h of
        None \<Rightarrow> respondError 501 ''NOT_IMPLEMENTED''
      | Some ts \<Rightarrow>
          if \<not> hc_import_rows h \<or> \<not> hc_accounts h then respondError 501 ''NOT_IMPLEMENTED''
          else case parseRowIndexParam idx of
            None \<Rightarrow> respondError 400 ''INVALID_ROW_INDEX''
          | Some rowIndex \<Rightarrow>
              hcall (ImportRowStore_GetByReceiptAndIndex importID rowIndex)
                (\<lambda>e. if e = ErrNotFound then respondError 404 ''NOT_FOUND'' else respondError 500 ''INTERNAL_ERROR'')
                (\<lambda>row.
                  if im_tx row \<noteq> [] \<or> im_status row = ''posted'' then respondError 409 ''IMPORT_ROW_ALREADY_POSTED''
                  else if im_account row = [] then respondError 400 ''IMPORT_ROW_ACCOUNT_REQUIRED''
                  else hcall (importReceiptOffsetAccountID h (im_receipt row) (im_entity row))
                    (\<lambda>_. respondError 400 ''DEFAULT_CASH_ACCOUNT_REQUIRED'')
                    (\<lambda>offset. hcall (postImportRow h ts row offset)
                      (\<lambda>_. respondError 400 ''INVALID_TRANSACTION'')
                      (\<lambda>tr. hcall (ImportRowStore_GetByReceiptAndIndex importID rowIndex)
                        (\<lambda>_. respondError 500 ''INTERNAL_ERROR'')
                        (\<lambda>row. hthen (auditEvent h (im_entity row) (hc_user h) ''import_row'' (im_id row) ''import_row.posted''
                                 [(''transaction_id'', tr_id tr), (''receipt_id'', im_receipt row),
                                  (''row_index'', int_str (im_index row))])
                          (respond 201 (BImportPost tr row)))))))"

text \<open>The loop over the rows: results in order, with the counts of posted, skipped and failed rows.\<close>

fun post_mapped ::
  "hc \<Rightarrow> transaction_store \<Rightarrow> string \<Rightarrow> import_model list \<Rightarrow> db \<Rightarrow>
     ((int \<times> string \<times> string \<times> string) list \<times> int \<times> int \<times> int) \<times> db" where
  "post_mapped h ts offset [] s = (([], 0, 0, 0), s)"
| "post_mapped h ts offset (row # rows) s =
     (let (result, p, k, f, s') =
        (if im_tx row \<noteq> [] \<or> im_status row = ''posted''
         then ((im_index row, im_status row, ''skipped'', ''already posted''), 0, 1, 0, s)
         else if im_account row = [] then ((im_index row, im_status row, ''skipped'', ''missing account''), 0, 1, 0, s)
         else case postImportRow h ts row offset s of
           (Inl e, s') \<Rightarrow> ((im_index row, im_status row, ''failed'', error_text e), 0, 0, 1, s')
         | (Inr tr, s') \<Rightarrow> ((im_index row, im_status row, ''posted'', tr_id tr), 1, 0, 0, s'));
        ((results, ps, ks, fs), s'') = post_mapped h ts offset rows s'
      in ((result # results, p + ps, k + ks, f + fs), s''))"

definition handleImportRowsPostMapped :: "hc \<Rightarrow> string \<Rightarrow> handler" where
  "handleImportRowsPostMapped h importID =
     (case hc_transactions h of
        None \<Rightarrow> respondError 501 ''NOT_IMPLEMENTED''
      | Some ts \<Rightarrow>
          if \<not> hc_import_rows h \<or> \<not> hc_receipts h \<or> \<not> hc_accounts h then respondError 501 ''NOT_IMPLEMENTED''
          else hcall (ReceiptStore_GetByID importID)
            (\<lambda>e. if e = ErrNotFound then respondError 404 ''NOT_FOUND'' else respondError 500 ''INTERNAL_ERROR'')
            (\<lambda>receipt. if r_kind receipt \<noteq> ''import'' then respondError 404 ''NOT_FOUND''
              else hcall (importReceiptOffsetAccountID h (r_id receipt) (r_entity receipt))
                (\<lambda>_. respondError 400 ''DEFAULT_CASH_ACCOUNT_REQUIRED'')
                (\<lambda>offset. hcall (ImportRowStore_ListByReceiptID importID) (\<lambda>_. respondError 500 ''INTERNAL_ERROR'')
                  (\<lambda>rows s.
                    case post_mapped h ts offset rows s of
                      ((results, np, nk, nf), s') \<Rightarrow>
                        hthen (if 0 < np
                               then auditEvent h (r_entity receipt) (hc_user h) ''import'' (r_id receipt) ''import_rows.bulk_posted''
                                      [(''posted'', int_str np), (''skipped'', int_str nk), (''failed'', int_str nf)]
                               else dret ())
                          (respond 200 (BBulk np nk nf results)) s'))))"

section \<open>The contract of the posting store\<close>

locale posting_store =
  fixes ts :: transaction_store
  assumes create_posts: "ts_create ts ent d memo rc es s = (Inr (tr, out), s') \<Longrightarrow>
      posted s s' (new_tx (tr_id tr) ent d memo (nullString rc) (db_now s)) es out \<and>
      tr = transactionFromRow (new_tx (tr_id tr) ent d memo (nullString rc) (db_now s))"
    and create_fails: "ts_create ts ent d memo rc es s = (Inl e, s') \<Longrightarrow>
      same_tables s s' \<or> (e \<in> {ErrNotFound, ErrDriver} \<and> (\<exists>t rows. posted s s' t es rows))"
    and create_reliable: "ts_create ts ent d memo rc es s = (Inl e, s') \<Longrightarrow> \<forall>n. \<not> db_fail s n \<Longrightarrow> same_tables s s'"
    and draft_reliable: "ts_from_draft ts dr receipt s = (Inl e, s') \<Longrightarrow> \<forall>n. \<not> db_fail s n \<Longrightarrow> same_tables s s'"
    and draft_posts: "ts_from_draft ts dr receipt s = (Inr (tr, out), s') \<Longrightarrow>
      posted s s' (new_tx (tr_id tr) (dr_entity dr) (dr_date dr) (dr_memo dr) (Some receipt) (db_now s)) (dr_entries dr) out \<and>
      tr = transactionFromRow (new_tx (tr_id tr) (dr_entity dr) (dr_date dr) (dr_memo dr) (Some receipt) (db_now s))"
    and draft_fails: "ts_from_draft ts dr receipt s = (Inl e, s') \<Longrightarrow>
      same_tables s s' \<or> (e \<in> {ErrNotFound, ErrDriver} \<and> (\<exists>t rows. posted s s' t (dr_entries dr) rows))"
    and create_keeps: "keeps books_ok (ts_create ts ent d memo rc es)"
    and draft_keeps: "keeps books_ok (ts_from_draft ts dr receipt)"

text \<open>What a handler may change besides posting: nothing of the ledger tables, the receipts or the import rows.\<close>

definition ledger_view :: "db \<Rightarrow> tx_row list \<times> entry list \<times> receipt_row list \<times> import_row list" where
  "ledger_view s = (db_txs s, db_entries s, db_receipts s, db_import_rows s)"

lemma ledger_view_tables: "same_tables s s' \<Longrightarrow> ledger_view s' = ledger_view s"
  by (simp add: ledger_view_def same_tables_fields)

interpretation view: table_invariant "\<lambda>s. ledger_view s = x" for x
  by unfold_locales (simp add: ledger_view_tables)

lemma view_stmt:
  "(\<And>s y s'. q s = (Inr y, s') \<Longrightarrow> ledger_view s' = ledger_view s) \<Longrightarrow> keeps (\<lambda>s. ledger_view s = x) (stmt q)"
  by (rule view.keep_stmt) simp

lemma view_audit: "keeps (\<lambda>s. ledger_view s = x) (auditEvent h e a ty i ac ds)"
  unfolding auditEvent_def best_effort_def AuditStore_Create_def
  by (intro view.keep_flow view_stmt) (auto simp: ledger_view_def split: if_splits)

lemma view_send: "keeps (\<lambda>s. ledger_view s = x) (send c)"
  by (simp add: keeps_def send_def ledger_view_def)

lemma view_ListByAccountID: "keeps (\<lambda>s. ledger_view s = x) (ListByAccountID a)"
  unfolding ListByAccountID_def by (intro view.keep_flow)

lemma view_accountFromRow: "keeps (\<lambda>s. ledger_view s = x) (accountFromRow a)"
  unfolding accountFromRow_def by (intro view.keep_flow view_ListByAccountID)

lemma view_accountsFromRows: "keeps (\<lambda>s. ledger_view s = x) (accountsFromRows as)"
  by (induction as) (auto intro!: view.keep_flow view_accountFromRow)

lemma view_ListForEntity: "keeps (\<lambda>s. ledger_view s = x) (AccountStore_ListForEntity e l)"
  unfolding AccountStore_ListForEntity_def Let_def by (intro view.keep_flow view_accountsFromRows)

lemma view_index: "keeps (\<lambda>s. ledger_view s = x) (indexTransaction h tr es)"
proof -
  have "keeps (\<lambda>s. ledger_view s = x) (\<lambda>s. send (UpsertDocument (SearchDocumentFromTransaction (db_now s) doc)) s)" for doc
    by (simp add: keeps_def send_def ledger_view_def)
  then show ?thesis
    unfolding indexTransaction_def transactionSearchDocument_def
    by (intro view.keep_flow view_ListForEntity view_send)
qed

lemma view_upsert_alias: "keeps (\<lambda>s. ledger_view s = x) (upsert_alias remap v e r n)"
  unfolding upsert_alias_def by (rule view_stmt) (auto simp: ledger_view_def Let_def split: if_splits)

lemma view_bump: "keeps (\<lambda>s. ledger_view s = x) (bump_vendor v)"
  unfolding bump_vendor_def by (rule view_stmt) (auto simp: ledger_view_def)

lemma view_SetDefaultAccount: "keeps (\<lambda>s. ledger_view s = x) (VendorStore_SetDefaultAccount v a)"
  unfolding VendorStore_SetDefaultAccount_def
  by (intro view.keep_flow view_stmt) (auto simp: ledger_view_def split: if_splits)

lemma view_learn: "keeps (\<lambda>s. ledger_view s = x) (learnFromPostedReceipt h e r es)"
  unfolding learnFromPostedReceipt_def best_effort_def LearnAccount_def chosenExpenseAccount_def ReceiptStore_GetByID_def
    VendorStore_GetByID_def VendorAliasStore_RecordConfirmed_def IndexRetrieval_def VendorAliasStore_ListNormalized_def
  by (intro view.keep_flow view_ListForEntity view_SetDefaultAccount view_upsert_alias view_bump view_send)

lemma hthen_view:
  assumes "\<And>x. keeps (\<lambda>s. ledger_view s = x) m" "hthen m k s = (r, s')"
  obtains s1 where "k s1 = (r, s')" "ledger_view s1 = ledger_view s"
  using assms(1) [of "ledger_view s"] assms(2) by (auto simp: hthen_def keeps_def)

lemma respond_eq: "respond st b s = (r, s') \<longleftrightarrow> r = (st, b) \<and> s' = s"
  by (auto simp: respond_def)

lemma GetByReceiptID_tables: "DraftStore_GetByReceiptID rid s = (r, s') \<Longrightarrow> same_tables s s'"
  by (auto simp: DraftStore_GetByReceiptID_def dbind_def dret_def dest!: get_row_tables select_tables
      split: prod.splits sum.splits intro: same_tables_trans)

context posting_store
begin

lemma create_201:
  assumes "hc_transactions h = Some ts" "handleTransactionCreate h (Some req) s = ((201, b), s')"
  shows "\<exists>d es tr out s1. b = BTransaction tr out \<and> parse_iso (cq_date req) = Some d \<and>
    check_lines (cq_lines req) = Inr es \<and>
    posted s s1 (new_tx (tr_id tr) (cq_entity req) d (cq_memo req) (nullString (cq_receipt req)) (db_now s)) es out \<and>
    tr = transactionFromRow (new_tx (tr_id tr) (cq_entity req) d (cq_memo req) (nullString (cq_receipt req)) (db_now s)) \<and>
    ledger_view s' = ledger_view s1"
proof -
  obtain d es where d: "parse_iso (cq_date req) = Some d" and es: "check_lines (cq_lines req) = Inr es" and
    c: "hcall (ts_create ts (cq_entity req) d (cq_memo req) (cq_receipt req) es)
          (\<lambda>e. if e = ErrReceiptAlreadyAttached then respondError 409 ''RECEIPT_ALREADY_ATTACHED''
               else respondError 400 ''INVALID_TRANSACTION'')
          (\<lambda>(tr, out).
            hthen (auditEvent h (cq_entity req) (hc_user h) ''transaction'' (tr_id tr) ''transaction.created''
                     [(''transaction_id'', tr_id tr), (''receipt_id'', cq_receipt req), (''lines'', int_str (int (length out)))])
            (hthen (indexTransaction h tr out) (respond 201 (BTransaction tr out)))) s = ((201, b), s')"
    using assms by (auto simp: handleTransactionCreate_def respondError_def respond_eq
        split: if_splits option.splits sum.splits)
  obtain r s1 where r: "ts_create ts (cq_entity req) d (cq_memo req) (cq_receipt req) es s = (r, s1)"
    by (cases "ts_create ts (cq_entity req) d (cq_memo req) (cq_receipt req) es s")
  show ?thesis
  proof (cases r)
    case (Inl e)
    then show ?thesis using c r by (auto simp: hcall_def respondError_def respond_eq split: if_splits)
  next
    case (Inr p)
    obtain tr out where p: "p = (tr, out)" by (cases p)
    have h1: "hthen (auditEvent h (cq_entity req) (hc_user h) ''transaction'' (tr_id tr) ''transaction.created''
                     [(''transaction_id'', tr_id tr), (''receipt_id'', cq_receipt req), (''lines'', int_str (int (length out)))])
            (hthen (indexTransaction h tr out) (respond 201 (BTransaction tr out))) s1 = ((201, b), s')"
      using c r Inr p by (simp add: hcall_def)
    obtain s2 where s2: "hthen (indexTransaction h tr out) (respond 201 (BTransaction tr out)) s2 = ((201, b), s')"
      "ledger_view s2 = ledger_view s1" using hthen_view [OF view_audit h1] by blast
    obtain s3 where s3: "respond 201 (BTransaction tr out) s3 = ((201, b), s')" "ledger_view s3 = ledger_view s2"
      using hthen_view [OF view_index s2(1)] by blast
    have "b = BTransaction tr out" "ledger_view s' = ledger_view s1" using s3 s2(2) by (auto simp: respond_eq)
    then show ?thesis using create_posts [OF r [unfolded Inr p]] d es by blast
  qed
qed

text \<open>Any other answer leaves the ledger alone if an error of the store does.\<close>

lemma create_other:
  assumes "hc_transactions h = Some ts" "handleTransactionCreate h req s = ((st, b), s')" "st \<noteq> 201"
    "\<And>rq d es e u. req = Some rq \<Longrightarrow>
       ts_create ts (cq_entity rq) d (cq_memo rq) (cq_receipt rq) es s = (Inl e, u) \<Longrightarrow> same_tables s u"
  shows "ledger_view s' = ledger_view s"
proof -
  have "handleTransactionCreate h req s = ((st, b), s') \<Longrightarrow> s' = s \<or>
      (\<exists>rq d es e. req = Some rq \<and> ts_create ts (cq_entity rq) d (cq_memo rq) (cq_receipt rq) es s = (Inl e, s'))"
    using assms(1,3)
    by (auto simp: handleTransactionCreate_def respondError_def respond_eq hcall_def hthen_def
        split: if_splits option.splits sum.splits prod.splits)
  then show ?thesis using assms(2,4) ledger_view_tables by blast
qed

lemma create_not_201:
  assumes "hc_transactions h = Some ts" "handleTransactionCreate h req s = ((st, b), s')" "st \<noteq> 201"
    "\<forall>n. \<not> db_fail s n"
  shows "ledger_view s' = ledger_view s"
  by (rule create_other [OF assms(1-3)]) (use create_reliable assms(4) in blast)

lemma draft_other:
  assumes "hc_transactions h = Some ts" "handleDraftPost h rid s = ((st, b), s')" "st \<noteq> 201"
    "\<And>draft e u v. same_tables s u \<Longrightarrow> ts_from_draft ts draft rid u = (Inl e, v) \<Longrightarrow> same_tables u v"
  shows "ledger_view s' = ledger_view s"
proof -
  obtain r0 s0 where r0: "DraftStore_GetByReceiptID rid s = (r0, s0)" by (cases "DraftStore_GetByReceiptID rid s")
  have st0: "same_tables s s0" by (rule GetByReceiptID_tables [OF r0])
  have "handleDraftPost h rid s = ((st, b), s') \<Longrightarrow> s' = s \<or> s' = s0 \<or>
      (\<exists>draft e. ts_from_draft ts draft rid s0 = (Inl e, s'))"
    using assms(1,3) r0
    by (auto simp: handleDraftPost_def respondError_def respond_eq hcall_def hthen_def
        split: if_splits option.splits sum.splits prod.splits)
  then show ?thesis
    using assms(2,4) st0 ledger_view_tables same_tables_trans by blast
qed

lemma draft_tail_201:
  assumes "hthen (auditEvent h e u ty i ac ds) (hthen (indexTransaction h tr out)
     (hthen (learnFromPostedReceipt h e' rc es) (respond 201 (BTransaction tr out)))) s1 = ((st, b), s')"
  shows "st = 201 \<and> b = BTransaction tr out \<and> ledger_view s' = ledger_view s1"
proof -
  obtain s2 where s2: "hthen (indexTransaction h tr out)
     (hthen (learnFromPostedReceipt h e' rc es) (respond 201 (BTransaction tr out))) s2 = ((st, b), s')"
    "ledger_view s2 = ledger_view s1" using hthen_view [OF view_audit assms] by blast
  obtain s3 where s3: "hthen (learnFromPostedReceipt h e' rc es) (respond 201 (BTransaction tr out)) s3 = ((st, b), s')"
    "ledger_view s3 = ledger_view s2" using hthen_view [OF view_index s2(1)] by blast
  obtain s4 where s4: "respond 201 (BTransaction tr out) s4 = ((st, b), s')" "ledger_view s4 = ledger_view s3"
    using hthen_view [OF view_learn s3(1)] by blast
  then show ?thesis using s2(2) s3(2) by (auto simp: respond_eq)
qed

lemma draft_201:
  assumes "hc_transactions h = Some ts" "handleDraftPost h rid s = ((201, b), s')"
  shows "\<exists>draft s0 tr out s1. b = BTransaction tr out \<and> DraftStore_GetByReceiptID rid s = (Inr draft, s0) \<and>
    posted s0 s1 (new_tx (tr_id tr) (dr_entity draft) (dr_date draft) (dr_memo draft) (Some rid) (db_now s0))
      (dr_entries draft) out \<and>
    tr = transactionFromRow (new_tx (tr_id tr) (dr_entity draft) (dr_date draft) (dr_memo draft) (Some rid) (db_now s0)) \<and>
    ledger_view s' = ledger_view s1"
proof -
  obtain r0 s0 where r0: "DraftStore_GetByReceiptID rid s = (r0, s0)" by (cases "DraftStore_GetByReceiptID rid s")
  obtain draft where draft: "r0 = Inr draft"
    using assms r0 by (cases r0) (auto simp: handleDraftPost_def respondError_def respond_eq hcall_def split: if_splits)
  obtain r s1 where r: "ts_from_draft ts draft rid s0 = (r, s1)" by (cases "ts_from_draft ts draft rid s0")
  obtain tr out where p: "r = Inr (tr, out)"
    using assms r0 draft r
    by (cases r) (auto simp: handleDraftPost_def respondError_def respond_eq hcall_def split: if_splits)
  note t = draft_tail_201
  have "b = BTransaction tr out \<and> ledger_view s' = ledger_view s1"
    using assms r0 draft r p by (auto simp: handleDraftPost_def respondError_def respond_eq hcall_def dest!: t split: if_splits)
  then show ?thesis using draft_posts [OF r [unfolded p]] r0 draft by blast
qed

end

interpretation pg: posting_store NewTransactionStore
proof
  fix ent d memo rc es s tr out s'
  assume "ts_create NewTransactionStore ent d memo rc es s = (Inr (tr, out), s')"
  then show "posted s s' (new_tx (tr_id tr) ent d memo (nullString rc) (db_now s)) es out \<and>
      tr = transactionFromRow (new_tx (tr_id tr) ent d memo (nullString rc) (db_now s))"
    using post_op_Inr by (simp add: NewTransactionStore_def Create_eq)
next
  fix ent d memo rc es s e s'
  assume "ts_create NewTransactionStore ent d memo rc es s = (Inl e, s')"
  then show "same_tables s s' \<or> (e \<in> {ErrNotFound, ErrDriver} \<and> (\<exists>t rows. posted s s' t es rows))"
    using post_op_Inl by (simp add: NewTransactionStore_def Create_eq) blast
next
  fix dr receipt s tr out s'
  assume "ts_from_draft NewTransactionStore dr receipt s = (Inr (tr, out), s')"
  then show "posted s s' (new_tx (tr_id tr) (dr_entity dr) (dr_date dr) (dr_memo dr) (Some receipt) (db_now s)) (dr_entries dr) out \<and>
      tr = transactionFromRow (new_tx (tr_id tr) (dr_entity dr) (dr_date dr) (dr_memo dr) (Some receipt) (db_now s))"
    using post_op_Inr by (simp add: NewTransactionStore_def CreateFromDraft_eq)
next
  fix dr receipt s e s'
  assume "ts_from_draft NewTransactionStore dr receipt s = (Inl e, s')"
  then show "same_tables s s' \<or> (e \<in> {ErrNotFound, ErrDriver} \<and> (\<exists>t rows. posted s s' t (dr_entries dr) rows))"
    using post_op_Inl by (simp add: NewTransactionStore_def CreateFromDraft_eq) blast
qed (simp_all add: NewTransactionStore_def post_eqs post_op_Inl_reliable keeps_def post_op_books_ok)

end
