(* ===== verification/Books.thy ===== *)
theory Books
  imports Ledger_Http
begin

text \<open>
  The ledger as a running system.  A step is one store call, so a path of steps is any interleaving of
  any number of requests and workers at the granularity of store calls; between calls the clock moves
  and entities are registered.  \<open>books_step\<close> paths keep the invariant of the books, only ever append to
  the ledger, and contain every run of the HTTP handlers of theory \<open>Ledger_Http\<close>.
\<close>

section \<open>Store calls and steps\<close>

text \<open>Every store operation of \<open>internal/db\<close> modelled so far that writes, with its arguments.\<close>

datatype store_call =
    CPost string date string string "draft_line list"
  | CPostDraft draft_tx string
  | CReceiptCreate string string string string string string int64 int64
  | CReceiptStatus string string
  | CReceiptVendor string string
  | CReceiptResolved string string string
  | CAccountCreate string string string string "string list option"
  | CAccountUpdate string string string string "string list option"
  | CAccountDelete string
  | CDraftEnsure string
  | CDraftEntries string "draft_line list"
  | CDraftUpdate string date string "draft_line list"
  | CImportReplace string string "import_model list"
  | CImportAccount string int string
  | CImportPosted string string
  | CVendorCreate vendor
  | CVendorAccount string string
  | CVendorUpdate string vendor
  | CVendorDelete string
  | CAlias string string string string
  | CAliasConfirmed string string string string
  | CRuleCreate vendor_rule
  | CRuleUpdate string vendor_rule
  | CRuleDelete string
  | CAudit audit_row
  | CSend search_call

definition void :: "'a dbm \<Rightarrow> unit dbm" where
  "void m = dbind m (\<lambda>_. dret ())"

fun run_call :: "store_call \<Rightarrow> unit dbm" where
  "run_call (CPost ent d memo rc es) = void (TransactionStore_Create ent d memo rc es)"
| "run_call (CPostDraft dr rc) = void (TransactionStore_CreateFromDraft dr rc)"
| "run_call (CReceiptCreate ent k ct st kd nm sz tot) = void (ReceiptStore_Create ent k ct st kd nm sz tot)"
| "run_call (CReceiptStatus i st) = ReceiptStore_UpdateStatus i st"
| "run_call (CReceiptVendor i v) = ReceiptStore_UpdateResolvedVendorID i v"
| "run_call (CReceiptResolved i v w) = ReceiptStore_SetResolvedVendor i v w"
| "run_call (CAccountCreate ent nm ty cd tags) = void (AccountStore_Create ent nm ty cd tags)"
| "run_call (CAccountUpdate i nm ty cd tags) = void (AccountStore_Update i nm ty cd tags)"
| "run_call (CAccountDelete i) = AccountStore_Delete i"
| "run_call (CDraftEnsure r) = void (DraftStore_EnsureForReceipt r)"
| "run_call (CDraftEntries r es) = DraftStore_SetEntriesByReceipt r es"
| "run_call (CDraftUpdate r d m es) = void (DraftStore_UpdateDraft r d m es)"
| "run_call (CImportReplace r ent rows) = ImportRowStore_ReplaceForReceipt r ent rows"
| "run_call (CImportAccount r i a) = void (ImportRowStore_UpdateAccount r i a)"
| "run_call (CImportPosted i t) = ImportRowStore_MarkPosted i t"
| "run_call (CVendorCreate v) = void (VendorStore_Create v)"
| "run_call (CVendorAccount i a) = VendorStore_SetDefaultAccount i a"
| "run_call (CVendorUpdate i v) = void (VendorStore_Update i v)"
| "run_call (CVendorDelete i) = VendorStore_Delete i"
| "run_call (CAlias v e r n) = VendorAliasStore_Record v e r n"
| "run_call (CAliasConfirmed v e r n) = VendorAliasStore_RecordConfirmed v e r n"
| "run_call (CRuleCreate r) = void (VendorRuleStore_Create r)"
| "run_call (CRuleUpdate i r) = void (VendorRuleStore_Update i r)"
| "run_call (CRuleDelete i) = VendorRuleStore_Delete i"
| "run_call (CAudit ev) = AuditStore_Create ev"
| "run_call (CSend c) = void (send c)"

inductive books_step :: "db \<Rightarrow> db \<Rightarrow> bool" where
  call: "books_step s (snd (run_call c s))"
| quiet: "same_tables s s' \<Longrightarrow> books_step s s'"
| clock: "books_step s (s\<lparr>db_now := t, db_today := d\<rparr>)"
| new_entity: "books_step s (s\<lparr>db_entities := db_entities s @ [e]\<rparr>)"

inductive_cases books_stepE: "books_step s s'"

abbreviation books_steps :: "db \<Rightarrow> db \<Rightarrow> bool" where
  "books_steps \<equiv> books_step\<^sup>*\<^sup>*"

text \<open>A database after the migrations: no accounts, receipts or postings.  Oracles are arbitrary.\<close>

definition fresh_db :: "db \<Rightarrow> bool" where
  "fresh_db s \<longleftrightarrow> db_accounts s = [] \<and> db_receipts s = [] \<and> db_txs s = [] \<and> db_entries s = []"

section \<open>The invariant of the books holds on every path\<close>

lemma keep_AuditStore_Create [books_keep]: "keeps books_ok (AuditStore_Create ev)"
  unfolding AuditStore_Create_def by (rule keep_frame) (auto split: if_splits)

lemma keep_void: "keeps books_ok m \<Longrightarrow> keeps books_ok (void m)"
  unfolding void_def by (intro books.keep_flow)

lemma run_call_books: "keeps books_ok (run_call c)"
  by (cases c) (simp_all add: books_keep keep_void)

lemma books_step_ok: "books_step s s' \<Longrightarrow> books_ok s \<Longrightarrow> books_ok s'"
proof (induction rule: books_step.induct)
  case (call s c)
  then show ?case using run_call_books by (simp add: keeps_def)
qed (auto simp: books_ok_same_tables elim: books_ok_frame)

lemma books_steps_ok: "books_steps s s' \<Longrightarrow> books_ok s \<Longrightarrow> books_ok s'"
  by (induction rule: rtranclp_induct) (auto intro: books_step_ok)

lemma fresh_books_ok: "fresh_db s \<Longrightarrow> books_ok s"
  by (simp add: fresh_db_def books_ok_def keys_ok_def entries_ok_def receipts_ok_def)

section \<open>The ledger is append-only\<close>

definition tx_view :: "db \<Rightarrow> tx_row list \<times> entry list" where
  "tx_view s = (db_txs s, db_entries s)"

definition extends :: "db \<Rightarrow> db \<Rightarrow> bool" where
  "extends s s' \<longleftrightarrow> (\<exists>ts es. db_txs s' = db_txs s @ ts \<and> db_entries s' = db_entries s @ es)"

lemma extends_refl [simp]: "extends s s"
  by (simp add: extends_def)

lemma extends_trans [trans]: "extends s t \<Longrightarrow> extends t u \<Longrightarrow> extends s u"
  by (auto simp: extends_def)

lemma extends_view: "tx_view s' = tx_view s \<Longrightarrow> extends s s'"
  by (simp add: extends_def tx_view_def)

interpretation txv: table_invariant "\<lambda>s. tx_view s = x" for x
  by unfold_locales (simp add: tx_view_def same_tables_fields)

lemma txv_stmt:
  "(\<And>s y s'. q s = (Inr y, s') \<Longrightarrow> db_txs s' = db_txs s \<and> db_entries s' = db_entries s) \<Longrightarrow>
     keeps (\<lambda>s. tx_view s = x) (stmt q)"
  by (rule txv.keep_stmt) (simp add: tx_view_def)

lemma txv_tags: "keeps (\<lambda>s. tx_view s = x) (setForAccountTx a tags)"
  unfolding setForAccountTx_def by (intro txv.keep_flow txv.keep_dfor txv_stmt) (auto split: if_splits)

lemma txv_reads:
  "keeps (\<lambda>s. tx_view s = x) (ReceiptStore_GetByID i)" "keeps (\<lambda>s. tx_view s = x) (AccountStore_GetByID i)"
  "keeps (\<lambda>s. tx_view s = x) (DraftStore_GetByReceiptID i)" "keeps (\<lambda>s. tx_view s = x) (VendorRuleStore_GetByID i)"
  "keeps (\<lambda>s. tx_view s = x) (ImportRowStore_getByID i)" "keeps (\<lambda>s. tx_view s = x) (VendorStore_GetByID i)"
  unfolding ReceiptStore_GetByID_def AccountStore_GetByID_def accountFromRow_def ListByAccountID_def
    DraftStore_GetByReceiptID_def VendorRuleStore_GetByID_def ImportRowStore_getByID_def VendorStore_GetByID_def
  by (intro txv.keep_flow)+

lemma txv_receipts:
  "keeps (\<lambda>s. tx_view s = x) (ReceiptStore_Create ent k ct st kd nm sz tot)"
  "keeps (\<lambda>s. tx_view s = x) (ReceiptStore_UpdateStatus i st)"
  "keeps (\<lambda>s. tx_view s = x) (ReceiptStore_UpdateResolvedVendorID i v)"
  "keeps (\<lambda>s. tx_view s = x) (ReceiptStore_SetResolvedVendor i v w)"
  unfolding ReceiptStore_Create_def ReceiptStore_UpdateStatus_def ReceiptStore_UpdateResolvedVendorID_def
    ReceiptStore_SetResolvedVendor_def Let_def
  by (intro txv.keep_flow txv_stmt txv_reads; auto simp: update_receipts_def split: if_splits)+

lemma txv_accounts:
  "keeps (\<lambda>s. tx_view s = x) (AccountStore_Create ent nm ty cd tags)"
  "keeps (\<lambda>s. tx_view s = x) (AccountStore_Update i nm ty cd tags)"
  "keeps (\<lambda>s. tx_view s = x) (AccountStore_Delete i)"
  unfolding AccountStore_Create_def AccountStore_Update_def AccountStore_Delete_def Let_def
  by (intro txv.keep_flow txv.keep_transact txv_stmt txv_reads txv_tags; auto split: if_splits option.splits)+

lemma txv_draft_parts:
  "keeps (\<lambda>s. tx_view s = x) (insert_draft r)" "keeps (\<lambda>s. tx_view s = x) (delete_draft_entries d)"
  "keeps (\<lambda>s. tx_view s = x) (insert_draft_entry d e)"
  unfolding insert_draft_def delete_draft_entries_def insert_draft_entry_def Let_def
  by (intro txv.keep_flow txv_stmt; auto split: if_splits option.splits)+

lemma txv_drafts:
  "keeps (\<lambda>s. tx_view s = x) (DraftStore_EnsureForReceipt r)"
  "keeps (\<lambda>s. tx_view s = x) (DraftStore_SetEntriesByReceipt r es)"
  "keeps (\<lambda>s. tx_view s = x) (DraftStore_UpdateDraft r d m es)"
  unfolding DraftStore_EnsureForReceipt_def DraftStore_SetEntriesByReceipt_def DraftStore_UpdateDraft_def Let_def
  by (intro txv.keep_flow txv.keep_transact txv.keep_dfor txv_stmt txv_reads txv_draft_parts; auto)+

lemma txv_import_rows:
  "keeps (\<lambda>s. tx_view s = x) (ImportRowStore_ReplaceForReceipt r ent rows)"
  "keeps (\<lambda>s. tx_view s = x) (ImportRowStore_UpdateAccount r ri a)"
  "keeps (\<lambda>s. tx_view s = x) (ImportRowStore_MarkPosted i t)"
  unfolding ImportRowStore_ReplaceForReceipt_def ImportRowStore_UpdateAccount_def ImportRowStore_MarkPosted_def
    upsert_import_row_def Let_def
  by (intro txv.keep_flow txv.keep_transact txv.keep_dfor txv_stmt txv_reads; auto split: if_splits option.splits)+

lemma txv_aliases:
  "keeps (\<lambda>s. tx_view s = x) (VendorAliasStore_Record v e r n)"
  "keeps (\<lambda>s. tx_view s = x) (VendorAliasStore_RecordConfirmed v e r n)"
  unfolding VendorAliasStore_Record_def VendorAliasStore_RecordConfirmed_def upsert_alias_def bump_vendor_def Let_def
  by (intro txv.keep_flow txv_stmt; auto split: if_splits)+

lemma txv_vendors:
  "keeps (\<lambda>s. tx_view s = x) (VendorStore_Create v)" "keeps (\<lambda>s. tx_view s = x) (VendorStore_SetDefaultAccount i a)"
  "keeps (\<lambda>s. tx_view s = x) (VendorStore_Update i v)" "keeps (\<lambda>s. tx_view s = x) (VendorStore_Delete i)"
  unfolding VendorStore_Create_def VendorStore_SetDefaultAccount_def VendorStore_Update_def VendorStore_Delete_def Let_def
  by (intro txv.keep_flow txv_stmt; auto split: if_splits option.splits)+

lemma txv_rules:
  "keeps (\<lambda>s. tx_view s = x) (VendorRuleStore_Create r)" "keeps (\<lambda>s. tx_view s = x) (VendorRuleStore_Update i r)"
  "keeps (\<lambda>s. tx_view s = x) (VendorRuleStore_Delete i)"
  unfolding VendorRuleStore_Create_def VendorRuleStore_Update_def VendorRuleStore_Delete_def Let_def
  by (intro txv.keep_flow txv_stmt txv_reads; auto split: if_splits)+

lemma txv_misc: "keeps (\<lambda>s. tx_view s = x) (AuditStore_Create ev)" "keeps (\<lambda>s. tx_view s = x) (send c)"
  unfolding AuditStore_Create_def
  by (rule txv_stmt, auto simp: keeps_def send_def tx_view_def split: if_splits)

lemma txv_void: "keeps (\<lambda>s. tx_view s = x) m \<Longrightarrow> keeps (\<lambda>s. tx_view s = x) (void m)"
  unfolding void_def by (intro txv.keep_flow)

lemmas txv_calls = txv_receipts txv_accounts txv_drafts txv_import_rows txv_aliases txv_vendors txv_rules txv_misc

text \<open>The two posting calls append one transaction with its entries; no other call touches the ledger.\<close>

definition posting_call :: "store_call \<Rightarrow> bool" where
  "posting_call c = (case c of CPost _ _ _ _ _ \<Rightarrow> True | CPostDraft _ _ \<Rightarrow> True | _ \<Rightarrow> False)"

lemma run_call_view: "\<not> posting_call c \<Longrightarrow> tx_view (snd (run_call c s)) = tx_view s"
proof -
  have k: "(\<And>x. keeps (\<lambda>s. tx_view s = x) m) \<Longrightarrow> tx_view (snd (m s)) = tx_view s" for m :: "unit dbm"
    by (simp add: keeps_def)
  assume "\<not> posting_call c"
  then show ?thesis by (cases c) (simp_all add: posting_call_def k txv_calls txv_void)
qed

lemma posted_extends: "posted s s' t es rows \<Longrightarrow> extends s s'"
  by (auto simp: posted_def extends_def post_state_def dest: same_tables_fields(7,8))

lemma same_tables_extends: "same_tables s s' \<Longrightarrow> extends s s'"
  by (simp add: extends_def same_tables_fields)

lemma post_op_extends: "extends s (snd (post_op ent d memo rc es s))"
proof -
  obtain r s' where r: "post_op ent d memo rc es s = (r, s')" by (cases "post_op ent d memo rc es s")
  show ?thesis
  proof (cases r)
    case (Inl e)
    then show ?thesis
      using post_op_Inl [of ent d memo rc es s e s'] r posted_extends same_tables_extends by auto
  next
    case (Inr x)
    then show ?thesis using post_op_Inr [of ent d memo rc es s "fst x" "snd x" s'] r posted_extends by auto
  qed
qed

lemma snd_void: "snd (void m s) = snd (m s)"
  by (auto simp: void_def dbind_def dret_def split: prod.splits sum.splits)

lemma run_call_extends: "extends s (snd (run_call c s))"
proof (cases "posting_call c")
  case True
  then show ?thesis by (cases c) (simp_all add: posting_call_def snd_void post_eqs post_op_extends)
next
  case False
  then show ?thesis by (simp add: extends_view run_call_view)
qed

lemma books_steps_extends: "books_steps s s' \<Longrightarrow> extends s s'"
proof (induction rule: rtranclp_induct)
  case (step t u)
  have "extends t u" using step(2)
  proof (cases rule: books_step.cases)
    case quiet
    then show ?thesis by (rule same_tables_extends)
  qed (simp_all add: run_call_extends extends_view tx_view_def)
  then show ?case using step.IH extends_trans by blast
qed simp

section \<open>Handlers are paths of store calls\<close>

definition hkeeps :: "(db \<Rightarrow> bool) \<Rightarrow> handler \<Rightarrow> bool" where
  "hkeeps I k \<longleftrightarrow> (\<forall>s. I s \<longrightarrow> I (snd (k s)))"

text \<open>
  \<open>wired h\<close>: the handler context of the running server.  The transaction store is the PostgreSQL one, and
  looking up an account statement only reads.
\<close>

definition wired :: "hc \<Rightarrow> bool" where
  "wired h \<longleftrightarrow> (hc_transactions h = None \<or> hc_transactions h = Some NewTransactionStore) \<and>
     (case hc_statement h of None \<Rightarrow> True | Some f \<Rightarrow> \<forall>r s. same_tables s (snd (f r s)))"

text \<open>The reads of the stores and of the handlers keep every invariant of the tables.\<close>

context table_invariant
begin

lemma keep_reads:
  "keeps I (ReceiptStore_GetByID i)" "keeps I (ReceiptStore_GetEntityID i)" "keeps I (DraftStore_GetByReceiptID i)"
  "keeps I (VendorStore_GetByID i)" "keeps I (AccountStore_GetEntityID i)" "keeps I (ImportRowStore_ListByReceiptID i)"
  "keeps I (ImportRowStore_GetByReceiptAndIndex i ri)" "keeps I (TransactionStore_List ent st en l)"
  "keeps I (accountFromRow row)"
  unfolding ReceiptStore_GetByID_def ReceiptStore_GetEntityID_def DraftStore_GetByReceiptID_def VendorStore_GetByID_def
    AccountStore_GetEntityID_def ImportRowStore_ListByReceiptID_def ImportRowStore_GetByReceiptAndIndex_def
    accountFromRow_def ListByAccountID_def TransactionStore_List_def Let_def
  by (intro keep_flow keep_stmt; simp)+

lemma keep_accountsFromRows: "keeps I (accountsFromRows rows)"
  by (induction rows) (auto intro!: keep_flow keep_reads)

lemma keep_account_reads:
  "keeps I (AccountStore_ListForEntity ent l)" "keeps I (AccountStore_FindDefaultCashAccount ent)"
  unfolding AccountStore_ListForEntity_def AccountStore_FindDefaultCashAccount_def Let_def
  by (intro keep_flow keep_accountsFromRows; auto split: list.split intro: keep_reads)+

lemma keep_statement:
  assumes "wired h" "hc_statement h = Some f"
  shows "keeps I (f r)"
  using assms tables_only by (auto simp: wired_def keeps_def)

lemma keep_offset: "wired h \<Longrightarrow> keeps I (importReceiptOffsetAccountID h r ent)"
  unfolding importReceiptOffsetAccountID_def Let_def
  by (cases "hc_statement h")
     (auto intro!: keep_flow keep_account_reads keep_statement split: prod.split)

end

text \<open>The contract between the store calls and everything composed of them.\<close>

locale store_invariant = table_invariant +
  assumes call_keeps: "keeps I (run_call c)"
begin

lemma keep_voided: "keeps I (void m) \<Longrightarrow> keeps I m"
  by (simp add: keeps_def snd_void)

lemma keep_posts:
  "keeps I (TransactionStore_Create ent d memo rc es)" "keeps I (TransactionStore_CreateFromDraft dr rc)"
  using call_keeps [of "CPost ent d memo rc es"] call_keeps [of "CPostDraft dr rc"] by (auto intro: keep_voided)

lemma keep_stores:
  "keeps I (ReceiptStore_UpdateResolvedVendorID i v)" "keeps I (DraftStore_UpdateDraft r d m es)"
  "keeps I (ImportRowStore_UpdateAccount r ri a)" "keeps I (ImportRowStore_MarkPosted i t)"
  "keeps I (VendorStore_SetDefaultAccount i a)" "keeps I (VendorAliasStore_RecordConfirmed v e w n)"
  "keeps I (AuditStore_Create ev)" "keeps I (send c)"
  using call_keeps [of "CReceiptVendor i v"] call_keeps [of "CDraftUpdate r d m es"] call_keeps [of "CImportAccount r ri a"]
    call_keeps [of "CImportPosted i t"] call_keeps [of "CVendorAccount i a"] call_keeps [of "CAliasConfirmed v e w n"]
    call_keeps [of "CAudit ev"] call_keeps [of "CSend c"]
  by (auto intro: keep_voided)

lemma keep_audit: "keeps I (auditEvent h e a ty i ac ds)"
  unfolding auditEvent_def best_effort_def by (intro keep_flow keep_stores)

lemma keep_index: "keeps I (indexTransaction h tr es)"
proof -
  have "keeps I (\<lambda>s. send (UpsertDocument (SearchDocumentFromTransaction (db_now s) doc)) s)" for doc
    using keep_stores(8) by (simp add: keeps_def)
  then show ?thesis
    unfolding indexTransaction_def transactionSearchDocument_def
    by (intro keep_flow keep_account_reads keep_stores)
qed

lemma keep_learn: "keeps I (learnFromPostedReceipt h e r es)"
  unfolding learnFromPostedReceipt_def best_effort_def LearnAccount_def chosenExpenseAccount_def IndexRetrieval_def
    VendorAliasStore_ListNormalized_def
  by (intro keep_flow keep_account_reads keep_reads keep_stores)

lemma hkeep_respond: "hkeeps I (respond st b)" "hkeeps I (respondError st code)"
  by (simp_all add: hkeeps_def respond_def respondError_def)

lemma hkeep_hcall: "keeps I m \<Longrightarrow> (\<And>e. hkeeps I (f e)) \<Longrightarrow> (\<And>x. hkeeps I (k x)) \<Longrightarrow> hkeeps I (hcall m f k)"
  unfolding hkeeps_def keeps_def hcall_def by (fastforce split: prod.splits sum.splits)

lemma hkeep_hthen: "keeps I m \<Longrightarrow> hkeeps I k \<Longrightarrow> hkeeps I (hthen m k)"
  by (simp add: hkeeps_def keeps_def hthen_def)

lemma hkeep_if: "(P \<Longrightarrow> hkeeps I a) \<Longrightarrow> (\<not> P \<Longrightarrow> hkeeps I b) \<Longrightarrow> hkeeps I (if P then a else b)"
  by auto

lemma hkeep_option: "(r = None \<Longrightarrow> hkeeps I a) \<Longrightarrow> (\<And>x. r = Some x \<Longrightarrow> hkeeps I (f x)) \<Longrightarrow>
    hkeeps I (case r of None \<Rightarrow> a | Some x \<Rightarrow> f x)"
  by (cases r) auto

lemma hkeep_sum: "(\<And>e. hkeeps I (g e)) \<Longrightarrow> (\<And>x. hkeeps I (f x)) \<Longrightarrow> hkeeps I (case r of Inl e \<Rightarrow> g e | Inr x \<Rightarrow> f x)"
  by (cases r) auto

lemma hkeep_pair: "(\<And>a b. hkeeps I (f a b)) \<Longrightarrow> hkeeps I (case p of (a, b) \<Rightarrow> f a b)"
  by (cases p) auto

lemmas hkeep_flow = hkeep_respond hkeep_hcall hkeep_hthen hkeep_if hkeep_option hkeep_sum hkeep_pair

lemma wired_posts:
  assumes "wired h" "hc_transactions h = Some ts"
  shows "keeps I (ts_create ts ent d memo rc es)" "keeps I (ts_from_draft ts dr rc)" "keeps I (ts_list ts ent st en l)"
  using assms keep_posts keep_reads(8) by (auto simp: wired_def NewTransactionStore_def)

lemma keep_postImportRow: "wired h \<Longrightarrow> hc_transactions h = Some ts \<Longrightarrow> keeps I (postImportRow h ts row cash)"
  unfolding postImportRow_def Let_def
  by (intro keep_flow wired_posts) (auto intro!: keep_flow keep_stores keep_index split: prod.split)

lemma keep_post_mapped:
  "wired h \<Longrightarrow> hc_transactions h = Some ts \<Longrightarrow> I s \<Longrightarrow> I (snd (post_mapped h ts offset rows s))"
proof (induction rows arbitrary: s)
  case (Cons row rows)
  have "I s'" if "postImportRow h ts row offset s = (r, s')" for r s'
    using keepsD [OF keep_postImportRow [OF Cons.prems(1,2)] Cons.prems(3) that] .
  then show ?case
    using Cons by (auto simp: Let_def split: if_splits prod.splits sum.splits) (metis snd_conv)+
qed simp

theorem handlers_keep:
  assumes "wired h"
  shows "hkeeps I (handleTransactionCreate h req)" "hkeeps I (handleTransactionList h ent st en l)"
    "hkeeps I (handleDraftGet h r)" "hkeeps I (handleDraftPost h r)" "hkeeps I (handleDraftUpdate h r ureq)"
    "hkeeps I (handleReceiptSetVendor h r v)" "hkeeps I (handleImportRowsList h r)"
    "hkeeps I (handleImportRowUpdate h r idx acct)" "hkeeps I (handleImportRowPost h r idx)"
    "hkeeps I (handleImportRowsPostMapped h r)"
proof -
  show "hkeeps I (handleTransactionCreate h req)" "hkeeps I (handleTransactionList h ent st en l)"
    "hkeeps I (handleDraftGet h r)" "hkeeps I (handleDraftPost h r)"
    unfolding handleTransactionCreate_def handleTransactionList_def handleDraftGet_def handleDraftPost_def
    by (intro hkeep_flow wired_posts [OF assms] keep_audit keep_index keep_learn keep_reads; assumption)+
  show "hkeeps I (handleDraftUpdate h r ureq)" "hkeeps I (handleReceiptSetVendor h r v)" "hkeeps I (handleImportRowsList h r)"
    "hkeeps I (handleImportRowUpdate h r idx acct)"
    unfolding handleDraftUpdate_def handleReceiptSetVendor_def handleImportRowsList_def handleImportRowUpdate_def Let_def
    by (intro hkeep_flow keep_audit keep_reads keep_stores)+
  show "hkeeps I (handleImportRowPost h r idx)"
    unfolding handleImportRowPost_def
    by (intro hkeep_flow keep_offset [OF assms] keep_postImportRow [OF assms] keep_audit keep_reads; assumption)
  have m: "hkeeps I (\<lambda>s. case post_mapped h ts offset rows s of ((results, np, nk, nf), s') \<Rightarrow> k results np nk nf s')"
    if t: "hc_transactions h = Some ts" and k: "\<And>a b c d. hkeeps I (k a b c d)" for ts offset rows k
    unfolding hkeeps_def
  proof (intro allI impI)
    fix s assume s: "I s"
    obtain rs p sk f s' where e: "post_mapped h ts offset rows s = ((rs, p, sk, f), s')" by (metis surj_pair)
    then have "I s'" using keep_post_mapped [OF assms t s, of offset rows] by simp
    then show "I (snd (case post_mapped h ts offset rows s of ((results, np, nk, nf), s') \<Rightarrow> k results np nk nf s'))"
      using k [of rs p sk f] e by (simp add: hkeeps_def)
  qed
  have a: "keeps I (if P then auditEvent h e a ty i ac ds else dret ())" for P e a ty i ac ds
    using keep_audit by auto
  show "hkeeps I (handleImportRowsPostMapped h r)"
    unfolding handleImportRowsPostMapped_def
    by (intro hkeep_flow keep_offset [OF assms] keep_reads m a; assumption)
qed

end

section \<open>Balance over the integers\<close>

lemma sum64_word: "sum64 f xs = word_of_int (\<Sum>x\<leftarrow>xs. i64 (f x))"
  by (induction xs) simp_all

text \<open>Two sums that agree modulo \<open>2^64\<close> and lie in one period agree.\<close>

lemma sum64_eq_int:
  assumes "sum64 f xs = sum64 g xs" "0 \<le> (\<Sum>x\<leftarrow>xs. i64 (f x))" "(\<Sum>x\<leftarrow>xs. i64 (f x)) < 2 ^ 64"
    "0 \<le> (\<Sum>x\<leftarrow>xs. i64 (g x))" "(\<Sum>x\<leftarrow>xs. i64 (g x)) < 2 ^ 64"
  shows "(\<Sum>x\<leftarrow>xs. i64 (f x)) = (\<Sum>x\<leftarrow>xs. i64 (g x))"
proof -
  have "uint (word_of_int (\<Sum>x\<leftarrow>xs. i64 (f x)) :: int64) = uint (word_of_int (\<Sum>x\<leftarrow>xs. i64 (g x)) :: int64)"
    using assms(1) by (simp only: sum64_word)
  then have "(\<Sum>x\<leftarrow>xs. i64 (f x)) mod 2 ^ 64 = (\<Sum>x\<leftarrow>xs. i64 (g x)) mod 2 ^ 64"
    unfolding uint_word_of_int by simp
  then show ?thesis using assms(2-) by simp
qed

lemma sum_list_nonneg_map: "(\<forall>x\<in>set xs. 0 \<le> (f x :: int)) \<Longrightarrow> 0 \<le> (\<Sum>x\<leftarrow>xs. f x)"
  by (induction xs) auto

abbreviation debits :: "entry list \<Rightarrow> int" where
  "debits es \<equiv> (\<Sum>e\<leftarrow>es. i64 (en_debit e))"

abbreviation credits :: "entry list \<Rightarrow> int" where
  "credits es \<equiv> (\<Sum>e\<leftarrow>es. i64 (en_credit e))"

lemma tx_balance_int:
  assumes "books_ok s" "t \<in> set (db_txs s)"
    "debits (entries_of s (tx_id t)) < 2 ^ 64" "credits (entries_of s (tx_id t)) < 2 ^ 64"
  shows "debits (entries_of s (tx_id t)) = credits (entries_of s (tx_id t))"
proof (rule sum64_eq_int)
  show "sum64 en_debit (entries_of s (tx_id t)) = sum64 en_credit (entries_of s (tx_id t))"
    using assms(1,2) unfolding books_ok_def tx_balanced_def by blast
  have "entry_check (en_debit e) (en_credit e)" if "e \<in> set (entries_of s (tx_id t))" for e
    using assms(1) that unfolding books_ok_def entries_ok_def entries_of_def by auto
  then show "0 \<le> debits (entries_of s (tx_id t))" "0 \<le> credits (entries_of s (tx_id t))"
    by (auto simp: entry_check_def intro!: sum_list_nonneg_map)
qed (use assms in auto)

lemma sum_list_pick:
  fixes c :: int
  shows "distinct (map tx_id ts) \<Longrightarrow>
     (\<Sum>t\<leftarrow>ts. if i = tx_id t then c else 0) = (if i \<in> tx_id ` set ts then c else 0)"
  by (induction ts) auto

text \<open>A sum over entries, regrouped by transaction.\<close>

lemma sum_by_tx:
  fixes f :: "entry \<Rightarrow> int"
  assumes "distinct (map tx_id ts)" "\<forall>e\<in>set es. en_tx e \<in> tx_id ` set ts"
  shows "(\<Sum>e\<leftarrow>es. f e) = (\<Sum>t\<leftarrow>ts. \<Sum>e\<leftarrow>filter (\<lambda>e. en_tx e = tx_id t) es. f e)"
  using assms(2)
proof (induction es)
  case (Cons e es)
  have "(\<Sum>t\<leftarrow>ts. \<Sum>e\<leftarrow>filter (\<lambda>e. en_tx e = tx_id t) (e # es). f e) =
      (\<Sum>t\<leftarrow>ts. (if en_tx e = tx_id t then f e else 0) + (\<Sum>e\<leftarrow>filter (\<lambda>e. en_tx e = tx_id t) es. f e))"
    by (rule arg_cong [of _ _ sum_list]) (auto intro!: map_cong)
  also have "\<dots> = f e + (\<Sum>t\<leftarrow>ts. \<Sum>e\<leftarrow>filter (\<lambda>e. en_tx e = tx_id t) es. f e)"
    using Cons.prems by (simp add: sum_list_addf sum_list_pick [OF assms(1)])
  finally show ?case using Cons by simp
qed simp

lemma filter_tx_twice:
  "filter (\<lambda>e. en_tx e = tx_id t) (filter (\<lambda>e. en_tx e \<in> T) es) =
     (if tx_id t \<in> T then filter (\<lambda>e. en_tx e = tx_id t) es else [])"
  by (induction es) auto

lemma sum_list_cong: "(\<And>x. x \<in> set xs \<Longrightarrow> f x = g x) \<Longrightarrow> (\<Sum>x\<leftarrow>xs. f x) = (\<Sum>x\<leftarrow>xs. g x)"
  by (metis map_eq_conv)

lemma trial_balance_ok:
  assumes "books_ok s"
    "\<forall>t\<in>set (db_txs s). debits (entries_of s (tx_id t)) < 2 ^ 64 \<and> credits (entries_of s (tx_id t)) < 2 ^ 64"
  shows "debits (filter (\<lambda>e. en_tx e \<in> T) (db_entries s)) = credits (filter (\<lambda>e. en_tx e \<in> T) (db_entries s))"
proof -
  let ?es = "filter (\<lambda>e. en_tx e \<in> T) (db_entries s)"
  have d: "distinct (map tx_id (db_txs s))" using assms(1) by (simp add: books_ok_def keys_ok_def)
  have m: "\<forall>e\<in>set ?es. en_tx e \<in> tx_id ` set (db_txs s)"
    using assms(1) unfolding books_ok_def entries_ok_def by (metis filter_is_subset image_eqI subsetD)
  show ?thesis
    unfolding sum_by_tx [OF d m]
  proof (rule sum_list_cong)
    fix t assume t: "t \<in> set (db_txs s)"
    show "debits (filter (\<lambda>e. en_tx e = tx_id t) ?es) = credits (filter (\<lambda>e. en_tx e = tx_id t) ?es)"
      using tx_balance_int [OF assms(1) t] assms(2) t unfolding filter_tx_twice by (simp add: entries_of_def)
  qed
qed

section \<open>What a running ledger guarantees\<close>

interpretation books: store_invariant books_ok
  by unfold_locales (rule run_call_books)

lemma same_tables_sym: "same_tables s s' \<Longrightarrow> same_tables s' s"
  by (cases s; cases s') (simp add: same_tables_def)

interpretation path: store_invariant "\<lambda>s. books_steps s0 s" for s0
proof unfold_locales
  fix s s' assume "same_tables s s'"
  then show "books_steps s0 s' = books_steps s0 s"
    using books_step.quiet same_tables_sym by (metis rtranclp.rtrancl_into_rtrancl)
next
  fix c
  show "keeps (books_steps s0) (run_call c)"
    unfolding keeps_def by (metis books_step.call rtranclp.rtrancl_into_rtrancl)
qed

text \<open>A run of the system: a company is registered, opens two accounts, uploads a receipt and posts it.\<close>

definition run_calls :: "store_call list \<Rightarrow> db \<Rightarrow> db" where
  "run_calls cs s = fold (\<lambda>c s. snd (run_call c s)) cs s"

lemma run_calls_steps: "books_steps s (run_calls cs s)"
proof (induction cs arbitrary: s)
  case (Cons c cs)
  have "books_steps (snd (run_call c s)) (run_calls (c # cs) s)" using Cons.IH by (simp add: run_calls_def)
  then show ?case using books_step.call by (meson converse_rtranclp_into_rtranclp)
qed (simp add: run_calls_def)

definition sample_line :: "string \<Rightarrow> int64 \<Rightarrow> int64 \<Rightarrow> draft_line" where
  "sample_line a d c = \<lparr>dl_id = [], dl_draft = [], dl_account = a, dl_debit = d, dl_credit = c\<rparr>"

definition sample_date :: date where
  "sample_date = \<lparr>d_year = 2024, d_month = 3, d_day = 31\<rparr>"

definition sample_entity_db :: db where
  "sample_entity_db = empty_db\<lparr>db_entities := [\<lparr>ent_id = ''E'', ent_tenant = ''T'', ent_name = ''Acme'',
     ent_context = [], ent_fy_month = 1, ent_fy_day = 1, ent_created = 0\<rparr>]\<rparr>"

text \<open>The identifiers drawn are \<open>u\<close>, \<open>u1\<close> (accounts) and \<open>u11\<close> (the receipt).\<close>

definition sample_setup :: "store_call list" where
  "sample_setup = [CAccountCreate ''E'' ''Cash'' ''asset'' ''1000'' None, CAccountCreate ''E'' ''Meals'' ''expense'' ''6000'' None,
     CReceiptCreate ''E'' ''k'' ''image/png'' ''needs_review'' ''receipt'' ''r.png'' 10 0]"

definition sample_ready_db :: db where
  "sample_ready_db = run_calls sample_setup sample_entity_db"

definition sample_posted_db :: db where
  "sample_posted_db = run_calls [CPost ''E'' sample_date ''Lunch'' ''u11'' [sample_line ''u1'' 1250 0, sample_line ''u'' 0 1250]]
     sample_ready_db"

lemma sample_steps: "books_steps sample_entity_db sample_ready_db" "books_steps sample_ready_db sample_posted_db"
  by (simp_all add: sample_ready_db_def sample_posted_db_def run_calls_steps)

lemma sample_path: "books_steps sample_entity_db sample_posted_db"
  using sample_steps by (rule rtranclp_trans)

lemma sample_fresh: "fresh_db sample_entity_db"
  by (simp add: fresh_db_def sample_entity_db_def empty_db_def)

text \<open>
  C1. Whatever sequence of store calls runs against a database that started without postings, and whichever
  statements fail, the books stay sound: keys are unique, every entry is well formed and on an account of its
  own entity, every transaction's debit and credit columns have the same non-zero machine sum, and a receipt
  is linked to at most one transaction, of its own entity, and marked attached.
\<close>

theorem ledger_invariant:
  assumes "fresh_db s0" "books_steps s0 s"
  shows "books_ok s"
  using books_steps_ok [OF assms(2)] fresh_books_ok [OF assms(1)] by blast

theorem ledger_invariant_witness: "books_ok sample_posted_db \<and> length (db_txs sample_posted_db) = 1"
  by (rule conjI [OF ledger_invariant [OF sample_fresh sample_path]]) code_simp

text \<open>
  C20. The ledger is append-only: no path of store calls changes or removes a posted transaction or one of its
  entries; the later tables are the earlier ones with rows appended.
\<close>

theorem ledger_append_only:
  assumes "books_steps s s'"
  shows "\<exists>ts es. db_txs s' = db_txs s @ ts \<and> db_entries s' = db_entries s @ es"
  using books_steps_extends [OF assms] by (simp add: extends_def)

theorem ledger_append_only_witness:
  "(\<exists>ts es. db_txs sample_posted_db = db_txs sample_ready_db @ ts \<and> db_entries sample_posted_db = db_entries sample_ready_db @ es) \<and>
     length (db_entries sample_posted_db) = 2"
  by (rule conjI [OF ledger_append_only [OF sample_steps(2)]]) code_simp

text \<open>
  Trial balance: in every state reached from an empty ledger, for every set \<open>T\<close> of transactions (those
  of an entity, of a period, or all of them) the debits equal the credits as integers, provided that no single
  transaction's column reaches \<open>2 ^ 64\<close> cents, the point at which the code's 64-bit check wraps around.
\<close>

theorem trial_balance:
  assumes "fresh_db s0" "books_steps s0 s"
    "\<forall>t\<in>set (db_txs s). debits (entries_of s (tx_id t)) < 2 ^ 64 \<and> credits (entries_of s (tx_id t)) < 2 ^ 64"
  shows "debits (filter (\<lambda>e. en_tx e \<in> T) (db_entries s)) = credits (filter (\<lambda>e. en_tx e \<in> T) (db_entries s))"
  using books_steps_ok [OF assms(2) fresh_books_ok [OF assms(1)]] assms(3) by (rule trial_balance_ok)

lemma sample_small:
  "\<forall>t\<in>set (db_txs sample_posted_db). debits (entries_of sample_posted_db (tx_id t)) < 2 ^ 64 \<and>
     credits (entries_of sample_posted_db (tx_id t)) < 2 ^ 64"
  by code_simp

theorem trial_balance_witness:
  "debits (filter (\<lambda>e. en_tx e \<in> {''u111''}) (db_entries sample_posted_db)) =
     credits (filter (\<lambda>e. en_tx e \<in> {''u111''}) (db_entries sample_posted_db)) \<and>
   debits (filter (\<lambda>e. en_tx e \<in> {''u111''}) (db_entries sample_posted_db)) = 1250"
  by (rule conjI [OF trial_balance [OF sample_fresh sample_path sample_small]]) code_simp

text \<open>
  The bound is needed: the code's check compares the integer sums modulo \<open>2 ^ 64\<close> only.
\<close>

lemma word_sum_int: "(\<Sum>x\<leftarrow>xs. f x) = (word_of_int (\<Sum>x\<leftarrow>xs. i64 (f x)) :: int64)"
  by (induction xs) simp_all

theorem validateBalanced_mod:
  "validateBalanced es = None \<longleftrightarrow>
     (\<Sum>e\<leftarrow>es. i64 (dl_debit e)) mod 2 ^ 64 = (\<Sum>e\<leftarrow>es. i64 (dl_credit e)) mod 2 ^ 64 \<and>
     (\<Sum>e\<leftarrow>es. i64 (dl_debit e)) mod 2 ^ 64 \<noteq> 0"
proof -
  have "word_of_int x = (word_of_int y :: int64) \<longleftrightarrow> x mod 2 ^ 64 = y mod 2 ^ 64" for x y :: int
    by (simp add: word_of_int_eq_iff take_bit_eq_mod)
  from this [of _ 0] this show ?thesis unfolding validateBalanced_None sum64_eq_sum_list word_sum_int by simp
qed

definition sample_hc :: hc where
  "sample_hc = \<lparr>hc_transactions = Some NewTransactionStore, hc_statement = None, hc_entities = True, hc_drafts = True,
     hc_accounts = True, hc_receipts = True, hc_import_rows = True, hc_audit = True, hc_vendors = True,
     hc_search = \<lparr>se_enabled = False, se_vendors = (\<lambda>_. Inr [])\<rparr>, hc_user = ''U'', hc_tenant = ''T''\<rparr>"

text \<open>The exact effect of a posted transaction on the ledger, in terms of the request.\<close>

definition appended :: "db \<Rightarrow> db \<Rightarrow> transaction \<Rightarrow> entry list \<Rightarrow> string \<Rightarrow> string option \<Rightarrow> draft_line list \<Rightarrow> bool" where
  "appended s s' tr out ent rc es \<longleftrightarrow>
     tr_entity tr = ent \<and> map line_of out = map dline_of es \<and>
     sum64 en_debit out = sum64 en_credit out \<and> sum64 en_debit out \<noteq> 0 \<and>
     (\<forall>e\<in>set out. en_tx e = tr_id tr \<and> account_entity_of s (en_account e) = Some ent) \<and>
     (\<exists>t. transactionFromRow t = tr \<and> tx_receipt t = rc \<and> db_txs s' = db_txs s @ [t]) \<and>
     db_entries s' = db_entries s @ out \<and> db_receipts s' = attach_all (db_now s) rc (db_receipts s)"

lemma posted_appended:
  assumes "posted s s1 (new_tx i ent d memo rc now) es out" "ledger_view s' = ledger_view s1"
    "tr = transactionFromRow (new_tx i ent d memo rc now)"
  shows "appended s s' tr out ent rc es"
proof -
  let ?t = "new_tx i ent d memo rc now"
  have st: "same_tables (post_state s ?t out) s1" and ok: "post_ok s ?t es out" and v: "validateBalanced es = None"
    using assms(1) by (auto simp: posted_def)
  have tabs: "db_txs s' = db_txs s @ [?t]" "db_entries s' = db_entries s @ out"
    "db_receipts s' = attach_all (db_now s) rc (db_receipts s)"
    using assms(2) same_tables_fields(6-8) [OF st] by (auto simp: ledger_view_def post_state_def new_tx_def)
  have lines: "map line_of out = map dline_of es" using ok by (simp add: post_ok_def)
  have acc: "account_entity_of s (en_account e) = Some ent" if "e \<in> set out" for e
    using post_lines_accounts [OF lines, of "\<lambda>a. account_entity_of s a = Some ent" e] ok that
    by (simp add: post_ok_def new_tx_def)
  have "en_tx e = i" if "e \<in> set out" for e using ok that by (simp add: post_ok_def new_tx_def)
  moreover have "sum64 en_debit out = sum64 en_credit out \<and> sum64 en_debit out \<noteq> 0"
    using v sum64_lines [OF lines] by (metis validateBalanced_None)
  moreover have "\<exists>t. transactionFromRow t = tr \<and> tx_receipt t = rc \<and> db_txs s' = db_txs s @ [t]"
    using tabs assms(3) by (intro exI [of _ ?t]) (simp add: new_tx_def)
  ultimately show ?thesis
    using tabs lines acc assms(3) unfolding appended_def by (auto simp: transactionFromRow_def new_tx_def)
qed

text \<open>
  C23. A \<open>201\<close> of \<open>POST /transactions\<close> means that exactly one transaction with the request's lines was
  appended: balanced in machine arithmetic, non-zero, every account of the request's entity, and the receipt of
  the request (if any) attached; nothing else in the ledger changed.
\<close>

theorem transaction_create_201:
  assumes "hc_transactions h = Some NewTransactionStore" "handleTransactionCreate h (Some req) s = ((201, b), s')"
  shows "\<exists>es tr out. check_lines (cq_lines req) = Inr es \<and> b = BTransaction tr out \<and>
    appended s s' tr out (cq_entity req) (nullString (cq_receipt req)) es"
proof -
  obtain d es tr out s1 where 1: "b = BTransaction tr out" "check_lines (cq_lines req) = Inr es"
    "posted s s1 (new_tx (tr_id tr) (cq_entity req) d (cq_memo req) (nullString (cq_receipt req)) (db_now s)) es out"
    "tr = transactionFromRow (new_tx (tr_id tr) (cq_entity req) d (cq_memo req) (nullString (cq_receipt req)) (db_now s))"
    "ledger_view s' = ledger_view s1"
    using pg.create_201 [OF assms] by blast
  show ?thesis using posted_appended [OF 1(3,5,4)] 1(1,2) by blast
qed

definition sample_req :: create_req where
  "sample_req = \<lparr>cq_entity = ''E'', cq_date = ''2024-03-31'', cq_memo = ''Lunch'', cq_receipt = ''u11'',
     cq_lines = [\<lparr>lq_account = ''u1'', lq_debit = 1250, lq_credit = 0\<rparr>, \<lparr>lq_account = ''u'', lq_debit = 0, lq_credit = 1250\<rparr>]\<rparr>"

theorem transaction_create_201_witness:
  "\<exists>es tr out b s'. handleTransactionCreate sample_hc (Some sample_req) sample_ready_db = ((201, b), s') \<and>
     b = BTransaction tr out \<and> appended sample_ready_db s' tr out ''E'' (Some ''u11'') es"
proof -
  obtain st b s' where r: "handleTransactionCreate sample_hc (Some sample_req) sample_ready_db = ((st, b), s')"
    by (metis surj_pair)
  have "fst (fst (handleTransactionCreate sample_hc (Some sample_req) sample_ready_db)) = 201" by code_simp
  then have st: "st = 201" using r by simp
  have h: "hc_transactions sample_hc = Some NewTransactionStore" by (simp add: sample_hc_def)
  show ?thesis
    using transaction_create_201 [OF h r [unfolded st]] r st by (fastforce simp: sample_req_def nullString_def)
qed

text \<open>
  Any other answer of \<open>POST /transactions\<close> leaves transactions, entries and receipts as they were, as long
  as the database itself does not fail during the request.
\<close>

theorem transaction_create_error:
  assumes "hc_transactions h = Some NewTransactionStore" "handleTransactionCreate h req s = ((st, b), s')" "st \<noteq> 201"
    "\<forall>n. \<not> db_fail s n"
  shows "db_txs s' = db_txs s \<and> db_entries s' = db_entries s \<and> db_receipts s' = db_receipts s"
  using pg.create_not_201 [OF assms] by (simp add: ledger_view_def)

theorem transaction_create_error_witness:
  "\<exists>b s'. handleTransactionCreate sample_hc (Some sample_req) sample_posted_db = ((409, b), s') \<and>
     db_txs s' = db_txs sample_posted_db"
proof -
  obtain st b s' where r: "handleTransactionCreate sample_hc (Some sample_req) sample_posted_db = ((st, b), s')"
    by (metis surj_pair)
  have "fst (fst (handleTransactionCreate sample_hc (Some sample_req) sample_posted_db)) = 409" by code_simp
  then have st: "st = 409" using r by simp
  have "db_fail sample_posted_db n = False" for n
    by code_simp
  then show ?thesis
    using transaction_create_error [OF _ r] r st by (auto simp: sample_hc_def)
qed

section \<open>The transaction of an import row\<close>

lemma MarkPosted_Inr:
  assumes "ImportRowStore_MarkPosted i t s = (Inr u, s')"
  shows "\<exists>r\<in>set (db_import_rows s). ir_id r = i \<and> ir_tx r = None"
    "s' = s\<lparr>db_tick := db_tick s + 1, db_import_rows := map (\<lambda>r. if ir_id r = i \<and> ir_tx r = None
       then r\<lparr>ir_status := ''posted'', ir_tx := Some t\<rparr> else r) (db_import_rows s)\<rparr>"
  using assms by (auto simp: ImportRowStore_MarkPosted_def dbind_Inr stmt_Inr dret_def dthrow_def Let_def filter_empty_conv
      split: if_splits)

context posting_store
begin

lemma postImportRow_Inr:
  assumes "postImportRow h ts row cash s = (Inr tr, s')"
  shows "\<exists>out s1. importRowEntries row cash \<noteq> [] \<and>
    posted s s1 (new_tx (tr_id tr) (im_entity row) (im_date row) (importRowMemo row) None (db_now s)) (importRowEntries row cash) out \<and>
    tr = transactionFromRow (new_tx (tr_id tr) (im_entity row) (im_date row) (importRowMemo row) None (db_now s)) \<and>
    (\<exists>r\<in>set (db_import_rows s1). ir_id r = im_id row \<and> ir_tx r = None) \<and>
    ledger_view s' = (db_txs s1, db_entries s1, db_receipts s1, map (\<lambda>r. if ir_id r = im_id row \<and> ir_tx r = None
       then r\<lparr>ir_status := ''posted'', ir_tx := Some (tr_id tr)\<rparr> else r) (db_import_rows s1))"
proof -
  have e: "importRowEntries row cash \<noteq> []" using assms by (auto simp: postImportRow_def dthrow_def split: if_splits)
  obtain out s1 s2 u s3 v where c: "ts_create ts (im_entity row) (im_date row) (importRowMemo row) [] (importRowEntries row cash) s = (Inr (tr, out), s1)"
    and m: "ImportRowStore_MarkPosted (im_id row) (tr_id tr) s1 = (Inr u, s2)"
    and x: "indexTransaction h tr out s2 = (Inr v, s3)" and t: "s' = s3"
    using assms e by (auto simp: postImportRow_def dbind_Inr dret_def)
  have "ledger_view s' = ledger_view s2" using view_index [of "ledger_view s2" h tr out] x t by (auto simp: keeps_def)
  then have "ledger_view s' = (db_txs s1, db_entries s1, db_receipts s1, map (\<lambda>r. if ir_id r = im_id row \<and> ir_tx r = None
       then r\<lparr>ir_status := ''posted'', ir_tx := Some (tr_id tr)\<rparr> else r) (db_import_rows s1))"
    by (simp add: MarkPosted_Inr(2) [OF m] ledger_view_def)
  then show ?thesis using create_posts [OF c] MarkPosted_Inr(1) [OF m] e by (auto simp: nullString_def)
qed

text \<open>A 201 of the handler comes from its last answer.\<close>

lemma import_201:
  assumes "hc_transactions h = Some ts" "handleImportRowPost h importID (Some n) s = ((201, b), s')"
  shows "\<exists>row u cash v tr w row' x. ImportRowStore_GetByReceiptAndIndex importID n s = (Inr row, u) \<and> im_tx row = [] \<and>
    im_status row \<noteq> ''posted'' \<and> importReceiptOffsetAccountID h (im_receipt row) (im_entity row) u = (Inr cash, v) \<and>
    postImportRow h ts row cash v = (Inr tr, w) \<and> ImportRowStore_GetByReceiptAndIndex importID n w = (Inr row', x) \<and>
    b = BImportPost tr row' \<and> ledger_view s' = ledger_view x"
proof -
  have n: "parseRowIndexParam (Some n) = Some n"
    using assms by (auto simp: handleImportRowPost_def parseRowIndexParam_def respondError_def respond_eq split: if_splits)
  obtain row u where 1: "ImportRowStore_GetByReceiptAndIndex importID n s = (Inr row, u)" "im_tx row = []" "im_status row \<noteq> ''posted''"
    and r1: "hcall (importReceiptOffsetAccountID h (im_receipt row) (im_entity row))
                    (\<lambda>_. respondError 400 ''DEFAULT_CASH_ACCOUNT_REQUIRED'')
                    (\<lambda>offset. hcall (postImportRow h ts row offset)
                      (\<lambda>_. respondError 400 ''INVALID_TRANSACTION'')
                      (\<lambda>tr. hcall (ImportRowStore_GetByReceiptAndIndex importID n)
                        (\<lambda>_. respondError 500 ''INTERNAL_ERROR'')
                        (\<lambda>row. hthen (auditEvent h (im_entity row) (hc_user h) ''import_row'' (im_id row) ''import_row.posted''
                                 [(''transaction_id'', tr_id tr), (''receipt_id'', im_receipt row),
                                  (''row_index'', int_str (im_index row))])
                          (respond 201 (BImportPost tr row))))) u = ((201, b), s')"
    using assms n by (cases "ImportRowStore_GetByReceiptAndIndex importID n s")
      (auto simp: handleImportRowPost_def respondError_def respond_eq hcall_def split: if_splits sum.splits)
  obtain cash v where 2: "importReceiptOffsetAccountID h (im_receipt row) (im_entity row) u = (Inr cash, v)"
    and r2: "hcall (postImportRow h ts row cash)
                      (\<lambda>_. respondError 400 ''INVALID_TRANSACTION'')
                      (\<lambda>tr. hcall (ImportRowStore_GetByReceiptAndIndex importID n)
                        (\<lambda>_. respondError 500 ''INTERNAL_ERROR'')
                        (\<lambda>row. hthen (auditEvent h (im_entity row) (hc_user h) ''import_row'' (im_id row) ''import_row.posted''
                                 [(''transaction_id'', tr_id tr), (''receipt_id'', im_receipt row),
                                  (''row_index'', int_str (im_index row))])
                          (respond 201 (BImportPost tr row)))) v = ((201, b), s')"
    using r1 by (cases "importReceiptOffsetAccountID h (im_receipt row) (im_entity row) u")
      (auto simp: respondError_def respond_eq hcall_def [of "importReceiptOffsetAccountID h (im_receipt row) (im_entity row)"] split: sum.splits)
  obtain tr w where 3: "postImportRow h ts row cash v = (Inr tr, w)"
    and r3: "hcall (ImportRowStore_GetByReceiptAndIndex importID n)
                        (\<lambda>_. respondError 500 ''INTERNAL_ERROR'')
                        (\<lambda>row. hthen (auditEvent h (im_entity row) (hc_user h) ''import_row'' (im_id row) ''import_row.posted''
                                 [(''transaction_id'', tr_id tr), (''receipt_id'', im_receipt row),
                                  (''row_index'', int_str (im_index row))])
                          (respond 201 (BImportPost tr row))) w = ((201, b), s')"
    using r2 by (cases "postImportRow h ts row cash v")
      (auto simp: respondError_def respond_eq hcall_def [of "postImportRow h ts row cash"] split: sum.splits)
  obtain row' x where 4: "ImportRowStore_GetByReceiptAndIndex importID n w = (Inr row', x)"
    and r4: "hthen (auditEvent h (im_entity row') (hc_user h) ''import_row'' (im_id row') ''import_row.posted''
                                 [(''transaction_id'', tr_id tr), (''receipt_id'', im_receipt row'),
                                  (''row_index'', int_str (im_index row'))])
                          (respond 201 (BImportPost tr row')) x = ((201, b), s')"
    using r3 by (cases "ImportRowStore_GetByReceiptAndIndex importID n w")
      (auto simp: respondError_def respond_eq hcall_def split: sum.splits)
  have "b = BImportPost tr row' \<and> ledger_view s' = ledger_view x"
    using hthen_view [OF view_audit r4] by (auto simp: respond_eq)
  then show ?thesis using 1 2 3 4 by blast
qed

end

definition posted_row :: "string \<Rightarrow> import_row \<Rightarrow> import_row" where
  "posted_row t r = r\<lparr>ir_status := ''posted'', ir_tx := Some t\<rparr>"

lemma appended_tables:
  assumes "appended u s' tr out ent rc es" "same_tables s u"
  shows "appended s s' tr out ent rc es"
  using assms(1) unfolding appended_def account_entity_of_def same_tables_fields [OF assms(2)] .

lemma GetByReceiptAndIndex_Inr:
  assumes "ImportRowStore_GetByReceiptAndIndex i n s = (Inr row, s')"
  obtains r where "find (\<lambda>r. ir_receipt r = i \<and> ir_index r = n) (db_import_rows s) = Some r" "row = importRowFromRow r"
    "same_tables s s'"
  using assms by (auto simp: ImportRowStore_GetByReceiptAndIndex_def dbind_Inr get_row_Inr dret_def)

lemma find_map_hit:
  "(\<And>x. P (f x) = P x) \<Longrightarrow> find P (map f xs) = map_option f (find P xs)"
  by (induction xs) auto

text \<open>The one row that a mark changes, when the identifiers are those of a table.\<close>

lemma mark_row:
  assumes "distinct (map ir_id rs)" "r \<in> set rs" "\<exists>x\<in>set rs. ir_id x = ir_id r \<and> ir_tx x = None"
  shows "ir_tx r = None \<and> map (\<lambda>x. if ir_id x = ir_id r \<and> ir_tx x = None then x\<lparr>ir_status := ''posted'', ir_tx := Some t\<rparr> else x) rs =
    map (\<lambda>x. if x = r then posted_row t r else x) rs"
proof -
  have "x = r" if "x \<in> set rs" "ir_id x = ir_id r" for x
    using assms(1,2) that by (simp add: distinct_map inj_on_def)
  moreover from this have "ir_tx r = None" using assms(3) by blast
  ultimately show ?thesis by (auto simp: posted_row_def)
qed

lemma importRow_simps [simp]:
  "im_id (importRowFromRow r) = ir_id r" "im_receipt (importRowFromRow r) = ir_receipt r" "im_entity (importRowFromRow r) = ir_entity r"
  "im_date (importRowFromRow r) = ir_date r" "im_amount (importRowFromRow r) = ir_amount r"
  "im_direction (importRowFromRow r) = ir_direction r" "im_account (importRowFromRow r) = strOf (ir_account r)"
  "im_status (importRowFromRow r) = ir_status r" "im_tx (importRowFromRow r) = strOf (ir_tx r)"
  by (simp_all add: importRowFromRow_def)

lemma importRowEntries_lines:
  assumes "importRowEntries row cash \<noteq> []"
  shows "0 < i64 (im_amount row) \<and> im_account row \<noteq> [] \<and> cash \<noteq> [] \<and> map dline_of (importRowEntries row cash) =
    (if im_direction row = ''inflow'' then [(cash, im_amount row, 0), (im_account row, 0, im_amount row)]
     else [(im_account row, im_amount row, 0), (cash, 0, im_amount row)])"
  using assms by (auto simp: importRowEntries_def Let_def dline_of_def split: if_splits)

text \<open>
  C24. A \<open>201\<close> of \<open>POST /imports/:id/rows/:index/post\<close> means that the row existed, was not posted and had no transaction
  yet, an account and a positive amount; that exactly one transaction was appended, with the row's entity, date and memo,
  balanced in machine arithmetic, with two lines: for an inflow the cash account is debited and the row's account
  credited with the amount, for an outflow the other way round; that the cash account is the one that the statement of
  the import or the entity's default gives; and that of the import rows exactly this one changed, to \<open>posted\<close> with the
  identifier of that transaction, which is also how it is answered.  (The identifiers of the import rows are distinct, as
  the table's primary key demands; a configured statement lookup only reads.)
\<close>

theorem import_row_post_201:
  assumes "wired h" "hc_transactions h = Some NewTransactionStore" "distinct (map ir_id (db_import_rows s))"
    "handleImportRowPost h importID (Some n) s = ((201, b), s')"
  shows "\<exists>r a cash tr out es u v. r \<in> set (db_import_rows s) \<and> ir_receipt r = importID \<and> ir_index r = n \<and>
    ir_tx r = None \<and> ir_status r \<noteq> ''posted'' \<and> ir_account r = Some a \<and> a \<noteq> [] \<and> 0 < i64 (ir_amount r) \<and>
    same_tables s u \<and> importReceiptOffsetAccountID h importID (ir_entity r) u = (Inr cash, v) \<and> cash \<noteq> [] \<and>
    appended s s' tr out (ir_entity r) None es \<and> tr_date tr = ir_date r \<and>
    tr_memo tr = importRowMemo (importRowFromRow r) \<and>
    map dline_of es = (if ir_direction r = ''inflow'' then [(cash, ir_amount r, 0), (a, 0, ir_amount r)]
                       else [(a, ir_amount r, 0), (cash, 0, ir_amount r)]) \<and>
    db_import_rows s' = map (\<lambda>x. if x = r then posted_row (tr_id tr) r else x) (db_import_rows s) \<and>
    b = BImportPost tr (importRowFromRow (posted_row (tr_id tr) r))"
proof -
  obtain row u cash v tr w row' x where g: "ImportRowStore_GetByReceiptAndIndex importID n s = (Inr row, u)"
    and free: "im_tx row = []" "im_status row \<noteq> ''posted''"
    and o: "importReceiptOffsetAccountID h (im_receipt row) (im_entity row) u = (Inr cash, v)"
    and p: "postImportRow h NewTransactionStore row cash v = (Inr tr, w)"
    and g': "ImportRowStore_GetByReceiptAndIndex importID n w = (Inr row', x)"
    and b: "b = BImportPost tr row'" "ledger_view s' = ledger_view x"
    using pg.import_201 [OF assms(2,4)] by blast
  obtain r where r: "find (\<lambda>r. ir_receipt r = importID \<and> ir_index r = n) (db_import_rows s) = Some r" "row = importRowFromRow r"
    and su: "same_tables s u"
    by (rule GetByReceiptAndIndex_Inr [OF g])
  have m: "r \<in> set (db_import_rows s)" "ir_receipt r = importID" "ir_index r = n" using r(1) by (auto simp: find_Some_iff)
  have sv: "same_tables s v"
    using su readsD [OF reads.keep_offset [OF assms(1)] o] by (rule same_tables_trans)
  let ?t = "new_tx (tr_id tr) (im_entity row) (im_date row) (importRowMemo row) None (db_now v)"
  obtain out s1 where e: "importRowEntries row cash \<noteq> []" and post: "posted v s1 ?t (importRowEntries row cash) out"
    and tr: "tr = transactionFromRow ?t" and hit: "\<exists>x\<in>set (db_import_rows s1). ir_id x = im_id row \<and> ir_tx x = None"
    and lv: "ledger_view w = (db_txs s1, db_entries s1, db_receipts s1, map (\<lambda>x. if ir_id x = im_id row \<and> ir_tx x = None
       then x\<lparr>ir_status := ''posted'', ir_tx := Some (tr_id tr)\<rparr> else x) (db_import_rows s1))"
    using pg.postImportRow_Inr [OF p] by blast
  have rows: "db_import_rows s1 = db_import_rows s"
    using post same_tables_fields(11) [OF sv] by (auto simp: posted_def post_state_def dest!: same_tables_fields(11))
  have mark: "ir_tx r = None" "db_import_rows w = map (\<lambda>x. if x = r then posted_row (tr_id tr) r else x) (db_import_rows s)"
    using mark_row [OF assms(3) m(1), of "tr_id tr"] hit lv by (simp_all add: rows r(2) ledger_view_def)
  obtain r' where r': "find (\<lambda>r. ir_receipt r = importID \<and> ir_index r = n) (db_import_rows w) = Some r'" "row' = importRowFromRow r'"
    and sx: "same_tables w x"
    by (rule GetByReceiptAndIndex_Inr [OF g'])
  have "r' = posted_row (tr_id tr) r"
    using r' r unfolding mark(2) by (subst (asm) find_map_hit) (auto simp: posted_row_def)
  moreover have s': "ledger_view s' = ledger_view w" using b(2) ledger_view_tables [OF sx] by simp
  moreover have "appended s s' tr out (im_entity row) None (importRowEntries row cash)"
  proof (rule appended_tables [OF _ sv])
    have "appended v s1 tr out (im_entity row) None (importRowEntries row cash)" by (rule posted_appended [OF post refl tr])
    then show "appended v s' tr out (im_entity row) None (importRowEntries row cash)"
      using s' lv unfolding appended_def ledger_view_def prod.inject by metis
  qed
  moreover have "db_import_rows s' = db_import_rows w" using s' by (simp add: ledger_view_def)
  moreover have "tr_date tr = ir_date r" "tr_memo tr = importRowMemo (importRowFromRow r)"
    using arg_cong [OF tr, of tr_date] arg_cong [OF tr, of tr_memo] r(2)
    by (simp_all add: transactionFromRow_def new_tx_def nullString_def strOf_def)
  moreover obtain a where "ir_account r = Some a" "a \<noteq> []"
    using importRowEntries_lines [OF e] r(2) by (cases "ir_account r") (auto simp: strOf_def)
  ultimately show ?thesis
    using importRowEntries_lines [OF e] m mark free su o b(1) r'(2)
    by (intro exI [of _ r] exI [of _ a] exI [of _ cash] exI [of _ tr] exI [of _ out] exI [of _ "importRowEntries row cash"]
        exI [of _ u] exI [of _ v]) (simp add: r(2) strOf_def)
qed

section \<open>A receipt is posted once, an import row perhaps twice\<close>

definition receipt_used :: "db \<Rightarrow> string \<Rightarrow> bool" where
  "receipt_used s rid \<longleftrightarrow> (\<exists>t\<in>set (db_txs s). tx_receipt t = Some rid)"

lemma receipt_used_mono: "receipt_used s rid \<Longrightarrow> books_steps s s' \<Longrightarrow> receipt_used s' rid"
  using books_steps_extends by (fastforce simp: receipt_used_def extends_def)

lemma receipt_used_attached:
  assumes "books_ok s" "receipt_used s rid"
  obtains c where "find (\<lambda>r. rc_id r = rid) (db_receipts s) = Some c" "rc_attached c \<noteq> None"
proof -
  obtain t where t: "t \<in> set (db_txs s)" "tx_receipt t = Some rid" using assms(2) by (auto simp: receipt_used_def)
  obtain c where c: "c \<in> set (db_receipts s)" "rc_id c = rid" "rc_attached c \<noteq> None"
    by (rule books_ok_receipt [OF assms(1) t])
  have inj: "inj_on rc_id (set (db_receipts s))" using assms(1) by (simp add: books_ok_def keys_ok_def distinct_map)
  obtain c' where c': "find (\<lambda>r. rc_id r = rid) (db_receipts s) = Some c'"
    using c(1,2) by (cases "find (\<lambda>r. rc_id r = rid) (db_receipts s)") (auto simp: find_None_iff)
  then have "c' = c" using find_Some_mem [OF c'] inj_onD [OF inj _ _ c(1)] c(2) by simp
  then show ?thesis using that c' c(3) by blast
qed

lemma used_post_fails:
  assumes "books_ok s" "receipt_used s rid"
  shows "\<exists>e s'. post_op ent d memo (Some rid) es s = (Inl e, s') \<and> same_tables s s'"
proof -
  obtain c where "find (\<lambda>r. rc_id r = rid) (db_receipts s) = Some c" "rc_attached c \<noteq> None"
    by (rule receipt_used_attached [OF assms])
  then show ?thesis by (rule post_op_attached)
qed

lemma receipt_used_same_tables: "same_tables s s' \<Longrightarrow> receipt_used s' rid = receipt_used s rid"
  by (simp add: receipt_used_def same_tables_fields)

lemma txs_view_used: "ledger_view s' = ledger_view s \<Longrightarrow> receipt_used s' rid = receipt_used s rid"
  by (simp add: receipt_used_def ledger_view_def)

lemma posted_used: "posted s s' (new_tx i ent d memo (Some rid) now) es rows \<Longrightarrow> receipt_used s' rid"
  by (auto simp: posted_def receipt_used_def post_state_def new_tx_def dest!: same_tables_fields(7))

text \<open>
  C8. A receipt is posted at most once: after a draft post answered \<open>201\<close>, whatever other requests and
  workers do in between, no later draft post or transaction with the same receipt answers \<open>201\<close>, and it leaves
  the ledger untouched.
\<close>

theorem receipt_posted_once:
  assumes "fresh_db s0" "books_steps s0 s" "wired h" "hc_transactions h = Some NewTransactionStore"
    "handleDraftPost h rid s = ((201, b), s1)" "books_steps s1 s2"
    "handleDraftPost h rid s2 = ((st, b'), s')" "rid \<noteq> []" "cq_receipt req = rid"
    "handleTransactionCreate h (Some req) s2 = ((st', b''), s'')"
  shows "st \<noteq> 201 \<and> db_txs s' = db_txs s2 \<and> db_entries s' = db_entries s2 \<and>
    st' \<noteq> 201 \<and> db_txs s'' = db_txs s2 \<and> db_entries s'' = db_entries s2"
proof -
  have h: "books_steps s (snd (handleDraftPost h rid s))" using path.handlers_keep(4) [OF assms(3)] by (simp add: hkeeps_def)
  obtain draft :: draft_tx and u and tr :: transaction and out v where 1: "posted u v (new_tx (tr_id tr) (dr_entity draft) (dr_date draft) (dr_memo draft)
      (Some rid) (db_now u)) (dr_entries draft) out" "ledger_view s1 = ledger_view v"
    using pg.draft_201 [OF assms(4,5)] by blast
  have used: "receipt_used s2 rid"
    using posted_used [OF 1(1)] txs_view_used [OF 1(2)] receipt_used_mono [OF _ assms(6)] by blast
  have ok: "books_ok s2"
    using assms(1,2,5,6) h by (metis books_steps_ok fresh_books_ok snd_conv)
  have keep: "same_tables u v \<and> isl r" if "same_tables s2 u" "post_op ent d m (Some rid) es u = (r, v)" for u v r ent d m es
    using used_post_fails [of u rid ent d m es] that ok used books_ok_same_tables [OF that(1)]
      receipt_used_same_tables [OF that(1)] by auto
  have no: "\<not> posted u v (new_tx i ent d m (Some rid) now) es rows" if su: "same_tables s2 u" for u v i ent d m now es rows
  proof
    assume "posted u v (new_tx i ent d m (Some rid) now) es rows"
    moreover obtain c where "find (\<lambda>r. rc_id r = rid) (db_receipts u) = Some c" "rc_attached c \<noteq> None"
      using receipt_used_attached [of u rid] ok used books_ok_same_tables [OF su] receipt_used_same_tables [OF su] by metis
    ultimately show False by (auto simp: posted_def post_ok_def new_tx_def)
  qed
  have "st \<noteq> 201"
    using pg.draft_201 [OF assms(4), of rid s2 b' s'] assms(7) no GetByReceiptID_tables by blast
  moreover have "st' \<noteq> 201"
    using pg.create_201 [OF assms(4), of req s2 b'' s''] assms(8-10) no [of s2] by (auto simp: nullString_def)
  moreover have "ledger_view s' = ledger_view s2"
    by (rule pg.draft_other [OF assms(4,7) \<open>st \<noteq> 201\<close>])
      (use keep in \<open>force simp: NewTransactionStore_def CreateFromDraft_eq\<close>)
  moreover have "ledger_view s'' = ledger_view s2"
  proof (rule pg.create_other [OF assms(4,10) \<open>st' \<noteq> 201\<close>])
    fix rq d es e u
    assume "Some req = Some rq" "ts_create NewTransactionStore (cq_entity rq) d (cq_memo rq) (cq_receipt rq) es s2 = (Inl e, u)"
    then show "same_tables s2 u"
      using keep [of s2] assms(8,9) by (auto simp: NewTransactionStore_def Create_eq nullString_def)
  qed
  ultimately show ?thesis by (simp add: ledger_view_def)
qed

definition sample_draft_db :: db where
  "sample_draft_db = run_calls [CDraftEnsure ''u11'',
     CDraftUpdate ''u11'' sample_date ''Lunch'' [sample_line ''u1'' 1250 0, sample_line ''u'' 0 1250]] sample_ready_db"

lemma sample_draft_path: "books_steps sample_entity_db sample_draft_db"
  using sample_steps(1) run_calls_steps unfolding sample_draft_db_def by (rule rtranclp_trans)

theorem receipt_posted_once_witness:
  "\<exists>b s1 st b' s'. handleDraftPost sample_hc ''u11'' sample_draft_db = ((201, b), s1) \<and>
     handleDraftPost sample_hc ''u11'' s1 = ((st, b'), s') \<and> st \<noteq> 201 \<and> db_txs s' = db_txs s1"
proof -
  obtain st0 b s1 where 1: "handleDraftPost sample_hc ''u11'' sample_draft_db = ((st0, b), s1)" by (metis surj_pair)
  obtain st b' s' where 2: "handleDraftPost sample_hc ''u11'' s1 = ((st, b'), s')" by (metis surj_pair)
  obtain st' b'' s'' where 3: "handleTransactionCreate sample_hc (Some sample_req) s1 = ((st', b''), s'')" by (metis surj_pair)
  have "fst (fst (handleDraftPost sample_hc ''u11'' sample_draft_db)) = 201" by code_simp
  then have st0: "st0 = 201" using 1 by simp
  have "wired sample_hc" "hc_transactions sample_hc = Some NewTransactionStore" by (simp_all add: wired_def sample_hc_def)
  from receipt_posted_once [OF sample_fresh sample_draft_path this 1 [unfolded st0] rtranclp.rtrancl_refl 2 _ _ 3]
  show ?thesis using 1 2 st0 by (auto simp: sample_req_def)
qed

definition sample_import_row :: import_model where
  "sample_import_row = \<lparr>im_id = [], im_receipt = ''u11'', im_entity = ''E'', im_index = 1, im_date = sample_date,
     im_vendor = ''Cafe'', im_memo = [], im_amount = 1250, im_direction = ''outflow'', im_account = ''u1'',
     im_fingerprint = ''f'', im_status = [], im_tx = [], im_raw = []\<rparr>"

definition sample_import_db :: db where
  "sample_import_db = run_calls [CImportReplace ''u11'' ''E'' [sample_import_row]] sample_ready_db"

text \<open>The instance: a cafe bill, an outflow of 12.50 from the account Cash.\<close>

theorem import_row_post_201_witness:
  "\<exists>tr out es b s'. handleImportRowPost sample_hc ''u11'' (Some 1) sample_import_db = ((201, b), s') \<and>
     appended sample_import_db s' tr out ''E'' None es \<and> map dline_of es = [(''u1'', 1250, 0), (''u'', 0, 1250)] \<and>
     map ir_tx (db_import_rows s') = [Some (tr_id tr)]"
proof -
  obtain st b s' where run: "handleImportRowPost sample_hc ''u11'' (Some 1) sample_import_db = ((st, b), s')" by (metis surj_pair)
  have "fst (fst (handleImportRowPost sample_hc ''u11'' (Some 1) sample_import_db)) = 201" by code_simp
  then have st: "st = 201" using run by simp
  have w: "wired sample_hc" "hc_transactions sample_hc = Some NewTransactionStore" by (simp_all add: wired_def sample_hc_def)
  have row: "map (\<lambda>r. (ir_id r, ir_entity r, ir_account r, ir_amount r, ir_direction r)) (db_import_rows sample_import_db) =
      [(''u111'', ''E'', Some ''u1'', 1250, ''outflow'')]" by code_simp
  then have d: "distinct (map ir_id (db_import_rows sample_import_db))" by auto
  have "map line_of (db_entries (snd (handleImportRowPost sample_hc ''u11'' (Some 1) sample_import_db))) =
      [(''u1'', 1250, 0), (''u'', 0, 1250)]" by code_simp
  then have lines: "map line_of (db_entries s') = [(''u1'', 1250, 0), (''u'', 0, 1250)]" using run by simp
  have none: "db_entries sample_import_db = []" by code_simp
  from import_row_post_201 [OF w d run [unfolded st]] obtain r a cash tr out es u v
    where x: "r \<in> set (db_import_rows sample_import_db)" "appended sample_import_db s' tr out (ir_entity r) None es"
      "db_import_rows s' = map (\<lambda>x. if x = r then posted_row (tr_id tr) r else x) (db_import_rows sample_import_db)"
    by blast
  have "map dline_of es = [(''u1'', 1250, 0), (''u'', 0, 1250)]" using x(2) lines none by (simp add: appended_def)
  moreover have "ir_entity r = ''E''" "map ir_tx (db_import_rows s') = [Some (tr_id tr)]"
    using row x(1,3) by (auto simp: posted_row_def)
  ultimately show ?thesis
    using x(2) run st by (intro exI [of _ tr] exI [of _ out] exI [of _ es] exI [of _ b] exI [of _ s']) simp
qed

text \<open>
  C27. Posting an import row is not atomic: the handler reads the row, posts the transaction and only then marks
  the row.  There is a reachable state in which a request that read the row before another request's \<open>201\<close>
  posts it again afterwards: two transactions for one bank line.  Marking the row a second time fails, so the
  late request answers with an error, but its transaction has been committed and stays in the ledger.
\<close>

theorem import_row_double_post:
  "\<exists>s s0 row cash s1 s2 s3 b e. books_steps sample_entity_db s \<and>
     ImportRowStore_GetByReceiptAndIndex ''u11'' 1 s = (Inr row, s0) \<and> im_tx row = [] \<and> im_status row \<noteq> ''posted'' \<and>
     importReceiptOffsetAccountID sample_hc (im_receipt row) (im_entity row) s0 = (Inr cash, s1) \<and>
     handleImportRowPost sample_hc ''u11'' (Some 1) s1 = ((201, b), s2) \<and>
     postImportRow sample_hc NewTransactionStore row cash s2 = (Inl e, s3) \<and>
     length (db_txs s3) = length (db_txs s) + 2"
proof -
  define s where "s = sample_import_db"
  have p: "books_steps sample_entity_db s"
    using sample_steps(1) run_calls_steps unfolding s_def sample_import_db_def by (rule rtranclp_trans)
  define g where "g = ImportRowStore_GetByReceiptAndIndex ''u11'' 1 s"
  define row where "row = projr (fst g)"
  define o1 where "o1 = importReceiptOffsetAccountID sample_hc (im_receipt row) (im_entity row) (snd g)"
  define r where "r = handleImportRowPost sample_hc ''u11'' (Some 1) (snd o1)"
  define q where "q = postImportRow sample_hc NewTransactionStore row (projr (fst o1)) (snd r)"
  note d = q_def r_def o1_def row_def g_def s_def
  have "\<not> isl (fst g) \<and> im_tx row = [] \<and> im_status row \<noteq> ''posted'' \<and> \<not> isl (fst o1) \<and> fst (fst r) = 201 \<and>
      isl (fst q) \<and> length (db_txs (snd q)) = length (db_txs s) + 2"
    unfolding d by code_simp
  then have "g = (Inr row, snd g)" "o1 = (Inr (projr (fst o1)), snd o1)" "r = ((201, snd (fst r)), snd r)"
    "q = (Inl (projl (fst q)), snd q)" "im_tx row = []" "im_status row \<noteq> ''posted''"
    "length (db_txs (snd q)) = length (db_txs s) + 2"
    by (auto simp: row_def prod_eq_iff)
  then show ?thesis using p unfolding g_def o1_def r_def q_def by blast
qed

end
