(* ===== verification/Queue.thy ===== *)
theory Queue
  imports Db
begin

text \<open>
  The receipt job queue: \<open>internal/queue/dbqueue.go\<close> (\<open>Enqueue\<close>, \<open>Claim\<close>, \<open>Ack\<close>, \<open>Fail\<close>, \<open>Requeue\<close>) and the
  read side \<open>internal/db/receipt_jobs.go\<close>.  Each operation is one SQL statement; \<open>FOR UPDATE SKIP LOCKED\<close>
  makes concurrent claims atomic, so a run of several workers is a sequence of statements.

  An abstract queue, a map from job identifiers to an abstract state, is refined by the operations; the
  lease discipline (a claimed job belongs to its worker until it is acknowledged, failed or requeued) is
  proved for the abstract queue and carried over.
\<close>

section \<open>The operations\<close>

record job =
  j_id :: string
  j_receipt :: string
  j_stage :: string
  j_status :: string
  j_attempts :: int
  j_max :: int
  j_locked_by :: string
  j_error :: string

definition jobFromRow :: "job_row \<Rightarrow> job" where
  "jobFromRow row = \<lparr>j_id = jb_id row, j_receipt = jb_receipt row, j_stage = jb_stage row, j_status = jb_status row,
     j_attempts = jb_attempts row, j_max = jb_max row, j_locked_by = strOf (jb_locked_by row), j_error = strOf (jb_error row)\<rparr>"

text \<open>The defaults of the columns \<open>attempts\<close> and \<open>max_attempts\<close> are 0 and 5.\<close>

definition Enqueue :: "string \<Rightarrow> string \<Rightarrow> job dbm" where
  "Enqueue receiptID stage0 =
     (let stage = (if stage0 = [] then ''ocr'' else stage0) in
      dbind (stmt (\<lambda>s.
        let i = next_uuid s; s' = s\<lparr>db_seq := db_seq s + 1\<rparr>;
            row = \<lparr>jb_id = i, jb_receipt = receiptID, jb_stage = stage, jb_status = ''queued'', jb_attempts = 0, jb_max = 5,
                   jb_locked_until = None, jb_locked_by = None, jb_error = None, jb_created = db_now s, jb_updated = db_now s\<rparr> in
        if i \<in> jb_id ` set (db_jobs s) \<or> receiptID \<notin> rc_id ` set (db_receipts s) then (Inl ErrConstraint, s')
        else (Inr row, s'\<lparr>db_jobs := db_jobs s @ [row]\<rparr>)))
      (\<lambda>row. dret (jobFromRow row)))"

record claim_req =
  cl_worker :: string
  cl_max :: int
  cl_lock :: int
  cl_batch :: int
  cl_stage :: string

definition claim_max :: "claim_req \<Rightarrow> int" where
  "claim_max r = (if cl_max r \<le> 0 then 5 else cl_max r)"

definition claim_batch :: "claim_req \<Rightarrow> int" where
  "claim_batch r = (if cl_batch r \<le> 0 then 10 else cl_batch r)"

definition claim_lock :: "claim_req \<Rightarrow> int" where
  "claim_lock r = (if cl_lock r \<le> 0 then 300 else cl_lock r)"

definition claimable :: "int \<Rightarrow> claim_req \<Rightarrow> job_row \<Rightarrow> bool" where
  "claimable now r row \<longleftrightarrow> jb_status row \<in> {''queued'', ''failed''} \<and> jb_attempts row < claim_max r \<and>
     (case jb_locked_until row of None \<Rightarrow> True | Some u \<Rightarrow> u < now) \<and> (cl_stage r \<noteq> [] \<longrightarrow> jb_stage row = cl_stage r)"

text \<open>The rows of the common table expression: the oldest claimable ones.\<close>

definition created_before :: "job_row \<Rightarrow> job_row \<Rightarrow> bool" where
  "created_before a b \<longleftrightarrow> jb_created a < jb_created b"

definition claim_rows :: "claim_req \<Rightarrow> db \<Rightarrow> job_row list" where
  "claim_rows r s = take (nat (claim_batch r)) (sort_by created_before (filter (claimable (db_now s) r) (db_jobs s)))"

definition claim_row :: "claim_req \<Rightarrow> int \<Rightarrow> job_row \<Rightarrow> job_row" where
  "claim_row r now row = row\<lparr>jb_status := ''processing'', jb_attempts := jb_attempts row + 1,
     jb_locked_until := Some (now + claim_lock r), jb_locked_by := Some (cl_worker r), jb_updated := now\<rparr>"

definition update_jobs :: "(job_row \<Rightarrow> bool) \<Rightarrow> (job_row \<Rightarrow> job_row) \<Rightarrow> db \<Rightarrow> db" where
  "update_jobs P f s = s\<lparr>db_jobs := map (\<lambda>r. if P r then f r else r) (db_jobs s)\<rparr>"

definition Claim :: "claim_req \<Rightarrow> job list dbm" where
  "Claim r =
     dbind (stmt (\<lambda>s.
       let ids = map jb_id (claim_rows r s); s' = update_jobs (\<lambda>row. jb_id row \<in> set ids) (claim_row r (db_now s)) s in
       (Inr (filter (\<lambda>row. jb_id row \<in> set ids) (db_jobs s')), s')))
     (\<lambda>rows. dret (map jobFromRow rows))"

definition end_row :: "string \<Rightarrow> string option \<Rightarrow> int \<Rightarrow> job_row \<Rightarrow> job_row" where
  "end_row status err now row = row\<lparr>jb_status := status, jb_locked_until := None, jb_locked_by := None, jb_error := err,
     jb_updated := now\<rparr>"

definition Ack :: "string \<Rightarrow> unit dbm" where
  "Ack jobID = stmt (\<lambda>s. (Inr (), update_jobs (\<lambda>r. jb_id r = jobID) (\<lambda>r. end_row ''done'' (jb_error r) (db_now s) r) s))"

definition Fail :: "string \<Rightarrow> string \<Rightarrow> bool \<Rightarrow> unit dbm" where
  "Fail jobID errMsg retry =
     (let status = (if \<not> retry then ''dead'' else ''failed'') in
      stmt (\<lambda>s. (Inr (), update_jobs (\<lambda>r. jb_id r = jobID) (end_row status (Some errMsg) (db_now s)) s)))"

definition Requeue :: "string \<Rightarrow> unit dbm" where
  "Requeue jobID = stmt (\<lambda>s. (Inr (), update_jobs (\<lambda>r. jb_id r = jobID) (end_row ''queued'' None (db_now s)) s))"

section \<open>Reading jobs\<close>

record receipt_job =
  rj_job :: job
  rj_locked_until :: "int option"
  rj_created :: int
  rj_updated :: int

definition receiptJobFromRow :: "job_row \<Rightarrow> receipt_job" where
  "receiptJobFromRow row = \<lparr>rj_job = jobFromRow row, rj_locked_until = jb_locked_until row, rj_created = jb_created row,
     rj_updated = jb_updated row\<rparr>"

definition ReceiptJobStore_GetIDByReceiptID :: "string \<Rightarrow> string dbm" where
  "ReceiptJobStore_GetIDByReceiptID receiptID =
     dbind (select_all (\<lambda>s. take 1 (sort_by (\<lambda>a b. created_before b a) (filter (\<lambda>r. jb_receipt r = receiptID) (db_jobs s)))))
       (\<lambda>rows. case rows of [] \<Rightarrow> dthrow ErrNotFound | r # _ \<Rightarrow> dret (jb_id r))"

definition ReceiptJobStore_ListByReceiptID :: "string \<Rightarrow> int \<Rightarrow> receipt_job list dbm" where
  "ReceiptJobStore_ListByReceiptID receiptID limit0 =
     (let limit = (if limit0 \<le> 0 then 50 else limit0) in
      dbind (select_all (\<lambda>s. take (nat limit)
               (sort_by (\<lambda>a b. created_before b a) (filter (\<lambda>r. jb_receipt r = receiptID) (db_jobs s)))))
        (\<lambda>rows. dret (map receiptJobFromRow rows)))"

definition ReceiptJobStore_List :: "string \<Rightarrow> string \<Rightarrow> int \<Rightarrow> int \<Rightarrow> receipt_job list dbm" where
  "ReceiptJobStore_List status stage limit0 offset =
     (let limit = (if limit0 \<le> 0 then 50 else limit0) in
      if offset < 0 then dthrow ErrConstraint
      else dbind (select_all (\<lambda>s. take (nat limit) (drop (nat offset) (sort_by (\<lambda>a b. jb_updated b < jb_updated a)
               (filter (\<lambda>r. (status \<noteq> [] \<longrightarrow> jb_status r = status) \<and> (stage \<noteq> [] \<longrightarrow> jb_stage r = stage)) (db_jobs s))))))
        (\<lambda>rows. dret (map receiptJobFromRow rows)))"

section \<open>The abstract queue\<close>

text \<open>A job waits, is leased to a worker or has ended; the number counts its attempts.\<close>

datatype abs_job =
    Waiting int
  | Leased int string
  | Ended int

fun tries :: "abs_job \<Rightarrow> int" where
  "tries (Waiting n) = n"
| "tries (Leased n w) = n"
| "tries (Ended n) = n"

type_synonym abs_queue = "string \<rightharpoonup> abs_job"

definition lease_all :: "string set \<Rightarrow> string \<Rightarrow> abs_queue \<Rightarrow> abs_queue" where
  "lease_all I w q = (\<lambda>i. if i \<in> I then map_option (\<lambda>a. Leased (tries a + 1) w) (q i) else q i)"

section \<open>The invariant of the job table\<close>

definition job_ok :: "job_row \<Rightarrow> bool" where
  "job_ok r \<longleftrightarrow> jb_status r \<in> {''queued'', ''processing'', ''done'', ''failed'', ''dead''} \<and> 0 \<le> jb_attempts r \<and>
     (jb_locked_until r = None) = (jb_status r \<noteq> ''processing'') \<and> (jb_locked_by r = None) = (jb_status r \<noteq> ''processing'')"

definition jobs_ok :: "db \<Rightarrow> bool" where
  "jobs_ok s \<longleftrightarrow> distinct (map jb_id (db_jobs s)) \<and> (\<forall>r\<in>set (db_jobs s). job_ok r)"

datatype queue_call =
    QEnqueue string string
  | QClaim claim_req
  | QAck string
  | QFail string string bool
  | QRequeue string

fun run_queue :: "queue_call \<Rightarrow> db \<Rightarrow> db" where
  "run_queue (QEnqueue r st) s = snd (Enqueue r st s)"
| "run_queue (QClaim r) s = snd (Claim r s)"
| "run_queue (QAck i) s = snd (Ack i s)"
| "run_queue (QFail i m b) s = snd (Fail i m b s)"
| "run_queue (QRequeue i) s = snd (Requeue i s)"

text \<open>The calls that end the lease of job \<open>i\<close>.\<close>

fun ends :: "queue_call \<Rightarrow> string \<Rightarrow> bool" where
  "ends (QAck j) i = (j = i)"
| "ends (QFail j m b) i = (j = i)"
| "ends (QRequeue j) i = (j = i)"
| "ends c i = False"

text \<open>Whether a call returns without an error.\<close>

fun queue_ok :: "queue_call \<Rightarrow> db \<Rightarrow> bool" where
  "queue_ok (QEnqueue r st) s = (\<not> isl (fst (Enqueue r st s)))"
| "queue_ok (QClaim r) s = (\<not> isl (fst (Claim r s)))"
| "queue_ok (QAck i) s = (\<not> isl (fst (Ack i s)))"
| "queue_ok (QFail i m b) s = (\<not> isl (fst (Fail i m b s)))"
| "queue_ok (QRequeue i) s = (\<not> isl (fst (Requeue i s)))"

text \<open>
  The transitions of the abstract queue, labelled by the call and by whether it succeeds: only a failing call and
  an ending of a job that does not exist leave it alone, and a lease ends only by a call that names the job, never by time.
\<close>

inductive abs_step :: "queue_call \<Rightarrow> bool \<Rightarrow> abs_queue \<Rightarrow> abs_queue \<Rightarrow> bool" where
  failed: "abs_step c False q q"
| absent: "ends c i \<Longrightarrow> q i = None \<Longrightarrow> abs_step c True q q"
| add: "q i = None \<Longrightarrow> abs_step (QEnqueue r st) True q (q(i \<mapsto> Waiting 0))"
| lease: "(\<And>i. i \<in> I \<Longrightarrow> \<exists>n. q i = Some (Waiting n) \<and> n < claim_max r) \<Longrightarrow>
    abs_step (QClaim r) True q (lease_all I (cl_worker r) q)"
| ack: "q i = Some a \<Longrightarrow> abs_step (QAck i) True q (q(i \<mapsto> Ended (tries a)))"
| give_up: "q i = Some a \<Longrightarrow> abs_step (QFail i m False) True q (q(i \<mapsto> Ended (tries a)))"
| retry: "q i = Some a \<Longrightarrow> abs_step (QFail i m True) True q (q(i \<mapsto> Waiting (tries a)))"
| release: "q i = Some a \<Longrightarrow> abs_step (QRequeue i) True q (q(i \<mapsto> Waiting (tries a)))"

text \<open>A queue call either fails and leaves the jobs alone, or has one of these effects.\<close>

lemma Enqueue_jobs:
  "db_jobs (snd (Enqueue r st s)) = db_jobs s \<or>
   (\<exists>row. db_jobs (snd (Enqueue r st s)) = db_jobs s @ [row] \<and> jb_id row \<notin> jb_id ` set (db_jobs s) \<and>
      jb_status row = ''queued'' \<and> jb_attempts row = 0 \<and> jb_locked_until row = None \<and> jb_locked_by row = None)"
  by (auto simp: Enqueue_def dbind_def dret_def stmt_def Let_def next_uuid_def split: if_splits)

lemma map_jobs: "db_jobs (update_jobs P f s) = map (\<lambda>r. if P r then f r else r) (db_jobs s)"
  by (simp add: update_jobs_def)

lemma Claim_jobs:
  "db_jobs (snd (Claim r s)) = db_jobs s \<or>
   db_jobs (snd (Claim r s)) = map (\<lambda>row. if jb_id row \<in> jb_id ` set (claim_rows r s) then claim_row r (db_now s) row else row) (db_jobs s)"
  by (auto simp: Claim_def dbind_def dret_def stmt_def Let_def update_jobs_def claim_rows_def split: if_splits)

lemma end_jobs:
  "db_jobs (snd (Ack i s)) = db_jobs s \<or>
     db_jobs (snd (Ack i s)) = map (\<lambda>r. if jb_id r = i then end_row ''done'' (jb_error r) (db_now s) r else r) (db_jobs s)"
  "db_jobs (snd (Fail i m b s)) = db_jobs s \<or>
     db_jobs (snd (Fail i m b s)) = map (\<lambda>r. if jb_id r = i then end_row (if \<not> b then ''dead'' else ''failed'') (Some m) (db_now s) r else r) (db_jobs s)"
  "db_jobs (snd (Requeue i s)) = db_jobs s \<or>
     db_jobs (snd (Requeue i s)) = map (\<lambda>r. if jb_id r = i then end_row ''queued'' None (db_now s) r else r) (db_jobs s)"
  by (auto simp: Ack_def Fail_def Requeue_def stmt_def Let_def update_jobs_def split: if_splits)

lemma queue_failed: "\<not> queue_ok c s \<Longrightarrow> db_jobs (run_queue c s) = db_jobs s"
  by (cases c) (auto simp: Enqueue_def Claim_def Ack_def Fail_def Requeue_def dbind_def dret_def stmt_def Let_def split: if_splits)

lemma queue_effect:
  "queue_ok (QEnqueue rc st) s \<Longrightarrow> \<exists>row. db_jobs (run_queue (QEnqueue rc st) s) = db_jobs s @ [row] \<and>
     jb_id row \<notin> jb_id ` set (db_jobs s) \<and> jb_status row = ''queued'' \<and> jb_attempts row = 0"
  "queue_ok (QClaim r) s \<Longrightarrow> db_jobs (run_queue (QClaim r) s) =
     map (\<lambda>row. if jb_id row \<in> jb_id ` set (claim_rows r s) then claim_row r (db_now s) row else row) (db_jobs s)"
  "queue_ok (QAck i) s \<Longrightarrow> db_jobs (run_queue (QAck i) s) =
     map (\<lambda>r. if jb_id r = i then end_row ''done'' (jb_error r) (db_now s) r else r) (db_jobs s)"
  "queue_ok (QFail i m b) s \<Longrightarrow> db_jobs (run_queue (QFail i m b) s) =
     map (\<lambda>r. if jb_id r = i then end_row (if \<not> b then ''dead'' else ''failed'') (Some m) (db_now s) r else r) (db_jobs s)"
  "queue_ok (QRequeue i) s \<Longrightarrow> db_jobs (run_queue (QRequeue i) s) =
     map (\<lambda>r. if jb_id r = i then end_row ''queued'' None (db_now s) r else r) (db_jobs s)"
  by (auto simp: Enqueue_def Claim_def Ack_def Fail_def Requeue_def dbind_def dret_def stmt_def Let_def
      update_jobs_def claim_rows_def next_uuid_def split: if_splits)

lemma claim_rows_sub: "set (claim_rows r s) \<subseteq> {row \<in> set (db_jobs s). claimable (db_now s) r row}"
  unfolding claim_rows_def by (auto dest: in_set_takeD)

lemma claimed_row_claimable:
  assumes "distinct (map jb_id (db_jobs s))" "row \<in> set (db_jobs s)" "jb_id row \<in> jb_id ` set (claim_rows r s)"
  shows "claimable (db_now s) r row"
proof -
  obtain row' where r': "row' \<in> set (claim_rows r s)" "jb_id row' = jb_id row" using assms(3) by auto
  then have "row' \<in> set (db_jobs s)" "claimable (db_now s) r row'" using claim_rows_sub by blast+
  moreover have "row' = row" using assms(1,2) r'(2) calculation(1) by (metis distinct_map inj_onD)
  ultimately show ?thesis by simp
qed

lemma map_ids: "(\<And>r. jb_id (f r) = jb_id r) \<Longrightarrow> map jb_id (map (\<lambda>r. if P r then f r else r) rs) = map jb_id rs"
  by (induction rs) auto

lemma ids_map:
  assumes "db_jobs s' = map (\<lambda>r. if P r then f r else r) (db_jobs s)" "\<And>r. jb_id (f r) = jb_id r"
  shows "jb_id ` set (db_jobs s') = jb_id ` set (db_jobs s)"
  using map_ids [OF assms(2), of P "db_jobs s"] unfolding assms(1) by (metis set_map)

lemma jobs_ok_map:
  assumes "jobs_ok s" "db_jobs s' = map (\<lambda>r. if P r then f r else r) (db_jobs s)" "\<And>r. jb_id (f r) = jb_id r"
    "\<And>r. r \<in> set (db_jobs s) \<Longrightarrow> P r \<Longrightarrow> job_ok (f r)"
  shows "jobs_ok s'"
proof -
  have "map jb_id (db_jobs s') = map jb_id (db_jobs s)" unfolding assms(2) by (rule map_ids) (rule assms(3))
  moreover have "job_ok r" if "r \<in> set (db_jobs s')" for r
    using that assms(1,4) by (auto simp: jobs_ok_def assms(2))
  ultimately show ?thesis using assms(1) by (simp add: jobs_ok_def)
qed

lemma end_row_simps [simp]:
  "jb_id (end_row st e n r) = jb_id r" "jb_status (end_row st e n r) = st" "jb_attempts (end_row st e n r) = jb_attempts r"
  "jb_locked_by (end_row st e n r) = None" "jb_locked_until (end_row st e n r) = None"
  by (simp_all add: end_row_def)

lemma claim_row_simps [simp]:
  "jb_id (claim_row r n row) = jb_id row" "jb_status (claim_row r n row) = ''processing''"
  "jb_attempts (claim_row r n row) = jb_attempts row + 1" "jb_locked_by (claim_row r n row) = Some (cl_worker r)"
  "jb_locked_until (claim_row r n row) = Some (n + claim_lock r)" "jb_stage (claim_row r n row) = jb_stage row"
  "jb_created (claim_row r n row) = jb_created row"
  by (simp_all add: claim_row_def)

lemma jobs_ok_call:
  assumes "jobs_ok s"
  shows "jobs_ok (run_queue c s)"
proof -
  have same: "db_jobs s' = db_jobs s \<Longrightarrow> jobs_ok s'" for s' using assms by (simp add: jobs_ok_def)
  have ended: "db_jobs s' = map (\<lambda>r. if jb_id r = i then end_row st (e r) n r else r) (db_jobs s) \<Longrightarrow>
      st \<in> {''queued'', ''done'', ''failed'', ''dead''} \<Longrightarrow> jobs_ok s'" for s' i st e n
    using assms by (elim jobs_ok_map [rotated]) (auto simp: job_ok_def jobs_ok_def)
  show ?thesis
  proof (cases c)
    case (QEnqueue r st)
    then show ?thesis using Enqueue_jobs [of r st s] assms same by (auto simp: jobs_ok_def job_ok_def)
  next
    case (QClaim r)
    have "jobs_ok s'" if "db_jobs s' = map (\<lambda>row. if jb_id row \<in> jb_id ` set (claim_rows r s)
        then claim_row r (db_now s) row else row) (db_jobs s)" for s'
      by (rule jobs_ok_map [OF assms that]) (use assms in \<open>auto simp: job_ok_def jobs_ok_def\<close>)
    then show ?thesis using Claim_jobs [of r s] same QClaim by auto
  next
    case (QAck i)
    then show ?thesis using end_jobs(1) [of i s] same ended [of _ i "''done''" jb_error] by auto
  next
    case (QFail i m b)
    then show ?thesis
      using end_jobs(2) [of i m b s] same
        ended [of "snd (Fail i m b s)" i "if \<not> b then ''dead'' else ''failed''" "\<lambda>_. Some m" "db_now s"]
      by (cases b) auto
  next
    case (QRequeue i)
    then show ?thesis using end_jobs(3) [of i s] same ended [of _ i "''queued''" "\<lambda>_. None"] by auto
  qed
qed

section \<open>Refinement of the abstract queue\<close>

definition abs_job_of :: "job_row \<Rightarrow> abs_job" where
  "abs_job_of r =
     (if jb_status r = ''processing'' then Leased (jb_attempts r) (strOf (jb_locked_by r))
      else if jb_status r \<in> {''queued'', ''failed''} then Waiting (jb_attempts r) else Ended (jb_attempts r))"

definition abs_queue_of :: "db \<Rightarrow> abs_queue" where
  "abs_queue_of s i = map_option abs_job_of (find (\<lambda>r. jb_id r = i) (db_jobs s))"

lemma find_map_if:
  "(\<And>r. jb_id (f r) = jb_id r) \<Longrightarrow> find (\<lambda>r. jb_id r = i) (map (\<lambda>r. if P r then f r else r) rs) =
     map_option (\<lambda>r. if P r then f r else r) (find (\<lambda>r. jb_id r = i) rs)"
  by (induction rs) auto

lemma abs_same: "db_jobs s' = db_jobs s \<Longrightarrow> abs_queue_of s' = abs_queue_of s"
  by (simp add: abs_queue_of_def fun_eq_iff)

lemma find_id: "find (\<lambda>r. jb_id r = i) rs = Some r \<Longrightarrow> r \<in> set rs \<and> jb_id r = i"
  by (induction rs) (auto split: if_splits)

lemma abs_job_of_simps [simp]:
  "tries (abs_job_of r) = jb_attempts r"
  "abs_job_of (claim_row c n r) = Leased (jb_attempts r + 1) (cl_worker c)"
  "abs_job_of (end_row st e n r) = (if st = ''processing'' then Leased (jb_attempts r) []
     else if st \<in> {''queued'', ''failed''} then Waiting (jb_attempts r) else Ended (jb_attempts r))"
  by (simp_all add: abs_job_of_def strOf_def)

lemma abs_map:
  assumes "db_jobs s' = map (\<lambda>r. if P r then f r else r) (db_jobs s)" "\<And>r. jb_id (f r) = jb_id r"
  shows "abs_queue_of s' i = (case find (\<lambda>r. jb_id r = i) (db_jobs s) of None \<Rightarrow> None
     | Some r \<Rightarrow> Some (abs_job_of (if P r then f r else r)))"
  unfolding abs_queue_of_def assms(1) find_map_if [OF assms(2)] by (simp split: option.split)

lemma abs_end:
  assumes "db_jobs s' = map (\<lambda>r. if jb_id r = i then end_row st (e r) n r else r) (db_jobs s)" "st \<noteq> ''processing''"
  shows "abs_queue_of s' = (case abs_queue_of s i of None \<Rightarrow> abs_queue_of s
     | Some a \<Rightarrow> (abs_queue_of s)(i \<mapsto> (if st \<in> {''queued'', ''failed''} then Waiting (tries a) else Ended (tries a))))"
proof
  fix j
  have m: "abs_queue_of s' j = (case find (\<lambda>r. jb_id r = j) (db_jobs s) of None \<Rightarrow> None
     | Some r \<Rightarrow> Some (abs_job_of (if jb_id r = i then end_row st (e r) n r else r)))"
    by (rule abs_map [OF assms(1)]) simp
  show "abs_queue_of s' j = (case abs_queue_of s i of None \<Rightarrow> abs_queue_of s
     | Some a \<Rightarrow> (abs_queue_of s)(i \<mapsto> (if st \<in> {''queued'', ''failed''} then Waiting (tries a) else Ended (tries a)))) j"
  proof (cases "find (\<lambda>r. jb_id r = j) (db_jobs s)")
    case None
    then show ?thesis using m by (cases "j = i") (auto simp: abs_queue_of_def split: option.split)
  next
    case (Some r)
    then have "jb_id r = j" using find_id by blast
    moreover have "abs_queue_of s j = Some (abs_job_of r)" using Some by (simp add: abs_queue_of_def)
    ultimately show ?thesis using m Some assms(2) by (cases "j = i") (auto split: option.split)
  qed
qed

lemma abs_claim:
  assumes "db_jobs s' = map (\<lambda>row. if jb_id row \<in> I then claim_row r n row else row) (db_jobs s)"
  shows "abs_queue_of s' = lease_all I (cl_worker r) (abs_queue_of s)"
proof
  fix j
  have m: "abs_queue_of s' j = (case find (\<lambda>r. jb_id r = j) (db_jobs s) of None \<Rightarrow> None
     | Some row \<Rightarrow> Some (abs_job_of (if jb_id row \<in> I then claim_row r n row else row)))"
    by (rule abs_map [OF assms]) simp
  show "abs_queue_of s' j = lease_all I (cl_worker r) (abs_queue_of s) j"
  proof (cases "find (\<lambda>r. jb_id r = j) (db_jobs s)")
    case None
    then show ?thesis using m by (simp add: abs_queue_of_def lease_all_def)
  next
    case (Some r)
    then have "jb_id r = j" using find_id by blast
    moreover have "abs_queue_of s j = Some (abs_job_of r)" using Some by (simp add: abs_queue_of_def)
    ultimately show ?thesis using m Some by (auto simp: lease_all_def)
  qed
qed

lemma claim_waiting:
  assumes "jobs_ok s" "i \<in> jb_id ` set (claim_rows r s)"
  shows "\<exists>n. abs_queue_of s i = Some (Waiting n) \<and> n < claim_max r"
proof -
  obtain row where r: "row \<in> set (claim_rows r s)" "jb_id row = i" using assms(2) by auto
  then have m: "row \<in> set (db_jobs s)" "claimable (db_now s) r row" using claim_rows_sub by blast+
  obtain row' where f: "find (\<lambda>r. jb_id r = i) (db_jobs s) = Some row'"
    using m(1) r(2) by (cases "find (\<lambda>r. jb_id r = i) (db_jobs s)") (auto simp: find_None_iff)
  have "row' = row" using find_id [OF f] assms(1) m(1) r(2) by (metis distinct_map inj_onD jobs_ok_def)
  then show ?thesis using f m(2) by (auto simp: abs_queue_of_def abs_job_of_def claimable_def)
qed

lemma abs_enqueue:
  assumes "db_jobs s' = db_jobs s @ [row]" "jb_id row \<notin> jb_id ` set (db_jobs s)" "jb_status row = ''queued''" "jb_attempts row = 0"
  shows "abs_queue_of s (jb_id row) = None \<and> abs_queue_of s' = (abs_queue_of s)(jb_id row \<mapsto> Waiting 0)"
proof -
  have new: "find (\<lambda>r. jb_id r = jb_id row) (db_jobs s) = None"
    using assms(2) unfolding find_None_iff by (metis imageI)
  moreover have "abs_queue_of s' = (abs_queue_of s)(jb_id row \<mapsto> Waiting 0)"
  proof
    fix i
    have "find (\<lambda>r. jb_id r = i) (xs @ [row]) = (case find (\<lambda>r. jb_id r = i) xs of None \<Rightarrow>
        if jb_id row = i then Some row else None | Some x \<Rightarrow> Some x)" for xs by (induction xs) auto
    moreover have "find (\<lambda>r. jb_id r = i) (db_jobs s) = None" if "i = jb_id row"
      using that new by simp
    moreover have "abs_job_of row = Waiting 0" using assms(3,4) by (simp add: abs_job_of_def)
    ultimately show "abs_queue_of s' i = ((abs_queue_of s)(jb_id row \<mapsto> Waiting 0)) i"
      using assms(1) by (cases "find (\<lambda>r. jb_id r = i) (db_jobs s)") (auto simp: abs_queue_of_def)
  qed
  ultimately show ?thesis by (simp add: abs_queue_of_def)
qed

lemma queue_refines_aux:
  assumes "jobs_ok s"
  shows "abs_step c (queue_ok c s) (abs_queue_of s) (abs_queue_of (run_queue c s))"
proof (cases "queue_ok c s")
  case False
  then show ?thesis using abs_same [OF queue_failed [OF False]] abs_step.failed by simp
next
  case True
  have ended: "abs_step c True (abs_queue_of s) (abs_queue_of (run_queue c s))"
    if "db_jobs (run_queue c s) = map (\<lambda>r. if jb_id r = i then end_row st (e r) n r else r) (db_jobs s)"
      "st \<noteq> ''processing''" "ends c i"
      "\<And>a. abs_queue_of s i = Some a \<Longrightarrow> abs_step c True (abs_queue_of s) ((abs_queue_of s)(i \<mapsto>
         (if st \<in> {''queued'', ''failed''} then Waiting (tries a) else Ended (tries a))))" for i st e n
    unfolding abs_end [OF that(1,2)]
    using that(4) abs_step.absent [of c i "abs_queue_of s"] that(3) by (cases "abs_queue_of s i") simp_all
  show ?thesis
  proof (cases c)
    case (QEnqueue rc st)
    obtain row where "db_jobs (run_queue c s) = db_jobs s @ [row]" "jb_id row \<notin> jb_id ` set (db_jobs s)"
        "jb_status row = ''queued''" "jb_attempts row = 0"
      using queue_effect(1) True QEnqueue by blast
    from abs_enqueue [OF this] show ?thesis using True QEnqueue abs_step.add by simp
  next
    case (QClaim r)
    have "abs_queue_of (run_queue c s) = lease_all (jb_id ` set (claim_rows r s)) (cl_worker r) (abs_queue_of s)"
      using abs_claim queue_effect(2) True QClaim by blast
    then show ?thesis using abs_step.lease [OF claim_waiting [OF assms]] True QClaim by simp
  next
    case (QAck i)
    show ?thesis using ended [of i "''done''" jb_error "db_now s"] queue_effect(3) abs_step.ack True QAck by simp
  next
    case (QFail i m b)
    show ?thesis
      using ended [of i "if \<not> b then ''dead'' else ''failed''" "\<lambda>_. Some m" "db_now s"] queue_effect(4) abs_step.give_up abs_step.retry True QFail
      by (cases b) simp_all
  next
    case (QRequeue i)
    show ?thesis using ended [of i "''queued''" "\<lambda>_. None" "db_now s"] queue_effect(5) abs_step.release True QRequeue by simp
  qed
qed

section \<open>Runs of the queue\<close>

text \<open>A step that does not end the lease of job \<open>i\<close>.\<close>

inductive held_step :: "string \<Rightarrow> db \<Rightarrow> db \<Rightarrow> bool" for i :: string where
  call: "\<not> ends c i \<Longrightarrow> held_step i s (run_queue c s)"
| other: "db_jobs s' = db_jobs s \<Longrightarrow> held_step i s s'"

inductive_cases held_stepE: "held_step i s s'"

lemma jobs_ok_cong: "db_jobs s' = db_jobs s \<Longrightarrow> jobs_ok s' = jobs_ok s"
  by (simp add: jobs_ok_def)

definition processing :: "db \<Rightarrow> string \<Rightarrow> bool" where
  "processing s i \<longleftrightarrow> (\<exists>r\<in>set (db_jobs s). jb_id r = i \<and> jb_status r = ''processing'')"

lemma processing_not_claimed:
  assumes "jobs_ok s" "processing s i"
  shows "i \<notin> jb_id ` set (claim_rows r s)"
proof
  assume "i \<in> jb_id ` set (claim_rows r s)"
  moreover obtain row where "row \<in> set (db_jobs s)" "jb_id row = i" "jb_status row = ''processing''"
    using assms(2) by (auto simp: processing_def)
  ultimately show False
    using claimed_row_claimable [of s row r] assms(1) by (auto simp: jobs_ok_def claimable_def)
qed

lemma processing_map:
  assumes "processing s i" "db_jobs s' = map (\<lambda>r. if P r then f r else r) (db_jobs s)"
    "\<And>r. jb_id r = i \<Longrightarrow> \<not> P r"
  shows "processing s' i"
  using assms by (fastforce simp: processing_def)

lemma processing_held:
  assumes "jobs_ok s" "processing s i" "held_step i s s'"
  shows "processing s' i"
  using assms(3)
proof (cases rule: held_step.cases)
  case (call c)
  have same: "db_jobs u = db_jobs s \<Longrightarrow> processing u i" for u using assms(2) by (simp add: processing_def)
  show ?thesis unfolding call(1)
  proof (cases c)
    case (QEnqueue rc st)
    then show "processing (run_queue c s) i" using Enqueue_jobs [of rc st s] same assms(2) by (auto simp: processing_def)
  next
    case (QClaim r)
    have "processing u i" if "db_jobs u = map (\<lambda>row. if jb_id row \<in> jb_id ` set (claim_rows r s)
        then claim_row r (db_now s) row else row) (db_jobs s)" for u
      by (rule processing_map [OF assms(2) that]) (use processing_not_claimed [OF assms(1,2)] in auto)
    then show "processing (run_queue c s) i" using Claim_jobs [of r s] same QClaim by auto
  next
    case (QAck j)
    then show "processing (run_queue c s) i"
      using end_jobs(1) [of j s] same call(2) processing_map [OF assms(2), of _ "\<lambda>r. jb_id r = j"] by auto
  next
    case (QFail j m b)
    then show "processing (run_queue c s) i"
      using end_jobs(2) [of j m b s] same call(2) processing_map [OF assms(2), of _ "\<lambda>r. jb_id r = j"] by auto
  next
    case (QRequeue j)
    then show "processing (run_queue c s) i"
      using end_jobs(3) [of j s] same call(2) processing_map [OF assms(2), of _ "\<lambda>r. jb_id r = j"] by auto
  qed
qed (use assms(2) in \<open>simp add: processing_def\<close>)

lemma processing_held_path:
  assumes "(held_step i)\<^sup>*\<^sup>* s s'" "jobs_ok s" "processing s i"
  shows "jobs_ok s' \<and> processing s' i"
  using assms(1)
proof (induction rule: rtranclp_induct)
  case (step t u)
  have t: "jobs_ok t" "processing t i" using step.IH by simp_all
  have "jobs_ok u" using step(2) by (rule held_stepE) (use t jobs_ok_call jobs_ok_cong in metis)+
  then show ?case using processing_held [OF t step(2)] by simp
qed (use assms in simp)

lemma filter_map_id:
  "(\<And>r. jb_id (f r) = jb_id r) \<Longrightarrow> filter (\<lambda>r. jb_id r \<in> I) (map (\<lambda>r. if jb_id r \<in> I then f r else r) rs) =
     map f (filter (\<lambda>r. jb_id r \<in> I) rs)"
  by (induction rs) auto

lemma Claim_Inr:
  assumes "Claim r s = (Inr jobs, s')"
  shows "db_jobs s' = map (\<lambda>row. if jb_id row \<in> jb_id ` set (claim_rows r s) then claim_row r (db_now s) row else row) (db_jobs s)"
    "jobs = map (\<lambda>row. jobFromRow (claim_row r (db_now s) row)) (filter (\<lambda>row. jb_id row \<in> jb_id ` set (claim_rows r s)) (db_jobs s))"
proof -
  show db: "db_jobs s' = map (\<lambda>row. if jb_id row \<in> jb_id ` set (claim_rows r s) then claim_row r (db_now s) row else row) (db_jobs s)"
    using assms by (auto simp: Claim_def dbind_def dret_def stmt_def Let_def update_jobs_def claim_rows_def split: if_splits)
  have "jobs = map jobFromRow (filter (\<lambda>row. jb_id row \<in> jb_id ` set (claim_rows r s)) (db_jobs s'))"
    using assms by (auto simp: Claim_def dbind_def dret_def stmt_def Let_def update_jobs_def claim_rows_def split: if_splits)
  then show "jobs = map (\<lambda>row. jobFromRow (claim_row r (db_now s) row)) (filter (\<lambda>row. jb_id row \<in> jb_id ` set (claim_rows r s)) (db_jobs s))"
    unfolding db by (subst (asm) filter_map_id) (simp_all add: comp_def)
qed

lemma jobFromRow_simps [simp]:
  "j_id (jobFromRow r) = jb_id r" "j_status (jobFromRow r) = jb_status r" "j_stage (jobFromRow r) = jb_stage r"
  "j_attempts (jobFromRow r) = jb_attempts r" "j_locked_by (jobFromRow r) = strOf (jb_locked_by r)"
  by (simp_all add: jobFromRow_def)

lemma Claim_processing:
  assumes "Claim r s = (Inr jobs, s')" "j \<in> set jobs"
  shows "processing s' (j_id j)"
proof -
  obtain row where r: "row \<in> set (db_jobs s)" "jb_id row \<in> jb_id ` set (claim_rows r s)" "j_id j = jb_id row"
    using assms(2) unfolding Claim_Inr(2) [OF assms(1)] by auto
  then have "claim_row r (db_now s) row \<in> set (db_jobs s')" unfolding Claim_Inr(1) [OF assms(1)] by auto
  then show ?thesis unfolding processing_def by (rule bexI [rotated]) (simp add: r(3))
qed

lemma strict_weak_created: "strict_weak created_before"
  by (auto simp: strict_weak_def created_before_def)

text \<open>The rows a claim takes are a prefix of the claimable rows by age.\<close>

lemma claim_rows_split:
  obtains rest where "sort_by created_before (filter (claimable (db_now s) r) (db_jobs s)) = claim_rows r s @ rest"
    "\<And>old row. old \<in> set (claim_rows r s) \<Longrightarrow> row \<in> set rest \<Longrightarrow> jb_created old \<le> jb_created row"
    "rest \<noteq> [] \<Longrightarrow> int (length (claim_rows r s)) = claim_batch r" "int (length (claim_rows r s)) \<le> claim_batch r"
proof
  let ?xs = "sort_by created_before (filter (claimable (db_now s) r) (db_jobs s))"
  let ?n = "nat (claim_batch r)"
  have b: "0 < claim_batch r" by (simp add: claim_batch_def)
  show eq: "?xs = claim_rows r s @ drop ?n ?xs" by (simp add: claim_rows_def)
  have "sorted_wrt (\<lambda>a b. \<not> created_before b a) (claim_rows r s @ drop ?n ?xs)"
    using sorted_sort_by [OF strict_weak_created] eq by metis
  then show "jb_created old \<le> jb_created row" if "old \<in> set (claim_rows r s)" "row \<in> set (drop ?n ?xs)" for old row
    using that by (fastforce simp: sorted_wrt_append created_before_def)
  show "int (length (claim_rows r s)) = claim_batch r" if "drop ?n ?xs \<noteq> []"
    using that b by (simp add: claim_rows_def)
  show "int (length (claim_rows r s)) \<le> claim_batch r"
    using b by (simp add: claim_rows_def)
qed

lemma claimed_set:
  assumes "distinct (map jb_id (db_jobs s))"
  shows "set (filter (\<lambda>row. jb_id row \<in> jb_id ` set (claim_rows r s)) (db_jobs s)) = set (claim_rows r s)"
proof -
  have "row \<in> set (claim_rows r s)" if r: "row \<in> set (db_jobs s)" "jb_id row \<in> jb_id ` set (claim_rows r s)" for row
  proof -
    obtain row' where r': "row' \<in> set (claim_rows r s)" "jb_id row' = jb_id row" using r(2) by auto
    then have "row' \<in> set (db_jobs s)" using claim_rows_sub by blast
    then have "row' = row" using assms r(1) r'(2) by (metis distinct_map inj_onD)
    then show ?thesis using r'(1) by simp
  qed
  then show ?thesis using claim_rows_sub [of r s] by auto
qed

lemma claimed_length:
  assumes "distinct (map jb_id (db_jobs s))"
  shows "length (filter (\<lambda>row. jb_id row \<in> jb_id ` set (claim_rows r s)) (db_jobs s)) = length (claim_rows r s)"
proof -
  have "distinct (db_jobs s)" using assms by (simp add: distinct_map)
  then have "distinct (claim_rows r s)" "distinct (filter (\<lambda>row. jb_id row \<in> jb_id ` set (claim_rows r s)) (db_jobs s))"
    by (simp_all add: claim_rows_def distinct_take)
  then show ?thesis using claimed_set [OF assms] by (metis distinct_card)
qed

text \<open>A job table for the concrete instances: two jobs, the second one failed once and is older.\<close>

definition sample_job :: "string \<Rightarrow> string \<Rightarrow> int \<Rightarrow> int \<Rightarrow> job_row" where
  "sample_job i st n t = \<lparr>jb_id = i, jb_receipt = ''R'', jb_stage = ''ocr'', jb_status = st, jb_attempts = n, jb_max = 5,
     jb_locked_until = None, jb_locked_by = None, jb_error = None, jb_created = t, jb_updated = t\<rparr>"

definition sample_jobs_db :: db where
  "sample_jobs_db = empty_db\<lparr>db_now := 100, db_jobs := [sample_job ''a'' ''queued'' 0 20, sample_job ''b'' ''failed'' 1 10]\<rparr>"

definition sample_claim :: claim_req where
  "sample_claim = \<lparr>cl_worker = ''w'', cl_max = 0, cl_lock = 0, cl_batch = 1, cl_stage = []\<rparr>"

lemma sample_jobs_ok: "jobs_ok sample_jobs_db"
  by (simp add: jobs_ok_def job_ok_def sample_jobs_db_def sample_job_def)

lemma sample_claim_result:
  "\<exists>jobs s'. Claim sample_claim sample_jobs_db = (Inr jobs, s') \<and> map j_id jobs = [''b'']"
proof -
  have "\<not> isl (fst (Claim sample_claim sample_jobs_db)) \<and> map j_id (projr (fst (Claim sample_claim sample_jobs_db))) = [''b'']"
    by code_simp
  then show ?thesis
    by (intro exI [of _ "projr (fst (Claim sample_claim sample_jobs_db))"] exI [of _ "snd (Claim sample_claim sample_jobs_db)"])
      (auto simp: prod_eq_iff)
qed

text \<open>
  C21. The queue implements the abstract one: in a sound job table every call, failing ones included, is the
  transition of the abstract queue that carries its name, and leaves the table sound.  In particular a lease is
  taken only of a waiting job below the attempt limit of the claim, and ends only by an acknowledgement, a
  failure or a requeue of that job: acknowledging and failing without a retry end it for good, a failure with a
  retry and a requeue make it wait again, and all keep its attempts.
\<close>

theorem queue_refines:
  assumes "jobs_ok s"
  shows "jobs_ok (run_queue c s) \<and> abs_step c (queue_ok c s) (abs_queue_of s) (abs_queue_of (run_queue c s))"
  using jobs_ok_call [OF assms] queue_refines_aux [OF assms] by blast

theorem queue_refines_witness:
  "queue_ok (QClaim sample_claim) sample_jobs_db \<and> jobs_ok (run_queue (QClaim sample_claim) sample_jobs_db) \<and>
     abs_step (QClaim sample_claim) True (abs_queue_of sample_jobs_db) (abs_queue_of (run_queue (QClaim sample_claim) sample_jobs_db))"
proof -
  have ok: "queue_ok (QClaim sample_claim) sample_jobs_db" by code_simp
  then show ?thesis using queue_refines [OF sample_jobs_ok, of "QClaim sample_claim"] by simp
qed

text \<open>
  C22. A successful claim returns at most \<open>BatchSize\<close> (default 10) jobs, each now processing, locked by the
  claiming worker, of the requested stage and within \<open>MaxAttempts\<close> (default 5); the oldest go first: a
  claimable job that was left behind is not older than any job taken, and then the batch is full.
\<close>

theorem claim_oldest_first:
  assumes "jobs_ok s" "Claim r s = (Inr jobs, s')"
  shows "int (length jobs) \<le> claim_batch r \<and>
    (\<forall>j\<in>set jobs. j_status j = ''processing'' \<and> j_locked_by j = cl_worker r \<and> j_attempts j \<le> claim_max r \<and>
       (cl_stage r \<noteq> [] \<longrightarrow> j_stage j = cl_stage r)) \<and>
    (\<forall>row\<in>set (db_jobs s). claimable (db_now s) r row \<longrightarrow> jb_id row \<notin> j_id ` set jobs \<longrightarrow>
       int (length jobs) = claim_batch r \<and>
       (\<forall>old\<in>set (db_jobs s). jb_id old \<in> j_id ` set jobs \<longrightarrow> jb_created old \<le> jb_created row))"
proof -
  have d: "distinct (map jb_id (db_jobs s))" using assms(1) by (simp add: jobs_ok_def)
  note jobs = Claim_Inr(2) [OF assms(2)]
  have len: "length jobs = length (claim_rows r s)" unfolding jobs using claimed_length [OF d] by simp
  have ids: "j_id ` set jobs = jb_id ` set (claim_rows r s)"
    unfolding jobs set_map claimed_set [OF d] by (simp add: image_image)
  obtain rest where split: "sort_by created_before (filter (claimable (db_now s) r) (db_jobs s)) = claim_rows r s @ rest"
    "\<And>old row. old \<in> set (claim_rows r s) \<Longrightarrow> row \<in> set rest \<Longrightarrow> jb_created old \<le> jb_created row"
    "rest \<noteq> [] \<Longrightarrow> int (length (claim_rows r s)) = claim_batch r" "int (length (claim_rows r s)) \<le> claim_batch r"
    using claim_rows_split [of s r thesis] by (meson that)
  have all: "set (claim_rows r s) \<union> set rest = {row \<in> set (db_jobs s). claimable (db_now s) r row}"
    using arg_cong [OF split(1), of set] by auto
  have "j_status j = ''processing'' \<and> j_locked_by j = cl_worker r \<and> j_attempts j \<le> claim_max r \<and>
       (cl_stage r \<noteq> [] \<longrightarrow> j_stage j = cl_stage r)" if j: "j \<in> set jobs" for j
  proof -
    obtain row where "row \<in> set (claim_rows r s)" "j = jobFromRow (claim_row r (db_now s) row)"
      using j unfolding jobs set_map claimed_set [OF d] by auto
    moreover from this have "claimable (db_now s) r row" using all by blast
    ultimately show ?thesis by (auto simp: claimable_def strOf_def)
  qed
  moreover have "int (length jobs) = claim_batch r \<and>
      (\<forall>old\<in>set (db_jobs s). jb_id old \<in> j_id ` set jobs \<longrightarrow> jb_created old \<le> jb_created row)"
    if row: "row \<in> set (db_jobs s)" "claimable (db_now s) r row" "jb_id row \<notin> j_id ` set jobs" for row
  proof -
    have rest: "row \<in> set rest" "rest \<noteq> []" using all row ids by auto
    moreover have "old \<in> set (claim_rows r s)" if "old \<in> set (db_jobs s)" "jb_id old \<in> j_id ` set jobs" for old
      using claimed_set [OF d, of r] that ids by auto
    ultimately show ?thesis using split(2) [of _ row] split(3) len by simp
  qed
  ultimately show ?thesis using len split(4) by auto
qed

theorem claim_oldest_first_witness:
  "\<exists>jobs s'. Claim sample_claim sample_jobs_db = (Inr jobs, s') \<and> map j_id jobs = [''b''] \<and> int (length jobs) \<le> 1 \<and>
     list_all (\<lambda>j. j_status j = ''processing'') jobs"
proof -
  obtain jobs s' where c: "Claim sample_claim sample_jobs_db = (Inr jobs, s')" "map j_id jobs = [''b'']"
    using sample_claim_result by (elim exE conjE) (rule that)
  then show ?thesis using claim_oldest_first [OF sample_jobs_ok c(1)] by (auto simp: sample_claim_def claim_batch_def list_all_iff)
qed

text \<open>
  C12. A claimed job belongs to its worker: as long as nobody acknowledges, fails or requeues it, no later
  claim of any worker returns it, whatever the clock says.  The lease therefore excludes double processing, and
  it never expires: the job of a worker that died stays in \<open>processing\<close>, although \<open>docs/queue.md\<close> promises
  that it becomes visible again after the timeout (the filter on \<open>locked_until\<close> never applies, since only
  processing jobs carry a lock and those are not selected).
\<close>

theorem lease_exclusive:
  assumes "jobs_ok s" "Claim r s = (Inr jobs, s1)" "j \<in> set jobs" "(held_step (j_id j))\<^sup>*\<^sup>* s1 s2"
    "Claim r' s2 = (Inr jobs', s3)"
  shows "j_id j \<notin> j_id ` set jobs'"
proof -
  have "jobs_ok s1" using jobs_ok_call [OF assms(1), of "QClaim r"] assms(2) by simp
  then have p: "jobs_ok s2 \<and> processing s2 (j_id j)"
    using processing_held_path [OF assms(4)] Claim_processing [OF assms(2,3)] by blast
  then have "distinct (map jb_id (db_jobs s2))" by (simp add: jobs_ok_def)
  from claimed_set [OF this] have "j_id ` set jobs' = jb_id ` set (claim_rows r' s2)"
    unfolding Claim_Inr(2) [OF assms(5)] set_map by (simp add: image_image)
  then show ?thesis using processing_not_claimed p by blast
qed

text \<open>In the instance a year passes after the claim.\<close>

theorem lease_exclusive_witness:
  "\<exists>jobs s1 jobs' s3. Claim sample_claim sample_jobs_db = (Inr jobs, s1) \<and> map j_id jobs = [''b''] \<and>
     Claim sample_claim (s1\<lparr>db_now := 31536000\<rparr>) = (Inr jobs', s3) \<and> ''b'' \<notin> j_id ` set jobs'"
proof -
  obtain jobs s1 where c: "Claim sample_claim sample_jobs_db = (Inr jobs, s1)" "map j_id jobs = [''b'']"
    using sample_claim_result by (elim exE conjE) (rule that)
  then obtain j where j: "j \<in> set jobs" "j_id j = ''b''" by (cases jobs) auto
  have "s1 = snd (Claim sample_claim sample_jobs_db)" using c by simp
  moreover have "\<not> isl (fst (Claim sample_claim ((snd (Claim sample_claim sample_jobs_db))\<lparr>db_now := 31536000\<rparr>)))"
    by code_simp
  ultimately obtain jobs' s3 where d: "Claim sample_claim (s1\<lparr>db_now := 31536000\<rparr>) = (Inr jobs', s3)"
    by (metis surj_pair fst_conv isl_def sum.exhaust)
  have "(held_step ''b'')\<^sup>*\<^sup>* s1 (s1\<lparr>db_now := 31536000\<rparr>)"
    by (rule r_into_rtranclp) (rule held_step.other, simp)
  then show ?thesis using lease_exclusive [OF sample_jobs_ok c(1) j(1) _ d] j c d by auto
qed

text \<open>
  A run that counts how often a claim of any worker returns job \<open>i\<close>: queue calls of any kind, of which the claims
  use at most \<open>k\<close> as \<open>MaxAttempts\<close>, interleaved with anything that leaves the jobs alone (the clock, other
  tables).
\<close>

fun times_returned :: "string \<Rightarrow> db_error + job list \<Rightarrow> nat" where
  "times_returned i (Inl e) = 0"
| "times_returned i (Inr jobs) = length (filter (\<lambda>j. j_id j = i) jobs)"

inductive claim_run :: "int \<Rightarrow> string \<Rightarrow> db \<Rightarrow> nat \<Rightarrow> db \<Rightarrow> bool" for k :: int and i :: string and s0 :: db where
  start: "claim_run k i s0 0 s0"
| claim: "claim_run k i s0 n s \<Longrightarrow> claim_max r \<le> k \<Longrightarrow> Claim r s = (res, s') \<Longrightarrow>
    claim_run k i s0 (n + times_returned i res) s'"
| call: "claim_run k i s0 n s \<Longrightarrow> (\<And>r. c \<noteq> QClaim r) \<Longrightarrow> claim_run k i s0 n (run_queue c s)"
| other: "claim_run k i s0 n s \<Longrightarrow> db_jobs s' = db_jobs s \<Longrightarrow> claim_run k i s0 n s'"

text \<open>The invariant of a run: the attempts of job \<open>i\<close> are the claims that returned it.\<close>

definition counted :: "int \<Rightarrow> string \<Rightarrow> nat \<Rightarrow> db \<Rightarrow> bool" where
  "counted k i n s \<longleftrightarrow> jobs_ok s \<and> int n \<le> k \<and> (\<forall>row\<in>set (db_jobs s). jb_id row = i \<longrightarrow> jb_attempts row = int n) \<and>
     (i \<notin> jb_id ` set (db_jobs s) \<longrightarrow> n = 0)"

lemma counted_same: "counted k i n s \<Longrightarrow> db_jobs s' = db_jobs s \<Longrightarrow> counted k i n s'"
  by (simp add: counted_def jobs_ok_def)

lemma counted_call:
  assumes "counted k i n s" "\<And>r. c \<noteq> QClaim r"
  shows "counted k i n (run_queue c s)"
proof (cases "queue_ok c s")
  case False
  then show ?thesis using counted_same [OF assms(1) queue_failed [OF False]] by simp
next
  case True
  have ok: "jobs_ok (run_queue c s)" using assms(1) jobs_ok_call by (simp add: counted_def)
  have ended: "counted k i n (run_queue c s)"
    if "db_jobs (run_queue c s) = map (\<lambda>r. if jb_id r = j then end_row st (e r) t r else r) (db_jobs s)" for j st e t
  proof -
    have "jb_id ` set (db_jobs (run_queue c s)) = jb_id ` set (db_jobs s)" by (rule ids_map [OF that]) simp
    moreover have "jb_attempts row = int n" if "row \<in> set (db_jobs (run_queue c s))" "jb_id row = i" for row
      using that assms(1) \<open>db_jobs (run_queue c s) = _\<close> by (auto simp: counted_def)
    ultimately show ?thesis using assms(1) ok by (simp add: counted_def)
  qed
  show ?thesis
  proof (cases c)
    case (QEnqueue rc st)
    then obtain row where "db_jobs (run_queue c s) = db_jobs s @ [row]" "jb_id row \<notin> jb_id ` set (db_jobs s)" "jb_attempts row = 0"
      using queue_effect(1) True by blast
    then show ?thesis using assms(1) ok unfolding counted_def by auto
  next
    case (QClaim r)
    then show ?thesis using assms(2) by simp
  next
    case (QAck j)
    then show ?thesis using ended queue_effect(3) True by blast
  next
    case (QFail j m b)
    then show ?thesis using ended [of j _ "\<lambda>_. Some m"] queue_effect(4) True by blast
  next
    case (QRequeue j)
    then show ?thesis using ended [of j _ "\<lambda>_. None"] queue_effect(5) True by blast
  qed
qed

lemma filter_id_single:
  "distinct (map jb_id rs) \<Longrightarrow> length (filter (\<lambda>r. jb_id r = i) rs) = (if i \<in> jb_id ` set rs then 1 else 0)"
  by (induction rs) (auto simp: filter_empty_conv)

lemma counted_claim:
  assumes "counted k i n s" "claim_max r \<le> k" "Claim r s = (Inr jobs, s')"
  shows "counted k i (n + times_returned i (Inr jobs)) s'"
proof -
  let ?I = "jb_id ` set (claim_rows r s)"
  have d: "distinct (map jb_id (db_jobs s))" using assms(1) by (simp add: counted_def jobs_ok_def)
  have sub: "?I \<subseteq> jb_id ` set (db_jobs s)" using claim_rows_sub [of r s] by auto
  have "times_returned i (Inr jobs) = length (filter (\<lambda>row. jb_id row \<in> ?I \<and> jb_id row = i) (db_jobs s))"
    unfolding Claim_Inr(2) [OF assms(3)] by (simp add: filter_map comp_def)
  also have "\<dots> = (if i \<in> ?I then 1 else 0)"
  proof (cases "i \<in> ?I")
    case True
    then have "filter (\<lambda>row. jb_id row \<in> ?I \<and> jb_id row = i) (db_jobs s) = filter (\<lambda>row. jb_id row = i) (db_jobs s)"
      by (metis (mono_tags, lifting))
    then show ?thesis using filter_id_single [OF d, of i] True sub by auto
  qed (auto simp: filter_empty_conv)
  finally have t: "times_returned i (Inr jobs) = (if i \<in> ?I then 1 else 0)" .
  have ok: "jobs_ok s'" using jobs_ok_call [of s "QClaim r"] assms(1,3) by (simp add: counted_def)
  have low: "int n < k" if taken: "i \<in> ?I"
  proof -
    obtain row where row: "row \<in> set (claim_rows r s)" "jb_id row = i" using taken by auto
    then have "row \<in> set (db_jobs s)" "claimable (db_now s) r row" using claim_rows_sub by blast+
    then show ?thesis using row(2) assms(1,2) by (auto simp: counted_def claimable_def)
  qed
  have ids: "jb_id ` set (db_jobs s') = jb_id ` set (db_jobs s)"
    by (rule ids_map [OF Claim_Inr(1) [OF assms(3)]]) simp
  have "jb_attempts row = int (n + (if i \<in> ?I then 1 else 0))" if row: "row \<in> set (db_jobs s')" "jb_id row = i" for row
  proof -
    obtain x where x: "x \<in> set (db_jobs s)" "row = (if jb_id x \<in> ?I then claim_row r (db_now s) x else x)"
      using row(1) unfolding Claim_Inr(1) [OF assms(3)] by auto
    then have i: "jb_id x = i" using row(2) by (simp split: if_splits)
    then have "jb_attempts x = int n" using x(1) assms(1) by (simp add: counted_def)
    then show ?thesis by (cases "i \<in> ?I") (simp_all only: x(2) i if_True if_False claim_row_simps of_nat_add of_nat_1 of_nat_0 add_0_right)
  qed
  then show ?thesis
    using assms(1) ok low sub unfolding counted_def t ids by (cases "i \<in> ?I") (simp_all only: if_True if_False, auto)
qed

lemma counted_run: "claim_run k i s0 n s \<Longrightarrow> counted k i 0 s0 \<Longrightarrow> counted k i n s"
proof (induction rule: claim_run.induct)
  case (claim n s r res s')
  then have c: "counted k i n s" by simp
  show ?case
  proof (cases res)
    case (Inl e)
    then have "db_jobs s' = db_jobs s" using queue_failed [of "QClaim r" s] claim.hyps(3) by simp
    then show ?thesis using counted_same [OF c] Inl by simp
  next
    case (Inr jobs)
    then show ?thesis using counted_claim [OF c claim.hyps(2)] claim.hyps(3) by simp
  qed
qed (auto intro: counted_call counted_same)

text \<open>
  C28. The attempts of a job are bounded: in a run of any workers, failures, retries and requeues in which every
  claim uses at most \<open>k\<close> as \<open>MaxAttempts\<close>, claims return a job that is new in the run at most \<open>k\<close> times
  altogether, and its column \<open>attempts\<close> is exactly the number of claims that returned it.
\<close>

theorem claims_bounded:
  assumes "jobs_ok s0" "i \<notin> jb_id ` set (db_jobs s0)" "claim_run k i s0 n s" "0 \<le> k"
  shows "int n \<le> k \<and> (\<forall>row\<in>set (db_jobs s). jb_id row = i \<longrightarrow> jb_attempts row = int n)"
proof -
  have "counted k i 0 s0" using assms(1,2,4) by (auto simp: counted_def)
  from counted_run [OF assms(3) this] show ?thesis by (simp add: counted_def)
qed

definition sample_queue_db :: db where
  "sample_queue_db = empty_db\<lparr>db_receipts := [\<lparr>rc_id = ''R'', rc_entity = ''E'', rc_storage_key = [], rc_content_type = [],
     rc_size = 0, rc_status = [], rc_kind = [], rc_total = None, rc_uploaded = 0, rc_attached = None, rc_original = None,
     rc_vendor_id = None, rc_vendor_raw = None\<rparr>]\<rparr>"

text \<open>The instance: a job is enqueued, claimed, failed for a retry, and claimed again.\<close>

definition sample_retry :: "string \<Rightarrow> db \<Rightarrow> db" where
  "sample_retry i s = run_queue (QFail i [] True) (run_queue (QClaim sample_claim) s)"

theorem claims_bounded_witness:
  "let s = run_queue (QEnqueue ''R'' []) sample_queue_db; i = next_uuid sample_queue_db; s' = sample_retry i s in
     times_returned i (fst (Claim sample_claim s)) + times_returned i (fst (Claim sample_claim s')) = 2 \<and>
     list_all (\<lambda>row. jb_id row = i \<longrightarrow> jb_attempts row = 2) (db_jobs (run_queue (QClaim sample_claim) s'))"
proof -
  define s where "s = run_queue (QEnqueue ''R'' []) sample_queue_db"
  define i where "i = next_uuid sample_queue_db"
  define s' where "s' = sample_retry i s"
  have m: "claim_max sample_claim \<le> 5" by (simp add: sample_claim_def claim_max_def)
  have "claim_run 5 i sample_queue_db 0 s"
    unfolding s_def by (rule claim_run.call [OF claim_run.start]) simp
  from claim_run.claim [OF this m prod.collapse [symmetric]]
  have "claim_run 5 i sample_queue_db (0 + times_returned i (fst (Claim sample_claim s))) (run_queue (QClaim sample_claim) s)" by simp
  from claim_run.call [OF this, of "QFail i [] True"]
  have "claim_run 5 i sample_queue_db (0 + times_returned i (fst (Claim sample_claim s))) s'" by (simp add: s'_def sample_retry_def)
  from claim_run.claim [OF this m prod.collapse [symmetric]]
  have r: "claim_run 5 i sample_queue_db (0 + times_returned i (fst (Claim sample_claim s)) + times_returned i (fst (Claim sample_claim s')))
     (run_queue (QClaim sample_claim) s')" by simp
  have e: "times_returned i (fst (Claim sample_claim s)) = 1" "times_returned i (fst (Claim sample_claim s')) = 1"
    unfolding s'_def s_def i_def by code_simp+
  have "jobs_ok sample_queue_db" "i \<notin> jb_id ` set (db_jobs sample_queue_db)"
    by (simp_all add: sample_queue_db_def empty_db_def jobs_ok_def)
  from claims_bounded [OF this r] show ?thesis using e by (simp add: s_def i_def s'_def list_all_iff)
qed

text \<open>
   A requeue does not make an exhausted job available: after any requeue of a job whose attempts have
  reached the workers' limit its status is \<open>queued\<close>, and no claim with that limit ever takes it.
\<close>

theorem requeue_exhausted:
  assumes "jobs_ok s" "row \<in> set (db_jobs s)" "Requeue (jb_id row) s = (Inr (), s1)" "claim_max r \<le> jb_attempts row"
    "Claim r s1 = (Inr jobs, s2)"
  shows "(\<exists>row'\<in>set (db_jobs s1). jb_id row' = jb_id row \<and> jb_status row' = ''queued'') \<and> jb_id row \<notin> j_id ` set jobs"
proof -
  let ?row' = "end_row ''queued'' None (db_now s) row"
  have db: "db_jobs s1 = map (\<lambda>x. if jb_id x = jb_id row then end_row ''queued'' None (db_now s) x else x) (db_jobs s)"
    using assms(3) by (auto simp: Requeue_def stmt_def Let_def update_jobs_def split: if_splits)
  have m: "?row' \<in> set (db_jobs s1)" unfolding db using assms(2) by (auto intro!: image_eqI [of _ _ row])
  have "jobs_ok s1" using jobs_ok_call [OF assms(1), of "QRequeue (jb_id row)"] assms(3) by simp
  then have d: "distinct (map jb_id (db_jobs s1))" by (simp add: jobs_ok_def)
  have "jb_id row \<notin> jb_id ` set (claim_rows r s1)"
  proof
    assume "jb_id row \<in> jb_id ` set (claim_rows r s1)"
    then have "claimable (db_now s1) r ?row'" using claimed_row_claimable [OF d m] by simp
    then show False using assms(4) by (simp add: claimable_def)
  qed
  moreover have "j_id ` set jobs = jb_id ` set (claim_rows r s1)"
    using claimed_set [OF d] unfolding Claim_Inr(2) [OF assms(5)] set_map by (simp add: image_image)
  ultimately show ?thesis using m by (auto intro!: bexI [of _ ?row'])
qed

definition sample_exhausted_db :: db where
  "sample_exhausted_db = empty_db\<lparr>db_jobs := [sample_job ''a'' ''failed'' 5 20]\<rparr>"

theorem requeue_exhausted_witness:
  "\<exists>s1 jobs s2. Requeue ''a'' sample_exhausted_db = (Inr (), s1) \<and> Claim sample_claim s1 = (Inr jobs, s2) \<and> ''a'' \<notin> j_id ` set jobs"
proof -
  define s1 where "s1 = snd (Requeue ''a'' sample_exhausted_db)"
  have "\<not> isl (fst (Requeue ''a'' sample_exhausted_db)) \<and> \<not> isl (fst (Claim sample_claim s1))" unfolding s1_def by code_simp
  then have c: "Claim sample_claim s1 = (Inr (projr (fst (Claim sample_claim s1))), snd (Claim sample_claim s1))"
    and q: "Requeue ''a'' sample_exhausted_db = (Inr (), s1)"
    using result_Inr [of "Requeue ''a'' sample_exhausted_db"] by (auto simp: s1_def intro: result_Inr)
  have "jobs_ok sample_exhausted_db" by (simp add: jobs_ok_def job_ok_def sample_exhausted_db_def sample_job_def)
  from requeue_exhausted [OF this, of "sample_job ''a'' ''failed'' 5 20" s1 sample_claim, OF _ _ _ c] c q
  show ?thesis by (auto simp: sample_exhausted_db_def sample_job_def sample_claim_def claim_max_def)
qed

end
