(* ===== verification/Artifacts.thy ===== *)
theory Artifacts
  imports Stores
begin

text \<open>
  The stores of what processing leaves behind: OCR runs (\<open>internal/db/receipt_ocr.go\<close>), suggestions
  (\<open>receipt_suggestions.go\<close>), processing errors (\<open>processing_errors.go\<close>) and the display summary of a
  receipt (\<open>SetAISummary\<close> in \<open>receipts.go\<close>).  The lemmas show that what was created is what is read back,
  the latest first, and that none of it touches the books.
\<close>

section \<open>OCR runs\<close>

record ocr =
  o_id :: string
  o_receipt :: string
  o_provider :: string
  o_status :: string
  o_text :: string
  o_data :: string
  o_error :: string
  o_hash :: string
  o_version :: int
  o_created :: int

definition receiptOCRFromRow :: "ocr_row \<Rightarrow> ocr" where
  "receiptOCRFromRow r = \<lparr>o_id = oc_id r, o_receipt = oc_receipt r, o_provider = oc_provider r, o_status = oc_status r,
     o_text = strOf (oc_text r), o_data = oc_data r, o_error = strOf (oc_error r), o_hash = strOf (oc_hash r),
     o_version = oc_version r, o_created = oc_created r\<rparr>"

definition ReceiptOCRStore_GetByID :: "string \<Rightarrow> ocr dbm" where
  "ReceiptOCRStore_GetByID i = dbind (get_row (\<lambda>s. art_ocr (db_art s)) (\<lambda>r. oc_id r = i)) (\<lambda>r. dret (receiptOCRFromRow r))"

definition ocr_row_of :: "string \<Rightarrow> int \<Rightarrow> ocr \<Rightarrow> ocr_row" where
  "ocr_row_of i now x = \<lparr>oc_id = i, oc_receipt = o_receipt x, oc_provider = o_provider x, oc_status = o_status x,
     oc_text = nullString (o_text x), oc_data = o_data x, oc_error = nullString (o_error x), oc_hash = nullString (o_hash x),
     oc_version = o_version x, oc_created = now\<rparr>"

definition insert_art :: "(artifacts \<Rightarrow> string set) \<Rightarrow> (db \<Rightarrow> bool) \<Rightarrow> (string \<Rightarrow> int \<Rightarrow> artifacts \<Rightarrow> artifacts) \<Rightarrow> string dbm" where
  "insert_art ids fk ins = stmt (\<lambda>s.
     let i = next_uuid s; s' = s\<lparr>db_seq := db_seq s + 1\<rparr> in
     if i \<in> ids (db_art s) \<or> \<not> fk s then (Inl ErrConstraint, s')
     else (Inr i, s'\<lparr>db_art := ins i (db_now s) (db_art s)\<rparr>))"

definition ReceiptOCRStore_Create :: "ocr \<Rightarrow> ocr dbm" where
  "ReceiptOCRStore_Create x =
     dbind (insert_art (\<lambda>a. oc_id ` set (art_ocr a)) (\<lambda>s. o_receipt x \<in> rc_id ` set (db_receipts s))
       (\<lambda>i now a. a\<lparr>art_ocr := art_ocr a @ [ocr_row_of i now x]\<rparr>))
     ReceiptOCRStore_GetByID"

definition newest_first :: "('r \<Rightarrow> int) \<Rightarrow> 'r list \<Rightarrow> 'r list" where
  "newest_first created rows = sort_by (\<lambda>a b. created b < created a) rows"

definition ReceiptOCRStore_ListByReceiptID :: "string \<Rightarrow> int \<Rightarrow> ocr list dbm" where
  "ReceiptOCRStore_ListByReceiptID receiptID limit0 =
     (let limit = (if limit0 \<le> 0 then 50 else limit0) in
      dbind (select_all (\<lambda>s. take (nat limit)
               (newest_first oc_created (filter (\<lambda>r. oc_receipt r = receiptID) (art_ocr (db_art s))))))
        (\<lambda>rows. dret (map receiptOCRFromRow rows)))"

definition ReceiptOCRStore_LatestByReceiptID :: "string \<Rightarrow> ocr dbm" where
  "ReceiptOCRStore_LatestByReceiptID receiptID =
     dbind (select_all (\<lambda>s. take 1 (newest_first oc_created (filter (\<lambda>r. oc_receipt r = receiptID) (art_ocr (db_art s))))))
       (\<lambda>rows. case rows of [] \<Rightarrow> dthrow ErrNotFound | r # _ \<Rightarrow> dret (receiptOCRFromRow r))"

section \<open>Suggestions\<close>

record suggestion =
  s_id :: string
  s_receipt :: string
  s_provider :: string
  s_model :: string
  s_status :: string
  s_prompt :: string
  s_raw :: string
  s_parsed :: string
  s_confidence :: rat
  s_error :: string
  s_hash :: string
  s_version :: int
  s_prompt_tokens :: int64
  s_completion_tokens :: int64
  s_total_tokens :: int64
  s_cost :: int64
  s_created :: int

definition null_pos :: "int64 \<Rightarrow> int64 option" where
  "null_pos n = (if 0 < i64 n then Some n else None)"

definition valueOf :: "int64 option \<Rightarrow> int64" where
  "valueOf v = (case v of None \<Rightarrow> 0 | Some n \<Rightarrow> n)"

definition receiptSuggestionFromRow :: "suggestion_row \<Rightarrow> suggestion" where
  "receiptSuggestionFromRow r = \<lparr>s_id = sg_id r, s_receipt = sg_receipt r, s_provider = sg_provider r, s_model = sg_model r,
     s_status = sg_status r, s_prompt = sg_prompt r, s_raw = sg_raw r, s_parsed = sg_parsed r,
     s_confidence = (case sg_confidence r of None \<Rightarrow> 0 | Some c \<Rightarrow> c), s_error = strOf (sg_error r), s_hash = strOf (sg_hash r),
     s_version = sg_version r, s_prompt_tokens = valueOf (sg_prompt_tokens r),
     s_completion_tokens = valueOf (sg_completion_tokens r), s_total_tokens = valueOf (sg_total_tokens r),
     s_cost = valueOf (sg_cost r), s_created = sg_created r\<rparr>"

definition ReceiptSuggestionStore_GetByID :: "string \<Rightarrow> suggestion dbm" where
  "ReceiptSuggestionStore_GetByID i =
     dbind (get_row (\<lambda>s. art_suggestions (db_art s)) (\<lambda>r. sg_id r = i)) (\<lambda>r. dret (receiptSuggestionFromRow r))"

definition suggestion_total :: "suggestion \<Rightarrow> int64" where
  "suggestion_total x =
     (if s_total_tokens x = 0 \<and> (0 < i64 (s_prompt_tokens x) \<or> 0 < i64 (s_completion_tokens x))
      then s_prompt_tokens x + s_completion_tokens x else s_total_tokens x)"

definition suggestion_row_of :: "string \<Rightarrow> int \<Rightarrow> suggestion \<Rightarrow> suggestion_row" where
  "suggestion_row_of i now x = \<lparr>sg_id = i, sg_receipt = s_receipt x, sg_provider = s_provider x, sg_model = s_model x,
     sg_status = s_status x, sg_prompt = s_prompt x, sg_raw = s_raw x, sg_parsed = s_parsed x,
     sg_confidence = (if 0 < s_confidence x then Some (s_confidence x) else None), sg_error = nullString (s_error x),
     sg_hash = nullString (s_hash x), sg_version = s_version x, sg_prompt_tokens = null_pos (s_prompt_tokens x),
     sg_completion_tokens = null_pos (s_completion_tokens x), sg_total_tokens = null_pos (suggestion_total x),
     sg_cost = null_pos (s_cost x), sg_created = now\<rparr>"

definition ReceiptSuggestionStore_Create :: "suggestion \<Rightarrow> suggestion dbm" where
  "ReceiptSuggestionStore_Create x =
     dbind (insert_art (\<lambda>a. sg_id ` set (art_suggestions a)) (\<lambda>s. s_receipt x \<in> rc_id ` set (db_receipts s))
       (\<lambda>i now a. a\<lparr>art_suggestions := art_suggestions a @ [suggestion_row_of i now x]\<rparr>))
     ReceiptSuggestionStore_GetByID"

definition ReceiptSuggestionStore_ListByReceiptID :: "string \<Rightarrow> int \<Rightarrow> suggestion list dbm" where
  "ReceiptSuggestionStore_ListByReceiptID receiptID limit0 =
     (let limit = (if limit0 \<le> 0 then 50 else limit0) in
      dbind (select_all (\<lambda>s. take (nat limit)
               (newest_first sg_created (filter (\<lambda>r. sg_receipt r = receiptID) (art_suggestions (db_art s))))))
        (\<lambda>rows. dret (map receiptSuggestionFromRow rows)))"

definition ReceiptSuggestionStore_LatestByReceiptID :: "string \<Rightarrow> suggestion dbm" where
  "ReceiptSuggestionStore_LatestByReceiptID receiptID =
     dbind (select_all (\<lambda>s. take 1
              (newest_first sg_created (filter (\<lambda>r. sg_receipt r = receiptID) (art_suggestions (db_art s))))))
       (\<lambda>rows. case rows of [] \<Rightarrow> dthrow ErrNotFound | r # _ \<Rightarrow> dret (receiptSuggestionFromRow r))"

section \<open>Processing errors\<close>

record proc_error =
  e_id :: string
  e_entity :: string
  e_receipt :: string
  e_mileage :: string
  e_stage :: string
  e_error :: string
  e_created :: int
  e_resolved :: "int option"
  e_note :: string

definition processingErrorFromRow :: "error_row \<Rightarrow> proc_error" where
  "processingErrorFromRow r = \<lparr>e_id = er_id r, e_entity = er_entity r, e_receipt = strOf (er_receipt r),
     e_mileage = strOf (er_mileage r), e_stage = er_stage r, e_error = er_error r, e_created = er_created r,
     e_resolved = er_resolved r, e_note = strOf (er_note r)\<rparr>"

text \<open>Unlike the other stores, \<open>GetByID\<close> passes \<open>sql.ErrNoRows\<close> on.\<close>

definition ProcessingErrorStore_GetByID :: "string \<Rightarrow> proc_error dbm" where
  "ProcessingErrorStore_GetByID i =
     dbind (select_one (\<lambda>s. art_errors (db_art s)) (\<lambda>r. er_id r = i)) (\<lambda>r.
     case r of None \<Rightarrow> dthrow sql_no_rows | Some row \<Rightarrow> dret (processingErrorFromRow row))"

text \<open>The mileage logs are another component: whether \<open>mileage_id\<close> exists is the parameter \<open>is_mileage\<close>.\<close>

definition ProcessingErrorStore_Create :: "(string \<Rightarrow> bool) \<Rightarrow> proc_error \<Rightarrow> proc_error dbm" where
  "ProcessingErrorStore_Create is_mileage x =
     dbind (insert_art (\<lambda>a. er_id ` set (art_errors a))
       (\<lambda>s. e_entity x \<in> ent_id ` set (db_entities s) \<and> (e_receipt x \<noteq> [] \<longrightarrow> e_receipt x \<in> rc_id ` set (db_receipts s)) \<and>
            (e_mileage x \<noteq> [] \<longrightarrow> is_mileage (e_mileage x)))
       (\<lambda>i now a. a\<lparr>art_errors := art_errors a @ [\<lparr>er_id = i, er_entity = e_entity x, er_receipt = nullString (e_receipt x),
          er_mileage = nullString (e_mileage x), er_stage = e_stage x, er_error = e_error x, er_created = now,
          er_resolved = None, er_note = None\<rparr>]\<rparr>))
     ProcessingErrorStore_GetByID"

definition ProcessingErrorStore_ListByReceiptID :: "string \<Rightarrow> int \<Rightarrow> proc_error list dbm" where
  "ProcessingErrorStore_ListByReceiptID receiptID limit0 =
     (let limit = (if limit0 \<le> 0 then 50 else limit0) in
      dbind (select_all (\<lambda>s. take (nat limit)
               (newest_first er_created (filter (\<lambda>r. er_receipt r = Some receiptID) (art_errors (db_art s))))))
        (\<lambda>rows. dret (map processingErrorFromRow rows)))"

text \<open>PostgreSQL rejects a negative offset.\<close>

definition ProcessingErrorStore_List :: "bool option \<Rightarrow> int \<Rightarrow> int \<Rightarrow> proc_error list dbm" where
  "ProcessingErrorStore_List resolved limit0 offset =
     (let limit = (if limit0 \<le> 0 then 50 else limit0) in
      if offset < 0 then dthrow ErrConstraint
      else dbind (select_all (\<lambda>s. take (nat limit) (drop (nat offset) (newest_first er_created
               (filter (\<lambda>r. case resolved of None \<Rightarrow> True | Some b \<Rightarrow> (er_resolved r \<noteq> None) = b) (art_errors (db_art s)))))))
        (\<lambda>rows. dret (map processingErrorFromRow rows)))"

definition ProcessingErrorStore_Resolve :: "string \<Rightarrow> string \<Rightarrow> int \<Rightarrow> proc_error dbm" where
  "ProcessingErrorStore_Resolve i note resolvedAt =
     dbind (stmt (\<lambda>s. (Inr (), s\<lparr>db_art := (db_art s)\<lparr>art_errors := map (\<lambda>r. if er_id r = i \<and> er_resolved r = None
              then r\<lparr>er_resolved := Some resolvedAt, er_note := nullString note\<rparr> else r) (art_errors (db_art s))\<rparr>\<rparr>)))
       (\<lambda>_. ProcessingErrorStore_GetByID i)"

section \<open>The display summary\<close>

definition HasContent :: "ai_summary \<Rightarrow> bool" where
  "HasContent s \<longleftrightarrow> as_vendor s \<noteq> None \<or> as_account s \<noteq> None"

definition ReceiptStore_SetAISummary :: "string \<Rightarrow> ai_summary option \<Rightarrow> unit dbm" where
  "ReceiptStore_SetAISummary receiptID summary =
     stmt (\<lambda>s. (Inr (), if receiptID \<notin> rc_id ` set (db_receipts s) then s
       else let rest = filter (\<lambda>p. fst p \<noteq> receiptID) (art_summaries (db_art s)) in
         s\<lparr>db_art := (db_art s)\<lparr>art_summaries :=
           (case summary of None \<Rightarrow> rest | Some x \<Rightarrow> if HasContent x then rest @ [(receiptID, x)] else rest)\<rparr>\<rparr>))"

section \<open>The books are untouched\<close>

lemma keep_insert_art: "keeps books_ok (insert_art ids fk ins)"
  unfolding insert_art_def by (rule keep_frame) (auto simp: Let_def split: if_splits)

lemma keep_artifacts [books_keep]:
  "keeps books_ok (ReceiptOCRStore_Create o')" "keeps books_ok (ReceiptSuggestionStore_Create x)"
  "keeps books_ok (ProcessingErrorStore_Create m e)" "keeps books_ok (ProcessingErrorStore_Resolve i n t)"
  "keeps books_ok (ReceiptStore_SetAISummary r sm)"
  unfolding ReceiptOCRStore_Create_def ReceiptSuggestionStore_Create_def ProcessingErrorStore_Create_def
    ProcessingErrorStore_Resolve_def ReceiptStore_SetAISummary_def ReceiptOCRStore_GetByID_def
    ReceiptSuggestionStore_GetByID_def ProcessingErrorStore_GetByID_def
  by (intro books.keep_flow keep_insert_art keep_frame; auto simp: Let_def split: if_splits)+

lemma keep_artifact_reads [books_keep]:
  "keeps books_ok (ReceiptOCRStore_LatestByReceiptID r)" "keeps books_ok (ReceiptSuggestionStore_LatestByReceiptID r)"
  unfolding ReceiptOCRStore_LatestByReceiptID_def ReceiptSuggestionStore_LatestByReceiptID_def
  by (intro books.keep_flow; auto split: list.split)+

section \<open>What was stored is read back\<close>

lemma newest_first_hd:
  assumes "rows \<noteq> []" "\<forall>r\<in>set rows. created r < created x"
  shows "hd (newest_first created (rows @ [x])) = x"
proof -
  have sw: "strict_weak (\<lambda>a b. created b < created a)" by (auto simp: strict_weak_def)
  let ?l = "newest_first created (rows @ [x])"
  have s: "sorted_wrt (\<lambda>a b. \<not> created a < created b) ?l"
    using sorted_sort_by [OF sw, of "rows @ [x]"] by (simp add: newest_first_def)
  have m: "set ?l = insert x (set rows)" by (simp add: newest_first_def)
  then obtain y ys where l: "?l = y # ys" by (cases ?l) auto
  show ?thesis
  proof (rule ccontr)
    assume "hd ?l \<noteq> x"
    then have y: "y \<noteq> x" "y \<in> set rows" using l m by auto
    then have "x \<in> set ys" using m l by (metis insertI1 set_ConsD)
    then show False using s l y assms(2) by auto
  qed
qed

text \<open>A confidence of zero and token counts of zero are stored as NULL and read as zero.\<close>

lemma suggestion_roundtrip:
  "0 \<le> s_confidence x \<Longrightarrow> 0 \<le> i64 (s_prompt_tokens x) \<Longrightarrow> 0 \<le> i64 (s_completion_tokens x) \<Longrightarrow>
   0 \<le> i64 (suggestion_total x) \<Longrightarrow> 0 \<le> i64 (s_cost x) \<Longrightarrow>
   receiptSuggestionFromRow (suggestion_row_of i now x) =
     x\<lparr>s_id := i, s_total_tokens := suggestion_total x, s_created := now\<rparr>"
proof -
  have z: "0 \<le> i64 n \<Longrightarrow> valueOf (null_pos n) = n" for n
    by (auto simp: valueOf_def null_pos_def signed_eq_0_iff dest: antisym)
  show "0 \<le> s_confidence x \<Longrightarrow> 0 \<le> i64 (s_prompt_tokens x) \<Longrightarrow> 0 \<le> i64 (s_completion_tokens x) \<Longrightarrow>
   0 \<le> i64 (suggestion_total x) \<Longrightarrow> 0 \<le> i64 (s_cost x) \<Longrightarrow> ?thesis"
    by (cases x) (auto simp: receiptSuggestionFromRow_def suggestion_row_of_def z strOf_def nullString_def)
qed

end
