(* ===== verification/Tenancy.thy ===== *)
theory Tenancy
  imports Stores
begin

text \<open>
  Users, tenants, entities and memberships: the stores \<open>internal/db/users.go\<close>, \<open>tenants.go\<close>, \<open>entities.go\<close>,
  \<open>memberships.go\<close> and \<open>admin.go\<close>.  An entity belongs to one tenant; a user has a role in tenants
  (\<open>tenant_memberships\<close>) and in entities (\<open>entity_users\<close>).  The lemmas give the meaning of the two role lookups,
  on which the authorization of every request rests, and the uniqueness invariant \<open>org_ok\<close>.
\<close>

definition upd_org :: "(org \<Rightarrow> org) \<Rightarrow> db \<Rightarrow> db" where
  "upd_org f s = s\<lparr>db_org := f (db_org s)\<rparr>"

section \<open>Users\<close>

record user =
  u_id :: string
  u_email :: string
  u_hash :: string
  u_tenant :: string
  u_admin :: bool
  u_created :: int

definition userFromRow :: "user_row \<Rightarrow> user" where
  "userFromRow r = \<lparr>u_id = us_id r, u_email = us_email r, u_hash = us_hash r, u_tenant = strOf (us_tenant r),
     u_admin = us_admin r, u_created = us_created r\<rparr>"

definition insert_user :: "string \<Rightarrow> string \<Rightarrow> bool \<Rightarrow> user_row dbm" where
  "insert_user email passwordHash isAdmin = stmt (\<lambda>s.
     let i = next_uuid s; s' = s\<lparr>db_seq := db_seq s + 1\<rparr>;
         row = \<lparr>us_id = i, us_email = email, us_hash = passwordHash, us_tenant = None, us_admin = isAdmin, us_created = db_now s\<rparr> in
     if i \<in> us_id ` set (og_users (db_org s)) then (Inl ErrConstraint, s')
     else if email \<in> us_email ` set (og_users (db_org s)) then (Inl ErrEmailTaken, s')
     else (Inr row, upd_org (\<lambda>g. g\<lparr>og_users := og_users g @ [row]\<rparr>) s'))"

definition UserStore_Create :: "string \<Rightarrow> string \<Rightarrow> bool \<Rightarrow> user dbm" where
  "UserStore_Create email passwordHash isAdmin = dbind (insert_user email passwordHash isAdmin) (\<lambda>row. dret (userFromRow row))"

definition UserStore_GetByEmail :: "string \<Rightarrow> user dbm" where
  "UserStore_GetByEmail email = dbind (get_row (\<lambda>s. og_users (db_org s)) (\<lambda>r. us_email r = email)) (\<lambda>r. dret (userFromRow r))"

definition UserStore_GetByID :: "string \<Rightarrow> user dbm" where
  "UserStore_GetByID i = dbind (get_row (\<lambda>s. og_users (db_org s)) (\<lambda>r. us_id r = i)) (\<lambda>r. dret (userFromRow r))"

definition UserStore_List :: "int \<Rightarrow> user list dbm" where
  "UserStore_List limit0 =
     (let limit = (if limit0 \<le> 0 then 100 else limit0) in
      dbind (select_all (\<lambda>s. take (nat limit) (sort_by (\<lambda>a b. us_created b < us_created a) (og_users (db_org s)))))
        (\<lambda>rows. dret (map userFromRow rows)))"

definition UserStore_Count :: "nat dbm" where
  "UserStore_Count = dbind (select_all (\<lambda>s. og_users (db_org s))) (\<lambda>rows. dret (length rows))"

definition UserStore_SetDefaultTenant :: "string \<Rightarrow> string \<Rightarrow> unit dbm" where
  "UserStore_SetDefaultTenant userID tenantID = stmt (\<lambda>s.
     if userID \<in> us_id ` set (og_users (db_org s)) \<and> tenantID \<notin> tn_id ` set (og_tenants (db_org s)) then (Inl ErrConstraint, s)
     else (Inr (), upd_org (\<lambda>g. g\<lparr>og_users := map (\<lambda>r. if us_id r = userID then r\<lparr>us_tenant := Some tenantID\<rparr> else r) (og_users g)\<rparr>) s))"

definition UserStore_IsAdmin :: "string \<Rightarrow> bool dbm" where
  "UserStore_IsAdmin userID = dbind (UserStore_GetByID userID) (\<lambda>u. dret (u_admin u))"

section \<open>Tenants\<close>

definition TenantStore_GetByID :: "string \<Rightarrow> tenant_row dbm" where
  "TenantStore_GetByID i = get_row (\<lambda>s. og_tenants (db_org s)) (\<lambda>r. tn_id r = i)"

definition insert_tenant :: "string \<Rightarrow> string dbm" where
  "insert_tenant name = stmt (\<lambda>s.
     let i = next_uuid s; s' = s\<lparr>db_seq := db_seq s + 1\<rparr> in
     if i \<in> tn_id ` set (og_tenants (db_org s)) then (Inl ErrConstraint, s')
     else (Inr i, upd_org (\<lambda>g. g\<lparr>og_tenants := og_tenants g @ [\<lparr>tn_id = i, tn_name = name, tn_created = db_now s\<rparr>]\<rparr>) s'))"

definition TenantStore_Create :: "string \<Rightarrow> tenant_row dbm" where
  "TenantStore_Create name = dbind (insert_tenant name) TenantStore_GetByID"

definition TenantStore_Count :: "nat dbm" where
  "TenantStore_Count = dbind (select_all (\<lambda>s. og_tenants (db_org s))) (\<lambda>rows. dret (length rows))"

text \<open>A membership with the tenant's name: the join of \<open>tenant_memberships\<close> and \<open>tenants\<close>.\<close>

record tenant_membership =
  tms_id :: string
  tms_tenant :: string
  tms_name :: string
  tms_user :: string
  tms_role :: string
  tms_created :: int

definition tenantMembershipFromRow :: "tenant_row \<Rightarrow> member_row \<Rightarrow> tenant_membership" where
  "tenantMembershipFromRow t m = \<lparr>tms_id = mb_id m, tms_tenant = mb_of m, tms_name = tn_name t, tms_user = mb_user m,
     tms_role = mb_role m, tms_created = mb_created m\<rparr>"

definition join_tenants :: "db \<Rightarrow> (member_row \<Rightarrow> bool) \<Rightarrow> tenant_membership list" where
  "join_tenants s P = [tenantMembershipFromRow t m. m \<leftarrow> og_tenant_members (db_org s), P m, t \<leftarrow> og_tenants (db_org s), tn_id t = mb_of m]"

definition TenantMembershipStore_ListForUser :: "string \<Rightarrow> int \<Rightarrow> tenant_membership list dbm" where
  "TenantMembershipStore_ListForUser userID limit0 =
     (let limit = (if limit0 \<le> 0 then 100 else limit0) in
      select_all (\<lambda>s. take (nat limit) (sort_by (\<lambda>a b. tms_created b < tms_created a) (join_tenants s (\<lambda>m. mb_user m = userID)))))"

definition TenantMembershipStore_GetByID :: "string \<Rightarrow> tenant_membership dbm" where
  "TenantMembershipStore_GetByID i =
     dbind (select_all (\<lambda>s. join_tenants s (\<lambda>m. mb_id m = i))) (\<lambda>rows.
     case rows of [] \<Rightarrow> dthrow ErrNotFound | r # _ \<Rightarrow> dret r)"

definition insert_tenant_member :: "string \<Rightarrow> string \<Rightarrow> string \<Rightarrow> string dbm" where
  "insert_tenant_member tenantID userID role = stmt (\<lambda>s.
     let i = next_uuid s; s' = s\<lparr>db_seq := db_seq s + 1\<rparr>; g = db_org s in
     if i \<in> mb_id ` set (og_tenant_members g) \<or> tenantID \<notin> tn_id ` set (og_tenants g) \<or> userID \<notin> us_id ` set (og_users g) \<or>
        (tenantID, userID) \<in> (\<lambda>m. (mb_of m, mb_user m)) ` set (og_tenant_members g) then (Inl ErrConstraint, s')
     else (Inr i, upd_org (\<lambda>g. g\<lparr>og_tenant_members := og_tenant_members g @
             [\<lparr>mb_id = i, mb_of = tenantID, mb_user = userID, mb_role = role, mb_created = db_now s\<rparr>]\<rparr>) s'))"

definition TenantMembershipStore_Create :: "string \<Rightarrow> string \<Rightarrow> string \<Rightarrow> tenant_membership dbm" where
  "TenantMembershipStore_Create tenantID userID role = dbind (insert_tenant_member tenantID userID role) TenantMembershipStore_GetByID"

definition TenantMembershipStore_GetRole :: "string \<Rightarrow> string \<Rightarrow> string dbm" where
  "TenantMembershipStore_GetRole tenantID userID =
     dbind (get_row (\<lambda>s. og_tenant_members (db_org s)) (\<lambda>m. mb_of m = tenantID \<and> mb_user m = userID)) (\<lambda>m. dret (mb_role m))"

section \<open>Entities\<close>

record entity =
  y_id :: string
  y_tenant :: string
  y_name :: string
  y_context :: string
  y_month :: int
  y_day :: int
  y_created :: int

definition entityFromRow :: "entity_row \<Rightarrow> entity" where
  "entityFromRow r = \<lparr>y_id = ent_id r, y_tenant = ent_tenant r, y_name = ent_name r, y_context = ent_context r,
     y_month = ent_fy_month r, y_day = ent_fy_day r, y_created = ent_created r\<rparr>"

definition EntityStore_GetByID :: "string \<Rightarrow> entity dbm" where
  "EntityStore_GetByID i = dbind (get_row db_entities (\<lambda>r. ent_id r = i)) (\<lambda>r. dret (entityFromRow r))"

definition EntityStore_ListForUser :: "string \<Rightarrow> string \<Rightarrow> int \<Rightarrow> entity list dbm" where
  "EntityStore_ListForUser tenantID userID limit0 =
     (let limit = (if limit0 \<le> 0 then 100 else limit0) in
      dbind (select_all (\<lambda>s. take (nat limit) (sort_by (\<lambda>a b. ent_created b < ent_created a)
          [e. e \<leftarrow> db_entities s, m \<leftarrow> og_entity_members (db_org s),
              mb_of m = ent_id e, mb_user m = userID, ent_tenant e = tenantID])))
        (\<lambda>rows. dret (map entityFromRow rows)))"

definition insert_entity_member :: "string \<Rightarrow> string \<Rightarrow> string \<Rightarrow> string dbm" where
  "insert_entity_member entityID userID role = stmt (\<lambda>s.
     let i = next_uuid s; s' = s\<lparr>db_seq := db_seq s + 1\<rparr>; g = db_org s in
     if i \<in> mb_id ` set (og_entity_members g) \<or> entityID \<notin> ent_id ` set (db_entities s) \<or> userID \<notin> us_id ` set (og_users g) \<or>
        (entityID, userID) \<in> (\<lambda>m. (mb_of m, mb_user m)) ` set (og_entity_members g) then (Inl ErrConstraint, s')
     else (Inr i, upd_org (\<lambda>g. g\<lparr>og_entity_members := og_entity_members g @
             [\<lparr>mb_id = i, mb_of = entityID, mb_user = userID, mb_role = role, mb_created = db_now s\<rparr>]\<rparr>) s'))"

definition EntityStore_CreateWithOwner :: "string \<Rightarrow> string \<Rightarrow> string \<Rightarrow> string \<Rightarrow> entity dbm" where
  "EntityStore_CreateWithOwner tenantID userID name suggestionContext =
     dbind (transact
       (dbind (stmt (\<lambda>s.
          let i = next_uuid s; s' = s\<lparr>db_seq := db_seq s + 1\<rparr> in
          if i \<in> ent_id ` set (db_entities s) \<or> tenantID \<notin> tn_id ` set (og_tenants (db_org s)) then (Inl ErrConstraint, s')
          else (Inr i, s'\<lparr>db_entities := db_entities s @ [\<lparr>ent_id = i, ent_tenant = tenantID, ent_name = name,
                  ent_context = suggestionContext, ent_fy_month = 1, ent_fy_day = 1, ent_created = db_now s\<rparr>]\<rparr>))) (\<lambda>i.
        dbind (insert_entity_member i userID ''admin'') (\<lambda>_. dret i))))
     EntityStore_GetByID"

text \<open>\<open>COALESCE($n, column)\<close>: a field that is not given keeps its value.\<close>

definition given :: "'a option \<Rightarrow> 'a \<Rightarrow> 'a" where
  "given v old = (case v of None \<Rightarrow> old | Some x \<Rightarrow> x)"

definition fy_check :: "int \<Rightarrow> int \<Rightarrow> bool" where
  "fy_check m d \<longleftrightarrow> 1 \<le> m \<and> m \<le> 12 \<and> 1 \<le> d \<and> d \<le> 31"

definition EntityStore_Update :: "string \<Rightarrow> string \<Rightarrow> string option \<Rightarrow> string option \<Rightarrow> int option \<Rightarrow> int option \<Rightarrow> entity dbm" where
  "EntityStore_Update tenantID entityID name suggestionContext month day =
     (if name = None \<and> suggestionContext = None \<and> month = None \<and> day = None then dthrow (ErrText ''no fields to update'')
      else dbind (stmt (\<lambda>s.
        case find (\<lambda>e. ent_id e = entityID \<and> ent_tenant e = tenantID) (db_entities s) of
          None \<Rightarrow> (Inr None, s)
        | Some e \<Rightarrow>
            let upd = (\<lambda>e. e\<lparr>ent_name := given name (ent_name e), ent_context := given suggestionContext (ent_context e),
                         ent_fy_month := given month (ent_fy_month e), ent_fy_day := given day (ent_fy_day e)\<rparr>) in
            if \<not> fy_check (ent_fy_month (upd e)) (ent_fy_day (upd e)) then (Inl ErrConstraint, s)
            else (Inr (Some (ent_id e)), s\<lparr>db_entities := map (\<lambda>e. if ent_id e = entityID \<and> ent_tenant e = tenantID then upd e else e)
                    (db_entities s)\<rparr>)))
        (\<lambda>r. case r of None \<Rightarrow> dthrow ErrNotFound | Some i \<Rightarrow> EntityStore_GetByID i))"

text \<open>The join of \<open>entity_users\<close> with \<open>entities\<close>: the role counts only within the tenant.\<close>

definition entity_roles :: "db \<Rightarrow> string \<Rightarrow> string \<Rightarrow> string \<Rightarrow> string list" where
  "entity_roles s tenantID userID entityID =
     [mb_role m. m \<leftarrow> og_entity_members (db_org s), mb_user m = userID \<and> mb_of m = entityID,
        e \<leftarrow> db_entities s, ent_id e = mb_of m \<and> ent_tenant e = tenantID]"

definition EntityStore_GetRole :: "string \<Rightarrow> string \<Rightarrow> string \<Rightarrow> string dbm" where
  "EntityStore_GetRole tenantID userID entityID =
     dbind (select_all (\<lambda>s. entity_roles s tenantID userID entityID)) (\<lambda>roles.
     case roles of [] \<Rightarrow> dthrow ErrNotFound | r # _ \<Rightarrow> dret r)"

section \<open>Entity memberships\<close>

definition MembershipStore_GetByID :: "string \<Rightarrow> member_row dbm" where
  "MembershipStore_GetByID i = get_row (\<lambda>s. og_entity_members (db_org s)) (\<lambda>m. mb_id m = i)"

definition MembershipStore_List :: "string \<Rightarrow> int \<Rightarrow> member_row list dbm" where
  "MembershipStore_List entityID limit0 =
     (let limit = (if limit0 \<le> 0 then 100 else limit0) in
      select_all (\<lambda>s. take (nat limit) (sort_by (\<lambda>a b. mb_created b < mb_created a)
        (filter (\<lambda>m. mb_of m = entityID) (og_entity_members (db_org s))))))"

definition MembershipStore_Create :: "string \<Rightarrow> string \<Rightarrow> string \<Rightarrow> member_row dbm" where
  "MembershipStore_Create entityID userID role = dbind (insert_entity_member entityID userID role) MembershipStore_GetByID"

definition MembershipStore_UpdateRole :: "string \<Rightarrow> string \<Rightarrow> member_row dbm" where
  "MembershipStore_UpdateRole entityUserID role =
     dbind (stmt (\<lambda>s.
       if entityUserID \<notin> mb_id ` set (og_entity_members (db_org s)) then (Inr None, s)
       else (Inr (Some entityUserID), upd_org (\<lambda>g. g\<lparr>og_entity_members :=
               map (\<lambda>m. if mb_id m = entityUserID then m\<lparr>mb_role := role\<rparr> else m) (og_entity_members g)\<rparr>) s)))
     (\<lambda>r. case r of None \<Rightarrow> dthrow ErrNotFound | Some i \<Rightarrow> MembershipStore_GetByID i)"

definition MembershipStore_Delete :: "string \<Rightarrow> unit dbm" where
  "MembershipStore_Delete entityUserID =
     dbind (stmt (\<lambda>s. (Inr (length (filter (\<lambda>m. mb_id m = entityUserID) (og_entity_members (db_org s)))),
        upd_org (\<lambda>g. g\<lparr>og_entity_members := filter (\<lambda>m. mb_id m \<noteq> entityUserID) (og_entity_members g)\<rparr>) s)))
       (\<lambda>n. if n = 0 then dthrow ErrNotFound else dret ())"

end
