(* ===== verification/Authz.thy ===== *)
theory Authz
  imports Tenancy Ledger_Http
begin

text \<open>
  Authorization of requests: the middleware of \<open>internal/http/authz.go\<close> and \<open>middleware.go\<close> with the resolvers that
  find the entity a request is about, and the membership handlers of \<open>internal/http/server.go\<close>.

  A request carries what gin gives the code: the claims of the access token, path, query and form parameters
  and the JSON body.  A body is the list of its members in order, since Go reads it twice: the middleware into a
  map (exact keys, the last one wins), the handler into a struct (keys compared without case, the last one wins).
  The theorems say when a request passes, that passing implies a role in an entity of the token's tenant, and where
  the two readings of a body and of a path let a request act outside the entity it was authorized for.
\<close>

section \<open>Requests\<close>

datatype jval =
    JStr string
  | JNull
  | JArr "jval list"
  | JOther

type_synonym json_body = "(string \<times> jval) list option"

record rq =
  rq_user :: "string option"
  rq_tenant :: "string option"
  rq_param :: "string \<Rightarrow> string"
  rq_query :: "string \<Rightarrow> string"
  rq_form :: "string \<Rightarrow> string"
  rq_json :: json_body

text \<open>The values that middleware puts into the request context.\<close>

record cx =
  cx_entity :: "string option"
  cx_entities :: "string list option"
  cx_role :: "string option"
  cx_tenant_role :: "string option"
  cx_target :: "string option"

definition empty_cx :: cx where
  "empty_cx = \<lparr>cx_entity = None, cx_entities = None, cx_role = None, cx_tenant_role = None, cx_target = None\<rparr>"

text \<open>Middleware aborts with a response (\<open>Inl\<close>) or lets the request go on (\<open>Inr\<close>).\<close>

type_synonym middleware = "rq \<Rightarrow> cx \<Rightarrow> db \<Rightarrow> (response + cx) \<times> db"

definition abort :: "int \<Rightarrow> string \<Rightarrow> db \<Rightarrow> (response + cx) \<times> db" where
  "abort status code s = (Inl (status, BError code), s)"

definition unauthorized :: "db \<Rightarrow> (response + cx) \<times> db" where
  "unauthorized = abort 401 ''UNAUTHORIZED''"

definition mcall :: "'a dbm \<Rightarrow> (db_error \<Rightarrow> db \<Rightarrow> (response + cx) \<times> db) \<Rightarrow> ('a \<Rightarrow> db \<Rightarrow> (response + cx) \<times> db) \<Rightarrow>
    db \<Rightarrow> (response + cx) \<times> db" where
  "mcall m onErr k s = (case m s of (Inl e, s') \<Rightarrow> onErr e s' | (Inr x, s') \<Rightarrow> k x s')"

text \<open>\<open>ErrNotFound\<close> of a role lookup is 403, any other error 500.\<close>

definition forbid :: "db_error \<Rightarrow> db \<Rightarrow> (response + cx) \<times> db" where
  "forbid e = (if e = ErrNotFound then abort 403 ''FORBIDDEN'' else abort 500 ''INTERNAL_ERROR'')"

section \<open>Reading a body\<close>

text \<open>Into \<open>map[string]interface{}\<close>: the last member with exactly this key.\<close>

definition json_map :: "(string \<times> jval) list \<Rightarrow> string \<rightharpoonup> jval" where
  "json_map ps = map_of (rev ps)"

text \<open>Into a string field of a struct: every member whose key matches without case assigns it, \<open>null\<close> leaves it,
  another kind of value is an error (\<open>None\<close>).\<close>

fun json_field_from :: "string \<Rightarrow> string \<Rightarrow> (string \<times> jval) list \<Rightarrow> string option" where
  "json_field_from name v [] = Some v"
| "json_field_from name v ((k, x) # ps) =
     (if to_lower k = to_lower name then
        (case x of JStr t \<Rightarrow> json_field_from name t ps | JNull \<Rightarrow> json_field_from name v ps | _ \<Rightarrow> None)
      else json_field_from name v ps)"

definition json_field :: "string \<Rightarrow> (string \<times> jval) list \<Rightarrow> string option" where
  "json_field name ps = json_field_from name [] ps"

text \<open>Into \<open>map[string]string\<close> and \<open>map[string][]string\<close>: every value has to fit.\<close>

definition json_strings :: "(string \<times> jval) list \<Rightarrow> bool" where
  "json_strings ps \<longleftrightarrow> list_all (\<lambda>p. case snd p of JStr _ \<Rightarrow> True | JNull \<Rightarrow> True | _ \<Rightarrow> False) ps"

definition string_value :: "jval option \<Rightarrow> string" where
  "string_value v = (case v of Some (JStr t) \<Rightarrow> t | _ \<Rightarrow> [])"

definition json_string_lists :: "(string \<times> jval) list \<Rightarrow> bool" where
  "json_string_lists ps \<longleftrightarrow> list_all (\<lambda>p. case snd p of
     JArr xs \<Rightarrow> list_all (\<lambda>x. case x of JStr _ \<Rightarrow> True | JNull \<Rightarrow> True | _ \<Rightarrow> False) xs | JNull \<Rightarrow> True | _ \<Rightarrow> False) ps"

definition list_value :: "jval option \<Rightarrow> string list" where
  "list_value v = (case v of Some (JArr xs) \<Rightarrow> map (\<lambda>x. string_value (Some x)) xs | _ \<Rightarrow> [])"

section \<open>Resolvers\<close>

datatype resolve_error =
    RMissing
  | RBadRequest
  | RDb db_error

type_synonym 'a resolver = "rq \<Rightarrow> db \<Rightarrow> (resolve_error + 'a) \<times> db"

definition resolved :: "'e + 'a \<Rightarrow> db \<Rightarrow> ('e + 'a) \<times> db" where
  "resolved r s = (r, s)"

definition not_empty :: "string \<Rightarrow> resolve_error + string" where
  "not_empty v = (if v = [] then Inl RMissing else Inr v)"

definition entityIDFromParam :: "string \<Rightarrow> string resolver" where
  "entityIDFromParam name rq = resolved (not_empty (rq_param rq name))"

definition entityIDFromQuery :: "string \<Rightarrow> string resolver" where
  "entityIDFromQuery name rq = resolved (not_empty (rq_query rq name))"

definition entityIDFromForm :: "string \<Rightarrow> string resolver" where
  "entityIDFromForm name rq = resolved (not_empty (rq_form rq name))"

definition body_string :: "string \<Rightarrow> rq \<Rightarrow> resolve_error + string" where
  "body_string name rq =
     (case rq_json rq of
        None \<Rightarrow> Inl RBadRequest
      | Some ps \<Rightarrow> (case json_map ps name of Some (JStr v) \<Rightarrow> not_empty v | _ \<Rightarrow> Inl RMissing))"

definition entityIDFromJSON :: "string \<Rightarrow> string resolver" where
  "entityIDFromJSON name rq = resolved (body_string name rq)"

text \<open>\<open>entityIDFromAccountParam\<close> and its siblings: an object's identifier, then the store's \<open>GetEntityID\<close>, which is
  absent when the store is not configured.\<close>

definition lookup_entity :: "(string \<Rightarrow> string dbm) option \<Rightarrow> resolve_error + string \<Rightarrow> db \<Rightarrow> (resolve_error + string) \<times> db" where
  "lookup_entity store i s =
     (case store of
        None \<Rightarrow> (Inl (RDb ErrUnavailable), s)
      | Some get \<Rightarrow>
          (case i of
             Inl e \<Rightarrow> (Inl e, s)
           | Inr v \<Rightarrow> (case get v s of (Inl e, s') \<Rightarrow> (Inl (RDb e), s') | (Inr ent, s') \<Rightarrow> (Inr ent, s'))))"

record object_stores =
  os_accounts :: "(string \<Rightarrow> string dbm) option"
  os_statements :: "(string \<Rightarrow> string dbm) option"
  os_receipts :: "(string \<Rightarrow> string dbm) option"
  os_vendor_rules :: "(string \<Rightarrow> string dbm) option"
  os_vendors :: "(string \<Rightarrow> string dbm) option"
  os_mileage :: "(string \<Rightarrow> string dbm) option"

definition entityIDFromAccountParam :: "object_stores \<Rightarrow> string \<Rightarrow> string resolver" where
  "entityIDFromAccountParam os name rq = lookup_entity (os_accounts os) (not_empty (rq_param rq name))"

definition entityIDFromAccountStatementParam :: "object_stores \<Rightarrow> string \<Rightarrow> string resolver" where
  "entityIDFromAccountStatementParam os name rq = lookup_entity (os_statements os) (not_empty (rq_param rq name))"

definition entityIDFromReceiptParam :: "object_stores \<Rightarrow> string \<Rightarrow> string resolver" where
  "entityIDFromReceiptParam os name rq = lookup_entity (os_receipts os) (not_empty (rq_param rq name))"

definition entityIDFromReceiptJSON :: "object_stores \<Rightarrow> string \<Rightarrow> string resolver" where
  "entityIDFromReceiptJSON os name rq = lookup_entity (os_receipts os) (body_string name rq)"

definition entityIDFromVendorRuleParam :: "object_stores \<Rightarrow> string \<Rightarrow> string resolver" where
  "entityIDFromVendorRuleParam os name rq = lookup_entity (os_vendor_rules os) (not_empty (rq_param rq name))"

definition entityIDFromVendorParam :: "object_stores \<Rightarrow> string \<Rightarrow> string resolver" where
  "entityIDFromVendorParam os name rq = lookup_entity (os_vendors os) (not_empty (rq_param rq name))"

definition entityIDFromMileageParam :: "object_stores \<Rightarrow> string \<Rightarrow> string resolver" where
  "entityIDFromMileageParam os name rq = lookup_entity (os_mileage os) (not_empty (rq_param rq name))"

definition receiptIDsFromBody :: "string \<Rightarrow> string list resolver" where
  "receiptIDsFromBody name rq = resolved
     (case rq_json rq of
        None \<Rightarrow> Inl RBadRequest
      | Some ps \<Rightarrow>
          if \<not> json_string_lists ps then Inl RBadRequest
          else let ids = list_value (json_map ps name) in if length ids = 0 then Inl RMissing else Inr ids)"

definition handleEntityResolveError :: "resolve_error \<Rightarrow> db \<Rightarrow> (response + cx) \<times> db" where
  "handleEntityResolveError e =
     (case e of
        RDb ErrNotFound \<Rightarrow> abort 404 ''NOT_FOUND''
      | RMissing \<Rightarrow> abort 400 ''MISSING_FIELDS''
      | RBadRequest \<Rightarrow> abort 400 ''BAD_REQUEST''
      | RDb _ \<Rightarrow> abort 500 ''INTERNAL_ERROR'')"

section \<open>Middleware\<close>

text \<open>\<open>UserID\<close> and a non-empty \<open>TenantID\<close>, or 401.\<close>

definition with_principal :: "rq \<Rightarrow> (string \<Rightarrow> string \<Rightarrow> db \<Rightarrow> (response + cx) \<times> db) \<Rightarrow> db \<Rightarrow> (response + cx) \<times> db" where
  "with_principal rq k =
     (case rq_user rq of
        None \<Rightarrow> unauthorized
      | Some userID \<Rightarrow>
          (case rq_tenant rq of
             None \<Rightarrow> unauthorized
           | Some tenantID \<Rightarrow> if tenantID = [] then unauthorized else k userID tenantID))"

definition requireTenantMembership :: "bool \<Rightarrow> middleware" where
  "requireTenantMembership configured rq c =
     (if \<not> configured then abort 501 ''NOT_IMPLEMENTED''
      else with_principal rq (\<lambda>userID tenantID.
        mcall (TenantMembershipStore_GetRole tenantID userID) forbid
          (\<lambda>role s. (Inr (c\<lparr>cx_tenant_role := Some role\<rparr>), s))))"

definition requireTenantAccess :: "bool \<Rightarrow> string \<Rightarrow> middleware" where
  "requireTenantAccess configured param rq c =
     (if \<not> configured then abort 501 ''NOT_IMPLEMENTED''
      else case rq_user rq of
        None \<Rightarrow> unauthorized
      | Some userID \<Rightarrow>
          let tenantID = rq_param rq param in
          if tenantID = [] then abort 400 ''MISSING_FIELDS''
          else mcall (TenantMembershipStore_GetRole tenantID userID) forbid
            (\<lambda>_ s. (Inr (c\<lparr>cx_target := Some tenantID\<rparr>), s)))"

definition adminRoles :: "string set" where
  "adminRoles = set [''admin'']"

definition memberRoles :: "string set" where
  "memberRoles = set [''admin'', ''accountant'', ''user'']"

definition check_entity_role :: "string set \<Rightarrow> cx \<Rightarrow> string \<Rightarrow> string \<Rightarrow> string \<Rightarrow> db \<Rightarrow> (response + cx) \<times> db" where
  "check_entity_role allowed c tenantID userID entityID =
     mcall (EntityStore_GetRole tenantID userID entityID) forbid (\<lambda>role s.
       if role \<notin> allowed then abort 403 ''FORBIDDEN'' s
       else (Inr (c\<lparr>cx_entity := Some entityID, cx_role := Some role\<rparr>), s))"

definition requireEntityRole :: "bool \<Rightarrow> string set \<Rightarrow> string resolver \<Rightarrow> middleware" where
  "requireEntityRole configured allowed resolve rq c =
     (if \<not> configured then abort 501 ''NOT_IMPLEMENTED''
      else with_principal rq (\<lambda>userID tenantID s.
        case resolve rq s of
          (Inl e, s') \<Rightarrow> handleEntityResolveError e s'
        | (Inr entityID, s') \<Rightarrow> check_entity_role allowed c tenantID userID entityID s'))"

definition requireOptionalEntityRole :: "bool \<Rightarrow> string set \<Rightarrow> string \<Rightarrow> middleware" where
  "requireOptionalEntityRole configured allowed field rq c =
     (if \<not> configured then abort 501 ''NOT_IMPLEMENTED''
      else with_principal rq (\<lambda>userID tenantID.
        case rq_json rq of
          None \<Rightarrow> abort 400 ''BAD_REQUEST''
        | Some ps \<Rightarrow>
            if \<not> json_strings ps then abort 400 ''BAD_REQUEST''
            else let entityID = string_value (json_map ps field) in
              if entityID = [] then (\<lambda>s. (Inr c, s))
              else check_entity_role allowed c tenantID userID entityID))"

text \<open>The receipts of the request that the user may see; a receipt that is not found or in an entity without a
  sufficient role is left out.\<close>

fun allowed_receipts :: "(string \<Rightarrow> string dbm) \<Rightarrow> string set \<Rightarrow> string \<Rightarrow> string \<Rightarrow> string list \<Rightarrow> string list dbm" where
  "allowed_receipts getEntity allowed tenantID userID [] = dret []"
| "allowed_receipts getEntity allowed tenantID userID (i # is) =
     dbind (dtry (getEntity i)) (\<lambda>r.
     case r of
       Inl e \<Rightarrow> if e = ErrNotFound then allowed_receipts getEntity allowed tenantID userID is else dthrow e
     | Inr entityID \<Rightarrow>
         dbind (dtry (EntityStore_GetRole tenantID userID entityID)) (\<lambda>q.
         case q of
           Inl e \<Rightarrow> if e = ErrNotFound then allowed_receipts getEntity allowed tenantID userID is else dthrow e
         | Inr role \<Rightarrow>
             if role \<notin> allowed then allowed_receipts getEntity allowed tenantID userID is
             else dbind (allowed_receipts getEntity allowed tenantID userID is) (\<lambda>rest. dret (i # rest))))"

definition requireReceiptsRole :: "bool \<Rightarrow> object_stores \<Rightarrow> string set \<Rightarrow> string list resolver \<Rightarrow> middleware" where
  "requireReceiptsRole configured os allowed resolve rq c =
     (case os_receipts os of
        None \<Rightarrow> abort 501 ''NOT_IMPLEMENTED''
      | Some getEntity \<Rightarrow>
          if \<not> configured then abort 501 ''NOT_IMPLEMENTED''
          else with_principal rq (\<lambda>userID tenantID s.
            case resolve rq s of
              (Inl e, s') \<Rightarrow> handleEntityResolveError e s'
            | (Inr ids, s') \<Rightarrow> mcall (allowed_receipts getEntity allowed tenantID userID ids) (\<lambda>_. abort 500 ''INTERNAL_ERROR'')
                (\<lambda>rs t. (Inr (c\<lparr>cx_entities := Some rs\<rparr>), t)) s'))"

definition AdminRequired :: "bool \<Rightarrow> middleware" where
  "AdminRequired configured rq c =
     (case rq_user rq of
        None \<Rightarrow> unauthorized
      | Some userID \<Rightarrow>
          if \<not> configured then unauthorized
          else mcall (UserStore_IsAdmin userID) (\<lambda>_. abort 500 ''INTERNAL_ERROR'')
            (\<lambda>isAdmin s. if \<not> isAdmin then abort 403 ''FORBIDDEN'' s else (Inr c, s)))"

text \<open>A route: its middleware in order, then the handler.\<close>

fun run_route :: "middleware list \<Rightarrow> rq \<Rightarrow> cx \<Rightarrow> (cx \<Rightarrow> handler) \<Rightarrow> handler" where
  "run_route [] rq c h = h c"
| "run_route (m # ms) rq c h = (\<lambda>s. case m rq c s of (Inl resp, s') \<Rightarrow> (resp, s') | (Inr c', s') \<Rightarrow> run_route ms rq c' h s')"

section \<open>What the role lookups mean\<close>

definition entity_member :: "db \<Rightarrow> string \<Rightarrow> string \<Rightarrow> string \<Rightarrow> string \<Rightarrow> bool" where
  "entity_member s tenantID userID entityID role \<longleftrightarrow>
     (\<exists>m\<in>set (og_entity_members (db_org s)). mb_user m = userID \<and> mb_of m = entityID \<and> mb_role m = role) \<and>
     (\<exists>e\<in>set (db_entities s). ent_id e = entityID \<and> ent_tenant e = tenantID)"

definition tenant_member :: "db \<Rightarrow> string \<Rightarrow> string \<Rightarrow> string \<Rightarrow> bool" where
  "tenant_member s tenantID userID role \<longleftrightarrow>
     (\<exists>m\<in>set (og_tenant_members (db_org s)). mb_of m = tenantID \<and> mb_user m = userID \<and> mb_role m = role)"

text \<open>The \<open>UNIQUE\<close> constraints of the two membership tables and the primary key of \<open>entities\<close>.\<close>

definition org_ok :: "db \<Rightarrow> bool" where
  "org_ok s \<longleftrightarrow> distinct (map (\<lambda>m. (mb_of m, mb_user m)) (og_entity_members (db_org s))) \<and>
     distinct (map (\<lambda>m. (mb_of m, mb_user m)) (og_tenant_members (db_org s))) \<and>
     distinct (map mb_id (og_entity_members (db_org s))) \<and> distinct (map ent_id (db_entities s))"

lemma set_entity_roles: "set (entity_roles s t u e) = {r. entity_member s t u e r}"
  by (auto simp: entity_roles_def entity_member_def)

lemma entity_member_tables: "same_tables s s' \<Longrightarrow> entity_member s' t u e r = entity_member s t u e r"
  by (simp add: entity_member_def same_tables_fields)

lemma tenant_member_tables: "same_tables s s' \<Longrightarrow> tenant_member s' t u r = tenant_member s t u r"
  by (simp add: tenant_member_def same_tables_fields)

lemma GetRole_tables: "EntityStore_GetRole t u e s = (r, s') \<Longrightarrow> same_tables s s'"
  by (auto simp: EntityStore_GetRole_def dbind_def dthrow_def dret_def dest!: select_tables split: prod.splits sum.splits list.splits)

lemma tenant_GetRole_tables: "TenantMembershipStore_GetRole t u s = (r, s') \<Longrightarrow> same_tables s s'"
  by (auto simp: TenantMembershipStore_GetRole_def dbind_def dret_def dest!: get_row_tables split: prod.splits sum.splits)

lemma entity_roles_tick [simp]: "entity_roles (s\<lparr>db_tick := n\<rparr>) = entity_roles s"
  by (simp add: entity_roles_def fun_eq_iff cong: if_cong)

lemma GetRole_Inr: "EntityStore_GetRole t u e s = (Inr r, s') \<Longrightarrow> entity_member s t u e r"
proof -
  assume "EntityStore_GetRole t u e s = (Inr r, s')"
  then have "r \<in> set (entity_roles s t u e)"
    by (auto simp: EntityStore_GetRole_def db_simps split: list.splits)
  then show ?thesis by (simp add: set_entity_roles)
qed

lemma GetRole_NotFound: "EntityStore_GetRole t u e s = (Inl ErrNotFound, s') \<Longrightarrow> \<not> entity_member s t u e r"
proof
  assume a: "EntityStore_GetRole t u e s = (Inl ErrNotFound, s')" and m: "entity_member s t u e r"
  have "stmt (\<lambda>s. (Inr (entity_roles s t u e), s)) s = (Inl ErrNotFound, s') \<Longrightarrow> False"
    by (auto dest: stmt_Inl)
  then have "entity_roles s t u e = []"
    using a by (auto simp: EntityStore_GetRole_def db_simps select_all_def stmt_Inr split: list.splits)
  then show False using m set_entity_roles [of s t u e] by auto
qed

lemma tenant_GetRole_Inr: "TenantMembershipStore_GetRole t u s = (Inr r, s') \<Longrightarrow> tenant_member s t u r"
  by (auto simp: TenantMembershipStore_GetRole_def db_simps get_row_Inr tenant_member_def dest: find_Some_mem)

section \<open>The interface between middleware and resolvers\<close>

text \<open>A resolver only reads.\<close>

locale entity_resolver =
  fixes resolve :: "string resolver"
  assumes reads: "resolve rq s = (r, s') \<Longrightarrow> same_tables s s'"
begin

lemma role_passes:
  assumes "requireEntityRole configured allowed resolve rq c s = (Inr c', s')"
  shows "same_tables s s' \<and> (\<exists>userID tenantID entityID role s1. rq_user rq = Some userID \<and> rq_tenant rq = Some tenantID \<and>
    resolve rq s = (Inr entityID, s1) \<and> entity_member s tenantID userID entityID role \<and> role \<in> allowed \<and>
    c' = c\<lparr>cx_entity := Some entityID, cx_role := Some role\<rparr>)"
proof -
  obtain userID tenantID where p: "rq_user rq = Some userID" "rq_tenant rq = Some tenantID"
    using assms by (auto simp: requireEntityRole_def with_principal_def abort_def unauthorized_def split: if_splits option.splits)
  obtain r s1 where r: "resolve rq s = (r, s1)" by (cases "resolve rq s")
  then obtain entityID where e: "r = Inr entityID" "check_entity_role allowed c tenantID userID entityID s1 = (Inr c', s')"
    using assms p
    by (auto simp: requireEntityRole_def with_principal_def abort_def unauthorized_def handleEntityResolveError_def
        split: if_splits sum.splits resolve_error.splits db_error.splits)
  obtain q s2 where q: "EntityStore_GetRole tenantID userID entityID s1 = (q, s2)" by (cases "EntityStore_GetRole tenantID userID entityID s1")
  then obtain role where g: "q = Inr role" "role \<in> allowed" "s' = s2" "c' = c\<lparr>cx_entity := Some entityID, cx_role := Some role\<rparr>"
    using e(2) by (auto simp: check_entity_role_def mcall_def forbid_def abort_def split: if_splits sum.splits)
  have t: "same_tables s s1" by (rule reads [OF r])
  moreover have "same_tables s1 s'" using GetRole_tables [OF q] g(3) by simp
  moreover have "entity_member s tenantID userID entityID role"
    using GetRole_Inr [OF q [unfolded g(1)]] entity_member_tables [OF t] by simp
  ultimately show ?thesis using p r e(1) g same_tables_trans by blast
qed

text \<open>Without a role the request is answered with 403, unless the database fails.\<close>

lemma role_refused:
  assumes "requireEntityRole configured allowed resolve rq c s = (Inl resp, s')"
  shows "same_tables s s' \<and> fst resp \<in> {400, 401, 403, 404, 500, 501}"
proof (cases "configured \<and> (\<exists>u t. rq_user rq = Some u \<and> rq_tenant rq = Some t \<and> t \<noteq> [])")
  case False
  then show ?thesis using assms
    by (auto simp: requireEntityRole_def with_principal_def abort_def unauthorized_def split: if_splits option.splits)
next
  case True
  then obtain u t where p: "configured" "rq_user rq = Some u" "rq_tenant rq = Some t" "t \<noteq> []" by auto
  obtain r s1 where r: "resolve rq s = (r, s1)" by (cases "resolve rq s")
  have t1: "same_tables s s1" by (rule reads [OF r])
  show ?thesis
  proof (cases r)
    case (Inl e)
    then show ?thesis using assms p r t1
      by (auto simp: requireEntityRole_def with_principal_def abort_def handleEntityResolveError_def
          split: resolve_error.splits db_error.splits)
  next
    case (Inr ent)
    obtain q s2 where q: "EntityStore_GetRole t u ent s1 = (q, s2)" by (cases "EntityStore_GetRole t u ent s1")
    have "same_tables s s2" using t1 GetRole_tables [OF q] same_tables_trans by blast
    then show ?thesis using assms p r q Inr
      by (auto simp: requireEntityRole_def with_principal_def check_entity_role_def mcall_def forbid_def abort_def
          split: sum.splits if_splits)
  qed
qed

end

lemma resolved_reads: "resolved r s = (r', s') \<Longrightarrow> same_tables s s'"
  by (simp add: resolved_def)

lemma lookup_reads:
  assumes "\<And>i s r s'. get i s = (r, s') \<Longrightarrow> same_tables s s'" "lookup_entity (Some get) i s = (r, s')"
  shows "same_tables s s'"
  using assms(2) by (auto simp: lookup_entity_def split: sum.splits prod.splits dest: assms(1))

interpretation param: entity_resolver "entityIDFromParam n"
  by unfold_locales (auto simp: entityIDFromParam_def dest: resolved_reads)

interpretation query: entity_resolver "entityIDFromQuery n"
  by unfold_locales (auto simp: entityIDFromQuery_def dest: resolved_reads)

interpretation form: entity_resolver "entityIDFromForm n"
  by unfold_locales (auto simp: entityIDFromForm_def dest: resolved_reads)

interpretation json: entity_resolver "entityIDFromJSON n"
  by unfold_locales (auto simp: entityIDFromJSON_def dest: resolved_reads)

text \<open>The stores as the server wires them; statements and mileage belong to components that are modelled elsewhere.\<close>

definition stores :: "(string \<Rightarrow> string dbm) option \<Rightarrow> (string \<Rightarrow> string dbm) option \<Rightarrow> object_stores" where
  "stores statements mileage = \<lparr>os_accounts = Some AccountStore_GetEntityID, os_statements = statements,
     os_receipts = Some ReceiptStore_GetEntityID, os_vendor_rules = Some VendorRuleStore_GetEntityID,
     os_vendors = Some VendorStore_GetEntityID, os_mileage = mileage\<rparr>"

lemma GetEntityID_tables:
  "AccountStore_GetEntityID i s = (r, s') \<Longrightarrow> same_tables s s'" "ReceiptStore_GetEntityID i s = (r, s') \<Longrightarrow> same_tables s s'"
  "VendorRuleStore_GetEntityID i s = (r, s') \<Longrightarrow> same_tables s s'" "VendorStore_GetEntityID i s = (r, s') \<Longrightarrow> same_tables s s'"
  by (auto simp: AccountStore_GetEntityID_def ReceiptStore_GetEntityID_def VendorRuleStore_GetEntityID_def
      VendorStore_GetEntityID_def dbind_def dret_def dest!: get_row_tables split: prod.splits sum.splits)

lemmas AccountStore_GetEntityID_lookup = lookup_reads [where get = AccountStore_GetEntityID, OF GetEntityID_tables(1)]
lemmas ReceiptStore_GetEntityID_lookup = lookup_reads [where get = ReceiptStore_GetEntityID, OF GetEntityID_tables(2)]
lemmas VendorRuleStore_GetEntityID_lookup = lookup_reads [where get = VendorRuleStore_GetEntityID, OF GetEntityID_tables(3)]
lemmas VendorStore_GetEntityID_lookup = lookup_reads [where get = VendorStore_GetEntityID, OF GetEntityID_tables(4)]

interpretation account: entity_resolver "entityIDFromAccountParam (stores st mi) n"
  by unfold_locales (simp add: entityIDFromAccountParam_def stores_def, rule AccountStore_GetEntityID_lookup, assumption+)

interpretation receipt: entity_resolver "entityIDFromReceiptParam (stores st mi) n"
  by unfold_locales (simp add: entityIDFromReceiptParam_def stores_def, rule ReceiptStore_GetEntityID_lookup, assumption+)

interpretation receipt_json: entity_resolver "entityIDFromReceiptJSON (stores st mi) n"
  by unfold_locales (simp add: entityIDFromReceiptJSON_def stores_def, rule ReceiptStore_GetEntityID_lookup, assumption+)

interpretation vendor_rule: entity_resolver "entityIDFromVendorRuleParam (stores st mi) n"
  by unfold_locales (simp add: entityIDFromVendorRuleParam_def stores_def, rule VendorRuleStore_GetEntityID_lookup, assumption+)

interpretation vendor: entity_resolver "entityIDFromVendorParam (stores st mi) n"
  by unfold_locales (simp add: entityIDFromVendorParam_def stores_def, rule VendorStore_GetEntityID_lookup, assumption+)

section \<open>Requests stay in their tenant\<close>

text \<open>The resolvers of the routes, for whatever parameter name.\<close>

definition route_resolvers :: "string \<Rightarrow> string resolver set" where
  "route_resolvers n = {entityIDFromParam n, entityIDFromQuery n, entityIDFromForm n, entityIDFromJSON n,
     entityIDFromAccountParam (stores None None) n, entityIDFromReceiptParam (stores None None) n,
     entityIDFromReceiptJSON (stores None None) n, entityIDFromVendorRuleParam (stores None None) n,
     entityIDFromVendorParam (stores None None) n}"

lemma route_resolver: "resolve \<in> route_resolvers n \<Longrightarrow> entity_resolver resolve"
  unfolding route_resolvers_def
  using param.entity_resolver_axioms query.entity_resolver_axioms form.entity_resolver_axioms json.entity_resolver_axioms
    account.entity_resolver_axioms receipt.entity_resolver_axioms receipt_json.entity_resolver_axioms
    vendor_rule.entity_resolver_axioms vendor.entity_resolver_axioms by blast

lemma requireTenantMembership_Inr:
  assumes "requireTenantMembership configured rq c s = (Inr c', s')"
  shows "same_tables s s' \<and> (\<exists>userID tenantID role. rq_user rq = Some userID \<and> rq_tenant rq = Some tenantID \<and>
    tenant_member s tenantID userID role \<and> c' = c\<lparr>cx_tenant_role := Some role\<rparr>)"
proof -
  obtain u t where p: "rq_user rq = Some u" "rq_tenant rq = Some t"
    using assms by (auto simp: requireTenantMembership_def with_principal_def abort_def unauthorized_def split: if_splits option.splits)
  obtain q s2 where q: "TenantMembershipStore_GetRole t u s = (q, s2)" by (cases "TenantMembershipStore_GetRole t u s")
  then obtain role where "q = Inr role" "s' = s2" "c' = c\<lparr>cx_tenant_role := Some role\<rparr>"
    using assms p by (auto simp: requireTenantMembership_def with_principal_def mcall_def forbid_def abort_def unauthorized_def
        split: sum.splits if_splits)
  then show ?thesis using p tenant_GetRole_tables [OF q] tenant_GetRole_Inr q by blast
qed

lemma requireTenantMembership_Inl:
  assumes "requireTenantMembership configured rq c s = (Inl resp, s')"
  shows "same_tables s s' \<and> fst resp \<in> {401, 403, 500, 501}"
proof (cases "configured \<and> (\<exists>u t. rq_user rq = Some u \<and> rq_tenant rq = Some t \<and> t \<noteq> [])")
  case False
  then show ?thesis using assms
    by (auto simp: requireTenantMembership_def with_principal_def abort_def unauthorized_def split: if_splits option.splits)
next
  case True
  then obtain u t where p: "configured" "rq_user rq = Some u" "rq_tenant rq = Some t" "t \<noteq> []" by auto
  obtain q s2 where q: "TenantMembershipStore_GetRole t u s = (q, s2)" by (cases "TenantMembershipStore_GetRole t u s")
  then show ?thesis using assms p tenant_GetRole_tables [OF q]
    by (auto simp: requireTenantMembership_def with_principal_def mcall_def forbid_def abort_def split: sum.splits if_splits)
qed

text \<open>The answers of refused requests.\<close>

definition refused :: "response \<Rightarrow> bool" where
  "refused resp \<longleftrightarrow> fst resp \<in> {400, 401, 403, 404, 500, 501}"

definition entity_route :: "string set \<Rightarrow> string resolver \<Rightarrow> middleware list" where
  "entity_route allowed resolve = [requireTenantMembership True, requireEntityRole True allowed resolve]"

lemma entity_route_cases:
  assumes "entity_resolver resolve" "run_route (entity_route allowed resolve) rq c h s = (resp, s')"
  obtains (refused) "refused resp" "same_tables s s'"
  | (handled) userID tenantID entityID tenantRole role c' s1 where
      "rq_user rq = Some userID" "rq_tenant rq = Some tenantID" "tenant_member s tenantID userID tenantRole"
      "entity_member s tenantID userID entityID role" "role \<in> allowed" "cx_entity c' = Some entityID"
      "same_tables s s1" "(\<exists>t. fst (resolve rq t) = Inr entityID \<and> same_tables s t)" "h c' s1 = (resp, s')"
proof (cases "requireTenantMembership True rq c s")
  case (Pair r1 s1)
  show ?thesis
  proof (cases r1)
    case (Inl e)
    then show ?thesis using assms(2) Pair requireTenantMembership_Inl [of True rq c s e s1] refused
      by (auto simp: entity_route_def refused_def)
  next
    case (Inr c1)
    obtain u t tr where m: "same_tables s s1" "rq_user rq = Some u" "rq_tenant rq = Some t" "tenant_member s t u tr"
      "c1 = c\<lparr>cx_tenant_role := Some tr\<rparr>"
      using requireTenantMembership_Inr [of True rq c s c1 s1] Pair Inr by auto
    obtain r2 s2 where r2: "requireEntityRole True allowed resolve rq c1 s1 = (r2, s2)"
      by (cases "requireEntityRole True allowed resolve rq c1 s1")
    show ?thesis
    proof (cases r2)
      case Inl2: (Inl e)
      have "same_tables s1 s2 \<and> fst e \<in> {400, 401, 403, 404, 500, 501}"
        by (rule entity_resolver.role_refused [OF assms(1) r2 [unfolded Inl2]])
      then show ?thesis using assms(2) Pair Inr r2 Inl2 m(1) same_tables_trans refused
        by (auto simp: entity_route_def refused_def)
    next
      case Inr2: (Inr c2)
      obtain u' t' e role s3 where p: "same_tables s1 s2" "rq_user rq = Some u'" "rq_tenant rq = Some t'"
        "resolve rq s1 = (Inr e, s3)" "entity_member s1 t' u' e role" "role \<in> allowed"
        "c2 = c1\<lparr>cx_entity := Some e, cx_role := Some role\<rparr>"
        using entity_resolver.role_passes [OF assms(1) r2 [unfolded Inr2]] by blast
      have "h c2 s2 = (resp, s')" using assms(2) Pair Inr r2 Inr2 by (simp add: entity_route_def)
      moreover have "entity_member s t u e role" using p(2,3,5) m(2,3) entity_member_tables [OF m(1)] by simp
      moreover have "same_tables s s2" using m(1) p(1) same_tables_trans by blast
      moreover have "\<exists>t. fst (resolve rq t) = Inr e \<and> same_tables s t" using p(4) m(1) by (metis fst_conv)
      ultimately show ?thesis using handled [of u t tr e role c2 s2] m p by simp
    qed
  qed
qed

text \<open>
   C13. Authorization is sound: a request to a route of an entity is either refused, with an error status and
  unchanged tables, or its handler runs for an entity in which the token's user has one of the allowed roles and
  which belongs to the token's tenant, of which the user is a member; the tables are those the check has seen.
\<close>

theorem entity_role_required:
  assumes "resolve \<in> route_resolvers n" "run_route (entity_route allowed resolve) rq empty_cx h s = (resp, s')"
  shows "refused resp \<and> same_tables s s' \<or>
    (\<exists>userID tenantID entityID tenantRole role c s1. rq_user rq = Some userID \<and> rq_tenant rq = Some tenantID \<and>
       tenant_member s tenantID userID tenantRole \<and> entity_member s tenantID userID entityID role \<and> role \<in> allowed \<and>
       cx_entity c = Some entityID \<and> same_tables s s1 \<and> h c s1 = (resp, s'))"
  by (rule entity_route_cases [OF route_resolver [OF assms(1)] assms(2)]) blast+

definition sample_org_db :: db where
  "sample_org_db = empty_db\<lparr>
     db_entities := [\<lparr>ent_id = ''E'', ent_tenant = ''T'', ent_name = ''Acme'', ent_context = [], ent_fy_month = 1, ent_fy_day = 1, ent_created = 0\<rparr>,
                     \<lparr>ent_id = ''V'', ent_tenant = ''U'', ent_name = ''Victim'', ent_context = [], ent_fy_month = 1, ent_fy_day = 1, ent_created = 0\<rparr>],
     db_accounts := [\<lparr>ac_id = ''a'', ac_entity = ''V'', ac_name = ''Cash'', ac_type = ''asset'', ac_code = None, ac_created = 0\<rparr>,
                     \<lparr>ac_id = ''b'', ac_entity = ''V'', ac_name = ''Rent'', ac_type = ''expense'', ac_code = None, ac_created = 0\<rparr>],
     db_org := (db_org empty_db)\<lparr>
       og_users := [\<lparr>us_id = ''m'', us_email = ''m@x'', us_hash = [], us_tenant = None, us_admin = False, us_created = 0\<rparr>,
                    \<lparr>us_id = ''o'', us_email = ''o@x'', us_hash = [], us_tenant = None, us_admin = False, us_created = 0\<rparr>],
       og_tenants := [\<lparr>tn_id = ''T'', tn_name = [], tn_created = 0\<rparr>, \<lparr>tn_id = ''U'', tn_name = [], tn_created = 0\<rparr>],
       og_tenant_members := [\<lparr>mb_id = ''1'', mb_of = ''T'', mb_user = ''m'', mb_role = ''user'', mb_created = 0\<rparr>,
                             \<lparr>mb_id = ''2'', mb_of = ''U'', mb_user = ''o'', mb_role = ''admin'', mb_created = 0\<rparr>],
       og_entity_members := [\<lparr>mb_id = ''3'', mb_of = ''E'', mb_user = ''m'', mb_role = ''admin'', mb_created = 0\<rparr>,
                             \<lparr>mb_id = ''4'', mb_of = ''V'', mb_user = ''o'', mb_role = ''admin'', mb_created = 0\<rparr>]\<rparr>\<rparr>"

definition sample_rq :: "string \<Rightarrow> json_body \<Rightarrow> rq" where
  "sample_rq entityID body = \<lparr>rq_user = Some ''m'', rq_tenant = Some ''T'',
     rq_param = (\<lambda>n. if n = ''id'' then entityID else if n = ''member_id'' then ''4'' else []), rq_query = (\<lambda>_. []), rq_form = (\<lambda>_. []), rq_json = body\<rparr>"

text \<open>The instance: user \<open>m\<close> of tenant \<open>T\<close> asks for the entity of another tenant and is refused with 403.\<close>

theorem entity_role_required_witness:
  "\<exists>resp s'. run_route (entity_route adminRoles (entityIDFromParam ''id'')) (sample_rq ''V'' None) empty_cx
     (\<lambda>_. respond 200 BEmpty) sample_org_db = (resp, s') \<and> refused resp \<and> fst resp = 403 \<and> db_entities s' = db_entities sample_org_db"
proof -
  let ?r = "run_route (entity_route adminRoles (entityIDFromParam ''id'')) (sample_rq ''V'' None) empty_cx (\<lambda>_. respond 200 BEmpty) sample_org_db"
  have st: "fst (fst ?r) = 403" by code_simp
  obtain resp s' where r: "?r = (resp, s')" by (cases ?r)
  have m: "entityIDFromParam ''id'' \<in> route_resolvers ''id''" by (simp add: route_resolvers_def)
  have "respond 200 BEmpty s1 \<noteq> (resp, s')" for s1 using st r by (auto simp: respond_def)
  then have "refused resp \<and> same_tables sample_org_db s'"
    using entity_role_required [OF m r] by blast
  then show ?thesis using r st by (auto simp: same_tables_fields)
qed

lemma no_fail_select:
  "\<not> db_fail s (db_tick s) \<Longrightarrow> select_all q s = (Inr (q (s\<lparr>db_tick := db_tick s + 1\<rparr>)), s\<lparr>db_tick := db_tick s + 1\<rparr>)"
  by (simp add: select_all_def stmt_def Let_def)

lemma no_fail_get_row:
  "\<not> db_fail s (db_tick s) \<Longrightarrow> find P (tbl (s\<lparr>db_tick := db_tick s + 1\<rparr>)) = Some r \<Longrightarrow>
     get_row tbl P s = (Inr r, s\<lparr>db_tick := db_tick s + 1\<rparr>)"
  by (simp add: get_row_Inr)

lemma find_unique:
  "distinct (map f xs) \<Longrightarrow> x \<in> set xs \<Longrightarrow> P = (\<lambda>y. f y = f x) \<Longrightarrow> find P xs = Some x"
  by (induction xs) (auto simp: image_iff)

lemma GetRole_member:
  assumes "org_ok s" "entity_member s t u e role" "\<not> db_fail s (db_tick s)"
  shows "EntityStore_GetRole t u e s = (Inr role, s\<lparr>db_tick := db_tick s + 1\<rparr>)"
proof -
  have one: "r = role" if r: "entity_member s t u e r" for r
  proof -
    have d: "inj_on (\<lambda>m. (mb_of m, mb_user m)) (set (og_entity_members (db_org s)))"
      using assms(1) by (simp add: org_ok_def distinct_map)
    obtain m where m: "m \<in> set (og_entity_members (db_org s))" "mb_user m = u" "mb_of m = e" "mb_role m = r"
      using r by (auto simp: entity_member_def)
    obtain m' where m': "m' \<in> set (og_entity_members (db_org s))" "mb_user m' = u" "mb_of m' = e" "mb_role m' = role"
      using assms(2) by (auto simp: entity_member_def)
    have "m = m'" by (rule inj_onD [OF d]) (simp_all add: m m')
    then show ?thesis using m m' by simp
  qed
  have "set (entity_roles s t u e) = {role}" unfolding set_entity_roles using one assms(2) by blast
  then obtain rest where "entity_roles s t u e = role # rest" by (cases "entity_roles s t u e") auto
  then show ?thesis using assms(3) by (simp add: EntityStore_GetRole_def dbind_def dret_def no_fail_select)
qed

lemma tenant_GetRole_member:
  assumes "org_ok s" "tenant_member s t u role" "\<not> db_fail s (db_tick s)"
  shows "TenantMembershipStore_GetRole t u s = (Inr role, s\<lparr>db_tick := db_tick s + 1\<rparr>)"
proof -
  obtain m where m: "m \<in> set (og_tenant_members (db_org s))" "mb_of m = t" "mb_user m = u" "mb_role m = role"
    using assms(2) by (auto simp: tenant_member_def)
  have "find (\<lambda>m. mb_of m = t \<and> mb_user m = u) (og_tenant_members (db_org s)) = Some m"
    by (rule find_unique [where f = "\<lambda>m. (mb_of m, mb_user m)"]) (use assms(1) m in \<open>auto simp: org_ok_def\<close>)
  then show ?thesis using assms(3) m(4) by (simp add: TenantMembershipStore_GetRole_def dbind_def dret_def no_fail_get_row)
qed

lemma entity_route_reaches:
  assumes "org_ok s" "\<forall>n. \<not> db_fail s n" "rq_user rq = Some userID" "rq_tenant rq = Some tenantID" "tenantID \<noteq> []"
    "tenant_member s tenantID userID tenantRole" "entity_member s tenantID userID (rq_param rq name) role"
    "rq_param rq name \<noteq> []" "role \<in> allowed"
  shows "\<exists>c s1. cx_entity c = Some (rq_param rq name) \<and> cx_role c = Some role \<and> same_tables s s1 \<and>
    run_route (entity_route allowed (entityIDFromParam name)) rq empty_cx h s = h c s1"
proof -
  let ?s1 = "s\<lparr>db_tick := db_tick s + 1\<rparr>" and ?e = "rq_param rq name"
  have ok: "org_ok ?s1" "entity_member ?s1 tenantID userID ?e role"
    using assms(1,7) entity_member_tables [OF same_tables_tick] by (auto simp: org_ok_def)
  have 1: "TenantMembershipStore_GetRole tenantID userID s = (Inr tenantRole, ?s1)"
    by (rule tenant_GetRole_member [OF assms(1,6)]) (simp add: assms(2))
  have 2: "EntityStore_GetRole tenantID userID ?e ?s1 = (Inr role, ?s1\<lparr>db_tick := db_tick ?s1 + 1\<rparr>)"
    by (rule GetRole_member [OF ok]) (simp add: assms(2))
  show ?thesis
    using assms(3,4,5,8,9) 1 2
    by (intro exI [of _ "\<lparr>cx_entity = Some ?e, cx_entities = None, cx_role = Some role, cx_tenant_role = Some tenantRole, cx_target = None\<rparr>"]
          exI [of _ "?s1\<lparr>db_tick := db_tick ?s1 + 1\<rparr>"])
       (auto simp: entity_route_def requireTenantMembership_def requireEntityRole_def with_principal_def mcall_def
          entityIDFromParam_def resolved_def not_empty_def check_entity_role_def empty_cx_def
          intro: same_tables_trans [OF same_tables_tick same_tables_tick])
qed

text \<open>
   Authorization is complete: while the database answers, a member of the tenant with an allowed role in an
  entity of it always reaches the handler of a route that names the entity in its path, with that entity and role in the context.
\<close>

theorem entity_role_suffices:
  assumes "org_ok s" "\<forall>n. \<not> db_fail s n" "rq_user rq = Some userID" "rq_tenant rq = Some tenantID" "tenantID \<noteq> []"
    "tenant_member s tenantID userID tenantRole" "entity_member s tenantID userID (rq_param rq name) role"
    "rq_param rq name \<noteq> []" "role \<in> allowed"
  shows "\<exists>c s1. cx_entity c = Some (rq_param rq name) \<and> cx_role c = Some role \<and> same_tables s s1 \<and>
    run_route (entity_route allowed (entityIDFromParam name)) rq empty_cx h s = h c s1"
  using assms by (rule entity_route_reaches)

theorem entity_role_suffices_witness:
  "\<exists>(c :: cx) s1. cx_entity c = Some ''E'' \<and> cx_role c = Some ''admin'' \<and> same_tables sample_org_db s1 \<and>
     run_route (entity_route adminRoles (entityIDFromParam ''id'')) (sample_rq ''E'' None) empty_cx (\<lambda>_. respond 200 BEmpty) sample_org_db =
       respond 200 BEmpty s1"
proof -
  let ?rq = "sample_rq ''E'' None"
  have f: "\<forall>n. \<not> db_fail sample_org_db n" by (simp add: sample_org_db_def empty_db_def)
  have o: "org_ok sample_org_db" "tenant_member sample_org_db ''T'' ''m'' ''user''"
    "entity_member sample_org_db ''T'' ''m'' (rq_param ?rq ''id'') ''admin''"
    unfolding org_ok_def tenant_member_def entity_member_def by code_simp+
  have r: "rq_user ?rq = Some ''m''" "rq_tenant ?rq = Some ''T''" "rq_param ?rq ''id'' = ''E''" by (simp_all add: sample_rq_def)
  have adm: "''admin'' \<in> adminRoles" "''T'' \<noteq> []" "rq_param ?rq ''id'' \<noteq> []" by (simp_all add: adminRoles_def r(3))
  show ?thesis using entity_role_suffices [OF o(1) f r(1,2) adm(2) o(2,3) adm(3,1), of "\<lambda>_. respond 200 BEmpty"] unfolding r(3) .
qed

end
