(* ===== verification/Auth_Tokens.thy ===== *)
theory Auth_Tokens
  imports Authz
begin

text \<open>
  \<open>internal/auth\<close>: access tokens and MFA challenge tokens, one-time codes (TOTP), recovery codes, passwords and
  refresh tokens.  Parameters of the model are the JWT library and the cryptographic functions of the standard
  library, gathered in the record \<open>crypto\<close>; random bytes are an input of the operations that read them.  A token is
  what the library makes of a payload: the JSON members and the times; both kinds of token are decoded from it here,
  as the code does.  Times are Unix seconds.
\<close>

section \<open>Parameters\<close>

record jwt =
  jw_members :: "(string \<times> jval) list"
  jw_issued :: int
  jw_expires :: int

datatype jwt_error = TokenExpired | TokenMalformed

record crypto =
  cr_sign :: "string \<Rightarrow> jwt \<Rightarrow> string option"
  cr_parse :: "string \<Rightarrow> string \<Rightarrow> int \<Rightarrow> jwt_error + jwt"
  cr_hash :: "string \<Rightarrow> string option"
  cr_check :: "string \<Rightarrow> string \<Rightarrow> bool"
  cr_sha256 :: "string \<Rightarrow> string"
  cr_b64 :: "8 word list \<Rightarrow> string"
  cr_b32 :: "8 word list \<Rightarrow> string"
  cr_unb32 :: "string \<Rightarrow> 8 word list option"
  cr_hmac :: "8 word list \<Rightarrow> 8 word list \<Rightarrow> 8 word list"

text \<open>A payload whose members are strings, as the code signs.\<close>

definition string_payload :: "(string \<times> string) list \<Rightarrow> int \<Rightarrow> int \<Rightarrow> jwt" where
  "string_payload ms issued expires = \<lparr>jw_members = map (\<lambda>(n, v). (n, JStr v)) ms, jw_issued = issued, jw_expires = expires\<rparr>"

text \<open>The documented behaviour of the JWT library that the code relies on: a signed payload is read back with the
  same secret until it expires, and reported as expired from then on.\<close>

definition jwt_ok :: "crypto \<Rightarrow> bool" where
  "jwt_ok c \<longleftrightarrow> (\<forall>k ms issued expires. \<exists>t. cr_sign c k (string_payload ms issued expires) = Some t \<and>
     (\<forall>now. cr_parse c k t now = (if now < expires then Inr (string_payload ms issued expires) else Inl TokenExpired)))"

section \<open>Access tokens\<close>

datatype auth_error = ErrInvalidToken | ErrExpiredToken | ErrInvalidChallenge | ErrMissingSecret | ErrSecretTooShort | ErrSign

record claims =
  cl_user :: string
  cl_tenant :: string

definition NewToken :: "crypto \<Rightarrow> string \<Rightarrow> string \<Rightarrow> string \<Rightarrow> int \<Rightarrow> int \<Rightarrow> auth_error + string" where
  "NewToken c secret userID tenantID ttl now =
     (case cr_sign c secret (string_payload [(''sub'', userID), (''tenant_id'', tenantID)] now (now + ttl)) of
        None \<Rightarrow> Inl ErrSign | Some t \<Rightarrow> Inr t)"

text \<open>The library decodes the members into the claims struct; a member of another type is a malformed token.\<close>

definition claims_of :: "jwt \<Rightarrow> claims option" where
  "claims_of p =
     (case (json_field ''sub'' (jw_members p), json_field ''tenant_id'' (jw_members p)) of
        (Some u, Some t) \<Rightarrow> Some \<lparr>cl_user = u, cl_tenant = t\<rparr>
      | _ \<Rightarrow> None)"

definition ParseToken :: "crypto \<Rightarrow> string \<Rightarrow> string \<Rightarrow> int \<Rightarrow> auth_error + claims" where
  "ParseToken c secret tokenString now =
     (case cr_parse c secret tokenString now of
        Inl TokenExpired \<Rightarrow> Inl ErrExpiredToken
      | Inl TokenMalformed \<Rightarrow> Inl ErrInvalidToken
      | Inr p \<Rightarrow> (case claims_of p of None \<Rightarrow> Inl ErrInvalidToken | Some cl \<Rightarrow> Inr cl))"

definition NewTokenService :: "string \<Rightarrow> auth_error + string" where
  "NewTokenService secret =
     (if secret = [] then Inl ErrMissingSecret else if length secret < 32 then Inl ErrSecretTooShort else Inr secret)"

definition TokenService_Issue :: "crypto \<Rightarrow> string \<Rightarrow> string \<Rightarrow> string \<Rightarrow> int \<Rightarrow> int \<Rightarrow> auth_error + string" where
  "TokenService_Issue c secret userID tenantID ttl now = NewToken c secret userID tenantID ttl now"

definition TokenService_Parse :: "crypto \<Rightarrow> string \<Rightarrow> string \<Rightarrow> int \<Rightarrow> auth_error + claims" where
  "TokenService_Parse c secret tokenString now = ParseToken c secret tokenString now"

section \<open>Challenge tokens\<close>

record challenge_claims =
  cc_user :: string
  cc_tenant :: string
  cc_purpose :: string

definition TokenService_IssueChallenge ::
  "crypto \<Rightarrow> string \<Rightarrow> string \<Rightarrow> string \<Rightarrow> string \<Rightarrow> int \<Rightarrow> int \<Rightarrow> auth_error + string" where
  "TokenService_IssueChallenge c secret userID tenantID purpose ttl now =
     (case cr_sign c secret (string_payload [(''sub'', userID), (''tenant_id'', tenantID), (''purpose'', purpose)] now (now + ttl)) of
        None \<Rightarrow> Inl ErrSign | Some t \<Rightarrow> Inr t)"

definition challenge_of :: "jwt \<Rightarrow> challenge_claims option" where
  "challenge_of p =
     (case (json_field ''sub'' (jw_members p), json_field ''tenant_id'' (jw_members p), json_field ''purpose'' (jw_members p)) of
        (Some u, Some t, Some r) \<Rightarrow> Some \<lparr>cc_user = u, cc_tenant = t, cc_purpose = r\<rparr>
      | _ \<Rightarrow> None)"

definition TokenService_ParseChallenge :: "crypto \<Rightarrow> string \<Rightarrow> string \<Rightarrow> string \<Rightarrow> int \<Rightarrow> auth_error + challenge_claims" where
  "TokenService_ParseChallenge c secret tokenString purpose now =
     (case cr_parse c secret tokenString now of
        Inl TokenExpired \<Rightarrow> Inl ErrExpiredToken
      | Inl TokenMalformed \<Rightarrow> Inl ErrInvalidChallenge
      | Inr p \<Rightarrow>
          (case challenge_of p of
             None \<Rightarrow> Inl ErrInvalidChallenge
           | Some cl \<Rightarrow>
               if cc_purpose cl \<noteq> purpose then Inl ErrInvalidChallenge
               else if cc_user cl = [] \<or> cc_tenant cl = [] then Inl ErrInvalidChallenge
               else Inr cl))"

section \<open>One-time codes\<close>

definition MFAStep :: int where "MFAStep = 30"
definition MFADigits :: nat where "MFADigits = 6"
definition MFATokenPurpose :: string where "MFATokenPurpose = ''mfa_login''"
definition MFATokenTTL :: int where "MFATokenTTL = 600"

text \<open>\<open>binary.BigEndian.PutUint64\<close>.\<close>

definition big_endian :: "64 word \<Rightarrow> 8 word list" where
  "big_endian w = map (\<lambda>i. ucast (drop_bit (8 * i) w)) [7, 6, 5, 4, 3, 2, 1, 0]"

text \<open>\<open>fmt.Sprintf("%0*d", width, n)\<close> of a non-negative number.\<close>

definition zero_padded :: "nat \<Rightarrow> int \<Rightarrow> string" where
  "zero_padded width n = replicate (width - length (nat_str n)) CHR ''0'' @ nat_str n"

text \<open>\<open>at.Unix() / 30\<close>, Go's division truncates towards zero.\<close>

definition unix_step :: "int \<Rightarrow> int" where
  "unix_step tm = (if tm < 0 then - ((- tm) div MFAStep) else tm div MFAStep)"

unbundle bit_operations_syntax

definition truncate_mac :: "8 word list \<Rightarrow> 32 word" where
  "truncate_mac mac =
     (let offset = unat (mac ! (length mac - 1) AND 0x0f) in
      push_bit 24 (ucast (mac ! offset) AND 0x7f) OR push_bit 16 (ucast (mac ! (offset + 1))) OR
      push_bit 8 (ucast (mac ! (offset + 2))) OR ucast (mac ! (offset + 3)))"

text \<open>\<open>strings.ToUpper\<close> on ASCII.\<close>

definition to_upper :: "string \<Rightarrow> string" where
  "to_upper s = map (\<lambda>c. case map_of (zip ''abcdefghijklmnopqrstuvwxyz'' ''ABCDEFGHIJKLMNOPQRSTUVWXYZ'') c of
     None \<Rightarrow> c | Some d \<Rightarrow> d) s"

definition totpAt :: "crypto \<Rightarrow> string \<Rightarrow> int \<Rightarrow> string" where
  "totpAt c secret0 tm =
     (let secret = trim_space secret0 in
      if secret = [] then []
      else case cr_unb32 c (to_upper secret) of
        None \<Rightarrow> []
      | Some key \<Rightarrow>
          let mac = cr_hmac c key (big_endian (word_of_int (unix_step tm))) in
          if length mac < 20 then []
          else zero_padded MFADigits (uint (truncate_mac mac mod 1000000)))"

fun totp_offsets :: "crypto \<Rightarrow> string \<Rightarrow> string \<Rightarrow> int \<Rightarrow> int list \<Rightarrow> int option" where
  "totp_offsets c secret code now [] = None"
| "totp_offsets c secret code now (d # ds) =
     (if totpAt c secret (now + d * MFAStep) = code then Some (unix_step now + d) else totp_offsets c secret code now ds)"

definition ValidateTOTPStep :: "crypto \<Rightarrow> string \<Rightarrow> string \<Rightarrow> int \<Rightarrow> int option" where
  "ValidateTOTPStep c secret code0 now =
     (let code = trim_space code0 in
      if length code \<noteq> MFADigits then None else totp_offsets c secret code now [-1, 0, 1])"

definition ValidateTOTP :: "crypto \<Rightarrow> string \<Rightarrow> string \<Rightarrow> int \<Rightarrow> bool" where
  "ValidateTOTP c secret code now = (ValidateTOTPStep c secret code now \<noteq> None)"

text \<open>The URI an authenticator app reads, with the escaping of \<open>url.PathEscape\<close> and of \<open>url.Values.Encode\<close> (which
  sorts the keys).\<close>

definition unreserved :: string where
  "unreserved = ''ABCDEFGHIJKLMNOPQRSTUVWXYZabcdefghijklmnopqrstuvwxyz0123456789-_.~''"

definition percent :: "char \<Rightarrow> string" where
  "percent c = (let h = ''0123456789ABCDEF''; n = of_char c :: nat in [CHR 0x25, h ! (n div 16), h ! (n mod 16)])"

definition path_escape :: "string \<Rightarrow> string" where
  "path_escape s = concat (map (\<lambda>c. if c \<in> set unreserved \<or> c \<in> set ''$&+=:@'' then [c] else percent c) s)"

definition query_escape :: "string \<Rightarrow> string" where
  "query_escape s = concat (map (\<lambda>c. if c \<in> set unreserved then [c] else if c = CHR '' '' then ''+'' else percent c) s)"

definition MFAIssuer :: string where "MFAIssuer = ''Open B00KS''"

definition BuildMFAProvisioningURI :: "string \<Rightarrow> string \<Rightarrow> string" where
  "BuildMFAProvisioningURI secret accountName =
     ''otpauth://totp/'' @ path_escape (MFAIssuer @ '':'' @ trim_space accountName) @
     ''?algorithm=SHA1&digits=6&issuer='' @ query_escape MFAIssuer @ ''&period=30&secret='' @ query_escape secret"

section \<open>Random secrets, recovery codes, refresh tokens\<close>

text \<open>The random bytes a request reads: the \<open>k\<close>-th read of \<open>n\<close> bytes, or an error.\<close>

type_synonym random = "nat \<Rightarrow> nat \<Rightarrow> 8 word list option"

definition GenerateMFASecret :: "crypto \<Rightarrow> random \<Rightarrow> nat \<Rightarrow> string option" where
  "GenerateMFASecret c rnd k = map_option (cr_b32 c) (rnd k 20)"

definition mfaRecoveryChars :: string where
  "mfaRecoveryChars = ''ABCDEFGHJKLMNPQRSTUVWXYZ23456789''"

definition generateRecoveryCode :: "random \<Rightarrow> nat \<Rightarrow> string option" where
  "generateRecoveryCode rnd k = map_option (map (\<lambda>b. mfaRecoveryChars ! (unat b mod length mfaRecoveryChars))) (rnd k 10)"

definition HashRecoveryCode :: "crypto \<Rightarrow> string \<Rightarrow> string" where
  "HashRecoveryCode c code = cr_sha256 c (trim_space code)"

fun recovery_codes :: "random \<Rightarrow> nat \<Rightarrow> nat \<Rightarrow> string list option" where
  "recovery_codes rnd k 0 = Some []"
| "recovery_codes rnd k (Suc n) =
     (case generateRecoveryCode rnd k of None \<Rightarrow> None | Some code \<Rightarrow> map_option ((#) code) (recovery_codes rnd (Suc k) n))"

definition GenerateRecoveryCodes :: "crypto \<Rightarrow> random \<Rightarrow> nat \<Rightarrow> int \<Rightarrow> (string list \<times> string list) option" where
  "GenerateRecoveryCodes c rnd k count =
     map_option (\<lambda>codes. (codes, map (HashRecoveryCode c) codes)) (recovery_codes rnd k (if count \<le> 0 then 10 else nat count))"

definition GenerateRefreshToken :: "crypto \<Rightarrow> random \<Rightarrow> nat \<Rightarrow> string option" where
  "GenerateRefreshToken c rnd k = map_option (cr_b64 c) (rnd k 32)"

definition HashRefreshToken :: "crypto \<Rightarrow> string \<Rightarrow> string" where
  "HashRefreshToken c token = cr_sha256 c token"

section \<open>Properties\<close>

lemma claims_string:
  "claims_of (string_payload [(''sub'', u), (''tenant_id'', t)] i e) = Some \<lparr>cl_user = u, cl_tenant = t\<rparr>"
  "claims_of (string_payload [(''sub'', u), (''tenant_id'', t), (''purpose'', p)] i e) = Some \<lparr>cl_user = u, cl_tenant = t\<rparr>"
  by (simp_all add: claims_of_def string_payload_def json_field_def to_lower_def lower_char_def)

text \<open>
  An access token is read back as the user and the tenant it was issued for until it expires, and is refused as
  expired from then on.
\<close>

theorem access_token_roundtrip:
  assumes "jwt_ok c"
  shows "\<exists>t. TokenService_Issue c secret userID tenantID ttl now = Inr t \<and>
    TokenService_Parse c secret t later =
      (if later < now + ttl then Inr \<lparr>cl_user = userID, cl_tenant = tenantID\<rparr> else Inl ErrExpiredToken)"
proof -
  let ?p = "string_payload [(''sub'', userID), (''tenant_id'', tenantID)] now (now + ttl)"
  obtain t where "cr_sign c secret ?p = Some t" "\<forall>n. cr_parse c secret t n = (if n < now + ttl then Inr ?p else Inl TokenExpired)"
    using assms unfolding jwt_ok_def by blast
  then show ?thesis
    by (simp add: TokenService_Issue_def NewToken_def TokenService_Parse_def ParseToken_def claims_string)
qed

lemma challenge_is_token:
  assumes "jwt_ok c" "TokenService_IssueChallenge c secret userID tenantID purpose ttl now = Inr t" "later < now + ttl"
  shows "TokenService_Parse c secret t later = Inr \<lparr>cl_user = userID, cl_tenant = tenantID\<rparr>"
proof -
  let ?p = "string_payload [(''sub'', userID), (''tenant_id'', tenantID), (''purpose'', purpose)] now (now + ttl)"
  have "cr_sign c secret ?p = Some t"
    using assms(2) by (simp add: TokenService_IssueChallenge_def split: option.splits)
  moreover obtain t' where "cr_sign c secret ?p = Some t'" "\<forall>n. cr_parse c secret t' n = (if n < now + ttl then Inr ?p else Inl TokenExpired)"
    using assms(1) unfolding jwt_ok_def by blast
  ultimately show ?thesis using assms(3)
    by (simp add: TokenService_Parse_def ParseToken_def claims_string)
qed

lemma nat_str_len: "0 \<le> n \<Longrightarrow> n < 10 ^ k \<Longrightarrow> 0 < k \<Longrightarrow> length (nat_str n) \<le> k"
proof (induction n arbitrary: k rule: nat_str.induct)
  case (1 n)
  show ?case
  proof (cases "n < 10")
    case True
    then show ?thesis using 1 by (subst nat_str.simps) simp
  next
    case False
    have "k \<noteq> 1" using 1(3) False by auto
    then obtain j where k: "k = Suc j" "0 < j" using 1(4) by (cases k) auto
    have "n div 10 < 10 ^ j" using 1(3) k(1) by simp
    then have "length (nat_str (n div 10)) \<le> j" using 1 False k(2) by simp
    then show ?thesis using False k(1) by (subst nat_str.simps) simp
  qed
qed

lemma totpAt_length: "totpAt c secret tm = [] \<or> length (totpAt c secret tm) = MFADigits"
proof -
  have "length (zero_padded MFADigits (uint (w mod 1000000 :: 32 word))) = MFADigits" for w
  proof -
    have "uint (w mod 1000000) < 10 ^ 6" by (simp add: uint_mod)
    then have "length (nat_str (uint (w mod 1000000))) \<le> 6" by (intro nat_str_len) auto
    then show ?thesis by (simp add: zero_padded_def MFADigits_def)
  qed
  then show ?thesis by (auto simp: totpAt_def Let_def split: option.splits)
qed

lemma unix_step_shift: "MFAStep \<le> now \<Longrightarrow> d \<in> {-1, 0, 1} \<Longrightarrow> unix_step (now + d * MFAStep) = unix_step now + d"
  by (auto simp: unix_step_def MFAStep_def)

lemma totp_at_step: "0 \<le> tm \<Longrightarrow> totpAt c secret (unix_step tm * MFAStep) = totpAt c secret tm"
proof -
  assume "0 \<le> tm"
  then have "unix_step (unix_step tm * MFAStep) = unix_step tm" by (auto simp: unix_step_def MFAStep_def zero_le_mult_iff)
  then show ?thesis by (simp add: totpAt_def Let_def cong: option.case_cong)
qed

lemma totp_offsets_Some: "totp_offsets c secret code now ds = Some st \<Longrightarrow>
    \<exists>d. d \<in> set ds \<and> st = unix_step now + d \<and> totpAt c secret (now + d * MFAStep) = code"
  by (induction ds) (auto split: if_splits)

lemma totp_offsets_None: "totp_offsets c secret code now ds = None \<longleftrightarrow> (\<forall>d\<in>set ds. totpAt c secret (now + d * MFAStep) \<noteq> code)"
  by (induction ds) auto

lemma ValidateTOTPStep_Some:
  assumes "ValidateTOTPStep c secret code now = Some st" "MFAStep \<le> now"
  shows "unix_step now - 1 \<le> st \<and> st \<le> unix_step now + 1 \<and> totpAt c secret (st * MFAStep) = trim_space code"
proof -
  obtain d where d: "d \<in> {-1, 0, 1}" "st = unix_step now + d" "totpAt c secret (now + d * MFAStep) = trim_space code"
    using assms(1) totp_offsets_Some [of c secret "trim_space code" now "[-1, 0, 1]" st]
    by (auto simp: ValidateTOTPStep_def Let_def split: if_splits)
  have "0 \<le> now + d * MFAStep" using d(1) assms(2) by (auto simp: MFAStep_def)
  then have "totpAt c secret (st * MFAStep) = trim_space code"
    using d unix_step_shift [OF assms(2) d(1)] totp_at_step by metis
  then show ?thesis using d by auto
qed

text \<open>
   A one-time code is accepted exactly when it is the code of the current step, of the one before or of the one
  after (and a code exists: the secret decodes), and the step that is reported is the one the code belongs to.
\<close>

theorem totp_accepts:
  assumes "MFAStep \<le> now"
  shows "(ValidateTOTP c secret code now \<longleftrightarrow> trim_space code \<noteq> [] \<and>
      trim_space code \<in> set (map (\<lambda>d. totpAt c secret ((unix_step now + d) * MFAStep)) [-1, 0, 1])) \<and>
    (case ValidateTOTPStep c secret code now of None \<Rightarrow> True | Some st \<Rightarrow>
      \<bar>st - unix_step now\<bar> \<le> 1 \<and> totpAt c secret (st * MFAStep) = trim_space code)"
proof (rule conjI)
  have s: "totpAt c secret ((unix_step now + d) * MFAStep) = totpAt c secret (now + d * MFAStep)" if "d \<in> {-1, 0, 1}" for d
  proof -
    have "0 \<le> now + d * MFAStep" using that assms by (auto simp: MFAStep_def)
    from totp_at_step [OF this] show ?thesis by (simp add: unix_step_shift [OF assms that])
  qed
  show "ValidateTOTP c secret code now \<longleftrightarrow> trim_space code \<noteq> [] \<and>
      trim_space code \<in> set (map (\<lambda>d. totpAt c secret ((unix_step now + d) * MFAStep)) [-1, 0, 1])"
    using totpAt_length [of c secret "now + -1 * MFAStep"] totpAt_length [of c secret "now + 0 * MFAStep"]
      totpAt_length [of c secret "now + 1 * MFAStep"] s [of "-1"] s [of 0] s [of 1]
    by (auto simp: ValidateTOTP_def ValidateTOTPStep_def Let_def totp_offsets_None MFADigits_def)
  show "case ValidateTOTPStep c secret code now of None \<Rightarrow> True | Some st \<Rightarrow>
      \<bar>st - unix_step now\<bar> \<le> 1 \<and> totpAt c secret (st * MFAStep) = trim_space code"
    using ValidateTOTPStep_Some [OF _ assms, of c secret code] by (auto split: option.splits)
qed

section \<open>A concrete library\<close>

text \<open>A token library for the instances: the members and the times of a payload, in clear, each character of a field
  marked and each field ended by a dot.\<close>

definition mark :: "string \<Rightarrow> string" where
  "mark s = concat (map (\<lambda>c. [CHR ''x'', c]) s) @ ''.''"

fun unmark :: "string \<Rightarrow> string \<Rightarrow> string list" where
  "unmark acc (m # r) =
     (if m = CHR ''x'' then (case r of [] \<Rightarrow> [] | c # r' \<Rightarrow> unmark (acc @ [c]) r') else acc # unmark [] r)"
| "unmark acc [] = []"

fun pairs_of :: "string list \<Rightarrow> (string \<times> string) list" where
  "pairs_of (n # v # r) = (n, v) # pairs_of r"
| "pairs_of _ = []"

definition int_field :: "int \<Rightarrow> string" where
  "int_field i = (if i < 0 then CHR ''-'' # nat_str (- i) else CHR ''+'' # nat_str i)"

definition field_int :: "string \<Rightarrow> int" where
  "field_int s = (if hd s = CHR ''-'' then - digits_int (tl s) else digits_int (tl s))"

definition sample_sign :: "string \<Rightarrow> jwt \<Rightarrow> string option" where
  "sample_sign k p = Some (concat (map mark (int_field (jw_issued p) # int_field (jw_expires p) #
     concat (map (\<lambda>(n, v). [n, case v of JStr s \<Rightarrow> s | _ \<Rightarrow> []]) (jw_members p)))))"

definition sample_parse :: "string \<Rightarrow> string \<Rightarrow> int \<Rightarrow> jwt_error + jwt" where
  "sample_parse k t now =
     (case unmark [] t of
        i # e # fs \<Rightarrow> if now < field_int e then Inr (string_payload (pairs_of fs) (field_int i) (field_int e)) else Inl TokenExpired
      | _ \<Rightarrow> Inl TokenMalformed)"

definition sample_crypto :: crypto where
  "sample_crypto = \<lparr>cr_sign = sample_sign, cr_parse = sample_parse, cr_hash = (\<lambda>p. Some (''#'' @ p)), cr_check = (\<lambda>h p. h = ''#'' @ p),
     cr_sha256 = (\<lambda>x. x), cr_b64 = (\<lambda>bs. map (\<lambda>b. char_of (unat b)) bs), cr_b32 = (\<lambda>bs. replicate 32 CHR ''A''),
     cr_unb32 = (\<lambda>_. Some []), cr_hmac = (\<lambda>_ m. m @ m @ m)\<rparr>"

lemma unmark_mark: "unmark acc (concat (map (\<lambda>c. [CHR ''x'', c]) s) @ CHR ''.'' # r) = (acc @ s) # unmark [] r"
  by (induction s arbitrary: acc) auto

lemma unmark_fields: "unmark [] (concat (map mark fs)) = fs"
  by (induction fs) (simp_all add: mark_def unmark_mark)

lemma pairs_of_fields: "pairs_of (concat (map (\<lambda>(n, v). [n, v]) ms)) = ms"
  by (induction ms) auto

lemma field_int_field [simp]: "field_int (int_field i) = i"
  by (simp add: field_int_def int_field_def)

lemma sample_crypto_ok: "jwt_ok sample_crypto"
proof -
  have "unmark [] (concat (map mark (int_field i # int_field e # concat (map (\<lambda>(n, v). [n, v]) ms)))) =
      int_field i # int_field e # concat (map (\<lambda>(n, v). [n, v]) ms)" for i e and ms :: "(string \<times> string) list"
    by (rule unmark_fields)
  moreover have "concat (map (\<lambda>(n, v). [n, case v of JStr s \<Rightarrow> s | _ \<Rightarrow> []]) (map (\<lambda>(n, v). (n, JStr v)) ms)) =
      concat (map (\<lambda>(n, v). [n, v]) ms)" for ms :: "(string \<times> string) list"
    by (induction ms) auto
  ultimately show ?thesis
    by (simp add: jwt_ok_def sample_crypto_def sample_sign_def sample_parse_def string_payload_def pairs_of_fields)
qed

text \<open>The instances: a token for an hour read after half of it; a code of the step before.\<close>

theorem access_token_roundtrip_witness:
  "\<exists>t. TokenService_Issue sample_crypto ''k'' ''u'' ''t'' 3600 100 = Inr t \<and>
    TokenService_Parse sample_crypto ''k'' t 1900 = Inr \<lparr>cl_user = ''u'', cl_tenant = ''t''\<rparr>"
  using access_token_roundtrip [OF sample_crypto_ok, of "''k''" "''u''" "''t''" 3600 100 1900] by simp

theorem totp_accepts_witness:
  "ValidateTOTP sample_crypto ''S'' (totpAt sample_crypto ''S'' 90) 120"
proof -
  have "MFAStep \<le> 120" "unix_step 120 = 4" by (simp_all add: MFAStep_def unix_step_def)
  moreover have "trim_space (totpAt sample_crypto ''S'' 90) = totpAt sample_crypto ''S'' 90" "totpAt sample_crypto ''S'' 90 \<noteq> []"
    by code_simp+
  ultimately show ?thesis using totp_accepts [of 120 sample_crypto "''S''" "totpAt sample_crypto ''S'' 90"] by (simp add: MFAStep_def)
qed

end
