(* ===== verification/Org_Http.thy ===== *)
theory Org_Http
  imports Authz
begin

text \<open>
  The handlers of \<open>internal/http/server.go\<close> for entities, accounts, members and users, and the account templates of
  \<open>internal/templates/templates.go\<close> that seed a new entity.  The embedded template files are read and decoded
  before the program starts: the decoded list is a parameter.  Time stamps of responses are left out.

  The theorems show that a new entity always ends up with a cash account, which the pipeline needs for its
  credit leg, and two ways around the authorization of \<open>Authz\<close>.
\<close>

section \<open>Templates\<close>

record account_def =
  ad_def_name :: string
  ad_def_type :: string
  ad_def_code :: string

record template =
  tp_key :: string
  tp_name :: string
  tp_accounts :: "account_def list"

definition normalizeAccountType :: "string \<Rightarrow> string" where
  "normalizeAccountType t =
     (let u = to_lower (trim_space t) in
      if u \<in> set [''asset'', ''assets''] then ''asset''
      else if u \<in> set [''liability'', ''liabilities''] then ''liability''
      else if u = ''equity'' then ''equity''
      else if u \<in> set [''income'', ''revenue''] then ''income''
      else if u \<in> set [''expense'', ''expenses''] then ''expense''
      else [])"

fun validate_accounts :: "nat \<Rightarrow> account_def list \<Rightarrow> string + account_def list" where
  "validate_accounts i [] = Inr []"
| "validate_accounts i (a # as) =
     (let name = trim_space (ad_def_name a); typ = normalizeAccountType (ad_def_type a) in
      if name = [] then Inl (''account['' @ int_str (int i) @ ''] name missing'')
      else if typ = [] then Inl (''account['' @ int_str (int i) @ ''] invalid type'')
      else rbind (validate_accounts (i + 1) as) (\<lambda>rest.
        Inr (\<lparr>ad_def_name = name, ad_def_type = typ, ad_def_code = trim_space (ad_def_code a)\<rparr> # rest)))"

definition validateTemplate :: "template \<Rightarrow> string + template" where
  "validateTemplate t =
     (let key = trim_space (tp_key t); name = trim_space (tp_name t) in
      if key = [] then Inl ''template key missing''
      else if name = [] then Inl ''template name missing''
      else if length (tp_accounts t) = 0 then Inl ''template accounts missing''
      else rbind (validate_accounts 0 (tp_accounts t)) (\<lambda>as. Inr \<lparr>tp_key = key, tp_name = name, tp_accounts = as\<rparr>))"

text \<open>\<open>loadTemplates\<close> over the files of the directory in order: name and decoded contents.\<close>

fun loadTemplates_from :: "(string \<times> template) list \<Rightarrow> (string \<times> (string + template)) list \<Rightarrow> string + (string \<times> template) list" where
  "loadTemplates_from out [] = Inr out"
| "loadTemplates_from out ((file, decoded) # files) =
     rbind decoded (\<lambda>t.
     case validateTemplate t of
       Inl e \<Rightarrow> Inl (file @ '': '' @ e)
     | Inr t \<Rightarrow>
         let key = to_lower (trim_space (tp_key t)) in
         if key \<in> fst ` set out then Inl (''duplicate template key: '' @ key)
         else loadTemplates_from (out @ [(key, t)]) files)"

definition loadTemplates :: "(string \<times> (string + template)) list \<Rightarrow> string + (string \<times> template) list" where
  "loadTemplates files = loadTemplates_from [] files"

type_synonym templates = "string + (string \<times> template) list"

definition template_Lookup :: "templates \<Rightarrow> string \<Rightarrow> string + template" where
  "template_Lookup ts key0 =
     rbind ts (\<lambda>table.
     let key = to_lower (trim_space key0) in
     if key = [] then Inl ''template key required''
     else case map_of table key of None \<Rightarrow> Inl (''unknown template: '' @ key) | Some t \<Rightarrow> Inr t)"

definition template_before :: "template \<Rightarrow> template \<Rightarrow> bool" where
  "template_before a b = (if tp_key a = ''basic'' then tp_key b \<noteq> ''basic'' else tp_key b \<noteq> ''basic'' \<and> str_less (tp_name a) (tp_name b))"

definition template_List :: "templates \<Rightarrow> template list" where
  "template_List ts = (case ts of Inl _ \<Rightarrow> [] | Inr table \<Rightarrow> sort_by template_before (map snd table))"

definition defaultAccountDefs :: "templates \<Rightarrow> account_def list" where
  "defaultAccountDefs ts =
     (case template_Lookup ts ''basic'' of
        Inr t \<Rightarrow> tp_accounts t
      | Inl _ \<Rightarrow> [\<lparr>ad_def_name = ''Cash'', ad_def_type = ''asset'', ad_def_code = []\<rparr>])"

definition resolveTemplateDefs :: "templates \<Rightarrow> string \<Rightarrow> string + account_def list" where
  "resolveTemplateDefs ts key =
     (if trim_space key = [] then Inr (defaultAccountDefs ts)
      else rbind (template_Lookup ts key) (\<lambda>t. Inr (tp_accounts t)))"

definition is_cash :: "account_def \<Rightarrow> bool" where
  "is_cash d \<longleftrightarrow> to_lower (trim_space (ad_def_name d)) = ''cash''"

definition ensureCashAccount :: "account_def list \<Rightarrow> account_def list" where
  "ensureCashAccount defs =
     (if list_ex is_cash defs then defs
      else defs @ [\<lparr>ad_def_name = ''Cash'', ad_def_type = ''asset'', ad_def_code = []\<rparr>])"

fun seed_loop :: "string \<Rightarrow> string list \<Rightarrow> account_def list \<Rightarrow> unit dbm" where
  "seed_loop ent seen [] = dret ()"
| "seed_loop ent seen (d # ds) =
     (let key = to_lower (trim_space (ad_def_name d)) in
      if key = [] \<or> key \<in> set seen then seed_loop ent seen ds
      else dbind (dtry (AccountStore_Create ent (ad_def_name d) (ad_def_type d) (ad_def_code d) None)) (\<lambda>_.
        seed_loop ent (key # seen) ds))"

section \<open>Entities\<close>

record org_hc =
  oh_entities :: bool
  oh_memberships :: bool
  oh_users :: bool
  oh_tenants :: bool
  oh_tenant_members :: bool
  oh_accounts :: bool
  oh_search :: bool
  oh_templates :: templates
  oh_user :: string
  oh_tenant :: string

definition seedEntityAccounts :: "org_hc \<Rightarrow> string \<Rightarrow> account_def list \<Rightarrow> unit dbm" where
  "seedEntityAccounts h ent defs = (if \<not> oh_accounts h then dret () else seed_loop ent [] (ensureCashAccount defs))"

definition entityResponseFromModel :: "entity \<Rightarrow> (string \<times> string) list" where
  "entityResponseFromModel e = [(''id'', y_id e), (''tenant_id'', y_tenant e), (''name'', y_name e),
     (''suggestion_context'', y_context e), (''fiscal_year_start_month'', int_str (y_month e)),
     (''fiscal_year_start_day'', int_str (y_day e))]"

definition notImplemented :: handler where
  "notImplemented = respondError 501 ''NOT_IMPLEMENTED''"

text \<open>The error of a store: \<open>ErrNotFound\<close> is 404, any other 500.\<close>

definition store_error :: "db_error \<Rightarrow> handler" where
  "store_error e = (if e = ErrNotFound then respondError 404 ''NOT_FOUND'' else respondError 500 ''INTERNAL_ERROR'')"

definition handleListEntities :: "org_hc \<Rightarrow> int option \<Rightarrow> handler" where
  "handleListEntities h limit =
     (if \<not> oh_entities h then notImplemented
      else hcall (EntityStore_ListForUser (oh_tenant h) (oh_user h) (queryLimit limit 100 1000))
        (\<lambda>_. respondError 500 ''INTERNAL_ERROR'') (\<lambda>es. respond 200 (BList (map entityResponseFromModel es))))"

definition validateFiscalYearStart :: "int option \<Rightarrow> int option \<Rightarrow> string option" where
  "validateFiscalYearStart month day =
     (if (case month of None \<Rightarrow> False | Some m \<Rightarrow> m < 1 \<or> 12 < m) then Some ''INVALID_FISCAL_YEAR_START_MONTH''
      else if (case day of None \<Rightarrow> False | Some d \<Rightarrow> d < 1 \<or> 31 < d) then Some ''INVALID_FISCAL_YEAR_START_DAY''
      else case (month, day) of
        (Some m, Some d) \<Rightarrow>
          if parse_iso (''2024-'' @ pad_left 2 (int_str m) @ ''-'' @ pad_left 2 (int_str d)) = None then Some ''INVALID_FISCAL_YEAR_START'' else None
      | _ \<Rightarrow> None)"

record create_entity_req =
  ce_name :: string
  ce_context :: string
  ce_template :: string

definition handleCreateEntity :: "org_hc \<Rightarrow> create_entity_req option \<Rightarrow> handler" where
  "handleCreateEntity h body =
     (if \<not> oh_entities h then notImplemented
      else case body of
        None \<Rightarrow> respondError 400 ''BAD_REQUEST''
      | Some req \<Rightarrow>
          if ce_name req = [] then respondError 400 ''MISSING_FIELDS''
          else case resolveTemplateDefs (oh_templates h) (ce_template req) of
            Inl _ \<Rightarrow> respondError 400 ''INVALID_TEMPLATE''
          | Inr defs \<Rightarrow>
              hcall (EntityStore_CreateWithOwner (oh_tenant h) (oh_user h) (ce_name req) (ce_context req))
                (\<lambda>_. respondError 500 ''INTERNAL_ERROR'')
                (\<lambda>e. hthen (seedEntityAccounts h (y_id e) defs) (respond 201 (BObj (entityResponseFromModel e)))))"

definition handleListEntityTemplates :: "org_hc \<Rightarrow> handler" where
  "handleListEntityTemplates h = respond 200 (BList (map (\<lambda>t. [(''key'', tp_key t), (''name'', tp_name t),
     (''account_count'', int_str (int (length (tp_accounts t))))]) (template_List (oh_templates h))))"

record update_entity_req =
  ue_name :: "string option"
  ue_context :: "string option"
  ue_month :: "int option"
  ue_day :: "int option"

definition handleUpdateEntity :: "org_hc \<Rightarrow> string \<Rightarrow> update_entity_req option \<Rightarrow> handler" where
  "handleUpdateEntity h entityID body =
     (if \<not> oh_entities h then notImplemented
      else case body of
        None \<Rightarrow> respondError 400 ''BAD_REQUEST''
      | Some req \<Rightarrow>
          if ue_name req = None \<and> ue_context req = None \<and> ue_month req = None \<and> ue_day req = None
          then respondError 400 ''MISSING_FIELDS''
          else case validateFiscalYearStart (ue_month req) (ue_day req) of
            Some code \<Rightarrow> respondError 400 code
          | None \<Rightarrow>
              hcall (EntityStore_Update (oh_tenant h) entityID (ue_name req) (ue_context req) (ue_month req) (ue_day req))
                store_error (\<lambda>e. respond 200 (BObj (entityResponseFromModel e))))"

section \<open>Accounts\<close>

definition accountResponseFromModel :: "account \<Rightarrow> (string \<times> string) list" where
  "accountResponseFromModel a = [(''id'', a_id a), (''entity_id'', a_entity a), (''name'', a_name a), (''type'', a_type a),
     (''code'', a_code a), (''role_tags'', join (a_tags a) '','')]"

definition indexAccount :: "org_hc \<Rightarrow> account \<Rightarrow> unit dbm" where
  "indexAccount h a s =
     (if \<not> oh_search h then dret () s
      else send (UpsertDocument (SearchDocumentFromAccount (db_now s) (oh_tenant h)
             \<lparr>ad_id = a_id a, ad_entity = a_entity a, ad_name = a_name a, ad_type = a_type a, ad_tags = a_tags a,
               ad_created = a_created a\<rparr>)) s)"

definition deleteSearchDocument :: "org_hc \<Rightarrow> string \<Rightarrow> unit dbm" where
  "deleteSearchDocument h i = (if \<not> oh_search h then dret () else send (DeleteDocument i))"

text \<open>The handler's own \<open>normalizeAccountRoleTags\<close>: \<open>None\<close> when a tag is not one of the three.\<close>

fun role_tags_loop :: "string list \<Rightarrow> string list \<Rightarrow> string list option" where
  "role_tags_loop seen [] = Some []"
| "role_tags_loop seen (t # ts) =
     (let normalized = normalizeAccountRoleTag t in
      if normalized \<notin> set allowed_role_tags then None
      else if normalized \<in> set seen then role_tags_loop seen ts
      else map_option (\<lambda>rest. normalized # rest) (role_tags_loop (normalized # seen) ts))"

definition handler_role_tags :: "string list option \<Rightarrow> string list option option" where
  "handler_role_tags tags = (case tags of None \<Rightarrow> Some None | Some ts \<Rightarrow> map_option Some (role_tags_loop [] ts))"

record account_req =
  aq_name :: string
  aq_type :: string
  aq_code :: string
  aq_tags :: "string list option"

definition handleListAccounts :: "org_hc \<Rightarrow> string \<Rightarrow> int option \<Rightarrow> handler" where
  "handleListAccounts h entityID limit =
     (if \<not> oh_accounts h \<or> \<not> oh_entities h then notImplemented
      else hcall (AccountStore_ListForEntity entityID (queryLimit limit 200 1000)) (\<lambda>_. respondError 500 ''INTERNAL_ERROR'')
        (\<lambda>as. respond 200 (BList (map accountResponseFromModel as))))"

definition handleCreateAccount :: "org_hc \<Rightarrow> string \<Rightarrow> account_req option \<Rightarrow> handler" where
  "handleCreateAccount h entityID body =
     (if \<not> oh_accounts h \<or> \<not> oh_entities h then notImplemented
      else case body of
        None \<Rightarrow> respondError 400 ''BAD_REQUEST''
      | Some req \<Rightarrow>
          if aq_name req = [] \<or> aq_type req = [] then respondError 400 ''MISSING_FIELDS''
          else case handler_role_tags (aq_tags req) of
            None \<Rightarrow> respondError 400 ''INVALID_ROLE_TAGS''
          | Some tags \<Rightarrow>
              hcall (AccountStore_Create entityID (aq_name req) (aq_type req) (aq_code req) tags)
                (\<lambda>_. respondError 500 ''INTERNAL_ERROR'')
                (\<lambda>a. hthen (indexAccount h a) (respond 201 (BObj (accountResponseFromModel a)))))"

definition handleUpdateAccount :: "org_hc \<Rightarrow> string \<Rightarrow> account_req option \<Rightarrow> handler" where
  "handleUpdateAccount h accountID body =
     (if \<not> oh_accounts h then notImplemented
      else case body of
        None \<Rightarrow> respondError 400 ''BAD_REQUEST''
      | Some req \<Rightarrow>
          if aq_name req = [] \<or> aq_type req = [] then respondError 400 ''MISSING_FIELDS''
          else case handler_role_tags (aq_tags req) of
            None \<Rightarrow> respondError 400 ''INVALID_ROLE_TAGS''
          | Some tags \<Rightarrow>
              hcall (AccountStore_Update accountID (aq_name req) (aq_type req) (aq_code req) tags) store_error
                (\<lambda>a. hthen (indexAccount h a) (respond 200 (BObj (accountResponseFromModel a)))))"

definition handleDeleteAccount :: "org_hc \<Rightarrow> string \<Rightarrow> handler" where
  "handleDeleteAccount h accountID =
     (if \<not> oh_accounts h then notImplemented
      else hcall (AccountStore_Delete accountID)
        (\<lambda>e. if e = ErrAccountInUse then respondError 409 ''ACCOUNT_IN_USE'' else store_error e)
        (\<lambda>_. hthen (deleteSearchDocument h (''account_'' @ accountID)) (respond 204 BEmpty)))"

section \<open>Members and users\<close>

definition memberResponse :: "member_row \<Rightarrow> (string \<times> string) list" where
  "memberResponse m = [(''id'', mb_id m), (''user_id'', mb_user m), (''entity_id'', mb_of m), (''role'', mb_role m)]"

definition handleListMembers :: "org_hc \<Rightarrow> string \<Rightarrow> int option \<Rightarrow> handler" where
  "handleListMembers h entityID limit =
     (if \<not> oh_memberships h \<or> \<not> oh_entities h then notImplemented
      else hcall (MembershipStore_List entityID (queryLimit limit 100 1000)) (\<lambda>_. respondError 500 ''INTERNAL_ERROR'')
        (\<lambda>ms. respond 200 (BList (map memberResponse ms))))"

record create_member_req =
  mq_user :: string
  mq_email :: string
  mq_role :: string

text \<open>The user of the request, by identifier or by address.\<close>

definition member_user :: "org_hc \<Rightarrow> create_member_req \<Rightarrow> (string \<Rightarrow> handler) \<Rightarrow> handler" where
  "member_user h req k =
     (if mq_user req \<noteq> [] then k (mq_user req)
      else if \<not> oh_users h then notImplemented
      else hcall (UserStore_GetByEmail (trim_space (mq_email req)))
        (\<lambda>e. if e = ErrNotFound then respondError 404 ''USER_NOT_FOUND'' else respondError 500 ''INTERNAL_ERROR'')
        (\<lambda>u. k (u_id u)))"

definition handleCreateMember :: "org_hc \<Rightarrow> string \<Rightarrow> create_member_req option \<Rightarrow> handler" where
  "handleCreateMember h entityID body =
     (if \<not> oh_memberships h \<or> \<not> oh_entities h then notImplemented
      else case body of
        None \<Rightarrow> respondError 400 ''BAD_REQUEST''
      | Some req \<Rightarrow>
          if (mq_user req = [] \<and> mq_email req = []) \<or> mq_role req = [] then respondError 400 ''MISSING_FIELDS''
          else member_user h req (\<lambda>userID.
            if mq_role req \<notin> memberRoles then respondError 400 ''INVALID_ROLE''
            else hcall (MembershipStore_Create entityID userID (mq_role req)) (\<lambda>_. respondError 500 ''INTERNAL_ERROR'')
              (\<lambda>m.
                let created = respond 201 (BObj (memberResponse m)) in
                if \<not> oh_tenant_members h then created
                else hcall (TenantMembershipStore_GetRole (oh_tenant h) userID)
                  (\<lambda>e. if e = ErrNotFound
                       then hcall (TenantMembershipStore_Create (oh_tenant h) userID (if mb_role m = ''admin'' then ''admin'' else ''user''))
                              (\<lambda>_. respondError 500 ''INTERNAL_ERROR'') (\<lambda>_. created)
                       else respondError 500 ''INTERNAL_ERROR'')
                  (\<lambda>_. created))))"

definition handleUpdateMember :: "org_hc \<Rightarrow> string \<Rightarrow> string option \<Rightarrow> handler" where
  "handleUpdateMember h memberID body =
     (if \<not> oh_memberships h \<or> \<not> oh_entities h then notImplemented
      else case body of
        None \<Rightarrow> respondError 400 ''BAD_REQUEST''
      | Some role \<Rightarrow>
          if role \<notin> memberRoles then respondError 400 ''INVALID_ROLE''
          else hcall (MembershipStore_UpdateRole memberID role) store_error (\<lambda>m. respond 200 (BObj (memberResponse m))))"

definition handleDeleteMember :: "org_hc \<Rightarrow> string \<Rightarrow> handler" where
  "handleDeleteMember h memberID =
     (if \<not> oh_memberships h \<or> \<not> oh_entities h then notImplemented
      else hcall (MembershipStore_Delete memberID) store_error (\<lambda>_. respond 204 BEmpty))"

text \<open>\<open>auth.HashPassword\<close> is bcrypt, the parameter \<open>hash\<close>: it may fail.\<close>

record create_user_req =
  uq_email :: string
  uq_password :: string
  uq_admin :: bool
  uq_tenant :: string
  uq_tenant_name :: string

definition MinPasswordLen :: nat where
  "MinPasswordLen = 8"

definition join_tenant :: "org_hc \<Rightarrow> create_user_req \<Rightarrow> user \<Rightarrow> string \<Rightarrow> handler" where
  "join_tenant h req u tenantID =
     (let created = respond 201 (BObj [(''id'', u_id u), (''email'', u_email u), (''is_admin'', if u_admin u then ''true'' else ''false'')]) in
      if tenantID \<noteq> [] \<and> oh_tenant_members h
      then hcall (TenantMembershipStore_Create tenantID (u_id u) (if uq_admin req then ''admin'' else ''user''))
             (\<lambda>_. respondError 500 ''INTERNAL_ERROR'')
             (\<lambda>_. hcall (UserStore_SetDefaultTenant (u_id u) tenantID) (\<lambda>_. respondError 500 ''INTERNAL_ERROR'') (\<lambda>_. created))
      else created)"

definition handleCreateUser :: "org_hc \<Rightarrow> (string \<Rightarrow> string + string) \<Rightarrow> create_user_req option \<Rightarrow> handler" where
  "handleCreateUser h hash body =
     (if \<not> oh_users h then notImplemented
      else case body of
        None \<Rightarrow> respondError 400 ''BAD_REQUEST''
      | Some req \<Rightarrow>
          if uq_email req = [] \<or> uq_password req = [] then respondError 400 ''MISSING_FIELDS''
          else if length (uq_password req) < MinPasswordLen then respondError 400 ''PASSWORD_TOO_SHORT''
          else case hash (uq_password req) of
            Inl _ \<Rightarrow> respondError 500 ''INTERNAL_ERROR''
          | Inr hashed \<Rightarrow>
              hcall (UserStore_Create (uq_email req) hashed (uq_admin req)) (\<lambda>_. respondError 500 ''INTERNAL_ERROR'') (\<lambda>u.
                let tenantID = trim_space (uq_tenant req) in
                if tenantID \<noteq> [] then
                  if \<not> oh_tenants h \<or> \<not> oh_tenant_members h then notImplemented
                  else hcall (TenantStore_GetByID tenantID)
                    (\<lambda>e. if e = ErrNotFound then respondError 400 ''TENANT_NOT_FOUND'' else respondError 500 ''INTERNAL_ERROR'')
                    (\<lambda>_. join_tenant h req u tenantID)
                else if oh_tenants h \<and> oh_tenant_members h then
                  hcall (TenantStore_Create (let n = trim_space (uq_tenant_name req) in if n = [] then ''Default Tenant'' else n))
                    (\<lambda>_. respondError 500 ''INTERNAL_ERROR'') (\<lambda>t. join_tenant h req u (tn_id t))
                else join_tenant h req u []))"

section \<open>Two readings of one body\<close>

text \<open>\<open>POST /transactions\<close> as the server routes it: the middleware reads the body into a map, the handler into
  \<open>createTransactionRequest\<close>; \<open>req\<close> stands for the decoded members other than \<open>entity_id\<close>.\<close>

definition decode_create :: "create_req \<Rightarrow> json_body \<Rightarrow> create_req option" where
  "decode_create req body =
     (case body of None \<Rightarrow> None | Some ps \<Rightarrow> map_option (\<lambda>e. req\<lparr>cq_entity := e\<rparr>) (json_field ''entity_id'' ps))"

definition post_transactions :: "hc \<Rightarrow> create_req \<Rightarrow> rq \<Rightarrow> handler" where
  "post_transactions h req rq =
     run_route (entity_route memberRoles (entityIDFromJSON ''entity_id'')) rq empty_cx
       (\<lambda>_. handleTransactionCreate h (decode_create req (rq_json rq)))"

lemma json_field_from_other:
  "to_lower name \<notin> (\<lambda>p. to_lower (fst p)) ` set ps \<Longrightarrow> json_field_from name v ps = Some v"
  by (induction name v ps rule: json_field_from.induct) auto

lemma json_field_from_distinct:
  "distinct (map (\<lambda>p. to_lower (fst p)) ps) \<Longrightarrow> (name, JStr e) \<in> set ps \<Longrightarrow> json_field_from name v ps = Some e"
proof (induction name v ps rule: json_field_from.induct)
  case (2 name v k x ps)
  then show ?case by (auto simp: json_field_from_other rev_image_eqI split: jval.splits)
qed simp

lemma json_map_mem: "json_map ps n = Some x \<Longrightarrow> (n, x) \<in> set ps"
  by (auto simp: json_map_def dest: map_of_SomeD)

text \<open>
   C29. When no two members of a body have the same key up to case, the entity the middleware authorizes is the one
  the handler of \<open>POST /transactions\<close> acts on.
\<close>

theorem json_entity_agrees:
  assumes "distinct (map (\<lambda>p. to_lower (fst p)) ps)" "entityIDFromJSON ''entity_id'' (rq\<lparr>rq_json := Some ps\<rparr>) s = (Inr e, s')"
  shows "decode_create req (Some ps) = Some (req\<lparr>cq_entity := e\<rparr>)"
proof -
  have "json_map ps ''entity_id'' = Some (JStr e)"
    using assms(2)
    by (auto simp: entityIDFromJSON_def resolved_def body_string_def not_empty_def split: option.splits jval.splits if_splits)
  then have "(''entity_id'', JStr e) \<in> set ps" by (rule json_map_mem)
  then show ?thesis using json_field_from_distinct [OF assms(1)] by (simp add: decode_create_def json_field_def)
qed

theorem json_entity_agrees_witness:
  "decode_create \<lparr>cq_entity = [], cq_date = ''2024-03-31'', cq_memo = [], cq_receipt = [], cq_lines = []\<rparr>
     (Some [(''date'', JStr ''2024-03-31''), (''entity_id'', JStr ''E'')]) =
   Some \<lparr>cq_entity = ''E'', cq_date = ''2024-03-31'', cq_memo = [], cq_receipt = [], cq_lines = []\<rparr>"
proof -
  let ?ps = "[(''date'', JStr ''2024-03-31''), (''entity_id'', JStr ''E'')]"
  have d: "distinct (map (\<lambda>p. to_lower (fst p)) ?ps)" by code_simp
  have "entityIDFromJSON ''entity_id'' ((sample_rq ''E'' None)\<lparr>rq_json := Some ?ps\<rparr>) sample_org_db = (Inr ''E'', sample_org_db)"
    by (simp add: entityIDFromJSON_def resolved_def body_string_def json_map_def not_empty_def)
  from json_entity_agrees [OF d this, of "\<lparr>cq_entity = [], cq_date = ''2024-03-31'', cq_memo = [], cq_receipt = [], cq_lines = []\<rparr>"]
  show ?thesis by simp
qed

definition sample_post_hc :: hc where
  "sample_post_hc = \<lparr>hc_transactions = Some NewTransactionStore, hc_statement = None, hc_entities = True, hc_drafts = True,
     hc_accounts = True, hc_receipts = True, hc_import_rows = True, hc_audit = False, hc_vendors = False,
     hc_search = \<lparr>se_enabled = False, se_vendors = (\<lambda>_. Inr [])\<rparr>, hc_user = ''m'', hc_tenant = ''T''\<rparr>"

definition sample_post_req :: create_req where
  "sample_post_req = \<lparr>cq_entity = [], cq_date = ''2024-03-31'', cq_memo = ''x'', cq_receipt = [],
     cq_lines = [\<lparr>lq_account = ''b'', lq_debit = 100, lq_credit = 0\<rparr>, \<lparr>lq_account = ''a'', lq_debit = 0, lq_credit = 100\<rparr>]\<rparr>"

text \<open>
   C30. When a body names the entity twice, once with another case, the middleware authorizes one entity and the
  handler posts to the other: a user who has a role only in an entity of his own tenant posts a transaction into
  the ledger of an entity of another tenant and gets \<open>201\<close>.
\<close>

theorem json_entity_confusion:
  "\<exists>h req rq s b s' t userID tenantID. rq_json rq = Some [(''entity_id'', JStr ''E''), (''Entity_ID'', JStr ''V'')] \<and>
     rq_user rq = Some userID \<and> rq_tenant rq = Some tenantID \<and>
     post_transactions h req rq s = ((201, b), s') \<and> db_txs s' = db_txs s @ [t] \<and> tx_entity t = ''V'' \<and>
     (\<exists>e\<in>set (db_entities s). ent_id e = ''V'' \<and> ent_tenant e \<noteq> tenantID) \<and> (\<nexists>role. entity_member s tenantID userID ''V'' role)"
proof -
  let ?rq = "sample_rq [] (Some [(''entity_id'', JStr ''E''), (''Entity_ID'', JStr ''V'')])"
  let ?r = "post_transactions sample_post_hc sample_post_req ?rq sample_org_db"
  have c: "fst (fst ?r) = 201 \<and> length (db_txs (snd ?r)) = 1 \<and> tx_entity (hd (db_txs (snd ?r))) = ''V'' \<and> db_txs sample_org_db = []"
    by code_simp
  have n: "\<nexists>role. entity_member sample_org_db ''T'' ''m'' ''V'' role"
    by (simp add: entity_member_def sample_org_db_def)
  have e: "\<exists>e\<in>set (db_entities sample_org_db). ent_id e = ''V'' \<and> ent_tenant e \<noteq> ''T''" by code_simp
  have r: "?r = ((201, snd (fst ?r)), snd ?r)" using c by (metis prod.collapse)
  have t: "db_txs (snd ?r) = db_txs sample_org_db @ [hd (db_txs (snd ?r))]" using c by (cases "db_txs (snd ?r)") auto
  have q: "rq_json ?rq = Some [(''entity_id'', JStr ''E''), (''Entity_ID'', JStr ''V'')] \<and> rq_user ?rq = Some ''m'' \<and> rq_tenant ?rq = Some ''T''"
    by (simp add: sample_rq_def)
  show ?thesis using q r t c e n by blast
qed

section \<open>Memberships of other entities\<close>

lemma UpdateRole_ok:
  assumes "org_ok s" "\<forall>n. \<not> db_fail s n" "m \<in> set (og_entity_members (db_org s))"
  shows "\<exists>s'. MembershipStore_UpdateRole (mb_id m) role s = (Inr (m\<lparr>mb_role := role\<rparr>), s') \<and>
    og_entity_members (db_org s') = map (\<lambda>x. if mb_id x = mb_id m then x\<lparr>mb_role := role\<rparr> else x) (og_entity_members (db_org s))"
proof -
  let ?ms = "map (\<lambda>x. if mb_id x = mb_id m then x\<lparr>mb_role := role\<rparr> else x) (og_entity_members (db_org s))"
  have d: "distinct (map mb_id ?ms)" using assms(1) by (simp add: org_ok_def comp_def if_distrib cong: if_cong)
  have "m\<lparr>mb_role := role\<rparr> \<in> set ?ms" using assms(3) by (auto intro!: image_eqI [of _ _ m])
  then have "find (\<lambda>x. mb_id x = mb_id m) ?ms = Some (m\<lparr>mb_role := role\<rparr>)"
    by (intro find_unique [OF d]) auto
  then show ?thesis
    using assms(2,3)
    by (simp add: MembershipStore_UpdateRole_def MembershipStore_GetByID_def dbind_def stmt_def Let_def upd_org_def no_fail_get_row)
qed

text \<open>
   \<open>PATCH /entities/:id/members/:member_id\<close> checks the caller's role in the entity of the path, but the
  handler updates whatever membership \<open>member_id\<close> names: while the database answers, an administrator of any
  entity changes the role of every membership of every entity of every tenant and gets \<open>200\<close>.
\<close>

theorem member_update_any_entity:
  assumes "org_ok s" "\<forall>n. \<not> db_fail s n" "rq_user rq = Some userID" "rq_tenant rq = Some tenantID" "tenantID \<noteq> []"
    "tenant_member s tenantID userID tenantRole" "entity_member s tenantID userID (rq_param rq ''id'') ''admin''" "rq_param rq ''id'' \<noteq> []"
    "m \<in> set (og_entity_members (db_org s))" "rq_param rq ''member_id'' = mb_id m" "oh_memberships h" "oh_entities h" "role \<in> memberRoles"
  shows "\<exists>b s'. run_route (entity_route adminRoles (entityIDFromParam ''id'')) rq empty_cx
      (\<lambda>_. handleUpdateMember h (rq_param rq ''member_id'') (Some role)) s = ((200, b), s') \<and>
    og_entity_members (db_org s') = map (\<lambda>x. if mb_id x = mb_id m then x\<lparr>mb_role := role\<rparr> else x) (og_entity_members (db_org s))"
proof -
  let ?h = "\<lambda>_ :: cx. handleUpdateMember h (rq_param rq ''member_id'') (Some role)"
  obtain c :: cx and s1 where 1: "same_tables s s1"
    "run_route (entity_route adminRoles (entityIDFromParam ''id'')) rq empty_cx ?h s = ?h c s1"
    using entity_route_reaches [OF assms(1-8), of adminRoles ?h] by (auto simp: adminRoles_def)
  have s1: "org_ok s1" "\<forall>n. \<not> db_fail s1 n" "m \<in> set (og_entity_members (db_org s1))"
    using assms(1,2,9) 1(1) by (simp_all add: org_ok_def same_tables_fields)
  obtain s' where 2: "MembershipStore_UpdateRole (mb_id m) role s1 = (Inr (m\<lparr>mb_role := role\<rparr>), s')"
    "og_entity_members (db_org s') = map (\<lambda>x. if mb_id x = mb_id m then x\<lparr>mb_role := role\<rparr> else x) (og_entity_members (db_org s1))"
    using UpdateRole_ok [OF s1] by blast
  have "?h c s1 = ((200, BObj (memberResponse (m\<lparr>mb_role := role\<rparr>))), s')"
    using 2(1) assms(10-13) by (simp add: handleUpdateMember_def hcall_def respond_def)
  then show ?thesis using 1 2(2) by (auto simp: same_tables_fields)
qed

definition sample_oh :: org_hc where
  "sample_oh = \<lparr>oh_entities = True, oh_memberships = True, oh_users = False, oh_tenants = False, oh_tenant_members = False,
     oh_accounts = True, oh_search = False, oh_templates = Inr [], oh_user = ''m'', oh_tenant = ''T''\<rparr>"

text \<open>The instance: the administrator of \<open>E\<close> takes the role of the administrator of the foreign entity \<open>V\<close> away.\<close>

theorem member_update_any_entity_witness:
  "\<exists>b s'. run_route (entity_route adminRoles (entityIDFromParam ''id'')) (sample_rq ''E'' None) empty_cx
      (\<lambda>_. handleUpdateMember sample_oh ''4'' (Some ''user'')) sample_org_db = ((200, b), s') \<and>
    map mb_role (og_entity_members (db_org s')) = [''admin'', ''user'']"
proof -
  let ?m = "\<lparr>mb_id = ''4'', mb_of = ''V'', mb_user = ''o'', mb_role = ''admin'', mb_created = 0\<rparr>"
  have r: "rq_user (sample_rq ''E'' None) = Some ''m''" "rq_tenant (sample_rq ''E'' None) = Some ''T''"
    "rq_param (sample_rq ''E'' None) ''id'' = ''E''" "rq_param (sample_rq ''E'' None) ''member_id'' = ''4''" by (simp_all add: sample_rq_def)
  have o: "org_ok sample_org_db" "tenant_member sample_org_db ''T'' ''m'' ''user''" "entity_member sample_org_db ''T'' ''m'' ''E'' ''admin''"
    "?m \<in> set (og_entity_members (db_org sample_org_db))"
    unfolding org_ok_def tenant_member_def entity_member_def by code_simp+
  have f: "\<forall>n. \<not> db_fail sample_org_db n" by (simp add: sample_org_db_def empty_db_def)
  obtain b s' where "run_route (entity_route adminRoles (entityIDFromParam ''id'')) (sample_rq ''E'' None) empty_cx
      (\<lambda>_. handleUpdateMember sample_oh ''4'' (Some ''user'')) sample_org_db = ((200, b), s')"
    "og_entity_members (db_org s') = map (\<lambda>x. if mb_id x = mb_id ?m then x\<lparr>mb_role := ''user''\<rparr> else x) (og_entity_members (db_org sample_org_db))"
    using member_update_any_entity [of sample_org_db "sample_rq ''E'' None" "''m''" "''T''" "''user''" ?m sample_oh "''user''"]
      o f r by (auto simp: sample_oh_def memberRoles_def)
  then show ?thesis by (auto simp: sample_org_db_def)
qed

end
