(* ===== verification/Sessions.thy ===== *)
theory Sessions
  imports Session_Stores Org_Http
begin

text \<open>
  Sessions: sign-up, login, the MFA challenge, token refresh, logout, first-run setup and system settings
  (\<open>internal/http/server.go\<close>, \<open>mfa.go\<close>, \<open>setup.go\<close>, \<open>system_settings.go\<close>) and the middleware \<open>AuthRequired\<close>.
  The theorems follow a credential through its life: a refresh token is exchanged once, a one-time code is accepted
  once, a login of a user with MFA ends in a challenge; and they show where the challenge does not hold.
\<close>

section \<open>Handler context\<close>

record sess_hc =
  sh_tokens :: "string option"
  sh_authn :: bool
  sh_refresh :: bool
  sh_mfa :: bool
  sh_steps :: bool
  sh_settings :: bool
  sh_conn :: bool
  sh_public :: bool
  sh_jwtTTL :: int
  sh_refreshTTL :: int
  sh_crypto :: crypto
  sh_rnd :: random
  sh_org :: org_hc

text \<open>\<open>loginResponse\<close>.\<close>

record login_response =
  lr_token :: string
  lr_refresh :: string
  lr_tenant :: string
  lr_mfa :: bool
  lr_challenge :: string

definition login_body :: "sess_hc \<Rightarrow> login_response \<Rightarrow> body" where
  "login_body h r = BObj ([(''token'', lr_token r), (''refresh_token'', lr_refresh r), (''tenant_id'', lr_tenant r)] @
     (if lr_mfa r then [(''mfa_required'', ''true'')] else []) @
     (if lr_challenge r = [] then [] else [(''challenge_token'', lr_challenge r)]))"

definition internalError :: "'e \<Rightarrow> handler" where
  "internalError e = respondError 500 ''INTERNAL_ERROR''"

section \<open>The access token of a request\<close>

text \<open>\<open>AuthRequired\<close>: the bearer token is parsed and its user and tenant become those of the request.\<close>

definition AuthRequired :: "crypto \<Rightarrow> string option \<Rightarrow> string \<Rightarrow> rq \<Rightarrow> db \<Rightarrow> response + rq" where
  "AuthRequired c tokens authHeader rq s =
     (let refuse = Inl (401, BError ''UNAUTHORIZED'') in
      if \<not> has_prefix authHeader ''Bearer '' then refuse
      else case tokens of
        None \<Rightarrow> refuse
      | Some secret \<Rightarrow>
          (case TokenService_Parse c secret (trim_prefix authHeader ''Bearer '') (db_now s) of
             Inl _ \<Rightarrow> refuse
           | Inr cl \<Rightarrow> if cl_tenant cl = [] then refuse
               else Inr (rq\<lparr>rq_user := Some (cl_user cl), rq_tenant := Some (cl_tenant cl)\<rparr>)))"

text \<open>A route of the group \<open>auth\<close>: \<open>AuthRequired\<close>, \<open>requireTenantMembership\<close>, the route's own middleware, the handler.\<close>

definition auth_route :: "sess_hc \<Rightarrow> string \<Rightarrow> middleware list \<Rightarrow> rq \<Rightarrow> (rq \<Rightarrow> cx \<Rightarrow> handler) \<Rightarrow> handler" where
  "auth_route h authHeader ms rq k s =
     (case AuthRequired (sh_crypto h) (sh_tokens h) authHeader rq s of
        Inl resp \<Rightarrow> (resp, s)
      | Inr rq' \<Rightarrow> run_route (requireTenantMembership (oh_tenant_members (sh_org h)) # ms) rq' empty_cx (k rq') s)"

section \<open>Issuing a session\<close>

definition issueSession :: "sess_hc \<Rightarrow> string \<Rightarrow> string \<Rightarrow> string \<Rightarrow> login_response dbm" where
  "issueSession h secret userID tenantID s =
     (case TokenService_Issue (sh_crypto h) secret userID tenantID (sh_jwtTTL h) (db_now s) of
        Inl _ \<Rightarrow> dthrow (ErrText ''sign'') s
      | Inr token \<Rightarrow>
          (case GenerateRefreshToken (sh_crypto h) (sh_rnd h) 0 of
             None \<Rightarrow> dthrow (ErrText ''rand'') s
           | Some refreshToken \<Rightarrow>
               dbind (RefreshTokenStore_Create userID tenantID (HashRefreshToken (sh_crypto h) refreshToken) (db_now s + sh_refreshTTL h))
                 (\<lambda>_. dret \<lparr>lr_token = token, lr_refresh = refreshToken, lr_tenant = tenantID, lr_mfa = False, lr_challenge = []\<rparr>) s))"

definition session :: "sess_hc \<Rightarrow> string \<Rightarrow> int \<Rightarrow> string \<Rightarrow> string \<Rightarrow> handler" where
  "session h secret status userID tenantID =
     hcall (issueSession h secret userID tenantID) internalError (\<lambda>r. respond status (login_body h r))"

definition setupRequired :: "sess_hc \<Rightarrow> bool dbm" where
  "setupRequired h =
     (if \<not> sh_settings h then dthrow ErrUnavailable
      else dbind SystemSettingsStore_Get (\<lambda>r. dret (\<not> sy_setup_complete r)))"

definition systemRequiresMFA :: "sess_hc \<Rightarrow> bool dbm" where
  "systemRequiresMFA h =
     (if \<not> sh_settings h then dthrow ErrUnavailable
      else dbind SystemSettingsStore_Get (\<lambda>r. dret (sd_require_mfa (sy_data r))))"

section \<open>Sign-up\<close>

record register_req =
  rr_email :: string
  rr_password :: string
  rr_tenant :: string

definition isDuplicateEmailErr :: "db_error \<Rightarrow> bool" where
  "isDuplicateEmailErr e \<longleftrightarrow> e = ErrEmailTaken"

definition tenant_name :: "string \<Rightarrow> string" where
  "tenant_name name = (let n = trim_space name in if n = [] then ''Default Tenant'' else n)"

text \<open>With a connection the four inserts are one transaction, otherwise four store calls.\<close>

definition registerUser :: "sess_hc \<Rightarrow> string \<Rightarrow> string \<Rightarrow> string \<Rightarrow> (string \<times> string) dbm" where
  "registerUser h email passwordHash tenantName =
     (if sh_conn h then
        transact
          (dbind (insert_tenant (tenant_name tenantName)) (\<lambda>tenantID.
           dbind (insert_user email passwordHash False) (\<lambda>u.
           dbind (insert_tenant_member tenantID (us_id u) ''user'') (\<lambda>_.
           dbind (UserStore_SetDefaultTenant (us_id u) tenantID) (\<lambda>_. dret (us_id u, tenantID))))))
      else
        dbind (UserStore_Create email passwordHash False) (\<lambda>u.
        dbind (TenantStore_Create (tenant_name tenantName)) (\<lambda>t.
        dbind (TenantMembershipStore_Create (tn_id t) (u_id u) ''user'') (\<lambda>_.
        dbind (UserStore_SetDefaultTenant (u_id u) (tn_id t)) (\<lambda>_. dret (u_id u, tn_id t))))))"

definition register_checked :: "sess_hc \<Rightarrow> string \<Rightarrow> register_req \<Rightarrow> handler" where
  "register_checked h secret req =
     (let email = trim_space (rr_email req) in
      if email = [] \<or> rr_password req = [] then respondError 400 ''MISSING_FIELDS''
      else if length (rr_password req) < MinPasswordLen then respondError 400 ''PASSWORD_TOO_SHORT''
      else case cr_hash (sh_crypto h) (rr_password req) of
        None \<Rightarrow> respondError 500 ''INTERNAL_ERROR''
      | Some hash \<Rightarrow>
          hcall (registerUser h email hash (trim_space (rr_tenant req)))
            (\<lambda>e. if isDuplicateEmailErr e then respondError 409 ''EMAIL_ALREADY_EXISTS'' else internalError e)
            (\<lambda>(userID, tenantID). session h secret 201 userID tenantID))"

definition handleRegister :: "sess_hc \<Rightarrow> register_req option \<Rightarrow> handler" where
  "handleRegister h body =
     (case sh_tokens h of
        None \<Rightarrow> notImplemented
      | Some secret \<Rightarrow>
          if \<not> sh_refresh h \<or> \<not> oh_users (sh_org h) \<or> \<not> oh_tenants (sh_org h) \<or> \<not> oh_tenant_members (sh_org h) \<or> \<not> sh_settings h
          then notImplemented
          else if \<not> sh_public h then respondError 403 ''REGISTRATION_DISABLED''
          else hcall (setupRequired h) (\<lambda>e. if e = ErrUnavailable then notImplemented else internalError e) (\<lambda>required.
            if required then respondError 409 ''SETUP_REQUIRED''
            else case body of None \<Rightarrow> respondError 400 ''BAD_REQUEST'' | Some req \<Rightarrow> register_checked h secret req))"

section \<open>Login\<close>

record login_req =
  li_email :: string
  li_password :: string
  li_tenant :: string

definition first_tenant :: "string \<Rightarrow> string dbm" where
  "first_tenant userID =
     dbind (TenantMembershipStore_ListForUser userID 1) (\<lambda>ms.
     case ms of [] \<Rightarrow> dthrow ErrNotFound | m # _ \<Rightarrow> dret (tms_tenant m))"

definition resolveTenantForLogin :: "string \<Rightarrow> string \<Rightarrow> string dbm" where
  "resolveTenantForLogin userID requested0 =
     (let requested = trim_space requested0 in
      if requested \<noteq> [] then dbind (TenantMembershipStore_GetRole requested userID) (\<lambda>_. dret requested)
      else dbind (UserStore_GetByID userID) (\<lambda>u.
        if u_tenant u \<noteq> []
        then dbind (dtry (TenantMembershipStore_GetRole (u_tenant u) userID)) (\<lambda>r.
               case r of Inr _ \<Rightarrow> dret (u_tenant u) | Inl _ \<Rightarrow> first_tenant userID)
        else first_tenant userID))"

text \<open>The end of a login: a challenge when the user has MFA or the system requires it, a session otherwise.\<close>

definition challenge :: "sess_hc \<Rightarrow> string \<Rightarrow> string \<Rightarrow> string \<Rightarrow> handler" where
  "challenge h secret userID tenantID s =
     (case TokenService_IssueChallenge (sh_crypto h) secret userID tenantID MFATokenPurpose MFATokenTTL (db_now s) of
        Inl e \<Rightarrow> internalError e s
      | Inr t \<Rightarrow> respond 200 (login_body h \<lparr>lr_token = [], lr_refresh = [], lr_tenant = tenantID, lr_mfa = True, lr_challenge = t\<rparr>) s)"

definition no_mfa :: mfa_row where
  "no_mfa = \<lparr>mf_user = [], mf_secret = [], mf_enabled = False, mf_codes = []\<rparr>"

definition login_mfa_gate :: "sess_hc \<Rightarrow> string \<Rightarrow> string \<Rightarrow> string \<Rightarrow> handler" where
  "login_mfa_gate h secret userID tenantID =
     (if \<not> sh_mfa h then session h secret 200 userID tenantID
      else hcall (dtry (UserMFAStore_GetByUserID userID)) internalError (\<lambda>r.
        if r \<noteq> Inl ErrNotFound \<and> isl r then respondError 500 ''INTERNAL_ERROR''
        else hcall (dtry (systemRequiresMFA h)) internalError (\<lambda>q.
          if q \<noteq> Inl ErrUnavailable \<and> isl q then respondError 500 ''INTERNAL_ERROR''
          else
            let m = (case r of Inl _ \<Rightarrow> no_mfa | Inr m \<Rightarrow> m); required = (case q of Inl _ \<Rightarrow> False | Inr b \<Rightarrow> b) in
            if (mf_enabled m \<and> mf_secret m \<noteq> []) \<or> required then
              (if mf_secret m = [] \<or> \<not> mf_enabled m then respondError 409 ''MFA_SETUP_REQUIRED''
               else challenge h secret userID tenantID)
            else session h secret 200 userID tenantID)))"

definition handleLogin :: "sess_hc \<Rightarrow> login_req option \<Rightarrow> handler" where
  "handleLogin h body =
     (case sh_tokens h of
        None \<Rightarrow> notImplemented
      | Some secret \<Rightarrow>
          if \<not> sh_authn h \<or> \<not> sh_refresh h \<or> \<not> oh_users (sh_org h) \<or> \<not> oh_tenant_members (sh_org h) then notImplemented
          else hcall (dtry (setupRequired h)) internalError (\<lambda>required.
            if required = Inr True then respondError 409 ''SETUP_REQUIRED''
            else case body of
              None \<Rightarrow> respondError 400 ''BAD_REQUEST''
            | Some req \<Rightarrow>
                let email = trim_space (li_email req) in
                if email = [] \<or> li_password req = [] then respondError 400 ''MISSING_FIELDS''
                else hcall (Authenticate (sh_crypto h) email (li_password req)) internalError (\<lambda>user.
                  case user of
                    None \<Rightarrow> respondError 401 ''INVALID_CREDENTIALS''
                  | Some userID \<Rightarrow>
                      hcall (resolveTenantForLogin userID (li_tenant req))
                        (\<lambda>e. if e = ErrNotFound then respondError 403 ''TENANT_NOT_FOUND'' else internalError e)
                        (\<lambda>tenantID. login_mfa_gate h secret userID tenantID))))"

section \<open>The second factor\<close>

text \<open>\<open>mfaRecoveryHashes\<close> is the decoded column.\<close>

definition removeString :: "string list \<Rightarrow> string \<Rightarrow> string list" where
  "removeString vs target = filter (\<lambda>v. v \<noteq> target) vs"

definition containsString :: "string list \<Rightarrow> string \<Rightarrow> bool" where
  "containsString vs target \<longleftrightarrow> target \<in> set vs"

text \<open>\<open>handleLoginMFA\<close> once it has read the user's enrolment.\<close>

definition login_mfa_finish :: "sess_hc \<Rightarrow> string \<Rightarrow> challenge_claims \<Rightarrow> string \<Rightarrow> mfa_row \<Rightarrow> handler" where
  "login_mfa_finish h secret cl code m s =
     (if \<not> mf_enabled m \<or> mf_secret m = [] then respondError 409 ''MFA_SETUP_REQUIRED'' s
      else case ValidateTOTPStep (sh_crypto h) (mf_secret m) code (db_now s) of
        Some step \<Rightarrow>
          hcall (UsedTOTPStepStore_MarkUsed (cc_user cl) step (db_now s))
            (\<lambda>e. if e = ErrConflict then respondError 401 ''MFA_CODE_ALREADY_USED'' else internalError e)
            (\<lambda>_. session h secret 200 (cc_user cl) (cc_tenant cl)) s
      | None \<Rightarrow>
          let hash = HashRecoveryCode (sh_crypto h) code in
          if \<not> containsString (mf_codes m) hash then respondError 401 ''INVALID_MFA_CODE'' s
          else hcall (UserMFAStore_SetRecoveryCodeHashes (cc_user cl) (removeString (mf_codes m) hash)) internalError
                 (\<lambda>_. session h secret 200 (cc_user cl) (cc_tenant cl)) s)"

record mfa_req =
  mr_challenge :: string
  mr_code :: string

definition handleLoginMFA :: "sess_hc \<Rightarrow> mfa_req option \<Rightarrow> handler" where
  "handleLoginMFA h body s =
     (case sh_tokens h of
        None \<Rightarrow> notImplemented s
      | Some secret \<Rightarrow>
          if \<not> sh_refresh h \<or> \<not> oh_users (sh_org h) \<or> \<not> oh_tenant_members (sh_org h) \<or> \<not> sh_mfa h \<or> \<not> sh_steps h then notImplemented s
          else case body of
            None \<Rightarrow> respondError 400 ''BAD_REQUEST'' s
          | Some req \<Rightarrow>
              if mr_challenge req = [] \<or> mr_code req = [] then respondError 400 ''MISSING_FIELDS'' s
              else case TokenService_ParseChallenge (sh_crypto h) secret (mr_challenge req) MFATokenPurpose (db_now s) of
                Inl e \<Rightarrow> respondError 401 (if e = ErrExpiredToken then ''MFA_CHALLENGE_EXPIRED'' else ''INVALID_MFA_CHALLENGE'') s
              | Inr cl \<Rightarrow>
                  hcall (UserMFAStore_GetByUserID (cc_user cl))
                    (\<lambda>e. if e = ErrNotFound then respondError 409 ''MFA_SETUP_REQUIRED'' else internalError e)
                    (\<lambda>m. login_mfa_finish h secret cl (mr_code req) m) s)"

definition mfa_status :: "bool \<Rightarrow> bool \<Rightarrow> (string \<times> string) list" where
  "mfa_status configured enabled =
     [(''configured'', if configured then ''true'' else ''false''), (''enabled'', if enabled then ''true'' else ''false'')]"

definition handleMFAStatus :: "sess_hc \<Rightarrow> string \<Rightarrow> handler" where
  "handleMFAStatus h userID =
     (if \<not> sh_mfa h then notImplemented
      else hcall (UserMFAStore_GetByUserID userID)
        (\<lambda>e. if e = ErrNotFound then respond 200 (BObj (mfa_status False False)) else internalError e)
        (\<lambda>m. respond 200 (BObj (mfa_status (mf_secret m \<noteq> []) (mf_enabled m)))))"

definition handleMFASetup :: "sess_hc \<Rightarrow> string \<Rightarrow> handler" where
  "handleMFASetup h userID =
     (if \<not> sh_mfa h then notImplemented
      else hcall (UserStore_GetByID userID) store_error (\<lambda>u.
        hcall (dtry (UserMFAStore_GetByUserID userID)) internalError (\<lambda>r.
          if r \<noteq> Inl ErrNotFound \<and> isl r then respondError 500 ''INTERNAL_ERROR''
          else case GenerateMFASecret (sh_crypto h) (sh_rnd h) 0 of
            None \<Rightarrow> respondError 500 ''INTERNAL_ERROR''
          | Some secret \<Rightarrow>
              (case GenerateRecoveryCodes (sh_crypto h) (sh_rnd h) 1 0 of
                 None \<Rightarrow> respondError 500 ''INTERNAL_ERROR''
               | Some (codes, hashes) \<Rightarrow>
                   hcall (UserMFAStore_UpsertEnrollment userID secret hashes) internalError (\<lambda>_.
                     respond 200 (BObj (mfa_status True False @ [(''secret'', secret),
                       (''uri'', BuildMFAProvisioningURI secret (u_email u)), (''recovery_codes'', join codes '','')])))))))"

definition handleMFAConfirm :: "sess_hc \<Rightarrow> string \<Rightarrow> string option \<Rightarrow> handler" where
  "handleMFAConfirm h userID body =
     (if \<not> sh_mfa h \<or> \<not> sh_steps h then notImplemented
      else case body of
        None \<Rightarrow> respondError 400 ''BAD_REQUEST''
      | Some code \<Rightarrow>
          if code = [] then respondError 400 ''MISSING_FIELDS''
          else hcall (UserMFAStore_GetByUserID userID)
            (\<lambda>e. if e = ErrNotFound then respondError 409 ''MFA_SETUP_REQUIRED'' else internalError e) (\<lambda>m s.
            if mf_secret m = [] then respondError 409 ''MFA_SETUP_REQUIRED'' s
            else case ValidateTOTPStep (sh_crypto h) (mf_secret m) (trim_space code) (db_now s) of
              None \<Rightarrow> respondError 401 ''INVALID_MFA_CODE'' s
            | Some step \<Rightarrow>
                hcall (UsedTOTPStepStore_MarkUsed userID step (db_now s))
                  (\<lambda>e. if e = ErrConflict then respondError 401 ''MFA_CODE_ALREADY_USED'' else internalError e)
                  (\<lambda>_. hcall (UserMFAStore_Enable userID) internalError (\<lambda>_. respond 200 (BObj (mfa_status True True)))) s))"

definition handleMFADisable :: "sess_hc \<Rightarrow> string \<Rightarrow> string option \<Rightarrow> handler" where
  "handleMFADisable h userID body =
     (if \<not> sh_mfa h then notImplemented
      else if body = None \<or> trim_space (the body) = [] then respondError 400 ''MISSING_FIELDS''
      else hcall (UserMFAStore_GetByUserID userID)
        (\<lambda>e. if e = ErrNotFound then respond 204 BEmpty else internalError e) (\<lambda>m s.
        if \<not> mf_enabled m \<or> mf_secret m = [] then respond 204 BEmpty s
        else if \<not> ValidateTOTP (sh_crypto h) (mf_secret m) (the body) (db_now s) then respondError 401 ''INVALID_MFA_CODE'' s
        else hcall (UserMFAStore_Disable userID) internalError (\<lambda>_. respond 204 BEmpty) s))"

definition handleResetUserMFA :: "sess_hc \<Rightarrow> string \<Rightarrow> handler" where
  "handleResetUserMFA h userID =
     (if \<not> sh_mfa h \<or> \<not> oh_users (sh_org h) then notImplemented
      else hcall (UserStore_GetByID userID) store_error (\<lambda>_.
        hcall (UserMFAStore_GetByUserID userID)
          (\<lambda>e. if e = ErrNotFound then respondError 409 ''MFA_SETUP_REQUIRED'' else internalError e) (\<lambda>m.
          if mf_secret m = [] then respondError 409 ''MFA_SETUP_REQUIRED''
          else hcall (UserMFAStore_Disable userID) internalError (\<lambda>_. respond 204 BEmpty))))"

section \<open>Refresh, logout, tenants\<close>

definition handleRefresh :: "sess_hc \<Rightarrow> string option \<Rightarrow> handler" where
  "handleRefresh h body s =
     (case sh_tokens h of
        None \<Rightarrow> notImplemented s
      | Some secret \<Rightarrow>
          if \<not> sh_refresh h then notImplemented s
          else case body of
            None \<Rightarrow> respondError 400 ''BAD_REQUEST'' s
          | Some refreshToken \<Rightarrow>
              if refreshToken = [] then respondError 400 ''MISSING_FIELDS'' s
              else
                let now = db_now s; invalid = respondError 401 ''INVALID_REFRESH_TOKEN'' in
                hcall (RefreshTokenStore_GetByHash (HashRefreshToken (sh_crypto h) refreshToken))
                  (\<lambda>e. if e = ErrNotFound then invalid else internalError e) (\<lambda>stored.
                  if rt_revoked stored \<noteq> None \<or> rt_expires stored < now then invalid
                  else hcall (RefreshTokenStore_RevokeIfActive (rt_id stored) now) internalError (\<lambda>revoked.
                    if \<not> revoked then invalid
                    else session h secret 200 (rt_user stored) (rt_tenant stored))) s)"

definition handleLogout :: "sess_hc \<Rightarrow> string option \<Rightarrow> handler" where
  "handleLogout h body s =
     (if \<not> sh_refresh h then notImplemented s
      else case body of
        None \<Rightarrow> respondError 400 ''BAD_REQUEST'' s
      | Some refreshToken \<Rightarrow>
          if refreshToken = [] then respondError 400 ''MISSING_FIELDS'' s
          else hcall (RefreshTokenStore_GetByHash (HashRefreshToken (sh_crypto h) refreshToken))
            (\<lambda>e. if e = ErrNotFound then respond 204 BEmpty else internalError e) (\<lambda>stored.
            if rt_revoked stored = None
            then hcall (RefreshTokenStore_Revoke (rt_id stored) (db_now s)) internalError (\<lambda>_. respond 204 BEmpty)
            else respond 204 BEmpty) s)"

definition handleLogoutAll :: "sess_hc \<Rightarrow> string \<Rightarrow> handler" where
  "handleLogoutAll h userID s =
     (if \<not> sh_refresh h then notImplemented s
      else hcall (RefreshTokenStore_RevokeAllForUser userID (db_now s)) internalError (\<lambda>_. respond 204 BEmpty) s)"

definition handleMe :: "sess_hc \<Rightarrow> string \<Rightarrow> handler" where
  "handleMe h userID =
     (if \<not> oh_users (sh_org h) then notImplemented
      else hcall (UserStore_GetByID userID) store_error (\<lambda>u.
        respond 200 (BObj [(''id'', u_id u), (''email'', u_email u), (''is_admin'', if u_admin u then ''true'' else ''false''),
          (''default_tenant_id'', u_tenant u)])))"

definition handleListTenants :: "sess_hc \<Rightarrow> string \<Rightarrow> int option \<Rightarrow> handler" where
  "handleListTenants h userID limit =
     (if \<not> oh_tenant_members (sh_org h) then notImplemented
      else hcall (TenantMembershipStore_ListForUser userID (queryLimit limit 100 1000)) internalError (\<lambda>ms.
        respond 200 (BList (map (\<lambda>m. [(''id'', tms_tenant m), (''name'', tms_name m), (''role'', tms_role m)]) ms))))"

definition handleSwitchTenant :: "sess_hc \<Rightarrow> rq \<Rightarrow> cx \<Rightarrow> handler" where
  "handleSwitchTenant h rq c =
     (case sh_tokens h of
        None \<Rightarrow> notImplemented
      | Some secret \<Rightarrow>
          if \<not> sh_refresh h \<or> \<not> oh_tenant_members (sh_org h) then notImplemented
          else session h secret 200 (strOf (rq_user rq)) (strOf (cx_target c)))"

fun user_rows :: "sess_hc \<Rightarrow> user list \<Rightarrow> (string \<times> string) list list dbm" where
  "user_rows h [] = dret []"
| "user_rows h (u # us) =
     dbind (if sh_mfa h then dtry (UserMFAStore_GetByUserID (u_id u)) else dret (Inl ErrNotFound)) (\<lambda>r.
     dbind (user_rows h us) (\<lambda>rest.
       let b = (\<lambda>x. if x then ''true'' else ''false''); m = (case r of Inl _ \<Rightarrow> no_mfa | Inr m \<Rightarrow> m) in
       dret ([(''id'', u_id u), (''email'', u_email u), (''is_admin'', b (u_admin u)), (''mfa_enabled'', b (mf_enabled m)),
              (''mfa_configured'', b (mf_secret m \<noteq> []))] # rest)))"

definition handleListUsers :: "sess_hc \<Rightarrow> int option \<Rightarrow> handler" where
  "handleListUsers h limit =
     (if \<not> oh_users (sh_org h) then notImplemented
      else hcall (UserStore_List (queryLimit limit 100 1000)) internalError (\<lambda>us.
        hcall (user_rows h us) internalError (\<lambda>rows. respond 200 (BList rows))))"

section \<open>First-run setup and system settings\<close>

definition handleSetupStatus :: "sess_hc \<Rightarrow> handler" where
  "handleSetupStatus h =
     hcall (setupRequired h) (\<lambda>e. if e = ErrUnavailable then notImplemented else internalError e)
       (\<lambda>required. respond 200 (BObj [(''required'', if required then ''true'' else ''false'')]))"

record setup_req =
  su_tenant :: string
  su_email :: string
  su_password :: string
  su_entity :: string
  su_template :: string

text \<open>The day-one entity is best effort: its errors are dropped.\<close>

definition setup_entity :: "sess_hc \<Rightarrow> string \<Rightarrow> string \<Rightarrow> setup_req \<Rightarrow> string dbm" where
  "setup_entity h tenantID userID req =
     (let name = trim_space (su_entity req) in
      if \<not> oh_entities (sh_org h) \<or> name = [] then dret []
      else dbind (dtry (EntityStore_CreateWithOwner tenantID userID name [])) (\<lambda>r.
        case r of
          Inl _ \<Rightarrow> dret []
        | Inr e \<Rightarrow>
            dbind (seedEntityAccounts (sh_org h) (y_id e)
                (case resolveTemplateDefs (oh_templates (sh_org h)) (su_template req) of Inl _ \<Rightarrow> [] | Inr defs \<Rightarrow> defs))
              (\<lambda>_. dret (y_id e))))"

definition setup_checked :: "sess_hc \<Rightarrow> setup_req \<Rightarrow> handler" where
  "setup_checked h req s =
     (let email = trim_space (su_email req) in
      if email = [] \<or> su_password req = [] then respondError 400 ''MISSING_FIELDS'' s
      else if length (su_password req) < MinPasswordLen then respondError 400 ''PASSWORD_TOO_SHORT'' s
      else case cr_hash (sh_crypto h) (su_password req) of
        None \<Rightarrow> respondError 500 ''INTERNAL_ERROR'' s
      | Some hash \<Rightarrow>
          hcall
            (dbind (TenantStore_Create (tenant_name (su_tenant req))) (\<lambda>t.
             dbind (UserStore_Create email hash True) (\<lambda>u.
             dbind (TenantMembershipStore_Create (tn_id t) (u_id u) ''admin'') (\<lambda>_.
             dbind (UserStore_SetDefaultTenant (u_id u) (tn_id t)) (\<lambda>_.
             dbind (setup_entity h (tn_id t) (u_id u) req) (\<lambda>entityID.
             dbind (SystemSettingsStore_SetSetupComplete (db_now s)) (\<lambda>_. dret (tn_id t, u_id u, entityID))))))))
            internalError
            (\<lambda>(tenantID, userID, entityID).
              respond 201 (BObj ([(''tenant_id'', tenantID), (''admin_user_id'', userID)] @
                (if entityID = [] then [] else [(''entity_id'', entityID)])))) s)"

definition handleSetup :: "sess_hc \<Rightarrow> setup_req option \<Rightarrow> handler" where
  "handleSetup h body =
     (if \<not> oh_users (sh_org h) \<or> \<not> oh_tenants (sh_org h) \<or> \<not> oh_tenant_members (sh_org h) \<or> \<not> sh_settings h then notImplemented
      else hcall (setupRequired h) internalError (\<lambda>required.
        if \<not> required then respondError 409 ''SETUP_ALREADY_COMPLETE''
        else case body of None \<Rightarrow> respondError 400 ''BAD_REQUEST'' | Some req \<Rightarrow> setup_checked h req))"

definition settings_body :: "settings_data \<Rightarrow> body" where
  "settings_body d = BObj [(''require_mfa'', if sd_require_mfa d then ''true'' else ''false''),
     (''enforce_session_timeout'', if sd_session_timeout d then ''true'' else ''false'')]"

definition handleSystemSettingsGet :: "sess_hc \<Rightarrow> handler" where
  "handleSystemSettingsGet h =
     (if \<not> sh_settings h then notImplemented
      else hcall SystemSettingsStore_Get internalError (\<lambda>r. respond 200 (settings_body (sy_data r))))"

definition handleSystemSettingsUpdate :: "sess_hc \<Rightarrow> (bool option \<times> bool option) option \<Rightarrow> handler" where
  "handleSystemSettingsUpdate h body =
     (if \<not> sh_settings h then notImplemented
      else case body of
        None \<Rightarrow> respondError 400 ''BAD_REQUEST''
      | Some (requireMFA, timeout) \<Rightarrow>
          hcall SystemSettingsStore_Get internalError (\<lambda>r.
            let current = \<lparr>sd_require_mfa = given requireMFA (sd_require_mfa (sy_data r)),
                           sd_session_timeout = given timeout (sd_session_timeout (sy_data r))\<rparr> in
            hcall (SystemSettingsStore_UpsertSettings current) internalError (\<lambda>_. respond 200 (settings_body current))))"

end
