(* ===== verification/Session_Safety.thy ===== *)
theory Session_Safety
  imports Sessions
begin

text \<open>
  What the sessions of \<open>Sessions\<close> guarantee, over every interleaving of the program's other calls: the relations
  \<open>refresh_step\<close> and \<open>totp_step\<close> list the calls that write the tables in question and let anything else
  happen that leaves them alone.
\<close>

section \<open>Refresh tokens are exchanged once\<close>

inductive refresh_step :: "db \<Rightarrow> db \<Rightarrow> bool" where
  create: "RefreshTokenStore_Create u t k e s = (r, s') \<Longrightarrow> refresh_step s s'"
| revoke: "RefreshTokenStore_Revoke i n s = (r, s') \<Longrightarrow> refresh_step s s'"
| active: "RefreshTokenStore_RevokeIfActive i n s = (r, s') \<Longrightarrow> refresh_step s s'"
| touch: "RefreshTokenStore_Touch i n s = (r, s') \<Longrightarrow> refresh_step s s'"
| all: "RefreshTokenStore_RevokeAllForUser u n s = (r, s') \<Longrightarrow> refresh_step s s'"
| other: "og_refresh (db_org s') = og_refresh (db_org s) \<Longrightarrow> refresh_step s s'"

definition refresh_ok :: "db \<Rightarrow> bool" where
  "refresh_ok s \<longleftrightarrow> distinct (map rt_id (og_refresh (db_org s))) \<and> distinct (map rt_hash (og_refresh (db_org s)))"

text \<open>The token with this hash has been revoked.\<close>

definition spent :: "string \<Rightarrow> db \<Rightarrow> bool" where
  "spent k s \<longleftrightarrow> k \<in> rt_hash ` set (og_refresh (db_org s)) \<and>
     (\<forall>r\<in>set (og_refresh (db_org s)). rt_hash r = k \<longrightarrow> rt_revoked r \<noteq> None)"

interpretation spent_inv: table_invariant "spent k"
  by unfold_locales (simp add: spent_def same_tables_fields)

lemma org_seq [simp]: "db_org (s\<lparr>db_seq := n\<rparr>) = db_org s" "db_org (s\<lparr>db_tick := n\<rparr>) = db_org s" by simp_all

lemma spent_update:
  assumes "spent k s" "\<And>r. rt_hash (f r) = rt_hash r" "\<And>r. rt_revoked r \<noteq> None \<Longrightarrow> rt_revoked (f r) \<noteq> None"
  shows "spent k (update_refresh P f s)"
proof -
  have "rt_hash ` set (map (\<lambda>r. if P r then f r else r) rs) = rt_hash ` set rs" for rs
    using assms(2) by (simp flip: set_map add: comp_def if_distrib cong: if_cong)
  then show ?thesis using assms by (auto simp: spent_def update_refresh_def upd_org_def)
qed

lemma keeps_spent [intro]:
  "keeps (spent k) (insert_refresh u t k' e)" "keeps (spent k) (RefreshTokenStore_Revoke i n)"
  "keeps (spent k) (RefreshTokenStore_RevokeIfActive i n)" "keeps (spent k) (RefreshTokenStore_Touch i n)"
  "keeps (spent k) (RefreshTokenStore_RevokeAllForUser u n)"
proof -
  show "keeps (spent k) (insert_refresh u t k' e)"
    unfolding insert_refresh_def
    by (intro spent_inv.keep_stmt) (auto simp: Let_def spent_def upd_org_def split: if_splits)
  show "keeps (spent k) (RefreshTokenStore_Revoke i n)" "keeps (spent k) (RefreshTokenStore_RevokeIfActive i n)"
    "keeps (spent k) (RefreshTokenStore_Touch i n)" "keeps (spent k) (RefreshTokenStore_RevokeAllForUser u n)"
    unfolding RefreshTokenStore_Revoke_def RefreshTokenStore_RevokeIfActive_def RefreshTokenStore_Touch_def
      RefreshTokenStore_RevokeAllForUser_def
    by (intro spent_inv.keep_stmt; auto simp: Let_def revoke_row_def intro!: spent_update)+
qed

lemma keeps_spent_create [intro]: "keeps (spent k) (RefreshTokenStore_Create u t k' e)"
  unfolding RefreshTokenStore_Create_def RefreshTokenStore_GetByID_def by blast

lemma spent_step: "refresh_step s s' \<Longrightarrow> spent k s \<Longrightarrow> spent k s'"
proof (induction rule: refresh_step.induct)
  case (other s' s)
  then show ?case by (simp add: spent_def)
qed (blast intro: spent_inv.keepsD)+

lemma spent_steps: "refresh_step\<^sup>*\<^sup>* s s' \<Longrightarrow> spent k s \<Longrightarrow> spent k s'"
  by (induction rule: rtranclp_induct) (auto intro: spent_step)

lemma hcall_resp:
  "hcall m onErr k s = (r, s') \<longleftrightarrow> (\<exists>e t. m s = (Inl e, t) \<and> onErr e t = (r, s')) \<or> (\<exists>x t. m s = (Inr x, t) \<and> k x t = (r, s'))"
  by (auto simp: hcall_def split: prod.splits sum.splits)

lemmas answers = hcall_resp respondError_def respond_eq internalError_def notImplemented_def

lemma session_spent: "session h secret st u t s = (r, s') \<Longrightarrow> spent k s \<Longrightarrow> spent k s'"
proof -
  have "keeps (spent k) (issueSession h secret u t)"
  proof (unfold keeps_def, intro allI impI)
    fix s assume "spent k s"
    have "keeps (spent k) (dbind (RefreshTokenStore_Create u t k' e) (\<lambda>_. dret x))" for k' e and x :: login_response by blast
    then show "spent k (snd (issueSession h secret u t s))"
      using \<open>spent k s\<close> by (auto simp: issueSession_def dthrow_def keeps_def split: sum.splits option.splits)
  qed
  then show "session h secret st u t s = (r, s') \<Longrightarrow> spent k s \<Longrightarrow> spent k s'"
    by (auto simp: session_def answers dest: spent_inv.keepsD)
qed

lemma find_mem: "find P xs = Some x \<Longrightarrow> x \<in> set xs \<and> P x"
  by (induction xs) (auto split: if_splits)

lemma GetByHash_Inr: "RefreshTokenStore_GetByHash k s = (Inr r, t) \<Longrightarrow>
    r \<in> set (og_refresh (db_org s)) \<and> rt_hash r = k \<and> same_tables s t"
  using find_mem [of "\<lambda>r. rt_hash r = k" "og_refresh (db_org s)" r] by (auto simp: RefreshTokenStore_GetByHash_def get_row_Inr)

lemma spent_refused:
  assumes "spent (HashRefreshToken (sh_crypto h) tok) s" "handleRefresh h (Some tok) s = ((st, b), s')"
  shows "st \<noteq> 200"
proof -
  have "rt_revoked r \<noteq> None" if "RefreshTokenStore_GetByHash (HashRefreshToken (sh_crypto h) tok) s = (Inr r, t)" for r t
    using GetByHash_Inr [OF that] assms(1) by (auto simp: spent_def)
  then show ?thesis
    using assms(2) by (auto simp: handleRefresh_def answers Let_def split: option.splits if_splits)
qed

lemma spent_org: "db_org s' = db_org s \<Longrightarrow> spent k s' \<longleftrightarrow> spent k s"
  by (simp add: spent_def)

lemma spent_revoke:
  assumes "refresh_ok s" "x \<in> set (og_refresh (db_org s))" "rt_hash x = k" "P x"
  shows "spent k (update_refresh P (revoke_row t) s)"
  unfolding spent_def
proof (intro conjI ballI impI)
  let ?rows = "og_refresh (db_org (update_refresh P (revoke_row t) s))"
  have rows: "set ?rows = (\<lambda>r. if P r then revoke_row t r else r) ` set (og_refresh (db_org s))"
    by (simp add: update_refresh_def upd_org_def)
  show "k \<in> rt_hash ` set ?rows"
    unfolding rows image_image using assms(2-4) by (intro image_eqI [of _ _ x]) (auto simp: revoke_row_def)
  fix r assume "r \<in> set ?rows" "rt_hash r = k"
  then obtain y where y: "y \<in> set (og_refresh (db_org s))" "r = (if P y then revoke_row t y else y)" "rt_hash y = k"
    unfolding rows by (auto simp: revoke_row_def split: if_splits)
  then have "y = x" using assms(1-3) by (auto simp: refresh_ok_def distinct_map inj_on_def)
  then show "rt_revoked r \<noteq> None" using y assms(4) by (simp add: revoke_row_def)
qed

lemma refresh_ok_org: "db_org s' = db_org s \<Longrightarrow> refresh_ok s' \<longleftrightarrow> refresh_ok s"
  by (simp add: refresh_ok_def)

lemma refresh_spends:
  assumes "refresh_ok s" "handleRefresh h (Some tok) s = ((200, b), s')"
  shows "spent (HashRefreshToken (sh_crypto h) tok) s'"
proof -
  let ?k = "HashRefreshToken (sh_crypto h) tok"
  obtain secret stored s1 s2 where 1: "RefreshTokenStore_GetByHash ?k s = (Inr stored, s1)"
    and a: "rt_revoked stored = None"
    and 2: "RefreshTokenStore_RevokeIfActive (rt_id stored) (db_now s) s1 = (Inr True, s2)"
    and 3: "session h secret 200 (rt_user stored) (rt_tenant stored) s2 = ((200, b), s')"
    using assms(2) by (auto simp: handleRefresh_def answers Let_def split: option.splits if_splits)
  have org: "db_org s1 = db_org s" using GetByHash_Inr [OF 1] by (simp add: same_tables_fields)
  have "db_org s2 = db_org (update_refresh (\<lambda>r. rt_id r = rt_id stored \<and> rt_revoked r = None) (revoke_row (db_now s)) s1)"
    using 2 by (auto simp: RefreshTokenStore_RevokeIfActive_def stmt_Inr Let_def update_refresh_def upd_org_def)
  moreover have "spent ?k (update_refresh (\<lambda>r. rt_id r = rt_id stored \<and> rt_revoked r = None) (revoke_row (db_now s)) s1)"
    using GetByHash_Inr [OF 1] a assms(1) by (intro spent_revoke [of _ stored]) (auto simp: org refresh_ok_org [OF org])
  ultimately have "spent ?k s2" using spent_org by metis
  then show ?thesis using session_spent [OF 3] by blast
qed

text \<open>
  C14. A refresh token is exchanged at most once: after a refresh answered \<open>200\<close>, no later request with the same token
  is answered \<open>200\<close>, whatever the program does in between (the request may carry any handler configuration with the
  same hash function).
\<close>

theorem refresh_once:
  assumes "refresh_ok s" "handleRefresh h (Some tok) s = ((200, b), s1)" "refresh_step\<^sup>*\<^sup>* s1 s2"
    "handleRefresh h' (Some tok) s2 = ((st, b'), s3)" "sh_crypto h' = sh_crypto h"
  shows "st \<noteq> 200"
  using spent_refused [OF _ assms(4)] spent_steps [OF assms(3) refresh_spends [OF assms(1,2)]] assms(5) by simp

lemma logout_spends:
  assumes "refresh_ok s" "handleLogout h (Some tok) s = ((204, b), s')"
    "HashRefreshToken (sh_crypto h) tok \<in> rt_hash ` set (og_refresh (db_org s))"
  shows "spent (HashRefreshToken (sh_crypto h) tok) s'"
proof -
  let ?k = "HashRefreshToken (sh_crypto h) tok"
  have nf: "RefreshTokenStore_GetByHash ?k s \<noteq> (Inl ErrNotFound, t)" for t
    using assms(3) by (auto simp: RefreshTokenStore_GetByHash_def get_row_def dbind_Inl select_one_def stmt_Inr dthrow_def dret_def
        find_None_iff dest!: stmt_Inl split: option.splits)
  obtain stored s1 where 1: "RefreshTokenStore_GetByHash ?k s = (Inr stored, s1)"
    and 2: "rt_revoked stored = None \<Longrightarrow> RefreshTokenStore_Revoke (rt_id stored) (db_now s) s1 = (Inr (), s')"
    and 3: "rt_revoked stored \<noteq> None \<Longrightarrow> s' = s1"
    using assms(2) nf by (auto simp: handleLogout_def answers split: if_splits)
  note st = GetByHash_Inr [OF 1]
  have org: "db_org s1 = db_org s" using st by (simp add: same_tables_fields)
  show ?thesis
  proof (cases "rt_revoked stored")
    case None
    have "db_org s' = db_org (update_refresh (\<lambda>r. rt_id r = rt_id stored) (revoke_row (db_now s)) s1)"
      using 2 [OF None] by (auto simp: RefreshTokenStore_Revoke_def stmt_Inr update_refresh_def upd_org_def)
    moreover have "spent ?k (update_refresh (\<lambda>r. rt_id r = rt_id stored) (revoke_row (db_now s)) s1)"
      using st assms(1) by (intro spent_revoke [of _ stored]) (auto simp: org refresh_ok_org [OF org])
    ultimately show ?thesis using spent_org by metis
  next
    case (Some t)
    have only: "r = stored" if "r \<in> set (og_refresh (db_org s))" "rt_hash r = ?k" for r
      using that st assms(1) by (auto simp: refresh_ok_def distinct_map inj_on_def)
    have "s' = s1" using 3 Some by simp
    then have "db_org s' = db_org s" using org by simp
    moreover have "?k \<in> rt_hash ` set (og_refresh (db_org s))" using st by (intro image_eqI [of _ _ stored]) simp_all
    moreover have "rt_revoked r \<noteq> None" if "r \<in> set (og_refresh (db_org s))" "rt_hash r = ?k" for r
      using only [OF that] Some by simp
    ultimately show ?thesis by (simp add: spent_def)
  qed
qed

text \<open>
  After a logout answered \<open>204\<close> for a token the server knows, the token is never exchanged again, whatever the
  program does in between.
\<close>

theorem logout_final:
  assumes "refresh_ok s" "handleLogout h (Some tok) s = ((204, b), s1)"
    "HashRefreshToken (sh_crypto h) tok \<in> rt_hash ` set (og_refresh (db_org s))" "refresh_step\<^sup>*\<^sup>* s1 s2"
    "handleRefresh h' (Some tok) s2 = ((st, b'), s3)" "sh_crypto h' = sh_crypto h"
  shows "st \<noteq> 200"
  using spent_refused [OF _ assms(5)] spent_steps [OF assms(4) logout_spends [OF assms(1-3)]] assms(6) by simp

section \<open>One-time codes are accepted once\<close>

inductive totp_step :: "crypto \<Rightarrow> db \<Rightarrow> db \<Rightarrow> bool" for c where
  mark: "ValidateTOTPStep c secret code (db_now s) = Some st \<Longrightarrow> UsedTOTPStepStore_MarkUsed u st (db_now s) s = (r, s') \<Longrightarrow> totp_step c s s'"
| other: "og_steps (db_org s') = og_steps (db_org s) \<Longrightarrow> db_now s \<le> db_now s' \<Longrightarrow> totp_step c s s'"

text \<open>The step is recorded, or so old that no code of it is accepted any more.\<close>

definition step_used :: "string \<Rightarrow> int \<Rightarrow> db \<Rightarrow> bool" where
  "step_used u st s \<longleftrightarrow> MFAStep \<le> db_now s \<and> ((u, st) \<in> set (og_steps (db_org s)) \<or> st + 1 < unix_step (db_now s))"

lemma unix_step_mono: "0 \<le> a \<Longrightarrow> a \<le> b \<Longrightarrow> unix_step a \<le> unix_step b"
  by (simp add: unix_step_def MFAStep_def zdiv_mono1)

lemma MarkUsed_Inr: "UsedTOTPStepStore_MarkUsed u st n s = (Inr (), s') \<Longrightarrow>
    db_now s' = db_now s \<and> (u, st) \<notin> set (og_steps (db_org s)) \<and>
    og_steps (db_org s') = filter (\<lambda>(v, st'). \<not> (v = u \<and> st' < st - 2)) (og_steps (db_org s)) @ [(u, st)]"
  by (auto simp: UsedTOTPStepStore_MarkUsed_def stmt_Inr Let_def upd_org_def split: if_splits)

lemma MarkUsed_Inl: "UsedTOTPStepStore_MarkUsed u st n s = (Inl e, s') \<Longrightarrow> same_tables s s'"
  unfolding UsedTOTPStepStore_MarkUsed_def by (rule stmt_Inl_tables)

lemma step_used_step: "totp_step c s s' \<Longrightarrow> step_used u st s \<Longrightarrow> step_used u st s'"
proof (induction rule: totp_step.induct)
  case (mark secret code s st' v r s')
  show ?case
  proof (cases r)
    case (Inl e)
    then show ?thesis using mark MarkUsed_Inl [of v st' "db_now s" s e s'] by (simp add: step_used_def same_tables_fields)
  next
    case (Inr x)
    have "st' \<le> unix_step (db_now s) + 1" using ValidateTOTPStep_Some [OF mark(1)] mark(3) by (simp add: step_used_def)
    then show ?thesis using MarkUsed_Inr [of v st' "db_now s" s s'] mark(2,3) Inr by (auto simp: step_used_def)
  qed
next
  case (other s' s)
  then show ?case using unix_step_mono [of "db_now s" "db_now s'"] by (auto simp: step_used_def MFAStep_def)
qed

lemma step_used_steps: "(totp_step c)\<^sup>*\<^sup>* s s' \<Longrightarrow> step_used u st s \<Longrightarrow> step_used u st s'"
  by (induction rule: rtranclp_induct) (auto intro: step_used_step)

lemma session_steps: "session h secret stc u t s = (r, s') \<Longrightarrow> og_steps (db_org s') = og_steps (db_org s) \<and> db_now s' = db_now s"
proof -
  have I: "table_invariant (\<lambda>s'. og_steps (db_org s') = x \<and> db_now s' = n)" for x n
    by unfold_locales (simp add: same_tables_fields)
  have "keeps (\<lambda>s'. og_steps (db_org s') = x \<and> db_now s' = n) (RefreshTokenStore_Create u t k e)" for x n k e
    unfolding RefreshTokenStore_Create_def RefreshTokenStore_GetByID_def insert_refresh_def
    by (intro table_invariant.keep_dbind [OF I] table_invariant.keep_stmt [OF I] table_invariant.keep_get_row [OF I])
       (auto simp: Let_def upd_org_def split: if_splits)
  then have "RefreshTokenStore_Create u t k e s = (q, s'') \<Longrightarrow> og_steps (db_org s'') = og_steps (db_org s) \<and> db_now s'' = db_now s" for k e q s''
    unfolding keeps_def by (metis snd_conv)
  then show "session h secret stc u t s = (r, s') \<Longrightarrow> og_steps (db_org s') = og_steps (db_org s) \<and> db_now s' = db_now s"
    by (auto simp: session_def answers issueSession_def dthrow_def dbind_Inl dbind_Inr dret_def split: sum.splits option.splits)
qed

text \<open>The MFA request names this user and is answered by this step.\<close>

definition mfa_attempt :: "sess_hc \<Rightarrow> mfa_req \<Rightarrow> db \<Rightarrow> string \<Rightarrow> int \<Rightarrow> bool" where
  "mfa_attempt h req s u st \<longleftrightarrow> (\<exists>secret cl m. sh_tokens h = Some secret \<and>
     TokenService_ParseChallenge (sh_crypto h) secret (mr_challenge req) MFATokenPurpose (db_now s) = Inr cl \<and> cc_user cl = u \<and>
     find (\<lambda>m. mf_user m = u) (og_mfa (db_org s)) = Some m \<and>
     ValidateTOTPStep (sh_crypto h) (mf_secret m) (mr_code req) (db_now s) = Some st)"

lemma login_mfa_attempt:
  assumes "handleLoginMFA h (Some req) s = ((200, b), s')" "mfa_attempt h req s u st"
  obtains s1 s2 where "same_tables s s1" "UsedTOTPStepStore_MarkUsed u st (db_now s) s1 = (Inr (), s2)"
    "og_steps (db_org s') = og_steps (db_org s2)" "db_now s' = db_now s2"
proof -
  obtain secret cl m where a: "sh_tokens h = Some secret" "cc_user cl = u"
    "TokenService_ParseChallenge (sh_crypto h) secret (mr_challenge req) MFATokenPurpose (db_now s) = Inr cl"
    "find (\<lambda>m. mf_user m = u) (og_mfa (db_org s)) = Some m"
    "ValidateTOTPStep (sh_crypto h) (mf_secret m) (mr_code req) (db_now s) = Some st"
    using assms(2) by (auto simp: mfa_attempt_def)
  obtain m' s1 where 1: "UserMFAStore_GetByUserID u s = (Inr m', s1)" "login_mfa_finish h secret cl (mr_code req) m' s1 = ((200, b), s')"
    using assms(1) a by (auto simp: handleLoginMFA_def answers split: if_splits)
  have m: "m' = m" "same_tables s s1" using 1(1) a(4) by (auto simp: UserMFAStore_GetByUserID_def get_row_Inr)
  have n: "db_now s1 = db_now s" using m(2) by (simp add: same_tables_fields)
  obtain s2 where 2: "UsedTOTPStepStore_MarkUsed u st (db_now s) s1 = (Inr (), s2)" "session h secret 200 u (cc_tenant cl) s2 = ((200, b), s')"
    using 1(2) a(2,5) m(1) n by (auto simp: login_mfa_finish_def answers split: if_splits)
  show thesis using that [OF m(2) 2(1)] session_steps [OF 2(2)] by simp
qed

text \<open>
  C15. A one-time code logs a user in at most once: after a login answered \<open>200\<close> for a code of some step, no later
  request whose code belongs to the same step is answered \<open>200\<close>, although the table of used steps is pruned, as long as
  the clock does not go back.
\<close>

theorem totp_single_use:
  assumes "MFAStep \<le> db_now s" "handleLoginMFA h (Some req) s = ((200, b), s1)" "mfa_attempt h req s u st"
    "(totp_step (sh_crypto h))\<^sup>*\<^sup>* s1 s2" "handleLoginMFA h' (Some req') s2 = ((status, b'), s3)" "mfa_attempt h' req' s2 u st"
  shows "status \<noteq> 200"
proof
  assume "status = 200"
  then have again: "handleLoginMFA h' (Some req') s2 = ((200, b'), s3)" using assms(5) by simp
  obtain t1 t2 where 1: "same_tables s t1" "UsedTOTPStepStore_MarkUsed u st (db_now s) t1 = (Inr (), t2)"
    "og_steps (db_org s1) = og_steps (db_org t2)" "db_now s1 = db_now t2"
    using login_mfa_attempt [OF assms(2,3)] .
  have "step_used u st s1" using MarkUsed_Inr [OF 1(2)] 1 assms(1) by (auto simp: step_used_def same_tables_fields)
  then have used: "step_used u st s2" using step_used_steps assms(4) by blast
  obtain t3 t4 where 2: "same_tables s2 t3" "UsedTOTPStepStore_MarkUsed u st (db_now s2) t3 = (Inr (), t4)"
    using login_mfa_attempt [OF again assms(6)] .
  have "(u, st) \<notin> set (og_steps (db_org s2))" using MarkUsed_Inr [OF 2(2)] 2(1) by (simp add: same_tables_fields)
  moreover have "unix_step (db_now s2) \<le> st + 1"
  proof -
    have "MFAStep \<le> db_now s2" using used by (simp add: step_used_def)
    then show ?thesis using assms(6) ValidateTOTPStep_Some unfolding mfa_attempt_def by fastforce
  qed
  ultimately show False using used by (auto simp: step_used_def)
qed

section \<open>What a login proves\<close>

lemma login_reads [intro]:
  "keeps (same_tables s) SystemSettingsStore_Get" "keeps (same_tables s) (setupRequired h)" "keeps (same_tables s) (systemRequiresMFA h)"
  "keeps (same_tables s) (resolveTenantForLogin u t)" "keeps (same_tables s) (UserStore_GetByEmail e)"
  "keeps (same_tables s) (UserMFAStore_GetByUserID u)" "keeps (same_tables s) (Authenticate c e p)"
proof -
  show g: "keeps (same_tables s) SystemSettingsStore_Get" for s
    unfolding SystemSettingsStore_Get_def by (intro reads.keep_flow select_reads)
  show "keeps (same_tables s) (setupRequired h)" "keeps (same_tables s) (systemRequiresMFA h)"
    unfolding setupRequired_def systemRequiresMFA_def by (intro reads.keep_flow g)+
  have l: "keeps (same_tables s) (first_tenant u)" "keeps (same_tables s) (UserStore_GetByID u)"
    "keeps (same_tables s) (TenantMembershipStore_GetRole t' u)" for t'
    unfolding first_tenant_def TenantMembershipStore_ListForUser_def UserStore_GetByID_def TenantMembershipStore_GetRole_def Let_def
    by (intro reads.keep_flow; auto split: list.split)+
  show "keeps (same_tables s) (resolveTenantForLogin u t)"
    unfolding resolveTenantForLogin_def Let_def by (intro reads.keep_flow l)
  show e: "keeps (same_tables s) (UserStore_GetByEmail e)" for s
    unfolding UserStore_GetByEmail_def by (intro reads.keep_flow)
  show "keeps (same_tables s) (UserMFAStore_GetByUserID u)"
    unfolding UserMFAStore_GetByUserID_def by (intro reads.keep_flow)
  show "keeps (same_tables s) (Authenticate c e p)"
    unfolding Authenticate_def by (intro reads.keep_flow e)
qed

lemma Authenticate_Inr:
  assumes "Authenticate c email pw s = (Inr u, s')"
  shows "same_tables s s' \<and> (case u of None \<Rightarrow> True | Some i \<Rightarrow>
    \<exists>row\<in>set (og_users (db_org s)). us_email row = email \<and> us_id row = i \<and> cr_check c (us_hash row) pw)"
proof -
  obtain r s1 where 1: "UserStore_GetByEmail email s = (r, s1)" by (cases "UserStore_GetByEmail email s")
  have t: "same_tables s s1" using 1
    by (auto simp: UserStore_GetByEmail_def dbind_def dret_def dest: get_row_tables split: prod.splits sum.splits)
  show ?thesis
  proof (cases r)
    case (Inl e)
    then show ?thesis using assms 1 t by (auto simp: Authenticate_def dtry_def dbind_def dret_def dthrow_def split: if_splits)
  next
    case (Inr x)
    then obtain row where "find (\<lambda>r. us_email r = email) (og_users (db_org s)) = Some row" "x = userFromRow row"
      using 1 by (auto simp: UserStore_GetByEmail_def dbind_Inr dret_def get_row_Inr)
    then have row: "row \<in> set (og_users (db_org s))" "us_email row = email" "u_id x = us_id row" "u_hash x = us_hash row"
      using find_mem [of "\<lambda>r. us_email r = email" "og_users (db_org s)" row] by (simp_all add: userFromRow_def)
    have "u = (if cr_check c (u_hash x) pw then Some (u_id x) else None) \<and> s' = s1"
      using assms 1 Inr by (auto simp: Authenticate_def dtry_def dbind_def dret_def split: if_splits)
    then show ?thesis using row t by auto
  qed
qed

lemma login_body_eq: "login_body h r = login_body h r' \<Longrightarrow>
    lr_mfa r = lr_mfa r' \<and> lr_tenant r = lr_tenant r' \<and> lr_challenge r = lr_challenge r' \<and> lr_token r = lr_token r'"
  by (auto simp: login_body_def split: if_splits)

lemma session_not_mfa: "session h secret st u t s = ((st', login_body h r), s') \<Longrightarrow> st' \<noteq> 500 \<Longrightarrow> \<not> lr_mfa r"
  by (auto simp: session_def answers issueSession_def dthrow_def dbind_Inr dret_def dest!: login_body_eq split: sum.splits option.splits)

lemma challenge_200: "challenge h secret u t s = ((200, login_body h r), s') \<Longrightarrow>
    TokenService_IssueChallenge (sh_crypto h) secret u t MFATokenPurpose MFATokenTTL (db_now s) = Inr (lr_challenge r) \<and>
    lr_mfa r \<and> lr_tenant r = t \<and> s' = s"
  by (auto simp: challenge_def answers dest!: login_body_eq split: sum.splits)

lemma get_row_NotFound: "get_row tbl P s = (Inl ErrNotFound, s') \<Longrightarrow> find P (tbl (s\<lparr>db_tick := db_tick s + 1\<rparr>)) = None"
  by (auto simp: get_row_def dbind_Inl select_one_def stmt_Inr dthrow_def dret_def dest!: stmt_Inl split: option.splits)

lemma mfa_row_read: "UserMFAStore_GetByUserID u s = (Inr m, s') \<Longrightarrow> find (\<lambda>m. mf_user m = u) (og_mfa (db_org s)) = Some m"
  "UserMFAStore_GetByUserID u s = (Inl ErrNotFound, s') \<Longrightarrow> find (\<lambda>m. mf_user m = u) (og_mfa (db_org s)) = None"
  unfolding UserMFAStore_GetByUserID_def by (simp add: get_row_Inr) (drule get_row_NotFound, simp)

lemma requires_read: "sh_settings h \<Longrightarrow> systemRequiresMFA h s = (y, s') \<Longrightarrow> y \<noteq> Inl ErrUnavailable"
  "systemRequiresMFA h s = (Inr b, s') \<Longrightarrow> b = (case og_system (db_org s) of None \<Rightarrow> False | Some r \<Rightarrow> sd_require_mfa (sy_data r))"
  by (auto simp: systemRequiresMFA_def SystemSettingsStore_Get_def dbind_def stmt_def dret_def dthrow_def Let_def no_settings_def
      split: prod.splits sum.splits option.splits if_splits)

text \<open>The two answers of the gate that are \<open>200\<close>.\<close>

lemma gate_200:
  assumes "login_mfa_gate h secret u t s = ((200, login_body h r), s')" "sh_mfa h" "sh_settings h"
  obtains (session) "\<not> lr_mfa r" "\<nexists>m. find (\<lambda>m. mf_user m = u) (og_mfa (db_org s)) = Some m \<and> mf_enabled m \<and> mf_secret m \<noteq> []"
      "\<nexists>y. og_system (db_org s) = Some y \<and> sd_require_mfa (sy_data y)"
  | (challenged) s1 where "lr_mfa r" "same_tables s s1" "challenge h secret u t s1 = ((200, login_body h r), s')"
proof -
  obtain x s4 where x: "UserMFAStore_GetByUserID u s = (x, s4)" by (metis surj_pair)
  obtain y s5 where y: "systemRequiresMFA h s4 = (y, s5)" by (metis surj_pair)
  have t: "same_tables s s4" "same_tables s4 s5"
    by (rule login_reads(6) [THEN readsD, OF x], rule login_reads(3) [THEN readsD, OF y])
  let ?m = "case x of Inl _ \<Rightarrow> no_mfa | Inr m \<Rightarrow> m"
  have g: "\<not> (x \<noteq> Inl ErrNotFound \<and> isl x)" "\<not> isl y"
    using assms x y requires_read(1) [OF assms(3) y] by (auto simp: login_mfa_gate_def answers dtry_def split: if_splits)
  then obtain b where b: "y = Inr b" by (cases y) auto
  have e: "if (mf_enabled ?m \<and> mf_secret ?m \<noteq> []) \<or> b
      then mf_secret ?m \<noteq> [] \<and> mf_enabled ?m \<and> challenge h secret u t s5 = ((200, login_body h r), s')
      else session h secret 200 u t s5 = ((200, login_body h r), s')"
    using assms g b x y by (auto simp: login_mfa_gate_def answers dtry_def Let_def split: if_splits)
  have m: "find (\<lambda>m. mf_user m = u) (og_mfa (db_org s)) = (case x of Inl _ \<Rightarrow> None | Inr m \<Rightarrow> Some m)"
    using g(1) mfa_row_read [of u s] x by (cases x) auto
  have o: "b = (case og_system (db_org s) of None \<Rightarrow> False | Some r \<Rightarrow> sd_require_mfa (sy_data r))"
    using requires_read(2) [OF y [unfolded b]] same_tables_fields(25) [OF t(1)] by simp
  show thesis
  proof (cases "(mf_enabled ?m \<and> mf_secret ?m \<noteq> []) \<or> b")
    case True
    then have "challenge h secret u t s5 = ((200, login_body h r), s')" using e by auto
    then show thesis using challenged [of s5] challenge_200 t same_tables_trans by blast
  next
    case False
    then have "session h secret 200 u t s5 = ((200, login_body h r), s')" using e by auto
    then have "\<not> lr_mfa r" using session_not_mfa by fastforce
    then show thesis using session m o False by (auto split: sum.splits option.splits)
  qed
qed

lemma handleLogin_200:
  assumes "handleLogin h (Some req) s = ((200, b), s')"
  obtains secret userID tenantID row s1 where "sh_tokens h = Some secret" "same_tables s s1"
    "row \<in> set (og_users (db_org s))" "us_email row = trim_space (li_email req)" "us_id row = userID"
    "cr_check (sh_crypto h) (us_hash row) (li_password req)" "login_mfa_gate h secret userID tenantID s1 = ((200, b), s')"
proof -
  obtain secret q userID tenantID s1 s2 s3 where 1: "sh_tokens h = Some secret" "dtry (setupRequired h) s = (Inr q, s1)"
    "Authenticate (sh_crypto h) (trim_space (li_email req)) (li_password req) s1 = (Inr (Some userID), s2)"
    "resolveTenantForLogin userID (li_tenant req) s2 = (Inr tenantID, s3)"
    "login_mfa_gate h secret userID tenantID s3 = ((200, b), s')"
    using assms by (auto simp: handleLogin_def answers Let_def split: option.splits if_splits)
  have t: "same_tables s s1" "same_tables s1 s2" "same_tables s2 s3"
    by (rule reads.keep_dtry [OF login_reads(2), THEN readsD, OF 1(2)], rule login_reads(7) [THEN readsD, OF 1(3)],
        rule login_reads(4) [THEN readsD, OF 1(4)])
  obtain row where "row \<in> set (og_users (db_org s))" "us_email row = trim_space (li_email req)" "us_id row = userID"
    "cr_check (sh_crypto h) (us_hash row) (li_password req)"
    using Authenticate_Inr [OF 1(3)] t(1) by (auto simp: same_tables_fields)
  moreover have "same_tables s s3" using t same_tables_trans by blast
  ultimately show thesis using that 1 by blast
qed

text \<open>
  C31. A login answered with tokens proves the password, and that no second factor was due: with an MFA store the
  user has no enabled enrolment and the system does not require one.
\<close>

theorem login_session_sound:
  assumes "handleLogin h (Some req) s = ((200, login_body h r), s')" "\<not> lr_mfa r" "sh_mfa h" "sh_settings h"
  shows "\<exists>row\<in>set (og_users (db_org s)). us_email row = trim_space (li_email req) \<and> cr_check (sh_crypto h) (us_hash row) (li_password req) \<and>
    (\<nexists>m. find (\<lambda>m. mf_user m = us_id row) (og_mfa (db_org s)) = Some m \<and> mf_enabled m \<and> mf_secret m \<noteq> []) \<and>
    (\<nexists>y. og_system (db_org s) = Some y \<and> sd_require_mfa (sy_data y))"
proof -
  obtain secret userID tenantID row s1 where 1: "same_tables s s1" "row \<in> set (og_users (db_org s))"
    "us_email row = trim_space (li_email req)" "us_id row = userID" "cr_check (sh_crypto h) (us_hash row) (li_password req)"
    "login_mfa_gate h secret userID tenantID s1 = ((200, login_body h r), s')"
    by (rule handleLogin_200 [OF assms(1)], rule that; assumption)
  have org: "db_org s1 = db_org s" by (rule same_tables_fields(25) [OF 1(1)])
  show ?thesis
  proof (rule gate_200 [OF 1(6) assms(3,4)])
    assume "\<nexists>m. find (\<lambda>m. mf_user m = userID) (og_mfa (db_org s1)) = Some m \<and> mf_enabled m \<and> mf_secret m \<noteq> []"
      "\<nexists>y. og_system (db_org s1) = Some y \<and> sd_require_mfa (sy_data y)"
    then show ?thesis using 1(2-5) unfolding org by (intro bexI [of _ row]) simp_all
  qed (use assms(2) in simp)
qed

text \<open>
  C16. The challenge that a login with MFA ends in is itself an access token: it is signed with the same secret and
  carries the same two claims, and \<open>AuthRequired\<close> does not look at its purpose.  Within its ten minutes it
  authenticates every request as the user, although no second factor has been given.
\<close>

theorem mfa_challenge_bypass:
  assumes "jwt_ok (sh_crypto h)" "sh_mfa h" "sh_settings h" "handleLogin h (Some req) s = ((200, login_body h r), s1)" "lr_mfa r"
    "lr_tenant r \<noteq> []" "db_now t < db_now s + MFATokenTTL"
  shows "\<exists>row\<in>set (og_users (db_org s)). us_email row = trim_space (li_email req) \<and>
    AuthRequired (sh_crypto h) (sh_tokens h) (''Bearer '' @ lr_challenge r) rq t =
      Inr (rq\<lparr>rq_user := Some (us_id row), rq_tenant := Some (lr_tenant r)\<rparr>)"
proof -
  obtain secret userID tenantID row s2 where 1: "sh_tokens h = Some secret" "same_tables s s2" "row \<in> set (og_users (db_org s))"
    "us_email row = trim_space (li_email req)" "us_id row = userID" "login_mfa_gate h secret userID tenantID s2 = ((200, login_body h r), s1)"
    by (rule handleLogin_200 [OF assms(4)], rule that; assumption)
  obtain s3 where 2: "same_tables s2 s3" "challenge h secret userID tenantID s3 = ((200, login_body h r), s1)"
    using gate_200 [OF 1(6) assms(2,3)] assms(5) by metis
  have n: "db_now s3 = db_now s" using 1(2) 2(1) by (simp add: same_tables_fields)
  have c: "TokenService_IssueChallenge (sh_crypto h) secret userID (lr_tenant r) MFATokenPurpose MFATokenTTL (db_now s) = Inr (lr_challenge r)"
    using challenge_200 [OF 2(2)] n by simp
  have "TokenService_Parse (sh_crypto h) secret (lr_challenge r) (db_now t) = Inr \<lparr>cl_user = userID, cl_tenant = lr_tenant r\<rparr>"
    by (rule challenge_is_token [OF assms(1) c assms(7)])
  then have "AuthRequired (sh_crypto h) (sh_tokens h) (''Bearer '' @ lr_challenge r) rq t =
      Inr (rq\<lparr>rq_user := Some userID, rq_tenant := Some (lr_tenant r)\<rparr>)"
    using assms(6) 1(1) by (simp add: AuthRequired_def has_prefix_def trim_prefix_def Let_def)
  then show ?thesis using 1(3-5) by blast
qed

section \<open>Sign-up\<close>

definition tables_but_refresh :: "org \<Rightarrow> org" where
  "tables_but_refresh g = g\<lparr>og_refresh := []\<rparr>"

lemma session_tables: "session h secret st u t s = (r, s') \<Longrightarrow> tables_but_refresh (db_org s') = tables_but_refresh (db_org s)"
proof -
  have I: "table_invariant (\<lambda>s'. tables_but_refresh (db_org s') = x)" for x
    by unfold_locales (simp add: same_tables_fields)
  have "keeps (\<lambda>s'. tables_but_refresh (db_org s') = x) (RefreshTokenStore_Create u t k e)" for x k e
    unfolding RefreshTokenStore_Create_def RefreshTokenStore_GetByID_def insert_refresh_def
    by (intro table_invariant.keep_dbind [OF I] table_invariant.keep_stmt [OF I] table_invariant.keep_get_row [OF I])
       (auto simp: Let_def upd_org_def tables_but_refresh_def split: if_splits)
  then have "RefreshTokenStore_Create u t k e s = (q, s'') \<Longrightarrow> tables_but_refresh (db_org s'') = tables_but_refresh (db_org s)" for k e q s''
    unfolding keeps_def by (metis snd_conv)
  then show "session h secret st u t s = (r, s') \<Longrightarrow> tables_but_refresh (db_org s') = tables_but_refresh (db_org s)"
    by (auto simp: session_def answers issueSession_def dthrow_def dbind_Inl dbind_Inr dret_def split: sum.splits option.splits)
qed

lemma map_skip: "i \<notin> f ` set xs \<Longrightarrow> map (\<lambda>x. if f x = i then g x else x) xs = xs"
  by (induction xs) auto

lemma register_tx:
  assumes "sh_conn h" "registerUser h email hash name s = (Inr (userID, tenantID), s')"
  shows "\<exists>u t m. db_org s' = (db_org s)\<lparr>og_users := og_users (db_org s) @ [u], og_tenants := og_tenants (db_org s) @ [t],
      og_tenant_members := og_tenant_members (db_org s) @ [m]\<rparr> \<and> us_id u = userID \<and> us_email u = email \<and> us_hash u = hash \<and>
    \<not> us_admin u \<and> us_tenant u = Some tenantID \<and> tn_id t = tenantID \<and> tn_name t = tenant_name name \<and>
    mb_of m = tenantID \<and> mb_user m = userID \<and> mb_role m = ''user'' \<and>
    email \<notin> us_email ` set (og_users (db_org s)) \<and> userID \<notin> us_id ` set (og_users (db_org s)) \<and> tenantID \<notin> tn_id ` set (og_tenants (db_org s))"
proof -
  let ?m = "dbind (insert_tenant (tenant_name name)) (\<lambda>tenantID.
           dbind (insert_user email hash False) (\<lambda>u.
           dbind (insert_tenant_member tenantID (us_id u) ''user'') (\<lambda>_.
           dbind (UserStore_SetDefaultTenant (us_id u) tenantID) (\<lambda>_. dret (us_id u, tenantID)))))"
  have tx: "transact ?m s = (Inr (userID, tenantID), s')" using assms by (simp add: registerUser_def)
  obtain s1 s2 where t: "same_tables s s1" "?m s1 = (Inr (userID, tenantID), s2)" "same_tables s2 s'"
    using transact_Inr [OF tx] by (elim exE conjE) (rule that)
  obtain a1 a2 a3 u i where 1: "insert_tenant (tenant_name name) s1 = (Inr tenantID, a1)" "insert_user email hash False a1 = (Inr u, a2)"
    "insert_tenant_member tenantID userID ''user'' a2 = (Inr i, a3)" "UserStore_SetDefaultTenant userID tenantID a3 = (Inr (), s2)" "us_id u = userID"
    using t(2) by (auto simp: dbind_Inr dret_def)
  note d = insert_tenant_def insert_user_def insert_tenant_member_def UserStore_SetDefaultTenant_def upd_org_def Let_def
  have o1: "db_org a1 = (db_org s1)\<lparr>og_tenants := og_tenants (db_org s1) @ [\<lparr>tn_id = tenantID, tn_name = tenant_name name, tn_created = db_now s1\<rparr>]\<rparr>"
    "tenantID \<notin> tn_id ` set (og_tenants (db_org s1))"
    using 1(1) by (auto simp: d stmt_Inr split: if_splits)
  have o2: "db_org a2 = (db_org a1)\<lparr>og_users := og_users (db_org a1) @ [u]\<rparr>" "userID \<notin> us_id ` set (og_users (db_org a1))"
    "email \<notin> us_email ` set (og_users (db_org a1))" "us_email u = email" "us_hash u = hash" "\<not> us_admin u"
    using 1(2,5) by (auto simp: d stmt_Inr split: if_splits)
  have o3: "\<exists>m. db_org a3 = (db_org a2)\<lparr>og_tenant_members := og_tenant_members (db_org a2) @ [m]\<rparr> \<and> mb_of m = tenantID \<and>
      mb_user m = userID \<and> mb_role m = ''user''"
    using 1(3) by (auto simp: d stmt_Inr split: if_splits)
  have o4: "db_org s2 = (db_org a3)\<lparr>og_users := map (\<lambda>r. if us_id r = userID then r\<lparr>us_tenant := Some tenantID\<rparr> else r) (og_users (db_org a3))\<rparr>"
    using 1(4) by (auto simp: d stmt_Inr split: if_splits)
  have "map (\<lambda>r. if us_id r = userID then r\<lparr>us_tenant := Some tenantID\<rparr> else r) (og_users (db_org s1)) = og_users (db_org s1)"
    using o2(2) o1(1) by (intro map_skip) simp
  then show ?thesis
    using o1 o2 o3 o4 1(5) same_tables_fields(25) [OF t(1)] same_tables_fields(25) [OF t(3)]
    by (intro exI [of _ "u\<lparr>us_tenant := Some tenantID\<rparr>"] exI [of _ "\<lparr>tn_id = tenantID, tn_name = tenant_name name, tn_created = db_now s1\<rparr>"])
       (elim exE conjE, intro exI conjI, auto)
qed

text \<open>
  A sign-up answered \<open>201\<close> adds exactly one user, one tenant and one membership: the user has the given address,
  which nobody had, the hash of the given password, no administrator rights, and the role \<open>user\<close> in the new tenant only,
  which is the default one.  No other row of users, tenants, memberships, enrolments or settings changes.
\<close>

theorem register_201:
  assumes "sh_conn h" "handleRegister h (Some req) s = ((201, b), s')"
  shows "\<exists>u t m hash. tables_but_refresh (db_org s') = tables_but_refresh ((db_org s)\<lparr>og_users := og_users (db_org s) @ [u],
      og_tenants := og_tenants (db_org s) @ [t], og_tenant_members := og_tenant_members (db_org s) @ [m]\<rparr>) \<and>
    cr_hash (sh_crypto h) (rr_password req) = Some hash \<and> us_hash u = hash \<and> MinPasswordLen \<le> length (rr_password req) \<and>
    us_email u = trim_space (rr_email req) \<and> us_email u \<notin> us_email ` set (og_users (db_org s)) \<and> \<not> us_admin u \<and>
    us_tenant u = Some (tn_id t) \<and> mb_of m = tn_id t \<and> mb_user m = us_id u \<and> mb_role m = ''user''"
proof -
  obtain secret s1 hash userID tenantID s2 where 1: "setupRequired h s = (Inr False, s1)" "cr_hash (sh_crypto h) (rr_password req) = Some hash"
    "registerUser h (trim_space (rr_email req)) hash (trim_space (rr_tenant req)) s1 = (Inr (userID, tenantID), s2)"
    "session h secret 201 userID tenantID s2 = ((201, b), s')" "MinPasswordLen \<le> length (rr_password req)"
    using assms(2) by (auto simp: handleRegister_def register_checked_def answers Let_def split: option.splits if_splits)
  have "db_org s1 = db_org s" by (rule same_tables_fields(25) [OF login_reads(2) [THEN readsD, OF 1(1)]])
  moreover obtain u :: user_row and t :: tenant_row and m :: member_row where
    "db_org s2 = (db_org s1)\<lparr>og_users := og_users (db_org s1) @ [u], og_tenants := og_tenants (db_org s1) @ [t],
      og_tenant_members := og_tenant_members (db_org s1) @ [m]\<rparr>" "us_id u = userID" "us_email u = trim_space (rr_email req)" "us_hash u = hash"
    "\<not> us_admin u" "us_tenant u = Some tenantID" "tn_id t = tenantID" "mb_of m = tenantID" "mb_user m = userID" "mb_role m = ''user''"
    "trim_space (rr_email req) \<notin> us_email ` set (og_users (db_org s1))"
    using register_tx [OF assms(1) 1(3)] by (elim exE conjE) (rule that)
  ultimately show ?thesis using session_tables [OF 1(4)] 1(2,5)
    by (intro exI [of _ u] exI [of _ t] exI [of _ m] exI [of _ hash]) simp
qed

section \<open>Instances\<close>

text \<open>User \<open>m\<close> of tenant \<open>T\<close> (and, for the last instance, of \<open>U\<close>) with an enabled enrolment and one recovery code; one
  refresh token \<open>tok\<close> is active.\<close>

definition sample_secret :: string where
  "sample_secret = ''secret''"

definition sample_rnd :: random where
  "sample_rnd k n = Some (replicate n 65)"

definition sample_sh :: "random \<Rightarrow> sess_hc" where
  "sample_sh rnd = \<lparr>sh_tokens = Some sample_secret, sh_authn = True, sh_refresh = True, sh_mfa = True, sh_steps = True, sh_settings = True,
     sh_conn = True, sh_public = True, sh_jwtTTL = 900, sh_refreshTTL = 86400, sh_crypto = sample_crypto, sh_rnd = rnd,
     sh_org = sample_oh\<lparr>oh_users := True, oh_tenants := True, oh_tenant_members := True\<rparr>\<rparr>"

definition sample_session_db :: db where
  "sample_session_db = sample_org_db\<lparr>db_now := 1000, db_org := (db_org sample_org_db)\<lparr>
     og_users := [\<lparr>us_id = ''m'', us_email = ''m@x'', us_hash = ''#password'', us_tenant = Some ''T'', us_admin = False, us_created = 0\<rparr>],
     og_mfa := [\<lparr>mf_user = ''m'', mf_secret = ''S'', mf_enabled = True, mf_codes = [''RECOVERYAA'']\<rparr>],
     og_refresh := [\<lparr>rt_id = ''r'', rt_user = ''m'', rt_tenant = ''T'', rt_hash = ''tok'', rt_expires = 2000, rt_created = 0,
        rt_used = None, rt_revoked = None\<rparr>],
     og_system := Some \<lparr>sy_setup_complete = True, sy_completed = None, sy_data = no_settings, sy_updated = 0\<rparr>\<rparr>\<rparr>"

definition sample_login :: login_req where
  "sample_login = \<lparr>li_email = ''m@x'', li_password = ''password'', li_tenant = []\<rparr>"

lemma sample_refresh_ok: "refresh_ok sample_session_db"
  unfolding refresh_ok_def by code_simp

lemma resp_split: "fst (fst r) = st \<Longrightarrow> r = ((st, snd (fst r)), snd r)"
  by (metis prod.collapse)

theorem refresh_once_witness:
  "let r = handleRefresh (sample_sh sample_rnd) (Some ''tok'') sample_session_db in
   fst (fst r) = 200 \<and> fst (fst (handleRefresh (sample_sh sample_rnd) (Some ''tok'') (snd r))) \<noteq> 200"
proof -
  let ?r = "handleRefresh (sample_sh sample_rnd) (Some ''tok'') sample_session_db"
  let ?q = "handleRefresh (sample_sh sample_rnd) (Some ''tok'') (snd ?r)"
  have 1: "fst (fst ?r) = 200" by code_simp
  have "fst (fst ?q) \<noteq> 200"
    by (rule refresh_once [OF sample_refresh_ok resp_split [OF 1] rtranclp.rtrancl_refl resp_split [OF refl]]) simp
  then show ?thesis using 1 by (simp add: Let_def)
qed

theorem logout_final_witness:
  "let r = handleLogout (sample_sh sample_rnd) (Some ''tok'') sample_session_db in
   fst (fst r) = 204 \<and> fst (fst (handleRefresh (sample_sh sample_rnd) (Some ''tok'') (snd r))) \<noteq> 200"
proof -
  let ?r = "handleLogout (sample_sh sample_rnd) (Some ''tok'') sample_session_db"
  let ?q = "handleRefresh (sample_sh sample_rnd) (Some ''tok'') (snd ?r)"
  have 1: "fst (fst ?r) = 204" by code_simp
  have k: "HashRefreshToken (sh_crypto (sample_sh sample_rnd)) ''tok'' \<in> rt_hash ` set (og_refresh (db_org sample_session_db))" by code_simp
  have "fst (fst ?q) \<noteq> 200"
    by (rule logout_final [OF sample_refresh_ok resp_split [OF 1] k rtranclp.rtrancl_refl resp_split [OF refl]]) simp
  then show ?thesis using 1 by (simp add: Let_def)
qed

definition sample_challenge :: string where
  "sample_challenge = (case TokenService_IssueChallenge sample_crypto sample_secret ''m'' ''T'' MFATokenPurpose MFATokenTTL 1000 of
     Inl _ \<Rightarrow> [] | Inr t \<Rightarrow> t)"

definition sample_mfa :: "string \<Rightarrow> mfa_req" where
  "sample_mfa code = \<lparr>mr_challenge = sample_challenge, mr_code = code\<rparr>"

definition sample_code :: string where
  "sample_code = totpAt sample_crypto ''S'' 1000"

theorem totp_single_use_witness:
  "let r = handleLoginMFA (sample_sh sample_rnd) (Some (sample_mfa sample_code)) sample_session_db in
   fst (fst r) = 200 \<and> fst (fst (handleLoginMFA (sample_sh (\<lambda>k n. Some (replicate n 66))) (Some (sample_mfa sample_code)) (snd r))) \<noteq> 200"
proof -
  let ?r = "handleLoginMFA (sample_sh sample_rnd) (Some (sample_mfa sample_code)) sample_session_db"
  let ?h = "sample_sh (\<lambda>k n. Some (replicate n 66))"
  let ?q = "handleLoginMFA ?h (Some (sample_mfa sample_code)) (snd ?r)"
  let ?cl = "\<lparr>cc_user = ''m'', cc_tenant = ''T'', cc_purpose = MFATokenPurpose\<rparr>"
  let ?m = "\<lparr>mf_user = ''m'', mf_secret = ''S'', mf_enabled = True, mf_codes = [''RECOVERYAA'']\<rparr>"
  have 1: "fst (fst ?r) = 200" by code_simp
  have n: "MFAStep \<le> db_now sample_session_db" by code_simp
  have a: "mfa_attempt (sample_sh sample_rnd) (sample_mfa sample_code) sample_session_db ''m'' 32"
    unfolding mfa_attempt_def
    by (rule exI [of _ sample_secret], rule exI [of _ ?cl], rule exI [of _ ?m]) code_simp
  have a2: "mfa_attempt ?h (sample_mfa sample_code) (snd ?r) ''m'' 32"
    unfolding mfa_attempt_def
    by (rule exI [of _ sample_secret], rule exI [of _ ?cl], rule exI [of _ ?m]) code_simp
  have "fst (fst ?q) \<noteq> 200"
    by (rule totp_single_use [OF n resp_split [OF 1] a rtranclp.rtrancl_refl resp_split [OF refl] a2])
  then show ?thesis using 1 by (simp add: Let_def)
qed

theorem login_session_sound_witness:
  "fst (fst (handleLogin ((sample_sh sample_rnd)\<lparr>sh_mfa := True\<rparr>) (Some sample_login)
     (sample_session_db\<lparr>db_org := (db_org sample_session_db)\<lparr>og_mfa := []\<rparr>\<rparr>))) = 200 \<and>
   (\<exists>row\<in>set (og_users (db_org sample_session_db)). us_email row = ''m@x'' \<and> cr_check sample_crypto (us_hash row) ''password'')"
proof -
  let ?s = "sample_session_db\<lparr>db_org := (db_org sample_session_db)\<lparr>og_mfa := []\<rparr>\<rparr>"
  let ?h = "(sample_sh sample_rnd)\<lparr>sh_mfa := True\<rparr>"
  let ?l = "\<lparr>lr_token = (case TokenService_Issue sample_crypto sample_secret ''m'' ''T'' 900 1000 of Inl _ \<Rightarrow> [] | Inr t \<Rightarrow> t),
    lr_refresh = replicate 32 CHR ''A'', lr_tenant = ''T'', lr_mfa = False, lr_challenge = []\<rparr>"
  have 1: "fst (handleLogin ?h (Some sample_login) ?s) = (200, login_body ?h ?l)" by code_simp
  have 2: "\<not> lr_mfa ?l" "sh_mfa ?h" "sh_settings ?h" by (simp_all add: sample_sh_def)
  have c: "sh_crypto ?h = sample_crypto" "og_users (db_org ?s) = og_users (db_org sample_session_db)" "trim_space ''m@x'' = ''m@x''"
    by (simp_all add: sample_sh_def) code_simp
  show ?thesis
    using login_session_sound [OF _ 2, of sample_login ?s "snd (handleLogin ?h (Some sample_login) ?s)"] 1 c
    by (auto simp: sample_login_def prod_eq_iff)
qed

text \<open>The instance of the bypass: with the challenge as its bearer token and no code, the user switches to his own tenant and
  is given a full session.\<close>

theorem mfa_challenge_bypass_witness:
  "let r = handleLogin (sample_sh sample_rnd) (Some sample_login) sample_session_db;
       q = auth_route (sample_sh sample_rnd) (''Bearer '' @ sample_challenge) [requireTenantAccess True ''id''] (sample_rq ''T'' None)
             (handleSwitchTenant (sample_sh sample_rnd)) (snd r) in
   (\<exists>row\<in>set (og_users (db_org sample_session_db)).
      AuthRequired sample_crypto (Some sample_secret) (''Bearer '' @ sample_challenge) (sample_rq ''T'' None) sample_session_db =
        Inr ((sample_rq ''T'' None)\<lparr>rq_user := Some (us_id row), rq_tenant := Some ''T''\<rparr>)) \<and>
   fst (fst q) = 200 \<and> length (og_refresh (db_org (snd q))) = 2"
proof -
  let ?h = "sample_sh sample_rnd"
  let ?r = "handleLogin ?h (Some sample_login) sample_session_db"
  let ?l = "\<lparr>lr_token = [], lr_refresh = [], lr_tenant = ''T'', lr_mfa = True, lr_challenge = sample_challenge\<rparr>"
  have 1: "fst ?r = (200, login_body ?h ?l)" by code_simp
  then have r: "?r = ((200, login_body ?h ?l), snd ?r)" by (metis prod.collapse)
  have f: "sh_mfa ?h" "sh_settings ?h" "lr_mfa ?l" "lr_tenant ?l \<noteq> []" "db_now sample_session_db < db_now sample_session_db + MFATokenTTL"
    "sh_crypto ?h = sample_crypto" "sh_tokens ?h = Some sample_secret"
    by (simp_all add: sample_sh_def MFATokenTTL_def)
  have "jwt_ok (sh_crypto ?h)" using sample_crypto_ok f(6) by simp
  from mfa_challenge_bypass [OF this f(1,2) r f(3,4,5), of "sample_rq ''T'' None"]
  have a: "\<exists>row\<in>set (og_users (db_org sample_session_db)).
      AuthRequired sample_crypto (Some sample_secret) (''Bearer '' @ sample_challenge) (sample_rq ''T'' None) sample_session_db =
        Inr ((sample_rq ''T'' None)\<lparr>rq_user := Some (us_id row), rq_tenant := Some ''T''\<rparr>)"
    using f(6,7) by auto
  have q: "let q = auth_route ?h (''Bearer '' @ sample_challenge) [requireTenantAccess True ''id''] (sample_rq ''T'' None)
             (handleSwitchTenant ?h) (snd ?r) in fst (fst q) = 200 \<and> length (og_refresh (db_org (snd q))) = 2"
    by code_simp
  show ?thesis using a q by (simp add: Let_def)
qed

theorem register_201_witness:
  "let r = handleRegister (sample_sh sample_rnd) (Some \<lparr>rr_email = ''n@x'', rr_password = ''longenough'', rr_tenant = []\<rparr>) sample_session_db in
   fst (fst r) = 201 \<and> (\<exists>u. us_email u = ''n@x'' \<and> \<not> us_admin u \<and> og_users (db_org (snd r)) = og_users (db_org sample_session_db) @ [u])"
proof -
  let ?q = "\<lparr>rr_email = ''n@x'', rr_password = ''longenough'', rr_tenant = []\<rparr> :: register_req"
  let ?r = "handleRegister (sample_sh sample_rnd) (Some ?q) sample_session_db"
  have 1: "fst (fst ?r) = 201" "trim_space ''n@x'' = ''n@x''" by code_simp+
  have c: "sh_conn (sample_sh sample_rnd)" by (simp add: sample_sh_def)
  have g: "og_users g = og_users g'" if "tables_but_refresh g = tables_but_refresh g'" for g g'
    using that by (cases g; cases g') (simp add: tables_but_refresh_def)
  obtain u :: user_row and t :: tenant_row and m :: member_row where
    "tables_but_refresh (db_org (snd ?r)) = tables_but_refresh ((db_org sample_session_db)\<lparr>og_users := og_users (db_org sample_session_db) @ [u],
      og_tenants := og_tenants (db_org sample_session_db) @ [t], og_tenant_members := og_tenant_members (db_org sample_session_db) @ [m]\<rparr>)"
    "us_email u = trim_space (rr_email ?q)" "\<not> us_admin u"
    using register_201 [OF c resp_split [OF 1(1)]] by (elim exE conjE) (rule that)
  then have "us_email u = ''n@x'' \<and> \<not> us_admin u \<and> og_users (db_org (snd ?r)) = og_users (db_org sample_session_db) @ [u]"
    using g [of "db_org (snd ?r)"] 1(2) by simp
  then show ?thesis unfolding Let_def using 1(1) by blast
qed

text \<open>
  A recovery code is not consumed atomically: the handler reads the codes, checks the given one and writes the rest
  back.  A second request with the same code whose read comes before the first one's write is answered \<open>200\<close> as well,
  so one recovery code opens two sessions.
\<close>

theorem recovery_code_twice:
  "\<exists>h h' req s m t b s1 b' s2. UserMFAStore_GetByUserID ''m'' s = (Inr m, t) \<and> sh_crypto h' = sh_crypto h \<and>
     handleLoginMFA h (Some req) t = ((200, b), s1) \<and> mf_codes m = [HashRecoveryCode (sh_crypto h) (mr_code req)] \<and>
     ValidateTOTPStep (sh_crypto h) (mf_secret m) (mr_code req) (db_now s) = None \<and>
     login_mfa_finish h' sample_secret \<lparr>cc_user = ''m'', cc_tenant = ''T'', cc_purpose = MFATokenPurpose\<rparr> (mr_code req) m s1 = ((200, b'), s2) \<and>
     length (og_refresh (db_org s2)) = length (og_refresh (db_org s)) + 2"
proof -
  let ?h = "sample_sh sample_rnd" and ?h' = "sample_sh (\<lambda>k n. Some (replicate n 66))"
  let ?req = "sample_mfa ''RECOVERYAA''"
  let ?m = "\<lparr>mf_user = ''m'', mf_secret = ''S'', mf_enabled = True, mf_codes = [''RECOVERYAA'']\<rparr>"
  let ?t = "snd (UserMFAStore_GetByUserID ''m'' sample_session_db)"
  let ?r = "handleLoginMFA ?h (Some ?req) ?t"
  let ?cl = "\<lparr>cc_user = ''m'', cc_tenant = ''T'', cc_purpose = MFATokenPurpose\<rparr>"
  let ?q = "login_mfa_finish ?h' sample_secret ?cl (mr_code ?req) ?m (snd ?r)"
  have 1: "fst (UserMFAStore_GetByUserID ''m'' sample_session_db) = Inr ?m" by code_simp
  have "case ?r of ((st, _), s1) \<Rightarrow> st = 200 \<and> (case login_mfa_finish ?h' sample_secret ?cl (mr_code ?req) ?m s1 of ((st2, _), s2) \<Rightarrow>
      st2 = 200 \<and> length (og_refresh (db_org s2)) = length (og_refresh (db_org sample_session_db)) + 2)" by code_simp
  then have 2: "fst (fst ?r) = 200" "fst (fst ?q) = 200"
      "length (og_refresh (db_org (snd ?q))) = length (og_refresh (db_org sample_session_db)) + 2"
    by (simp_all only: case_prod_unfold)
  have 3: "sh_crypto ?h' = sh_crypto ?h" "mf_codes ?m = [HashRecoveryCode (sh_crypto ?h) (mr_code ?req)]"
    "ValidateTOTPStep (sh_crypto ?h) (mf_secret ?m) (mr_code ?req) (db_now sample_session_db) = None"
    by (simp_all add: sample_sh_def) code_simp+
  have "UserMFAStore_GetByUserID ''m'' sample_session_db = (Inr ?m, ?t)" using 1 by (metis prod.collapse)
  then show ?thesis using 3 resp_split [OF 2(1)] resp_split [OF 2(2)] 2(3) by blast
qed

end
