(* ===== verification/Triples.thy ===== *)
theory Triples
  imports Db
begin

text \<open>
  Hoare triples for the statement monad: \<open>triple P m E Q\<close> says that from a state with \<open>P\<close> the program \<open>m\<close> either
  fails in a state with \<open>E\<close> or returns some \<open>x\<close> in a state with \<open>Q x\<close>.  The rules follow the shape of the code: one
  for a value, an error, a call, a call whose error is examined, and a loop.
\<close>

definition triple :: "(db \<Rightarrow> bool) \<Rightarrow> 'a dbm \<Rightarrow> (db \<Rightarrow> bool) \<Rightarrow> ('a \<Rightarrow> db \<Rightarrow> bool) \<Rightarrow> bool" where
  "triple P m E Q \<longleftrightarrow> (\<forall>s. P s \<longrightarrow> (case m s of (Inl e, s') \<Rightarrow> E s' | (Inr x, s') \<Rightarrow> Q x s'))"

lemma tripleI:
  "(\<And>s e s'. P s \<Longrightarrow> m s = (Inl e, s') \<Longrightarrow> E s') \<Longrightarrow> (\<And>s x s'. P s \<Longrightarrow> m s = (Inr x, s') \<Longrightarrow> Q x s') \<Longrightarrow> triple P m E Q"
  unfolding triple_def by (auto split: prod.splits sum.splits)

lemma triple_Inr: "triple P m E Q \<Longrightarrow> P s \<Longrightarrow> m s = (Inr x, s') \<Longrightarrow> Q x s'"
  unfolding triple_def by fastforce

lemma triple_Inl: "triple P m E Q \<Longrightarrow> P s \<Longrightarrow> m s = (Inl e, s') \<Longrightarrow> E s'"
  unfolding triple_def by fastforce

lemma triple_snd: "triple P m J (\<lambda>_. J) \<Longrightarrow> P s \<Longrightarrow> J (snd (m s))"
  unfolding triple_def by (cases "m s"; cases "fst (m s)") auto

lemma triple_snd_iff: "triple P m J (\<lambda>_. J) \<longleftrightarrow> (\<forall>s. P s \<longrightarrow> J (snd (m s)))"
  unfolding triple_def by (auto split: prod.splits sum.splits) (metis (no_types) snd_conv sum.exhaust prod.exhaust)+

lemma keeps_triple: "keeps J m \<longleftrightarrow> triple J m J (\<lambda>_. J)"
  by (simp add: keeps_def triple_snd_iff)

lemma triple_dret: "(\<And>s. P s \<Longrightarrow> Q x s) \<Longrightarrow> triple P (dret x) E Q"
  by (simp add: triple_def dret_def)

lemma triple_dthrow: "(\<And>s. P s \<Longrightarrow> E s) \<Longrightarrow> triple P (dthrow e) E Q"
  by (simp add: triple_def dthrow_def)

lemma triple_dbind: "triple P m E R \<Longrightarrow> (\<And>x. triple (R x) (f x) E Q) \<Longrightarrow> triple P (dbind m f) E Q"
  unfolding triple_def dbind_def by (fastforce split: prod.splits sum.splits)

lemma triple_dtry_case:
  assumes "triple P m E1 Q1"
  shows "triple P (dtry m) E (\<lambda>r s. case r of Inl _ \<Rightarrow> E1 s | Inr x \<Rightarrow> Q1 x s)"
proof (rule tripleI)
  fix s e s' assume "dtry m s = (Inl e, s')"
  then show "E s'" by (simp add: db_simps)
next
  fix s r s' assume p: "P s" "dtry m s = (Inr r, s')"
  then have "m s = (r, s')" by (simp add: db_simps)
  then show "case r of Inl _ \<Rightarrow> E1 s' | Inr x \<Rightarrow> Q1 x s'"
    using triple_Inr [OF assms p(1)] triple_Inl [OF assms p(1)] by (cases r) auto
qed

lemma triple_conseq:
  assumes "triple P' m E' Q'" "\<And>s. P s \<Longrightarrow> P' s" "\<And>s. E' s \<Longrightarrow> E s" "\<And>x s. Q' x s \<Longrightarrow> Q x s"
  shows "triple P m E Q"
  by (rule tripleI) (blast intro: assms(2-4) triple_Inl [OF assms(1)] triple_Inr [OF assms(1)])+

lemma triple_dtry:
  assumes "triple P m J (\<lambda>_. J)"
  shows "triple P (dtry m) E (\<lambda>_. J)"
proof (rule triple_conseq [OF triple_dtry_case [OF assms]])
  show "J s" if "case r of Inl _ \<Rightarrow> J s | Inr x \<Rightarrow> J s" for r :: "db_error + 'a" and s
    using that by (cases r) auto
qed

lemma triple_pre: "(\<And>s. P s \<Longrightarrow> P' s) \<Longrightarrow> triple P' m E Q \<Longrightarrow> triple P m E Q"
  by (rule triple_conseq)

lemma triple_if: "(c \<Longrightarrow> triple P a E Q) \<Longrightarrow> (\<not> c \<Longrightarrow> triple P b E Q) \<Longrightarrow> triple P (if c then a else b) E Q"
  by simp

lemma triple_sum:
  "(\<And>e. r = Inl e \<Longrightarrow> triple P (g e) E Q) \<Longrightarrow> (\<And>x. r = Inr x \<Longrightarrow> triple P (f x) E Q) \<Longrightarrow>
   triple P (case r of Inl e \<Rightarrow> g e | Inr x \<Rightarrow> f x) E Q"
  by (cases r) auto

lemma triple_option:
  "(r = None \<Longrightarrow> triple P a E Q) \<Longrightarrow> (\<And>x. r = Some x \<Longrightarrow> triple P (f x) E Q) \<Longrightarrow>
   triple P (case r of None \<Rightarrow> a | Some x \<Rightarrow> f x) E Q"
  by (cases r) auto

lemma triple_dfor:
  "(\<And>x. x \<in> set xs \<Longrightarrow> triple J (f x) J (\<lambda>_. J)) \<Longrightarrow> triple J (dfor xs f) J (\<lambda>_. J)"
proof (induction xs)
  case Nil
  then show ?case by (simp add: triple_dret)
next
  case (Cons x xs)
  then show ?case by (auto intro: triple_dbind)
qed

text \<open>A fact that does not depend on the state moves out of the precondition.\<close>

lemma triple_pure: "(c \<Longrightarrow> triple P m E Q) \<Longrightarrow> triple (\<lambda>s. P s \<and> c) m E Q"
  unfolding triple_def by auto

text \<open>A statement that only reads.\<close>

lemma triple_select_all:
  "(\<And>s t. P s \<Longrightarrow> same_tables s t \<Longrightarrow> E t \<and> Q (q t) t) \<Longrightarrow> triple P (select_all q) E Q"
  by (rule tripleI) (metis select_tables(2), metis select_all_Inr same_tables_tick)

lemma triple_stmt:
  assumes "\<And>s t. P s \<Longrightarrow> same_tables s t \<Longrightarrow> E t \<and> (\<forall>x u. q t = (Inr x, u) \<longrightarrow> Q x u)"
  shows "triple P (stmt q) E Q"
proof (rule tripleI)
  fix s e s' assume "P s" "stmt q s = (Inl e, s')"
  then show "E s'" using assms stmt_Inl_tables by blast
next
  fix s x s' assume p: "P s" and q: "stmt q s = (Inr x, s')"
  from stmt_Inr [THEN iffD1, OF q] show "Q x s'"
    using assms [OF p same_tables_tick] by blast
qed

lemma triple_transact:
  assumes "triple P m E Q" "\<And>s t. P s \<Longrightarrow> same_tables s t \<Longrightarrow> P t \<and> E' t"
    "\<And>x s t. Q x s \<Longrightarrow> same_tables s t \<Longrightarrow> Q x t"
  shows "triple P (transact m) E' Q"
proof (rule tripleI)
  fix s e s' assume p: "P s" "transact m s = (Inl e, s')"
  show "E' s'" using assms(2) [OF p(1) transact_Inl [OF p(2)]] by (rule conjunct2)
next
  fix s x s' assume p: "P s" "transact m s = (Inr x, s')"
  then obtain s1 s2 where s1: "same_tables s s1" and m: "m s1 = (Inr x, s2)" and s2: "same_tables s2 s'"
    using transact_Inr [OF p(2)] by blast
  have "P s1" using assms(2) [OF p(1) s1] by (rule conjunct1)
  then have "Q x s2" using m by (rule triple_Inr [OF assms(1)])
  then show "Q x s'" using s2 by (rule assms(3))
qed

end
