(* ===== verification/Ai_Batch.thy ===== *)
theory Ai_Batch
  imports Stores Triples
begin

text \<open>
  The asynchronous batch framework \<open>internal/aibatch/aibatch.go\<close> over its store \<open>internal/db/ai_batch.go\<close>.
  A kind of operation gathers pending work, one provider batch is submitted for it and recorded as a job with
  one item per request; a later pass collects finished jobs, applies each result and resets the work of batches
  that failed, expired or got stuck.

  The provider's Batch API is not under \<open>src/\<close>: the record \<open>batch_provider\<close> holds its three calls.  Its
  answers may change from call to call, so they are functions of the time of the call (\<open>db_tick\<close>).  The lemmas of the
  locale \<open>batch_work\<close> show that every invariant of the tables that the kinds and the store keep is kept by every
  pass, whichever statements and calls fail.
\<close>

section \<open>Provider and kinds\<close>

record batch_request =
  br_custom :: string
  br_system :: string
  br_user :: string
  br_schema :: string

record provider_job =
  pj_id :: string
  pj_provider :: string
  pj_model :: string
  pj_status :: string
  pj_done :: bool

record batch_result =
  bs_custom :: string
  bs_output :: string
  bs_error :: string

datatype provider_error =
    ErrBatchOutputExpired
  | ProviderError string

record batch_provider =
  bp_submit :: "nat \<Rightarrow> batch_request list \<Rightarrow> string \<Rightarrow> string \<Rightarrow> provider_error + provider_job"
  bp_get :: "nat \<Rightarrow> string \<Rightarrow> provider_error + provider_job"
  bp_results :: "nat \<Rightarrow> string \<Rightarrow> provider_error + batch_result list"

definition provider_call :: "(nat \<Rightarrow> 'a) \<Rightarrow> 'a dbm" where
  "provider_call f s = (Inr (f (db_tick s)), s\<lparr>db_tick := db_tick s + 1\<rparr>)"

definition provider_err :: "provider_error \<Rightarrow> db_error" where
  "provider_err e = ErrText (case e of ErrBatchOutputExpired \<Rightarrow> ''batch output expired'' | ProviderError t \<Rightarrow> t)"

record item =
  it_ref :: string
  it_request :: batch_request

record kind =
  k_name :: string
  k_gather :: "item list dbm"
  k_apply :: "string \<Rightarrow> string \<Rightarrow> string option \<Rightarrow> unit dbm"
  k_reset :: "string list \<Rightarrow> unit dbm"

text \<open>The registry: \<open>map[string]Kind\<close>.  Go iterates a map in any order; the list is the order in which \<open>All\<close>
  returns the kinds, and the theorems hold for every list.\<close>

type_synonym registry = "kind list"

definition Register :: "kind \<Rightarrow> registry \<Rightarrow> registry" where
  "Register k reg = filter (\<lambda>x. k_name x \<noteq> k_name k) reg @ [k]"

definition Registry_Get :: "registry \<Rightarrow> string \<Rightarrow> kind option" where
  "Registry_Get reg name = find (\<lambda>k. k_name k = name) reg"

section \<open>The store\<close>

record aijob =
  aj_id :: string
  aj_kind :: string
  aj_batch :: string
  aj_status :: string
  aj_submitted :: int

record job_item =
  ji_custom :: string
  ji_ref :: string

record job_spec =
  sp_kind :: string
  sp_provider :: string
  sp_model :: string
  sp_batch :: string
  sp_items :: "job_item list"

definition insert_batch_job :: "job_spec \<Rightarrow> string dbm" where
  "insert_batch_job spec = stmt (\<lambda>s.
     let i = next_uuid s; s' = s\<lparr>db_seq := db_seq s + 1\<rparr> in
     if i \<in> bj_id ` set (db_batch_jobs s) then (Inl ErrConstraint, s')
     else (Inr i, s'\<lparr>db_batch_jobs := db_batch_jobs s @ [\<lparr>bj_id = i, bj_kind = sp_kind spec, bj_provider = sp_provider spec,
             bj_model = sp_model spec, bj_batch = sp_batch spec, bj_status = ''submitted'',
             bj_count = int (length (sp_items spec)), bj_submitted = db_now s, bj_error = None, bj_completed = None\<rparr>]\<rparr>))"

text \<open>The table has \<open>UNIQUE (batch_job_id, custom_id)\<close>.\<close>

definition insert_batch_item :: "string \<Rightarrow> job_item \<Rightarrow> unit dbm" where
  "insert_batch_item jobID it = stmt (\<lambda>s.
     let i = next_uuid s; s' = s\<lparr>db_seq := db_seq s + 1\<rparr> in
     if i \<in> bi_id ` set (db_batch_items s) \<or> jobID \<notin> bj_id ` set (db_batch_jobs s) \<or>
        (jobID, ji_custom it) \<in> (\<lambda>r. (bi_job r, bi_custom r)) ` set (db_batch_items s) then (Inl ErrConstraint, s')
     else (Inr (), s'\<lparr>db_batch_items := db_batch_items s @ [\<lparr>bi_id = i, bi_job = jobID, bi_custom = ji_custom it,
             bi_ref = ji_ref it, bi_status = ''pending'', bi_error = None\<rparr>]\<rparr>))"

definition AIBatchStore_CreateJob :: "job_spec \<Rightarrow> unit dbm" where
  "AIBatchStore_CreateJob spec =
     transact (dbind (insert_batch_job spec) (\<lambda>jobID. dfor (sp_items spec) (insert_batch_item jobID)))"

definition aijob_of :: "batch_job_row \<Rightarrow> aijob" where
  "aijob_of r = \<lparr>aj_id = bj_id r, aj_kind = bj_kind r, aj_batch = bj_batch r, aj_status = bj_status r,
     aj_submitted = bj_submitted r\<rparr>"

definition queryJobs :: "(batch_job_row \<Rightarrow> bool) \<Rightarrow> aijob list dbm" where
  "queryJobs P =
     dbind (select_all (\<lambda>s. sort_by (\<lambda>a b. bj_submitted a < bj_submitted b) (filter P (db_batch_jobs s))))
       (\<lambda>rows. dret (map aijob_of rows))"

definition AIBatchStore_OpenJobs :: "aijob list dbm" where
  "AIBatchStore_OpenJobs = queryJobs (\<lambda>r. bj_status r = ''submitted'')"

definition AIBatchStore_StuckJobs :: "int \<Rightarrow> aijob list dbm" where
  "AIBatchStore_StuckJobs olderThan = queryJobs (\<lambda>r. bj_status r = ''submitted'' \<and> bj_submitted r < olderThan)"

definition AIBatchStore_Items :: "string \<Rightarrow> job_item list dbm" where
  "AIBatchStore_Items jobID =
     dbind (select_all (\<lambda>s. filter (\<lambda>r. bi_job r = jobID) (db_batch_items s)))
       (\<lambda>rows. dret (map (\<lambda>r. \<lparr>ji_custom = bi_custom r, ji_ref = bi_ref r\<rparr>) rows))"

text \<open>Both updates are subject to the \<open>CHECK\<close> on the status column.\<close>

definition AIBatchStore_MarkItem :: "string \<Rightarrow> string \<Rightarrow> string \<Rightarrow> string \<Rightarrow> unit dbm" where
  "AIBatchStore_MarkItem jobID customID status errMsg = stmt (\<lambda>s.
     let hit = (\<lambda>r. bi_job r = jobID \<and> bi_custom r = customID) in
     if list_ex hit (db_batch_items s) \<and> status \<notin> {''pending'', ''applied'', ''failed''} then (Inl ErrConstraint, s)
     else (Inr (), s\<lparr>db_batch_items := map (\<lambda>r. if hit r then r\<lparr>bi_status := status, bi_error := nullString errMsg\<rparr> else r)
                                      (db_batch_items s)\<rparr>))"

definition mark_job_row :: "string \<Rightarrow> string \<Rightarrow> int \<Rightarrow> batch_job_row \<Rightarrow> batch_job_row" where
  "mark_job_row status errMsg now r = r\<lparr>bj_status := status, bj_error := nullString errMsg,
     bj_completed := (if status = ''completed'' then Some now else bj_completed r)\<rparr>"

definition AIBatchStore_MarkJob :: "string \<Rightarrow> string \<Rightarrow> string \<Rightarrow> unit dbm" where
  "AIBatchStore_MarkJob jobID status errMsg = stmt (\<lambda>s.
     if jobID \<in> bj_id ` set (db_batch_jobs s) \<and> status \<notin> {''submitted'', ''completed'', ''failed'', ''expired''}
     then (Inl ErrConstraint, s)
     else (Inr (), s\<lparr>db_batch_jobs := map (\<lambda>r. if bj_id r = jobID then mark_job_row status errMsg (db_now s) r else r)
                                     (db_batch_jobs s)\<rparr>))"

section \<open>Submitting\<close>

definition custom_id :: "string \<Rightarrow> string \<Rightarrow> string" where
  "custom_id name ref = name @ '':'' @ ref"

definition Submit :: "batch_provider \<Rightarrow> kind \<Rightarrow> string \<Rightarrow> nat dbm" where
  "Submit provider kind window =
     dbind (k_gather kind) (\<lambda>items.
     if length items = 0 then dret 0
     else
       let reqs = map (\<lambda>it. (it_request it)\<lparr>br_custom := custom_id (k_name kind) (it_ref it)\<rparr>) items;
           jobItems = map (\<lambda>it. \<lparr>ji_custom = custom_id (k_name kind) (it_ref it), ji_ref = it_ref it\<rparr>) items;
           refIDs = map it_ref items
       in dbind (provider_call (\<lambda>t. bp_submit provider t reqs window (k_name kind))) (\<lambda>r.
          case r of
            Inl serr \<Rightarrow> dbind (dtry (k_reset kind refIDs)) (\<lambda>_. dthrow (provider_err serr))
          | Inr job \<Rightarrow>
              dbind (dtry (AIBatchStore_CreateJob \<lparr>sp_kind = k_name kind, sp_provider = pj_provider job,
                             sp_model = pj_model job, sp_batch = pj_id job, sp_items = jobItems\<rparr>)) (\<lambda>c.
              case c of
                Inl cerr \<Rightarrow> dbind (dtry (k_reset kind refIDs)) (\<lambda>_. dthrow cerr)
              | Inr _ \<Rightarrow> dret (length items))))"

text \<open>The total and the first error are returned together.\<close>

fun SubmitAll :: "batch_provider \<Rightarrow> registry \<Rightarrow> string \<Rightarrow> db \<Rightarrow> (nat \<times> db_error option) \<times> db" where
  "SubmitAll provider [] window s = ((0, None), s)"
| "SubmitAll provider (kind # kinds) window s =
     (case Submit provider kind window s of
        (Inl e, s1) \<Rightarrow> (case SubmitAll provider kinds window s1 of ((n, _), s2) \<Rightarrow> ((n, Some e), s2))
      | (Inr n, s1) \<Rightarrow> (case SubmitAll provider kinds window s1 of ((m, err), s2) \<Rightarrow> ((n + m, err), s2)))"

section \<open>Collecting\<close>

definition terminalStatus :: "string \<Rightarrow> string" where
  "terminalStatus providerStatus = (if providerStatus = ''expired'' then ''expired'' else ''failed'')"

definition resetJob :: "kind \<Rightarrow> aijob \<Rightarrow> string \<Rightarrow> unit dbm" where
  "resetJob kind job status =
     dbind (dtry (AIBatchStore_Items (aj_id job))) (\<lambda>r.
     dbind (case r of
              Inr items \<Rightarrow> if length items > 0 then dbind (dtry (k_reset kind (map ji_ref items))) (\<lambda>_. dret ()) else dret ()
            | Inl _ \<Rightarrow> dret ()) (\<lambda>_.
     AIBatchStore_MarkJob (aj_id job) status []))"

text \<open>\<open>refByCustom\<close>: of several items with one custom identifier the last wins.\<close>

definition ref_by_custom :: "job_item list \<Rightarrow> string \<rightharpoonup> string" where
  "ref_by_custom items = map_of (rev (map (\<lambda>it. (ji_custom it, ji_ref it)) items))"

definition apply_result :: "kind \<Rightarrow> string \<Rightarrow> (string \<rightharpoonup> string) \<Rightarrow> batch_result \<Rightarrow> unit dbm" where
  "apply_result kind jobID refs res =
     (case refs (bs_custom res) of
        None \<Rightarrow> dret ()
      | Some refID \<Rightarrow>
          dbind (dtry (k_apply kind refID (bs_output res) (nullString (bs_error res)))) (\<lambda>a.
          dbind (dtry (case a of
                         Inl aerr \<Rightarrow> AIBatchStore_MarkItem jobID (bs_custom res) ''failed'' (error_text aerr)
                       | Inr _ \<Rightarrow> AIBatchStore_MarkItem jobID (bs_custom res) ''applied'' [])) (\<lambda>_. dret ())))"

definition collectJob :: "batch_provider \<Rightarrow> registry \<Rightarrow> aijob \<Rightarrow> unit dbm" where
  "collectJob provider reg job =
     dbind (provider_call (\<lambda>t. bp_get provider t (aj_batch job))) (\<lambda>b.
     case b of
       Inl err \<Rightarrow> dthrow (provider_err err)
     | Inr batch \<Rightarrow>
         if \<not> pj_done batch then dret ()
         else case Registry_Get reg (aj_kind job) of
           None \<Rightarrow> AIBatchStore_MarkJob (aj_id job) ''failed'' (''no registered kind: '' @ aj_kind job)
         | Some kind \<Rightarrow>
             if pj_status batch \<noteq> ''completed'' then resetJob kind job (terminalStatus (pj_status batch))
             else dbind (provider_call (\<lambda>t. bp_results provider t (aj_batch job))) (\<lambda>r.
               case r of
                 Inl ErrBatchOutputExpired \<Rightarrow> resetJob kind job ''expired''
               | Inl rerr \<Rightarrow> dthrow (provider_err rerr)
               | Inr results \<Rightarrow>
                   dbind (AIBatchStore_Items (aj_id job)) (\<lambda>items.
                   dbind (dfor results (apply_result kind (aj_id job) (ref_by_custom items))) (\<lambda>_.
                   AIBatchStore_MarkJob (aj_id job) ''completed'' []))))"

text \<open>One bad job does not stop the pass; the first error is reported.\<close>

fun collect_loop :: "(aijob \<Rightarrow> unit dbm) \<Rightarrow> aijob list \<Rightarrow> db_error option dbm" where
  "collect_loop f [] = dret None"
| "collect_loop f (job # jobs) =
     dbind (dtry (f job)) (\<lambda>r.
     dbind (collect_loop f jobs) (\<lambda>rest.
     dret (case r of Inl e \<Rightarrow> Some e | Inr _ \<Rightarrow> rest)))"

definition Collect :: "batch_provider \<Rightarrow> registry \<Rightarrow> unit dbm" where
  "Collect provider reg =
     dbind AIBatchStore_OpenJobs (\<lambda>jobs.
     dbind (collect_loop (collectJob provider reg) jobs) (\<lambda>firstErr.
     case firstErr of None \<Rightarrow> dret () | Some e \<Rightarrow> dthrow e))"

definition reset_stuck_job :: "registry \<Rightarrow> aijob \<Rightarrow> unit dbm" where
  "reset_stuck_job reg job =
     (case Registry_Get reg (aj_kind job) of
        None \<Rightarrow> dbind (dtry (AIBatchStore_MarkJob (aj_id job) ''expired'' ''stuck, no registered kind'')) (\<lambda>_. dret ())
      | Some kind \<Rightarrow> dbind (dtry (resetJob kind job ''expired'')) (\<lambda>_. dret ()))"

definition ResetStuck :: "registry \<Rightarrow> int \<Rightarrow> unit dbm" where
  "ResetStuck reg olderThan =
     dbind (AIBatchStore_StuckJobs olderThan) (\<lambda>jobs. dfor jobs (reset_stuck_job reg))"

section \<open>The contract of the kinds\<close>

text \<open>
  \<open>I\<close> is an invariant of the tables and \<open>Q n r\<close> says that the work item \<open>r\<close> may be in a batch of the kind named
  \<open>n\<close>.  A kind promises that what it gathers is such work, and that applying and resetting such work keeps
  the invariant and leaves the batch tables alone; the store promises that recording and closing batches keeps it,
  and that the items of an open job are such work.  Then every pass of the framework keeps the invariant.
\<close>

definition same_batches :: "db \<Rightarrow> db \<Rightarrow> bool" where
  "same_batches s s' \<longleftrightarrow> db_batch_jobs s' = db_batch_jobs s \<and> db_batch_items s' = db_batch_items s"

definition may_batch :: "(string \<Rightarrow> string \<Rightarrow> db \<Rightarrow> bool) \<Rightarrow> string \<Rightarrow> string set \<Rightarrow> db \<Rightarrow> bool" where
  "may_batch Q n R s \<longleftrightarrow> (\<forall>r\<in>R. Q n r s)"

locale batch_work = table_invariant I for I :: "db \<Rightarrow> bool" +
  fixes Q :: "string \<Rightarrow> string \<Rightarrow> db \<Rightarrow> bool" and kinds :: "kind set"
  assumes Q_tables: "same_tables s s' \<Longrightarrow> Q n r s' = Q n r s"
    and keys: "I s \<Longrightarrow> distinct (map bj_id (db_batch_jobs s))"
    and gather: "k \<in> kinds \<Longrightarrow> triple I (k_gather k) I (\<lambda>items s. I s \<and> may_batch Q (k_name k) (it_ref ` set items) s)"
    and apply_keeps: "k \<in> kinds \<Longrightarrow> I s \<Longrightarrow> Q (k_name k) r s \<Longrightarrow> k_apply k r out err s = (res, s') \<Longrightarrow>
      I s' \<and> same_batches s s' \<and> (\<forall>n q. Q n q s \<longrightarrow> Q n q s')"
    and reset_keeps: "k \<in> kinds \<Longrightarrow> I s \<Longrightarrow> may_batch Q (k_name k) (set rs) s \<Longrightarrow> k_reset k rs s = (res', s') \<Longrightarrow>
      I s' \<and> same_batches s s' \<and> (\<forall>n q. Q n q s \<longrightarrow> Q n q s')"
    and create: "I s \<Longrightarrow> may_batch Q (sp_kind spec) (ji_ref ` set (sp_items spec)) s \<Longrightarrow>
      AIBatchStore_CreateJob spec s = (res'', s') \<Longrightarrow> I s' \<and> (\<forall>n q. Q n q s \<longrightarrow> Q n q s')"
    and mark_item: "I s \<Longrightarrow> AIBatchStore_MarkItem j c st m s = (res'', s') \<Longrightarrow> I s' \<and> (\<forall>n q. Q n q s \<longrightarrow> Q n q s')"
    and mark_job: "I s \<Longrightarrow> st \<noteq> ''submitted'' \<Longrightarrow> AIBatchStore_MarkJob j st m s = (res'', s') \<Longrightarrow> I s'"
    and listed: "I s \<Longrightarrow> row \<in> set (db_batch_jobs s) \<Longrightarrow> bj_status row = ''submitted'' \<Longrightarrow>
      it \<in> set (db_batch_items s) \<Longrightarrow> bi_job it = bj_id row \<Longrightarrow> Q (bj_kind row) (bi_ref it) s"
begin

lemma may_batch_tables: "same_tables s s' \<Longrightarrow> may_batch Q n R s' = may_batch Q n R s"
  unfolding may_batch_def using Q_tables by blast

lemma triple_I: "(\<And>s r s'. I s \<Longrightarrow> m s = (r, s') \<Longrightarrow> I s') \<Longrightarrow> triple I m I (\<lambda>_. I)"
  by (rule tripleI) blast+

lemma triple_provider: "triple (\<lambda>s. I s \<and> may_batch Q n R s) (provider_call f) I (\<lambda>_ s. I s \<and> may_batch Q n R s)"
  by (rule tripleI) (auto simp: provider_call_def tables_only [OF same_tables_tick] may_batch_tables [OF same_tables_tick])

lemma triple_provider': "triple I (provider_call f) I (\<lambda>_. I)"
  by (rule tripleI) (auto simp: provider_call_def tables_only [OF same_tables_tick])

lemma reset_triple:
  "k \<in> kinds \<Longrightarrow> triple (\<lambda>s. I s \<and> may_batch Q (k_name k) (set rs) s) (k_reset k rs) I (\<lambda>_. I)"
  by (rule tripleI) (use reset_keeps in blast)+

lemma create_triple:
  assumes "n = sp_kind spec" "R = ji_ref ` set (sp_items spec)"
  shows "triple (\<lambda>s. I s \<and> may_batch Q n R s) (AIBatchStore_CreateJob spec) (\<lambda>s. I s \<and> may_batch Q n R s)
     (\<lambda>_ s. I s \<and> may_batch Q n R s)"
  unfolding assms
proof (rule tripleI)
  fix s e s' assume "I s \<and> may_batch Q (sp_kind spec) (ji_ref ` set (sp_items spec)) s"
    "AIBatchStore_CreateJob spec s = (Inl e, s')"
  then show "I s' \<and> may_batch Q (sp_kind spec) (ji_ref ` set (sp_items spec)) s'"
    using create [of s spec "Inl e" s'] unfolding may_batch_def by blast
next
  fix s x s' assume "I s \<and> may_batch Q (sp_kind spec) (ji_ref ` set (sp_items spec)) s"
    "AIBatchStore_CreateJob spec s = (Inr x, s')"
  then show "I s' \<and> may_batch Q (sp_kind spec) (ji_ref ` set (sp_items spec)) s'"
    using create [of s spec "Inr x" s'] unfolding may_batch_def by blast
qed

lemma Submit_triple:
  assumes "k \<in> kinds"
  shows "triple I (Submit provider k window) I (\<lambda>_. I)"
  unfolding Submit_def
proof (rule triple_dbind [OF gather [OF assms]])
  fix items
  let ?J = "\<lambda>s. I s \<and> may_batch Q (k_name k) (it_ref ` set items) s"
  note r = triple_dtry [OF reset_triple [OF assms, of "map it_ref items", simplified]]
  show "triple ?J (if length items = 0 then dret 0 else
       let reqs = map (\<lambda>it. (it_request it)\<lparr>br_custom := custom_id (k_name k) (it_ref it)\<rparr>) items;
           jobItems = map (\<lambda>it. \<lparr>ji_custom = custom_id (k_name k) (it_ref it), ji_ref = it_ref it\<rparr>) items;
           refIDs = map it_ref items
       in dbind (provider_call (\<lambda>t. bp_submit provider t reqs window (k_name k))) (\<lambda>r.
          case r of
            Inl serr \<Rightarrow> dbind (dtry (k_reset k refIDs)) (\<lambda>_. dthrow (provider_err serr))
          | Inr job \<Rightarrow>
              dbind (dtry (AIBatchStore_CreateJob \<lparr>sp_kind = k_name k, sp_provider = pj_provider job,
                             sp_model = pj_model job, sp_batch = pj_id job, sp_items = jobItems\<rparr>)) (\<lambda>c.
              case c of
                Inl cerr \<Rightarrow> dbind (dtry (k_reset k refIDs)) (\<lambda>_. dthrow cerr)
              | Inr _ \<Rightarrow> dret (length items)))) I (\<lambda>_. I)"
    unfolding Let_def
    by (intro triple_if triple_dbind [OF triple_provider] triple_sum triple_dbind [OF r]
          triple_dbind [OF triple_dtry [OF create_triple]] triple_dret triple_dthrow)
       (auto simp: image_image)
qed

lemma SubmitAll_keeps: "set reg \<subseteq> kinds \<Longrightarrow> I s \<Longrightarrow> SubmitAll provider reg window s = (out, s') \<Longrightarrow> I s'"
proof (induction reg arbitrary: s out)
  case (Cons k reg)
  obtain r s1 where r: "Submit provider k window s = (r, s1)" by (cases "Submit provider k window s")
  have "I (snd (Submit provider k window s))" by (rule triple_snd [OF Submit_triple]) (use Cons.prems in auto)
  moreover obtain out' where "SubmitAll provider reg window s1 = (out', s')"
    using Cons.prems(3) r by (auto split: sum.splits prod.splits)
  ultimately show ?case using Cons r by auto
qed simp

text \<open>A job of a listing is still open when its row is unchanged.\<close>

definition open_job :: "aijob \<Rightarrow> db \<Rightarrow> bool" where
  "open_job job s \<longleftrightarrow> (\<exists>row\<in>set (db_batch_jobs s). aijob_of row = job \<and> bj_status row = ''submitted'')"

lemma open_job_same: "db_batch_jobs s' = db_batch_jobs s \<Longrightarrow> open_job job s' = open_job job s"
  by (simp add: open_job_def)

lemma open_listed:
  "I s \<Longrightarrow> open_job job s \<Longrightarrow> may_batch Q (aj_kind job) (bi_ref ` {it \<in> set (db_batch_items s). bi_job it = aj_id job}) s"
  unfolding open_job_def may_batch_def by (auto simp: aijob_of_def intro: listed)

lemma MarkJob_other: "AIBatchStore_MarkJob j st m s = (res, s') \<Longrightarrow> aj_id job \<noteq> j \<Longrightarrow> open_job job s \<Longrightarrow> open_job job s'"
  unfolding AIBatchStore_MarkJob_def
  by (auto simp: stmt_def Let_def open_job_def aijob_of_def image_iff split: if_splits)

end

context batch_work
begin

definition opens :: "aijob set \<Rightarrow> db \<Rightarrow> bool" where
  "opens J s \<longleftrightarrow> I s \<and> (\<forall>j\<in>J. open_job j s)"

lemma opens_tables: "same_tables s s' \<Longrightarrow> opens J s' = opens J s"
  unfolding opens_def using tables_only open_job_same same_tables_fields(16) by metis

lemma opens_same: "opens J s \<Longrightarrow> I s' \<Longrightarrow> same_batches s s' \<Longrightarrow> opens J s'"
  unfolding opens_def same_batches_def using open_job_same by blast

lemma opens_I: "opens J s \<Longrightarrow> I s"
  by (simp add: opens_def)

lemma Items_triple:
  assumes "job \<in> J"
  shows "triple (opens J) (AIBatchStore_Items (aj_id job)) (opens J)
    (\<lambda>items s. opens J s \<and> may_batch Q (aj_kind job) (ji_ref ` set items) s)"
  unfolding AIBatchStore_Items_def
proof (rule triple_dbind)
  show "triple (opens J) (select_all (\<lambda>s. filter (\<lambda>r. bi_job r = aj_id job) (db_batch_items s))) (opens J)
      (\<lambda>rows s. opens J s \<and> may_batch Q (aj_kind job) (bi_ref ` set rows) s)"
  proof (rule triple_select_all)
    fix s t assume s: "opens J s" and t: "same_tables s t"
    then have o: "opens J t" using opens_tables by blast
    then have "may_batch Q (aj_kind job) (bi_ref ` {it \<in> set (db_batch_items t). bi_job it = aj_id job}) t"
      using assms by (intro open_listed) (auto simp: opens_def)
    then show "opens J t \<and> opens J t \<and>
        may_batch Q (aj_kind job) (bi_ref ` set (filter (\<lambda>r. bi_job r = aj_id job) (db_batch_items t))) t"
      using o by simp
  qed
  show "triple (\<lambda>s. opens J s \<and> may_batch Q (aj_kind job) (bi_ref ` set rows) s)
      (dret (map (\<lambda>r. \<lparr>ji_custom = bi_custom r, ji_ref = bi_ref r\<rparr>) rows)) (opens J)
      (\<lambda>items s. opens J s \<and> may_batch Q (aj_kind job) (ji_ref ` set items) s)" for rows
    by (rule triple_dret) (simp add: image_image)
qed

lemma MarkJob_triple:
  assumes "st \<noteq> ''submitted''" "aj_id job \<notin> aj_id ` J"
  shows "triple (opens (insert job J)) (AIBatchStore_MarkJob (aj_id job) st m) (opens J) (\<lambda>_. opens J)"
proof -
  have "opens J s'" if s: "opens (insert job J) s" and m: "AIBatchStore_MarkJob (aj_id job) st m s = (r, s')" for s r s'
  proof -
    have "I s'" using mark_job [OF _ assms(1) m] s by (simp add: opens_def)
    moreover have "open_job j s'" if "j \<in> J" for j
    proof (rule MarkJob_other [OF m])
      show "aj_id j \<noteq> aj_id job" using that assms(2) by (metis imageI)
      show "open_job j s" using s that by (simp add: opens_def)
    qed
    ultimately show ?thesis by (simp add: opens_def)
  qed
  then show ?thesis by (intro tripleI)
qed

lemma reset_opens:
  "k \<in> kinds \<Longrightarrow> triple (\<lambda>s. opens J s \<and> may_batch Q (k_name k) (set rs) s) (k_reset k rs) (opens J) (\<lambda>_. opens J)"
  by (rule tripleI) (use reset_keeps opens_same opens_I in metis)+

lemma resetJob_triple:
  assumes "k \<in> kinds" "k_name k = aj_kind job" "st \<noteq> ''submitted''" "aj_id job \<notin> aj_id ` J"
  shows "triple (opens (insert job J)) (resetJob k job st) (opens J) (\<lambda>_. opens J)"
  unfolding resetJob_def
proof (rule triple_dbind [OF triple_dtry_case [OF Items_triple]])
  fix r :: "db_error + job_item list"
  let ?O = "opens (insert job J)"
  have "triple (\<lambda>s. case r of Inl _ \<Rightarrow> ?O s | Inr items \<Rightarrow> ?O s \<and> may_batch Q (aj_kind job) (ji_ref ` set items) s)
     (case r of
        Inr items \<Rightarrow> if length items > 0 then dbind (dtry (k_reset k (map ji_ref items))) (\<lambda>_. dret ()) else dret ()
      | Inl _ \<Rightarrow> dret ()) (opens J) (\<lambda>_. ?O)"
  proof (cases r)
    case (Inl e)
    then show ?thesis by (simp add: triple_dret)
  next
    case (Inr items)
    have "triple (\<lambda>s. ?O s \<and> may_batch Q (k_name k) (set (map ji_ref items)) s) (dtry (k_reset k (map ji_ref items))) (opens J) (\<lambda>_. ?O)"
      by (rule triple_dtry [OF reset_opens [OF assms(1)]])
    then show ?thesis using Inr assms(2) by (auto intro!: triple_dbind [of _ "dtry (k_reset k (map ji_ref items))"] triple_dret)
  qed
  then show "triple (\<lambda>s. case r of Inl _ \<Rightarrow> ?O s | Inr items \<Rightarrow> ?O s \<and> may_batch Q (aj_kind job) (ji_ref ` set items) s)
     (dbind (case r of
        Inr items \<Rightarrow> if length items > 0 then dbind (dtry (k_reset k (map ji_ref items))) (\<lambda>_. dret ()) else dret ()
      | Inl _ \<Rightarrow> dret ()) (\<lambda>_. AIBatchStore_MarkJob (aj_id job) st [])) (opens J) (\<lambda>_. opens J)"
    by (rule triple_dbind) (rule MarkJob_triple [OF assms(3,4)])
qed simp

text \<open>One result: the work item is applied, then its row is marked.\<close>

lemma mark_item_frame: "AIBatchStore_MarkItem j c st m s = (r, s') \<Longrightarrow> db_batch_jobs s' = db_batch_jobs s"
  unfolding AIBatchStore_MarkItem_def by (auto simp: stmt_def Let_def split: if_splits)

lemma apply_result_triple:
  assumes "k \<in> kinds" "ran refs \<subseteq> R"
  shows "triple (\<lambda>s. opens J s \<and> may_batch Q (k_name k) R s) (apply_result k jobID refs res) E
    (\<lambda>_ s. opens J s \<and> may_batch Q (k_name k) R s)"
proof (cases "refs (bs_custom res)")
  case None
  then show ?thesis by (simp add: apply_result_def triple_dret)
next
  case (Some ref)
  let ?P = "\<lambda>s. opens J s \<and> may_batch Q (k_name k) R s"
  have ref: "ref \<in> R" using Some assms(2) by (auto simp: ran_def)
  have a: "triple ?P (dtry (k_apply k ref out err)) E (\<lambda>_. ?P)" for out err
  proof (rule triple_dtry, rule tripleI)
    fix s e s' assume s: "?P s" "k_apply k ref out err s = (Inl e, s')"
    from apply_keeps [OF assms(1) _ _ s(2)] s(1) ref have "I s' \<and> same_batches s s' \<and> (\<forall>n q. Q n q s \<longrightarrow> Q n q s')"
      by (auto simp: opens_def may_batch_def)
    then show "?P s'" using s(1) opens_same by (auto simp: may_batch_def)
  next
    fix s x s' assume s: "?P s" "k_apply k ref out err s = (Inr x, s')"
    from apply_keeps [OF assms(1) _ _ s(2)] s(1) ref have "I s' \<and> same_batches s s' \<and> (\<forall>n q. Q n q s \<longrightarrow> Q n q s')"
      by (auto simp: opens_def may_batch_def)
    then show "?P s'" using s(1) opens_same by (auto simp: may_batch_def)
  qed
  have mark: "?P s'" if s: "?P s" and m: "AIBatchStore_MarkItem jobID c st msg s = (r, s')" for s s' r c st msg
    using mark_item [OF _ m] s open_job_same [OF mark_item_frame [OF m]] by (auto simp: opens_def may_batch_def)
  have m: "triple ?P (dtry (AIBatchStore_MarkItem jobID c st msg)) E (\<lambda>_. ?P)" for c st msg
    by (rule triple_dtry, rule tripleI) (rule mark, assumption+)+
  show ?thesis
    unfolding apply_result_def Some option.case
    by (rule triple_dbind [OF a], rule triple_dbind [where R = "\<lambda>_. ?P"]) (auto intro: m triple_dret split: sum.splits)
qed

lemma ran_refs: "ran (ref_by_custom items) \<subseteq> ji_ref ` set items"
proof
  fix r assume "r \<in> ran (ref_by_custom items)"
  then obtain c where "map_of (rev (map (\<lambda>it. (ji_custom it, ji_ref it)) items)) c = Some r"
    by (auto simp: ran_def ref_by_custom_def)
  from map_of_SomeD [OF this] show "r \<in> ji_ref ` set items" by auto
qed

end

lemma Registry_Get_Some: "Registry_Get reg name = Some k \<Longrightarrow> k \<in> set reg \<and> k_name k = name"
  unfolding Registry_Get_def by (auto simp: find_Some_iff)

context batch_work
begin

lemma opens_mono: "J \<subseteq> J' \<Longrightarrow> opens J' s \<Longrightarrow> opens J s"
  by (auto simp: opens_def)

lemma triple_opens_call: "triple (opens J) (provider_call f) E (\<lambda>_. opens J)"
  by (rule tripleI) (auto simp: provider_call_def opens_tables [OF same_tables_tick])

lemma collectJob_triple:
  assumes "set reg \<subseteq> kinds" "aj_id job \<notin> aj_id ` J"
  shows "triple (opens (insert job J)) (collectJob provider reg job) (opens J) (\<lambda>_. opens J)"
proof -
  let ?O = "opens (insert job J)"
  have w: "?O s \<Longrightarrow> opens J s" for s by (rule opens_mono) auto
  have done_triple: "triple ?O (dbind (AIBatchStore_Items (aj_id job)) (\<lambda>items.
           dbind (dfor results (apply_result k (aj_id job) (ref_by_custom items))) (\<lambda>_.
           AIBatchStore_MarkJob (aj_id job) ''completed'' []))) (opens J) (\<lambda>_. opens J)"
    if k: "k \<in> kinds" "k_name k = aj_kind job" for k results
  proof (rule triple_dbind)
    show "triple ?O (AIBatchStore_Items (aj_id job)) (opens J) (\<lambda>items s. ?O s \<and> may_batch Q (k_name k) (ji_ref ` set items) s)"
      by (rule triple_conseq [OF Items_triple [of job "insert job J"]]) (auto simp: k(2) intro: w)
    fix items
    have "triple (\<lambda>s. ?O s \<and> may_batch Q (k_name k) (ji_ref ` set items) s)
        (dfor results (apply_result k (aj_id job) (ref_by_custom items)))
        (\<lambda>s. ?O s \<and> may_batch Q (k_name k) (ji_ref ` set items) s) (\<lambda>_ s. ?O s \<and> may_batch Q (k_name k) (ji_ref ` set items) s)"
      by (rule triple_dfor) (rule apply_result_triple [OF k(1) ran_refs])
    then have "triple (\<lambda>s. ?O s \<and> may_batch Q (k_name k) (ji_ref ` set items) s)
        (dfor results (apply_result k (aj_id job) (ref_by_custom items))) (opens J) (\<lambda>_. ?O)"
      by (rule triple_conseq) (auto intro: w)
    then show "triple (\<lambda>s. ?O s \<and> may_batch Q (k_name k) (ji_ref ` set items) s)
        (dbind (dfor results (apply_result k (aj_id job) (ref_by_custom items)))
           (\<lambda>_. AIBatchStore_MarkJob (aj_id job) ''completed'' [])) (opens J) (\<lambda>_. opens J)"
      by (rule triple_dbind) (rule MarkJob_triple [OF _ assms(2)], simp)
  qed
  have reset: "triple ?O (resetJob k job st) (opens J) (\<lambda>_. opens J)"
    if "k \<in> kinds" "k_name k = aj_kind job" "st \<noteq> ''submitted''" for k st
    by (rule resetJob_triple [OF that assms(2)])
  have leave: "triple ?O (dret x) (opens J) (\<lambda>_. opens J)" "triple ?O (dthrow e) (opens J) (\<lambda>_. opens J)" for x :: unit and e
    using w by (auto intro: triple_dret triple_dthrow)
  have kind: "k \<in> kinds" "k_name k = aj_kind job" if "Registry_Get reg (aj_kind job) = Some k" for k
    using Registry_Get_Some [OF that] assms(1) by auto
  show ?thesis
    unfolding collectJob_def
    by (intro triple_dbind [OF triple_opens_call] triple_sum triple_if triple_option)
      (auto intro: leave MarkJob_triple [OF _ assms(2)] reset kind done_triple triple_dbind [OF triple_opens_call]
         simp: terminalStatus_def split: sum.splits provider_error.splits)
qed

lemma collect_loop_triple:
  assumes "\<And>job J. job \<in> set jobs \<Longrightarrow> aj_id job \<notin> aj_id ` J \<Longrightarrow> triple (opens (insert job J)) (f job) (opens J) (\<lambda>_. opens J)"
    "distinct (map aj_id jobs)"
  shows "triple (opens (set jobs)) (collect_loop f jobs) I (\<lambda>_. I)"
  using assms
proof (induction jobs)
  case Nil
  then show ?case by (auto intro: triple_dret dest: opens_I)
next
  case (Cons job jobs)
  have 1: "triple (opens (set (job # jobs))) (dtry (f job)) I (\<lambda>_. opens (set jobs))"
    using triple_dtry [OF Cons.prems(1) [of job "set jobs"]] Cons.prems(2) by simp
  have 2: "triple (opens (set jobs)) (collect_loop f jobs) I (\<lambda>_. I)"
    by (rule Cons.IH) (use Cons.prems in auto)
  show ?case unfolding collect_loop.simps by (rule triple_dbind [OF 1], rule triple_dbind [OF 2], rule triple_dret)
qed

lemma queryJobs_triple:
  assumes "\<And>r. P r \<Longrightarrow> bj_status r = ''submitted''"
  shows "triple I (queryJobs P) I (\<lambda>jobs s. opens (set jobs) s \<and> distinct (map aj_id jobs))"
proof (rule tripleI)
  fix s e s' assume "I s" "queryJobs P s = (Inl e, s')"
  then have "same_tables s s'" by (auto simp: queryJobs_def db_simps dest: select_tables(2))
  then show "I s'" using tables_only \<open>I s\<close> by blast
next
  fix s jobs s' assume s: "I s" "queryJobs P s = (Inr jobs, s')"
  let ?l = "sort_by (\<lambda>a b. bj_submitted a < bj_submitted b) (filter P (db_batch_jobs s))"
  have j: "jobs = map aijob_of ?l" "s' = s\<lparr>db_tick := db_tick s + 1\<rparr>"
    using s(2) by (auto simp: queryJobs_def db_simps)
  have I: "I s'" unfolding j using tables_only [OF same_tables_tick] s(1) by blast
  have "distinct (map bj_id (db_batch_jobs s))" by (rule keys [OF s(1)])
  then have "distinct (map bj_id ?l)" by (simp add: distinct_map inj_on_def)
  then have "distinct (map aj_id jobs)" by (simp add: j comp_def aijob_of_def)
  moreover have "open_job job s'" if "job \<in> set jobs" for job
    using that assms by (auto simp: j open_job_def)
  ultimately show "opens (set jobs) s' \<and> distinct (map aj_id jobs)" using I by (simp add: opens_def)
qed

lemma Collect_triple:
  assumes "set reg \<subseteq> kinds"
  shows "triple I (Collect provider reg) I (\<lambda>_. I)"
  unfolding Collect_def AIBatchStore_OpenJobs_def
proof (rule triple_dbind [OF queryJobs_triple])
  fix jobs
  show "triple (\<lambda>s. opens (set jobs) s \<and> distinct (map aj_id jobs))
     (dbind (collect_loop (collectJob provider reg) jobs) (case_option (dret ()) dthrow)) I (\<lambda>_. I)"
    by (rule triple_pure, rule triple_dbind [OF collect_loop_triple], rule collectJob_triple [OF assms])
      (auto intro: triple_dret triple_dthrow split: option.split)
qed simp

lemma reset_stuck_triple:
  assumes "set reg \<subseteq> kinds" "aj_id job \<notin> aj_id ` J"
  shows "triple (opens (insert job J)) (reset_stuck_job reg job) E (\<lambda>_. opens J)"
proof (cases "Registry_Get reg (aj_kind job)")
  case None
  then show ?thesis
    unfolding reset_stuck_job_def
    by (auto intro!: triple_dbind [OF triple_dtry [OF MarkJob_triple [OF _ assms(2)]]] triple_dret)
next
  case (Some k)
  then have "k \<in> kinds" "k_name k = aj_kind job" using Registry_Get_Some [OF Some] assms(1) by auto
  then show ?thesis
    unfolding reset_stuck_job_def Some option.case
    by (intro triple_dbind [OF triple_dtry [OF resetJob_triple]] triple_dret) (auto simp: assms(2))
qed

lemma reset_loop_triple:
  "set reg \<subseteq> kinds \<Longrightarrow> distinct (map aj_id jobs) \<Longrightarrow>
     triple (opens (set jobs)) (dfor jobs (reset_stuck_job reg)) I (\<lambda>_. I)"
proof (induction jobs)
  case Nil
  then show ?case by (auto intro: triple_dret dest: opens_I)
next
  case (Cons job jobs)
  then show ?case by (auto intro: triple_dbind [OF reset_stuck_triple])
qed

lemma ResetStuck_triple:
  assumes "set reg \<subseteq> kinds"
  shows "triple I (ResetStuck reg olderThan) I (\<lambda>_. I)"
  unfolding ResetStuck_def AIBatchStore_StuckJobs_def
  by (rule triple_dbind [OF queryJobs_triple], simp, rule triple_pure, rule reset_loop_triple [OF assms])

end

end
