(* ===== verification/Receipt_Batch.thy ===== *)
theory Receipt_Batch
  imports Ai_Batch Artifacts Vendor_Memo Tenancy Pipeline_Run
begin

text \<open>
  The batched receipt pipeline: the position of each receipt (\<open>internal/db/receipt_pipeline_state.go\<close>) and the three
  AI stages as kinds of the batch framework (\<open>internal/receiptbatch/stages.go\<close>, \<open>kinds.go\<close>).  The stores are all
  present, as \<open>cmd/ops-scheduler\<close> wires them; only search may be off.  A \<open>JSONB\<close> column is the text that was
  written to it, and reading it back is \<open>json.Unmarshal\<close>, which looks at the value and not at its spelling.

  \<open>batch_safe\<close> is the invariant of the pipeline: whatever the provider answers and whichever statement fails, a receipt
  is past the extract stage only with an extraction that passed the gate.
\<close>

section \<open>Stages\<close>

definition NextStage :: "string \<Rightarrow> string" where
  "NextStage stage =
     (if stage = ''extract'' then ''vendor'' else if stage = ''vendor'' then ''classify''
      else if stage = ''classify'' then ''done'' else ''done'')"

definition KindForStage :: "string \<Rightarrow> string" where
  "KindForStage stage =
     (if stage = ''extract'' then ''receipt-extract'' else if stage = ''vendor'' then ''receipt-vendor''
      else if stage = ''classify'' then ''receipt-classify'' else [])"

section \<open>The pipeline state of a receipt\<close>

record pstate =
  p_receipt :: string
  p_stage :: string
  p_status :: string
  p_extract :: "string option"
  p_vendor :: "string option"
  p_classify :: "string option"

definition toState :: "pstate_row \<Rightarrow> pstate" where
  "toState r = \<lparr>p_receipt = ps_receipt r, p_stage = ps_stage r, p_status = ps_status r, p_extract = ps_extract_json r,
     p_vendor = ps_vendor_json r, p_classify = ps_classify_json r\<rparr>"

definition pipeline_stages :: "string set" where
  "pipeline_stages = {''extract'', ''vendor'', ''classify'', ''done'', ''review''}"

definition StateStore_Ensure :: "string \<Rightarrow> unit dbm" where
  "StateStore_Ensure receiptID = stmt (\<lambda>s.
     if receiptID \<in> ps_receipt ` set (db_pstates s) then (Inr (), s)
     else if receiptID \<notin> rc_id ` set (db_receipts s) then (Inl ErrConstraint, s)
     else (Inr (), s\<lparr>db_pstates := db_pstates s @ [\<lparr>ps_receipt = receiptID, ps_stage = ''extract'', ps_status = ''pending'',
             ps_extract_json = None, ps_vendor_json = None, ps_classify_json = None, ps_failed_stage = None,
             ps_issues = None, ps_running = None, ps_updated = db_now s\<rparr>]\<rparr>))"

text \<open>The inner query takes the rows that waited longest; \<open>RETURNING\<close> lists the updated rows in table order.\<close>

definition to_claim :: "string \<Rightarrow> nat \<Rightarrow> pstate_row list \<Rightarrow> string list" where
  "to_claim stage limit rows = map ps_receipt (take limit (sort_by (\<lambda>a b. ps_updated a < ps_updated b)
     (filter (\<lambda>r. ps_stage r = stage \<and> ps_status r = ''pending'') rows)))"

definition lease_row :: "int \<Rightarrow> pstate_row \<Rightarrow> pstate_row" where
  "lease_row now r = r\<lparr>ps_status := ''in_flight'', ps_running := Some now, ps_updated := now\<rparr>"

definition StateStore_ClaimPending :: "string \<Rightarrow> nat \<Rightarrow> pstate list dbm" where
  "StateStore_ClaimPending stage limit = stmt (\<lambda>s.
     let hit = (\<lambda>r. ps_receipt r \<in> set (to_claim stage limit (db_pstates s))) in
     (Inr (map (\<lambda>r. toState (lease_row (db_now s) r)) (filter hit (db_pstates s))),
      s\<lparr>db_pstates := map (\<lambda>r. if hit r then lease_row (db_now s) r else r) (db_pstates s)\<rparr>))"

definition StateStore_Get :: "string \<Rightarrow> pstate dbm" where
  "StateStore_Get receiptID =
     dbind (select_one db_pstates (\<lambda>r. ps_receipt r = receiptID)) (\<lambda>r.
     case r of None \<Rightarrow> dthrow sql_no_rows | Some row \<Rightarrow> dret (toState row))"

definition update_pstate :: "string \<Rightarrow> (pstate_row \<Rightarrow> pstate_row) \<Rightarrow> db \<Rightarrow> db" where
  "update_pstate receiptID f s = s\<lparr>db_pstates := map (\<lambda>r. if ps_receipt r = receiptID then f r else r) (db_pstates s)\<rparr>"

definition release_row :: "int \<Rightarrow> pstate_row \<Rightarrow> pstate_row" where
  "release_row now r =
     (if ps_status r = ''in_flight'' then r\<lparr>ps_status := ''pending'', ps_running := None, ps_updated := now\<rparr> else r)"

definition StateStore_Reset :: "string list \<Rightarrow> unit dbm" where
  "StateStore_Reset receiptIDs =
     dfor receiptIDs (\<lambda>i. stmt (\<lambda>s. (Inr (), update_pstate i (release_row (db_now s)) s)))"

text \<open>\<open>advance\<close>: \<open>put\<close> is the assignment to the column of the stage.  The table checks the stage's name.\<close>

definition advance_row :: "(pstate_row \<Rightarrow> pstate_row) \<Rightarrow> string \<Rightarrow> int \<Rightarrow> pstate_row \<Rightarrow> pstate_row" where
  "advance_row put next now r = (put r)\<lparr>ps_stage := next, ps_status := ''pending'', ps_running := None, ps_updated := now\<rparr>"

definition StateStore_advance :: "string \<Rightarrow> (pstate_row \<Rightarrow> pstate_row) \<Rightarrow> string \<Rightarrow> unit dbm" where
  "StateStore_advance receiptID put next = stmt (\<lambda>s.
     if receiptID \<in> ps_receipt ` set (db_pstates s) \<and> next \<notin> pipeline_stages then (Inl ErrConstraint, s)
     else (Inr (), update_pstate receiptID (advance_row put next (db_now s)) s))"

definition SaveExtractAndAdvance :: "string \<Rightarrow> string option \<Rightarrow> string \<Rightarrow> unit dbm" where
  "SaveExtractAndAdvance receiptID j next = StateStore_advance receiptID (\<lambda>r. r\<lparr>ps_extract_json := j\<rparr>) next"

definition SaveVendorAndAdvance :: "string \<Rightarrow> string option \<Rightarrow> string \<Rightarrow> unit dbm" where
  "SaveVendorAndAdvance receiptID j next = StateStore_advance receiptID (\<lambda>r. r\<lparr>ps_vendor_json := j\<rparr>) next"

definition SaveClassifyAndFinish :: "string \<Rightarrow> string option \<Rightarrow> unit dbm" where
  "SaveClassifyAndFinish receiptID j = StateStore_advance receiptID (\<lambda>r. r\<lparr>ps_classify_json := j\<rparr>) ''done''"

definition park_row :: "string \<Rightarrow> string \<Rightarrow> int \<Rightarrow> pstate_row \<Rightarrow> pstate_row" where
  "park_row failedStage issues now r = r\<lparr>ps_stage := ''review'', ps_status := ''pending'', ps_failed_stage := Some failedStage,
     ps_issues := nullString issues, ps_running := None, ps_updated := now\<rparr>"

definition StateStore_Park :: "string \<Rightarrow> string \<Rightarrow> string \<Rightarrow> unit dbm" where
  "StateStore_Park receiptID failedStage issues =
     stmt (\<lambda>s. (Inr (), update_pstate receiptID (park_row failedStage issues (db_now s)) s))"

section \<open>Dependencies\<close>

text \<open>\<open>json.Marshal\<close> of the three stored values fails (\<open>None\<close>) on a value JSON cannot express.\<close>

record batch_deps =
  bd_search :: search_env
  bd_limit :: int
  bd_extract :: "string \<Rightarrow> string + extract_result"
  bd_vendor :: "string \<Rightarrow> string + vendor_match"
  bd_classify :: "string \<Rightarrow> string + classify_result"
  bd_put_extract :: "extract_result \<Rightarrow> string option"
  bd_put_vendor :: "vendor_match \<Rightarrow> string option"
  bd_put_account :: "string \<Rightarrow> string option"

definition deps_limit :: "batch_deps \<Rightarrow> nat" where
  "deps_limit d = (if bd_limit d \<le> 0 then 200 else nat (bd_limit d))"

definition mustJSON :: "string option \<Rightarrow> string" where
  "mustJSON b = (case b of None \<Rightarrow> ''{}'' | Some j \<Rightarrow> j)"

definition matchedJSON :: "batch_deps \<Rightarrow> string \<Rightarrow> string" where
  "matchedJSON d vendorID = mustJSON (bd_put_vendor d
     \<lparr>vm_vendor_id = Some vendorID, vm_is_new = False, vm_proposed = None, vm_confidence = 1, vm_reason = []\<rparr>)"

definition tenantFor :: "string \<Rightarrow> string dbm" where
  "tenantFor entityID =
     dbind (dtry (EntityStore_GetByID entityID)) (\<lambda>r. case r of Inl _ \<Rightarrow> dret [] | Inr e \<Rightarrow> dret (y_tenant e))"

definition accountRefs :: "string \<Rightarrow> account_ref list dbm" where
  "accountRefs entityID =
     dbind (dtry (AccountStore_ListForEntity entityID 500)) (\<lambda>r.
     case r of
       Inl _ \<Rightarrow> dret []
     | Inr list \<Rightarrow> dret (map (\<lambda>a. \<lparr>ar_code = a_id a, ar_name = a_name a, ar_type = a_type a\<rparr>) list))"

definition decideExtract :: "batch_deps \<Rightarrow> string \<Rightarrow> string option \<times> bool \<times> string list" where
  "decideExtract d raw =
     (case ParseExtract (bd_extract d) raw of
        Inl err \<Rightarrow> (None, False, [err])
      | Inr r \<Rightarrow> (Some (mustJSON (bd_put_extract d r)), o_advance (GateExtract r), o_issues (GateExtract r)))"

definition decideVendor :: "batch_deps \<Rightarrow> string \<Rightarrow> vendor_ref list \<Rightarrow> string option \<times> bool \<times> string list" where
  "decideVendor d raw candidates =
     (case ParseVendorMatch (bd_vendor d) raw of
        Inl err \<Rightarrow> (None, False, [err])
      | Inr r \<Rightarrow> (Some (mustJSON (bd_put_vendor d r)), o_advance (GateVendorMatch r candidates),
                  o_issues (GateVendorMatch r candidates)))"

text \<open>The request of a stage: system prompt, user prompt, schema; the identifier is filled in by \<open>Submit\<close>.\<close>

definition stage_item :: "string \<Rightarrow> string \<times> string \<times> string \<Rightarrow> item" where
  "stage_item ref q = (case q of (sys, user, schema) \<Rightarrow>
     \<lparr>it_ref = ref, it_request = \<lparr>br_custom = [], br_system = sys, br_user = user, br_schema = schema\<rparr>\<rparr>)"

text \<open>\<open>for _, st := range states\<close> with \<open>continue\<close>: the body yields an item or skips the receipt.\<close>

fun gather_loop :: "('a \<Rightarrow> item option dbm) \<Rightarrow> 'a list \<Rightarrow> item list dbm" where
  "gather_loop f [] = dret []"
| "gather_loop f (st # sts) =
     dbind (f st) (\<lambda>r. dbind (gather_loop f sts) (\<lambda>items. dret (case r of None \<Rightarrow> items | Some i \<Rightarrow> i # items)))"

text \<open>An error that is dropped, then \<open>continue\<close>.\<close>

definition skip :: "unit dbm \<Rightarrow> item option dbm" where
  "skip m = dbind (dtry m) (\<lambda>_. dret None)"

section \<open>Extract\<close>

definition extract_gather_one :: "pstate \<Rightarrow> item option dbm" where
  "extract_gather_one st =
     dbind (dtry (ReceiptOCRStore_LatestByReceiptID (p_receipt st))) (\<lambda>latest.
     let txt = (case latest of Inr o' \<Rightarrow> o_text o' | Inl _ \<Rightarrow> []) in
     if trim_space txt = [] then skip (StateStore_Park (p_receipt st) ''extract'' ''no OCR text'')
     else dret (Some (stage_item (p_receipt st) (BuildExtractRequest txt))))"

definition extract_gather :: "batch_deps \<Rightarrow> item list dbm" where
  "extract_gather d = dbind (StateStore_ClaimPending ''extract'' (deps_limit d)) (gather_loop extract_gather_one)"

definition extract_apply :: "batch_deps \<Rightarrow> string \<Rightarrow> string \<Rightarrow> string option \<Rightarrow> unit dbm" where
  "extract_apply d refID result resultErr =
     (case resultErr of
        Some e \<Rightarrow> StateStore_Park refID ''extract'' e
      | None \<Rightarrow>
          (case decideExtract d result of (j, ok, issues) \<Rightarrow>
             if \<not> ok then StateStore_Park refID ''extract'' (join issues ''; '')
             else SaveExtractAndAdvance refID j (NextStage ''extract'')))"

definition extractKind :: "batch_deps \<Rightarrow> kind" where
  "extractKind d = \<lparr>k_name = ''receipt-extract'', k_gather = extract_gather d, k_apply = extract_apply d,
     k_reset = StateStore_Reset\<rparr>"

section \<open>Vendor match\<close>

definition candidatesForReceipt :: "batch_deps \<Rightarrow> string \<Rightarrow> string \<Rightarrow> vendor_ref list dbm" where
  "candidatesForReceipt d receiptID vendorName =
     dbind (dtry (ReceiptStore_GetByID receiptID)) (\<lambda>r.
     case r of
       Inl _ \<Rightarrow> dret []
     | Inr receipt \<Rightarrow>
         dbind (tenantFor (r_entity receipt)) (\<lambda>tenant.
         Candidates (bd_search d) tenant (r_entity receipt) vendorName))"

definition candidatesForRef :: "batch_deps \<Rightarrow> string \<Rightarrow> vendor_ref list dbm" where
  "candidatesForRef d receiptID =
     dbind (dtry (StateStore_Get receiptID)) (\<lambda>r.
     case r of
       Inl _ \<Rightarrow> dret []
     | Inr st \<Rightarrow>
         (case ParseExtract (bd_extract d) (strOf (p_extract st)) of
            Inl _ \<Rightarrow> dret []
          | Inr ex \<Rightarrow>
              (case x_vendor ex of
                 None \<Rightarrow> dret []
               | Some vname \<Rightarrow> candidatesForReceipt d receiptID vname)))"

definition vendor_gather_one :: "batch_deps \<Rightarrow> pstate \<Rightarrow> item option dbm" where
  "vendor_gather_one d st =
     (let advance = (\<lambda>j. skip (SaveVendorAndAdvance (p_receipt st) j (NextStage ''vendor''))) in
      case ParseExtract (bd_extract d) (strOf (p_extract st)) of
        Inl _ \<Rightarrow> advance None
      | Inr ex \<Rightarrow>
          (case x_vendor ex of
             None \<Rightarrow> advance None
           | Some vname \<Rightarrow>
               if trim_space vname = [] then advance None
               else dbind (candidatesForReceipt d (p_receipt st) vname) (\<lambda>cands.
                 case ExactVendorMatch vname cands of
                   Some i \<Rightarrow> advance (Some (matchedJSON d i))
                 | None \<Rightarrow> dret (Some (stage_item (p_receipt st) (BuildVendorMatchRequest vname cands))))))"

definition vendor_gather :: "batch_deps \<Rightarrow> item list dbm" where
  "vendor_gather d = dbind (StateStore_ClaimPending ''vendor'' (deps_limit d)) (gather_loop (vendor_gather_one d))"

definition vendor_apply :: "batch_deps \<Rightarrow> string \<Rightarrow> string \<Rightarrow> string option \<Rightarrow> unit dbm" where
  "vendor_apply d refID result resultErr =
     (case resultErr of
        Some e \<Rightarrow> StateStore_Park refID ''vendor'' e
      | None \<Rightarrow>
          dbind (candidatesForRef d refID) (\<lambda>cands.
          case decideVendor d result cands of (j, ok, issues) \<Rightarrow>
            if \<not> ok then StateStore_Park refID ''vendor'' (join issues ''; '')
            else SaveVendorAndAdvance refID j (NextStage ''vendor'')))"

definition vendorKind :: "batch_deps \<Rightarrow> kind" where
  "vendorKind d = \<lparr>k_name = ''receipt-vendor'', k_gather = vendor_gather d, k_apply = vendor_apply d,
     k_reset = StateStore_Reset\<rparr>"

section \<open>Classify and finish\<close>

definition vendorDefaultAccount :: "batch_deps \<Rightarrow> string option \<Rightarrow> string dbm" where
  "vendorDefaultAccount d vendorJSON =
     (if length (strOf vendorJSON) = 0 then dret []
      else case ParseVendorMatch (bd_vendor d) (strOf vendorJSON) of
        Inl _ \<Rightarrow> dret []
      | Inr vm \<Rightarrow>
          (case vm_vendor_id vm of
             None \<Rightarrow> dret []
           | Some i \<Rightarrow> dbind (dtry (VendorStore_GetByID i)) (\<lambda>r.
               case r of Inl _ \<Rightarrow> dret [] | Inr v \<Rightarrow> dret (v_account v))))"

definition buildSummary :: "batch_deps \<Rightarrow> string option \<Rightarrow> string \<Rightarrow> rat \<Rightarrow> string \<Rightarrow> ai_summary dbm" where
  "buildSummary d vendorJSON accountCode accountConf accountReason =
     dbind (case ParseVendorMatch (bd_vendor d) (strOf vendorJSON) of
              Inl _ \<Rightarrow> dret None
            | Inr vm \<Rightarrow>
                (case vm_proposed vm of
                   Some pv \<Rightarrow> dret (Some (pv_name pv, vm_confidence vm, vm_reason vm, True))
                 | None \<Rightarrow>
                     (case vm_vendor_id vm of
                        None \<Rightarrow> dret None
                      | Some i \<Rightarrow> dbind (dtry (VendorStore_GetByID i)) (\<lambda>r.
                          let name = (case r of Inl _ \<Rightarrow> [] | Inr v \<Rightarrow> v_name v);
                              reason = (if vm_reason vm = [] then ''exact name match'' else vm_reason vm)
                          in dret (Some (name, vm_confidence vm, reason, False))))))
       (\<lambda>vendor. dret \<lparr>as_vendor = vendor,
          as_account = (if accountCode \<noteq> [] then Some (accountCode, accountConf, accountReason) else None)\<rparr>)"

definition memoizeResolution ::
  "batch_deps \<Rightarrow> string \<Rightarrow> string \<Rightarrow> extract_result \<Rightarrow> string option \<Rightarrow> string \<Rightarrow> unit dbm" where
  "memoizeResolution d receiptID entityID ex vendorJSON accountCode =
     (let raw = (case x_vendor ex of None \<Rightarrow> [] | Some v \<Rightarrow> trim_space v) in
      case ParseVendorMatch (bd_vendor d) (strOf vendorJSON) of
        Inl _ \<Rightarrow> dret ()
      | Inr vm \<Rightarrow>
          dbind (tenantFor entityID) (\<lambda>tenant.
          dbind (case vm_proposed vm of
                   Some pv \<Rightarrow>
                     dbind (Memoize (bd_search d) tenant entityID (Some pv) accountCode) (\<lambda>r.
                     case r of
                       None \<Rightarrow> dret []
                     | Some v \<Rightarrow> dbind (RecordResolution (bd_search d) tenant entityID (v_id v) raw) (\<lambda>_. dret (v_id v)))
                 | None \<Rightarrow>
                     (case vm_vendor_id vm of
                        None \<Rightarrow> dret []
                      | Some i \<Rightarrow> dbind (RecordResolution (bd_search d) tenant entityID i raw) (\<lambda>_. dret i)))
            (\<lambda>resolved.
          if resolved \<noteq> []
          then dbind (dtry (ReceiptStore_SetResolvedVendor receiptID resolved raw)) (\<lambda>_. dret ())
          else dret ())))"

definition today :: "date dbm" where
  "today s = (Inr (db_today s), s)"

definition draft_lines :: "draft_entry \<Rightarrow> draft_line list" where
  "draft_lines entry = map (\<lambda>l. \<lparr>dl_id = [], dl_draft = [], dl_account = el_account l, dl_debit = el_debit l,
     dl_credit = el_credit l\<rparr>) (de_lines entry)"

definition entry_date :: "date \<Rightarrow> string \<Rightarrow> date" where
  "entry_date now d = (if d \<noteq> [] then (case parse_iso d of Some t \<Rightarrow> t | None \<Rightarrow> now) else now)"

definition finish_receipt ::
  "batch_deps \<Rightarrow> string \<Rightarrow> string \<Rightarrow> extract_result \<Rightarrow> string option \<Rightarrow> string \<Rightarrow> rat \<Rightarrow> string \<Rightarrow> unit dbm" where
  "finish_receipt d receiptID entityID ex vendorJSON accountCode accountConf accountReason =
     dbind (dtry (ReceiptStore_UpdateStatus receiptID ''ready_for_review'')) (\<lambda>_.
     dbind (memoizeResolution d receiptID entityID ex vendorJSON accountCode) (\<lambda>_.
     dbind (buildSummary d vendorJSON accountCode accountConf accountReason) (\<lambda>summary.
     dbind (if HasContent summary then dbind (dtry (ReceiptStore_SetAISummary receiptID (Some summary))) (\<lambda>_. dret ())
            else dret ()) (\<lambda>_.
     SaveClassifyAndFinish receiptID (Some (mustJSON (bd_put_account d accountCode)))))))"

definition finalize ::
  "batch_deps \<Rightarrow> string \<Rightarrow> receipt \<Rightarrow> extract_result \<Rightarrow> string option \<Rightarrow> string \<Rightarrow> rat \<Rightarrow> string \<Rightarrow> unit dbm" where
  "finalize d receiptID receipt ex vendorJSON accountCode accountConf accountReason =
     dbind (dtry (AccountStore_FindDefaultCashAccount (r_entity receipt))) (\<lambda>cash.
     let credit = (case cash of Inl _ \<Rightarrow> [] | Inr a \<Rightarrow> a_id a) in
     case BuildEntry \<lparr>bi_extract = ex, bi_expense = accountCode, bi_credit = credit, bi_tax = []\<rparr> of
       Inl berr \<Rightarrow> StateStore_Park receiptID ''build-entry'' berr
     | Inr entry \<Rightarrow>
         dbind today (\<lambda>now.
         dbind (DraftStore_EnsureForReceipt receiptID) (\<lambda>_.
         dbind (dtry (DraftStore_UpdateDraft receiptID (entry_date now (de_date entry)) (de_memo entry) (draft_lines entry))) (\<lambda>u.
         case u of
           Inl uerr \<Rightarrow> StateStore_Park receiptID ''build-entry'' (error_text uerr)
         | Inr _ \<Rightarrow> finish_receipt d receiptID (r_entity receipt) ex vendorJSON accountCode accountConf accountReason))))"

definition classify_gather_one :: "batch_deps \<Rightarrow> pstate \<Rightarrow> item option dbm" where
  "classify_gather_one d st =
     (case ParseExtract (bd_extract d) (strOf (p_extract st)) of
        Inl _ \<Rightarrow> skip (StateStore_Park (p_receipt st) ''classify'' ''unreadable extract state'')
      | Inr ex \<Rightarrow>
          dbind (dtry (ReceiptStore_GetByID (p_receipt st))) (\<lambda>r.
          case r of
            Inl _ \<Rightarrow> skip (StateStore_Reset [p_receipt st])
          | Inr receipt \<Rightarrow>
              dbind (vendorDefaultAccount d (p_vendor st)) (\<lambda>acct.
              if acct \<noteq> [] then skip (finalize d (p_receipt st) receipt ex (p_vendor st) acct 1 ''vendor default account'')
              else dbind (accountRefs (r_entity receipt)) (\<lambda>accts.
                dret (Some (stage_item (p_receipt st) (BuildClassifyRequest ex accts)))))))"

definition classify_gather :: "batch_deps \<Rightarrow> item list dbm" where
  "classify_gather d = dbind (StateStore_ClaimPending ''classify'' (deps_limit d)) (gather_loop (classify_gather_one d))"

definition classify_apply :: "batch_deps \<Rightarrow> string \<Rightarrow> string \<Rightarrow> string option \<Rightarrow> unit dbm" where
  "classify_apply d refID result resultErr =
     (case resultErr of
        Some e \<Rightarrow> StateStore_Park refID ''classify'' e
      | None \<Rightarrow>
          dbind (StateStore_Get refID) (\<lambda>st.
          case ParseExtract (bd_extract d) (strOf (p_extract st)) of
            Inl _ \<Rightarrow> StateStore_Park refID ''classify'' ''unreadable extract state''
          | Inr ex \<Rightarrow>
              dbind (ReceiptStore_GetByID refID) (\<lambda>receipt.
              case ParseClassify (bd_classify d) result of
                Inl cperr \<Rightarrow> StateStore_Park refID ''classify'' cperr
              | Inr cl \<Rightarrow>
                  dbind (accountRefs (r_entity receipt)) (\<lambda>accts.
                  if \<not> o_advance (GateClassify cl accts)
                  then StateStore_Park refID ''classify'' (join (o_issues (GateClassify cl accts)) ''; '')
                  else finalize d refID receipt ex (p_vendor st) (c_account cl) (c_confidence cl) (c_reason cl)))))"

definition classifyKind :: "batch_deps \<Rightarrow> kind" where
  "classifyKind d = \<lparr>k_name = ''receipt-classify'', k_gather = classify_gather d, k_apply = classify_apply d,
     k_reset = StateStore_Reset\<rparr>"

definition Kinds :: "batch_deps \<Rightarrow> kind list" where
  "Kinds d = [extractKind d, vendorKind d, classifyKind d]"

section \<open>The scheduled tasks\<close>

text \<open>\<open>registerBatchTasks\<close> of \<open>cmd/ops-scheduler/main.go\<close>: the registry and the three tasks over it, with their
  settings (the completion window, the age in hours of a stuck batch).\<close>

datatype batch_task = SubmitTask string | CollectTask | ResetStuckTask int

definition batch_registry :: "batch_deps \<Rightarrow> registry" where
  "batch_registry d = foldl (\<lambda>reg k. Register k reg) [] (Kinds d)"

fun run_batch_task :: "batch_provider \<Rightarrow> batch_deps \<Rightarrow> batch_task \<Rightarrow> db \<Rightarrow> db" where
  "run_batch_task bp d (SubmitTask window) s = snd (SubmitAll bp (batch_registry d) window s)"
| "run_batch_task bp d CollectTask s = snd (Collect bp (batch_registry d) s)"
| "run_batch_task bp d (ResetStuckTask staleHours) s =
     snd (ResetStuck (batch_registry d) (db_now s - staleHours * 3600) s)"

lemma batch_registry_eq: "batch_registry d = Kinds d"
  by (simp add: batch_registry_def Kinds_def Register_def extractKind_def vendorKind_def classifyKind_def)

end
