(* ===== verification/Batch_Safety.thy ===== *)
theory Batch_Safety
  imports Receipt_Batch Books
begin

text \<open>
  What the batched pipeline may do to the tables.  Everything around the pipeline state (reading OCR text and receipts,
  remembering vendors, writing drafts and summaries) leaves the ledger, the import rows, the batch tables and the pipeline state alone
  (\<open>quiet\<close>); the locale \<open>receipt_steps\<close> lifts five laws about the pipeline state's updates to the gathering and
  applying of the three kinds.  It is interpreted twice: for the safety of the pipeline (an ungated extraction never
  advances) and for the receipts that the framework has lost.
\<close>

section \<open>Operations that leave the pipeline alone\<close>

definition outside :: "db \<Rightarrow> (tx_row list \<times> entry_row list \<times> int option list \<times> import_row list) \<times> batch_job_row list \<times> batch_item_row list \<times> pstate_row list" where
  "outside s = ((db_txs s, db_entries s, map rc_attached (db_receipts s), db_import_rows s), db_batch_jobs s, db_batch_items s, db_pstates s)"

definition quiet :: "'a dbm \<Rightarrow> bool" where
  "quiet m \<longleftrightarrow> (\<forall>x. keeps (\<lambda>s. outside s = x) m)"

lemma outside_tables: "same_tables s s' \<Longrightarrow> outside s' = outside s"
  by (simp add: outside_def same_tables_fields)

interpretation outside: table_invariant "\<lambda>s. outside s = x" for x
  by unfold_locales (simp add: outside_tables)

lemma quiet_flow:
  "quiet (dret x)" "quiet (dthrow e)" "quiet (select_one tbl P)" "quiet (select_all q)" "quiet (get_row tbl' P')"
  unfolding quiet_def by (intro allI outside.keep_flow)+

lemma quiet_dbind: "quiet m \<Longrightarrow> (\<And>x. quiet (f x)) \<Longrightarrow> quiet (dbind m f)"
  unfolding quiet_def by (intro allI outside.keep_flow) blast+

lemma quiet_dtry: "quiet m \<Longrightarrow> quiet (dtry m)"
  unfolding quiet_def by (intro allI outside.keep_flow) blast

lemma quiet_transact: "quiet m \<Longrightarrow> quiet (transact m)"
  unfolding quiet_def by (intro allI outside.keep_transact) blast

lemma quiet_dfor: "(\<And>x. quiet (f x)) \<Longrightarrow> quiet (dfor xs f)"
  unfolding quiet_def by (intro allI outside.keep_dfor) blast

lemma quiet_option: "quiet a \<Longrightarrow> (\<And>x. quiet (f x)) \<Longrightarrow> quiet (case r of None \<Rightarrow> a | Some x \<Rightarrow> f x)"
  by (cases r) auto

lemma quiet_sum: "(\<And>e. quiet (g e)) \<Longrightarrow> (\<And>x. quiet (f x)) \<Longrightarrow> quiet (case r of Inl e \<Rightarrow> g e | Inr x \<Rightarrow> f x)"
  by (cases r) auto

lemma quiet_list: "quiet a \<Longrightarrow> (\<And>x ys. quiet (f x ys)) \<Longrightarrow> quiet (case r of [] \<Rightarrow> a | x # ys \<Rightarrow> f x ys)"
  by (cases r) auto

lemma quiet_if: "quiet a \<Longrightarrow> quiet b \<Longrightarrow> quiet (if P then a else b)"
  by auto

lemmas quiet_rules = quiet_flow quiet_dbind quiet_dtry quiet_transact quiet_dfor quiet_option quiet_sum quiet_list quiet_if

lemma quiet_stmt: "(\<And>s x s'. q s = (Inr x, s') \<Longrightarrow> outside s' = outside s) \<Longrightarrow> quiet (stmt q)"
  unfolding quiet_def by (intro allI outside.keep_stmt) simp

named_theorems quiet_ops

lemma quiet_send [quiet_ops]: "quiet (send c)"
  by (simp add: quiet_def keeps_def send_def outside_def)

lemma quiet_reads [quiet_ops]:
  "quiet (ReceiptOCRStore_LatestByReceiptID r)" "quiet (ReceiptStore_GetByID r)" "quiet (EntityStore_GetByID e)"
  "quiet (VendorStore_GetByID v)" "quiet (VendorStore_ListForEntity e l)" "quiet (VendorAliasStore_ListNormalized v)"
  "quiet (VendorStore_FindByNormalized e n)" "quiet (StateStore_Get r)" "quiet (ListByAccountID a)"
  "quiet (DraftStore_GetByReceiptID r)"
  unfolding ReceiptOCRStore_LatestByReceiptID_def ReceiptStore_GetByID_def EntityStore_GetByID_def VendorStore_GetByID_def
    VendorStore_ListForEntity_def VendorAliasStore_ListNormalized_def VendorStore_FindByNormalized_def StateStore_Get_def
    ListByAccountID_def DraftStore_GetByReceiptID_def Let_def
  by (intro quiet_rules)+

lemma quiet_accountFromRow [quiet_ops]: "quiet (accountFromRow r)"
  unfolding accountFromRow_def by (intro quiet_rules quiet_ops)

lemma quiet_accountsFromRows [quiet_ops]: "quiet (accountsFromRows rs)"
  by (induction rs) (simp_all add: quiet_rules quiet_ops)

lemma quiet_accounts [quiet_ops]:
  "quiet (AccountStore_ListForEntity e l)" "quiet (AccountStore_FindDefaultCashAccount e)"
  unfolding AccountStore_ListForEntity_def AccountStore_FindDefaultCashAccount_def Let_def
  by (intro quiet_rules quiet_ops)+

lemma quiet_vendors [quiet_ops]:
  "quiet (VendorStore_Create v)" "quiet (VendorAliasStore_Record i e w n)"
  unfolding VendorStore_Create_def VendorAliasStore_Record_def upsert_alias_def bump_vendor_def
  by (intro quiet_rules quiet_stmt; auto simp: Let_def outside_def split: if_splits option.splits)+

lemma quiet_indexGlobalSearch [quiet_ops]: "quiet (indexGlobalSearch se t v)"
  using quiet_send by (auto simp: quiet_def keeps_def indexGlobalSearch_def dret_def)

lemma quiet_memo [quiet_ops]:
  "quiet (IndexRetrieval se t v)" "quiet (Memoize se t e p a)" "quiet (RecordResolution se t e v w)" "quiet (Candidates se t e n)"
  unfolding IndexRetrieval_def Memoize_def RecordResolution_def Candidates_def searchRefs_def listVendors_def Let_def
  by (intro quiet_rules quiet_ops)+

lemma quiet_update_receipts:
  "(\<And>r. rc_attached (f r) = rc_attached r) \<Longrightarrow> update_receipts i f s = (x, s') \<Longrightarrow> outside s' = outside s"
  by (auto simp: update_receipts_def outside_def)

lemma quiet_receipts [quiet_ops]:
  "quiet (ReceiptStore_UpdateStatus i st)" "quiet (ReceiptStore_SetResolvedVendor i v w)" "quiet (ReceiptStore_SetAISummary i sm)"
proof -
  show "quiet (ReceiptStore_UpdateStatus i st)"
    unfolding ReceiptStore_UpdateStatus_def
    by (intro quiet_rules quiet_stmt) (rule quiet_update_receipts, auto)
  show "quiet (ReceiptStore_SetResolvedVendor i v w)"
    unfolding ReceiptStore_SetResolvedVendor_def
    by (intro quiet_rules quiet_stmt) (auto split: if_splits intro: quiet_update_receipts [rotated])
  show "quiet (ReceiptStore_SetAISummary i sm)"
    unfolding ReceiptStore_SetAISummary_def
    by (intro quiet_stmt) (auto simp: outside_def Let_def split: if_splits)
qed

lemma quiet_drafts [quiet_ops]:
  "quiet (DraftStore_EnsureForReceipt i)" "quiet (DraftStore_UpdateDraft i d m es)"
  unfolding DraftStore_EnsureForReceipt_def DraftStore_UpdateDraft_def insert_draft_def delete_draft_entries_def
    insert_draft_entry_def
  by (intro quiet_rules quiet_stmt quiet_ops; auto simp: Let_def outside_def split: if_splits option.splits)+

lemma quiet_today [quiet_ops]: "quiet today"
  by (simp add: quiet_def keeps_def today_def)

lemma quiet_batch [quiet_ops]:
  "quiet (tenantFor e)" "quiet (accountRefs e)" "quiet (vendorDefaultAccount d j)" "quiet (buildSummary d j a c w)"
  unfolding tenantFor_def accountRefs_def vendorDefaultAccount_def buildSummary_def Let_def
  by (intro quiet_rules quiet_ops)+

lemma quiet_memoizeResolution [quiet_ops]: "quiet (memoizeResolution d r e x j a)"
  unfolding memoizeResolution_def Let_def by (intro quiet_rules quiet_ops)

lemma quiet_candidates [quiet_ops]: "quiet (candidatesForReceipt d r n)" "quiet (candidatesForRef d r)"
  unfolding candidatesForReceipt_def candidatesForRef_def by (intro quiet_rules quiet_ops)+

section \<open>From the updates of the pipeline state to the kinds\<close>

text \<open>
  \<open>J\<close> is a property of the tables that sees of them what \<open>outside\<close> shows, and \<open>ok n r\<close> says that a kind named \<open>n\<close> may
  touch the receipt \<open>r\<close>.  If the five updates keep \<open>J\<close> for such receipts, so do the stages.
\<close>

locale receipt_steps =
  fixes J :: "db \<Rightarrow> bool" and d :: batch_deps and ok :: "string \<Rightarrow> string \<Rightarrow> bool"
  assumes outside_only: "outside s = outside s' \<Longrightarrow> J s = J s'"
    and park: "ok n r \<Longrightarrow> keeps J (StateStore_Park r f i)"
    and release: "ok n r \<Longrightarrow> keeps J (stmt (\<lambda>s. (Inr (), update_pstate r (release_row (db_now s)) s)))"
    and save_extract: "ok ''receipt-extract'' r \<Longrightarrow> ParseExtract (bd_extract d) raw = Inr x \<Longrightarrow> o_advance (GateExtract x) \<Longrightarrow>
      keeps J (SaveExtractAndAdvance r (Some (mustJSON (bd_put_extract d x))) ''vendor'')"
    and save_vendor: "ok ''receipt-vendor'' r \<Longrightarrow> keeps J (SaveVendorAndAdvance r j ''classify'')"
    and save_classify: "ok ''receipt-classify'' r \<Longrightarrow> keeps J (SaveClassifyAndFinish r j)"
begin

sublocale table_invariant J
  by unfold_locales (rule outside_only, simp add: outside_tables)

lemma keep_quiet: "quiet m \<Longrightarrow> keeps J m"
  unfolding quiet_def keeps_def using outside_only by blast

lemma keeps_state: "keeps J m \<Longrightarrow> J s \<Longrightarrow> m s = (r, s') \<Longrightarrow> J s'"
  by (rule keepsD)

lemma keep_skip: "keeps J m \<Longrightarrow> keeps J (skip m)"
  unfolding skip_def by (intro keep_flow)

lemma keep_Reset: "(\<And>r. r \<in> set rs \<Longrightarrow> ok n r) \<Longrightarrow> keeps J (StateStore_Reset rs)"
  unfolding StateStore_Reset_def
  by (induction rs) (auto intro!: keep_dret keep_dbind release)

lemma keep_gather_loop: "(\<And>st. st \<in> set sts \<Longrightarrow> keeps J (f st)) \<Longrightarrow> keeps J (gather_loop f sts)"
  by (induction sts) (auto intro!: keep_dret keep_dbind)

lemma keep_extract_gather_one: "ok n (p_receipt st) \<Longrightarrow> keeps J (extract_gather_one st)"
  unfolding extract_gather_one_def Let_def
  by (intro keep_flow keep_skip park keep_quiet quiet_ops)

lemma keep_extract_apply: "ok ''receipt-extract'' r \<Longrightarrow> keeps J (extract_apply d r out err)"
  unfolding extract_apply_def decideExtract_def NextStage_def
  by (cases "ParseExtract (bd_extract d) out") (auto intro!: keep_option park save_extract)

lemmas keep_candidates = quiet_candidates [THEN keep_quiet]

lemma keep_skip_vendor: "ok ''receipt-vendor'' r \<Longrightarrow> keeps J (skip (SaveVendorAndAdvance r j (NextStage ''vendor'')))"
  using save_vendor by (simp add: NextStage_def keep_skip)

lemma keep_vendor_gather_one: "ok ''receipt-vendor'' (p_receipt st) \<Longrightarrow> keeps J (vendor_gather_one d st)"
  unfolding vendor_gather_one_def Let_def
  by (intro keep_sum keep_option keep_if keep_dbind keep_dret keep_skip_vendor keep_candidates)

lemma keep_vendor_apply: "ok ''receipt-vendor'' r \<Longrightarrow> keeps J (vendor_apply d r out err)"
  unfolding vendor_apply_def decideVendor_def NextStage_def
  by (cases "ParseVendorMatch (bd_vendor d) out")
     (auto intro!: keep_option keep_dbind [OF keep_candidates(2)] park save_vendor)

lemma keep_finalize: "ok ''receipt-classify'' r \<Longrightarrow> keeps J (finalize d r rcpt ex j a c w)"
  unfolding finalize_def finish_receipt_def Let_def
  by (intro keep_sum keep_if keep_dbind keep_dret keep_dtry park save_classify keep_quiet quiet_ops; assumption?)

lemma keep_Reset_one: "ok n r \<Longrightarrow> keeps J (StateStore_Reset [r])"
  by (rule keep_Reset [of _ n]) simp

lemma keep_classify_gather_one: "ok ''receipt-classify'' (p_receipt st) \<Longrightarrow> keeps J (classify_gather_one d st)"
  unfolding classify_gather_one_def
  by (intro keep_sum keep_if keep_dbind keep_dret keep_dtry keep_skip park keep_Reset_one keep_finalize keep_quiet quiet_ops; assumption?)

lemma keep_classify_apply: "ok ''receipt-classify'' r \<Longrightarrow> keeps J (classify_apply d r out err)"
  unfolding classify_apply_def
  by (intro keep_option keep_sum keep_if keep_dbind park keep_finalize keep_quiet quiet_ops; assumption?)

lemma keep_kind_apply:
  "k \<in> set (Kinds d) \<Longrightarrow> ok (k_name k) r \<Longrightarrow> keeps J (k_apply k r out err)"
  by (auto simp: Kinds_def extractKind_def vendorKind_def classifyKind_def keep_extract_apply keep_vendor_apply keep_classify_apply)

lemma keep_kind_reset:
  assumes "k \<in> set (Kinds d)" "\<And>r. r \<in> set rs \<Longrightarrow> ok (k_name k) r"
  shows "keeps J (k_reset k rs)"
proof -
  have "k_reset k = StateStore_Reset" using assms(1)
    by (auto simp: Kinds_def extractKind_def vendorKind_def classifyKind_def)
  then show ?thesis using keep_Reset [OF assms(2)] by simp
qed

end

text \<open>All three kinds gather alike: they lease the receipts of their stage and turn each into a request or skip it.\<close>

definition yields_own :: "(pstate \<Rightarrow> item option dbm) \<Rightarrow> bool" where
  "yields_own f \<longleftrightarrow> (\<forall>st s i s'. f st s = (Inr (Some i), s') \<longrightarrow> it_ref i = p_receipt st)"

lemma skip_none: "skip m s \<noteq> (Inr (Some i), s')"
  by (auto simp: skip_def db_simps)

lemma stage_item_ref [simp]: "it_ref (stage_item r q) = r"
  by (simp add: stage_item_def split: prod.splits)

lemma yields_own_kinds: "yields_own extract_gather_one" "yields_own (vendor_gather_one d)" "yields_own (classify_gather_one d)"
proof -
  show "yields_own extract_gather_one"
    unfolding yields_own_def extract_gather_one_def Let_def by (auto simp: db_simps skip_none split: if_splits)
  show "yields_own (vendor_gather_one d)"
    unfolding yields_own_def vendor_gather_one_def Let_def
    by (auto simp: db_simps skip_none split: if_splits sum.splits option.splits)
  have "it_ref i = p_receipt st" if "classify_gather_one d st s = (Inr (Some i), s')" for st s i s'
  proof (cases "ParseExtract (bd_extract d) (strOf (p_extract st))")
    case (Inl e)
    then show ?thesis using that by (simp add: classify_gather_one_def skip_none)
  next
    case (Inr ex)
    define g where "g = (\<lambda>r :: db_error + receipt. case r of
            Inl _ \<Rightarrow> skip (StateStore_Reset [p_receipt st])
          | Inr receipt \<Rightarrow>
              dbind (vendorDefaultAccount d (p_vendor st)) (\<lambda>acct.
              if acct \<noteq> [] then skip (finalize d (p_receipt st) receipt ex (p_vendor st) acct 1 ''vendor default account'')
              else dbind (accountRefs (r_entity receipt)) (\<lambda>accts.
                dret (Some (stage_item (p_receipt st) (BuildClassifyRequest ex accts))))))"
    have "classify_gather_one d st = dbind (dtry (ReceiptStore_GetByID (p_receipt st))) g"
      by (simp add: classify_gather_one_def Inr g_def)
    from that [unfolded this dbind_Inr] obtain r s1 where "g r s1 = (Inr (Some i), s')"
      by blast
    then show ?thesis by (cases r) (auto simp: g_def db_simps skip_none split: if_splits)
  qed
  then show "yields_own (classify_gather_one d)" by (auto simp: yields_own_def)
qed

lemma gather_loop_refs:
  "yields_own f \<Longrightarrow> gather_loop f sts s = (Inr items, s') \<Longrightarrow> it_ref ` set items \<subseteq> p_receipt ` set sts"
proof (induction sts arbitrary: s items)
  case (Cons st sts)
  then obtain r s1 items' where 1: "f st s = (Inr r, s1)" and 2: "gather_loop f sts s1 = (Inr items', s')"
    and items: "items = (case r of None \<Rightarrow> items' | Some i \<Rightarrow> i # items')"
    by (auto simp: db_simps)
  have "\<forall>i. r = Some i \<longrightarrow> it_ref i = p_receipt st" using Cons.prems(1) 1 by (auto simp: yields_own_def)
  then show ?case using Cons.IH [OF Cons.prems(1) 2] by (auto simp: items split: option.splits)
qed (simp add: db_simps)

lemma kind_gathers:
  assumes "k \<in> set (Kinds d)"
  obtains stage f where "k_gather k = dbind (StateStore_ClaimPending stage (deps_limit d)) (gather_loop f)"
    "k_name k = KindForStage stage" "stage \<in> {''extract'', ''vendor'', ''classify''}" "yields_own f"
    "\<And>J ok st. receipt_steps J d ok \<Longrightarrow> ok (k_name k) (p_receipt st) \<Longrightarrow> keeps J (f st)"
proof -
  consider "k = extractKind d" | "k = vendorKind d" | "k = classifyKind d" using assms by (auto simp: Kinds_def)
  then show thesis
  proof cases
    case 1
    show thesis
      by (rule that [of "''extract''" extract_gather_one])
        (auto simp: 1 extractKind_def extract_gather_def KindForStage_def yields_own_kinds
          intro: receipt_steps.keep_extract_gather_one)
  next
    case 2
    show thesis
      by (rule that [of "''vendor''" "vendor_gather_one d"])
        (auto simp: 2 vendorKind_def vendor_gather_def KindForStage_def yields_own_kinds
          intro: receipt_steps.keep_vendor_gather_one)
  next
    case 3
    show thesis
      by (rule that [of "''classify''" "classify_gather_one d"])
        (auto simp: 3 classifyKind_def classify_gather_def KindForStage_def yields_own_kinds
          intro: receipt_steps.keep_classify_gather_one)
  qed
qed

text \<open>A gathering that leased the receipts \<open>sts\<close> and may touch them keeps \<open>J\<close>, if leasing does.\<close>

lemma gather_keeps:
  assumes "receipt_steps J d ok" "k_gather k = dbind (StateStore_ClaimPending stage n) (gather_loop f)"
    "\<And>st. ok (k_name k) (p_receipt st) \<Longrightarrow> keeps J (f st)" "yields_own f" "J s"
    "\<And>sts t. StateStore_ClaimPending stage n s = (Inr sts, t) \<Longrightarrow> J t \<and> (\<forall>st\<in>set sts. ok (k_name k) (p_receipt st))"
    "k_gather k s = (r, s')"
  shows "J s' \<and> (\<forall>items. r = Inr items \<longrightarrow> (\<forall>q\<in>it_ref ` set items. ok (k_name k) q))"
proof -
  obtain c t where c: "StateStore_ClaimPending stage n s = (c, t)" by (cases "StateStore_ClaimPending stage n s")
  show ?thesis
  proof (cases c)
    case (Inl e)
    have "outside t = outside s" using c unfolding Inl StateStore_ClaimPending_def
      by (intro outside_tables) (rule stmt_Inl_tables)
    then have "J t" using receipt_steps.outside_only [OF assms(1), of t s] assms(5) by simp
    then show ?thesis using assms(7) c Inl by (auto simp: assms(2) dbind_def)
  next
    case (Inr sts)
    have J: "J t" and ok: "\<forall>st\<in>set sts. ok (k_name k) (p_receipt st)" using assms(6) c Inr by auto
    have g: "gather_loop f sts t = (r, s')" using assms(7) c Inr by (simp add: assms(2) dbind_def)
    have "keeps J (gather_loop f sts)"
      by (rule receipt_steps.keep_gather_loop [OF assms(1) assms(3)]) (use ok in blast)
    from receipt_steps.keeps_state [OF assms(1) this J g] have "J s'" .
    moreover have "\<forall>items. r = Inr items \<longrightarrow> (\<forall>q\<in>it_ref ` set items. ok (k_name k) q)"
    proof (intro allI impI)
      fix items assume r: "r = Inr items"
      have "it_ref ` set items \<subseteq> p_receipt ` set sts" by (rule gather_loop_refs [OF assms(4) g [unfolded r]])
      then show "\<forall>q\<in>it_ref ` set items. ok (k_name k) q" using ok by auto
    qed
    ultimately show ?thesis by (rule conjI)
  qed
qed

section \<open>Only gated extractions advance\<close>

text \<open>\<open>json.Marshal\<close> of what \<open>json.Unmarshal\<close> returned is read back as the same value.\<close>

definition json_ok :: "batch_deps \<Rightarrow> bool" where
  "json_ok d \<longleftrightarrow> (\<forall>raw x. ParseExtract (bd_extract d) raw = Inr x \<longrightarrow>
     ParseExtract (bd_extract d) (mustJSON (bd_put_extract d x)) = Inr x)"

definition gated_row :: "batch_deps \<Rightarrow> pstate_row \<Rightarrow> bool" where
  "gated_row d r \<longleftrightarrow> (\<exists>x. ParseExtract (bd_extract d) (strOf (ps_extract_json r)) = Inr x \<and> o_advance (GateExtract x))"

definition past_ok :: "batch_deps \<Rightarrow> pstate_row \<Rightarrow> bool" where
  "past_ok d r \<longleftrightarrow> ps_stage r = ''extract'' \<or> ps_stage r = ''review'' \<or> gated_row d r"

definition has_gated :: "batch_deps \<Rightarrow> string \<Rightarrow> db \<Rightarrow> bool" where
  "has_gated d q s \<longleftrightarrow> (\<forall>r\<in>set (db_pstates s). ps_receipt r = q \<longrightarrow> gated_row d r)"

definition later_kind :: "string \<Rightarrow> bool" where
  "later_kind n \<longleftrightarrow> n = ''receipt-vendor'' \<or> n = ''receipt-classify''"

definition posted_view :: "db \<Rightarrow> tx_row list \<times> entry_row list \<times> int option list" where
  "posted_view s = (db_txs s, db_entries s, map rc_attached (db_receipts s))"

definition row_grows :: "batch_deps \<Rightarrow> pstate_row \<Rightarrow> pstate_row \<Rightarrow> bool" where
  "row_grows d r r' \<longleftrightarrow> ps_receipt r' = ps_receipt r \<and> (gated_row d r \<longrightarrow> gated_row d r') \<and> (past_ok d r \<longrightarrow> past_ok d r')"

definition grow :: "batch_deps \<Rightarrow> db \<Rightarrow> db \<Rightarrow> bool" where
  "grow d s s' \<longleftrightarrow> posted_view s' = posted_view s \<and> same_batches s s' \<and>
     map ps_receipt (db_pstates s') = map ps_receipt (db_pstates s) \<and>
     (json_ok d \<longrightarrow> list_all2 (row_grows d) (db_pstates s) (db_pstates s'))"

definition may_touch :: "batch_deps \<Rightarrow> db \<Rightarrow> string \<Rightarrow> string \<Rightarrow> bool" where
  "may_touch d s n q \<longleftrightarrow> (json_ok d \<longrightarrow> later_kind n \<longrightarrow> has_gated d q s)"

lemma grow_outside: "outside s = outside s' \<Longrightarrow> grow d s0 s = grow d s0 s'"
  by (simp add: grow_def outside_def posted_view_def same_batches_def)

lemma row_grows_refl [simp]: "row_grows d r r"
  by (simp add: row_grows_def)

lemma grow_refl [simp]: "grow d s s"
  by (simp add: grow_def same_batches_def list_all2_same)

lemma row_grows_trans: "row_grows d r r' \<Longrightarrow> row_grows d r' r'' \<Longrightarrow> row_grows d r r''"
  by (auto simp: row_grows_def)

text \<open>An update of the rows of one receipt.\<close>

lemma grow_update:
  assumes "grow d s0 s" "\<And>r. ps_receipt (f r) = ps_receipt r"
    "\<And>r0 r. json_ok d \<Longrightarrow> r0 \<in> set (db_pstates s0) \<Longrightarrow> ps_receipt r = i \<Longrightarrow> row_grows d r0 r \<Longrightarrow> row_grows d r0 (f r)"
  shows "grow d s0 (update_pstate i f s)"
proof -
  have m: "map ps_receipt (map (\<lambda>r. if ps_receipt r = i then f r else r) rs) = map ps_receipt rs" for rs
    using assms(2) by (induction rs) auto
  have "list_all2 (row_grows d) (db_pstates s0) (map (\<lambda>r. if ps_receipt r = i then f r else r) (db_pstates s))" if "json_ok d"
    unfolding list_all2_map2
    by (rule list.rel_mono_strong [of "row_grows d"])
      (use assms(1,3) that in \<open>auto simp: grow_def\<close>)
  then show ?thesis
    using assms(1) by (simp add: grow_def update_pstate_def posted_view_def same_batches_def m del: map_map)
qed

lemma keep_update_pstate:
  assumes "\<And>n r. ps_receipt (f n r) = ps_receipt r"
    "\<And>n r0 r. json_ok d \<Longrightarrow> r0 \<in> set (db_pstates s0) \<Longrightarrow> ps_receipt r = i \<Longrightarrow> row_grows d r0 r \<Longrightarrow> row_grows d r0 (f n r)"
  shows "keeps (grow d s0) (stmt (\<lambda>s. (Inr (), update_pstate i (f (db_now s)) s)))"
proof -
  have inv: "table_invariant (grow d s0)"
    by unfold_locales (rule grow_outside, simp add: outside_tables)
  show ?thesis
    by (rule table_invariant.keep_stmt [OF inv]) (auto intro: grow_update assms)
qed

lemma keep_advance:
  assumes "\<And>r. ps_receipt (put r) = ps_receipt r"
    "\<And>r0 r. json_ok d \<Longrightarrow> r0 \<in> set (db_pstates s0) \<Longrightarrow> ps_receipt r = i \<Longrightarrow> row_grows d r0 r \<Longrightarrow> gated_row d (put r)"
  shows "keeps (grow d s0) (StateStore_advance i put next)"
proof -
  have inv: "table_invariant (grow d s0)"
    by unfold_locales (rule grow_outside, simp add: outside_tables)
  have g: "gated_row d (advance_row put next n r) = gated_row d (put r)" for n r
    by (simp add: gated_row_def advance_row_def)
  have "grow d s0 (update_pstate i (advance_row put next n) s)" if "grow d s0 s" for s n
    by (rule grow_update [OF that])
      (use assms in \<open>auto simp: advance_row_def row_grows_def past_ok_def g [unfolded advance_row_def]\<close>)
  then show ?thesis
    unfolding StateStore_advance_def by (intro table_invariant.keep_stmt [OF inv]) (auto split: if_splits)
qed

interpretation growing: receipt_steps "grow d s0" d "may_touch d s0" for d s0
proof unfold_locales
  show "grow d s0 s = grow d s0 s'" if "outside s = outside s'" for s s'
    by (rule grow_outside [OF that])
  show "keeps (grow d s0) (StateStore_Park r f i)" for r f i
    unfolding StateStore_Park_def
    by (rule keep_update_pstate) (auto simp: park_row_def row_grows_def past_ok_def gated_row_def)
  show "keeps (grow d s0) (stmt (\<lambda>s. (Inr (), update_pstate r (release_row (db_now s)) s)))" for r
    by (rule keep_update_pstate) (auto simp: release_row_def row_grows_def past_ok_def gated_row_def)
  show "keeps (grow d s0) (SaveExtractAndAdvance r (Some (mustJSON (bd_put_extract d x))) ''vendor'')"
    if "ParseExtract (bd_extract d) raw = Inr x" "o_advance (GateExtract x)" for r raw x
    unfolding SaveExtractAndAdvance_def
    by (rule keep_advance) (use that in \<open>auto simp: gated_row_def json_ok_def strOf_def\<close>)
  have gated: "gated_row d q" if "may_touch d s0 n i" "later_kind n" "json_ok d" "r0 \<in> set (db_pstates s0)" "ps_receipt q = i"
    "row_grows d r0 q" for n i r0 q
    using that by (auto simp: may_touch_def has_gated_def row_grows_def)
  show "keeps (grow d s0) (SaveVendorAndAdvance r j ''classify'')" if "may_touch d s0 ''receipt-vendor'' r" for r j
    unfolding SaveVendorAndAdvance_def
    by (rule keep_advance) (use gated [OF that] in \<open>auto simp: later_kind_def gated_row_def\<close>)
  show "keeps (grow d s0) (SaveClassifyAndFinish r j)" if "may_touch d s0 ''receipt-classify'' r" for r j
    unfolding SaveClassifyAndFinish_def
    by (rule keep_advance) (use gated [OF that] in \<open>auto simp: later_kind_def gated_row_def\<close>)
qed

text \<open>Leasing the receipts of a later stage finds gated rows only.\<close>

definition batch_wf :: "db \<Rightarrow> bool" where
  "batch_wf s \<longleftrightarrow> distinct (map bj_id (db_batch_jobs s)) \<and> bi_job ` set (db_batch_items s) \<subseteq> bj_id ` set (db_batch_jobs s) \<and>
     distinct (map ps_receipt (db_pstates s))"

definition items_gated :: "batch_deps \<Rightarrow> db \<Rightarrow> bool" where
  "items_gated d s \<longleftrightarrow> (\<forall>job\<in>set (db_batch_jobs s). \<forall>it\<in>set (db_batch_items s).
     bi_job it = bj_id job \<and> bj_status job = ''submitted'' \<and> later_kind (bj_kind job) \<longrightarrow> has_gated d (bi_ref it) s)"

definition gate_held :: "batch_deps \<Rightarrow> db \<Rightarrow> bool" where
  "gate_held d s \<longleftrightarrow> (\<forall>r\<in>set (db_pstates s). past_ok d r) \<and> items_gated d s"

definition batch_safe :: "batch_deps \<Rightarrow> db \<Rightarrow> bool" where
  "batch_safe d s \<longleftrightarrow> batch_wf s \<and> gate_held d s"

definition batch_inv :: "batch_deps \<Rightarrow> tx_row list \<times> entry_row list \<times> int option list \<Rightarrow> db \<Rightarrow> bool" where
  "batch_inv d v s \<longleftrightarrow> posted_view s = v \<and> batch_wf s \<and> (json_ok d \<longrightarrow> gate_held d s)"

lemma grow_back:
  assumes "grow d s s'" "json_ok d" "r' \<in> set (db_pstates s')"
  obtains r where "r \<in> set (db_pstates s)" "row_grows d r r'"
proof -
  have "list_all2 (row_grows d) (db_pstates s) (db_pstates s')" using assms(1,2) by (simp add: grow_def)
  then show thesis using assms(3) that unfolding list_all2_conv_all_nth in_set_conv_nth by metis
qed

lemma grow_has_gated:
  assumes "grow d s s'" "json_ok d" "has_gated d q s"
  shows "has_gated d q s'"
  unfolding has_gated_def
proof (intro ballI impI)
  fix r' assume r': "r' \<in> set (db_pstates s')" "ps_receipt r' = q"
  obtain r where "r \<in> set (db_pstates s)" "row_grows d r r'" by (rule grow_back [OF assms(1,2) r'(1)])
  then show "gated_row d r'" using assms(3) r'(2) by (auto simp: row_grows_def has_gated_def)
qed

lemma grow_may_touch: "grow d s s' \<Longrightarrow> may_touch d s n q \<Longrightarrow> may_touch d s' n q"
  unfolding may_touch_def using grow_has_gated by blast

lemma grow_past_ok:
  assumes "grow d s s'" "json_ok d" "\<forall>r\<in>set (db_pstates s). past_ok d r"
  shows "\<forall>r\<in>set (db_pstates s'). past_ok d r"
proof
  fix r' assume r': "r' \<in> set (db_pstates s')"
  obtain r where "r \<in> set (db_pstates s)" "row_grows d r r'" by (rule grow_back [OF assms(1,2) r'])
  then show "past_ok d r'" using assms(3) by (auto simp: row_grows_def)
qed

lemma grow_inv:
  assumes "grow d s s'" "batch_inv d v s"
  shows "batch_inv d v s'"
proof -
  have g: "posted_view s' = posted_view s" "db_batch_jobs s' = db_batch_jobs s" "db_batch_items s' = db_batch_items s"
    "map ps_receipt (db_pstates s') = map ps_receipt (db_pstates s)"
    using assms(1) by (auto simp: grow_def same_batches_def)
  have "gate_held d s'" if j: "json_ok d"
  proof -
    have h: "gate_held d s" using assms(2) j by (simp add: batch_inv_def)
    have "items_gated d s'"
      using h grow_has_gated [OF assms(1) j] by (auto simp: gate_held_def items_gated_def g)
    moreover have "\<forall>r\<in>set (db_pstates s'). past_ok d r"
      using grow_past_ok [OF assms(1) j] h by (simp add: gate_held_def)
    ultimately show ?thesis by (simp add: gate_held_def)
  qed
  then show ?thesis using assms(2) by (simp add: batch_inv_def batch_wf_def g)
qed

text \<open>A lease changes no stage and no extraction, and the receipts it returns are those of the stage.\<close>

lemma claim_grow:
  assumes "StateStore_ClaimPending stage n s = (Inr sts, t)" "batch_wf s"
    "json_ok d \<Longrightarrow> \<forall>r\<in>set (db_pstates s). past_ok d r"
  shows "grow d s t \<and> (\<forall>st\<in>set sts. may_touch d s (KindForStage stage) (p_receipt st))"
proof -
  define hit where "hit = (\<lambda>r :: pstate_row. ps_receipt r \<in> set (to_claim stage n (db_pstates s)))"
  have sts: "sts = map (\<lambda>r. toState (lease_row (db_now s) r)) (filter hit (db_pstates s))"
    and t: "db_pstates t = map (\<lambda>r. if hit r then lease_row (db_now s) r else r) (db_pstates s)"
    and rest: "posted_view t = posted_view s" "same_batches s t"
    using assms(1) by (auto simp: StateStore_ClaimPending_def stmt_Inr hit_def posted_view_def same_batches_def Let_def)
  have l: "row_grows d r (lease_row now r)" "ps_receipt (lease_row now r) = ps_receipt r" for r now
    by (simp_all add: row_grows_def lease_row_def past_ok_def gated_row_def)
  have m: "map ps_receipt (db_pstates t) = map ps_receipt (db_pstates s)"
    by (simp add: t l)
  have "list_all2 (row_grows d) (db_pstates s) (db_pstates t)"
    unfolding t list_all2_map2 by (rule list_all2_refl) (simp add: l)
  then have "grow d s t" using rest m by (simp add: grow_def)
  moreover have "may_touch d s (KindForStage stage) (p_receipt st)" if st: "st \<in> set sts" for st
    unfolding may_touch_def
  proof (intro impI)
    assume j: "json_ok d" and later: "later_kind (KindForStage stage)"
    obtain r where r: "r \<in> set (db_pstates s)" "hit r" "p_receipt st = ps_receipt r"
      using st by (auto simp: sts toState_def l)
    then obtain r' where r': "r' \<in> set (db_pstates s)" "ps_receipt r' = ps_receipt r" "ps_stage r' = stage"
      by (auto simp: hit_def to_claim_def dest!: in_set_takeD)
    have stage: "stage \<noteq> ''extract''" "stage \<noteq> ''review''" using later by (auto simp: later_kind_def KindForStage_def split: if_splits)
    show "has_gated d (p_receipt st) s"
      unfolding has_gated_def
    proof (intro ballI impI)
      fix q assume q: "q \<in> set (db_pstates s)" "ps_receipt q = p_receipt st"
      have inj: "inj_on ps_receipt (set (db_pstates s))" using assms(2) by (simp add: batch_wf_def distinct_map)
      have "q = r'" by (rule inj_onD [OF inj]) (use q r' r(3) in auto)
      then show "gated_row d q" using assms(3) [OF j] r' stage by (auto simp: past_ok_def)
    qed
  qed
  ultimately show ?thesis by blast
qed

lemma gather_grow:
  assumes "k \<in> set (Kinds d)" "batch_inv d v s" "k_gather k s = (r, s')"
  shows "grow d s s' \<and> (\<forall>items. r = Inr items \<longrightarrow> (\<forall>q\<in>it_ref ` set items. may_touch d s (k_name k) q))"
proof (rule kind_gathers [OF assms(1)])
  fix stage f
  assume k: "k_gather k = dbind (StateStore_ClaimPending stage (deps_limit d)) (gather_loop f)"
    "k_name k = KindForStage stage" "yields_own f"
    "\<And>J ok st. receipt_steps J d ok \<Longrightarrow> ok (k_name k) (p_receipt st) \<Longrightarrow> keeps J (f st)"
  show ?thesis
  proof (rule gather_keeps [OF growing.receipt_steps_axioms k(1) _ k(3) _ _ assms(3)])
    show "keeps (grow d s) (f st)" if "may_touch d s (k_name k) (p_receipt st)" for st
      by (rule k(4) [OF growing.receipt_steps_axioms that])
    show "grow d s t \<and> (\<forall>st\<in>set sts. may_touch d s (k_name k) (p_receipt st))"
      if "StateStore_ClaimPending stage (deps_limit d) s = (Inr sts, t)" for sts t
      unfolding k(2) by (rule claim_grow [OF that]) (use assms(2) in \<open>auto simp: batch_inv_def gate_held_def\<close>)
  qed simp
qed

section \<open>Recording and closing batches\<close>

text \<open>The frames of the batch store: what recording and closing a batch leaves alone.\<close>

definition batches_only :: "db \<Rightarrow> db \<Rightarrow> bool" where
  "batches_only s s' \<longleftrightarrow> posted_view s' = posted_view s \<and> db_pstates s' = db_pstates s"

lemma batches_only_tables: "same_tables s s' \<Longrightarrow> batches_only s0 s' = batches_only s0 s"
  by (simp add: batches_only_def posted_view_def same_tables_fields)

interpretation recording: table_invariant "batches_only s0" for s0
  by unfold_locales (rule batches_only_tables)

lemma batches_only_CreateJob: "AIBatchStore_CreateJob spec s = (r, s') \<Longrightarrow> batches_only s s'"
proof -
  have "keeps (batches_only s0) (AIBatchStore_CreateJob spec)" for s0
    unfolding AIBatchStore_CreateJob_def insert_batch_job_def insert_batch_item_def
    by (intro recording.keep_transact recording.keep_dbind recording.keep_dfor recording.keep_stmt)
      (auto simp: Let_def batches_only_def posted_view_def split: if_splits)
  then show "AIBatchStore_CreateJob spec s = (r, s') \<Longrightarrow> batches_only s s'"
    using recording.keepsD by (fastforce simp: batches_only_def)
qed

text \<open>A job that was recorded: its items refer to the given work.\<close>

lemma insert_items:
  assumes "dfor its (insert_batch_item jobID) s = (Inr (), s')"
  shows "db_batch_jobs s' = db_batch_jobs s \<and> (\<exists>new. db_batch_items s' = db_batch_items s @ new \<and>
    (\<forall>it\<in>set new. bi_job it = jobID \<and> bi_ref it \<in> ji_ref ` set its) \<and> (new \<noteq> [] \<longrightarrow> jobID \<in> bj_id ` set (db_batch_jobs s)))"
  using assms
proof (induction its arbitrary: s)
  case Nil
  then show ?case by (simp add: db_simps)
next
  case (Cons it its)
  then obtain t where 1: "insert_batch_item jobID it s = (Inr (), t)" and 2: "dfor its (insert_batch_item jobID) t = (Inr (), s')"
    by (auto simp: db_simps)
  obtain row where t: "db_batch_jobs t = db_batch_jobs s" "db_batch_items t = db_batch_items s @ [row]"
    "bi_job row = jobID" "bi_ref row = ji_ref it" "jobID \<in> bj_id ` set (db_batch_jobs s)"
    using 1 by (auto simp: insert_batch_item_def stmt_Inr Let_def split: if_splits)
  obtain new where "db_batch_items s' = db_batch_items t @ new" "\<forall>i\<in>set new. bi_job i = jobID \<and> bi_ref i \<in> ji_ref ` set its"
    using Cons.IH [OF 2] by blast
  then show ?case using t Cons.IH [OF 2] by (intro conjI exI [of _ "row # new"]) auto
qed

lemma CreateJob_effect:
  assumes "AIBatchStore_CreateJob spec s = (r, s')"
  shows "same_batches s s' \<or> (\<exists>job new. db_batch_jobs s' = db_batch_jobs s @ [job] \<and> bj_kind job = sp_kind spec \<and>
    bj_status job = ''submitted'' \<and> bj_id job \<notin> bj_id ` set (db_batch_jobs s) \<and> db_batch_items s' = db_batch_items s @ new \<and>
    (\<forall>it\<in>set new. bi_job it = bj_id job \<and> bi_ref it \<in> ji_ref ` set (sp_items spec)))"
proof (cases r)
  case (Inl e)
  then have "same_tables s s'" using assms transact_Inl by (auto simp: AIBatchStore_CreateJob_def)
  then show ?thesis by (simp add: same_batches_def same_tables_fields)
next
  case (Inr u)
  obtain s1 s2 where t: "same_tables s s1" "same_tables s2 s'"
    and b: "dbind (insert_batch_job spec) (\<lambda>jobID. dfor (sp_items spec) (insert_batch_item jobID)) s1 = (Inr (), s2)"
    using transact_Inr [OF assms [unfolded Inr AIBatchStore_CreateJob_def]] by auto
  obtain i s3 where j: "insert_batch_job spec s1 = (Inr i, s3)" and f: "dfor (sp_items spec) (insert_batch_item i) s3 = (Inr (), s2)"
    using b by (auto simp: db_simps)
  obtain job where job: "db_batch_jobs s3 = db_batch_jobs s1 @ [job]" "db_batch_items s3 = db_batch_items s1" "bj_id job = i"
    "bj_kind job = sp_kind spec" "bj_status job = ''submitted''" "i \<notin> bj_id ` set (db_batch_jobs s1)"
    using j by (auto simp: insert_batch_job_def stmt_Inr Let_def split: if_splits)
  show ?thesis using insert_items [OF f] job t by (auto simp: same_tables_fields)
qed

lemma MarkItem_effect:
  assumes "AIBatchStore_MarkItem j c st m s = (r, s')"
  shows "batches_only s s' \<and> db_batch_jobs s' = db_batch_jobs s \<and>
    map (\<lambda>it. (bi_job it, bi_ref it)) (db_batch_items s') = map (\<lambda>it. (bi_job it, bi_ref it)) (db_batch_items s)"
  using assms unfolding AIBatchStore_MarkItem_def
  by (auto simp: stmt_def Let_def batches_only_def posted_view_def split: if_splits)

lemma MarkJob_effect:
  assumes "AIBatchStore_MarkJob j st m s = (r, s')"
  shows "batches_only s s' \<and> db_batch_items s' = db_batch_items s \<and>
    map (\<lambda>b. (bj_id b, bj_kind b)) (db_batch_jobs s') = map (\<lambda>b. (bj_id b, bj_kind b)) (db_batch_jobs s) \<and>
    (st \<noteq> ''submitted'' \<longrightarrow> (\<forall>b\<in>set (db_batch_jobs s'). bj_status b = ''submitted'' \<longrightarrow> b \<in> set (db_batch_jobs s)))"
  using assms unfolding AIBatchStore_MarkJob_def
  by (auto simp: stmt_def Let_def batches_only_def posted_view_def mark_job_row_def split: if_splits)

text \<open>The batch tables are well formed and the items of the open jobs have \<open>P\<close>: kept by every operation of the store.\<close>

definition listed_ok :: "(string \<Rightarrow> string \<Rightarrow> bool) \<Rightarrow> db \<Rightarrow> bool" where
  "listed_ok P s \<longleftrightarrow> distinct (map bj_id (db_batch_jobs s)) \<and> bi_job ` set (db_batch_items s) \<subseteq> bj_id ` set (db_batch_jobs s) \<and>
     (\<forall>job\<in>set (db_batch_jobs s). \<forall>it\<in>set (db_batch_items s).
        bj_status job = ''submitted'' \<longrightarrow> bi_job it = bj_id job \<longrightarrow> P (bj_kind job) (bi_ref it))"

lemma listed_same: "same_batches s s' \<Longrightarrow> listed_ok P s' = listed_ok P s"
  by (simp add: listed_ok_def same_batches_def)

lemma create_listed:
  assumes "listed_ok P s" "\<forall>q\<in>ji_ref ` set (sp_items spec). P (sp_kind spec) q" "AIBatchStore_CreateJob spec s = (r, s')"
  shows "listed_ok P s'"
  using CreateJob_effect [OF assms(3)]
proof (elim disjE exE conjE)
  assume "same_batches s s'"
  then show ?thesis using assms(1) listed_same by blast
next
  fix job new
  assume j: "db_batch_jobs s' = db_batch_jobs s @ [job]" "bj_kind job = sp_kind spec" "bj_status job = ''submitted''"
    "bj_id job \<notin> bj_id ` set (db_batch_jobs s)" "db_batch_items s' = db_batch_items s @ new"
    "\<forall>it\<in>set new. bi_job it = bj_id job \<and> bi_ref it \<in> ji_ref ` set (sp_items spec)"
  have wf: "distinct (map bj_id (db_batch_jobs s))" "bi_job ` set (db_batch_items s) \<subseteq> bj_id ` set (db_batch_jobs s)"
    using assms(1) by (auto simp: listed_ok_def)
  have "P (bj_kind b) (bi_ref it)"
    if b: "b \<in> set (db_batch_jobs s')" "it \<in> set (db_batch_items s')" "bj_status b = ''submitted''" "bi_job it = bj_id b" for b it
  proof (cases "it \<in> set new")
    case True
    then have "bj_id b = bj_id job" using j(6) b(4) by auto
    then have "b \<notin> set (db_batch_jobs s)" using j(4) by (metis imageI)
    then have "b = job" using b(1) j(1) by auto
    then show ?thesis using True j(2,6) assms(2) by auto
  next
    case False
    then have it: "it \<in> set (db_batch_items s)" using b(2) j(5) by auto
    then have "bi_job it \<in> bj_id ` set (db_batch_jobs s)" using wf(2) by blast
    then have "b \<in> set (db_batch_jobs s)" using j(1,4) b(1,4) by auto
    then show ?thesis using assms(1) it b(3,4) by (simp add: listed_ok_def)
  qed
  then show ?thesis using wf j by (auto simp: listed_ok_def)
qed

lemma mark_item_listed:
  assumes "listed_ok P s" "AIBatchStore_MarkItem j c st m s = (r, s')"
  shows "listed_ok P s'"
proof -
  note e = MarkItem_effect [OF assms(2)]
  let ?f = "\<lambda>it. (bi_job it, bi_ref it)"
  have "map ?f (db_batch_items s') = map ?f (db_batch_items s)" using e by blast
  from arg_cong [OF this, of set] have m: "?f ` set (db_batch_items s') = ?f ` set (db_batch_items s)"
    by simp
  have old: "\<exists>it'\<in>set (db_batch_items s). bi_job it' = bi_job it \<and> bi_ref it' = bi_ref it" if "it \<in> set (db_batch_items s')" for it
  proof -
    have "?f it \<in> ?f ` set (db_batch_items s)" using that m by blast
    then show ?thesis by auto
  qed
  have "bi_job ` set (db_batch_items s') = fst ` ?f ` set (db_batch_items s')" by (simp add: image_image)
  then have "bi_job ` set (db_batch_items s') = bi_job ` set (db_batch_items s)" unfolding m by (simp add: image_image)
  moreover have "P (bj_kind b) (bi_ref it)"
    if h: "b \<in> set (db_batch_jobs s')" "it \<in> set (db_batch_items s')" "bj_status b = ''submitted''" "bi_job it = bj_id b" for b it
  proof -
    obtain it' where "it' \<in> set (db_batch_items s)" "bi_job it' = bi_job it" "bi_ref it' = bi_ref it"
      using old [OF h(2)] by blast
    then show ?thesis using assms(1) h(1,3,4) e unfolding listed_ok_def by metis
  qed
  ultimately show ?thesis using assms(1) e by (auto simp: listed_ok_def)
qed

lemma mark_job_listed:
  assumes "listed_ok P s" "st \<noteq> ''submitted''" "AIBatchStore_MarkJob j st m s = (r, s')"
  shows "listed_ok P s'"
proof -
  note e = MarkJob_effect [OF assms(3)]
  have "map fst (map (\<lambda>b. (bj_id b, bj_kind b)) (db_batch_jobs s')) = map fst (map (\<lambda>b. (bj_id b, bj_kind b)) (db_batch_jobs s))"
    using e by simp
  then have ids: "map bj_id (db_batch_jobs s') = map bj_id (db_batch_jobs s)" by (simp add: comp_def)
  then have "bj_id ` set (db_batch_jobs s') = bj_id ` set (db_batch_jobs s)" by (metis list.set_map)
  then show ?thesis using assms(1,2) e ids by (simp add: listed_ok_def)
qed

lemma batch_inv_eq:
  "batch_inv d v s \<longleftrightarrow> posted_view s = v \<and> distinct (map ps_receipt (db_pstates s)) \<and>
     (json_ok d \<longrightarrow> (\<forall>r\<in>set (db_pstates s). past_ok d r)) \<and> listed_ok (may_touch d s) s"
  by (auto simp: batch_inv_def batch_wf_def gate_held_def items_gated_def listed_ok_def may_touch_def)

lemma batches_only_touch: "batches_only s s' \<Longrightarrow> may_touch d s' = may_touch d s"
  by (intro ext) (simp add: batches_only_def may_touch_def has_gated_def)

lemma batches_only_inv:
  "batches_only s s' \<Longrightarrow> batch_inv d v s \<Longrightarrow> listed_ok (may_touch d s) s' \<Longrightarrow> batch_inv d v s'"
  unfolding batch_inv_eq by (simp add: batches_only_touch) (simp add: batches_only_def)

lemma store_keeps_inv:
  assumes "batch_inv d v s"
  shows "may_batch (\<lambda>n q s. may_touch d s n q) (sp_kind spec) (ji_ref ` set (sp_items spec)) s \<Longrightarrow>
      AIBatchStore_CreateJob spec s = (r1, s1) \<Longrightarrow> batch_inv d v s1"
    and "AIBatchStore_MarkItem j c st m s = (r2, s2) \<Longrightarrow> batch_inv d v s2"
    and "st \<noteq> ''submitted'' \<Longrightarrow> AIBatchStore_MarkJob j st m s = (r2, s2) \<Longrightarrow> batch_inv d v s2"
proof -
  have l: "listed_ok (may_touch d s) s" using assms by (simp add: batch_inv_eq)
  show "AIBatchStore_CreateJob spec s = (r1, s1) \<Longrightarrow> batch_inv d v s1"
    if "may_batch (\<lambda>n q s. may_touch d s n q) (sp_kind spec) (ji_ref ` set (sp_items spec)) s"
    using create_listed [OF l that [unfolded may_batch_def]] batches_only_inv [OF batches_only_CreateJob assms] by blast
  show "AIBatchStore_MarkItem j c st m s = (r2, s2) \<Longrightarrow> batch_inv d v s2"
    using mark_item_listed [OF l] batches_only_inv [OF _ assms] MarkItem_effect by blast
  show "AIBatchStore_MarkJob j st m s = (r2, s2) \<Longrightarrow> batch_inv d v s2" if "st \<noteq> ''submitted''"
    using mark_job_listed [OF l that] batches_only_inv [OF _ assms] MarkJob_effect by blast
qed

interpretation safe: batch_work "batch_inv d v" "\<lambda>n q s. may_touch d s n q" "set (Kinds d)" for d v
proof unfold_locales
  show "batch_inv d v s' = batch_inv d v s" if "same_tables s s'" for s s'
    by (simp add: batch_inv_def batch_wf_def gate_held_def items_gated_def has_gated_def posted_view_def
        same_tables_fields [OF that])
  show "may_touch d s' n q = may_touch d s n q" if "same_tables s s'" for s s' n q
    by (simp add: may_touch_def has_gated_def same_tables_fields [OF that])
  show "distinct (map bj_id (db_batch_jobs s))" if "batch_inv d v s" for s
    using that by (simp add: batch_inv_def batch_wf_def)
  have g: "batch_inv d v s' \<and> same_batches s s' \<and> (\<forall>n q. may_touch d s n q \<longrightarrow> may_touch d s' n q)"
    if "grow d s s'" "batch_inv d v s" for s s'
    using that grow_inv [OF that] grow_may_touch [OF that(1)] by (simp add: grow_def)
  show "triple (batch_inv d v) (k_gather k) (batch_inv d v)
      (\<lambda>items s. batch_inv d v s \<and> may_batch (\<lambda>n q s. may_touch d s n q) (k_name k) (it_ref ` set items) s)"
    if "k \<in> set (Kinds d)" for k
    by (rule tripleI) (use gather_grow [OF that] g in \<open>fastforce simp: may_batch_def\<close>)+
  show "batch_inv d v s' \<and> same_batches s s' \<and> (\<forall>n q. may_touch d s n q \<longrightarrow> may_touch d s' n q)"
    if "k \<in> set (Kinds d)" "batch_inv d v s" "may_touch d s (k_name k) r" "k_apply k r out err s = (res, s')" for k s r out err res s'
    by (rule g [OF growing.keepsD [OF growing.keep_kind_apply [OF that(1,3)] grow_refl that(4)] that(2)])
  show "batch_inv d v s' \<and> same_batches s s' \<and> (\<forall>n q. may_touch d s n q \<longrightarrow> may_touch d s' n q)"
    if "k \<in> set (Kinds d)" "batch_inv d v s" "may_batch (\<lambda>n q s. may_touch d s n q) (k_name k) (set rs) s"
      "k_reset k rs s = (res, s')" for k s rs res s'
    by (rule g [OF growing.keepsD [OF growing.keep_kind_reset [OF that(1)] grow_refl that(4)] that(2)])
      (use that(3) in \<open>simp add: may_batch_def\<close>)
  show "batch_inv d v s' \<and> (\<forall>n q. may_touch d s n q \<longrightarrow> may_touch d s' n q)"
    if "batch_inv d v s" "may_batch (\<lambda>n q s. may_touch d s n q) (sp_kind spec) (ji_ref ` set (sp_items spec)) s"
      "AIBatchStore_CreateJob spec s = (res, s')" for s spec res s'
    using store_keeps_inv(1) [OF that] batches_only_touch [OF batches_only_CreateJob [OF that(3)]] by simp
  show "batch_inv d v s' \<and> (\<forall>n q. may_touch d s n q \<longrightarrow> may_touch d s' n q)"
    if "batch_inv d v s" "AIBatchStore_MarkItem j c st m s = (res, s')" for s j c st m res s'
    using store_keeps_inv(2) [OF that] batches_only_touch [of s s'] MarkItem_effect [OF that(2)] by simp
  show "batch_inv d v s'" if "batch_inv d v s" "st \<noteq> ''submitted''" "AIBatchStore_MarkJob j st m s = (res, s')" for s st j m res s'
    by (rule store_keeps_inv(3) [OF that])
  show "may_touch d s (bj_kind row) (bi_ref it)"
    if "batch_inv d v s" "row \<in> set (db_batch_jobs s)" "bj_status row = ''submitted''" "it \<in> set (db_batch_items s)"
      "bi_job it = bj_id row" for s row it
    using that by (simp add: batch_inv_eq listed_ok_def)
qed

context batch_work
begin

lemma task_keeps:
  assumes "set (Kinds d) \<subseteq> kinds" "I s"
  shows "I (run_batch_task bp d t s)"
proof (cases t)
  case (SubmitTask w)
  obtain out s' where "SubmitAll bp (Kinds d) w s = (out, s')" by (cases "SubmitAll bp (Kinds d) w s")
  then show ?thesis using SubmitAll_keeps [OF assms(1,2)] by (simp add: SubmitTask batch_registry_eq)
next
  case CollectTask
  show ?thesis using triple_snd [OF Collect_triple [OF assms(1)] assms(2)] by (simp add: CollectTask batch_registry_eq)
next
  case (ResetStuckTask n)
  show ?thesis using triple_snd [OF ResetStuck_triple [OF assms(1)] assms(2)] by (simp add: ResetStuckTask batch_registry_eq)
qed

end

section \<open>Receipts the framework has lost\<close>

text \<open>\<open>stranded q s\<close>: the receipt is leased to a batch, and no open batch has an item for it.\<close>

definition stranded :: "string \<Rightarrow> db \<Rightarrow> bool" where
  "stranded q s \<longleftrightarrow> list_ex (\<lambda>r. ps_receipt r = q) (db_pstates s) \<and>
     list_all (\<lambda>r. ps_receipt r = q \<longrightarrow> ps_status r = ''in_flight'') (db_pstates s) \<and>
     list_all (\<lambda>job. bj_status job = ''submitted'' \<longrightarrow>
       list_all (\<lambda>it. bi_job it = bj_id job \<longrightarrow> bi_ref it \<noteq> q) (db_batch_items s)) (db_batch_jobs s)"

definition rows_of :: "string \<Rightarrow> db \<Rightarrow> pstate_row list" where
  "rows_of q s = filter (\<lambda>r. ps_receipt r = q) (db_pstates s)"

definition idle :: "string \<Rightarrow> db \<Rightarrow> db \<Rightarrow> bool" where
  "idle q s s' \<longleftrightarrow> same_batches s s' \<and> rows_of q s' = rows_of q s \<and>
     map ps_receipt (db_pstates s') = map ps_receipt (db_pstates s)"

lemma idle_refl [simp]: "idle q s s"
  by (simp add: idle_def same_batches_def)

lemma idle_outside: "outside s = outside s' \<Longrightarrow> idle q s0 s = idle q s0 s'"
  by (simp add: idle_def outside_def rows_of_def same_batches_def)

lemma idle_update:
  assumes "idle q s0 s" "i \<noteq> q" "\<And>r. ps_receipt (f r) = ps_receipt r"
  shows "idle q s0 (update_pstate i f s)"
proof -
  have m: "map ps_receipt (map (\<lambda>r. if ps_receipt r = i then f r else r) rs) = map ps_receipt rs" for rs
    using assms(3) by (induction rs) auto
  have "filter (\<lambda>r. ps_receipt r = q) (map (\<lambda>r. if ps_receipt r = i then f r else r) rs) = filter (\<lambda>r. ps_receipt r = q) rs" for rs
    using assms(2,3) by (induction rs) auto
  then show ?thesis using assms(1)
    by (simp add: idle_def update_pstate_def rows_of_def same_batches_def m del: map_map)
qed

lemma idle_keep_update:
  assumes "i \<noteq> q" "\<And>n r. ps_receipt (f n r) = ps_receipt r"
  shows "keeps (idle q s0) (stmt (\<lambda>s. if c s then (Inl e, s) else (Inr x, update_pstate i (f (db_now s)) s)))"
proof -
  have inv: "table_invariant (idle q s0)"
    by unfold_locales (rule idle_outside, simp add: outside_tables)
  show ?thesis
    by (rule table_invariant.keep_stmt [OF inv]) (auto intro: idle_update [OF _ assms] split: if_splits)
qed

interpretation idling: receipt_steps "idle q s0" d "\<lambda>n r. r \<noteq> q" for q s0 d
proof unfold_locales
  show "idle q s0 s = idle q s0 s'" if "outside s = outside s'" for s s'
    by (rule idle_outside [OF that])
  note upd = idle_keep_update [where c = "\<lambda>_. False", simplified]
  show "keeps (idle q s0) (StateStore_Park r f i)" if "r \<noteq> q" for r f i
    unfolding StateStore_Park_def by (rule upd [OF that]) (simp add: park_row_def)
  show "keeps (idle q s0) (stmt (\<lambda>s. (Inr (), update_pstate r (release_row (db_now s)) s)))" if "r \<noteq> q" for r
    by (rule upd [OF that]) (simp add: release_row_def)
  show "keeps (idle q s0) (SaveExtractAndAdvance r (Some (mustJSON (bd_put_extract d x))) ''vendor'')" if "r \<noteq> q" for r x
    unfolding SaveExtractAndAdvance_def StateStore_advance_def
    by (rule idle_keep_update [OF that]) (simp add: advance_row_def)
  show "keeps (idle q s0) (SaveVendorAndAdvance r j ''classify'')" if "r \<noteq> q" for r j
    unfolding SaveVendorAndAdvance_def StateStore_advance_def
    by (rule idle_keep_update [OF that]) (simp add: advance_row_def)
  show "keeps (idle q s0) (SaveClassifyAndFinish r j)" if "r \<noteq> q" for r j
    unfolding SaveClassifyAndFinish_def StateStore_advance_def
    by (rule idle_keep_update [OF that]) (simp add: advance_row_def)
qed

lemma claim_idle:
  assumes "StateStore_ClaimPending stage n s = (Inr sts, t)" "stranded q s"
  shows "idle q s t \<and> (\<forall>st\<in>set sts. p_receipt st \<noteq> q)"
proof -
  define hit where "hit = (\<lambda>r :: pstate_row. ps_receipt r \<in> set (to_claim stage n (db_pstates s)))"
  have sts: "sts = map (\<lambda>r. toState (lease_row (db_now s) r)) (filter hit (db_pstates s))"
    and t: "db_pstates t = map (\<lambda>r. if hit r then lease_row (db_now s) r else r) (db_pstates s)"
    and rest: "same_batches s t"
    using assms(1) by (auto simp: StateStore_ClaimPending_def stmt_Inr hit_def same_batches_def Let_def)
  have l: "ps_receipt (lease_row now r) = ps_receipt r" for r now
    by (simp add: lease_row_def)
  have no: "\<not> hit r" if "r \<in> set (db_pstates s)" "ps_receipt r = q" for r
  proof
    assume "hit r"
    then obtain r' where "r' \<in> set (db_pstates s)" "ps_receipt r' = ps_receipt r" "ps_status r' = ''pending''"
      by (auto simp: hit_def to_claim_def dest!: in_set_takeD)
    then show False using assms(2) that by (auto simp: stranded_def list_all_iff)
  qed
  have f: "filter (\<lambda>r. ps_receipt r = q) (map (\<lambda>r. if hit r then lease_row now r else r) rs) = filter (\<lambda>r. ps_receipt r = q) rs"
    if "\<forall>r\<in>set rs. ps_receipt r = q \<longrightarrow> \<not> hit r" for rs now
    using that by (induction rs) (auto simp: l)
  have "rows_of q t = rows_of q s" unfolding rows_of_def t by (rule f) (use no in blast)
  moreover have "map ps_receipt (db_pstates t) = map ps_receipt (db_pstates s)" by (simp add: t l)
  moreover have "\<forall>st\<in>set sts. p_receipt st \<noteq> q" using no by (auto simp: sts toState_def l)
  ultimately show ?thesis using rest by (simp add: idle_def)
qed

definition lost :: "string \<Rightarrow> db \<Rightarrow> bool" where
  "lost q s \<longleftrightarrow> batch_wf s \<and> stranded q s"

lemma stranded_rows:
  "stranded q s \<longleftrightarrow> rows_of q s \<noteq> [] \<and> (\<forall>r\<in>set (rows_of q s). ps_status r = ''in_flight'') \<and>
     (\<forall>job\<in>set (db_batch_jobs s). bj_status job = ''submitted'' \<longrightarrow>
        (\<forall>it\<in>set (db_batch_items s). bi_job it = bj_id job \<longrightarrow> bi_ref it \<noteq> q))"
  by (auto simp: stranded_def rows_of_def list_all_iff list_ex_iff filter_empty_conv)

lemma idle_lost: "idle q s s' \<Longrightarrow> lost q s \<Longrightarrow> lost q s'"
  by (simp add: idle_def same_batches_def lost_def batch_wf_def stranded_rows)

lemma lost_eq:
  "lost q s \<longleftrightarrow> distinct (map ps_receipt (db_pstates s)) \<and> rows_of q s \<noteq> [] \<and>
     (\<forall>r\<in>set (rows_of q s). ps_status r = ''in_flight'') \<and> listed_ok (\<lambda>n r. r \<noteq> q) s"
  by (auto simp: lost_def stranded_rows batch_wf_def listed_ok_def)

lemma store_keeps_lost:
  assumes "lost q s"
  shows "\<forall>r\<in>ji_ref ` set (sp_items spec). r \<noteq> q \<Longrightarrow> AIBatchStore_CreateJob spec s = (r1, s1) \<Longrightarrow> lost q s1"
    and "AIBatchStore_MarkItem j c st m s = (r2, s2) \<Longrightarrow> lost q s2"
    and "st \<noteq> ''submitted'' \<Longrightarrow> AIBatchStore_MarkJob j st m s = (r2, s2) \<Longrightarrow> lost q s2"
proof -
  have l: "listed_ok (\<lambda>n r. r \<noteq> q) s" using assms by (simp add: lost_eq)
  have keep: "lost q s'" if "batches_only s s'" "listed_ok (\<lambda>n r. r \<noteq> q) s'" for s'
    using assms that by (simp add: lost_eq batches_only_def rows_of_def)
  show "AIBatchStore_CreateJob spec s = (r1, s1) \<Longrightarrow> lost q s1" if "\<forall>r\<in>ji_ref ` set (sp_items spec). r \<noteq> q"
    using create_listed [OF l that] keep [OF batches_only_CreateJob] by blast
  show "AIBatchStore_MarkItem j c st m s = (r2, s2) \<Longrightarrow> lost q s2"
    using mark_item_listed [OF l] keep MarkItem_effect by blast
  show "AIBatchStore_MarkJob j st m s = (r2, s2) \<Longrightarrow> lost q s2" if "st \<noteq> ''submitted''"
    using mark_job_listed [OF l that] keep MarkJob_effect by blast
qed

lemma gather_idle:
  assumes "k \<in> set (Kinds d)" "lost q s" "k_gather k s = (r, s')"
  shows "idle q s s' \<and> (\<forall>items. r = Inr items \<longrightarrow> (\<forall>i\<in>it_ref ` set items. i \<noteq> q))"
proof (rule kind_gathers [OF assms(1)])
  fix stage f
  assume k: "k_gather k = dbind (StateStore_ClaimPending stage (deps_limit d)) (gather_loop f)"
    "k_name k = KindForStage stage" "yields_own f"
    "\<And>J ok st. receipt_steps J d ok \<Longrightarrow> ok (k_name k) (p_receipt st) \<Longrightarrow> keeps J (f st)"
  show ?thesis
  proof (rule gather_keeps [OF idling.receipt_steps_axioms k(1) _ k(3) _ _ assms(3)])
    show "keeps (idle q s) (f st)" if "p_receipt st \<noteq> q" for st
      by (rule k(4) [OF idling.receipt_steps_axioms that])
    show "idle q s t \<and> (\<forall>st\<in>set sts. p_receipt st \<noteq> q)"
      if "StateStore_ClaimPending stage (deps_limit d) s = (Inr sts, t)" for sts t
      by (rule claim_idle [OF that]) (use assms(2) in \<open>simp add: lost_def\<close>)
  qed simp
qed

interpretation lost: batch_work "lost q" "\<lambda>n r s. r \<noteq> q" "set (Kinds d)" for q d
proof unfold_locales
  show "lost q s' = lost q s" if "same_tables s s'" for s s'
    by (simp add: lost_def batch_wf_def stranded_def same_tables_fields [OF that])
  show "distinct (map bj_id (db_batch_jobs s))" if "lost q s" for s
    using that by (simp add: lost_def batch_wf_def)
  have g: "lost q s' \<and> same_batches s s' \<and> (\<forall>n r. r \<noteq> q \<longrightarrow> r \<noteq> q)" if "idle q s s'" "lost q s" for s s'
    using that idle_lost [OF that] by (simp add: idle_def)
  show "triple (lost q) (k_gather k) (lost q) (\<lambda>items s. lost q s \<and> may_batch (\<lambda>n r s. r \<noteq> q) (k_name k) (it_ref ` set items) s)"
    if "k \<in> set (Kinds d)" for k
    by (rule tripleI) (use gather_idle [OF that] g in \<open>fastforce simp: may_batch_def\<close>)+
  show "lost q s' \<and> same_batches s s' \<and> (\<forall>n r. r \<noteq> q \<longrightarrow> r \<noteq> q)"
    if "k \<in> set (Kinds d)" "lost q s" "r \<noteq> q" "k_apply k r out err s = (res, s')" for k s r out err res s'
    by (rule g [OF idling.keepsD [OF idling.keep_kind_apply [OF that(1,3)] idle_refl that(4)] that(2)])
  show "lost q s' \<and> same_batches s s' \<and> (\<forall>n r. r \<noteq> q \<longrightarrow> r \<noteq> q)"
    if "k \<in> set (Kinds d)" "lost q s" "may_batch (\<lambda>n r s. r \<noteq> q) (k_name k) (set rs) s" "k_reset k rs s = (res, s')" for k s rs res s'
    by (rule g [OF idling.keepsD [OF idling.keep_kind_reset [OF that(1)] idle_refl that(4)] that(2)])
      (use that(3) in \<open>simp add: may_batch_def\<close>)
  show "lost q s' \<and> (\<forall>n r. r \<noteq> q \<longrightarrow> r \<noteq> q)"
    if "lost q s" "may_batch (\<lambda>n r s. r \<noteq> q) (sp_kind spec) (ji_ref ` set (sp_items spec)) s"
      "AIBatchStore_CreateJob spec s = (res, s')" for s spec res s'
    using store_keeps_lost(1) [OF that(1) that(2) [unfolded may_batch_def] that(3)] by simp
  show "lost q s' \<and> (\<forall>n r. r \<noteq> q \<longrightarrow> r \<noteq> q)"
    if "lost q s" "AIBatchStore_MarkItem j c st m s = (res, s')" for s j c st m res s'
    using store_keeps_lost(2) [OF that] by simp
  show "lost q s'" if "lost q s" "st \<noteq> ''submitted''" "AIBatchStore_MarkJob j st m s = (res, s')" for s st j m res s'
    by (rule store_keeps_lost(3) [OF that])
  show "bi_ref it \<noteq> q"
    if "lost q s" "row \<in> set (db_batch_jobs s)" "bj_status row = ''submitted''" "it \<in> set (db_batch_items s)"
      "bi_job it = bj_id row" for s row it
    using that by (auto simp: lost_eq listed_ok_def)
qed simp_all

section \<open>Properties\<close>

lemma batch_safe_inv: "json_ok d \<Longrightarrow> batch_safe d s \<longleftrightarrow> batch_inv d (posted_view s) s"
  by (auto simp: batch_safe_def batch_inv_def)

text \<open>
  C17.  Whatever the AI provider answers and whichever statement fails, no scheduled batch task posts anything, and a
  receipt is past the extract stage only with a stored extraction that passed the gate: the invariant \<open>batch_safe\<close> is
  kept, and the transactions, the entries and the attachment of the receipts are unchanged.
\<close>

theorem batch_task_safe:
  assumes "json_ok d" "batch_safe d s"
  shows "batch_safe d (run_batch_task bp d t s) \<and> posted_view (run_batch_task bp d t s) = posted_view s"
proof -
  have "batch_inv d (posted_view s) (run_batch_task bp d t s)"
    by (rule safe.task_keeps [OF subset_refl]) (use assms batch_safe_inv in blast)
  then show ?thesis using assms(1) by (simp add: batch_inv_def batch_safe_def)
qed

text \<open>A receipt in the extract stage, and a batch for it that has completed.\<close>

definition demo_deps :: batch_deps where
  "demo_deps = \<lparr>bd_search = \<lparr>se_enabled = False, se_vendors = (\<lambda>_. Inl [])\<rparr>, bd_limit = 0,
     bd_extract = (\<lambda>_. Inr sample_extract), bd_vendor = (\<lambda>_. Inl []), bd_classify = (\<lambda>_. Inl []),
     bd_put_extract = (\<lambda>_. Some ''{}''), bd_put_vendor = (\<lambda>_. None), bd_put_account = (\<lambda>_. None)\<rparr>"

definition demo_provider :: "batch_result list \<Rightarrow> batch_provider" where
  "demo_provider results = \<lparr>bp_submit = (\<lambda>_ _ _ _. Inl (ProviderError [])),
     bp_get = (\<lambda>_ i. Inr \<lparr>pj_id = i, pj_provider = ''openai'', pj_model = ''m'', pj_status = ''completed'', pj_done = True\<rparr>),
     bp_results = (\<lambda>_ _. Inr results)\<rparr>"

definition demo_batch :: db where
  "demo_batch = empty_db\<lparr>
     db_pstates := [\<lparr>ps_receipt = ''r1'', ps_stage = ''extract'', ps_status = ''in_flight'', ps_extract_json = None,
       ps_vendor_json = None, ps_classify_json = None, ps_failed_stage = None, ps_issues = None, ps_running = Some 0, ps_updated = 0\<rparr>],
     db_batch_jobs := [\<lparr>bj_id = ''j1'', bj_kind = ''receipt-extract'', bj_provider = ''openai'', bj_model = ''m'', bj_batch = ''b1'',
       bj_status = ''submitted'', bj_count = 1, bj_submitted = 0, bj_error = None, bj_completed = None\<rparr>],
     db_batch_items := [\<lparr>bi_id = ''i1'', bi_job = ''j1'', bi_custom = ''receipt-extract:r1'', bi_ref = ''r1'',
       bi_status = ''pending'', bi_error = None\<rparr>]\<rparr>"

lemma batch_task_safe_witness:
  "batch_safe demo_deps (run_batch_task (demo_provider [\<lparr>bs_custom = ''receipt-extract:r1'', bs_output = ''{}'', bs_error = []\<rparr>])
     demo_deps CollectTask demo_batch)"
proof -
  have "json_ok demo_deps" by (simp add: json_ok_def ParseExtract_def demo_deps_def)
  moreover have "batch_safe demo_deps demo_batch"
    by (simp add: batch_safe_def batch_wf_def gate_held_def items_gated_def past_ok_def demo_batch_def empty_db_def later_kind_def)
  ultimately show ?thesis using batch_task_safe by blast
qed

text \<open>
  C32.  A receipt that is leased while no open batch has an item for it is never released: every scheduled task leaves it
  leased, whatever the provider answers.  The framework gets there when a completed batch has no result for the receipt:
  the batch is closed, and only open batches are reset.
\<close>

theorem lost_forever:
  assumes "lost q s"
  shows "lost q (run_batch_task bp d t s)"
  by (rule lost.task_keeps [OF subset_refl assms])

lemma lost_forever_witness:
  "lost ''r1'' (run_batch_task (demo_provider []) demo_deps (ResetStuckTask 0)
     (run_batch_task (demo_provider []) demo_deps CollectTask demo_batch))"
proof (rule lost_forever)
  show "lost ''r1'' (run_batch_task (demo_provider []) demo_deps CollectTask demo_batch)"
    by code_simp
qed

end
