(* ===== verification/Go_Csv.thy ===== *)
theory Go_Csv
  imports Go_Base
begin

text \<open>
  The reader of \<open>encoding/csv\<close> with \<open>FieldsPerRecord = -1\<close> and its other fields at their defaults: \<open>readLine\<close>,
  \<open>readRecord\<close> and \<open>ReadAll\<close>, with the positions its errors report.  A line keeps its newline; \<open>\r\n\<close> reads as a newline
  and a carriage return at the very end is dropped.
\<close>

definition nl :: char where
  "nl = CHR 0x0A"

definition cr :: char where
  "cr = CHR 0x0D"

definition quote :: char where
  "quote = CHR 0x22"

definition end_line :: "string \<Rightarrow> bool \<Rightarrow> string" where
  "end_line body newline =
     (let b = (if body \<noteq> [] \<and> last body = cr then butlast body else body) in if newline then b @ [nl] else b)"

lemma drop_shorter: "line \<noteq> [] \<Longrightarrow> length (dropWhile P line) - Suc n < length line"
  using length_dropWhile_le [of P line] by (cases line) (simp_all add: le_imp_less_Suc less_imp_diff_less del: dropWhile.simps)

function csv_lines :: "string \<Rightarrow> string list" where
  "csv_lines s =
     (if s = [] then []
      else let body = takeWhile (\<lambda>c. c \<noteq> nl) s; rest = dropWhile (\<lambda>c. c \<noteq> nl) s in
        if rest = [] then [end_line body False] else end_line body True # csv_lines (tl rest))"
  by pat_completeness auto
termination
proof (relation "measure length")
  fix s :: string and body rest
  assume r: "rest = dropWhile (\<lambda>c. c \<noteq> nl) s" "rest \<noteq> []"
  then show "(tl rest, s) \<in> measure length" using drop_shorter [of s "\<lambda>c. c \<noteq> nl" 0] by (cases "s = []") auto
qed simp

declare csv_lines.simps [simp del]

definition lengthNL :: "string \<Rightarrow> nat" where
  "lengthNL b = (if b \<noteq> [] \<and> last b = nl then 1 else 0)"

text \<open>\<open>ParseError.Error()\<close>.\<close>

definition parse_error :: "int \<Rightarrow> int \<Rightarrow> int \<Rightarrow> string \<Rightarrow> string" where
  "parse_error start line col what =
     (if start \<noteq> line then ''record on line '' @ int_str start @ ''; '' else []) @
     ''parse error on line '' @ int_str line @ '', column '' @ int_str col @ '': '' @ what"

definition ErrBareQuote :: string where
  "ErrBareQuote = ''bare '' @ [quote] @ '' in non-quoted field''"

definition ErrQuote :: string where
  "ErrQuote = ''extraneous or missing '' @ [quote] @ '' in quoted-field''"

text \<open>
  One record: the rest of the current line, the lines not read yet, \<open>numLine\<close>, the line the record started on, the
  position (line, column) and the fields so far.  \<open>quoted\<close> is the inner loop, with the field read so far.
\<close>

function (sequential) fields :: "string \<Rightarrow> string list \<Rightarrow> int \<Rightarrow> int \<Rightarrow> int \<Rightarrow> int \<Rightarrow> string list \<Rightarrow>
    string + (string list \<times> string list \<times> int)"
  and quoted :: "string \<Rightarrow> string \<Rightarrow> string list \<Rightarrow> int \<Rightarrow> int \<Rightarrow> int \<Rightarrow> int \<Rightarrow> string list \<Rightarrow>
    string + (string list \<times> string list \<times> int)" where
  "fields line lines n rec pl col acc =
     (if line = [] \<or> hd line \<noteq> quote then
        let raw = takeWhile (\<lambda>c. c \<noteq> CHR '','') line; rest = dropWhile (\<lambda>c. c \<noteq> CHR '','') line;
            field = (if rest = [] then take (length raw - lengthNL raw) raw else raw) in
        case index_byte field quote of
          Some j \<Rightarrow> Inl (parse_error rec n (col + int j) ErrBareQuote)
        | None \<Rightarrow>
            if rest = [] then Inr (acc @ [field], lines, n)
            else fields (tl rest) lines n rec pl (col + int (length raw) + 1) (acc @ [field])
      else quoted [] (tl line) lines n rec pl (col + 1) acc)"
| "quoted buf line lines n rec pl col acc =
     (if quote \<in> set line then
        let raw = takeWhile (\<lambda>c. c \<noteq> quote) line; rest = tl (dropWhile (\<lambda>c. c \<noteq> quote) line);
            buf = buf @ raw; col = col + int (length raw) + 1 in
        if rest \<noteq> [] \<and> hd rest = quote then quoted (buf @ [quote]) (tl rest) lines n rec pl (col + 1) acc
        else if rest \<noteq> [] \<and> hd rest = CHR '','' then fields (tl rest) lines n rec pl (col + 1) (acc @ [buf])
        else if lengthNL rest = length rest then Inr (acc @ [buf], lines, n)
        else Inl (parse_error rec n (col - 1) ErrQuote)
      else if line \<noteq> [] then
        (case lines of
           [] \<Rightarrow> Inl (parse_error rec pl (col + int (length line)) ErrQuote)
         | l # ls \<Rightarrow>
             if l = [] then Inl (parse_error rec pl (col + int (length line)) ErrQuote)
             else quoted (buf @ line) l ls (n + 1) rec (pl + 1) 1 acc)
      else Inl (parse_error rec pl col ErrQuote))"
  by pat_completeness auto
termination
  by (relation "measure (\<lambda>x. case x of
        Inl (line, lines, _) \<Rightarrow> length line + sum_list (map (Suc \<circ> length) lines)
      | Inr (_, line, lines, _) \<Rightarrow> length line + sum_list (map (Suc \<circ> length) lines))")
     (auto simp: dropWhile_eq_Nil_conv intro!: drop_shorter)

declare fields.simps [simp del] quoted.simps [simp del]

text \<open>A record consumes lines only.\<close>

lemma fields_rest:
  "fields line lines n rec pl col acc = Inr (fs, ls', n') \<Longrightarrow> length ls' \<le> length lines"
  "quoted buf line lines n rec pl col acc = Inr (fs, ls', n') \<Longrightarrow> length ls' \<le> length lines"
proof (induction line lines n rec pl col acc and buf line lines n rec pl col acc arbitrary: fs ls' n' and fs ls' n'
    rule: fields_quoted.induct)
  case (1 line lines n rec pl col acc)
  from "1.prems" "1.IH" show ?case unfolding fields.simps [of line lines n rec pl col acc]
    by (auto simp: Let_def split: if_splits option.splits)
next
  case (2 buf line lines n rec pl col acc)
  from "2.prems" "2.IH" show ?case unfolding quoted.simps [of buf line lines n rec pl col acc]
    by (auto simp: Let_def split: if_splits list.splits intro: le_SucI)
qed

text \<open>\<open>ReadAll\<close>: empty lines are skipped.\<close>

function read_records :: "string list \<Rightarrow> int \<Rightarrow> string + string list list" where
  "read_records lines n =
     (case lines of
        [] \<Rightarrow> Inr []
      | l # ls \<Rightarrow>
          if length l = lengthNL l then read_records ls (n + 1)
          else case fields l ls (n + 1) (n + 1) (n + 1) 1 [] of
            Inl e \<Rightarrow> Inl e
          | Inr (fs, ls', n') \<Rightarrow>
              (case read_records ls' n' of Inl e \<Rightarrow> Inl e | Inr rs \<Rightarrow> Inr (fs # rs)))"
  by pat_completeness auto
termination
proof (relation "measure (\<lambda>(lines, n). length lines)")
  fix lines :: "string list" and n :: int and l :: string and ls :: "string list" and x y fs and ls' :: "string list" and n' :: int
  assume "lines = l # ls" "fields l ls (n + 1) (n + 1) (n + 1) 1 [] = Inr x" "(fs, y) = x" "(ls', n') = y"
  then show "((ls', n'), lines, n) \<in> measure (\<lambda>(lines, n). length lines)"
    using fields_rest(1) [of l ls "n + 1" "n + 1" "n + 1" 1 "[]" fs ls' n'] by auto
qed auto

declare read_records.simps [simp del]

definition csv_read_all :: "string \<Rightarrow> string + string list list" where
  "csv_read_all raw = read_records (csv_lines raw) 0"

end
