(* ===== verification/Go_Strconv.thy ===== *)
theory Go_Strconv
  imports Go_Float
begin

text \<open>
  \<open>strconv.ParseInt(_, 10, 64)\<close> (and \<open>strconv.Atoi\<close>, its special case on a 64-bit platform) and
  \<open>strconv.ParseFloat(_, 64)\<close>: signs, decimal and hexadecimal literals, exponents, underscores between digits,
  infinities and NaN.  Errors carry no text here: the program replaces it.
\<close>

definition read_sign :: "string \<Rightarrow> bool \<times> string" where
  "read_sign s = (case s of
     [] \<Rightarrow> (False, [])
   | c # t \<Rightarrow> if c = CHR ''-'' then (True, t) else if c = CHR ''+'' then (False, t) else (False, s))"

definition parse_int :: "string \<Rightarrow> int option" where
  "parse_int s =
     (case read_sign s of (neg, ds) \<Rightarrow>
        if ds = [] \<or> \<not> list_all is_digit ds then None
        else let n = (if neg then - digits_int ds else digits_int ds) in if in_int64 n then Some n else None)"

text \<open>A digit in a base: its value, if it is one.\<close>

definition hex_val :: "char \<Rightarrow> int option" where
  "hex_val c = map_option int (index_byte ''0123456789abcdef'' (lower_char c))"

definition base_digit :: "bool \<Rightarrow> char \<Rightarrow> bool" where
  "base_digit hex c \<longleftrightarrow> (if hex then hex_val c \<noteq> None else is_digit c)"

definition mantissa_value :: "bool \<Rightarrow> string \<Rightarrow> int" where
  "mantissa_value hex s =
     foldl (\<lambda>a c. (if hex then 16 else 10) * a + (case hex_val c of None \<Rightarrow> 0 | Some d \<Rightarrow> d)) 0 s"

text \<open>\<open>underscoreOK\<close>: an underscore stands between two digits, or between the base prefix and a digit.\<close>

fun underscores_ok :: "bool \<Rightarrow> char \<Rightarrow> string \<Rightarrow> bool" where
  "underscores_ok hex saw [] = (saw \<noteq> CHR ''_'')"
| "underscores_ok hex saw (c # s) =
     (if base_digit hex c then underscores_ok hex CHR ''0'' s
      else if c = CHR ''_'' then saw = CHR ''0'' \<and> underscores_ok hex CHR ''_'' s
      else saw \<noteq> CHR ''_'' \<and> underscores_ok hex CHR ''!'' s)"

definition read_exponent :: "bool \<Rightarrow> string \<Rightarrow> int option" where
  "read_exponent hex s = (case s of
     [] \<Rightarrow> if hex then None else Some 0
   | c # t \<Rightarrow> if lower_char c \<noteq> (if hex then CHR ''p'' else CHR ''e'') then None
       else (case read_sign t of (neg, ds) \<Rightarrow>
         if ds = [] \<or> \<not> list_all is_digit ds then None
         else Some (if neg then - digits_int ds else digits_int ds)))"

definition read_mantissa :: "bool \<Rightarrow> string \<Rightarrow> string \<times> string \<times> string" where
  "read_mantissa hex s =
     (let ip = takeWhile (base_digit hex) s; r = dropWhile (base_digit hex) s
      in case r of
           [] \<Rightarrow> (ip, [], [])
         | c # r' \<Rightarrow> if c = CHR ''.'' then (ip, takeWhile (base_digit hex) r', dropWhile (base_digit hex) r')
                    else (ip, [], r))"

definition pow10 :: "int \<Rightarrow> rat" where
  "pow10 e = (if 0 \<le> e then 10 ^ nat e else 1 / 10 ^ nat (- e))"

text \<open>The unsigned part of a literal: its exact value.\<close>

definition literal_value :: "bool \<Rightarrow> string \<Rightarrow> rat option" where
  "literal_value hex s =
     (case read_mantissa hex s of (ip, fp, rest) \<Rightarrow>
        if ip = [] \<and> fp = [] then None
        else (case read_exponent hex rest of
                None \<Rightarrow> None
              | Some e \<Rightarrow> Some (of_int (mantissa_value hex (ip @ fp)) *
                  (if hex then pow2 (e - 4 * int (length fp)) else pow10 (e - int (length fp))))))"

definition parse_float :: "string \<Rightarrow> fval option" where
  "parse_float s =
     (case read_sign s of (neg, u) \<Rightarrow>
        if to_lower u \<in> set [''inf'', ''infinity''] then Some NonFin
        else if to_lower s = ''nan'' then Some NonFin
        else let hex = has_prefix (to_lower u) ''0x''; body = (if hex then drop 2 u else u) in
          if CHR ''_'' \<in> set body \<and> \<not> underscores_ok hex (if hex then CHR ''0'' else CHR ''^'') body then None
          else (case literal_value hex (remove_bytes ''_'' body) of
                  None \<Rightarrow> None
                | Some m \<Rightarrow> let v = fl64 m in if v \<noteq> 0 \<and> 1024 \<le> flog2 v then None else Some (Fin (if neg then - v else v))))"

section \<open>Decimal literals\<close>

lemma base_digit_decimal [simp]: "base_digit False = is_digit"
  by (rule ext) (simp add: base_digit_def)

lemma hex_val_digit: "is_digit c \<Longrightarrow> hex_val c = Some (digit_val c)"
proof -
  have "list_all (\<lambda>c. hex_val c = Some (digit_val c)) ''0123456789''" by code_simp
  then show "is_digit c \<Longrightarrow> hex_val c = Some (digit_val c)" unfolding is_digit_def list_all_iff by blast
qed

lemma mantissa_value_digits: "list_all is_digit s \<Longrightarrow> mantissa_value False s = digits_int s"
proof (induction s rule: rev_induct)
  case Nil
  then show ?case by (simp add: mantissa_value_def digits_int_def)
next
  case (snoc c s)
  then show ?case by (simp add: mantissa_value_def digits_int_def hex_val_digit)
qed

lemma is_digit_others: "is_digit c \<Longrightarrow> c \<notin> set ''.-+_xin$,() ''"
  by (auto simp: is_digit_def)

lemma digits_split:
  assumes "list_all is_digit ip" "\<not> is_digit c"
  shows "takeWhile is_digit (ip @ c # t) = ip" "dropWhile is_digit (ip @ c # t) = c # t"
  using assms by (simp_all add: list_all_iff takeWhile_tail dropWhile_append3)

lemma is_digit_lower [simp]: "is_digit c \<Longrightarrow> lower_char c = c"
proof -
  have "list_all (\<lambda>c. lower_char c = c) ''0123456789''" by code_simp
  then show "is_digit c \<Longrightarrow> lower_char c = c" unfolding is_digit_def list_all_iff by blast
qed

lemma pow2_flog2: "0 < q \<Longrightarrow> q < pow2 e \<Longrightarrow> flog2 q < e"
  using flog2_bounds [of q] pow2_mono [of e "flog2 q"] by (meson leD le_less_trans not_le)

lemma parse_float_decimal:
  assumes ip: "list_all is_digit ip" "ip \<noteq> []" and fp: "list_all is_digit fp"
    and v: "v = fl64 (of_int (digits_int (ip @ fp)) * pow10 (- int (length fp)))" "v \<noteq> 0 \<longrightarrow> flog2 v < 1024"
  shows "parse_float (ip @ ''.'' @ fp) = Some (Fin v)"
proof -
  define s where "s = ip @ CHR ''.'' # fp"
  obtain d t where d: "ip = d # t" "is_digit d" "list_all is_digit t" using ip by (cases ip) auto
  have dot: "\<not> is_digit CHR ''.''" by (simp add: is_digit_def)
  have others: "d \<noteq> CHR ''i'' \<and> d \<noteq> CHR ''n'' \<and> d \<noteq> CHR ''-'' \<and> d \<noteq> CHR ''+''" using is_digit_others [OF d(2)] by simp
  have sign: "read_sign s = (False, s)" using d others by (simp add: read_sign_def s_def)
  have word: "to_lower s \<noteq> ''inf''" "to_lower s \<noteq> ''infinity''" "to_lower s \<noteq> ''nan''"
    using d others by (simp_all add: to_lower_def s_def)
  have hex: "\<not> has_prefix (to_lower s) ''0x''"
  proof (cases t)
    case Nil
    then show ?thesis using d by (simp add: has_prefix_def to_lower_def s_def lower_char_def)
  next
    case (Cons c r)
    then show ?thesis using d is_digit_others [of c] by (simp add: has_prefix_def to_lower_def s_def)
  qed
  have us: "CHR ''_'' \<notin> set s" using ip(1) fp is_digit_others [of "CHR ''_''"] by (auto simp: list_all_iff s_def)
  then have clean: "remove_bytes ''_'' s = s" unfolding remove_bytes_def by (intro filter_True) auto
  have whole: "takeWhile is_digit fp = fp" "dropWhile is_digit fp = []"
    using fp by (simp_all add: takeWhile_eq_all_conv dropWhile_eq_Nil_conv list_all_iff)
  have "read_mantissa False s = (ip, fp, [])"
    using digits_split [OF ip(1) dot, of fp] whole by (simp add: read_mantissa_def s_def)
  then have "literal_value False s = Some (of_int (digits_int (ip @ fp)) * pow10 (- int (length fp)))"
    using ip fp by (simp add: literal_value_def read_exponent_def mantissa_value_digits)
  then have "parse_float s = Some (Fin v)" using sign word hex us clean v by (auto simp: parse_float_def Let_def)
  then show ?thesis by (simp add: s_def)
qed

end
