(* ===== verification/Importer.thy ===== *)
theory Importer
  imports Go_Csv Go_Strconv Go_Time "HOL-Library.Multiset"
begin

text \<open>
  Reading a bank statement or a bulk import, \<open>internal/importer/parser.go\<close>: \<open>ParseCSV\<close> finds the columns in the header,
  parses dates and amounts, fingerprints every row and summarises the file.  \<open>sha256\<close> is a parameter.  Go iterates the
  vendor totals, a map, in any order; they are the list \<open>vendor_totals\<close> here, in order of first appearance, and
  \<open>top_vendors_order\<close> shows that the result does not depend on that order.
\<close>

section \<open>Data\<close>

definition DirectionOutflow :: string where "DirectionOutflow = ''outflow''"

definition DirectionInflow :: string where "DirectionInflow = ''inflow''"

definition DirectionUnknown :: string where "DirectionUnknown = ''unknown''"

record import_line =
  il_index :: int
  il_date :: string
  il_vendor :: string
  il_memo :: string
  il_amount :: int64
  il_direction :: string
  il_fingerprint :: string
  il_raw :: "string list"

record row_error =
  re_index :: int
  re_field :: string
  re_error :: string
  re_raw :: "string list"

record vendor_total =
  vt_name :: string
  vt_count :: int
  vt_total :: int64

record import_summary =
  is_row_count :: int
  is_parsed :: int
  is_errors :: int
  is_outflow :: int64
  is_inflow :: int64
  is_total :: int64
  is_top :: string
  is_tops :: "vendor_total list"
  is_duplicates :: "int list"

record import_result =
  ip_rows :: "import_line list"
  ip_errors :: "row_error list"
  ip_summary :: import_summary

record columns =
  co_date :: int
  co_vendor :: int
  co_memo :: int
  co_amount :: int
  co_debit :: int
  co_credit :: int
  co_description :: int

section \<open>Cells\<close>

definition cell :: "string list \<Rightarrow> int \<Rightarrow> string" where
  "cell row idx = (if idx < 0 \<or> int (length row) \<le> idx then [] else trim_space (row ! nat idx))"

fun first_given :: "string list \<Rightarrow> string" where
  "first_given [] = []"
| "first_given (v # vs) = (if trim_space v \<noteq> [] then trim_space v else first_given vs)"

definition isBlankRow :: "string list \<Rightarrow> bool" where
  "isBlankRow row = list_all (\<lambda>c. trim_space c = []) row"

definition normalizeHeader :: "string \<Rightarrow> string" where
  "normalizeHeader value = remove_bytes '' _-./'' (to_lower (trim_space value))"

definition containsAny :: "string \<Rightarrow> string list \<Rightarrow> bool" where
  "containsAny value needles = list_ex (contains value) needles"

section \<open>Columns\<close>

definition no_columns :: columns where
  "no_columns = \<lparr>co_date = -1, co_vendor = -1, co_memo = -1, co_amount = -1, co_debit = -1, co_credit = -1, co_description = -1\<rparr>"

definition first_at :: "int \<Rightarrow> int \<Rightarrow> int" where
  "first_at old idx = (if old = -1 then idx else old)"

definition detect_cell :: "columns \<Rightarrow> int \<Rightarrow> string \<Rightarrow> columns" where
  "detect_cell cols idx c =
     (let norm = normalizeHeader c in
      if containsAny norm [''date'', ''posteddate'', ''transactiondate'', ''postingdate'']
      then cols\<lparr>co_date := first_at (co_date cols) idx\<rparr>
      else if containsAny norm [''vendor'', ''merchant'', ''payee'', ''name'']
      then cols\<lparr>co_vendor := first_at (co_vendor cols) idx\<rparr>
      else if containsAny norm [''description'', ''details'', ''memo'', ''narrative'']
      then cols\<lparr>co_description := first_at (co_description cols) idx, co_memo := first_at (co_memo cols) idx\<rparr>
      else if norm = ''amount'' \<or> has_suffix norm ''amount'' \<or> contains norm ''transactionamount''
      then cols\<lparr>co_amount := first_at (co_amount cols) idx\<rparr>
      else if norm = ''debit'' \<or> contains norm ''withdrawal'' \<or> contains norm ''charge''
      then cols\<lparr>co_debit := first_at (co_debit cols) idx\<rparr>
      else if norm = ''credit'' \<or> contains norm ''deposit'' \<or> contains norm ''payment''
      then cols\<lparr>co_credit := first_at (co_credit cols) idx\<rparr>
      else cols)"

fun detect_from :: "columns \<Rightarrow> int \<Rightarrow> string list \<Rightarrow> columns" where
  "detect_from cols idx [] = cols"
| "detect_from cols idx (c # cs) = detect_from (detect_cell cols idx c) (idx + 1) cs"

definition detectColumns :: "string list \<Rightarrow> columns" where
  "detectColumns header = detect_from no_columns 0 header"

definition hasUsefulHeader :: "columns \<Rightarrow> bool" where
  "hasUsefulHeader c \<longleftrightarrow> 0 \<le> co_date c \<or> 0 \<le> co_amount c \<or> 0 \<le> co_debit c \<or> 0 \<le> co_credit c \<or>
     0 \<le> co_vendor c \<or> 0 \<le> co_description c"

section \<open>Amounts and dates\<close>

text \<open>The cell's amount in cents, if it holds one.\<close>

definition parseMoneyCell :: "string \<Rightarrow> string + int64 option" where
  "parseMoneyCell raw =
     (let trimmed = trim_space raw in
      if trimmed = [] then Inr None
      else let negative = has_prefix trimmed ''('' \<and> has_suffix trimmed '')''; clean = remove_bytes ''$,() '' trimmed in
        if clean = [] then Inr None
        else case parse_float clean of
          None \<Rightarrow> Inl (''invalid amount '' @ fmt_q raw)
        | Some NonFin \<Rightarrow> Inr (Some (float_to_int64 (2 ^ 63)))
        | Some (Fin v) \<Rightarrow>
            let value = (if negative then - v else v) in
            Inr (Some (float_to_int64 (of_int (math_round (fl64 (value * 100)))))))"

text \<open>The cents of a row and their direction; a filled debit column wins over a credit column, both over the amount.\<close>

definition parseAmount :: "string list \<Rightarrow> columns \<Rightarrow> string + int64 \<times> string" where
  "parseAmount raw cols =
     rbind (if 0 \<le> co_debit cols \<or> 0 \<le> co_credit cols then
              rbind (parseMoneyCell (cell raw (co_debit cols))) (\<lambda>debit.
              rbind (parseMoneyCell (cell raw (co_credit cols))) (\<lambda>credit.
              case debit of
                Some x \<Rightarrow> if x \<noteq> 0 then Inr (Some (abs64 x, DirectionOutflow))
                          else (case credit of Some y \<Rightarrow> if y \<noteq> 0 then Inr (Some (abs64 y, DirectionInflow)) else Inr None
                                             | None \<Rightarrow> Inr None)
              | None \<Rightarrow> (case credit of Some y \<Rightarrow> if y \<noteq> 0 then Inr (Some (abs64 y, DirectionInflow)) else Inr None
                                      | None \<Rightarrow> Inr None)))
            else Inr None)
       (\<lambda>two. case two of
          Some r \<Rightarrow> Inr r
        | None \<Rightarrow>
            rbind (parseMoneyCell (cell raw (co_amount cols))) (\<lambda>amount.
            case amount of
              None \<Rightarrow> Inl ''missing amount''
            | Some a \<Rightarrow> if i64 a < 0 then Inr (abs64 a, DirectionOutflow) else Inr (a, DirectionInflow)))"

text \<open>The eight layouts, in the order they are tried.\<close>

definition date_layouts :: "chunk list list" where
  "date_layouts = [
     iso_layout,
     [ZeroMonth, Lit ''/'', ZeroDay, Lit ''/'', LongYear],
     [NumMonth, Lit ''/'', Day, Lit ''/'', LongYear],
     [ZeroMonth, Lit ''/'', ZeroDay, Lit ''/'', ShortYear],
     [NumMonth, Lit ''/'', Day, Lit ''/'', ShortYear],
     [MonthName, Lit '' '', Day, Lit '', '', LongYear],
     [LongMonthName, Lit '' '', Day, Lit '', '', LongYear],
     [LongYear, Lit ''/'', ZeroMonth, Lit ''/'', ZeroDay]]"

fun first_date :: "chunk list list \<Rightarrow> string \<Rightarrow> date option" where
  "first_date [] v = None"
| "first_date (l # ls) v = (case parse_layout l v of Some d \<Rightarrow> Some d | None \<Rightarrow> first_date ls v)"

definition normalizeDate :: "string \<Rightarrow> string + string" where
  "normalizeDate raw =
     (let trimmed = trim_space raw in
      if trimmed = [] then Inl ''missing date''
      else case first_date date_layouts trimmed of
        None \<Rightarrow> Inl (''invalid date '' @ fmt_q raw)
      | Some d \<Rightarrow> Inr (format_iso d))"

section \<open>Rows\<close>

text \<open>\<open>hex.EncodeToString(sha256.Sum256(..))\<close> is the argument \<open>sha\<close>.\<close>

definition fold_text :: "string \<Rightarrow> string" where
  "fold_text s = to_lower (join (str_fields s) '' '')"

definition fingerprint :: "(string \<Rightarrow> string) \<Rightarrow> string \<Rightarrow> string \<Rightarrow> string \<Rightarrow> int64 \<Rightarrow> string \<Rightarrow> string" where
  "fingerprint sha date vendor memo amountCents direction =
     sha (join [date, fold_text vendor, fold_text memo, int_str (i64 amountCents), direction] ''|'')"

definition parseRow :: "int \<Rightarrow> string list \<Rightarrow> columns \<Rightarrow> import_line \<times> row_error list" where
  "parseRow rowIndex raw cols =
     (let err = (\<lambda>f e. \<lparr>re_index = rowIndex, re_field = f, re_error = e, re_raw = raw\<rparr>);
          (date, errs1) = (if 0 \<le> co_date cols \<and> co_date cols < int (length raw)
             then (case normalizeDate (raw ! nat (co_date cols)) of
                     Inl e \<Rightarrow> ([], [err ''date'' e]) | Inr d \<Rightarrow> (d, []))
             else ([], []));
          vendor0 = first_given [cell raw (co_vendor cols), cell raw (co_description cols)];
          memo = first_given [cell raw (co_memo cols), cell raw (co_description cols), vendor0];
          vendor = (if vendor0 = [] then memo else vendor0);
          (amount, direction, errs2) = (case parseAmount raw cols of
             Inl e \<Rightarrow> (0, DirectionUnknown, [err ''amount'' e]) | Inr (a, dir) \<Rightarrow> (a, dir, []));
          errs3 = (if date = [] \<and> 0 \<le> co_date cols \<and> trim_space (cell raw (co_date cols)) = []
             then [err ''date'' ''missing date''] else []);
          errs4 = (if vendor = [] then [err ''vendor'' ''missing vendor or description''] else [])
      in (\<lparr>il_index = rowIndex, il_date = date, il_vendor = vendor, il_memo = memo, il_amount = amount,
           il_direction = direction, il_fingerprint = [], il_raw = raw\<rparr>, errs1 @ errs2 @ errs3 @ errs4))"

section \<open>The file\<close>

definition vendor_before :: "vendor_total \<Rightarrow> vendor_total \<Rightarrow> bool" where
  "vendor_before a b \<longleftrightarrow>
     i64 (vt_total b) < i64 (vt_total a) \<or>
     (vt_total a = vt_total b \<and> vt_count b < vt_count a) \<or>
     (vt_total a = vt_total b \<and> vt_count a = vt_count b \<and> str_less (vt_name a) (vt_name b))"

text \<open>The inner loop \<open>for j := i + 1\<close>: the element at \<open>i\<close> is exchanged with every later one that belongs before it.\<close>

fun exchange_pass :: "('a \<Rightarrow> 'a \<Rightarrow> bool) \<Rightarrow> 'a \<Rightarrow> 'a list \<Rightarrow> 'a \<times> 'a list" where
  "exchange_pass lt x [] = (x, [])"
| "exchange_pass lt x (y # ys) =
     (if lt y x then (case exchange_pass lt y ys of (m, r) \<Rightarrow> (m, x # r))
      else (case exchange_pass lt x ys of (m, r) \<Rightarrow> (m, y # r)))"

lemma length_exchange_pass: "exchange_pass lt x ys = (m, r) \<Longrightarrow> length r = length ys"
  by (induction ys arbitrary: x m r) (auto split: prod.splits if_splits)

function exchange_sort :: "('a \<Rightarrow> 'a \<Rightarrow> bool) \<Rightarrow> 'a list \<Rightarrow> 'a list" where
  "exchange_sort lt [] = []"
| "exchange_sort lt (x # xs) =
     (case exchange_pass lt x xs of (m, r) \<Rightarrow> m # exchange_sort lt r)"
  by pat_completeness auto
termination
  by (relation "measure (\<lambda>(lt, xs). length xs)") (auto dest: length_exchange_pass [OF sym])

definition topVendors :: "vendor_total list \<Rightarrow> string \<times> vendor_total list" where
  "topVendors vendors =
     (let stats = exchange_sort vendor_before vendors
      in (if length stats = 0 then [] else vt_name (hd stats), take 3 stats))"

fun add_vendor :: "string \<Rightarrow> int64 \<Rightarrow> vendor_total list \<Rightarrow> vendor_total list" where
  "add_vendor name amount [] = [\<lparr>vt_name = name, vt_count = 1, vt_total = amount\<rparr>]"
| "add_vendor name amount (v # vs) =
     (if vt_name v = name then v\<lparr>vt_count := vt_count v + 1, vt_total := vt_total v + amount\<rparr> # vs
      else v # add_vendor name amount vs)"

definition uniqueInts :: "int list \<Rightarrow> int list" where
  "uniqueInts values = dedup_from [] values"

record scan =
  sc_rows :: "import_line list"
  sc_errors :: "row_error list"
  sc_count :: int
  sc_parsed :: int
  sc_bad :: int
  sc_out :: int64
  sc_in :: int64
  sc_seen :: "(string \<times> int) list"
  sc_dups :: "int list"
  sc_vendors :: "vendor_total list"

definition scan_start :: scan where
  "scan_start = \<lparr>sc_rows = [], sc_errors = [], sc_count = 0, sc_parsed = 0, sc_bad = 0, sc_out = 0, sc_in = 0,
     sc_seen = [], sc_dups = [], sc_vendors = []\<rparr>"

definition accept_row :: "(string \<Rightarrow> string) \<Rightarrow> import_line \<Rightarrow> scan \<Rightarrow> scan" where
  "accept_row sha row0 s =
     (let fp = fingerprint sha (il_date row0) (il_vendor row0) (il_memo row0) (il_amount row0) (il_direction row0);
          row = row0\<lparr>il_fingerprint := fp\<rparr>;
          s = (case map_of (sc_seen s) fp of
                 Some previous \<Rightarrow> s\<lparr>sc_dups := sc_dups s @ [previous, il_index row]\<rparr>
               | None \<Rightarrow> s\<lparr>sc_seen := sc_seen s @ [(fp, il_index row)]\<rparr>);
          s = s\<lparr>sc_rows := sc_rows s @ [row], sc_parsed := sc_parsed s + 1\<rparr>;
          s = (if il_direction row = DirectionInflow then s\<lparr>sc_in := sc_in s + il_amount row\<rparr>
               else s\<lparr>sc_out := sc_out s + il_amount row\<rparr>)
      in if il_vendor row \<noteq> [] then s\<lparr>sc_vendors := add_vendor (il_vendor row) (il_amount row) (sc_vendors s)\<rparr> else s)"

definition scan_row :: "(string \<Rightarrow> string) \<Rightarrow> columns \<Rightarrow> int \<Rightarrow> string list \<Rightarrow> scan \<Rightarrow> scan" where
  "scan_row sha cols rowIndex raw s =
     (if isBlankRow raw then s
      else let s = s\<lparr>sc_count := sc_count s + 1\<rparr> in
        case parseRow rowIndex raw cols of (row, errs) \<Rightarrow>
          if length errs > 0 then s\<lparr>sc_errors := sc_errors s @ errs, sc_bad := sc_bad s + 1\<rparr>
          else if i64 (il_amount row) \<le> 0
          then s\<lparr>sc_errors := sc_errors s @ [\<lparr>re_index = rowIndex, re_field = ''amount'',
                   re_error = ''missing or zero amount'', re_raw = raw\<rparr>], sc_bad := sc_bad s + 1\<rparr>
          else accept_row sha row s)"

fun scan_rows :: "(string \<Rightarrow> string) \<Rightarrow> columns \<Rightarrow> int \<Rightarrow> string list list \<Rightarrow> scan \<Rightarrow> scan" where
  "scan_rows sha cols i [] s = s"
| "scan_rows sha cols i (raw # raws) s = scan_rows sha cols (i + 1) raws (scan_row sha cols i raw s)"

definition empty_summary :: import_summary where
  "empty_summary = \<lparr>is_row_count = 0, is_parsed = 0, is_errors = 0, is_outflow = 0, is_inflow = 0, is_total = 0, is_top = [],
     is_tops = [], is_duplicates = []\<rparr>"

definition empty_result :: import_result where
  "empty_result = \<lparr>ip_rows = [], ip_errors = [], ip_summary = empty_summary\<rparr>"

definition result_of :: "scan \<Rightarrow> import_result" where
  "result_of s =
     (case topVendors (sc_vendors s) of (name, tops) \<Rightarrow>
        \<lparr>ip_rows = sc_rows s, ip_errors = sc_errors s,
         ip_summary = \<lparr>is_row_count = sc_count s, is_parsed = sc_parsed s, is_errors = sc_bad s, is_outflow = sc_out s,
           is_inflow = sc_in s, is_total = sc_out s + sc_in s, is_top = name, is_tops = tops,
           is_duplicates = uniqueInts (sc_dups s)\<rparr>\<rparr>)"

definition positional_columns :: columns where
  "positional_columns = no_columns\<lparr>co_date := 0, co_vendor := 1, co_amount := 2\<rparr>"

definition parseRecords :: "(string \<Rightarrow> string) \<Rightarrow> string list list \<Rightarrow> import_result" where
  "parseRecords sha records =
     (case records of
        [] \<Rightarrow> empty_result
      | header # rows \<Rightarrow>
          let cols = detectColumns header in
          if hasUsefulHeader cols then result_of (scan_rows sha cols 1 rows scan_start)
          else result_of (scan_rows sha positional_columns 1 records scan_start))"

definition csv_result :: "(string \<Rightarrow> string) \<Rightarrow> string + string list list \<Rightarrow> import_result" where
  "csv_result sha r = (case r of
     Inl err \<Rightarrow> empty_result\<lparr>ip_errors := [\<lparr>re_index = 0, re_field = [], re_error = err, re_raw = []\<rparr>]\<rparr>
   | Inr records \<Rightarrow> parseRecords sha records)"

definition ParseCSV :: "(string \<Rightarrow> string) \<Rightarrow> string \<Rightarrow> import_result" where
  "ParseCSV sha raw =
     (let trimmed = trim_space raw in
      if trimmed = [] then empty_result else csv_result sha (csv_read_all trimmed))"

definition ParseCSVReader :: "(string \<Rightarrow> string) \<Rightarrow> string \<Rightarrow> import_result" where
  "ParseCSVReader sha input = csv_result sha (csv_read_all input)"

section \<open>Dates are normalised\<close>

lemma digits_int_bound: "list_all is_digit s \<Longrightarrow> 0 \<le> digits_int s \<and> digits_int s < 10 ^ length s"
proof (induction s rule: rev_induct)
  case Nil
  then show ?case by (simp add: digits_int_def)
next
  case (snoc c s)
  then have "0 \<le> digits_int s" "digits_int s < 10 ^ length s" by auto
  moreover have "0 \<le> digit_val c" "digit_val c < 10" using digit_val_range [of c] by auto
  ultimately show ?case by (simp add: digits_int_def)
qed

lemma time_atoi_bound: "time_atoi s = Some y \<Longrightarrow> length s \<le> 2 \<Longrightarrow> - 100 < y \<and> y < 100"
proof -
  assume y: "time_atoi s = Some y" and l: "length s \<le> 2"
  have b: "0 \<le> digits_int t \<and> digits_int t < 100" if "list_all is_digit t" "length t \<le> 2" for t
  proof -
    have "(10 :: int) ^ length t \<le> 10 ^ 2" by (rule power_increasing) (use that in auto)
    then show ?thesis using digits_int_bound [OF that(1)] by simp
  qed
  show ?thesis
    using y l b [of s] b [of "tl s"] by (cases s) (auto simp: time_atoi_def split: if_splits)
qed

lemma lookup_name_range: "lookup_name i ns v = Some (m, r) \<Longrightarrow> i \<le> m \<and> m < i + int (length ns)"
  by (induction i ns v rule: lookup_name.induct) (auto split: if_splits)

definition date_ok :: "date \<Rightarrow> bool" where
  "date_ok d \<longleftrightarrow> 0 \<le> d_year d \<and> d_year d \<le> 9999 \<and> 1 \<le> d_month d \<and> d_month d \<le> 12"

lemma parse_chunk_ok:
  assumes "parse_chunk c d v = Some (d', v')" "date_ok d"
  shows "date_ok d'"
proof (cases c)
  case LongYear
  then obtain y where y: "d' = d\<lparr>d_year := y\<rparr>" "time_atoi (take 4 v) = Some y" "is_digit (hd v)" "4 \<le> length v"
    using assms(1) by (auto split: if_splits)
  obtain a t where v: "take 4 v = a # t" "is_digit a" "length (a # t) = 4"
    using y(3,4) by (cases v) auto
  then have "list_all is_digit (a # t)" "y = digits_int (a # t)"
    using y(2) time_atoi_digit_head [of a t y] by auto
  then show ?thesis using digits_int_bound [of "a # t"] v(3) assms(2) y(1) by (simp add: date_ok_def)
next
  case ShortYear
  then have "map_option (\<lambda>y. (d\<lparr>d_year := (if 69 \<le> y then y + 1900 else y + 2000)\<rparr>, drop 2 v)) (time_atoi (take 2 v)) = Some (d', v')"
    using assms(1) unfolding ShortYear parse_chunk.simps by (cases "length v < 2") simp_all
  then obtain y where "d' = d\<lparr>d_year := (if 69 \<le> y then y + 1900 else y + 2000)\<rparr>" "time_atoi (take 2 v) = Some y"
    unfolding map_option_eq_Some by blast
  then show ?thesis using time_atoi_bound [of "take 2 v" y] assms(2) by (auto simp: date_ok_def)
next
  case MonthName
  then obtain m r where "lookup_name 1 short_months v = Some (m, r)" "d' = d\<lparr>d_month := m\<rparr>" using assms(1) by auto
  then show ?thesis using lookup_name_range [of 1 short_months v m r] assms(2) by (simp add: date_ok_def short_months_def)
next
  case LongMonthName
  then obtain m r where "lookup_name 1 long_months v = Some (m, r)" "d' = d\<lparr>d_month := m\<rparr>" using assms(1) by auto
  then show ?thesis using lookup_name_range [of 1 long_months v m r] assms(2) by (simp add: date_ok_def long_months_def)
qed (use assms in \<open>auto simp: date_ok_def split: option.splits if_splits\<close>)

lemma parse_layout_ok: "parse_layout cs v = Some d \<Longrightarrow> parse_iso (format_iso d) = Some d"
proof -
  assume p: "parse_layout cs v = Some d"
  have chunks: "parse_chunks cs d0 v = Some d \<Longrightarrow> date_ok d0 \<Longrightarrow> date_ok d" for cs d0 v
    by (induction cs d0 v rule: parse_chunks.induct) (fastforce split: if_splits option.splits dest: parse_chunk_ok)+
  have "date_ok d" "1 \<le> d_day d" "d_day d \<le> days_in (d_month d) (d_year d)"
    using p chunks [of cs "\<lparr>d_year = 0, d_month = 1, d_day = 1\<rparr>" v]
    by (auto simp: parse_layout_def date_ok_def split: option.splits if_splits)
  then show ?thesis by (intro parse_iso_format) (auto simp: valid_date_def date_ok_def)
qed

lemma normalizeDate_ok: "normalizeDate raw = Inr s \<Longrightarrow> \<exists>d. parse_iso s = Some d"
proof -
  assume n: "normalizeDate raw = Inr s"
  have f: "first_date ls v = Some d \<Longrightarrow> parse_iso (format_iso d) = Some d" for ls v d
    by (induction ls v rule: first_date.induct) (auto split: option.splits intro: parse_layout_ok)
  then show ?thesis using n by (auto simp: normalizeDate_def Let_def split: if_splits option.splits)
qed

section \<open>What a parsed row is\<close>

definition line_ok :: "(string \<Rightarrow> string) \<Rightarrow> import_line \<Rightarrow> bool" where
  "line_ok sha r \<longleftrightarrow> 0 < i64 (il_amount r) \<and> il_direction r \<in> {DirectionInflow, DirectionOutflow} \<and>
     il_vendor r \<noteq> [] \<and> il_memo r \<noteq> [] \<and> 1 \<le> il_index r \<and>
     (il_date r = [] \<or> (\<exists>d. parse_iso (il_date r) = Some d)) \<and>
     il_fingerprint r = fingerprint sha (il_date r) (il_vendor r) (il_memo r) (il_amount r) (il_direction r)"

definition summary_ok :: "import_result \<Rightarrow> bool" where
  "summary_ok p \<longleftrightarrow> (let m = ip_summary p in
     is_row_count m = is_parsed m + is_errors m \<and> is_parsed m = int (length (ip_rows p)) \<and>
     is_inflow m = sum64 il_amount (filter (\<lambda>r. il_direction r = DirectionInflow) (ip_rows p)) \<and>
     is_outflow m = sum64 il_amount (filter (\<lambda>r. il_direction r \<noteq> DirectionInflow) (ip_rows p)) \<and>
     is_total m = is_outflow m + is_inflow m)"

lemma first_given_Nil: "first_given vs = [] \<longleftrightarrow> (\<forall>v\<in>set vs. trim_space v = [])"
  by (induction vs) auto

lemma parseAmount_direction: "parseAmount raw cols = Inr (a, dir) \<Longrightarrow> dir = DirectionInflow \<or> dir = DirectionOutflow"
  unfolding parseAmount_def
  by (auto simp: rbind_Inr_iff Let_def split: if_splits option.splits)

lemma parseRow_ok:
  assumes "parseRow i raw cols = (r, [])" "0 < i64 (il_amount r)" "1 \<le> i"
  shows "line_ok sha (r\<lparr>il_fingerprint := fingerprint sha (il_date r) (il_vendor r) (il_memo r) (il_amount r) (il_direction r)\<rparr>)"
proof -
  obtain a dir where amount: "parseAmount raw cols = Inr (a, dir)" "il_direction r = dir" "il_amount r = a"
    using assms(1) by (auto simp: parseRow_def Let_def split: sum.splits prod.splits)
  have date: "il_date r = [] \<or> (\<exists>d. parse_iso (il_date r) = Some d)"
    using assms(1) normalizeDate_ok by (auto simp: parseRow_def Let_def split: sum.splits prod.splits if_splits)
  have vendor: "il_vendor r \<noteq> []" and index: "il_index r = i"
    using assms(1) by (auto simp: parseRow_def Let_def split: prod.splits if_splits)
  have memo: "il_memo r \<noteq> []"
    using assms(1) by (auto simp: parseRow_def Let_def first_given_Nil split: prod.splits if_splits)
  show ?thesis using parseAmount_direction [OF amount(1)] amount assms(2,3) date vendor index memo by (simp add: line_ok_def)
qed

definition scan_ok :: "(string \<Rightarrow> string) \<Rightarrow> scan \<Rightarrow> bool" where
  "scan_ok sha s \<longleftrightarrow> list_all (line_ok sha) (sc_rows s) \<and> sc_count s = sc_parsed s + sc_bad s \<and>
     sc_parsed s = int (length (sc_rows s)) \<and>
     sc_in s = sum64 il_amount (filter (\<lambda>r. il_direction r = DirectionInflow) (sc_rows s)) \<and>
     sc_out s = sum64 il_amount (filter (\<lambda>r. il_direction r \<noteq> DirectionInflow) (sc_rows s))"

lemma accept_row_ok:
  assumes "scan_ok sha s'" "s = s'\<lparr>sc_count := sc_count s' + 1\<rparr>"
    "line_ok sha (r\<lparr>il_fingerprint := fingerprint sha (il_date r) (il_vendor r) (il_memo r) (il_amount r) (il_direction r)\<rparr>)"
  shows "scan_ok sha (accept_row sha r s)"
  using assms by (auto simp: accept_row_def scan_ok_def Let_def split: option.split)

lemma scan_row_ok: "scan_ok sha s \<Longrightarrow> 1 \<le> i \<Longrightarrow> scan_ok sha (scan_row sha cols i raw s)"
proof -
  assume s: "scan_ok sha s" "1 \<le> i"
  obtain r errs where p: "parseRow i raw cols = (r, errs)" by (cases "parseRow i raw cols")
  show ?thesis
  proof (cases "isBlankRow raw \<or> errs \<noteq> [] \<or> i64 (il_amount r) \<le> 0")
    case True
    then show ?thesis using s p by (auto simp: scan_row_def scan_ok_def Let_def)
  next
    case False
    then show ?thesis using accept_row_ok [OF s(1) refl parseRow_ok] s p by (auto simp: scan_row_def Let_def)
  qed
qed

lemma scan_rows_ok: "scan_ok sha s \<Longrightarrow> 1 \<le> i \<Longrightarrow> scan_ok sha (scan_rows sha cols i raws s)"
  by (induction raws arbitrary: i s) (simp_all add: scan_row_ok)

lemma result_of_ok: "scan_ok sha s \<Longrightarrow> list_all (line_ok sha) (ip_rows (result_of s)) \<and> summary_ok (result_of s)"
  by (auto simp: result_of_def summary_ok_def scan_ok_def Let_def split: prod.split)

lemma parseRecords_ok: "list_all (line_ok sha) (ip_rows (parseRecords sha rs)) \<and> summary_ok (parseRecords sha rs)"
proof -
  have start: "scan_ok sha scan_start" by (simp add: scan_ok_def scan_start_def)
  have empty: "list_all (line_ok sha) (ip_rows empty_result) \<and> summary_ok empty_result"
    by (simp add: empty_result_def summary_ok_def empty_summary_def)
  show ?thesis
    using result_of_ok [OF scan_rows_ok [OF start]] empty
    by (auto simp: parseRecords_def Let_def simp del: scan_rows.simps split: list.split)
qed

text \<open>
  C34.  Every row the importer returns has a positive amount, a direction, a vendor, a memo and a date that is absent or a
  valid date in ISO form, and its fingerprint is that of its fields; the summary counts and sums exactly these rows.
\<close>

theorem ParseCSV_ok: "list_all (line_ok sha) (ip_rows (ParseCSV sha raw)) \<and> summary_ok (ParseCSV sha raw)"
proof -
  have empty: "list_all (line_ok sha) (ip_rows (empty_result\<lparr>ip_errors := e\<rparr>)) \<and> summary_ok (empty_result\<lparr>ip_errors := e\<rparr>)" for e
    by (simp add: empty_result_def summary_ok_def empty_summary_def)
  show ?thesis
    using parseRecords_ok empty empty [of "[]"] by (auto simp: ParseCSV_def csv_result_def Let_def empty_result_def split: sum.split)
qed

section \<open>The top vendors\<close>

text \<open>The exchange sort sorts any list of distinct elements of a strict linear order.\<close>

definition linear_on :: "('a \<Rightarrow> 'a \<Rightarrow> bool) \<Rightarrow> 'a set \<Rightarrow> bool" where
  "linear_on lt S \<longleftrightarrow> (\<forall>a\<in>S. \<forall>b\<in>S. \<forall>c\<in>S. lt a b \<longrightarrow> lt b c \<longrightarrow> lt a c) \<and> (\<forall>a\<in>S. \<not> lt a a) \<and>
     (\<forall>a\<in>S. \<forall>b\<in>S. a \<noteq> b \<longrightarrow> lt a b \<or> lt b a)"

lemma linear_onD:
  assumes "linear_on lt S"
  shows "a \<in> S \<Longrightarrow> b \<in> S \<Longrightarrow> c \<in> S \<Longrightarrow> lt a b \<Longrightarrow> lt b c \<Longrightarrow> lt a c"
    and "a \<in> S \<Longrightarrow> b \<in> S \<Longrightarrow> a \<noteq> b \<Longrightarrow> lt a b \<or> lt b a"
  using assms unfolding linear_on_def by blast+

lemma exchange_pass_min:
  assumes "linear_on lt S" "exchange_pass lt x ys = (m, r)" "set (x # ys) \<subseteq> S" "distinct (x # ys)"
  shows "mset (m # r) = mset (x # ys) \<and> (\<forall>y\<in>set r. lt m y)"
  using assms(2-4)
proof (induction ys arbitrary: x m r)
  case Nil
  then show ?case by simp
next
  case (Cons y ys)
  define w where "w = (if lt y x then y else x)"
  define l where "l = (if lt y x then x else y)"
  obtain r' where p: "exchange_pass lt w ys = (m, r')" "r = l # r'"
    using Cons.prems(1) by (auto simp: w_def l_def split: if_splits prod.splits)
  have wl: "lt w l" and S: "w \<in> S" "l \<in> S" "set (w # ys) \<subseteq> S" "distinct (w # ys)"
    using Cons.prems(2,3) linear_onD(2) [OF assms(1), of x y] by (auto simp: w_def l_def)
  have ih: "mset (m # r') = mset (w # ys)" "\<forall>y\<in>set r'. lt m y" using Cons.IH [OF p(1) S(3,4)] by auto
  have w: "m = w \<or> w \<in> set r'" and m: "m \<in> S"
    using mset_eq_setD [OF ih(1)] S(3) by auto
  have "lt m l" using w wl ih(2) linear_onD(1) [OF assms(1) m S(1,2)] by auto
  moreover have "mset (m # r) = mset (x # y # ys)" using ih(1) p(2) by (auto simp: w_def l_def)
  ultimately show ?case using ih(2) p(2) by simp
qed

lemma exchange_sort_sorted:
  assumes "linear_on lt S"
  shows "set xs \<subseteq> S \<Longrightarrow> distinct xs \<Longrightarrow> mset (exchange_sort lt xs) = mset xs \<and> sorted_wrt lt (exchange_sort lt xs)"
proof (induction xs rule: length_induct)
  case (1 xs)
  show ?case
  proof (cases xs)
    case Nil
    then show ?thesis by simp
  next
    case (Cons x ys)
    obtain m r where p: "exchange_pass lt x ys = (m, r)" by (cases "exchange_pass lt x ys")
    have pass: "mset (m # r) = mset xs" "\<forall>y\<in>set r. lt m y"
      using exchange_pass_min [OF assms p] "1.prems" Cons by auto
    have r: "set r \<subseteq> S" "distinct r" "length r < length xs"
      using mset_eq_setD [OF pass(1)] mset_eq_imp_distinct_iff [OF pass(1)] mset_eq_length [OF pass(1)] "1.prems" by auto
    then have "mset (exchange_sort lt r) = mset r" "sorted_wrt lt (exchange_sort lt r)" using "1.IH" by auto
    then show ?thesis using pass p Cons mset_eq_setD [of "exchange_sort lt r" r] by simp
  qed
qed

lemma sorted_unique:
  assumes "linear_on lt S"
  shows "mset xs = mset ys \<Longrightarrow> sorted_wrt lt xs \<Longrightarrow> sorted_wrt lt ys \<Longrightarrow> set xs \<subseteq> S \<Longrightarrow> xs = ys"
proof (induction xs arbitrary: ys)
  case Nil
  then show ?case by simp
next
  case (Cons x xs)
  then obtain y zs where ys: "ys = y # zs" by (cases ys) auto
  have "set (x # xs) = set (y # zs)" using mset_eq_setD [OF Cons.prems(1)] ys by simp
  then have "y = x \<or> lt x y \<and> lt y x \<and> x \<in> S \<and> y \<in> S" using Cons.prems ys by auto
  then have "y = x" using assms unfolding linear_on_def by blast
  then show ?case using Cons ys by simp
qed

lemma vendor_before_linear: "inj_on vt_name S \<Longrightarrow> linear_on vendor_before S"
proof -
  assume inj: "inj_on vt_name S"
  have "vendor_before a b \<Longrightarrow> vendor_before b c \<Longrightarrow> vendor_before a c" for a b c
    by (auto simp: vendor_before_def intro: str_less_trans)
  moreover have "\<not> vendor_before a a" for a by (simp add: vendor_before_def str_less_irrefl)
  moreover have "vendor_before a b \<or> vendor_before b a" if "a \<in> S" "b \<in> S" "a \<noteq> b" for a b
  proof -
    have "vt_name a \<noteq> vt_name b" using inj that by (auto dest: inj_onD)
    then show ?thesis using str_less_total [of "vt_name a" "vt_name b"]
      by (auto simp: vendor_before_def i64_eq_iff)
  qed
  ultimately show ?thesis unfolding linear_on_def by blast
qed

text \<open>
  The importer's top vendors do not depend on the order in which Go iterates the map of vendor totals: any two orders
  of the same totals, one per vendor name, give the same top vendor and the same three totals.
\<close>

theorem top_vendors_order: "mset vs = mset vs' \<Longrightarrow> distinct (map vt_name vs) \<Longrightarrow> topVendors vs = topVendors vs'"
proof -
  assume a: "mset vs = mset vs'" "distinct (map vt_name vs)"
  have lin: "linear_on vendor_before (set vs)" using a(2) by (intro vendor_before_linear) (simp add: distinct_map)
  have set: "set vs' = set vs" and d: "distinct vs" "distinct vs'"
    using mset_eq_setD [OF a(1)] mset_eq_imp_distinct_iff [OF a(1)] a(2) by (simp_all add: distinct_map)
  have "exchange_sort vendor_before vs = exchange_sort vendor_before vs'"
    using exchange_sort_sorted [OF lin, of vs] exchange_sort_sorted [OF lin, of vs'] set d a(1)
      sorted_unique [OF lin, of "exchange_sort vendor_before vs" "exchange_sort vendor_before vs'"]
      mset_eq_setD [of "exchange_sort vendor_before vs" vs] by simp
  then show ?thesis by (simp add: topVendors_def)
qed

definition two_vendors :: "vendor_total list" where
  "two_vendors = [\<lparr>vt_name = ''Acme'', vt_count = 1, vt_total = 500\<rparr>, \<lparr>vt_name = ''Cafe'', vt_count = 2, vt_total = 900\<rparr>]"

theorem top_vendors_order_witness: "topVendors (rev two_vendors) = (''Cafe'', rev two_vendors)"
proof -
  have "topVendors (rev two_vendors) = topVendors two_vendors"
    by (rule top_vendors_order [OF mset_rev]) (simp add: two_vendors_def)
  also have "\<dots> = (''Cafe'', rev two_vendors)" by code_simp
  finally show ?thesis .
qed

section \<open>Amounts on a statement\<close>

text \<open>An amount as a statement prints it: dollars and two decimals, in parentheses when it is negative.\<close>

definition amount_digits :: "int \<Rightarrow> string" where
  "amount_digits m = nat_str (m div 100) @ ''.'' @ [digit_char (m mod 100 div 10), digit_char m]"

definition amount_text :: "int \<Rightarrow> string" where
  "amount_text n = (if n < 0 then ''($'' @ amount_digits (- n) @ '')'' else ''$'' @ amount_digits n)"

lemma trim_space_id: "\<not> is_space c \<Longrightarrow> \<not> is_space d \<Longrightarrow> trim_space (c # s @ [d]) = c # s @ [d]"
  by (simp add: trim_space_def trim_left_def)

lemma digits_int_cents:
  assumes "0 \<le> m"
  shows "digits_int (nat_str (m div 100) @ [digit_char (m mod 100 div 10), digit_char m]) = m"
proof -
  have "digits_int ((nat_str (m div 100) @ [digit_char (m mod 100 div 10)]) @ [digit_char m]) =
      10 * (10 * (m div 100) + m mod 100 div 10 mod 10) + m mod 10"
    using assms by (simp add: digits_int_append del: append_assoc)
  also have "m mod 10 = m mod 100 mod 10" by (simp add: mod_mod_cancel)
  also have "m mod 100 div 10 mod 10 = m mod 100 div 10" by (rule mod_pos_pos_trivial) simp_all
  also have "10 * (10 * (m div 100) + m mod 100 div 10) + m mod 100 mod 10 = m" by (simp add: algebra_simps)
  finally show ?thesis by simp
qed

lemma cents_finite:
  assumes "0 \<le> m" "m \<le> 2 ^ 50" "fl64 (of_int m / 100) \<noteq> 0"
  shows "flog2 (fl64 (of_int m / 100)) < 1024"
proof (rule pow2_flog2)
  let ?q = "of_int m / 100 :: rat"
  show pos: "0 < fl64 ?q" using fl64_nonneg [of ?q] assms by simp
  have "m \<noteq> 0" using assms(3) by auto
  then have "of_int 1 \<le> (of_int m :: rat)" using assms(1) by (simp only: of_int_le_iff)
  moreover have m: "of_int m \<le> (of_int (2 ^ 50) :: rat)" using assms(2) by (simp only: of_int_le_iff)
  moreover have "pow2 (- 1022) \<le> pow2 (- 10)" by (rule pow2_mono) simp
  ultimately have "\<bar>fl64 ?q - ?q\<bar> \<le> \<bar>?q\<bar> / 2 ^ 53" by (intro fl64_relative) (simp add: pow2_def [of "- 10"])
  then have "fl64 ?q \<le> 2 * ?q" using assms(1) by (simp add: abs_if split: if_splits)
  also have "\<dots> < pow2 50" using m by (simp add: pow2_def)
  also have "\<dots> \<le> pow2 1024" by (rule pow2_mono) simp
  finally show "fl64 ?q < pow2 1024" .
qed

lemma parse_amount_digits:
  assumes "0 \<le> m" "m \<le> 2 ^ 50"
  shows "parse_float (amount_digits m) = Some (Fin (fl64 (of_int m / 100)))"
  unfolding amount_digits_def
  by (rule parse_float_decimal)
     (use digits_int_cents [OF assms(1)] cents_finite [OF assms] nat_str_digits in \<open>simp_all add: pow10_def\<close>)

lemma amount_digits_clean: "c \<in> set (amount_digits m) \<Longrightarrow> c \<notin> set ''$,() ''"
proof -
  assume "c \<in> set (amount_digits m)"
  then have "c = CHR ''.'' \<or> is_digit c"
    using nat_str_digits [of "m div 100"] unfolding amount_digits_def list_all_iff by auto
  then show ?thesis
  proof
    assume "is_digit c"
    then show ?thesis using is_digit_others [of c] by simp
  qed simp
qed

lemma amount_text_clean: "remove_bytes ''$,() '' (amount_text n) = amount_digits \<bar>n\<bar>"
proof -
  have "remove_bytes ''$,() '' (amount_digits m) = amount_digits m" for m
    unfolding remove_bytes_def by (rule filter_True) (use amount_digits_clean in blast)
  then show ?thesis by (simp add: amount_text_def remove_bytes_def)
qed

lemma amount_text_trim: "trim_space (amount_text n) = amount_text n"
proof -
  have space: "\<not> is_space CHR ''(''" "\<not> is_space CHR '')''" "\<not> is_space CHR ''$''" by (simp_all add: is_space_def)
  show ?thesis
    using trim_space_id [OF space(1,2), of "''$'' @ amount_digits (- n)"]
      trim_space_id [OF space(3) digit_char_not_space, of "nat_str (n div 100) @ ''.'' @ [digit_char (n mod 100 div 10)]" n]
    by (simp add: amount_text_def amount_digits_def)
qed

lemma amount_text_sign: "has_prefix (amount_text n) ''('' \<and> has_suffix (amount_text n) '')'' \<longleftrightarrow> n < 0"
  by (simp add: amount_text_def has_prefix_def has_suffix_def)

text \<open>
  C33.  Reading back an amount that a statement prints, dollars and cents with a sign in parentheses, gives exactly its cents,
  up to eleven trillion dollars, although the importer computes them in floating point.
\<close>

theorem money_roundtrip: "\<bar>n\<bar> \<le> 2 ^ 50 \<Longrightarrow> parseMoneyCell (amount_text n) = Inr (Some (word_of_int n))"
proof -
  assume n: "\<bar>n\<bar> \<le> 2 ^ 50"
  let ?v = "fl64 (of_int \<bar>n\<bar> / 100)"
  have signed: "(if n < 0 then - ?v else ?v) = fl64 (of_int n / 100)"
    using fl64_uminus [of "of_int n / 100"] by simp
  have nonempty: "amount_text n \<noteq> []" "amount_digits \<bar>n\<bar> \<noteq> []" by (simp_all add: amount_text_def amount_digits_def)
  have "parseMoneyCell (amount_text n) = Inr (Some (float_to_int64 (of_int (math_round (fl64 (fl64 (of_int n / 100) * 100))))))"
    using parse_amount_digits [of "\<bar>n\<bar>"] n nonempty unfolding signed [symmetric]
    by (simp only: parseMoneyCell_def amount_text_trim amount_text_clean amount_text_sign Let_def if_False option.case fval.case abs_ge_zero)
  also have "\<dots> = Inr (Some (word_of_int n))"
    using cents_exact [OF n] n float_to_int64_of_int [of n] by (simp add: in_int64_def abs_le_iff)
  finally show ?thesis .
qed

theorem money_roundtrip_witness:
  "amount_text (- 123456) = ''($1234.56)'' \<and> parseMoneyCell ''($1234.56)'' = Inr (Some (- 123456))"
proof -
  have "amount_text (- 123456) = ''($1234.56)''" by code_simp
  then show ?thesis using money_roundtrip [of "- 123456"] by simp
qed

end
