(* ===== verification/Suggest_Entries.thy ===== *)
theory Suggest_Entries
  imports Importer Stores Artifacts
begin

text \<open>
  From a stored suggestion to the lines of a draft, the pure part of \<open>cmd/worker/main.go\<close>: \<open>buildEntriesFromSuggestion\<close>
  and \<open>buildImportEntriesFromSuggestion\<close> with their readers.  A decoded JSON value is a \<open>json\<close>; an object is the Go map it
  decodes to, an association list whose keys are looked up from the front.  Go iterates the two maps of sums in any order
  before it sorts the accounts, so their order here is immaterial.

  The lemmas say when the lines for a bank statement balance: \<open>import_entries_balance\<close>.
\<close>

section \<open>Reading the payload\<close>

datatype json =
    VString string
  | VNumber string
  | VFloat fval
  | VBool bool
  | VNull
  | VArray "json list"
  | VObject "(string \<times> json) list"

type_synonym payload = "(string \<times> json) list"

definition parseString :: "payload \<Rightarrow> string \<Rightarrow> string" where
  "parseString payload key = (case map_of payload key of Some (VString s) \<Rightarrow> s | _ \<Rightarrow> [])"

definition int_or_zero :: "string \<Rightarrow> int64" where
  "int_or_zero s = (case parse_int s of None \<Rightarrow> 0 | Some n \<Rightarrow> word_of_int n)"

definition parseInt64 :: "payload \<Rightarrow> string \<Rightarrow> int64" where
  "parseInt64 payload key =
     (case map_of payload key of
        None \<Rightarrow> 0
      | Some v \<Rightarrow>
          (case v of
             VNumber s \<Rightarrow> int_or_zero s
           | VFloat f \<Rightarrow> (case f of Fin q \<Rightarrow> float_to_int64 q | NonFin \<Rightarrow> float_to_int64 (2 ^ 63))
           | VString s \<Rightarrow> int_or_zero s
           | _ \<Rightarrow> 0))"

definition draft_line_of :: "string \<Rightarrow> int64 \<Rightarrow> int64 \<Rightarrow> draft_line" where
  "draft_line_of account debit credit =
     \<lparr>dl_id = [], dl_draft = [], dl_account = account, dl_debit = debit, dl_credit = credit\<rparr>"

section \<open>Lines the suggestion spells out\<close>

definition entry_of_item :: "json \<Rightarrow> draft_line list" where
  "entry_of_item item =
     (case item of
        VObject row \<Rightarrow>
          let accountID = parseString row ''account_id''; debit = parseInt64 row ''debit_cents'';
              credit = parseInt64 row ''credit_cents''
          in if accountID = [] then [] else if debit = 0 \<and> credit = 0 then []
             else [draft_line_of accountID debit credit]
      | _ \<Rightarrow> [])"

definition parseEntries :: "payload \<Rightarrow> draft_line list" where
  "parseEntries payload =
     (case map_of payload ''entries'' of
        Some (VArray items) \<Rightarrow> concat (map entry_of_item items)
      | _ \<Rightarrow> [])"

section \<open>Lines of a bank statement\<close>

text \<open>A row that counts: its account, whether money came in, and the amount.\<close>

definition counted_row :: "string \<Rightarrow> json \<Rightarrow> (string \<times> bool \<times> int64) option" where
  "counted_row fallback raw =
     (case raw of
        VObject row \<Rightarrow>
          let amount = parseInt64 row ''amount_cents'';
              account = (let a = parseString row ''account_id'' in if a = [] then fallback else a)
          in if i64 amount \<le> 0 then None else if account = [] then None
             else Some (account, parseString row ''direction'' = DirectionInflow, amount)
      | _ \<Rightarrow> None)"

record import_sums =
  sm_debits :: "(string \<times> int64) list"
  sm_credits :: "(string \<times> int64) list"
  sm_total :: int64
  sm_cash_debits :: int64
  sm_cash_credits :: int64

definition no_sums :: import_sums where
  "no_sums = \<lparr>sm_debits = [], sm_credits = [], sm_total = 0, sm_cash_debits = 0, sm_cash_credits = 0\<rparr>"

text \<open>\<open>m[key] += amount\<close>.\<close>

fun add_to :: "string \<Rightarrow> int64 \<Rightarrow> (string \<times> int64) list \<Rightarrow> (string \<times> int64) list" where
  "add_to key amount [] = [(key, amount)]"
| "add_to key amount ((k, n) # m) = (if k = key then (k, n + amount) # m else (k, n) # add_to key amount m)"

definition count_row :: "string \<times> bool \<times> int64 \<Rightarrow> import_sums \<Rightarrow> import_sums" where
  "count_row r s =
     (case r of (account, inflow, amount) \<Rightarrow>
        let s = (if inflow
                 then s\<lparr>sm_credits := add_to account amount (sm_credits s), sm_cash_debits := sm_cash_debits s + amount\<rparr>
                 else s\<lparr>sm_debits := add_to account amount (sm_debits s), sm_cash_credits := sm_cash_credits s + amount\<rparr>)
        in s\<lparr>sm_total := sm_total s + amount\<rparr>)"

fun count_rows :: "string \<Rightarrow> json list \<Rightarrow> import_sums \<Rightarrow> import_sums" where
  "count_rows fallback [] s = s"
| "count_rows fallback (raw # rows) s =
     count_rows fallback rows (case counted_row fallback raw of None \<Rightarrow> s | Some r \<Rightarrow> count_row r s)"

definition amount_at :: "(string \<times> int64) list \<Rightarrow> string \<Rightarrow> int64" where
  "amount_at m key = (case map_of m key of None \<Rightarrow> 0 | Some n \<Rightarrow> n)"

definition payment_account :: "payload \<Rightarrow> string \<Rightarrow> string" where
  "payment_account payload defaultCash =
     (let a = parseString payload ''payment_account_id'' in
      if a \<noteq> [] then a
      else let b = parseString payload ''credit_account_id'' in if b \<noteq> [] then b else defaultCash)"

definition positive_lines :: "string \<Rightarrow> int64 \<Rightarrow> int64 \<Rightarrow> draft_line list" where
  "positive_lines account debit credit =
     (if 0 < i64 debit then [draft_line_of account debit 0] else []) @
     (if 0 < i64 credit then [draft_line_of account 0 credit] else [])"

definition import_lines :: "string \<Rightarrow> import_sums \<Rightarrow> draft_line list" where
  "import_lines cash s =
     (let accountIDs = sort_by str_less (map fst (sm_debits s) @ map fst (sm_credits s)) in
      (if 0 < i64 (sm_cash_debits s) then [draft_line_of cash (sm_cash_debits s) 0] else []) @
      concat (map (\<lambda>a. positive_lines a (amount_at (sm_debits s) a) (amount_at (sm_credits s) a)) accountIDs) @
      (if 0 < i64 (sm_cash_credits s) then [draft_line_of cash 0 (sm_cash_credits s)] else []))"

definition buildImportEntriesFromSuggestion :: "payload \<Rightarrow> string \<Rightarrow> draft_line list" where
  "buildImportEntriesFromSuggestion payload defaultCash =
     (case map_of payload ''import_rows'' of
        Some (VArray rows) \<Rightarrow>
          if length rows = 0 then []
          else let s = count_rows (parseString payload ''account_id'') rows no_sums in
            if i64 (sm_total s) \<le> 0 \<or> (length (sm_debits s) = 0 \<and> length (sm_credits s) = 0) then []
            else let cash = payment_account payload defaultCash in if cash = [] then [] else import_lines cash s
      | _ \<Rightarrow> [])"

section \<open>The lines of a draft\<close>

definition two_lines :: "payload \<Rightarrow> int64 \<Rightarrow> string \<Rightarrow> draft_line list" where
  "two_lines payload receiptTotal defaultCash =
     (let total0 = parseInt64 payload ''total_cents''; total = (if i64 total0 \<le> 0 then receiptTotal else total0) in
      if i64 total \<le> 0 then []
      else let accountID = parseString payload ''account_id'' in
        if accountID = [] then []
        else let credit = payment_account payload defaultCash in
          [draft_line_of accountID total 0] @ (if credit \<noteq> [] then [draft_line_of credit 0 total] else []))"

text \<open>\<open>decode\<close> is \<open>json.Decoder.Decode\<close> into a map, with \<open>UseNumber\<close>.\<close>

definition buildEntriesFromSuggestion ::
  "(string \<Rightarrow> payload option) \<Rightarrow> receipt \<Rightarrow> suggestion \<Rightarrow> string \<Rightarrow> draft_line list" where
  "buildEntriesFromSuggestion decode receipt suggestion defaultCash =
     (if length (s_parsed suggestion) = 0 then []
      else case decode (s_parsed suggestion) of
        None \<Rightarrow> []
      | Some payload \<Rightarrow>
          if length (parseEntries payload) > 0 then parseEntries payload
          else let importEntries = (if r_kind receipt = ''import'' then buildImportEntriesFromSuggestion payload defaultCash else []) in
            if length importEntries > 0 then importEntries
            else two_lines payload (r_total receipt) defaultCash)"

section \<open>When the lines of a bank statement balance\<close>

type_synonym counted = "string \<times> bool \<times> int64"

abbreviation row_amount :: "counted \<Rightarrow> int64" where
  "row_amount r \<equiv> snd (snd r)"

abbreviation row_inflow :: "counted \<Rightarrow> bool" where
  "row_inflow r \<equiv> fst (snd r)"

definition counted_rows :: "payload \<Rightarrow> counted list" where
  "counted_rows payload =
     (case map_of payload ''import_rows'' of
        Some (VArray rows) \<Rightarrow> List.map_filter (counted_row (parseString payload ''account_id'')) rows
      | _ \<Rightarrow> [])"

definition accounts_of :: "bool \<Rightarrow> counted list \<Rightarrow> string set" where
  "accounts_of inflow rs = fst ` {r \<in> set rs. row_inflow r = inflow}"

text \<open>What moved in one direction on the accounts of \<open>A\<close>.\<close>

definition moved :: "bool \<Rightarrow> string set \<Rightarrow> counted list \<Rightarrow> int64" where
  "moved inflow A rs = sum64 row_amount (filter (\<lambda>r. row_inflow r = inflow \<and> fst r \<in> A) rs)"

lemma count_rows_fold:
  "count_rows fallback rows s = fold count_row (List.map_filter (counted_row fallback) rows) s"
  by (induction rows arbitrary: s) (simp_all add: List.map_filter_simps split: option.split)

lemma counted_rows_positive: "r \<in> set (counted_rows payload) \<Longrightarrow> 0 < i64 (row_amount r)"
proof -
  have "counted_row fb raw = Some r \<Longrightarrow> 0 < i64 (row_amount r)" for fb raw
    by (auto simp: counted_row_def Let_def split: json.splits if_splits)
  then show "r \<in> set (counted_rows payload) \<Longrightarrow> 0 < i64 (row_amount r)"
    by (auto simp: counted_rows_def List.map_filter_def split: option.splits json.splits)
qed

lemma amount_at_add_to: "amount_at (add_to k n m) a = amount_at m a + (if a = k then n else 0)"
  by (induction k n m rule: add_to.induct) (auto simp: amount_at_def)

lemma keys_add_to: "map fst (add_to k n m) = (if k \<in> fst ` set m then map fst m else map fst m @ [k])"
  by (induction k n m rule: add_to.induct) auto

lemma moved_simps [simp]:
  "moved i A [] = 0"
  "moved i A (rs @ [r]) = moved i A rs + (if row_inflow r = i \<and> fst r \<in> A then row_amount r else 0)"
  by (simp_all add: moved_def)

lemma accounts_of_simps [simp]:
  "accounts_of i [] = {}"
  "accounts_of i (rs @ [r]) = (if row_inflow r = i then insert (fst r) (accounts_of i rs) else accounts_of i rs)"
  by (auto simp: accounts_of_def)

text \<open>The two maps hold, for every account, what moved on it.\<close>

definition sums_of :: "counted list \<Rightarrow> import_sums \<Rightarrow> bool" where
  "sums_of rs s \<longleftrightarrow>
     distinct (map fst (sm_debits s)) \<and> fst ` set (sm_debits s) = accounts_of False rs \<and>
     (\<forall>a. amount_at (sm_debits s) a = moved False {a} rs) \<and>
     distinct (map fst (sm_credits s)) \<and> fst ` set (sm_credits s) = accounts_of True rs \<and>
     (\<forall>a. amount_at (sm_credits s) a = moved True {a} rs) \<and>
     sm_cash_debits s = moved True UNIV rs \<and> sm_cash_credits s = moved False UNIV rs"

lemma fst_set_add_to: "fst ` set (add_to k n m) = insert k (fst ` set m)"
proof -
  have "fst ` set (add_to k n m) = set (map fst (add_to k n m))" by simp
  also have "\<dots> = insert k (fst ` set m)" unfolding keys_add_to by auto
  finally show ?thesis .
qed

lemma distinct_add_to: "distinct (map fst m) \<Longrightarrow> distinct (map fst (add_to k n m))"
  unfolding keys_add_to by auto

lemma count_row_sums: "sums_of rs s \<Longrightarrow> sums_of (rs @ [r]) (count_row r s)"
proof -
  assume h: "sums_of rs s"
  obtain a i n where r: "r = (a, i, n)" by (cases r)
  show ?thesis
    using h by (cases i) (auto simp: sums_of_def count_row_def r Let_def fst_set_add_to distinct_add_to amount_at_add_to)
qed

lemma count_rows_sums: "sums_of rs (fold count_row rs no_sums)"
proof (induction rs rule: rev_induct)
  case Nil
  then show ?case by (simp add: sums_of_def no_sums_def amount_at_def)
next
  case (snoc r rs)
  then show ?case using count_row_sums by simp
qed

text \<open>Sums over the accounts of a map are sums over the rows.\<close>

lemma moved_union: "A \<inter> B = {} \<Longrightarrow> moved i (A \<union> B) rs = moved i A rs + moved i B rs"
  by (induction rs) (auto simp: moved_def)

lemma sum_moved: "distinct ks \<Longrightarrow> sum64 (\<lambda>a. moved i {a} rs) ks = moved i (set ks) rs"
proof (induction ks)
  case Nil
  then show ?case by (simp add: moved_def)
next
  case (Cons k ks)
  then show ?case using moved_union [of "{k}" "set ks" i rs] by simp
qed

lemma mset_insert_by [simp]: "mset (insert_by lt x ys) = add_mset x (mset ys)"
  by (induction ys) auto

lemma mset_sort_by [simp]: "mset (sort_by lt xs) = mset xs"
proof -
  have "mset (foldl (\<lambda>acc x. insert_by lt x acc) acc xs) = mset acc + mset xs" for acc
    by (induction xs arbitrary: acc) auto
  then show ?thesis by (simp add: sort_by_def)
qed

lemma sum64_mset: "mset xs = mset ys \<Longrightarrow> sum64 f xs = sum64 f ys"
  unfolding sum64_eq_sum_list by (metis mset_map sum_mset_sum_list)

lemma sum64_concat: "sum64 f (concat xss) = sum64 (sum64 f) xss"
  by (induction xss) auto

lemma moved_nonneg:
  assumes "\<forall>r\<in>set rs. 0 < i64 (row_amount r)" "in_int64 (\<Sum>r\<leftarrow>rs. i64 (row_amount r))"
  shows "0 \<le> i64 (moved i A rs)"
proof -
  let ?P = "\<lambda>r. row_inflow r = i \<and> fst r \<in> A"
  have all: "\<forall>r\<in>set rs. 0 \<le> i64 (row_amount r)" using assms(1) by auto
  then have part: "0 \<le> (\<Sum>r\<leftarrow>filter ?P rs. i64 (row_amount r)) \<and>
      (\<Sum>r\<leftarrow>filter ?P rs. i64 (row_amount r)) \<le> (\<Sum>r\<leftarrow>rs. i64 (row_amount r))"
    by (induction rs) auto
  then have "in_int64 (\<Sum>r\<leftarrow>filter ?P rs. i64 (row_amount r))" using assms(2) by (auto simp: in_int64_def)
  then show ?thesis using part sum64_i64 [of row_amount "filter ?P rs"] by (simp add: moved_def)
qed

lemma if_positive: "0 \<le> i64 x \<Longrightarrow> (if 0 < i64 x then x else 0) = x"
  using i64_eq_iff [of x 0] by auto

lemma debit_not_credit: "(dl_debit :: draft_line \<Rightarrow> int64) \<noteq> dl_credit"
proof
  assume "(dl_debit :: draft_line \<Rightarrow> int64) = dl_credit"
  then have "dl_debit (draft_line_of [] 1 0) = dl_credit (draft_line_of [] 1 0)" by (rule fun_cong)
  then show False by (simp add: draft_line_of_def)
qed

lemma import_lines_sums:
  assumes "sums_of rs s" "\<forall>r\<in>set rs. 0 < i64 (row_amount r)" "in_int64 (\<Sum>r\<leftarrow>rs. i64 (row_amount r))"
  shows "sum64 dl_debit (import_lines cash s) =
           moved True UNIV rs + moved False (accounts_of False rs) rs + moved False (accounts_of True rs) rs"
    and "sum64 dl_credit (import_lines cash s) =
           moved False UNIV rs + moved True (accounts_of False rs) rs + moved True (accounts_of True rs) rs"
proof -
  let ?ids = "map fst (sm_debits s) @ map fst (sm_credits s)"
  note nonneg = moved_nonneg [OF assms(2,3)]
  have lines: "sum64 f (positive_lines a (amount_at (sm_debits s) a) (amount_at (sm_credits s) a)) =
      (if f = dl_debit then moved False {a} rs else moved True {a} rs)" if "f \<in> {dl_debit, dl_credit}" for f a
  proof -
    have d: "amount_at (sm_debits s) a = moved False {a} rs" "amount_at (sm_credits s) a = moved True {a} rs"
      using assms(1) by (auto simp: sums_of_def)
    show ?thesis
      using that debit_not_credit nonneg [of False "{a}"] nonneg [of True "{a}"] if_positive [of "moved False {a} rs"] if_positive [of "moved True {a} rs"]
      by (auto simp: positive_lines_def draft_line_of_def d)
  qed
  have ids: "sum64 (\<lambda>a. moved i {a} rs) (sort_by str_less ?ids) =
      moved i (accounts_of False rs) rs + moved i (accounts_of True rs) rs" for i
  proof -
    have "sum64 (\<lambda>a. moved i {a} rs) (sort_by str_less ?ids) = sum64 (\<lambda>a. moved i {a} rs) ?ids"
      by (rule sum64_mset) simp
    also have "\<dots> = moved i (set (map fst (sm_debits s))) rs + moved i (set (map fst (sm_credits s))) rs"
      using assms(1) unfolding sums_of_def sum64_append by (simp only: sum_moved)
    finally show ?thesis using assms(1) by (simp add: sums_of_def)
  qed
  have cash: "sm_cash_debits s = moved True UNIV rs" "sm_cash_credits s = moved False UNIV rs"
    using assms(1) by (auto simp: sums_of_def)
  show "sum64 dl_debit (import_lines cash s) =
      moved True UNIV rs + moved False (accounts_of False rs) rs + moved False (accounts_of True rs) rs"
    using ids [of False] lines [of dl_debit] nonneg [of True UNIV] if_positive [of "moved True UNIV rs"]
    by (auto simp: import_lines_def Let_def sum64_concat cash comp_def draft_line_of_def)
  show "sum64 dl_credit (import_lines cash s) =
      moved False UNIV rs + moved True (accounts_of False rs) rs + moved True (accounts_of True rs) rs"
    using ids [of True] lines [of dl_credit] debit_not_credit nonneg [of False UNIV] if_positive [of "moved False UNIV rs"]
    by (auto simp: import_lines_def Let_def sum64_concat cash comp_def draft_line_of_def algebra_simps)
qed

text \<open>
    C35. The draft that the worker builds from the rows of a bank statement balances exactly when, on the accounts on which
  money moved in both directions, the same amount moved in either direction: such an account is listed twice, so its
  lines are written twice, while the cash lines count every row once.
\<close>

theorem import_entries_balance:
  assumes "buildImportEntriesFromSuggestion payload defaultCash = es" "es \<noteq> []"
    "in_int64 (\<Sum>r\<leftarrow>counted_rows payload. i64 (row_amount r))"
  shows "sum64 dl_debit es = sum64 dl_credit es \<longleftrightarrow>
    moved False (accounts_of True (counted_rows payload)) (counted_rows payload) =
    moved True (accounts_of False (counted_rows payload)) (counted_rows payload)"
proof -
  let ?rs = "counted_rows payload" and ?cash = "payment_account payload defaultCash"
  have es: "es = import_lines ?cash (fold count_row ?rs no_sums)"
    using assms(1,2) by (auto simp: buildImportEntriesFromSuggestion_def counted_rows_def count_rows_fold Let_def
        split: option.splits json.splits if_splits)
  have pos: "\<forall>r\<in>set ?rs. 0 < i64 (row_amount r)" using counted_rows_positive by blast
  have own: "moved i (accounts_of i ?rs) ?rs = moved i UNIV ?rs" for i
    unfolding moved_def accounts_of_def by (rule arg_cong [where f = "sum64 row_amount"]) (auto intro!: filter_cong)
  show ?thesis
    using import_lines_sums [OF count_rows_sums pos assms(3), of ?cash] own [of True] own [of False] unfolding es by simp
qed

text \<open>A supplier's invoice and a smaller refund of the same supplier.\<close>

definition statement_row :: "string \<Rightarrow> string \<Rightarrow> json" where
  "statement_row direction amount = VObject [(''account_id'', VString ''supplies''), (''direction'', VString direction),
     (''amount_cents'', VNumber amount)]"

definition refund_payload :: payload where
  "refund_payload = [(''import_rows'', VArray [statement_row ''outflow'' ''500'', statement_row ''inflow'' ''200''])]"

theorem import_entries_balance_witness:
  "sum64 dl_debit (buildImportEntriesFromSuggestion refund_payload ''cash'') \<noteq>
     sum64 dl_credit (buildImportEntriesFromSuggestion refund_payload ''cash'')"
proof -
  have rows: "counted_rows refund_payload = [(''supplies'', False, 500), (''supplies'', True, 200)]" by code_simp
  have "buildImportEntriesFromSuggestion refund_payload ''cash'' \<noteq> []" by code_simp
  moreover have "in_int64 (\<Sum>r\<leftarrow>counted_rows refund_payload. i64 (row_amount r))" unfolding rows by (simp add: in_int64_def)
  moreover have "accounts_of i (counted_rows refund_payload) = {''supplies''}" for i
    by (cases i) (force simp: rows accounts_of_def)+
  ultimately show ?thesis
    using import_entries_balance [OF refl, of refund_payload "''cash''"] by (simp add: rows moved_def)
qed

end
