(* ===== verification/Ocr.thy ===== *)
theory Ocr
  imports Go_Strconv
begin

text \<open>
  Transcription, \<open>internal/ocr\<close> with the tier ladder of \<open>cmd/worker/main.go\<close>: a PDF tries its text layer first and
  goes to the vision model only if that is too thin; an image goes to the vision model.  The object store, the HTTP
  client, the PDF reader and the AI driver are parameters, the record \<open>ocr_env\<close>.
\<close>

section \<open>Results\<close>

record ocr_result =
  or_text :: string
  or_provider :: string
  or_model :: string

definition no_ocr :: ocr_result where
  "no_ocr = \<lparr>or_text = [], or_provider = ''none'', or_model = []\<rparr>"

section \<open>Enough text\<close>

text \<open>\<open>len([]rune(s))\<close>: one rune per well-formed UTF-8 sequence and one per stray byte.\<close>

definition byte_of :: "char \<Rightarrow> int" where
  "byte_of c = of_char c"

definition cont_byte :: "char \<Rightarrow> bool" where
  "cont_byte c \<longleftrightarrow> 0x80 \<le> byte_of c \<and> byte_of c \<le> 0xBF"

definition rune_length :: "string \<Rightarrow> nat" where
  "rune_length s = (case s of
     [] \<Rightarrow> 0
   | c # t \<Rightarrow>
       let b = byte_of c;
           second = (\<lambda>lo hi. t \<noteq> [] \<and> lo \<le> byte_of (hd t) \<and> byte_of (hd t) \<le> hi);
           more = (\<lambda>n. length t > n \<and> cont_byte (t ! n))
       in if 0xC2 \<le> b \<and> b \<le> 0xDF \<and> second 0x80 0xBF then 2
          else if (b = 0xE0 \<and> second 0xA0 0xBF \<or> b = 0xED \<and> second 0x80 0x9F \<or>
                   b \<in> {0xE1..0xEC} \<union> {0xEE, 0xEF} \<and> second 0x80 0xBF) \<and> more 1 then 3
          else if (b = 0xF0 \<and> second 0x90 0xBF \<or> b = 0xF4 \<and> second 0x80 0x8F \<or>
                   b \<in> {0xF1..0xF3} \<and> second 0x80 0xBF) \<and> more 1 \<and> more 2 then 4
          else 1)"

function rune_count :: "string \<Rightarrow> nat" where
  "rune_count s = (if s = [] then 0 else 1 + rune_count (drop (rune_length s) s))"
  by pat_completeness auto
termination
proof (relation "measure length")
  fix s :: string
  assume "s \<noteq> []"
  then show "(drop (rune_length s) s, s) \<in> measure length"
    by (cases s) (simp_all add: rune_length_def Let_def)
qed simp

declare rune_count.simps [simp del]

definition minReceiptTextRunes :: nat where
  "minReceiptTextRunes = 40"

definition minReceiptDigits :: nat where
  "minReceiptDigits = 3"

definition SufficientText :: "string \<Rightarrow> bool" where
  "SufficientText s0 =
     (let s = trim_space s0 in
      if rune_count s < minReceiptTextRunes then False
      else minReceiptDigits \<le> length (filter is_digit s))"

section \<open>The outside\<close>

text \<open>
  \<open>oe_url\<close> presigns a stored object, \<open>oe_get\<close> fetches it (status and body), \<open>oe_pdf\<close> is the PDF reader with its panics
  turned into errors, \<open>oe_provider\<close> constructs the AI driver for a key and a model, its name and its answers to requests with an
  image URL, and \<open>oe_chat\<close> is the chat endpoint for a PDF: it fails, or answers with its status and the decoded body, the choices
  and the error message.
\<close>

record ocr_env =
  oe_provider_name :: string
  oe_model :: string
  oe_max_tokens :: int
  oe_max_bytes :: int
  oe_url :: "string \<Rightarrow> string + string"
  oe_get :: "string \<Rightarrow> string + int \<times> string"
  oe_pdf :: "string \<Rightarrow> string + string"
  oe_provider :: "string \<Rightarrow> string \<Rightarrow> string + string \<times> (string \<times> string \<times> int \<times> string \<Rightarrow> string + string)"
  oe_chat :: "string \<Rightarrow> string \<times> int \<times> string \<times> string \<Rightarrow> string + (int \<times> (string + string list \<times> string option))"

definition ExtractPDFText :: "ocr_env \<Rightarrow> string \<Rightarrow> string + string" where
  "ExtractPDFText e data =
     (if length data = 0 then Inl ''ocr: empty pdf'' else rbind (oe_pdf e data) (\<lambda>t. Inr (trim_space t)))"

definition nl_text :: string where
  "nl_text = [CHR 0x0A]"

definition transcribeSystem :: string where
  "transcribeSystem = join [
     ''You are a precise OCR engine for financial receipts and invoices.'',
     ''Transcribe ALL text visible in the image EXACTLY as printed '' @ [CHR 0xE2, CHR 0x80, CHR 0x94] @ '' every line, every amount, every date.'',
     ''Preserve the reading order and line breaks. Do NOT summarize, interpret, translate, reformat, or add'',
     ''commentary. Do NOT compute or infer any value that is not printed. Output ONLY the transcribed text.''] nl_text"

definition transcribeUser :: string where
  "transcribeUser = ''Transcribe this receipt image.''"

definition fetchable :: "string \<Rightarrow> bool" where
  "fetchable url \<longleftrightarrow> has_prefix url ''http://'' \<or> has_prefix url ''https://''"

definition token_limit :: "int \<Rightarrow> int" where
  "token_limit n = (if n \<le> 0 then 4096 else n)"

text \<open>\<open>LLMVision.Transcribe\<close> with the driver \<open>p\<close>.\<close>

definition vision_transcribe ::
  "(string \<times> string \<times> int \<times> string \<Rightarrow> string + string) \<Rightarrow> string \<Rightarrow> int \<Rightarrow> string \<Rightarrow> string + ocr_result" where
  "vision_transcribe p model maxTokens imageURL =
     (if imageURL = [] then Inl ''ocr: empty image URL''
      else if \<not> fetchable imageURL
      then Inl (''ocr: llm-vision needs a fetchable image URL (set RECEIPT_STORAGE=s3); got '' @ fmt_q imageURL)
      else case p (transcribeSystem, transcribeUser, token_limit maxTokens, imageURL) of
        Inl err \<Rightarrow> Inl (''ocr: vision transcription failed: '' @ err)
      | Inr t \<Rightarrow> Inr \<lparr>or_text = trim_space t, or_provider = ''llm-vision'', or_model = model\<rparr>)"

definition TranscribePDF :: "ocr_env \<Rightarrow> string \<Rightarrow> string \<Rightarrow> int \<Rightarrow> string \<Rightarrow> string + ocr_result" where
  "TranscribePDF e apiKey model maxTokens data =
     (if length data = 0 then Inl ''ocr: empty pdf''
      else if apiKey = [] then Inl ''ocr: pdf-ai transcriber needs an OpenAI API key''
      else case oe_chat e apiKey (model, token_limit maxTokens, transcribeSystem, data) of
        Inl err \<Rightarrow> Inl (''ocr: pdf vision request: '' @ err)
      | Inr (status, Inl uerr) \<Rightarrow> Inl (''ocr: decode pdf response (status '' @ int_str status @ ''): '' @ uerr)
      | Inr (status, Inr (choices, err)) \<Rightarrow>
          if status \<noteq> 200
          then Inl (''ocr: pdf vision failed (status '' @ int_str status @ ''): '' @ (case err of None \<Rightarrow> [] | Some m \<Rightarrow> m))
          else (case choices of
                  [] \<Rightarrow> Inl ''ocr: pdf vision returned no choices''
                | c # _ \<Rightarrow> Inr \<lparr>or_text = trim_space c, or_provider = ''llm-vision-pdf'', or_model = model\<rparr>))"

section \<open>AI configuration\<close>

record ai_config =
  aic_available :: bool
  aic_provider :: string
  aic_key :: string
  aic_model :: string
  aic_source :: string
  aic_limit_exceeded :: bool

definition rules_only :: ai_config where
  "rules_only = \<lparr>aic_available = False, aic_provider = ''rules'', aic_key = [], aic_model = [], aic_source = ''none'',
     aic_limit_exceeded = False\<rparr>"

text \<open>\<open>resolveSystem\<close> for the configured provider, key and model.\<close>

definition resolveSystem :: "string \<Rightarrow> string \<Rightarrow> string \<Rightarrow> ai_config" where
  "resolveSystem provider key model =
     (if provider = [] \<or> provider = ''none'' then rules_only
      else if provider = ''openai'' then
        (if key = [] then rules_only
         else \<lparr>aic_available = True, aic_provider = ''openai'', aic_key = key, aic_model = model, aic_source = ''system'',
               aic_limit_exceeded = False\<rparr>)
      else rules_only)"

definition IsAIAvailable :: "ai_config \<Rightarrow> bool" where
  "IsAIAvailable c \<longleftrightarrow> aic_available c \<and> aic_provider c \<noteq> ''rules'' \<and> aic_provider c \<noteq> ''none''"

section \<open>The ladder\<close>

definition ocr_model :: "ocr_env \<Rightarrow> ai_config \<Rightarrow> string" where
  "ocr_model e ai = (if oe_model e = [] then aic_model ai else oe_model e)"

text \<open>\<open>ocrTranscriber\<close>: the transcription of an image URL; without a usable driver it is empty.\<close>

definition ocrTranscriber :: "ocr_env \<Rightarrow> ai_config \<Rightarrow> string \<Rightarrow> string + ocr_result" where
  "ocrTranscriber e ai =
     (if oe_provider_name e \<noteq> ''llm-vision'' then (\<lambda>url. Inr no_ocr)
      else if \<not> IsAIAvailable ai then (\<lambda>url. Inr no_ocr)
      else case oe_provider e (aic_key ai) (ocr_model e ai) of
        Inl err \<Rightarrow> (\<lambda>url. Inr no_ocr)
      | Inr (name, p) \<Rightarrow> vision_transcribe p name (oe_max_tokens e))"

definition isPDF :: "string \<Rightarrow> bool" where
  "isPDF contentType = contains (to_lower contentType) ''pdf''"

definition fetchReceiptBytes :: "ocr_env \<Rightarrow> string \<Rightarrow> string + string" where
  "fetchReceiptBytes e key =
     (case oe_url e key of
        Inl err \<Rightarrow> Inl (''ocr: presign receipt: '' @ err)
      | Inr url \<Rightarrow>
          if \<not> fetchable url
          then Inl (''ocr: pdf OCR needs a fetchable URL (set RECEIPT_STORAGE=s3); got '' @ fmt_q url)
          else case oe_get e url of
            Inl err \<Rightarrow> Inl (''ocr: fetch receipt: '' @ err)
          | Inr (status, body) \<Rightarrow>
              if status \<noteq> 200 then Inl (''ocr: fetch receipt: status '' @ int_str status)
              else Inr (take (nat (if oe_max_bytes e \<le> 0 then 10 * 2 ^ 20 else oe_max_bytes e)) body))"

definition transcribePDF :: "ocr_env \<Rightarrow> ai_config \<Rightarrow> string \<Rightarrow> string + ocr_result" where
  "transcribePDF e ai key =
     rbind (fetchReceiptBytes e key) (\<lambda>data.
     let local = (case ExtractPDFText e data of Inl _ \<Rightarrow> None | Inr t \<Rightarrow> if SufficientText t then Some t else None) in
     case local of
       Some t \<Rightarrow> Inr \<lparr>or_text = t, or_provider = ''pdf-text'', or_model = []\<rparr>
     | None \<Rightarrow>
         if oe_provider_name e \<noteq> ''llm-vision'' then Inr no_ocr
         else if \<not> IsAIAvailable ai then Inr no_ocr
         else TranscribePDF e (aic_key ai) (ocr_model e ai) (oe_max_tokens e) data)"

definition transcribeReceipt :: "ocr_env \<Rightarrow> ai_config \<Rightarrow> string \<Rightarrow> string \<Rightarrow> string + ocr_result" where
  "transcribeReceipt e ai contentType key =
     (if isPDF contentType then transcribePDF e ai key
      else ocrTranscriber e ai (case oe_url e key of Inl _ \<Rightarrow> [] | Inr u \<Rightarrow> u))"

section \<open>Nothing is invented\<close>

text \<open>Without a usable AI a transcription is a text layer or empty.\<close>

lemma transcribe_parks_without_ai:
  "oe_provider_name e \<noteq> ''llm-vision'' \<or> \<not> IsAIAvailable ai \<Longrightarrow> transcribeReceipt e ai contentType key = Inr r \<Longrightarrow>
   or_text r = [] \<or> or_provider r = ''pdf-text''"
  by (auto simp: transcribeReceipt_def transcribePDF_def ocrTranscriber_def no_ocr_def rbind_Inr_iff Let_def
      split: if_splits sum.splits option.splits)

end
