(* ===== verification/Worker.thy ===== *)
theory Worker
  imports Suggest_Entries Ocr Batch_Safety Queue "HOL-Library.Signed_Division"
begin

text \<open>
  The queue worker, \<open>cmd/worker/main.go\<close>: its three stages, the decomposed pipeline, and the loop that claims jobs, runs
  them and acknowledges or fails them.  The worker is wired with every store, only search may be off.  The outside is the
  record \<open>worker_env\<close>: the AI driver, JSON, the search service and the suggestion context of a receipt (the table
  \<open>receipt_metadata\<close>, another component's).  A context that expires is a statement that fails.
\<close>

section \<open>The environment\<close>

record worker_env =
  wk_ocr :: ocr_env
  wk_mode :: string
  wk_ai_provider :: string
  wk_ai_key :: string
  wk_ai_model :: string
  wk_price_in :: int64
  wk_price_out :: int64
  wk_search :: search_env
  wk_transactions :: "search_body \<Rightarrow> string + (transaction_document \<times> int64) list"
  wk_provider :: "string \<Rightarrow> string \<Rightarrow> string + (string \<times> string \<times> string \<Rightarrow> string + string)"
  wk_extract :: "string \<Rightarrow> string + extract_result"
  wk_vendor :: "string \<Rightarrow> string + vendor_match"
  wk_classify :: "string \<Rightarrow> string + classify_result"
  wk_decode :: "string \<Rightarrow> payload option"
  wk_unmarshal :: "string \<Rightarrow> string + payload"
  wk_marshal :: "json \<Rightarrow> string"
  wk_context :: "string \<Rightarrow> string"

definition resolve_ai :: "worker_env \<Rightarrow> ai_config" where
  "resolve_ai w = resolveSystem (wk_ai_provider w) (wk_ai_key w) (wk_ai_model w)"

section \<open>Recording failures\<close>

definition attempt :: "'a dbm \<Rightarrow> unit dbm" where
  "attempt m = dbind (dtry m) (\<lambda>_. dret ())"

definition record_error :: "receipt \<Rightarrow> string \<Rightarrow> string \<Rightarrow> unit dbm" where
  "record_error receipt stage msg = attempt (ProcessingErrorStore_Create (\<lambda>_. False)
     \<lparr>e_id = [], e_entity = r_entity receipt, e_receipt = r_id receipt, e_mileage = [], e_stage = stage, e_error = msg,
      e_created = 0, e_resolved = None, e_note = []\<rparr>)"

definition pipelinePark :: "receipt \<Rightarrow> string \<Rightarrow> string \<Rightarrow> unit dbm" where
  "pipelinePark receipt stage msg =
     dbind (record_error receipt stage msg) (\<lambda>_. attempt (ReceiptStore_UpdateStatus (r_id receipt) ''needs_attention''))"

definition recordOCRError :: "receipt \<Rightarrow> db_error \<Rightarrow> unit dbm" where
  "recordOCRError receipt cause = pipelinePark receipt ''ocr'' (error_text cause)"

section \<open>Transcription\<close>

text \<open>Whether the tier ladder reads the entity for its AI configuration.\<close>

definition asks_ai :: "ocr_env \<Rightarrow> receipt \<Rightarrow> bool" where
  "asks_ai e receipt \<longleftrightarrow> oe_provider_name e = ''llm-vision'' \<and>
     (isPDF (r_content_type receipt) \<longrightarrow>
        (case fetchReceiptBytes e (r_storage_key receipt) of
           Inl _ \<Rightarrow> False
         | Inr data \<Rightarrow> (case ExtractPDFText e data of Inl _ \<Rightarrow> True | Inr t \<Rightarrow> \<not> SufficientText t)))"

definition transcribe :: "worker_env \<Rightarrow> receipt \<Rightarrow> (string + ocr_result) dbm" where
  "transcribe w receipt =
     dbind (if asks_ai (wk_ocr w) receipt then dbind (tenantFor (r_entity receipt)) (\<lambda>_. dret ()) else dret ()) (\<lambda>_.
     dret (transcribeReceipt (wk_ocr w) (resolve_ai w) (r_content_type receipt) (r_storage_key receipt)))"

definition latest_version :: "db_error + int \<Rightarrow> int" where
  "latest_version latest = (case latest of Inl _ \<Rightarrow> 1 | Inr v \<Rightarrow> v + 1)"

definition store_ocr :: "receipt \<Rightarrow> ocr_result \<Rightarrow> unit dbm" where
  "store_ocr receipt res =
     dbind (dtry (ReceiptOCRStore_LatestByReceiptID (r_id receipt))) (\<lambda>latest.
     dbind (dtry (ReceiptOCRStore_Create
       \<lparr>o_id = [], o_receipt = r_id receipt, o_provider = (if or_provider res = [] then ''none'' else or_provider res),
        o_status = ''succeeded'', o_text = or_text res, o_data = ''{}'', o_error = [], o_hash = [],
        o_version = latest_version (map_sum id o_version latest), o_created = 0\<rparr>)) (\<lambda>c.
     case c of
       Inl cerr \<Rightarrow> dbind (recordOCRError receipt cerr) (\<lambda>_. dthrow cerr)
     | Inr _ \<Rightarrow> dret ()))"

definition runOCR :: "worker_env \<Rightarrow> string \<Rightarrow> unit dbm" where
  "runOCR w receiptID =
     dbind (ReceiptStore_UpdateStatus receiptID ''processing'') (\<lambda>_.
     dbind (ReceiptStore_GetByID receiptID) (\<lambda>receipt.
     dbind (transcribe w receipt) (\<lambda>t.
     case t of
       Inl terr \<Rightarrow> dbind (recordOCRError receipt (ErrText terr)) (\<lambda>_. dthrow (ErrText terr))
     | Inr res \<Rightarrow> dbind (store_ocr receipt res) (\<lambda>_. attempt (Enqueue receiptID ''suggest'')))))"

section \<open>The decomposed pipeline\<close>

text \<open>The vendor name for which a run asks for candidates, if it gets that far.\<close>

definition asked_vendor :: "ai_env \<Rightarrow> run_input \<Rightarrow> string option" where
  "asked_vendor ai i =
     (case extract_stage ai i zero_result of
        Inl _ \<Rightarrow> None
      | Inr res \<Rightarrow> (case x_vendor (rr_extract res) of None \<Rightarrow> None | Some v \<Rightarrow> if v = [] then None else Some v))"

text \<open>A run whose candidates come from the database: \<open>Run\<close> calls them at most once.\<close>

definition run_staged :: "ai_env \<Rightarrow> run_input \<Rightarrow> (string \<Rightarrow> vendor_ref list dbm) \<Rightarrow> run_out dbm" where
  "run_staged ai i candidates =
     (case asked_vendor ai i of
        None \<Rightarrow> dret (Run ai (i\<lparr>ri_candidates := Some (\<lambda>_. [])\<rparr>))
      | Some v \<Rightarrow> dbind (candidates v) (\<lambda>refs. dret (Run ai (i\<lparr>ri_candidates := Some (\<lambda>_. refs)\<rparr>))))"

definition raw_vendor :: "run_result \<Rightarrow> string" where
  "raw_vendor res = (case x_vendor (rr_extract res) of None \<Rightarrow> [] | Some v \<Rightarrow> trim_space v)"

definition remember_vendor :: "worker_env \<Rightarrow> string \<Rightarrow> string \<Rightarrow> run_result \<Rightarrow> string dbm" where
  "remember_vendor w tenant ent res =
     (if rr_proposed res \<noteq> None \<and> rr_classify res \<noteq> None then
        dbind (Memoize (wk_search w) tenant ent (rr_proposed res)
                 (case rr_classify res of None \<Rightarrow> [] | Some cl \<Rightarrow> c_account cl)) (\<lambda>r.
        case r of
          None \<Rightarrow> dret []
        | Some v \<Rightarrow> dbind (RecordResolution (wk_search w) tenant ent (v_id v) (raw_vendor res)) (\<lambda>_. dret (v_id v)))
      else (case rr_vendor_id res of
          None \<Rightarrow> dret []
        | Some i \<Rightarrow> dbind (RecordResolution (wk_search w) tenant ent i (raw_vendor res)) (\<lambda>_. dret i)))"

definition buildAISummary :: "run_result \<Rightarrow> string \<Rightarrow> ai_summary dbm" where
  "buildAISummary res resolvedVendorID =
     (let judged = (\<lambda>name isNew. case rr_vendor_match res of
            Some vm \<Rightarrow> Some (name, vm_confidence vm, vm_reason vm, isNew)
          | None \<Rightarrow> Some (name, 1, ''exact name match'', isNew)) in
      dbind (case rr_proposed res of
               Some pv \<Rightarrow> dret (judged (pv_name pv) True)
             | None \<Rightarrow>
                 if resolvedVendorID \<noteq> []
                 then dbind (dtry (VendorStore_GetByID resolvedVendorID)) (\<lambda>v.
                   dret (judged (case v of Inl _ \<Rightarrow> [] | Inr x \<Rightarrow> v_name x) False))
                 else dret None)
        (\<lambda>vendor. dret \<lparr>as_vendor = vendor,
           as_account = map_option (\<lambda>cl. (c_account cl, c_confidence cl, c_reason cl)) (rr_classify res)\<rparr>))"

definition after_draft :: "worker_env \<Rightarrow> string \<Rightarrow> string \<Rightarrow> string \<Rightarrow> run_result \<Rightarrow> unit dbm" where
  "after_draft w tenant ent receiptID res =
     dbind (remember_vendor w tenant ent res) (\<lambda>resolved.
     dbind (if resolved \<noteq> [] then attempt (ReceiptStore_SetResolvedVendor receiptID resolved (raw_vendor res)) else dret ()) (\<lambda>_.
     dbind (buildAISummary res resolved) (\<lambda>summary.
     if HasContent summary then attempt (ReceiptStore_SetAISummary receiptID (Some summary)) else dret ())))"

definition write_draft :: "receipt \<Rightarrow> draft_entry \<Rightarrow> unit dbm" where
  "write_draft receipt entry =
     dbind today (\<lambda>now.
     dbind (DraftStore_EnsureForReceipt (r_id receipt)) (\<lambda>_.
     dbind (dtry (DraftStore_UpdateDraft (r_id receipt) (entry_date now (de_date entry)) (de_memo entry) (draft_lines entry))) (\<lambda>u.
     case u of
       Inl uerr \<Rightarrow> dbind (pipelinePark receipt ''build-entry'' (error_text uerr)) (\<lambda>_. dthrow uerr)
     | Inr _ \<Rightarrow> dret ())))"

definition pipeline_done :: "worker_env \<Rightarrow> string \<Rightarrow> receipt \<Rightarrow> run_out \<Rightarrow> unit dbm" where
  "pipeline_done w tenant receipt out =
     (case out of (res, rerr) \<Rightarrow>
        case rerr of
          Some e \<Rightarrow> dthrow (ErrText e)
        | None \<Rightarrow>
            if rr_status res \<noteq> ''ready'' then pipelinePark receipt (rr_failed_stage res) (join (rr_issues res) ''; '')
            else case rr_entry res of
              None \<Rightarrow> pipelinePark receipt (rr_failed_stage res) (join (rr_issues res) ''; '')
            | Some entry \<Rightarrow>
                dbind (write_draft receipt entry) (\<lambda>_.
                dbind (attempt (ReceiptStore_UpdateStatus (r_id receipt) ''ready_for_review'')) (\<lambda>_.
                after_draft w tenant (r_entity receipt) (r_id receipt) res)))"

definition pipeline_input :: "string \<Rightarrow> account_ref list \<Rightarrow> string \<Rightarrow> run_input" where
  "pipeline_input txt accounts credit = \<lparr>ri_ocr = txt, ri_accounts = accounts, ri_vendors = [], ri_candidates = None,
     ri_credit = credit, ri_tax = []\<rparr>"

definition pipeline_ai :: "worker_env \<Rightarrow> (string \<times> string \<times> string \<Rightarrow> string + string) \<Rightarrow> ai_env" where
  "pipeline_ai w driver = \<lparr>ae_complete = driver, ae_extract = wk_extract w, ae_vendor = wk_vendor w,
     ae_classify = wk_classify w\<rparr>"

definition default_cash :: "string \<Rightarrow> string dbm" where
  "default_cash ent =
     dbind (dtry (AccountStore_FindDefaultCashAccount ent)) (\<lambda>cash. dret (case cash of Inl _ \<Rightarrow> [] | Inr a \<Rightarrow> a_id a))"

definition latest_text :: "string \<Rightarrow> string dbm" where
  "latest_text receiptID =
     dbind (dtry (ReceiptOCRStore_LatestByReceiptID receiptID)) (\<lambda>l. dret (case l of Inl _ \<Rightarrow> [] | Inr x \<Rightarrow> o_text x))"

definition runPipeline :: "worker_env \<Rightarrow> string \<Rightarrow> unit dbm" where
  "runPipeline w receiptID =
     dbind (ReceiptStore_GetByID receiptID) (\<lambda>receipt.
     dbind (latest_text receiptID) (\<lambda>txt.
     if trim_space txt = [] then pipelinePark receipt ''extract'' ''no OCR text (transcription empty or OCR disabled)''
     else dbind (tenantFor (r_entity receipt)) (\<lambda>tenant.
       if \<not> IsAIAvailable (resolve_ai w) then pipelinePark receipt ''extract'' ''AI provider not configured''
       else case wk_provider w (aic_key (resolve_ai w)) (aic_model (resolve_ai w)) of
         Inl perr \<Rightarrow> dthrow (ErrText perr)
       | Inr driver \<Rightarrow>
           dbind (accountRefs (r_entity receipt)) (\<lambda>accts.
           dbind (default_cash (r_entity receipt)) (\<lambda>credit.
           dbind (run_staged (pipeline_ai w driver) (pipeline_input txt accts credit)
                    (Candidates (wk_search w) tenant (r_entity receipt)))
             (pipeline_done w tenant receipt))))))"

section \<open>The suggestion\<close>

definition nl_sep :: string where
  "nl_sep = [CHR 0x0A]"

definition ruleMatchCandidates :: "string list \<Rightarrow> string list" where
  "ruleMatchCandidates values = dedup_from [] (filter (\<lambda>v. v \<noteq> []) (map trim_space values))"

definition accountRoleHintTokens :: "account list \<Rightarrow> string list" where
  "accountRoleHintTokens accounts =
     sort_by str_less (dedup_from [] (filter (\<lambda>v. v \<noteq> []) (map trim_space (concat (map a_tags accounts)))))"

definition accountPromptContext :: "account list \<Rightarrow> string" where
  "accountPromptContext accounts =
     (let label = (\<lambda>a. a_id a @ '' | '' @ a_name a @ '' | '' @ a_type a @
            (if length (a_tags a) > 0 then '' | tags='' @ join (a_tags a) '','' else []))
      in join (take 20 (sort_by str_less (map label accounts))) nl_sep)"

definition historicalCandidatePromptContext :: "candidate list \<Rightarrow> string" where
  "historicalCandidatePromptContext candidates =
     (let row = (\<lambda>c. ca_transaction c @ '' | account='' @ ca_account c @
            (if ca_account_name c \<noteq> [] then '' '' @ ca_account_name c else []) @
            (if ca_memo c \<noteq> [] then '' | memo='' @ ca_memo c else []) @
            (if 0 < i64 (ca_amount c) then '' | amount_cents='' @ int_str (i64 (ca_amount c)) else []) @
            (if 0 < ca_score c then '' | score='' @ fmt_f2 (ca_score c) else []))
      in join (map row (take 5 candidates)) nl_sep)"

definition suggestionSearchQuery :: "string \<Rightarrow> string \<Rightarrow> string \<Rightarrow> string \<Rightarrow> string list \<Rightarrow> string" where
  "suggestionSearchQuery originalName itemContext extractedText topVendor roleHints =
     NormalizeQuery [originalName, itemContext, topVendor, join roleHints '' '', take 500 (join (str_fields extractedText) '' '')]"

text \<open>The winner does not depend on the order in which Go iterates the counts: most rows, then the smallest identifier.\<close>

fun dominant_from :: "string \<Rightarrow> int \<Rightarrow> (string \<times> int) list \<Rightarrow> string" where
  "dominant_from bestID bestCount [] = bestID"
| "dominant_from bestID bestCount ((accountID, n) # rest) =
     (if bestCount < n \<or> (n = bestCount \<and> bestID \<noteq> [] \<and> str_less accountID bestID)
      then dominant_from accountID n rest else dominant_from bestID bestCount rest)"

definition dominantAccount :: "(string \<times> int) list \<Rightarrow> string" where
  "dominantAccount counts = dominant_from [] 0 counts"

definition estimateTokens :: "string \<Rightarrow> int64" where
  "estimateTokens payload = (if length payload = 0 then 0 else word_of_int (int (length payload) div 4))"

definition EstimateCostCents :: "int64 \<Rightarrow> int64 \<Rightarrow> int64 \<Rightarrow> int64 \<Rightarrow> int64" where
  "EstimateCostCents promptTokens completionTokens priceIn priceOut =
     (if i64 priceIn \<le> 0 \<and> i64 priceOut \<le> 0 then 0
      else word_of_int (i64 (promptTokens * priceIn) sdiv 1000) + word_of_int (i64 (completionTokens * priceOut) sdiv 1000))"

definition suggestion_schema :: string where
  "suggestion_schema =
     (let tabs = (\<lambda>n. replicate n CHR 0x09); quoted = (\<lambda>s. [quote] @ s @ [quote]);
          prop = (\<lambda>name t. tabs 3 @ quoted name @ '':{'' @ quoted ''type'' @ '':'' @ quoted t @ ''}'')
      in join [''{'', tabs 2 @ quoted ''type'' @ '':'' @ quoted ''object'' @ '','', tabs 2 @ quoted ''properties'' @ '':{'',
           prop ''account_id'' ''string'' @ '','', prop ''explanation'' ''string'' @ '','', prop ''confidence'' ''number'',
           tabs 2 @ ''},'', tabs 2 @ quoted ''required'' @ '':['' @ quoted ''account_id'' @ '','' @ quoted ''explanation'' @ ''],'',
           tabs 2 @ quoted ''additionalProperties'' @ '':false'', tabs 1 @ ''}''] nl_sep)"

record suggest_inputs =
  si_entity_context :: string
  si_accounts :: "account list"
  si_hints :: "string list"
  si_item_context :: string
  si_text :: string

definition buildSuggestInputs :: "worker_env \<Rightarrow> receipt \<Rightarrow> suggest_inputs dbm" where
  "buildSuggestInputs w receipt =
     dbind (dtry (EntityStore_GetByID (r_entity receipt))) (\<lambda>e.
     dbind (dtry (AccountStore_ListForEntity (r_entity receipt) 1000)) (\<lambda>as.
     dbind (dtry (stmt (\<lambda>s. (Inr (wk_context w (r_id receipt)), s)))) (\<lambda>c.
     dbind (latest_text (r_id receipt)) (\<lambda>txt.
     let context0 = (case e of Inl _ \<Rightarrow> [] | Inr x \<Rightarrow> y_context x);
         accounts = (case as of Inl _ \<Rightarrow> [] | Inr xs \<Rightarrow> xs);
         hints = accountRoleHintTokens accounts
     in dret \<lparr>si_entity_context = (if length hints > 0
                then (if context0 \<noteq> [] then context0 @ '' '' else context0) @ ''Account role tags: '' @ join hints '', ''
                else context0),
              si_accounts = accounts, si_hints = hints,
              si_item_context = (case c of Inl _ \<Rightarrow> [] | Inr t \<Rightarrow> t), si_text = txt\<rparr>))))"

definition suggestion_prompts :: "receipt \<Rightarrow> suggest_inputs \<Rightarrow> candidate list \<Rightarrow> string \<times> string" where
  "suggestion_prompts receipt i history =
     (let accounts = accountPromptContext (si_accounts i); matches = historicalCandidatePromptContext history in
      (''You classify bookkeeping receipts. Return only JSON that matches the schema.'' @
         (if si_entity_context i \<noteq> [] then nl_sep @ ''Entity context: '' @ si_entity_context i else []) @
         (if length (si_hints i) > 0 then nl_sep @ ''Relevant account role tags: '' @ join (si_hints i) '', '' else []) @
         (if accounts \<noteq> [] then nl_sep @ ''Chart of accounts:'' @ nl_sep @ accounts else []) @
         (if matches \<noteq> [] then nl_sep @ ''Accepted historical matches:'' @ nl_sep @ matches else []),
       trim_space (join [''Receipt ID: '' @ r_id receipt, ''Original name: '' @ r_original receipt,
         ''Receipt kind: '' @ r_kind receipt, ''Total cents: '' @ int_str (i64 (r_total receipt)),
         ''Suggestion context: '' @ si_item_context i, ''Extracted text: '' @ si_text i] nl_sep)))"

text \<open>The answer is used only if it names an account of the chart; an unusable answer is confidence 0 and nothing.\<close>

definition completeReceiptSuggestion ::
  "worker_env \<Rightarrow> (string \<times> string \<times> string \<Rightarrow> string + string) \<Rightarrow> receipt \<Rightarrow> suggest_inputs \<Rightarrow> candidate list \<Rightarrow> string + rat \<times> payload" where
  "completeReceiptSuggestion w driver receipt i history =
     (case suggestion_prompts receipt i history of (sys, user) \<Rightarrow>
        rbind (driver (sys, user, suggestion_schema)) (\<lambda>raw.
        rbind (wk_unmarshal w raw) (\<lambda>parsed.
        let confidence = (case map_of parsed ''confidence'' of
                            Some (VFloat (Fin v)) \<Rightarrow> if 0 < v then v else fl64 (55 / 100) | _ \<Rightarrow> fl64 (55 / 100));
            accountID = trim_space (parseString parsed ''account_id'')
        in if accountID = [] then Inr (0, [])
           else if length (si_accounts i) > 0 \<and> accountID \<notin> a_id ` set (si_accounts i) then Inr (0, [])
           else Inr (confidence, parsed))))"

section \<open>JSON values the worker writes\<close>

definition vint :: "int64 \<Rightarrow> json" where
  "vint n = VNumber (int_str (i64 n))"

definition vnum :: "int \<Rightarrow> json" where
  "vnum n = VNumber (int_str n)"

definition vstrs :: "string list \<Rightarrow> json" where
  "vstrs xs = VArray (map VString xs)"

text \<open>\<open>omitempty\<close>, and \<open>if v != "" { m[k] = v }\<close>.\<close>

definition given_str :: "string \<Rightarrow> string \<Rightarrow> payload" where
  "given_str k v = (if v \<noteq> [] then [(k, VString v)] else [])"

definition put :: "string \<Rightarrow> json \<Rightarrow> payload \<Rightarrow> payload" where
  "put k v m = (k, v) # filter (\<lambda>x. fst x \<noteq> k) m"

definition candidate_json :: "candidate \<Rightarrow> json" where
  "candidate_json c = VObject [(''transaction_id'', VString (ca_transaction c)), (''account_id'', VString (ca_account c)),
     (''account_name'', VString (ca_account_name c)), (''account_role_tags'', vstrs (ca_role_tags c)),
     (''memo'', VString (ca_memo c)), (''description'', VString (ca_description c)), (''amount_cents'', vint (ca_amount c)),
     (''date'', VString (ca_date c)), (''score'', VFloat (Fin (ca_score c)))]"

definition summary_json :: "import_summary \<Rightarrow> json" where
  "summary_json m = VObject ([(''row_count'', vnum (is_row_count m)), (''parsed_rows'', vnum (is_parsed m)),
     (''error_rows'', vnum (is_errors m)), (''outflow_cents'', vint (is_outflow m)), (''inflow_cents'', vint (is_inflow m)),
     (''total_cents'', vint (is_total m))] @ given_str ''top_vendor'' (is_top m) @
     (if length (is_tops m) > 0 then [(''top_vendors'', VArray (map (\<lambda>v. VObject [(''vendor'', VString (vt_name v)),
        (''count'', vnum (vt_count v)), (''total_cents'', vint (vt_total v))]) (is_tops m)))] else []) @
     (if length (is_duplicates m) > 0 then [(''duplicate_rows'', VArray (map vnum (is_duplicates m)))] else []))"

definition row_error_json :: "row_error \<Rightarrow> json" where
  "row_error_json e = VObject ([(''row_index'', vnum (re_index e))] @ given_str ''field'' (re_field e) @
     [(''error'', VString (re_error e))] @ (if length (re_raw e) > 0 then [(''raw'', vstrs (re_raw e))] else []))"

definition prompt_json :: "receipt \<Rightarrow> suggest_inputs \<Rightarrow> candidate list \<Rightarrow> json" where
  "prompt_json receipt i history = VObject [(''entity_id'', VString (r_entity receipt)), (''total_cents'', vint (r_total receipt)),
     (''original_name'', VString (r_original receipt)), (''receipt_kind'', VString (r_kind receipt)),
     (''is_bulk'', VBool (r_kind receipt = ''import'')), (''entity_context'', VString (si_entity_context i)),
     (''suggestion_context'', VString (si_item_context i)), (''extracted_text'', VString (si_text i)),
     (''account_role_tags'', vstrs (si_hints i)), (''historical_matches'', VArray (map candidate_json history))]"

definition raw_json :: "ai_config \<Rightarrow> candidate list \<Rightarrow> json" where
  "raw_json ai history = VObject [(''provider'', VString (aic_provider ai)), (''ai_source'', VString (aic_source ai)),
     (''ai_enabled'', VBool (aic_available ai)), (''historical_match_count'', vnum (int (length history))),
     (''status'', VString ''ok'')]"

section \<open>The rows of a bank statement\<close>

record import_scan =
  ic_hints :: "json list"
  ic_stored :: "import_model list"
  ic_counts :: "(string \<times> int) list"

fun bump :: "string \<Rightarrow> (string \<times> int) list \<Rightarrow> (string \<times> int) list" where
  "bump key [] = [(key, 1)]"
| "bump key ((k, n) # m) = (if k = key then (k, n + 1) # m else (k, n) # bump key m)"

definition row_hint :: "import_line \<Rightarrow> vendor_rule option \<Rightarrow> json" where
  "row_hint row rule = VObject ([(''row_index'', vnum (il_index row))] @ given_str ''date'' (il_date row) @
     given_str ''vendor'' (il_vendor row) @ (if 0 < i64 (il_amount row) then [(''amount_cents'', vint (il_amount row))] else []) @
     given_str ''direction'' (il_direction row) @ given_str ''memo'' (il_memo row) @ given_str ''fingerprint'' (il_fingerprint row) @
     (case rule of None \<Rightarrow> [] | Some u \<Rightarrow> [(''account_id'', VString (ru_account u)), (''rule_match_type'', VString (ru_match u)),
        (''rule_pattern'', VString (ru_pattern u))]))"

definition stored_row :: "worker_env \<Rightarrow> receipt \<Rightarrow> import_line \<Rightarrow> date \<Rightarrow> string \<Rightarrow> import_model" where
  "stored_row w receipt row d accountID = \<lparr>im_id = [], im_receipt = r_id receipt, im_entity = r_entity receipt,
     im_index = il_index row, im_date = d, im_vendor = il_vendor row, im_memo = il_memo row, im_amount = il_amount row,
     im_direction = il_direction row, im_account = accountID, im_fingerprint = il_fingerprint row,
     im_status = (if accountID \<noteq> [] then ''mapped'' else ''needs_review''), im_tx = [], im_raw = wk_marshal w (vstrs (il_raw row))\<rparr>"

definition first_match :: "string \<Rightarrow> string \<Rightarrow> vendor_rule option dbm" where
  "first_match ent text0 = dbind (VendorRuleStore_FindMatching ent text0) (\<lambda>ms. dret (case ms of [] \<Rightarrow> None | m # _ \<Rightarrow> Some m))"

definition scan_import_row :: "worker_env \<Rightarrow> receipt \<Rightarrow> import_line \<Rightarrow> import_scan \<Rightarrow> import_scan dbm" where
  "scan_import_row w receipt row c =
     dbind (if il_vendor row \<noteq> [] then first_match (r_entity receipt) (il_vendor row) else dret None) (\<lambda>rule.
     let accountID = (case rule of None \<Rightarrow> [] | Some u \<Rightarrow> ru_account u);
         c = (case rule of None \<Rightarrow> c | Some u \<Rightarrow> c\<lparr>ic_counts := bump accountID (ic_counts c)\<rparr>);
         c = c\<lparr>ic_hints := ic_hints c @ [row_hint row rule]\<rparr>
     in dret (case parse_iso (il_date row) of
          None \<Rightarrow> c
        | Some d \<Rightarrow> c\<lparr>ic_stored := ic_stored c @ [stored_row w receipt row d accountID]\<rparr>))"

fun scan_import :: "worker_env \<Rightarrow> receipt \<Rightarrow> import_line list \<Rightarrow> import_scan \<Rightarrow> import_scan dbm" where
  "scan_import w receipt [] c = dret c"
| "scan_import w receipt (row # rows) c = dbind (scan_import_row w receipt row c) (scan_import w receipt rows)"

section \<open>The suggest stage\<close>

fun first_rule :: "string \<Rightarrow> string list \<Rightarrow> vendor_rule option dbm" where
  "first_rule ent [] = dret None"
| "first_rule ent (c # cs) =
     dbind (first_match ent c) (\<lambda>m. case m of None \<Rightarrow> first_rule ent cs | Some u \<Rightarrow> dret (Some u))"

definition history_of :: "worker_env \<Rightarrow> string \<Rightarrow> receipt \<Rightarrow> suggest_inputs \<Rightarrow> string \<Rightarrow> candidate list" where
  "history_of w tenant receipt i topVendor =
     (if \<not> se_enabled (wk_search w) then []
      else let q = suggestionSearchQuery (r_original receipt) (si_item_context i) (si_text i) topVendor (si_hints i) in
        if q = [] then []
        else case SuggestCandidates (wk_transactions w) \<lparr>sq_tenant = tenant, sq_entity = r_entity receipt, sq_query = q,
               sq_amount = r_total receipt, sq_limit = 5\<rparr> of
          Inl _ \<Rightarrow> []
        | Inr rows \<Rightarrow> rows)"

text \<open>What the rules and the search history suggest: the fields and the confidence.\<close>

definition known_suggestion :: "vendor_rule option \<Rightarrow> candidate list \<Rightarrow> payload \<times> rat" where
  "known_suggestion match history =
     (case match of
        Some u \<Rightarrow> ([(''account_id'', VString (ru_account u))], fl64 (6 / 10))
      | None \<Rightarrow>
          (case BestCandidate history (fl64 (85 / 100)) of
             None \<Rightarrow> ([], 0)
           | Some c \<Rightarrow> ([(''account_id'', VString (ca_account c)),
               (''historical_match_transaction_id'', VString (ca_transaction c)),
               (''historical_match_score'', VFloat (Fin (ca_score c))),
               (''explanation'', VString ''Matched a high-confidence accepted transaction from search history.'')],
               fl64 (72 / 100))))"

definition add_missing :: "payload \<Rightarrow> payload \<Rightarrow> payload" where
  "add_missing extra parsed = foldl (\<lambda>m kv. if fst kv \<in> fst ` set m then m else put (fst kv) (snd kv) m) parsed extra"

definition ai_suggestion ::
  "worker_env \<Rightarrow> ai_config \<Rightarrow> receipt \<Rightarrow> suggest_inputs \<Rightarrow> candidate list \<Rightarrow> vendor_rule option \<Rightarrow> payload \<times> rat \<Rightarrow> payload \<times> rat" where
  "ai_suggestion w ai receipt i history match known =
     (case known of (parsed, confidence) \<Rightarrow>
        if match = None \<and> confidence < fl64 (7 / 10) \<and> r_kind receipt \<noteq> ''import'' \<and> IsAIAvailable ai then
          (case wk_provider w (aic_key ai) (aic_model ai) of
             Inl _ \<Rightarrow> known
           | Inr driver \<Rightarrow>
               (case completeReceiptSuggestion w driver receipt i history of
                  Inl _ \<Rightarrow> known
                | Inr (c, extra) \<Rightarrow> (add_missing extra parsed, if confidence < c then c else confidence)))
        else known)"

definition import_fields :: "vendor_rule option \<Rightarrow> import_result \<Rightarrow> import_scan \<Rightarrow> payload \<times> rat \<Rightarrow> payload \<times> rat" where
  "import_fields match result c known =
     (let m = ip_summary result;
          (parsed, confidence) = (if match = None \<and> dominantAccount (ic_counts c) \<noteq> []
             then (put ''account_id'' (VString (dominantAccount (ic_counts c))) (fst known), fl64 (65 / 100)) else known);
          parsed = put ''import_summary'' (summary_json m) parsed;
          parsed = (if length (ic_hints c) > 0 then put ''import_rows'' (VArray (ic_hints c)) parsed else parsed);
          parsed = (if length (ip_errors result) > 0
             then put ''import_errors'' (VArray (map row_error_json (ip_errors result))) parsed else parsed);
          parsed = (if 0 < i64 (is_total m) then put ''total_cents'' (vint (is_total m)) parsed else parsed);
          parsed = (if is_top m \<noteq> [] then put ''vendor_hint'' (VString (is_top m)) parsed else parsed)
      in (parsed, if match \<noteq> None then fl64 (7 / 10) else confidence))"

definition import_stage ::
  "worker_env \<Rightarrow> receipt \<Rightarrow> vendor_rule option \<Rightarrow> import_result \<Rightarrow> payload \<times> rat \<Rightarrow> (payload \<times> rat) dbm" where
  "import_stage w receipt match result known =
     dbind (scan_import w receipt (ip_rows result) \<lparr>ic_hints = [], ic_stored = [], ic_counts = []\<rparr>) (\<lambda>c.
     dbind (if length (ic_stored c) > 0
            then ImportRowStore_ReplaceForReceipt (r_id receipt) (r_entity receipt) (ic_stored c) else dret ()) (\<lambda>_.
     dret (import_fields match result c known)))"

definition new_suggestion ::
  "worker_env \<Rightarrow> ai_config \<Rightarrow> receipt \<Rightarrow> suggest_inputs \<Rightarrow> candidate list \<Rightarrow> payload \<times> rat \<Rightarrow> int \<Rightarrow> suggestion" where
  "new_suggestion w ai receipt i history found version =
     (let prompt = wk_marshal w (prompt_json receipt i history); parsed = wk_marshal w (VObject (fst found));
          promptTokens = estimateTokens prompt; completionTokens = estimateTokens parsed
      in \<lparr>s_id = [], s_receipt = r_id receipt, s_provider = aic_provider ai,
          s_model = (if IsAIAvailable ai \<and> aic_model ai \<noteq> [] then aic_model ai else ''rules''),
          s_status = (if \<not> IsAIAvailable ai \<and> aic_limit_exceeded ai then ''limit_exceeded'' else ''succeeded''),
          s_prompt = prompt, s_raw = wk_marshal w (raw_json ai history), s_parsed = parsed, s_confidence = snd found,
          s_error = [], s_hash = [], s_version = version, s_prompt_tokens = promptTokens,
          s_completion_tokens = completionTokens, s_total_tokens = promptTokens + completionTokens,
          s_cost = EstimateCostCents promptTokens completionTokens (wk_price_in w) (wk_price_out w), s_created = 0\<rparr>)"

definition store_suggestion :: "receipt \<Rightarrow> (int \<Rightarrow> suggestion) \<Rightarrow> unit dbm" where
  "store_suggestion receipt x =
     dbind (dtry (ReceiptSuggestionStore_LatestByReceiptID (r_id receipt))) (\<lambda>latest.
     dbind (dtry (ReceiptSuggestionStore_Create (x (latest_version (map_sum id s_version latest))))) (\<lambda>c.
     case c of
       Inl err \<Rightarrow> dbind (pipelinePark receipt ''suggest'' (error_text err)) (\<lambda>_. dthrow err)
     | Inr _ \<Rightarrow> dret ()))"

definition make_suggestion :: "worker_env \<Rightarrow> string \<Rightarrow> receipt \<Rightarrow> (string \<Rightarrow> string) \<Rightarrow> unit dbm" where
  "make_suggestion w tenant receipt sha =
     (let ai = resolve_ai w in
      dbind (buildSuggestInputs w receipt) (\<lambda>i.
      let result = ParseCSV sha (si_text i); topVendor = is_top (ip_summary result);
          history = history_of w tenant receipt i topVendor in
      dbind (first_rule (r_entity receipt) (ruleMatchCandidates
               [r_original receipt, si_item_context i, si_text i, topVendor, join (si_hints i) '' ''])) (\<lambda>match.
      let found = ai_suggestion w ai receipt i history match (known_suggestion match history) in
      dbind (if r_kind receipt = ''import'' then import_stage w receipt match result found else dret found) (\<lambda>found.
      store_suggestion receipt (new_suggestion w ai receipt i history found)))))"

definition runSuggest :: "worker_env \<Rightarrow> (string \<Rightarrow> string) \<Rightarrow> string \<Rightarrow> unit dbm" where
  "runSuggest w sha receiptID =
     dbind (ReceiptStore_GetByID receiptID) (\<lambda>receipt.
     dbind (if r_status receipt \<noteq> ''processing'' then attempt (ReceiptStore_UpdateStatus receiptID ''processing'') else dret ()) (\<lambda>_.
     dbind (if r_kind receipt \<noteq> ''import'' then dbind (DraftStore_EnsureForReceipt receiptID) (\<lambda>_. dret ()) else dret ()) (\<lambda>_.
     dbind (tenantFor (r_entity receipt)) (\<lambda>tenant.
     dbind (make_suggestion w tenant receipt sha) (\<lambda>_.
     attempt (Enqueue receiptID ''draft''))))))"

section \<open>The draft stage\<close>

definition suggested_lines :: "worker_env \<Rightarrow> receipt \<Rightarrow> draft_line list dbm" where
  "suggested_lines w receipt =
     dbind (dtry (ReceiptSuggestionStore_LatestByReceiptID (r_id receipt))) (\<lambda>latest.
     case latest of
       Inl _ \<Rightarrow> dret []
     | Inr x \<Rightarrow> dbind (default_cash (r_entity receipt)) (\<lambda>cash. dret (buildEntriesFromSuggestion (wk_decode w) receipt x cash)))"

definition set_entries :: "receipt \<Rightarrow> draft_line list \<Rightarrow> unit dbm" where
  "set_entries receipt entries =
     (if length entries > 0 then
        dbind (dtry (DraftStore_SetEntriesByReceipt (r_id receipt) entries)) (\<lambda>r.
        case r of
          Inl err \<Rightarrow> dbind (pipelinePark receipt ''draft'' (error_text err)) (\<lambda>_. dthrow err)
        | Inr _ \<Rightarrow> dret ())
      else dret ())"

definition runDraft :: "worker_env \<Rightarrow> string \<Rightarrow> unit dbm" where
  "runDraft w receiptID =
     dbind (ReceiptStore_GetByID receiptID) (\<lambda>receipt.
     dbind (DraftStore_EnsureForReceipt receiptID) (\<lambda>draft.
     if length (dr_entries draft) > 0 then ReceiptStore_UpdateStatus receiptID ''ready_for_review''
     else dbind (suggested_lines w receipt) (\<lambda>entries.
       dbind (set_entries receipt entries) (\<lambda>_.
       dbind (dtry (ReceiptStore_UpdateStatus receiptID ''ready_for_review'')) (\<lambda>r.
       case r of
         Inl err \<Rightarrow> dbind (record_error receipt ''draft'' (error_text err)) (\<lambda>_. dthrow err)
       | Inr _ \<Rightarrow> dret ())))))"

section \<open>Jobs\<close>

definition processJob :: "worker_env \<Rightarrow> (string \<Rightarrow> string) \<Rightarrow> job \<Rightarrow> unit dbm" where
  "processJob w sha job =
     (if j_stage job = ''ocr'' \<or> j_stage job = [] then runOCR w (j_receipt job)
      else if j_stage job = ''suggest'' then
        (if wk_mode w = ''decomposed-batch'' then StateStore_Ensure (j_receipt job)
         else if wk_mode w = ''decomposed'' then runPipeline w (j_receipt job)
         else runSuggest w sha (j_receipt job))
      else if j_stage job = ''draft'' then runDraft w (j_receipt job)
      else dret ())"

definition finish_job :: "job \<Rightarrow> db_error + unit \<Rightarrow> unit dbm" where
  "finish_job job r =
     attempt (case r of Inl err \<Rightarrow> Fail (j_id job) (error_text err) True | Inr _ \<Rightarrow> Ack (j_id job))"

fun run_jobs :: "worker_env \<Rightarrow> (string \<Rightarrow> string) \<Rightarrow> job list \<Rightarrow> unit dbm" where
  "run_jobs w sha [] = dret ()"
| "run_jobs w sha (job # jobs) =
     dbind (dtry (processJob w sha job)) (\<lambda>r. dbind (finish_job job r) (\<lambda>_. run_jobs w sha jobs))"

text \<open>One round of the loop; a shutdown stops it after \<open>n\<close> of the claimed jobs.\<close>

definition worker_round :: "worker_env \<Rightarrow> (string \<Rightarrow> string) \<Rightarrow> claim_req \<Rightarrow> nat \<Rightarrow> unit dbm" where
  "worker_round w sha req n =
     dbind (dtry (Claim req)) (\<lambda>r. case r of Inl _ \<Rightarrow> dret () | Inr jobs \<Rightarrow> run_jobs w sha (take n jobs))"

end
