(* ===== verification/Worker_Safety.thy ===== *)
theory Worker_Safety
  imports Worker
begin

text \<open>
  What the worker may do.  Whatever the AI answers and whichever statement fails, no job posts anything; the stages other
  than the classic suggestion are quiet, so the decomposed pipelines never write a row of a bank statement; and a receipt
  that the pipeline reports ready has a draft that balances.
\<close>

section \<open>The stages leave the ledger alone\<close>

lemma quiet_attempt: "quiet m \<Longrightarrow> quiet (attempt m)"
  unfolding attempt_def by (intro quiet_rules)

lemma quiet_insert_art [quiet_ops]: "quiet (insert_art ids fk ins)"
  unfolding insert_art_def by (rule quiet_stmt) (auto simp: Let_def outside_def split: if_splits)

lemma quiet_artifacts [quiet_ops]:
  "quiet (ProcessingErrorStore_Create mi x)" "quiet (ReceiptOCRStore_Create o')" "quiet (ReceiptSuggestionStore_Create sg)"
  "quiet (ReceiptSuggestionStore_LatestByReceiptID r)"
  unfolding ProcessingErrorStore_Create_def ProcessingErrorStore_GetByID_def ReceiptOCRStore_Create_def
    ReceiptOCRStore_GetByID_def ReceiptSuggestionStore_Create_def ReceiptSuggestionStore_GetByID_def
    ReceiptSuggestionStore_LatestByReceiptID_def
  by (intro quiet_rules quiet_ops)+

lemma quiet_park [quiet_ops]: "quiet (record_error r st m)" "quiet (pipelinePark r st m)" "quiet (recordOCRError r e)"
  unfolding recordOCRError_def pipelinePark_def record_error_def
  by (intro quiet_rules quiet_attempt quiet_ops)+

lemma quiet_queue [quiet_ops]:
  "quiet (Enqueue r st)" "quiet (Claim q)" "quiet (Ack j)" "quiet (Fail j e b)"
  unfolding Enqueue_def Claim_def Ack_def Fail_def Let_def
  by (intro quiet_rules quiet_stmt; auto simp: outside_def update_jobs_def Let_def split: if_splits)+

lemma quiet_rules_store [quiet_ops]: "quiet (VendorRuleStore_FindMatching e v)" "quiet (DraftStore_SetEntriesByReceipt r es)"
  unfolding VendorRuleStore_FindMatching_def DraftStore_SetEntriesByReceipt_def delete_draft_entries_def insert_draft_entry_def
  by (intro quiet_rules quiet_ops quiet_stmt; auto simp: outside_def Let_def split: if_splits)+

lemma quiet_latest [quiet_ops]: "quiet (latest_text r)" "quiet (default_cash e)"
  unfolding latest_text_def default_cash_def by (intro quiet_rules quiet_ops)+

lemma quiet_runOCR: "quiet (runOCR w r)"
  unfolding runOCR_def transcribe_def store_ocr_def
  by (intro quiet_rules quiet_attempt quiet_ops)

lemma quiet_remember [quiet_ops]: "quiet (remember_vendor w t e res)" "quiet (buildAISummary res v)"
  unfolding remember_vendor_def buildAISummary_def Let_def by (intro quiet_rules quiet_ops)+

lemma quiet_after_draft [quiet_ops]: "quiet (after_draft w t e r res)"
  unfolding after_draft_def by (intro quiet_rules quiet_attempt quiet_ops)

lemma quiet_write_draft [quiet_ops]: "quiet (write_draft r e)"
  unfolding write_draft_def by (intro quiet_rules quiet_ops)

lemma quiet_pipeline_done [quiet_ops]: "quiet (pipeline_done w t r out)"
  unfolding pipeline_done_def
  by (cases out) (auto intro!: quiet_rules quiet_attempt quiet_ops)

lemma quiet_run_staged [quiet_ops]: "(\<And>v. quiet (f v)) \<Longrightarrow> quiet (run_staged ai i f)"
  unfolding run_staged_def by (intro quiet_rules)

lemma quiet_runPipeline: "quiet (runPipeline w r)"
  unfolding runPipeline_def by (intro quiet_rules quiet_ops)

lemma quiet_runDraft: "quiet (runDraft w r)"
  unfolding runDraft_def suggested_lines_def set_entries_def by (intro quiet_rules quiet_ops)

text \<open>
  The classic suggestion writes import rows and the hand-off to the batch pipeline writes its state: they keep a part \<open>g\<close> of
  what \<open>outside\<close> shows first, the posted books or the import rows.
\<close>

definition calm :: "(tx_row list \<times> entry_row list \<times> int option list \<times> import_row list \<Rightarrow> 'v) \<Rightarrow> 'a dbm \<Rightarrow> bool" where
  "calm g m \<longleftrightarrow> (\<forall>x. keeps (\<lambda>s. g (fst (outside s)) = x) m)"

abbreviation books_part :: "tx_row list \<times> entry_row list \<times> int option list \<times> import_row list \<Rightarrow>
    tx_row list \<times> entry_row list \<times> int option list" where
  "books_part \<equiv> \<lambda>(txs, entries, attached, rows). (txs, entries, attached)"

abbreviation rows_part :: "tx_row list \<times> entry_row list \<times> int option list \<times> import_row list \<Rightarrow> import_row list" where
  "rows_part \<equiv> \<lambda>(txs, entries, attached, rows). rows"

interpretation calm: table_invariant "\<lambda>s. g (fst (outside s)) = x" for g and x
  by unfold_locales (simp add: outside_tables)

lemma calm_quiet: "quiet m \<Longrightarrow> calm g m"
proof -
  assume m: "quiet m"
  have "outside (snd (m s)) = outside s" for s using m unfolding quiet_def keeps_def by blast
  then show ?thesis by (simp add: calm_def keeps_def)
qed

lemma calm_dbind: "calm g m \<Longrightarrow> (\<And>x. calm g (f x)) \<Longrightarrow> calm g (dbind m f)"
  unfolding calm_def by (intro allI calm.keep_flow) blast+

lemma calm_dtry: "calm g m \<Longrightarrow> calm g (dtry m)"
  unfolding calm_def by (intro allI calm.keep_flow) blast

lemma calm_transact: "calm g m \<Longrightarrow> calm g (transact m)"
  unfolding calm_def by (intro allI calm.keep_transact) blast

lemma calm_dfor: "(\<And>x. calm g (f x)) \<Longrightarrow> calm g (dfor xs f)"
  unfolding calm_def by (intro allI calm.keep_dfor) blast

lemma calm_stmt: "(\<And>s x s'. q s = (Inr x, s') \<Longrightarrow> g (fst (outside s')) = g (fst (outside s))) \<Longrightarrow> calm g (stmt q)"
  unfolding calm_def by (intro allI calm.keep_stmt) simp

lemma calm_if: "(P \<Longrightarrow> calm g a) \<Longrightarrow> (\<not> P \<Longrightarrow> calm g b) \<Longrightarrow> calm g (if P then a else b)"
  by simp

lemma calm_sum: "(\<And>e. calm g (h e)) \<Longrightarrow> (\<And>x. calm g (f x)) \<Longrightarrow> calm g (case r of Inl e \<Rightarrow> h e | Inr x \<Rightarrow> f x)"
  by (cases r) auto

lemmas calm_flow = calm_dbind calm_dtry calm_if calm_sum

lemma calm_Ensure: "calm g (StateStore_Ensure r)"
  unfolding StateStore_Ensure_def by (rule calm_stmt) (auto simp: outside_def split: if_splits)

lemma calm_ReplaceForReceipt: "calm books_part (ImportRowStore_ReplaceForReceipt r e rows)"
  unfolding ImportRowStore_ReplaceForReceipt_def upsert_import_row_def
  by (intro calm_transact calm_dbind calm_dfor calm_stmt; auto simp: outside_def Let_def split: if_splits)

lemma quiet_first_match [quiet_ops]: "quiet (first_match e t)"
  unfolding first_match_def by (intro quiet_rules quiet_ops)

lemma quiet_first_rule [quiet_ops]: "quiet (first_rule e cs)"
  by (induction cs) (auto intro!: quiet_rules quiet_ops)

lemma quiet_scan_import [quiet_ops]: "quiet (scan_import w r rows c)"
proof (induction rows arbitrary: c)
  case (Cons row rows)
  have "quiet (scan_import_row w r row c)" unfolding scan_import_row_def Let_def by (intro quiet_rules quiet_ops)
  then show ?case using Cons by (simp add: quiet_rules)
qed (simp add: quiet_rules)

lemma quiet_inputs [quiet_ops]: "quiet (buildSuggestInputs w r)"
  unfolding buildSuggestInputs_def Let_def
  by (intro quiet_rules quiet_ops quiet_stmt) auto

lemma quiet_store_suggestion [quiet_ops]: "quiet (store_suggestion r x)"
  unfolding store_suggestion_def by (intro quiet_rules quiet_ops)

lemma calm_import_stage: "calm books_part (import_stage w r m res k)"
  unfolding import_stage_def by (intro calm_flow calm_ReplaceForReceipt calm_quiet quiet_rules quiet_ops)

lemma calm_make_suggestion: "calm books_part (make_suggestion w t r sha)"
  unfolding make_suggestion_def Let_def
  by (rule calm_dbind [OF calm_quiet [OF quiet_inputs]], rule calm_dbind [OF calm_quiet [OF quiet_first_rule]],
      rule calm_dbind [OF calm_if [OF calm_import_stage calm_quiet] calm_quiet]) (intro quiet_rules quiet_ops)+

lemma calm_runSuggest: "calm books_part (runSuggest w sha r)"
  unfolding runSuggest_def
  by (intro calm_dbind calm_make_suggestion; intro calm_quiet quiet_rules quiet_attempt quiet_ops)

text \<open>The modes in which a suggest job does not reach \<open>runSuggest\<close>.\<close>

definition decomposed :: "worker_env \<Rightarrow> bool" where
  "decomposed w \<longleftrightarrow> wk_mode w = ''decomposed'' \<or> wk_mode w = ''decomposed-batch''"

lemma calm_processJob:
  assumes "decomposed w \<or> calm g (runSuggest w sha (j_receipt job))"
  shows "calm g (processJob w sha job)"
  unfolding processJob_def
  by (intro calm_if calm_Ensure)
     (use assms in \<open>auto simp: decomposed_def intro: calm_quiet quiet_runOCR quiet_runPipeline quiet_runDraft quiet_rules\<close>)

lemma quiet_finish_job: "quiet (finish_job job r)"
  unfolding finish_job_def by (intro quiet_attempt quiet_sum quiet_ops)

lemma calm_run_jobs:
  assumes "\<And>r. decomposed w \<or> calm g (runSuggest w sha r)"
  shows "calm g (run_jobs w sha jobs)"
proof (induction jobs)
  case Nil
  then show ?case by (simp add: calm_quiet quiet_rules)
next
  case (Cons job jobs)
  then show ?case by (auto intro!: calm_dbind calm_dtry calm_processJob assms calm_quiet [OF quiet_finish_job])
qed

lemma calm_worker_round: "(\<And>r. decomposed w \<or> calm g (runSuggest w sha r)) \<Longrightarrow> calm g (worker_round w sha req n)"
  unfolding worker_round_def
  by (intro calm_flow calm_run_jobs; (assumption | intro calm_quiet quiet_rules quiet_ops))

text \<open>
    C18. A round of the worker posts nothing, whatever jobs it claims and in whatever mode: the transactions, their entries and
  the attachments of the receipts are the same afterwards, also when statements fail or the AI answers nonsense.
\<close>

theorem worker_posts_nothing: "posted_view (snd (worker_round w sha req n s)) = posted_view s"
proof -
  have "calm books_part (worker_round w sha req n)" by (rule calm_worker_round) (simp add: calm_runSuggest)
  then show ?thesis by (simp add: calm_def keeps_def outside_def posted_view_def)
qed

text \<open>A worker whose AI reads a receipt of 10.80 and books it to the account \<open>u1\<close>.\<close>

definition sample_worker :: worker_env where
  "sample_worker = \<lparr>
     wk_ocr = \<lparr>oe_provider_name = [], oe_model = [], oe_max_tokens = 0, oe_max_bytes = 0, oe_url = (\<lambda>_. Inl []), oe_get = (\<lambda>_. Inl []),
       oe_pdf = (\<lambda>_. Inl []), oe_provider = (\<lambda>_ _. Inl []), oe_chat = (\<lambda>_ _. Inl [])\<rparr>,
     wk_mode = ''decomposed'', wk_ai_provider = ''openai'', wk_ai_key = ''k'', wk_ai_model = ''m'', wk_price_in = 0, wk_price_out = 0,
     wk_search = \<lparr>se_enabled = False, se_vendors = (\<lambda>_. Inl [])\<rparr>, wk_transactions = (\<lambda>_. Inl []),
     wk_provider = (\<lambda>_ _. Inr (\<lambda>_. Inr [])), wk_extract = (\<lambda>_. Inr (sample_extract\<lparr>x_vendor := None\<rparr>)), wk_vendor = (\<lambda>_. Inl []),
     wk_classify = (\<lambda>_. Inr \<lparr>c_account = ''u1'', c_confidence = 95 / 100, c_reason = []\<rparr>),
     wk_decode = (\<lambda>_. None), wk_unmarshal = (\<lambda>_. Inl []), wk_marshal = (\<lambda>_. []), wk_context = (\<lambda>_. [])\<rparr>"

text \<open>
    In the decomposed modes the worker never writes the rows of a bank statement: an import that is processed in one of
  these modes has no rows to map or post, since only the classic suggestion parses statements.
\<close>

theorem import_rows_only_classic: "decomposed w \<Longrightarrow> db_import_rows (snd (worker_round w sha req n s)) = db_import_rows s"
proof -
  assume "decomposed w"
  then have "calm rows_part (worker_round w sha req n)" by (intro calm_worker_round) simp
  then show ?thesis by (simp add: calm_def keeps_def outside_def)
qed

theorem import_rows_only_classic_witness:
  "db_import_rows (snd (worker_round sample_worker id sample_claim 1 (snd (Enqueue ''u11'' ''suggest'' sample_import_db)))) =
     db_import_rows (snd (Enqueue ''u11'' ''suggest'' sample_import_db))"
  by (rule import_rows_only_classic) (simp add: decomposed_def sample_worker_def)

section \<open>A ready receipt has a balanced draft\<close>

definition draft_rows :: "string \<Rightarrow> db \<Rightarrow> entry_row list option" where
  "draft_rows r s = map_option (\<lambda>t. filter (\<lambda>e. en_tx e = dt_id t) (db_draft_entries s))
     (find (\<lambda>t. dt_receipt t = r) (db_drafts s))"

definition draft_balanced :: "string \<Rightarrow> db \<Rightarrow> bool" where
  "draft_balanced r s \<longleftrightarrow> (\<exists>es. draft_rows r s = Some es \<and> es \<noteq> [] \<and> sum64 en_debit es = sum64 en_credit es)"

definition reported_ready :: "string \<Rightarrow> db \<Rightarrow> bool" where
  "reported_ready r s \<longleftrightarrow> (r, ''ready_for_review'') \<in> (\<lambda>x. (rc_id x, rc_status x)) ` set (db_receipts s)"

definition report_ok :: "string \<Rightarrow> db \<Rightarrow> bool" where
  "report_ok r s \<longleftrightarrow> (reported_ready r s \<longrightarrow> draft_balanced r s)"

lemma ready_tables: "same_tables s s' \<Longrightarrow> draft_balanced r s' = draft_balanced r s \<and> reported_ready r s' = reported_ready r s"
  by (simp add: draft_balanced_def draft_rows_def reported_ready_def same_tables_fields)

interpretation rd: table_invariant "report_ok r" for r
  by unfold_locales (simp add: report_ok_def ready_tables)

text \<open>A statement that leaves receipts' status, drafts and draft entries as they are.\<close>

lemma rd_stmt:
  assumes "\<And>s x s'. q s = (Inr x, s') \<Longrightarrow> map (\<lambda>x. (rc_id x, rc_status x)) (db_receipts s') = map (\<lambda>x. (rc_id x, rc_status x)) (db_receipts s) \<and>
    db_drafts s' = db_drafts s \<and> db_draft_entries s' = db_draft_entries s"
  shows "keeps (report_ok r) (stmt q)"
proof (rule rd.keep_stmt)
  fix s x s' assume r: "report_ok r s" and q: "q s = (Inr x, s')"
  have "(\<lambda>x. (rc_id x, rc_status x)) ` set (db_receipts s') = (\<lambda>x. (rc_id x, rc_status x)) ` set (db_receipts s)"
    using assms [OF q] by (metis list.set_map)
  then show "report_ok r s'" using r assms [OF q] by (simp add: report_ok_def reported_ready_def draft_balanced_def draft_rows_def)
qed

lemma rd_list: "keeps I a \<Longrightarrow> (\<And>x xs. keeps I (f x xs)) \<Longrightarrow> keeps I (case r of [] \<Rightarrow> a | x # xs \<Rightarrow> f x xs)"
  by (cases r) auto

lemmas rd_flow = rd.keep_flow rd.keep_dfor rd_list

named_theorems rd_ops

lemma rd_attempt: "keeps (report_ok r) m \<Longrightarrow> keeps (report_ok r) (attempt m)"
  unfolding attempt_def by (intro rd_flow)

lemma rd_reads [rd_ops]:
  "keeps (report_ok r) (ReceiptOCRStore_LatestByReceiptID i)" "keeps (report_ok r) (ReceiptStore_GetByID i)"
  "keeps (report_ok r) (EntityStore_GetByID i)" "keeps (report_ok r) (VendorStore_GetByID i)"
  "keeps (report_ok r) (VendorStore_ListForEntity i l)" "keeps (report_ok r) (VendorAliasStore_ListNormalized i)"
  "keeps (report_ok r) (VendorStore_FindByNormalized i n)" "keeps (report_ok r) (ListByAccountID i)"
  "keeps (report_ok r) (DraftStore_GetByReceiptID i)"
  unfolding ReceiptOCRStore_LatestByReceiptID_def ReceiptStore_GetByID_def EntityStore_GetByID_def VendorStore_GetByID_def
    VendorStore_ListForEntity_def VendorAliasStore_ListNormalized_def VendorStore_FindByNormalized_def
    ListByAccountID_def DraftStore_GetByReceiptID_def Let_def
  by (intro rd_flow)+

lemma rd_send [rd_ops]: "keeps (report_ok r) (send c)" "keeps (report_ok r) today"
  by (simp_all add: keeps_def send_def today_def report_ok_def reported_ready_def draft_balanced_def draft_rows_def)

lemma rd_accountFromRow [rd_ops]: "keeps (report_ok r) (accountFromRow x)"
  unfolding accountFromRow_def by (intro rd_flow rd_ops)

lemma rd_accountsFromRows [rd_ops]: "keeps (report_ok r) (accountsFromRows rs)"
  by (induction rs) (simp_all add: rd_flow rd_ops)

lemma rd_lookups [rd_ops]:
  "keeps (report_ok r) (tenantFor e)" "keeps (report_ok r) (accountRefs e)" "keeps (report_ok r) (default_cash e)"
  "keeps (report_ok r) (latest_text i)" "keeps (report_ok r) (Candidates se t e n)"
  unfolding tenantFor_def accountRefs_def default_cash_def latest_text_def Candidates_def searchRefs_def listVendors_def
    AccountStore_ListForEntity_def AccountStore_FindDefaultCashAccount_def Let_def
  by (intro rd_flow rd_ops)+

lemma rd_vendors [rd_ops]:
  "keeps (report_ok r) (VendorStore_Create v)" "keeps (report_ok r) (VendorAliasStore_Record i e w n)"
  unfolding VendorStore_Create_def VendorAliasStore_Record_def upsert_alias_def bump_vendor_def
  by (intro rd_flow rd_ops rd.keep_transact rd_stmt; auto simp: Let_def split: if_splits option.splits)+

lemma rd_indexGlobalSearch [rd_ops]: "keeps (report_ok r) (indexGlobalSearch se t v)"
  using rd_send(1) by (auto simp: keeps_def indexGlobalSearch_def dret_def)

lemma rd_memo [rd_ops]: "keeps (report_ok r) (Memoize se t e p a)" "keeps (report_ok r) (RecordResolution se t e v w)"
  unfolding IndexRetrieval_def Memoize_def RecordResolution_def Let_def by (intro rd_flow rd_ops)+

lemma rd_receipts [rd_ops]:
  "keeps (report_ok r) (ReceiptStore_SetResolvedVendor i v w)" "keeps (report_ok r) (ReceiptStore_SetAISummary i sm)"
  unfolding ReceiptStore_SetResolvedVendor_def ReceiptStore_SetAISummary_def
  by (intro rd_flow rd_stmt; auto simp: update_receipts_def Let_def split: if_splits)+

lemma rd_needs_attention [rd_ops]: "keeps (report_ok r) (ReceiptStore_UpdateStatus i ''needs_attention'')"
  unfolding ReceiptStore_UpdateStatus_def update_receipts_def
  by (intro rd_flow rd.keep_stmt)
     (auto simp: report_ok_def reported_ready_def draft_balanced_def draft_rows_def image_iff split: if_splits)

lemma rd_park [rd_ops]: "keeps (report_ok r) (pipelinePark x st m)"
  unfolding pipelinePark_def record_error_def ProcessingErrorStore_Create_def ProcessingErrorStore_GetByID_def insert_art_def
  by (intro rd_flow rd_attempt rd_ops rd_stmt) (auto simp: Let_def split: if_splits)

lemma rd_after_draft [rd_ops]: "keeps (report_ok r) (after_draft w t e i res)"
  unfolding after_draft_def remember_vendor_def buildAISummary_def Let_def
  by (intro rd_flow rd_attempt rd_ops)

lemma draft_rows_None: "r \<notin> dt_receipt ` set (db_drafts s) \<Longrightarrow> \<not> draft_balanced r s"
  by (auto simp: draft_balanced_def draft_rows_def find_Some_iff)

lemma rd_Ensure [rd_ops]: "keeps (report_ok r) (DraftStore_EnsureForReceipt r)"
  unfolding DraftStore_EnsureForReceipt_def insert_draft_def
  by (intro rd_flow rd_ops rd.keep_stmt)
     (auto simp: Let_def report_ok_def reported_ready_def draft_rows_None split: option.splits if_splits)

text \<open>Writing a draft through the balance check leaves balanced lines.\<close>

lemma insert_lines_Inr:
  "dfor es (insert_draft_entry d) s = (Inr (), s') \<Longrightarrow>
   \<exists>rows. db_draft_entries s' = db_draft_entries s @ rows \<and> db_drafts s' = db_drafts s \<and>
     (\<forall>e\<in>set rows. en_tx e = d) \<and> map en_debit rows = map dl_debit es \<and> map en_credit rows = map dl_credit es"
proof (induction es arbitrary: s)
  case Nil
  then show ?case by (auto simp: db_simps)
next
  case (Cons e es)
  then obtain t where 1: "insert_draft_entry d e s = (Inr (), t)" and 2: "dfor es (insert_draft_entry d) t = (Inr (), s')"
    by (auto simp: db_simps)
  obtain row where row: "db_draft_entries t = db_draft_entries s @ [row]" "db_drafts t = db_drafts s" "en_tx row = d"
    "en_debit row = dl_debit e" "en_credit row = dl_credit e"
    using 1 by (auto simp: insert_draft_entry_def stmt_Inr Let_def split: if_splits)
  obtain rows where "db_draft_entries s' = db_draft_entries t @ rows" "db_drafts s' = db_drafts t"
    "\<forall>e\<in>set rows. en_tx e = d" "map en_debit rows = map dl_debit es" "map en_credit rows = map dl_credit es"
    using Cons.IH [OF 2] by blast
  then show ?case using row by (intro exI [of _ "row # rows"]) simp
qed

lemma update_draft_balanced:
  assumes "dbind (stmt (\<lambda>s. (Inr (), s\<lparr>db_drafts := map (\<lambda>t. if dt_id t = dt_id dt
        then t\<lparr>dt_date := d, dt_memo := memo, dt_updated := db_now s\<rparr> else t) (db_drafts s)\<rparr>))) (\<lambda>_.
      dbind (delete_draft_entries (dt_id dt)) (\<lambda>_. dfor es (insert_draft_entry (dt_id dt)))) s = (Inr (), s')"
    "find (\<lambda>t. dt_receipt t = r) (db_drafts s) = Some dt" "validateBalanced es = None"
  shows "draft_balanced r s'"
proof -
  define f where "f = (\<lambda>now (t :: draft_row). if dt_id t = dt_id dt then t\<lparr>dt_date := d, dt_memo := memo, dt_updated := now\<rparr> else t)"
  define now where "now = db_now (s\<lparr>db_tick := db_tick s + 1\<rparr>)"
  define t where "t = s\<lparr>db_drafts := map (f now) (db_drafts s), db_tick := Suc (Suc (db_tick s)),
    db_draft_entries := filter (\<lambda>e. en_tx e \<noteq> dt_id dt) (db_draft_entries s)\<rparr>"
  have t: "db_drafts t = map (f now) (db_drafts s)" "db_draft_entries t = filter (\<lambda>e. en_tx e \<noteq> dt_id dt) (db_draft_entries s)"
    by (simp_all add: t_def)
  have ins: "dfor es (insert_draft_entry (dt_id dt)) t = (Inr (), s')"
    using assms(1) by (simp add: dbind_Inr stmt_Inr delete_draft_entries_def t_def f_def now_def cong: if_cong)
  obtain rows where rows: "db_draft_entries s' = db_draft_entries t @ rows" "db_drafts s' = db_drafts t"
    "\<forall>e\<in>set rows. en_tx e = dt_id dt" "map en_debit rows = map dl_debit es" "map en_credit rows = map dl_credit es"
    using insert_lines_Inr [OF ins] by blast
  have "find (\<lambda>t. dt_receipt t = r) (map (f now) ds) = map_option (f now) (find (\<lambda>t. dt_receipt t = r) ds)" for ds
    by (induction ds) (auto simp: f_def)
  then have find: "find (\<lambda>t. dt_receipt t = r) (db_drafts s') = Some (f now dt)" using assms(2) rows(2) t(1) by simp
  have "filter (\<lambda>e. en_tx e = dt_id dt) (db_draft_entries s') = rows"
    using rows(1,3) t(2) by simp
  then have shown: "draft_rows r s' = Some rows" by (simp add: draft_rows_def find f_def)
  have sums: "sum64 en_debit rows = sum64 dl_debit es" "sum64 en_credit rows = sum64 dl_credit es"
    using rows(4,5) unfolding sum64_eq_sum_list by simp_all
  have "rows \<noteq> []"
  proof
    assume "rows = []"
    then have "sum64 dl_debit es = 0" "sum64 dl_credit es = 0" using sums by simp_all
    then show False using assms(3) by (simp add: validateBalanced_def)
  qed
  moreover have "sum64 en_debit rows = sum64 en_credit rows"
    using assms(3) sums by (simp add: validateBalanced_def Let_def split: if_splits)
  ultimately show ?thesis using shown by (simp add: draft_balanced_def)
qed

lemma GetByReceiptID_Inr:
  "DraftStore_GetByReceiptID r s = (Inr draft, s') \<Longrightarrow>
   same_tables s s' \<and> (\<exists>dt. find (\<lambda>t. dt_receipt t = r) (db_drafts s) = Some dt \<and> dr_id draft = dt_id dt)"
  by (auto simp: DraftStore_GetByReceiptID_def db_simps get_row_Inr draftFromRows_def)

lemma UpdateDraft_reads:
  "DraftStore_GetByReceiptID r s = (x, s') \<Longrightarrow> same_tables s s'"
  unfolding DraftStore_GetByReceiptID_def
  by (auto simp: dbind_def dret_def dest!: get_row_tables select_tables(2) split: prod.splits sum.splits
      intro: same_tables_trans)

lemma UpdateDraft_cases:
  assumes "DraftStore_UpdateDraft r d memo es s = (x, s')"
  shows "same_tables s s' \<and> (\<forall>y. x \<noteq> Inr y) \<or> draft_balanced r s'"
proof (cases "validateBalanced es")
  case (Some e)
  then show ?thesis using assms by (auto simp: DraftStore_UpdateDraft_def dthrow_def)
next
  case None
  obtain g s1 where g: "DraftStore_GetByReceiptID r s = (g, s1)" by (cases "DraftStore_GetByReceiptID r s")
  note read = UpdateDraft_reads [OF g]
  show ?thesis
  proof (cases g)
    case (Inl e)
    then show ?thesis using assms None g read by (auto simp: DraftStore_UpdateDraft_def dbind_def)
  next
    case (Inr draft)
    obtain dt where dt: "find (\<lambda>t. dt_receipt t = r) (db_drafts s) = Some dt" "dr_id draft = dt_id dt"
      using GetByReceiptID_Inr [OF g [unfolded Inr]] by blast
    define m where "m = dbind (stmt (\<lambda>s. (Inr (), s\<lparr>db_drafts := map (\<lambda>t. if dt_id t = dt_id dt
        then t\<lparr>dt_date := d, dt_memo := nullString memo, dt_updated := db_now s\<rparr> else t) (db_drafts s)\<rparr>))) (\<lambda>_.
      dbind (delete_draft_entries (dt_id dt)) (\<lambda>_. dfor es (insert_draft_entry (dt_id dt))))"
    obtain y s2 where y: "transact m s1 = (y, s2)" by (cases "transact m s1")
    have rest: "(case y of Inl e \<Rightarrow> (Inl e, s2) | Inr _ \<Rightarrow> DraftStore_GetByReceiptID r s2) = (x, s')"
      using assms None g y unfolding Inr by (simp add: DraftStore_UpdateDraft_def dbind_def dt(2) m_def split: sum.splits)
    show ?thesis
    proof (cases y)
      case (Inl e)
      then show ?thesis using rest read same_tables_trans [OF read transact_Inl [OF y [unfolded Inl]]] by auto
    next
      case (Inr u)
      obtain t1 t2 where t: "same_tables s1 t1" "m t1 = (Inr u, t2)" "same_tables t2 s2"
        using transact_Inr [OF y [unfolded Inr]] by blast
      have "find (\<lambda>t. dt_receipt t = r) (db_drafts t1) = Some dt"
        using dt(1) read t(1) by (simp add: same_tables_fields)
      then have "draft_balanced r t2" using update_draft_balanced [OF _ _ None] t(2) by (simp add: m_def)
      moreover have "same_tables s2 s'" using rest UpdateDraft_reads [of r s2 x s'] by (simp add: Inr)
      ultimately show ?thesis using ready_tables [OF t(3)] ready_tables by blast
    qed
  qed
qed

lemma rd_UpdateDraft [rd_ops]: "keeps (report_ok r) (DraftStore_UpdateDraft r d memo es)"
  unfolding keeps_def
proof (intro allI impI)
  fix s assume s: "report_ok r s"
  obtain x s' where u: "DraftStore_UpdateDraft r d memo es s = (x, s')" by (cases "DraftStore_UpdateDraft r d memo es s")
  then show "report_ok r (snd (DraftStore_UpdateDraft r d memo es s))"
    using UpdateDraft_cases [OF u] s rd.tables_only [of s s' r] by (auto simp: report_ok_def)
qed

lemma rd_write_draft: "keeps (report_ok (r_id x)) (write_draft x e)"
  unfolding write_draft_def by (intro rd_flow rd_ops)

lemma write_draft_Inr: "write_draft x e s = (Inr (), s') \<Longrightarrow> draft_balanced (r_id x) s'"
proof -
  assume w: "write_draft x e s = (Inr (), s')"
  then have "dbind (DraftStore_EnsureForReceipt (r_id x)) (\<lambda>_.
     dbind (dtry (DraftStore_UpdateDraft (r_id x) (entry_date (db_today s) (de_date e)) (de_memo e) (draft_lines e))) (\<lambda>u.
     case u of
       Inl uerr \<Rightarrow> dbind (pipelinePark x ''build-entry'' (error_text uerr)) (\<lambda>_. dthrow uerr)
     | Inr _ \<Rightarrow> dret ())) s = (Inr (), s')"
    by (simp add: write_draft_def today_def dbind_def [of today])
  then obtain s2 where d: "dbind (dtry (DraftStore_UpdateDraft (r_id x) (entry_date (db_today s) (de_date e)) (de_memo e) (draft_lines e))) (\<lambda>u.
     case u of
       Inl uerr \<Rightarrow> dbind (pipelinePark x ''build-entry'' (error_text uerr)) (\<lambda>_. dthrow uerr)
     | Inr _ \<Rightarrow> dret ()) s2 = (Inr (), s')"
    unfolding dbind_Inr [of "DraftStore_EnsureForReceipt (r_id x)"] by blast
  obtain u s3 where u: "DraftStore_UpdateDraft (r_id x) (entry_date (db_today s) (de_date e)) (de_memo e) (draft_lines e) s2 = (u, s3)"
    by (rule prod.exhaust)
  have rest: "(case u of
       Inl uerr \<Rightarrow> dbind (pipelinePark x ''build-entry'' (error_text uerr)) (\<lambda>_. dthrow uerr)
     | Inr _ \<Rightarrow> dret ()) s3 = (Inr (), s')"
    using d u by (simp add: dbind_def dtry_def)
  show ?thesis
  proof (cases u)
    case (Inl err)
    then show ?thesis using rest by (simp add: dbind_Inr dthrow_def)
  next
    case (Inr y)
    then show ?thesis using rest UpdateDraft_cases [OF u] by (simp add: dret_def)
  qed
qed

lemma UpdateStatus_draft: "attempt (ReceiptStore_UpdateStatus i st) s = (x, s') \<Longrightarrow> draft_balanced r s' = draft_balanced r s"
proof -
  have q: "ReceiptStore_UpdateStatus i st s = (y, t) \<Longrightarrow> db_drafts t = db_drafts s \<and> db_draft_entries t = db_draft_entries s" for y t
    by (auto simp: ReceiptStore_UpdateStatus_def dbind_def stmt_def update_receipts_def dret_def dthrow_def Let_def
        split: prod.splits sum.splits if_splits)
  then show "attempt (ReceiptStore_UpdateStatus i st) s = (x, s') \<Longrightarrow> draft_balanced r s' = draft_balanced r s"
    by (auto simp: attempt_def dbind_def dtry_def dret_def draft_balanced_def draft_rows_def split: prod.splits)
qed

lemma rd_report:
  "keeps (report_ok (r_id x)) (dbind (write_draft x e) (\<lambda>_.
     dbind (attempt (ReceiptStore_UpdateStatus (r_id x) st)) (\<lambda>_. after_draft w t ent (r_id x) res)))"
  unfolding keeps_def
proof (intro allI impI)
  fix s assume s: "report_ok (r_id x) s"
  obtain y s1 where 1: "write_draft x e s = (y, s1)" by (cases "write_draft x e s")
  obtain z s2 where 2: "attempt (ReceiptStore_UpdateStatus (r_id x) st) s1 = (z, s2)"
    by (cases "attempt (ReceiptStore_UpdateStatus (r_id x) st) s1")
  have z: "z = Inr ()" using 2 by (auto simp: attempt_def dbind_def dtry_def dret_def split: prod.splits)
  have inl: "report_ok (r_id x) s1" using rd.keepsD [OF rd_write_draft s 1] .
  show "report_ok (r_id x) (snd (dbind (write_draft x e) (\<lambda>_.
     dbind (attempt (ReceiptStore_UpdateStatus (r_id x) st)) (\<lambda>_. after_draft w t ent (r_id x) res)) s))"
  proof (cases y)
    case (Inl err)
    then show ?thesis using 1 inl by (simp add: dbind_def)
  next
    case (Inr u)
    then have "draft_balanced (r_id x) s2" using write_draft_Inr [of x e s s1] 1 UpdateStatus_draft [OF 2] by simp
    then have "report_ok (r_id x) s2" by (simp add: report_ok_def)
    then have "report_ok (r_id x) (snd (after_draft w t ent (r_id x) res s2))"
      using rd_after_draft unfolding keeps_def by blast
    then show ?thesis using 1 2 Inr z by (simp add: dbind_def)
  qed
qed

lemma rd_pipeline_done: "keeps (report_ok (r_id x)) (pipeline_done w t x out)"
  unfolding pipeline_done_def
  by (cases out) (auto intro!: rd_flow rd_ops rd_report)

lemma receipt_id: "ReceiptStore_GetByID i s = (Inr x, s') \<Longrightarrow> r_id x = i"
  by (auto simp: ReceiptStore_GetByID_def db_simps get_row_Inr receiptFromRow_def find_Some_iff)

text \<open>
    C19. If the decomposed pipeline runs on a receipt that is not yet reported ready and the receipt is reported ready
  afterwards, then it has a draft with lines, and their debits and credits balance, whatever the AI answered and whichever
  statement failed.
\<close>

theorem pipeline_ready_balanced:
  assumes "\<not> reported_ready r s" "reported_ready r (snd (runPipeline w r s))"
  shows "draft_balanced r (snd (runPipeline w r s))"
proof -
  have s: "report_ok r s" using assms(1) by (simp add: report_ok_def)
  obtain g s1 where g: "ReceiptStore_GetByID r s = (g, s1)" by (cases "ReceiptStore_GetByID r s")
  have s1: "report_ok r s1" using rd.keepsD [OF rd_reads(2) s g] .
  have "report_ok r (snd (runPipeline w r s))"
  proof (cases g)
    case (Inl e)
    then show ?thesis using g s1 by (simp add: runPipeline_def dbind_def)
  next
    case (Inr x)
    have x: "r_id x = r" using receipt_id g Inr by blast
    define rest where "rest = dbind (latest_text r) (\<lambda>txt.
     if trim_space txt = [] then pipelinePark x ''extract'' ''no OCR text (transcription empty or OCR disabled)''
     else dbind (tenantFor (r_entity x)) (\<lambda>tenant.
       if \<not> IsAIAvailable (resolve_ai w) then pipelinePark x ''extract'' ''AI provider not configured''
       else case wk_provider w (aic_key (resolve_ai w)) (aic_model (resolve_ai w)) of
         Inl perr \<Rightarrow> dthrow (ErrText perr)
       | Inr driver \<Rightarrow>
           dbind (accountRefs (r_entity x)) (\<lambda>accts.
           dbind (default_cash (r_entity x)) (\<lambda>credit.
           dbind (run_staged (pipeline_ai w driver) (pipeline_input txt accts credit)
                    (Candidates (wk_search w) tenant (r_entity x)))
             (pipeline_done w tenant x)))))"
    have "keeps (report_ok (r_id x)) rest"
      unfolding rest_def run_staged_def by (intro rd_flow rd_ops rd_pipeline_done)
    moreover have "runPipeline w r s = rest s1" using g Inr by (simp add: runPipeline_def rest_def dbind_def)
    ultimately show ?thesis using s1 x by (simp add: keeps_def)
  qed
  then show ?thesis using assms(2) by (simp add: report_ok_def)
qed

definition sample_text_db :: db where
  "sample_text_db = snd (ReceiptOCRStore_Create \<lparr>o_id = [], o_receipt = ''u11'', o_provider = ''pdf-text'', o_status = ''succeeded'',
     o_text = ''ACME 10.80'', o_data = ''{}'', o_error = [], o_hash = [], o_version = 1, o_created = 0\<rparr> sample_ready_db)"

theorem pipeline_ready_balanced_witness:
  "draft_balanced ''u11'' (snd (runPipeline sample_worker ''u11'' sample_text_db))"
proof (rule pipeline_ready_balanced)
  show "\<not> reported_ready ''u11'' sample_text_db" by code_simp
  show "reported_ready ''u11'' (snd (runPipeline sample_worker ''u11'' sample_text_db))" by code_simp
qed

end
