(* ===== verification/Endpoint.thy ===== *)
theory Endpoint
  imports Ledger_Http
begin

text \<open>
  Handlers that answer with a value of their own: a status with either the error code of \<open>respondError\<close> or the value
  that is encoded as JSON or CSV.  \<open>ecall\<close> calls a store and branches on its error, as \<open>hcall\<close> does for the ledger's
  handlers; the lemmas take an answer apart along the control flow of its handler.
\<close>

type_synonym 'b endpoint = "db \<Rightarrow> (int \<times> (string + 'b)) \<times> db"

definition answer :: "int \<Rightarrow> 'b \<Rightarrow> 'b endpoint" where
  "answer status b s = ((status, Inr b), s)"

definition fails :: "int \<Rightarrow> string \<Rightarrow> 'b endpoint" where
  "fails status code s = ((status, Inl code), s)"

definition ecall :: "'a dbm \<Rightarrow> (db_error \<Rightarrow> 'b endpoint) \<Rightarrow> ('a \<Rightarrow> 'b endpoint) \<Rightarrow> 'b endpoint" where
  "ecall m onErr k s = (case m s of (Inl e, s') \<Rightarrow> onErr e s' | (Inr x, s') \<Rightarrow> k x s')"

definition ethen :: "unit dbm \<Rightarrow> 'b endpoint \<Rightarrow> 'b endpoint" where
  "ethen m k s = k (snd (m s))"

definition notConfigured :: "'b endpoint" where
  "notConfigured = fails 501 ''NOT_IMPLEMENTED''"

definition internalError :: "db_error \<Rightarrow> 'b endpoint" where
  "internalError e = fails 500 ''INTERNAL_ERROR''"

definition notFoundOr500 :: "db_error \<Rightarrow> 'b endpoint" where
  "notFoundOr500 e = (if e = ErrNotFound then fails 404 ''NOT_FOUND'' else fails 500 ''INTERNAL_ERROR'')"

text \<open>An endpoint as a handler of a route, with the encoding of its value.\<close>

definition encoded :: "('b \<Rightarrow> body) \<Rightarrow> 'b endpoint \<Rightarrow> handler" where
  "encoded enc h s = (case h s of ((st, Inl code), s') \<Rightarrow> ((st, BError code), s') | ((st, Inr b), s') \<Rightarrow> ((st, enc b), s'))"

text \<open>A successful answer comes out of the last continuation.\<close>

lemma answer_eq [simp]: "answer st b s = ((st', r), s') \<longleftrightarrow> st' = st \<and> r = Inr b \<and> s' = s"
  by (auto simp: answer_def)

lemma fails_eq [simp]: "fails st c s = ((st', r), s') \<longleftrightarrow> st' = st \<and> r = Inl c \<and> s' = s"
  by (auto simp: fails_def)

lemma fails_Inr [simp]: "fails st c s \<noteq> ((st', Inr b), s')"
  by (simp add: fails_def)

lemma ecall_eq: "ecall m f k s = r \<longleftrightarrow> (\<exists>e s1. m s = (Inl e, s1) \<and> f e s1 = r) \<or> (\<exists>x s1. m s = (Inr x, s1) \<and> k x s1 = r)"
  by (auto simp: ecall_def split: prod.splits sum.splits)

lemma ecall_answer:
  assumes "\<And>e u. f e u \<noteq> ((st, Inr b), s')"
  shows "ecall m f k s = ((st, Inr b), s') \<longleftrightarrow> (\<exists>x s1. m s = (Inr x, s1) \<and> k x s1 = ((st, Inr b), s'))"
  using assms by (auto simp: ecall_eq)

lemma internalError_Inr [simp]: "internalError e s \<noteq> ((st, Inr b), s')"
  by (simp add: internalError_def)

lemma notFoundOr500_Inr [simp]: "notFoundOr500 e s \<noteq> ((st, Inr b), s')"
  by (simp add: notFoundOr500_def)

lemma notConfigured_Inr [simp]: "notConfigured s \<noteq> ((st, Inr b), s')"
  by (simp add: notConfigured_def)

lemma ethen_eq [simp]: "ethen m k s = r \<longleftrightarrow> k (snd (m s)) = r"
  by (simp add: ethen_def)

text \<open>An answer that is a value, taken apart for evaluation.\<close>

lemma answered: "\<not> isl (snd (fst p)) \<Longrightarrow> p = ((fst (fst p), Inr (projr (snd (fst p)))), snd p)"
  by (cases p) (auto simp: sum.collapse intro: prod_eqI)

lemmas ecall_ok = ecall_answer [OF internalError_Inr] ecall_answer [OF notFoundOr500_Inr]

text \<open>Endpoints keep what their store calls keep.\<close>

definition ekeeps :: "(db \<Rightarrow> bool) \<Rightarrow> 'b endpoint \<Rightarrow> bool" where
  "ekeeps I h \<longleftrightarrow> (\<forall>s. I s \<longrightarrow> I (snd (h s)))"

lemma ekeeps_answer [intro]: "ekeeps I (answer st b)" "ekeeps I (fails st c)" "ekeeps I notConfigured"
  "ekeeps I (internalError e)" "ekeeps I (notFoundOr500 e)"
  by (simp_all add: ekeeps_def answer_def fails_def notConfigured_def internalError_def notFoundOr500_def)

lemma ekeeps_ecall: "keeps I m \<Longrightarrow> (\<And>e. ekeeps I (f e)) \<Longrightarrow> (\<And>x. ekeeps I (k x)) \<Longrightarrow> ekeeps I (ecall m f k)"
  unfolding ekeeps_def keeps_def ecall_def by (fastforce split: prod.splits sum.splits)

lemma ekeeps_ethen: "keeps I m \<Longrightarrow> ekeeps I k \<Longrightarrow> ekeeps I (ethen m k)"
  by (simp add: ekeeps_def keeps_def ethen_def)

text \<open>The numbers of a JSON object and the cells of a CSV file: \<open>strconv.FormatInt(x, 10)\<close>.\<close>

definition cents :: "int64 \<Rightarrow> string" where
  "cents x = int_str (i64 x)"

end
