(* ===== verification/Go_Calendar.thy ===== *)
theory Go_Calendar
  imports Search_Docs
begin

text \<open>
  The arithmetic of Go's package \<open>time\<close> on dates: \<open>time.Date\<close> with a day outside its month, \<open>AddDate\<close>, and the
  layouts \<open>20060102\<close>, \<open>2006-01\<close> and RFC 3339.  A day outside its month is carried month by month; the measure is the
  distance left.  \<open>next_day\<close> is the calendar's successor, the reference for adding and taking away one day.
\<close>

section \<open>\<open>time.Date\<close> and \<open>AddDate\<close>\<close>

text \<open>A day before the first or after the last of its month is carried into the neighbouring months.\<close>

function norm_date :: "int \<Rightarrow> int \<Rightarrow> int \<Rightarrow> date" where
  "norm_date y m d =
     (if d < 1 then (if m \<le> 1 then norm_date (y - 1) 12 (d + 31) else norm_date y (m - 1) (d + days_in (m - 1) y))
      else if days_in m y < d then (if 12 \<le> m then norm_date (y + 1) 1 (d - days_in m y) else norm_date y (m + 1) (d - days_in m y))
      else \<lparr>d_year = y, d_month = m, d_day = d\<rparr>)"
  by pat_completeness auto
termination
  by (relation "measure (\<lambda>(y, m, d). if d < 1 then nat (100 - d) else nat d)") (auto simp: days_in_def)

declare norm_date.simps [simp del]

text \<open>\<open>AddDate(years, 0, days)\<close>.\<close>

definition AddDate :: "date \<Rightarrow> int \<Rightarrow> int \<Rightarrow> date" where
  "AddDate t years days = norm_date (d_year t + years) (d_month t) (d_day t + days)"

definition next_day :: "date \<Rightarrow> date" where
  "next_day t =
     (if d_day t < days_in (d_month t) (d_year t) then t\<lparr>d_day := d_day t + 1\<rparr>
      else if d_month t < 12 then t\<lparr>d_month := d_month t + 1, d_day := 1\<rparr>
      else \<lparr>d_year = d_year t + 1, d_month = 1, d_day = 1\<rparr>)"

section \<open>Formatting\<close>

text \<open>Layouts \<open>20060102\<close> and \<open>2006-01\<close>.\<close>

definition format_compact :: "date \<Rightarrow> string" where
  "format_compact d = (if d_year d < 0 then ''-'' else []) @ pad_left 4 (nat_str \<bar>d_year d\<bar>) @ pad_left 2 (nat_str (d_month d)) @ pad_left 2 (nat_str (d_day d))"

definition format_month :: "date \<Rightarrow> string" where
  "format_month d = (if d_year d < 0 then ''-'' else []) @ pad_left 4 (nat_str \<bar>d_year d\<bar>) @ ''-'' @ pad_left 2 (nat_str (d_month d))"

text \<open>\<open>time.RFC3339\<close> (and the layout \<open>2006-01-02T15:04:05Z07:00\<close>, which is the same) of a time in UTC.\<close>

definition format_rfc3339 :: "int \<Rightarrow> string" where
  "format_rfc3339 t =
     (let s = t mod 86400 in
      format_iso (instant_date t) @ ''T'' @ pad_left 2 (nat_str (s div 3600)) @ '':'' @
      pad_left 2 (nat_str (s mod 3600 div 60)) @ '':'' @ pad_left 2 (nat_str (s mod 60)) @ ''Z'')"

section \<open>Lemmas\<close>

lemma days_in_range: "28 \<le> days_in m y" "days_in m y \<le> 31"
  by (auto simp: days_in_def)

lemma days_in_ge28 [simp]: "d \<le> 28 \<Longrightarrow> d \<le> days_in m y"
  using days_in_range [of m y] by linarith

lemma norm_date_valid: "1 \<le> d \<Longrightarrow> d \<le> days_in m y \<Longrightarrow> norm_date y m d = \<lparr>d_year = y, d_month = m, d_day = d\<rparr>"
  by (simp add: norm_date.simps)

lemma valid_norm_date: "1 \<le> m \<Longrightarrow> m \<le> 12 \<Longrightarrow> valid_date (norm_date y m d)"
proof (induction y m d rule: norm_date.induct)
  case (1 y m d)
  show ?case using "1.IH" "1.prems" by (subst norm_date.simps) (auto simp: valid_date_def)
qed

lemma next_day_valid: "valid_date t \<Longrightarrow> valid_date (next_day t)"
  by (auto simp: valid_date_def next_day_def)

text \<open>Adding a day is the calendar's successor, taking one away its predecessor.\<close>

lemma AddDate_next: "valid_date t \<Longrightarrow> AddDate t 0 1 = next_day t"
  by (cases t) (auto simp: AddDate_def next_day_def valid_date_def norm_date.simps [of _ _ "_ + 1"] norm_date_valid
      days_in_range not_less)

lemma next_day_AddDate: "valid_date t \<Longrightarrow> next_day (AddDate t 0 (- 1)) = t"
proof (cases "1 < d_day t")
  case True
  assume "valid_date t"
  then show ?thesis using True
    by (cases t) (auto simp: AddDate_def next_day_def valid_date_def norm_date_valid)
next
  case False
  assume v: "valid_date t"
  then have d: "d_day t = 1" using False by (auto simp: valid_date_def)
  show ?thesis
  proof (cases "d_month t = 1")
    case True
    then show ?thesis using d by (cases t) (simp add: AddDate_def norm_date.simps [of _ _ 0] norm_date_valid next_day_def days_in_def)
  next
    case False
    then show ?thesis using v d
      by (cases t) (auto simp: AddDate_def norm_date.simps [of _ _ 0] norm_date_valid next_day_def valid_date_def days_in_range)
  qed
qed

text \<open>Between a day and its successor there is nothing.\<close>

lemma next_day_gap:
  assumes "valid_date a" "valid_date b"
  shows "date_le (next_day b) a \<longleftrightarrow> \<not> date_le a b"
proof (cases "d_year a = d_year b")
  case True
  then show ?thesis using assms
    by (cases "d_month a = d_month b") (auto simp: date_le_def next_day_def valid_date_def)
next
  case False
  then show ?thesis using assms by (auto simp: date_le_def next_day_def valid_date_def)
qed

end
