(* ===== verification/Reports.thy ===== *)
theory Reports
  imports Books Endpoint Go_Calendar Go_Strconv
begin

text \<open>
  The financial reports: the package \<open>internal/reporting\<close> (account types and the normal side of a balance), the queries
  of \<open>internal/db/reporting.go\<close>, the handlers of \<open>internal/http/reports.go\<close> and the account views of
  \<open>account_views.go\<close>.  \<open>SUM(bigint)\<close> is a \<open>numeric\<close>: the driver fails to read it into an \<open>int64\<close> when it does not fit,
  and the handlers then compute in wrapping \<open>int64\<close>.

  \<open>trial_balance_nets\<close> sums the report's lines over the books; \<open>statements_articulate\<close> relates the balance sheet and
  the profit and loss statement of a period.
\<close>

section \<open>Package \<open>reporting\<close>\<close>

definition NormalizeType :: "string \<Rightarrow> string" where
  "NormalizeType t =
     (let u = to_lower (trim_space t) in
      if u = ''asset'' \<or> u = ''assets'' then ''asset''
      else if u = ''liability'' \<or> u = ''liabilities'' then ''liability''
      else if u = ''equity'' then ''equity''
      else if u = ''income'' \<or> u = ''revenue'' then ''income''
      else if u = ''expense'' \<or> u = ''expenses'' then ''expense''
      else ''other'')"

definition DebitNormal :: "string \<Rightarrow> bool" where
  "DebitNormal t \<longleftrightarrow> NormalizeType t = ''asset'' \<or> NormalizeType t = ''expense''"

definition NormalBalance :: "string \<Rightarrow> int64 \<Rightarrow> int64 \<Rightarrow> int64" where
  "NormalBalance t debit credit = (if DebitNormal t then debit - credit else credit - debit)"

definition SplitDebitCredit :: "int64 \<Rightarrow> int64 \<times> int64" where
  "SplitDebitCredit net = (if 0 < i64 net then (net, 0) else (0, - net))"

section \<open>The queries\<close>

text \<open>\<open>FROM transactions t JOIN entries e ON e.transaction_id = t.id\<close>, in the entity and the period.\<close>

definition period_lines :: "string \<Rightarrow> date \<Rightarrow> date \<Rightarrow> db \<Rightarrow> (tx_row \<times> entry) list" where
  "period_lines ent start en s =
     concat (map (\<lambda>t. map (Pair t) (filter (\<lambda>e. en_tx e = tx_id t) (db_entries s)))
       (filter (\<lambda>t. tx_entity t = ent \<and> in_period (Some start) (Some en) (tx_date t)) (db_txs s)))"

text \<open>Reading a \<open>numeric\<close> into an \<open>int64\<close>.\<close>

definition scan_int64 :: "int \<Rightarrow> int64 dbm" where
  "scan_int64 n = (if in_int64 n then dret (word_of_int n) else dthrow ErrDriver)"

fun scan_rows :: "('a \<times> int \<times> int) list \<Rightarrow> ('a \<times> int64 \<times> int64) list dbm" where
  "scan_rows [] = dret []"
| "scan_rows ((a, d, c) # rs) =
     dbind (scan_int64 d) (\<lambda>d'. dbind (scan_int64 c) (\<lambda>c'. dbind (scan_rows rs) (\<lambda>rest. dret ((a, d', c') # rest))))"

record trial_row =
  tb_account :: string
  tb_name :: string
  tb_type :: string
  tb_debit :: int64
  tb_credit :: int64

text \<open>One group per account that has a line, \<open>ORDER BY a.name\<close>.\<close>

definition account_groups :: "(tx_row \<times> entry) list \<Rightarrow> db \<Rightarrow> (account_row \<times> int \<times> int) list" where
  "account_groups ls s =
     map (\<lambda>a. (a, debits (map snd (filter (\<lambda>l. en_account (snd l) = ac_id a) ls)),
                 credits (map snd (filter (\<lambda>l. en_account (snd l) = ac_id a) ls))))
       (sort_by (\<lambda>a b. db_text_less s (ac_name a) (ac_name b))
         (filter (\<lambda>a. list_ex (\<lambda>l. en_account (snd l) = ac_id a) ls) (db_accounts s)))"

definition trial_row_of :: "account_row \<times> int64 \<times> int64 \<Rightarrow> trial_row" where
  "trial_row_of r = (case r of (a, d, c) \<Rightarrow>
     \<lparr>tb_account = ac_id a, tb_name = ac_name a, tb_type = ac_type a, tb_debit = d, tb_credit = c\<rparr>)"

definition TrialBalance :: "string \<Rightarrow> date \<Rightarrow> date \<Rightarrow> trial_row list dbm" where
  "TrialBalance ent start en =
     dbind (dbind (select_all (\<lambda>s. account_groups (period_lines ent start en s) s)) scan_rows)
       (\<lambda>rows. dret (map trial_row_of rows))"

text \<open>The general ledger: one row per posted line and per import row of its transaction.\<close>

record gl_line =
  gl_tx :: string
  gl_date :: date
  gl_memo :: string
  gl_account :: string
  gl_name :: string
  gl_type :: string
  gl_debit :: int64
  gl_credit :: int64
  gl_kind :: string
  gl_source :: string
  gl_source_name :: string
  gl_row :: int
  gl_vendor :: string
  gl_hash :: string

text \<open>\<open>LEFT JOIN\<close>: the matching rows, or one row of nulls.\<close>

definition left_join :: "('a \<Rightarrow> bool) \<Rightarrow> 'a list \<Rightarrow> 'a option list" where
  "left_join P xs = (if filter P xs = [] then [None] else map Some (filter P xs))"

definition ledger_row :: "tx_row \<Rightarrow> entry \<Rightarrow> account_row \<Rightarrow> import_row option \<Rightarrow> receipt_row option \<Rightarrow> receipt_row option \<Rightarrow> gl_line" where
  "ledger_row t e a ir sr tr =
     \<lparr>gl_tx = tx_id t, gl_date = tx_date t, gl_memo = strOf (tx_memo t), gl_account = ac_id a, gl_name = ac_name a,
      gl_type = ac_type a, gl_debit = en_debit e, gl_credit = en_credit e,
      gl_kind = (if ir \<noteq> None then ''import_row'' else if tr \<noteq> None then ''receipt'' else []),
      gl_source = strOf (coalesce (map_option ir_receipt ir) (map_option rc_id tr)),
      gl_source_name = strOf (coalesce (Option.bind sr rc_original) (Option.bind tr rc_original)),
      gl_row = (case ir of None \<Rightarrow> 0 | Some r \<Rightarrow> ir_index r),
      gl_vendor = (case ir of None \<Rightarrow> [] | Some r \<Rightarrow> ir_vendor r),
      gl_hash = (case ir of None \<Rightarrow> [] | Some r \<Rightarrow> ir_fingerprint r)\<rparr>"

definition ledger_rows :: "string \<Rightarrow> date \<Rightarrow> date \<Rightarrow> db \<Rightarrow> gl_line list" where
  "ledger_rows ent start en s =
     concat (map (\<lambda>(t, e).
       concat (map (\<lambda>a. concat (map (\<lambda>ir. concat (map (\<lambda>sr. map (\<lambda>tr. ledger_row t e a ir sr tr)
         (left_join (\<lambda>r. tx_receipt t = Some (rc_id r)) (db_receipts s)))
         (left_join (\<lambda>r. map_option ir_receipt ir = Some (rc_id r)) (db_receipts s))))
         (left_join (\<lambda>r. ir_tx r = Some (tx_id t)) (db_import_rows s))))
       (filter (\<lambda>a. ac_id a = en_account e) (db_accounts s))))
     (sort_by (\<lambda>l m. \<not> date_le (tx_date (fst m)) (tx_date (fst l)) \<or>
                 tx_date (fst l) = tx_date (fst m) \<and> str_less (tx_id (fst l)) (tx_id (fst m)))
       (period_lines ent start en s)))"

definition GeneralLedger :: "string \<Rightarrow> date \<Rightarrow> date \<Rightarrow> gl_line list dbm" where
  "GeneralLedger ent start en = select_all (ledger_rows ent start en)"

definition TransactionsForExport :: "string \<Rightarrow> date \<Rightarrow> date \<Rightarrow> gl_line list dbm" where
  "TransactionsForExport ent start en = GeneralLedger ent start en"

text \<open>What was paid to each vendor on expense accounts, through the receipts of the transactions.\<close>

record vendor_payment =
  vp_vendor :: string
  vp_name :: string
  vp_tax_id :: string
  vp_total :: int64

definition vendor_lines :: "(tx_row \<times> entry) list \<Rightarrow> db \<Rightarrow> vendor_row \<Rightarrow> entry list" where
  "vendor_lines ls s v =
     concat (map (\<lambda>(t, e).
       concat (map (\<lambda>r. map (\<lambda>_. e) (filter (\<lambda>a. ac_id a = en_account e \<and> ac_type a = ''expense'') (db_accounts s)))
         (filter (\<lambda>r. tx_receipt t = Some (rc_id r) \<and> rc_vendor_id r = Some (ve_id v)) (db_receipts s)))) ls)"

fun scan_payments :: "(vendor_row \<times> int) list \<Rightarrow> vendor_payment list dbm" where
  "scan_payments [] = dret []"
| "scan_payments ((v, n) # rs) =
     dbind (scan_int64 n) (\<lambda>total. dbind (scan_payments rs) (\<lambda>rest.
       dret (\<lparr>vp_vendor = ve_id v, vp_name = ve_name v, vp_tax_id = strOf (ve_tax_id v), vp_total = total\<rparr> # rest)))"

definition VendorPayments :: "string \<Rightarrow> date \<Rightarrow> date \<Rightarrow> vendor_payment list dbm" where
  "VendorPayments ent start en =
     dbind (select_all (\<lambda>s.
       let ls = period_lines ent start en s;
           total = (\<lambda>v. debits (vendor_lines ls s v) - credits (vendor_lines ls s v)) in
       sort_by (\<lambda>p q. snd q < snd p \<or> snd p = snd q \<and> db_text_less s (ve_name (fst p)) (ve_name (fst q)))
         (filter (\<lambda>p. 0 < snd p) (map (\<lambda>v. (v, total v)) (db_vendors s))))) scan_payments"

text \<open>All-time totals of every account of an entity.\<close>

definition AccountBalances :: "string \<Rightarrow> trial_row list dbm" where
  "AccountBalances ent =
     dbind (dbind (select_all (\<lambda>s. map (\<lambda>a. (a, debits (filter (\<lambda>e. en_account e = ac_id a) (db_entries s)),
                                          credits (filter (\<lambda>e. en_account e = ac_id a) (db_entries s))))
              (filter (\<lambda>a. ac_entity a = ent) (db_accounts s)))) scan_rows)
       (\<lambda>rows. dret (map trial_row_of rows))"

text \<open>The posted lines of an account, newest first.\<close>

record account_line =
  al_tx :: string
  al_date :: date
  al_memo :: string
  al_debit :: int64
  al_credit :: int64

definition account_lines :: "string \<Rightarrow> string \<Rightarrow> db \<Rightarrow> account_line list" where
  "account_lines ent acc s =
     map (\<lambda>(t, e). \<lparr>al_tx = tx_id t, al_date = tx_date t, al_memo = strOf (tx_memo t), al_debit = en_debit e,
                     al_credit = en_credit e\<rparr>)
       (sort_by (\<lambda>l m. \<not> date_le (tx_date (fst l)) (tx_date (fst m)) \<or>
                   tx_date (fst l) = tx_date (fst m) \<and> str_less (tx_id (fst m)) (tx_id (fst l)))
         (concat (map (\<lambda>t. map (Pair t) (filter (\<lambda>e. en_tx e = tx_id t \<and> en_account e = acc) (db_entries s)))
           (filter (\<lambda>t. tx_entity t = ent) (db_txs s)))))"

definition AccountLedger :: "string \<Rightarrow> string \<Rightarrow> int \<Rightarrow> int \<Rightarrow> account_line list dbm" where
  "AccountLedger ent acc limit0 offset0 =
     (let limit = (if limit0 \<le> 0 \<or> 1000 < limit0 then 200 else limit0);
          offset = (if offset0 < 0 then 0 else offset0) in
      select_all (\<lambda>s. take (nat limit) (drop (nat offset) (account_lines ent acc s))))"

section \<open>The handlers\<close>

text \<open>What the handlers need of their context, and the query parameters; a missing parameter is empty.\<close>

record report_hc =
  rh_reports :: bool
  rh_entities :: bool
  rh_accounts :: bool

record report_query =
  qp_entity :: string
  qp_start :: string
  qp_end :: string

definition parseReportParams :: "report_hc \<Rightarrow> report_query \<Rightarrow> (int \<times> string) + string \<times> date \<times> date" where
  "parseReportParams h q =
     (if \<not> rh_reports h \<or> \<not> rh_entities h then Inl (501, ''NOT_IMPLEMENTED'')
      else if qp_entity q = [] \<or> qp_start q = [] \<or> qp_end q = [] then Inl (400, ''MISSING_FIELDS'')
      else case parse_iso (qp_start q) of
        None \<Rightarrow> Inl (400, ''INVALID_DATE'')
      | Some start \<Rightarrow>
          (case parse_iso (qp_end q) of
             None \<Rightarrow> Inl (400, ''INVALID_DATE'')
           | Some en \<Rightarrow> Inr (qp_entity q, start, en)))"

definition with_params :: "(int \<times> string) + 'p \<Rightarrow> ('p \<Rightarrow> 'b endpoint) \<Rightarrow> 'b endpoint" where
  "with_params r k = (case r of Inl (st, c) \<Rightarrow> fails st c | Inr p \<Rightarrow> k p)"

record 'b report =
  rp_entity :: string
  rp_start :: string
  rp_end :: string
  rp_body :: 'b

definition report_for :: "string \<Rightarrow> date \<Rightarrow> date \<Rightarrow> 'b \<Rightarrow> 'b report" where
  "report_for ent start en b = \<lparr>rp_entity = ent, rp_start = format_iso start, rp_end = format_iso en, rp_body = b\<rparr>"

definition handleReportGeneralLedger :: "report_hc \<Rightarrow> report_query \<Rightarrow> gl_line list report endpoint" where
  "handleReportGeneralLedger h q = with_params (parseReportParams h q) (\<lambda>(ent, start, en).
     ecall (GeneralLedger ent start en) internalError (\<lambda>rows. answer 200 (report_for ent start en rows)))"

record report_line =
  rl_account :: string
  rl_name :: string
  rl_type :: string
  rl_amount :: int64

definition reportLine :: "trial_row \<Rightarrow> int64 \<Rightarrow> report_line" where
  "reportLine row amount = \<lparr>rl_account = tb_account row, rl_name = tb_name row, rl_type = tb_type row, rl_amount = amount\<rparr>"

text \<open>The lines of one section of a statement, and their total: the loop over the trial balance.\<close>

definition balance_of :: "trial_row \<Rightarrow> int64" where
  "balance_of row = NormalBalance (tb_type row) (tb_debit row) (tb_credit row)"

fun section_loop :: "string \<Rightarrow> trial_row list \<Rightarrow> report_line list \<times> int64 \<Rightarrow> report_line list \<times> int64" where
  "section_loop ty [] acc = acc"
| "section_loop ty (row # rows) (ls, tot) =
     section_loop ty rows (if NormalizeType (tb_type row) = ty
       then (ls @ [reportLine row (balance_of row)], tot + balance_of row) else (ls, tot))"

definition section_of :: "string \<Rightarrow> trial_row list \<Rightarrow> report_line list \<times> int64" where
  "section_of ty rows = section_loop ty rows ([], 0)"

record profit_loss =
  pl_income :: "report_line list"
  pl_expenses :: "report_line list"
  pl_net :: int64

definition profit_loss_of :: "trial_row list \<Rightarrow> profit_loss" where
  "profit_loss_of rows =
     (case (section_of ''income'' rows, section_of ''expense'' rows) of ((inc, incTotal), (exps, expTotal)) \<Rightarrow>
        \<lparr>pl_income = inc, pl_expenses = exps, pl_net = incTotal - expTotal\<rparr>)"

definition handleReportProfitLoss :: "report_hc \<Rightarrow> report_query \<Rightarrow> profit_loss report endpoint" where
  "handleReportProfitLoss h q = with_params (parseReportParams h q) (\<lambda>(ent, start, en).
     ecall (TrialBalance ent start en) internalError (\<lambda>rows. answer 200 (report_for ent start en (profit_loss_of rows))))"

record balance_sheet =
  bl_assets :: "report_line list"
  bl_liabilities :: "report_line list"
  bl_equity :: "report_line list"
  bl_total_assets :: int64
  bl_total_liabilities :: int64
  bl_total_equity :: int64

definition balance_sheet_of :: "trial_row list \<Rightarrow> balance_sheet" where
  "balance_sheet_of rows =
     (case (section_of ''asset'' rows, section_of ''liability'' rows, section_of ''equity'' rows) of
        ((assets, assetTotal), (liabilities, liabilityTotal), (equity, equityTotal)) \<Rightarrow>
          \<lparr>bl_assets = assets, bl_liabilities = liabilities, bl_equity = equity, bl_total_assets = assetTotal,
           bl_total_liabilities = liabilityTotal, bl_total_equity = equityTotal\<rparr>)"

definition handleReportBalanceSheet :: "report_hc \<Rightarrow> report_query \<Rightarrow> balance_sheet report endpoint" where
  "handleReportBalanceSheet h q = with_params (parseReportParams h q) (\<lambda>(ent, start, en).
     ecall (TrialBalance ent start en) internalError (\<lambda>rows. answer 200 (report_for ent start en (balance_sheet_of rows))))"

text \<open>The trial balance: the net of each account in one of two columns, accounts that net to zero left out.\<close>

record trial_report =
  tr_lines :: "trial_row list"
  tr_debit :: int64
  tr_credit :: int64
  tr_balanced :: bool

fun trial_loop :: "trial_row list \<Rightarrow> trial_row list \<times> int64 \<times> int64 \<Rightarrow> trial_row list \<times> int64 \<times> int64" where
  "trial_loop [] acc = acc"
| "trial_loop (row # rows) (ls, totalDebit, totalCredit) =
     (let net = tb_debit row - tb_credit row in
      if net = 0 then trial_loop rows (ls, totalDebit, totalCredit)
      else case SplitDebitCredit net of (debit, credit) \<Rightarrow>
        trial_loop rows (ls @ [row\<lparr>tb_debit := debit, tb_credit := credit\<rparr>], totalDebit + debit, totalCredit + credit))"

definition trial_report_of :: "trial_row list \<Rightarrow> trial_report" where
  "trial_report_of rows =
     (case trial_loop rows ([], 0, 0) of (ls, totalDebit, totalCredit) \<Rightarrow>
        \<lparr>tr_lines = ls, tr_debit = totalDebit, tr_credit = totalCredit, tr_balanced = (totalDebit = totalCredit)\<rparr>)"

definition handleReportTrialBalance :: "report_hc \<Rightarrow> report_query \<Rightarrow> trial_report report endpoint" where
  "handleReportTrialBalance h q = with_params (parseReportParams h q) (\<lambda>(ent, start, en).
     ecall (TrialBalance ent start en) internalError (\<lambda>rows. answer 200 (report_for ent start en (trial_report_of rows))))"

text \<open>The 1099 candidates: the threshold is the parameter \<open>min_cents\<close>, 600 dollars when it is missing or no number.\<close>

definition payments_threshold :: "string \<Rightarrow> int64" where
  "payments_threshold v =
     (if v = [] then 60000
      else case parse_int v of None \<Rightarrow> 60000 | Some n \<Rightarrow> if 0 \<le> n then word_of_int n else 60000)"

definition handleReportVendorPayments ::
  "report_hc \<Rightarrow> report_query \<Rightarrow> string \<Rightarrow> (int64 \<times> (vendor_payment \<times> bool) list) report endpoint" where
  "handleReportVendorPayments h q min_cents = with_params (parseReportParams h q) (\<lambda>(ent, start, en).
     let threshold = payments_threshold min_cents in
     ecall (VendorPayments ent start en) internalError (\<lambda>rows.
       answer 200 (report_for ent start en (threshold, map (\<lambda>r. (r, i64 threshold \<le> i64 (vp_total r))) rows))))"

definition transactionExportHeader :: "string list" where
  "transactionExportHeader = [''date'', ''transaction_id'', ''memo'', ''account_id'', ''account_name'', ''account_type'',
     ''debit_cents'', ''credit_cents'', ''source_kind'', ''source_id'', ''source_name'', ''source_row'', ''source_vendor'', ''source_hash'']"

definition transactionExportRow :: "gl_line \<Rightarrow> string list" where
  "transactionExportRow r = [format_iso (gl_date r), gl_tx r, gl_memo r, gl_account r, gl_name r, gl_type r,
     cents (gl_debit r), cents (gl_credit r), gl_kind r, gl_source r, gl_source_name r,
     (if 0 < gl_row r then int_str (gl_row r) else []), gl_vendor r, gl_hash r]"

definition handleExportTransactionsCSV :: "report_hc \<Rightarrow> report_query \<Rightarrow> string list list endpoint" where
  "handleExportTransactionsCSV h q = with_params (parseReportParams h q) (\<lambda>(ent, start, en).
     ecall (TransactionsForExport ent start en) internalError (\<lambda>rows.
       answer 200 (transactionExportHeader # map transactionExportRow rows)))"

section \<open>Account views\<close>

definition naturalAccountBalance :: "string \<Rightarrow> int64 \<Rightarrow> int64 \<Rightarrow> int64" where
  "naturalAccountBalance t debit credit = NormalBalance t debit credit"

definition handleAccountBalances :: "report_hc \<Rightarrow> string \<Rightarrow> (string \<times> int64) list endpoint" where
  "handleAccountBalances h entityID =
     (if \<not> rh_reports h then notConfigured
      else ecall (AccountBalances entityID) internalError (\<lambda>rows.
        answer 200 (map (\<lambda>r. (tb_account r, naturalAccountBalance (tb_type r) (tb_debit r) (tb_credit r))) rows)))"

record account_page =
  ap_account :: account
  ap_balance :: int64
  ap_rows :: "account_line list"
  ap_more :: bool

definition page_offset :: "string \<Rightarrow> int" where
  "page_offset v = (case parse_int v of None \<Rightarrow> 0 | Some n \<Rightarrow> if 0 \<le> n then n else 0)"

text \<open>One line more than the page is fetched, to know whether there is an older page.\<close>

definition handleAccountTransactions :: "report_hc \<Rightarrow> string \<Rightarrow> int option \<Rightarrow> string \<Rightarrow> account_page endpoint" where
  "handleAccountTransactions h accountID limit0 offset =
     (if \<not> rh_reports h \<or> \<not> rh_accounts h then notConfigured
      else ecall (AccountStore_GetByID accountID) notFoundOr500 (\<lambda>acc.
        let limit = queryLimit limit0 100 1000 in
        ecall (AccountLedger (a_entity acc) accountID (limit + 1) (page_offset offset)) internalError (\<lambda>ledger.
        let hasMore = limit < int (length ledger); ledger = (if hasMore then take (nat limit) ledger else ledger) in
        ecall (AccountBalances (a_entity acc)) internalError (\<lambda>balances.
          answer 200 \<lparr>ap_account = acc,
            ap_balance = (case find (\<lambda>b. tb_account b = accountID) balances of
                            None \<Rightarrow> 0 | Some b \<Rightarrow> naturalAccountBalance (tb_type b) (tb_debit b) (tb_credit b)),
            ap_rows = ledger, ap_more = hasMore\<rparr>))))"

section \<open>What the reports sum up\<close>

lemma sum_list_insert_by: "(\<Sum>x\<leftarrow>insert_by lt y xs. f x) = (f y :: 'b :: comm_monoid_add) + (\<Sum>x\<leftarrow>xs. f x)"
  by (induction xs) (simp_all add: ac_simps)

lemma sum_list_sort_by: "(\<Sum>x\<leftarrow>sort_by lt xs. f x) = (\<Sum>x\<leftarrow>xs. (f x :: 'b :: comm_monoid_add))"
proof -
  have "(\<Sum>x\<leftarrow>foldl (\<lambda>acc x. insert_by lt x acc) ys xs. f x) = (\<Sum>x\<leftarrow>ys. f x) + (\<Sum>x\<leftarrow>xs. f x)" for ys
    by (induction xs arbitrary: ys) (simp_all add: sum_list_insert_by ac_simps)
  then show ?thesis by (simp add: sort_by_def)
qed

lemma sum_list_pick_key:
  "distinct (map k xs) \<Longrightarrow> (\<Sum>x\<leftarrow>xs. if i = k x then c else 0) = (if i \<in> k ` set xs then (c :: 'c :: comm_monoid_add) else 0)"
  by (induction xs) auto

text \<open>A sum regrouped by a key.\<close>

lemma sum_list_group:
  fixes g :: "'b \<Rightarrow> 'c :: comm_monoid_add"
  assumes "distinct (map k xs)" "\<forall>l\<in>set ls. f l \<in> k ` set xs"
  shows "(\<Sum>x\<leftarrow>xs. \<Sum>l\<leftarrow>filter (\<lambda>l. f l = k x) ls. g l) = (\<Sum>l\<leftarrow>ls. g l)"
  using assms(2)
proof (induction ls)
  case (Cons l ls)
  have "(\<Sum>x\<leftarrow>xs. \<Sum>l\<leftarrow>filter (\<lambda>l. f l = k x) (l # ls). g l) =
      (\<Sum>x\<leftarrow>xs. (if f l = k x then g l else 0) + (\<Sum>l\<leftarrow>filter (\<lambda>l. f l = k x) ls. g l))"
    by (rule arg_cong [of _ _ sum_list]) (auto intro!: map_cong)
  also have "\<dots> = g l + (\<Sum>x\<leftarrow>xs. \<Sum>l\<leftarrow>filter (\<lambda>l. f l = k x) ls. g l)"
    using Cons.prems by (simp add: sum_list_addf sum_list_pick_key [OF assms(1)])
  finally show ?case using Cons by simp
qed simp

text \<open>The net of a line, debit minus credit, and of the lines of an account in a period.\<close>

definition line_net :: "tx_row \<times> entry \<Rightarrow> int64" where
  "line_net l = en_debit (snd l) - en_credit (snd l)"

definition account_net :: "string \<Rightarrow> date \<Rightarrow> date \<Rightarrow> db \<Rightarrow> string \<Rightarrow> int64" where
  "account_net ent start en s i = sum64 line_net (filter (\<lambda>l. en_account (snd l) = i) (period_lines ent start en s))"

lemma word_debits:
  "word_of_int (\<Sum>l\<leftarrow>ls. i64 (en_debit (snd l))) - word_of_int (\<Sum>l\<leftarrow>ls. i64 (en_credit (snd l))) = sum64 line_net ls"
  by (induction ls) (simp_all add: line_net_def algebra_simps)

lemma period_lines_set: "l \<in> set (period_lines ent start en s) \<Longrightarrow> snd l \<in> set (db_entries s)"
  by (auto simp: period_lines_def)

text \<open>Every line is on an account; the lines of a period net to zero.\<close>

lemma line_account:
  assumes "books_ok s" "l \<in> set (period_lines ent start en s)"
  shows "en_account (snd l) \<in> ac_id ` set (db_accounts s)"
proof -
  have "snd l \<in> set (db_entries s)" by (rule period_lines_set [OF assms(2)])
  then obtain e where "account_entity_of s (en_account (snd l)) = Some e"
    using assms(1) unfolding books_ok_def entries_ok_def by blast
  then show ?thesis unfolding account_entity_of_def by (auto simp: find_Some_iff) (metis image_eqI nth_mem)
qed

lemma sum64_concat_lists: "sum64 f (concat xss) = (\<Sum>xs\<leftarrow>xss. sum64 f xs)"
  by (induction xss) simp_all

lemma sum_list_zero: "(\<And>x. x \<in> set xs \<Longrightarrow> f x = (0 :: int64)) \<Longrightarrow> (\<Sum>x\<leftarrow>xs. f x) = 0"
  by (induction xs) auto

lemma sum64_diff: "sum64 (\<lambda>x. f x - g x) xs = sum64 f xs - sum64 g xs"
  by (induction xs) (simp_all add: algebra_simps)

lemma period_balanced:
  assumes "books_ok s"
  shows "sum64 line_net (period_lines ent start en s) = 0"
proof -
  have "sum64 line_net (map (Pair t) (filter (\<lambda>e. en_tx e = tx_id t) (db_entries s))) = 0" if "t \<in> set (db_txs s)" for t
    using assms that unfolding books_ok_def tx_balanced_def entries_of_def
    by (simp add: line_net_def sum64_diff)
  then show ?thesis
    unfolding period_lines_def sum64_concat_lists map_map comp_def by (intro sum_list_zero) auto
qed

section \<open>The trial balance\<close>

lemma scan_rows_Inr: "scan_rows gs s = (Inr rs, s') \<Longrightarrow>
    rs = map (\<lambda>(a, d, c). (a, word_of_int d, word_of_int c)) gs \<and> s' = s"
  by (induction gs arbitrary: rs rule: scan_rows.induct) (auto simp: scan_int64_def db_simps split: if_splits)

lemma TrialBalance_Inr:
  assumes "TrialBalance ent start en s = (Inr rows, s')"
  shows "rows = map (\<lambda>(a, d, c). trial_row_of (a, word_of_int d, word_of_int c)) (account_groups (period_lines ent start en s) s)"
    "same_tables s s'"
proof -
  obtain gs s1 rs where q: "select_all (\<lambda>s. account_groups (period_lines ent start en s) s) s = (Inr gs, s1)"
      "scan_rows gs s1 = (Inr rs, s')" "rows = map trial_row_of rs"
    using assms unfolding TrialBalance_def by (auto simp: dbind_Inr dret_eq)
  have t: "same_tables s s1" by (rule select_tables(2) [OF q(1)])
  have "gs = account_groups (period_lines ent start en s) s"
    using q(1) by (simp add: select_all_Inr account_groups_def period_lines_def)
  then show "rows = map (\<lambda>(a, d, c). trial_row_of (a, word_of_int d, word_of_int c)) (account_groups (period_lines ent start en s) s)"
    using q scan_rows_Inr [OF q(2)] by auto
  show "same_tables s s'" using t scan_rows_Inr [OF q(2)] by simp
qed

text \<open>The net of each row is the net of its account; summed by a sign that depends on the type, the accounts suffice.\<close>

definition row_net :: "trial_row \<Rightarrow> int64" where
  "row_net r = tb_debit r - tb_credit r"

lemma TrialBalance_nets:
  assumes "TrialBalance ent start en s = (Inr rows, s')"
  shows "map (\<lambda>r. (tb_account r, tb_type r, row_net r)) rows = map (\<lambda>a. (ac_id a, ac_type a, account_net ent start en s (ac_id a)))
    (sort_by (\<lambda>a b. db_text_less s (ac_name a) (ac_name b))
      (filter (\<lambda>a. list_ex (\<lambda>l. en_account (snd l) = ac_id a) (period_lines ent start en s)) (db_accounts s)))"
  unfolding TrialBalance_Inr(1) [OF assms] account_groups_def
  by (simp add: trial_row_of_def row_net_def word_debits account_net_def comp_def)

lemma account_net_0: "\<not> list_ex (\<lambda>l. en_account (snd l) = i) (period_lines ent start en s) \<Longrightarrow> account_net ent start en s i = 0"
  by (simp add: account_net_def list_ex_iff filter_False)

lemma sum_filter_0: "(\<And>x. x \<in> set xs \<Longrightarrow> \<not> P x \<Longrightarrow> f x = 0) \<Longrightarrow> (\<Sum>x\<leftarrow>filter P xs. f x) = (\<Sum>x\<leftarrow>xs. (f x :: int64))"
  by (induction xs) auto

text \<open>Any function of type and net that is zero at zero sums over the report as over the accounts.\<close>

lemma TrialBalance_sum:
  assumes "TrialBalance ent start en s = (Inr rows, s')" "\<And>ty. g ty 0 = (0 :: int64)"
  shows "(\<Sum>r\<leftarrow>rows. g (tb_type r) (row_net r)) = (\<Sum>a\<leftarrow>db_accounts s. g (ac_type a) (account_net ent start en s (ac_id a)))"
proof -
  have "(\<Sum>r\<leftarrow>rows. g (tb_type r) (row_net r)) = sum_list (map (\<lambda>(i, ty, n). g ty n) (map (\<lambda>r. (tb_account r, tb_type r, row_net r)) rows))"
    by (simp add: comp_def)
  also have "\<dots> = (\<Sum>a\<leftarrow>filter (\<lambda>a. list_ex (\<lambda>l. en_account (snd l) = ac_id a) (period_lines ent start en s)) (db_accounts s).
      g (ac_type a) (account_net ent start en s (ac_id a)))"
    unfolding TrialBalance_nets [OF assms(1)] by (simp add: comp_def sum_list_sort_by)
  also have "\<dots> = (\<Sum>a\<leftarrow>db_accounts s. g (ac_type a) (account_net ent start en s (ac_id a)))"
    by (rule sum_filter_0) (simp add: account_net_0 assms(2))
  finally show ?thesis .
qed

lemma accounts_balance:
  assumes "books_ok s"
  shows "(\<Sum>a\<leftarrow>db_accounts s. account_net ent start en s (ac_id a)) = 0"
proof -
  have d: "distinct (map ac_id (db_accounts s))" using assms by (simp add: books_ok_def keys_ok_def)
  have "(\<Sum>a\<leftarrow>db_accounts s. \<Sum>l\<leftarrow>filter (\<lambda>l. en_account (snd l) = ac_id a) (period_lines ent start en s). line_net l) =
      (\<Sum>l\<leftarrow>period_lines ent start en s. line_net l)"
    using line_account [OF assms] by (intro sum_list_group [OF d]) auto
  then show ?thesis using period_balanced [OF assms] by (simp add: account_net_def sum64_eq_sum_list)
qed

lemma SplitDebitCredit_net: "fst (SplitDebitCredit n) - snd (SplitDebitCredit n) = n"
  by (simp add: SplitDebitCredit_def)

lemma trial_loop_nets:
  "trial_loop rows (ls, d, c) = (ls', d', c') \<Longrightarrow> d' - c' = d - c + (\<Sum>r\<leftarrow>rows. row_net r)"
proof (induction rows arbitrary: ls d c)
  case (Cons r rows)
  obtain x y where xy: "SplitDebitCredit (row_net r) = (x, y)" by fastforce
  then have "x - y = row_net r" using SplitDebitCredit_net [of "row_net r"] by simp
  then have x: "x = y + row_net r" by (simp add: algebra_simps)
  show ?case
  proof (cases "row_net r = 0")
    case True
    then show ?thesis using Cons.prems by (auto simp: Let_def row_net_def dest!: Cons.IH)
  next
    case False
    then have "trial_loop rows (ls @ [r\<lparr>tb_debit := x, tb_credit := y\<rparr>], d + x, c + y) = (ls', d', c')"
      using Cons.prems xy by (simp add: Let_def row_net_def)
    from Cons.IH [OF this] show ?thesis by (simp add: x algebra_simps)
  qed
qed simp

section \<open>The statements\<close>

lemma section_loop_total:
  "snd (section_loop ty rows (ls, tot)) = tot + sum64 balance_of (filter (\<lambda>r. NormalizeType (tb_type r) = ty) rows)"
  by (induction rows arbitrary: ls tot) (simp_all add: algebra_simps)

lemma section_loop_lines:
  "fst (section_loop ty rows (ls, tot)) =
     ls @ map (\<lambda>r. reportLine r (balance_of r)) (filter (\<lambda>r. NormalizeType (tb_type r) = ty) rows)"
  by (induction rows arbitrary: ls tot) simp_all

text \<open>A section is the lines of its type, with their sum.\<close>

lemma section_of_eq:
  "section_of ty rows = (map (\<lambda>r. reportLine r (balance_of r)) (filter (\<lambda>r. NormalizeType (tb_type r) = ty) rows),
     sum64 balance_of (filter (\<lambda>r. NormalizeType (tb_type r) = ty) rows))"
  by (rule prod_eqI) (simp_all add: section_of_def section_loop_total section_loop_lines)

lemma NormalizeType_cases:
  "NormalizeType t \<in> {''asset'', ''liability'', ''equity'', ''income'', ''expense'', ''other''}"
  by (simp add: NormalizeType_def Let_def)

lemma balance_of_net: "balance_of r = (if DebitNormal (tb_type r) then row_net r else - row_net r)"
  by (simp add: balance_of_def NormalBalance_def row_net_def)

lemma sum64_filter: "sum64 f (filter P xs) = (\<Sum>x\<leftarrow>xs. if P x then f x else 0)"
  by (induction xs) simp_all

lemma sum_list_minus: "(\<Sum>x\<leftarrow>xs. f x) - (\<Sum>x\<leftarrow>xs. g x) = (\<Sum>x\<leftarrow>xs. (f x :: int64) - g x)"
  by (induction xs) (simp_all add: algebra_simps)

text \<open>Assets minus liabilities, equity and net income leave the net of all rows but for those of unknown type.\<close>

definition statement_part :: "string \<Rightarrow> int64 \<Rightarrow> int64" where
  "statement_part ty n = (if NormalizeType ty = ''other'' then 0 else n)"

lemma statements_net:
  "bl_total_assets (balance_sheet_of rows) - bl_total_liabilities (balance_sheet_of rows) -
     bl_total_equity (balance_sheet_of rows) - pl_net (profit_loss_of rows) =
   (\<Sum>r\<leftarrow>rows. statement_part (tb_type r) (row_net r))"
proof -
  have *: "(if NormalizeType t = ''asset'' then b else 0) - (if NormalizeType t = ''liability'' then b else 0) -
      (if NormalizeType t = ''equity'' then b else 0) - ((if NormalizeType t = ''income'' then b else 0) -
      (if NormalizeType t = ''expense'' then b else 0)) = statement_part t n"
    if "b = (if DebitNormal t then n else - n)" for t and b n :: int64
    using that NormalizeType_cases [of t] by (auto simp: DebitNormal_def statement_part_def)
  show ?thesis
    unfolding balance_sheet_of_def profit_loss_of_def section_of_eq
    by (simp add: sum64_filter sum_list_minus * [OF balance_of_net] del: NormalizeType_def)
qed

section \<open>What the reports guarantee\<close>

lemma AccountStore_GetByID_tables: "AccountStore_GetByID i s = (r, s') \<Longrightarrow> same_tables s s'"
  by (auto simp: AccountStore_GetByID_def accountFromRow_def ListByAccountID_def dbind_def dret_def
      dest!: get_row_tables select_tables intro: same_tables_trans split: prod.splits sum.splits)

lemma with_params_ok: "with_params r k s = ((st, Inr b), s') \<longleftrightarrow> (\<exists>p. r = Inr p \<and> k p s = ((st, Inr b), s'))"
  by (auto simp: with_params_def split: sum.splits)

lemma parseReportParams_ok: "parseReportParams h q = Inr (ent, start, en) \<longleftrightarrow>
    rh_reports h \<and> rh_entities h \<and> ent = qp_entity q \<and> ent \<noteq> [] \<and> qp_start q \<noteq> [] \<and> qp_end q \<noteq> [] \<and>
    parse_iso (qp_start q) = Some start \<and> parse_iso (qp_end q) = Some en"
  by (auto simp: parseReportParams_def split: option.splits if_splits)

definition sample_rh :: report_hc where
  "sample_rh = \<lparr>rh_reports = True, rh_entities = True, rh_accounts = True\<rparr>"

definition sample_query :: report_query where
  "sample_query = \<lparr>qp_entity = ''E'', qp_start = ''2024-01-01'', qp_end = ''2024-12-31''\<rparr>"

text \<open>The books of \<open>Books\<close> with the cash account typed \<open>bank\<close>, which the account handler does not refuse.\<close>

definition sample_bank_db :: db where
  "sample_bank_db = run_calls [CAccountCreate ''E'' ''Checking'' ''bank'' ''1000'' None, CAccountCreate ''E'' ''Meals'' ''expense'' ''6000'' None,
     CReceiptCreate ''E'' ''k'' ''image/png'' ''needs_review'' ''receipt'' ''r.png'' 10 0,
     CPost ''E'' sample_date ''Lunch'' ''u11'' [sample_line ''u1'' 1250 0, sample_line ''u'' 0 1250]] sample_entity_db"

lemma sample_books: "books_ok sample_posted_db" "books_ok sample_bank_db"
  using books_steps_ok [OF _ fresh_books_ok [OF sample_fresh]] sample_path run_calls_steps
  unfolding sample_bank_db_def by blast+

text \<open>
  C2.  The trial balance of a ledger that satisfies the invariant \<open>books_ok\<close> (which every path of store calls keeps) is
  always reported as balanced, for every period and entity, with wrapping sums and all: the endpoint answers 200 with equal
  column totals, and it changes nothing.
\<close>

theorem trial_balance_report_balanced:
  assumes "books_ok s" "handleReportTrialBalance h q s = ((st, Inr r), s')"
  shows "st = 200 \<and> tr_balanced (rp_body r) \<and> tr_debit (rp_body r) = tr_credit (rp_body r) \<and> same_tables s s'"
proof -
  obtain ent start en rows s1 where p: "parseReportParams h q = Inr (ent, start, en)"
      "TrialBalance ent start en s = (Inr rows, s1)" "st = 200" "r = report_for ent start en (trial_report_of rows)" "s' = s1"
    using assms(2) unfolding handleReportTrialBalance_def by (auto simp: with_params_ok ecall_ok)
  obtain ls d c where l: "trial_loop rows ([], 0, 0) = (ls, d, c)" by (rule prod_cases3)
  have "d - c = (\<Sum>r\<leftarrow>rows. row_net r)" using trial_loop_nets [OF l] by simp
  also have "\<dots> = 0"
    using TrialBalance_sum [OF p(2), where g = "\<lambda>_ n. n"] accounts_balance [OF assms(1)] by simp
  finally show ?thesis using p l TrialBalance_Inr(2) [OF p(2)] by (simp add: report_for_def trial_report_of_def)
qed

theorem trial_balance_report_balanced_witness:
  "tr_balanced (rp_body (projr (snd (fst (handleReportTrialBalance sample_rh sample_query sample_posted_db))))) \<and>
   map tb_debit (tr_lines (rp_body (projr (snd (fst (handleReportTrialBalance sample_rh sample_query sample_posted_db)))))) = [0, 1250]"
proof
  have "\<not> isl (snd (fst (handleReportTrialBalance sample_rh sample_query sample_posted_db)))" by code_simp
  from trial_balance_report_balanced [OF sample_books(1) answered [OF this]]
  show "tr_balanced (rp_body (projr (snd (fst (handleReportTrialBalance sample_rh sample_query sample_posted_db)))))" by blast
  show "map tb_debit (tr_lines (rp_body (projr (snd (fst (handleReportTrialBalance sample_rh sample_query sample_posted_db)))))) = [0, 1250]"
    by code_simp
qed

text \<open>
  C3.  The balance sheet and the profit and loss statement of one period articulate: assets equal liabilities plus equity
  plus net income, but for the accounts whose type is none of the five the reports know.  Their net is missing from both
  statements, so that the equation holds exactly when it is zero.
\<close>

theorem statements_articulate:
  assumes "books_ok s" "handleReportBalanceSheet h q s = ((st, Inr b), s1)" "handleReportProfitLoss h q s = ((st', Inr p), s2)"
    "parseReportParams h q = Inr (ent, start, en)"
  shows "bl_total_assets (rp_body b) - (bl_total_liabilities (rp_body b) + bl_total_equity (rp_body b) + pl_net (rp_body p)) =
    - (\<Sum>a\<leftarrow>filter (\<lambda>a. NormalizeType (ac_type a) = ''other'') (db_accounts s). account_net ent start en s (ac_id a))"
proof -
  obtain rows t1 where b: "TrialBalance ent start en s = (Inr rows, t1)" "rp_body b = balance_sheet_of rows"
    using assms(2,4) unfolding handleReportBalanceSheet_def by (auto simp: with_params_ok ecall_ok report_for_def)
  then have p: "rp_body p = profit_loss_of rows"
    using assms(3,4) unfolding handleReportProfitLoss_def by (auto simp: with_params_ok ecall_ok report_for_def)
  have "(\<Sum>r\<leftarrow>rows. statement_part (tb_type r) (row_net r)) =
      (\<Sum>a\<leftarrow>db_accounts s. statement_part (ac_type a) (account_net ent start en s (ac_id a)))"
    by (rule TrialBalance_sum [OF b(1)]) (simp add: statement_part_def)
  also have "\<dots> = (\<Sum>a\<leftarrow>db_accounts s. account_net ent start en s (ac_id a)) -
      (\<Sum>a\<leftarrow>db_accounts s. if NormalizeType (ac_type a) = ''other'' then account_net ent start en s (ac_id a) else 0)"
    unfolding sum_list_minus by (rule arg_cong [of _ _ sum_list]) (simp add: statement_part_def)
  also have "\<dots> = - (\<Sum>a\<leftarrow>filter (\<lambda>a. NormalizeType (ac_type a) = ''other'') (db_accounts s). account_net ent start en s (ac_id a))"
    using accounts_balance [OF assms(1)] by (simp flip: sum64_filter add: sum64_eq_sum_list)
  finally show ?thesis using statements_net [of rows] b(2) p by (simp add: algebra_simps)
qed

theorem statements_articulate_witness:
  "let b = rp_body (projr (snd (fst (handleReportBalanceSheet sample_rh sample_query sample_bank_db))));
       p = rp_body (projr (snd (fst (handleReportProfitLoss sample_rh sample_query sample_bank_db)))) in
   bl_total_assets b - (bl_total_liabilities b + bl_total_equity b + pl_net p) = 1250"
proof -
  have b: "\<not> isl (snd (fst (handleReportBalanceSheet sample_rh sample_query sample_bank_db)))" by code_simp
  have p: "\<not> isl (snd (fst (handleReportProfitLoss sample_rh sample_query sample_bank_db)))" by code_simp
  have q: "parseReportParams sample_rh sample_query =
      Inr (''E'', \<lparr>d_year = 2024, d_month = 1, d_day = 1\<rparr>, \<lparr>d_year = 2024, d_month = 12, d_day = 31\<rparr>)" by code_simp
  have n: "- (\<Sum>a\<leftarrow>filter (\<lambda>a. NormalizeType (ac_type a) = ''other'') (db_accounts sample_bank_db).
      account_net ''E'' \<lparr>d_year = 2024, d_month = 1, d_day = 1\<rparr> \<lparr>d_year = 2024, d_month = 12, d_day = 31\<rparr> sample_bank_db (ac_id a)) = 1250"
    by code_simp
  show ?thesis unfolding Let_def statements_articulate [OF sample_books(2) answered [OF b] answered [OF p] q] by (rule n)
qed

text \<open>
  C4.  A page of an account's lines is the slice the request asks for, with the flag that says whether older lines exist,
  for every page size below 1000.  At the largest page size the extra line that is fetched exceeds the store's own limit,
  which falls back to 200: the page then stops after 200 lines and claims that there are no more.
\<close>

theorem account_page_exact:
  assumes "handleAccountTransactions h i limit off s = ((st, Inr p), s')"
  shows "let rest = drop (nat (page_offset off)) (account_lines (a_entity (ap_account p)) i s); n = queryLimit limit 100 1000 in
    if n < 1000 then ap_rows p = take (nat n) rest \<and> ap_more p = (n < int (length rest))
    else ap_rows p = take 200 rest \<and> \<not> ap_more p"
proof -
  define n where "n = queryLimit limit 100 1000"
  have n: "1 \<le> n" "n \<le> 1000" by (auto simp: n_def queryLimit_def split: option.splits if_splits)
  obtain acc s1 ledger s2 where a: "AccountStore_GetByID i s = (Inr acc, s1)"
      "AccountLedger (a_entity acc) i (n + 1) (page_offset off) s1 = (Inr ledger, s2)" "ap_account p = acc"
      "ap_more p = (n < int (length ledger))" "ap_rows p = (if n < int (length ledger) then take (nat n) ledger else ledger)"
    using assms unfolding handleAccountTransactions_def
    by (auto simp: ecall_ok Let_def n_def [symmetric] split: if_splits)
  have t: "same_tables s s1" using a(1) by (rule AccountStore_GetByID_tables)
  define rest where "rest = drop (nat (page_offset off)) (account_lines (a_entity acc) i s)"
  have "account_lines (a_entity acc) i s1 = account_lines (a_entity acc) i s"
    by (simp add: account_lines_def same_tables_fields [OF t])
  moreover have "0 \<le> page_offset off" by (simp add: page_offset_def split: option.splits)
  ultimately have l: "ledger = take (nat (if n < 1000 then n + 1 else 200)) rest"
    using a(2) n by (auto simp: AccountLedger_def select_all_Inr rest_def account_lines_def not_less)
  show ?thesis
    using a(3,4,5) l n by (auto simp: Let_def n_def [symmetric] rest_def [symmetric] min_def)
qed

theorem account_page_exact_witness:
  "length (ap_rows (projr (snd (fst (handleAccountTransactions sample_rh ''u1'' None [] sample_posted_db))))) = 1 \<and>
   \<not> ap_more (projr (snd (fst (handleAccountTransactions sample_rh ''u1'' None [] sample_posted_db))))"
proof -
  have a: "\<not> isl (snd (fst (handleAccountTransactions sample_rh ''u1'' None [] sample_posted_db)))" by code_simp
  have e: "a_entity (ap_account (projr (snd (fst (handleAccountTransactions sample_rh ''u1'' None [] sample_posted_db))))) = ''E''"
    by code_simp
  have l: "length (account_lines ''E'' ''u1'' sample_posted_db) = 1" by code_simp
  show ?thesis using account_page_exact [OF answered [OF a]] l unfolding e Let_def by (simp add: queryLimit_def page_offset_def parse_int_def read_sign_def)
qed

end
