(* ===== verification/Statements.thy ===== *)
theory Statements
  imports Reports Org_Http
begin

text \<open>
  Bank and card statements: the store of \<open>internal/db/account_statements.go\<close> and the handlers of
  \<open>internal/http/account_statements.go\<close>.  A statement joins its account, its source import and the import rows of that
  import inside its period, whose sums PostgreSQL computes as \<open>numeric\<close> values.  \<open>GetByID\<close> is one statement; so are
  \<open>INSERT\<close> and \<open>UPDATE\<close>, with the table's checks and foreign keys.

  \<open>reconcile_sound\<close> says what a reconciled statement proves about the rows; \<open>statement_keeps_entity\<close> that the
  handlers bind a statement to accounts and imports of its own entity.
\<close>

section \<open>The store\<close>

record statement =
  acs_id :: string
  acs_entity :: string
  acs_account :: string
  acs_account_name :: string
  acs_account_type :: string
  acs_receipt :: string
  acs_receipt_name :: string
  acs_from :: date
  acs_to :: date
  acs_starting :: int64
  acs_ending :: int64
  acs_in :: int64
  acs_out :: int64
  acs_posted_in :: int64
  acs_posted_out :: int64
  acs_expected :: int64
  acs_difference :: int64
  acs_unposted :: int64
  acs_status :: string
  acs_notes :: string
  acs_created :: int
  acs_updated :: int

definition StatementExpectedEndingBalance :: "int64 \<Rightarrow> int64 \<Rightarrow> int64 \<Rightarrow> int64" where
  "StatementExpectedEndingBalance starting inflow outflow = starting + inflow - outflow"

definition StatementDifference :: "int64 \<Rightarrow> int64 \<Rightarrow> int64" where
  "StatementDifference ending expected = ending - expected"

text \<open>The import rows of a statement, and one row of the joined and grouped query.\<close>

definition statement_lines :: "db \<Rightarrow> statement_row \<Rightarrow> import_row list" where
  "statement_lines s b = filter (\<lambda>r. bs_receipt b = Some (ir_receipt r) \<and> date_le (bs_from b) (ir_date r) \<and> date_le (ir_date r) (bs_to b))
     (db_import_rows s)"

definition row_sum :: "(import_row \<Rightarrow> bool) \<Rightarrow> import_row list \<Rightarrow> int" where
  "row_sum P rows = (\<Sum>r\<leftarrow>filter P rows. i64 (ir_amount r))"

record joined_row =
  jn_row :: statement_row
  jn_account :: account_row
  jn_name :: "string option"
  jn_in :: int
  jn_out :: int
  jn_posted_in :: int
  jn_posted_out :: int
  jn_unposted :: int

definition join_statement :: "db \<Rightarrow> statement_row \<Rightarrow> account_row \<Rightarrow> joined_row" where
  "join_statement s b a =
     (let rows = statement_lines s b; inflow = (\<lambda>r. ir_direction r = ''inflow''); posted = (\<lambda>r. ir_status r = ''posted'') in
      \<lparr>jn_row = b, jn_account = a,
       jn_name = Option.bind (find (\<lambda>r. bs_receipt b = Some (rc_id r)) (db_receipts s)) rc_original,
       jn_in = row_sum inflow rows, jn_out = row_sum (\<lambda>r. \<not> inflow r) rows,
       jn_posted_in = row_sum (\<lambda>r. inflow r \<and> posted r) rows, jn_posted_out = row_sum (\<lambda>r. \<not> inflow r \<and> posted r) rows,
       jn_unposted = int (length (filter (\<lambda>r. \<not> posted r) rows))\<rparr>)"

definition joined_rows :: "db \<Rightarrow> joined_row list" where
  "joined_rows s = concat (map (\<lambda>b. map (join_statement s b) (filter (\<lambda>a. ac_id a = bs_account b) (db_accounts s)))
     (ex_statements (db_extra s)))"

definition accountStatementFromRow :: "statement_row \<Rightarrow> account_row \<Rightarrow> string option \<Rightarrow> int64 \<Rightarrow> int64 \<Rightarrow> int64 \<Rightarrow> int64 \<Rightarrow> int64 \<Rightarrow> statement" where
  "accountStatementFromRow b a name inflow outflow postedIn postedOut unposted =
     (let expected = StatementExpectedEndingBalance (bs_starting b) inflow outflow in
      \<lparr>acs_id = bs_id b, acs_entity = bs_entity b, acs_account = bs_account b, acs_account_name = ac_name a,
       acs_account_type = ac_type a, acs_receipt = strOf (bs_receipt b), acs_receipt_name = strOf name,
       acs_from = bs_from b, acs_to = bs_to b, acs_starting = bs_starting b, acs_ending = bs_ending b,
       acs_in = inflow, acs_out = outflow, acs_posted_in = postedIn, acs_posted_out = postedOut,
       acs_expected = expected, acs_difference = StatementDifference (bs_ending b) expected, acs_unposted = unposted,
       acs_status = bs_status b, acs_notes = strOf (bs_notes b), acs_created = bs_created b, acs_updated = bs_updated b\<rparr>)"

definition scan_statement :: "joined_row \<Rightarrow> statement dbm" where
  "scan_statement j =
     dbind (scan_int64 (jn_in j)) (\<lambda>inflow. dbind (scan_int64 (jn_out j)) (\<lambda>outflow.
     dbind (scan_int64 (jn_posted_in j)) (\<lambda>postedIn. dbind (scan_int64 (jn_posted_out j)) (\<lambda>postedOut.
     dbind (scan_int64 (jn_unposted j)) (\<lambda>unposted.
       dret (accountStatementFromRow (jn_row j) (jn_account j) (jn_name j) inflow outflow postedIn postedOut unposted))))))"

fun scan_statements :: "joined_row list \<Rightarrow> statement list dbm" where
  "scan_statements [] = dret []"
| "scan_statements (j # js) = dbind (scan_statement j) (\<lambda>x. dbind (scan_statements js) (\<lambda>xs. dret (x # xs)))"

definition AccountStatementStore_List :: "string \<Rightarrow> string \<Rightarrow> date option \<Rightarrow> date option \<Rightarrow> int \<Rightarrow> statement list dbm" where
  "AccountStatementStore_List ent acc start en limit0 =
     (let limit = (if limit0 \<le> 0 then 200 else limit0) in
      dbind (select_all (\<lambda>s. take (nat limit)
          (sort_by (\<lambda>j k. \<not> date_le (bs_from (jn_row j)) (bs_from (jn_row k)) \<or>
                          bs_from (jn_row j) = bs_from (jn_row k) \<and> bs_created (jn_row k) < bs_created (jn_row j))
            (filter (\<lambda>j. bs_entity (jn_row j) = ent \<and> (acc = [] \<or> bs_account (jn_row j) = acc) \<and>
               (case start of None \<Rightarrow> True | Some d \<Rightarrow> date_le d (bs_to (jn_row j))) \<and>
               (case en of None \<Rightarrow> True | Some d \<Rightarrow> date_le (bs_from (jn_row j)) d)) (joined_rows s)))))
        scan_statements)"

definition AccountStatementStore_GetByID :: "string \<Rightarrow> statement dbm" where
  "AccountStatementStore_GetByID i = dbind (get_row joined_rows (\<lambda>j. bs_id (jn_row j) = i)) scan_statement"

definition AccountStatementStore_GetBySourceReceiptID :: "string \<Rightarrow> statement dbm" where
  "AccountStatementStore_GetBySourceReceiptID r =
     dbind (get_row joined_rows (\<lambda>j. bs_receipt (jn_row j) = Some r)) scan_statement"

definition AccountStatementStore_GetEntityID :: "string \<Rightarrow> string dbm" where
  "AccountStatementStore_GetEntityID i =
     dbind (get_row (\<lambda>s. ex_statements (db_extra s)) (\<lambda>b. bs_id b = i)) (\<lambda>b. dret (bs_entity b))"

text \<open>The checks of the table, on a new row or on the changed one.\<close>

definition statement_statuses :: "string list" where
  "statement_statuses = [''draft'', ''needs_review'', ''reconciled'', ''locked'']"

definition statement_ok :: "db \<Rightarrow> statement_row \<Rightarrow> bool" where
  "statement_ok s b \<longleftrightarrow>
     bs_entity b \<in> ent_id ` set (db_entities s) \<and> bs_account b \<in> ac_id ` set (db_accounts s) \<and>
     (case bs_receipt b of None \<Rightarrow> True
      | Some r \<Rightarrow> r \<in> rc_id ` set (db_receipts s) \<and>
          (\<forall>c\<in>set (ex_statements (db_extra s)). bs_id c \<noteq> bs_id b \<longrightarrow> bs_receipt c \<noteq> Some r)) \<and>
     date_le (bs_from b) (bs_to b) \<and> bs_status b \<in> set statement_statuses"

definition put_statements :: "(statement_row list \<Rightarrow> statement_row list) \<Rightarrow> db \<Rightarrow> db" where
  "put_statements f s = s\<lparr>db_extra := (db_extra s)\<lparr>ex_statements := f (ex_statements (db_extra s))\<rparr>\<rparr>"

definition AccountStatementStore_Create :: "statement \<Rightarrow> statement dbm" where
  "AccountStatementStore_Create m =
     dbind (stmt (\<lambda>s.
       let i = next_uuid s; s' = s\<lparr>db_seq := db_seq s + 1\<rparr>;
           b = \<lparr>bs_id = i, bs_entity = acs_entity m, bs_account = acs_account m, bs_receipt = nullString (acs_receipt m),
                bs_from = acs_from m, bs_to = acs_to m, bs_starting = acs_starting m, bs_ending = acs_ending m,
                bs_status = (if acs_status m = [] then ''draft'' else acs_status m), bs_notes = nullString (acs_notes m),
                bs_created = db_now s, bs_updated = db_now s\<rparr> in
       if i \<in> bs_id ` set (ex_statements (db_extra s)) \<or> \<not> statement_ok s b then (Inl ErrConstraint, s')
       else (Inr i, put_statements (\<lambda>bs. bs @ [b]) s')))
     AccountStatementStore_GetByID"

record statement_patch =
  pt_account :: "string option"
  pt_receipt :: "string option"
  pt_from :: "date option"
  pt_to :: "date option"
  pt_starting :: "int64 option"
  pt_ending :: "int64 option"
  pt_status :: "string option"
  pt_notes :: "string option"

definition or_else :: "'a option \<Rightarrow> 'a \<Rightarrow> 'a" where
  "or_else v d = (case v of None \<Rightarrow> d | Some x \<Rightarrow> x)"

text \<open>\<open>NULLIF($3, '')\<close> when the parameter is given.\<close>

definition or_null :: "string option \<Rightarrow> string option \<Rightarrow> string option" where
  "or_null v d = (case v of None \<Rightarrow> d | Some x \<Rightarrow> nullString x)"

definition patch_statement :: "int \<Rightarrow> statement_patch \<Rightarrow> statement_row \<Rightarrow> statement_row" where
  "patch_statement now p b = b\<lparr>bs_account := or_else (pt_account p) (bs_account b), bs_receipt := or_null (pt_receipt p) (bs_receipt b),
     bs_from := or_else (pt_from p) (bs_from b), bs_to := or_else (pt_to p) (bs_to b),
     bs_starting := or_else (pt_starting p) (bs_starting b), bs_ending := or_else (pt_ending p) (bs_ending b),
     bs_status := or_else (pt_status p) (bs_status b), bs_notes := or_null (pt_notes p) (bs_notes b), bs_updated := now\<rparr>"

definition AccountStatementStore_Update :: "string \<Rightarrow> statement_patch \<Rightarrow> statement dbm" where
  "AccountStatementStore_Update i p =
     dbind (stmt (\<lambda>s.
       case find (\<lambda>b. bs_id b = i) (ex_statements (db_extra s)) of
         None \<Rightarrow> (Inr None, s)
       | Some b \<Rightarrow>
           if \<not> statement_ok s (patch_statement (db_now s) p b) then (Inl ErrConstraint, s)
           else (Inr (Some i), put_statements (map (\<lambda>c. if bs_id c = i then patch_statement (db_now s) p c else c)) s)))
       (\<lambda>r. case r of None \<Rightarrow> dthrow ErrNotFound | Some j \<Rightarrow> AccountStatementStore_GetByID j)"

definition status_patch :: "string \<Rightarrow> statement_patch" where
  "status_patch st = \<lparr>pt_account = None, pt_receipt = None, pt_from = None, pt_to = None, pt_starting = None, pt_ending = None,
     pt_status = Some st, pt_notes = None\<rparr>"

definition AccountStatementStore_Reconcile :: "string \<Rightarrow> statement dbm" where
  "AccountStatementStore_Reconcile i =
     dbind (AccountStatementStore_GetByID i) (\<lambda>m.
       AccountStatementStore_Update i (status_patch
         (if acs_difference m \<noteq> 0 \<or> 0 < i64 (acs_unposted m) then ''needs_review'' else ''reconciled'')))"

text \<open>\<open>accountStatements.GetBySourceReceiptID\<close> as the ledger's handlers use it.\<close>

definition statement_source :: "string \<Rightarrow> (string \<times> string) dbm" where
  "statement_source r = dbind (AccountStatementStore_GetBySourceReceiptID r) (\<lambda>m. dret (acs_entity m, acs_account m))"

section \<open>The handlers\<close>

record statement_hc =
  sh_statements :: bool
  sh_accounts :: bool
  sh_receipts :: bool
  sh_search :: bool
  sh_tenant :: string

record statement_req =
  sq_entity :: string
  sq_account :: string
  sq_receipt :: string
  sq_from :: string
  sq_to :: string
  sq_starting :: int64
  sq_ending :: int64
  sq_status :: string
  sq_notes :: string

record statement_patch_req =
  su_account :: "string option"
  su_receipt :: "string option"
  su_from :: "string option"
  su_to :: "string option"
  su_starting :: "int64 option"
  su_ending :: "int64 option"
  su_status :: "string option"
  su_notes :: "string option"

definition accountStatementResponse :: "statement \<Rightarrow> (string \<times> string) list" where
  "accountStatementResponse m =
     [(''id'', acs_id m), (''entity_id'', acs_entity m), (''account_id'', acs_account m), (''account_name'', acs_account_name m),
      (''account_type'', acs_account_type m), (''source_receipt_id'', acs_receipt m),
      (''source_receipt_name'', acs_receipt_name m), (''period_start'', format_iso (acs_from m)),
      (''period_end'', format_iso (acs_to m)), (''starting_balance_cents'', cents (acs_starting m)),
      (''ending_balance_cents'', cents (acs_ending m)), (''imported_inflow_cents'', cents (acs_in m)),
      (''imported_outflow_cents'', cents (acs_out m)), (''posted_inflow_cents'', cents (acs_posted_in m)),
      (''posted_outflow_cents'', cents (acs_posted_out m)), (''expected_ending_balance_cents'', cents (acs_expected m)),
      (''difference_cents'', cents (acs_difference m)), (''unposted_rows'', cents (acs_unposted m)),
      (''status'', acs_status m), (''notes'', acs_notes m), (''created_at'', format_rfc3339 (acs_created m)),
      (''updated_at'', format_rfc3339 (acs_updated m))]"

definition indexAccountStatement :: "statement_hc \<Rightarrow> statement \<Rightarrow> unit dbm" where
  "indexAccountStatement h m s =
     (if \<not> sh_search h then dret () s
      else send (UpsertDocument (SearchDocumentFromStatement (db_now s) (sh_tenant h)
        \<lparr>st_id = acs_id m, st_entity = acs_entity m, st_account = acs_account m, st_account_name = acs_account_name m,
         st_account_type = acs_account_type m, st_source_name = acs_receipt_name m, st_period_start = Some (acs_from m),
         st_period_end = Some (acs_to m), st_ending = acs_ending m, st_status = acs_status m, st_notes = acs_notes m,
         st_created = acs_created m, st_updated = acs_updated m\<rparr>)) s)"

definition parseDateValue :: "string \<Rightarrow> (int \<times> string) + date" where
  "parseDateValue v = (case parse_iso (trim_space v) of None \<Rightarrow> Inl (400, ''INVALID_DATE'') | Some d \<Rightarrow> Inr d)"

definition optionalDateQuery :: "string \<Rightarrow> (int \<times> string) + date option" where
  "optionalDateQuery v = (if trim_space v = [] then Inr None else rbind (parseDateValue (trim_space v)) (\<lambda>d. Inr (Some d)))"

definition parseStatementPeriod :: "string \<Rightarrow> string \<Rightarrow> (int \<times> string) + date \<times> date" where
  "parseStatementPeriod a b =
     rbind (parseDateValue a) (\<lambda>start. rbind (parseDateValue b) (\<lambda>en.
       if \<not> date_le start en then Inl (400, ''INVALID_PERIOD'') else Inr (start, en)))"

definition validAccountStatementStatus :: "string \<Rightarrow> bool" where
  "validAccountStatementStatus st \<longleftrightarrow> st \<in> set statement_statuses"

text \<open>The two guards: the account and the import of the statement belong to its entity.\<close>

definition validateStatementAccount :: "string \<Rightarrow> string \<Rightarrow> 'b endpoint \<Rightarrow> 'b endpoint" where
  "validateStatementAccount ent acc k =
     ecall (AccountStore_GetEntityID acc) (\<lambda>_. fails 400 ''INVALID_ACCOUNT'')
       (\<lambda>e. if e \<noteq> ent then fails 400 ''INVALID_ACCOUNT'' else k)"

definition validateStatementReceipt :: "statement_hc \<Rightarrow> string \<Rightarrow> string \<Rightarrow> 'b endpoint \<Rightarrow> 'b endpoint" where
  "validateStatementReceipt h ent rid k =
     (if rid = [] then k
      else if \<not> sh_receipts h then notConfigured
      else ecall (ReceiptStore_GetByID rid) (\<lambda>_. fails 400 ''INVALID_SOURCE_IMPORT'')
        (\<lambda>r. if r_entity r \<noteq> ent \<or> r_kind r \<noteq> ''import'' then fails 400 ''INVALID_SOURCE_IMPORT'' else k))"

definition handleAccountStatementsList ::
  "statement_hc \<Rightarrow> string \<Rightarrow> string \<Rightarrow> string \<Rightarrow> string \<Rightarrow> int option \<Rightarrow> (string \<times> string) list list endpoint" where
  "handleAccountStatementsList h ent acc start_date end_date limit =
     (if \<not> sh_statements h then notConfigured
      else with_params (optionalDateQuery start_date) (\<lambda>start. with_params (optionalDateQuery end_date) (\<lambda>en.
        ecall (AccountStatementStore_List ent acc start en (queryLimit limit 200 1000)) internalError
          (\<lambda>rows. answer 200 (map accountStatementResponse rows)))))"

definition new_statement :: "statement_req \<Rightarrow> date \<Rightarrow> date \<Rightarrow> string \<Rightarrow> statement" where
  "new_statement req start en status =
     \<lparr>acs_id = [], acs_entity = sq_entity req, acs_account = sq_account req, acs_account_name = [], acs_account_type = [],
      acs_receipt = sq_receipt req, acs_receipt_name = [], acs_from = start, acs_to = en, acs_starting = sq_starting req,
      acs_ending = sq_ending req, acs_in = 0, acs_out = 0, acs_posted_in = 0, acs_posted_out = 0, acs_expected = 0,
      acs_difference = 0, acs_unposted = 0, acs_status = status, acs_notes = trim_space (sq_notes req),
      acs_created = zero_time, acs_updated = zero_time\<rparr>"

definition handleAccountStatementCreate :: "statement_hc \<Rightarrow> statement_req option \<Rightarrow> statement endpoint" where
  "handleAccountStatementCreate h body =
     (if \<not> sh_statements h \<or> \<not> sh_accounts h then notConfigured
      else case body of
        None \<Rightarrow> fails 400 ''BAD_REQUEST''
      | Some req \<Rightarrow>
          if sq_entity req = [] \<or> sq_account req = [] \<or> sq_from req = [] \<or> sq_to req = [] then fails 400 ''MISSING_FIELDS''
          else with_params (parseStatementPeriod (sq_from req) (sq_to req)) (\<lambda>(start, en).
            validateStatementAccount (sq_entity req) (sq_account req)
            (validateStatementReceipt h (sq_entity req) (sq_receipt req)
            (let status = (if trim_space (sq_status req) = [] then ''draft'' else trim_space (sq_status req)) in
             if \<not> validAccountStatementStatus status then fails 400 ''INVALID_STATUS''
             else ecall (AccountStatementStore_Create (new_statement req start en status)) internalError
               (\<lambda>m. ethen (indexAccountStatement h m) (answer 201 m))))))"

definition optional_date :: "string option \<Rightarrow> (int \<times> string) + date option" where
  "optional_date v = (case v of None \<Rightarrow> Inr None | Some t \<Rightarrow> rbind (parseDateValue t) (\<lambda>d. Inr (Some d)))"

definition handleAccountStatementUpdate :: "statement_hc \<Rightarrow> string \<Rightarrow> statement_patch_req option \<Rightarrow> statement endpoint" where
  "handleAccountStatementUpdate h i body =
     (if \<not> sh_statements h \<or> \<not> sh_accounts h then notConfigured
      else ecall (AccountStatementStore_GetByID i) notFoundOr500 (\<lambda>current.
        case body of
          None \<Rightarrow> fails 400 ''BAD_REQUEST''
        | Some req \<Rightarrow>
            let patch = \<lparr>pt_account = map_option trim_space (su_account req), pt_receipt = map_option trim_space (su_receipt req),
                  pt_from = None, pt_to = None, pt_starting = su_starting req, pt_ending = su_ending req,
                  pt_status = map_option trim_space (su_status req), pt_notes = map_option trim_space (su_notes req)\<rparr>;
                account_guard = (\<lambda>k. case pt_account patch of None \<Rightarrow> k | Some a \<Rightarrow> validateStatementAccount (acs_entity current) a k);
                receipt_guard = (\<lambda>k. case pt_receipt patch of None \<Rightarrow> k | Some r \<Rightarrow> validateStatementReceipt h (acs_entity current) r k) in
            account_guard (receipt_guard
              (if (case pt_status patch of None \<Rightarrow> False | Some st \<Rightarrow> \<not> validAccountStatementStatus st) then fails 400 ''INVALID_STATUS''
               else with_params (optional_date (su_from req)) (\<lambda>start. with_params (optional_date (su_to req)) (\<lambda>en.
                 if \<not> date_le (or_else start (acs_from current)) (or_else en (acs_to current)) then fails 400 ''INVALID_PERIOD''
                 else ecall (AccountStatementStore_Update i (patch\<lparr>pt_from := start, pt_to := en\<rparr>)) notFoundOr500
                   (\<lambda>m. ethen (indexAccountStatement h m) (answer 200 m))))))))"

definition handleAccountStatementReconcile :: "statement_hc \<Rightarrow> string \<Rightarrow> statement endpoint" where
  "handleAccountStatementReconcile h i =
     (if \<not> sh_statements h then notConfigured
      else ecall (AccountStatementStore_Reconcile i) notFoundOr500
        (\<lambda>m. ethen (indexAccountStatement h m) (answer 200 m)))"

text \<open>
  The route of \<open>POST /account-statements\<close>.  The middleware \<open>entityIDFromJSON\<close> binds the body with gin's
  \<open>ShouldBindBodyWith\<close>, the handler binds what is left of the stream with \<open>ShouldBindJSON\<close>.  Gin is not part of the
  repository: the two calls are a parameter of the route.  Each gives the bytes handed to the JSON decoder; the first also the
  rest of the request's stream, the second None when it reports \<open>io.EOF\<close>.
\<close>

record gin =
  gin_body_with :: "string \<Rightarrow> string \<times> string"
  gin_json :: "string \<Rightarrow> string option"

definition post_account_statements ::
  "gin \<Rightarrow> statement_hc \<Rightarrow> (string \<Rightarrow> json_body) \<Rightarrow> (string \<Rightarrow> statement_req option) \<Rightarrow> rq \<Rightarrow> string \<Rightarrow> handler" where
  "post_account_statements g h decodeMap decode rq stream =
     (case gin_body_with g stream of (bytes, rest) \<Rightarrow>
        run_route (entity_route adminRoles (entityIDFromJSON ''entity_id'')) (rq\<lparr>rq_json := decodeMap bytes\<rparr>) empty_cx
          (\<lambda>_. encoded (\<lambda>m. BObj (accountStatementResponse m))
             (handleAccountStatementCreate h (Option.bind (gin_json g rest) decode))))"

text \<open>
  What gin documents of the two, and what the comment of \<open>handleReceiptSuggestionsBatch\<close> in \<open>internal/http/receipts.go\<close>
  relies on: \<open>ShouldBindBodyWith\<close> reads the whole stream and keeps its bytes in the context for later calls of its own, and
  \<open>ShouldBindJSON\<close> decodes the stream and does not look at those bytes, so that an empty stream is \<open>io.EOF\<close>.
\<close>

definition gin_documented :: "gin \<Rightarrow> bool" where
  "gin_documented g \<longleftrightarrow> (\<forall>b. gin_body_with g b = (b, [])) \<and> (\<forall>b. gin_json g b = (if b = [] then None else Some b))"

section \<open>Reading a statement back\<close>

lemma joined_rows_mem: "j \<in> set (joined_rows s) \<Longrightarrow> \<exists>b\<in>set (ex_statements (db_extra s)). \<exists>a\<in>set (db_accounts s).
    ac_id a = bs_account b \<and> j = join_statement s b a"
  by (auto simp: joined_rows_def)

lemma joined_rows_tick [simp]: "joined_rows (s\<lparr>db_tick := n\<rparr>) = joined_rows s"
  by (simp add: joined_rows_def join_statement_def statement_lines_def Let_def cong: map_cong)

lemma scan_int64_Inr: "scan_int64 n s = (Inr x, s') \<longleftrightarrow> in_int64 n \<and> x = word_of_int n \<and> s' = s"
  by (auto simp: scan_int64_def db_simps)

lemma scan_statement_Inr: "scan_statement j s = (Inr m, s') \<Longrightarrow> s' = s \<and> in_int64 (jn_unposted j) \<and>
    m = accountStatementFromRow (jn_row j) (jn_account j) (jn_name j) (word_of_int (jn_in j)) (word_of_int (jn_out j))
      (word_of_int (jn_posted_in j)) (word_of_int (jn_posted_out j)) (word_of_int (jn_unposted j))"
  by (auto simp: scan_statement_def dbind_Inr dret_eq scan_int64_Inr)

lemma scan_statement_state: "snd (scan_statement j s) = s"
  by (simp add: scan_statement_def scan_int64_def dbind_def dret_def dthrow_def)

lemma GetByID_Inr:
  assumes "AccountStatementStore_GetByID i s = (Inr m, s')"
  obtains b a where "b \<in> set (ex_statements (db_extra s))" "bs_id b = i" "a \<in> set (db_accounts s)" "ac_id a = bs_account b"
    "in_int64 (jn_unposted (join_statement s b a))" "s' = s\<lparr>db_tick := db_tick s + 1\<rparr>"
    "m = accountStatementFromRow b a (jn_name (join_statement s b a)) (word_of_int (jn_in (join_statement s b a)))
       (word_of_int (jn_out (join_statement s b a))) (word_of_int (jn_posted_in (join_statement s b a)))
       (word_of_int (jn_posted_out (join_statement s b a))) (word_of_int (jn_unposted (join_statement s b a)))"
proof -
  obtain j s1 where j: "get_row joined_rows (\<lambda>j. bs_id (jn_row j) = i) s = (Inr j, s1)" "scan_statement j s1 = (Inr m, s')"
    using assms unfolding AccountStatementStore_GetByID_def by (auto simp: dbind_Inr)
  then have f: "find (\<lambda>j. bs_id (jn_row j) = i) (joined_rows s) = Some j" and s1: "s1 = s\<lparr>db_tick := db_tick s + 1\<rparr>"
    by (simp_all add: get_row_Inr)
  then have "j \<in> set (joined_rows s)" "bs_id (jn_row j) = i" by (auto simp: find_Some_iff)
  then obtain b a where ba: "b \<in> set (ex_statements (db_extra s))" "a \<in> set (db_accounts s)" "ac_id a = bs_account b"
      "j = join_statement s b a" using joined_rows_mem by blast
  then have n: "jn_row j = b" "jn_account j = a" by (simp_all add: join_statement_def Let_def)
  show thesis
    by (rule that [of b a]) (use ba n s1 scan_statement_Inr [OF j(2)] \<open>bs_id (jn_row j) = i\<close> in simp_all)
qed

lemma scan_statement_same: "scan_statement j s = (r, s') \<Longrightarrow> s' = s"
  using scan_statement_state [of j s] by simp

lemma statement_GetByID_tables: "AccountStatementStore_GetByID i s = (r, s') \<Longrightarrow> same_tables s s'"
  by (auto simp: AccountStatementStore_GetByID_def dbind_def dest!: get_row_tables scan_statement_same split: prod.splits sum.splits)

lemma FromRow_simps [simp]:
  "acs_status (accountStatementFromRow b a n x y u v w) = bs_status b" "acs_id (accountStatementFromRow b a n x y u v w) = bs_id b"
  "acs_unposted (accountStatementFromRow b a n x y u v w) = w"
  "acs_difference (accountStatementFromRow b a n x y u v w) = bs_ending b - (bs_starting b + x - y)"
  by (simp_all add: accountStatementFromRow_def StatementDifference_def StatementExpectedEndingBalance_def Let_def)

lemma jn_sums: "jn_in (join_statement s b a) = row_sum (\<lambda>r. ir_direction r = ''inflow'') (statement_lines s b)"
  "jn_out (join_statement s b a) = row_sum (\<lambda>r. ir_direction r \<noteq> ''inflow'') (statement_lines s b)"
  "jn_unposted (join_statement s b a) = int (length (filter (\<lambda>r. ir_status r \<noteq> ''posted'') (statement_lines s b)))"
  by (simp_all add: join_statement_def Let_def)

text \<open>The status that a changed statement shows is the one that was stored.\<close>

lemma Update_status:
  assumes "AccountStatementStore_Update i (status_patch st) s = (Inr m, s')"
  shows "acs_status m = st"
proof -
  let ?f = "\<lambda>s. map (\<lambda>c. if bs_id c = i then patch_statement (db_now s) (status_patch st) c else c)"
  let ?q = "\<lambda>s. case find (\<lambda>b. bs_id b = i) (ex_statements (db_extra s)) of
         None \<Rightarrow> (Inr None, s)
       | Some b \<Rightarrow>
           if \<not> statement_ok s (patch_statement (db_now s) (status_patch st) b) then (Inl ErrConstraint, s)
           else (Inr (Some i), put_statements (?f s) s)"
  obtain k s1 where u: "stmt ?q s = (Inr k, s1)"
      "(case k of None \<Rightarrow> dthrow ErrNotFound | Some j \<Rightarrow> AccountStatementStore_GetByID j) s1 = (Inr m, s')"
    using assms unfolding AccountStatementStore_Update_def dbind_Inr by blast
  then have q: "?q (s\<lparr>db_tick := db_tick s + 1\<rparr>) = (Inr k, s1)" by (simp only: stmt_Inr)
  from u(2) obtain j where j: "k = Some j" "AccountStatementStore_GetByID j s1 = (Inr m, s')"
    by (cases k) (simp_all add: dthrow_def)
  then have e: "j = i" "ex_statements (db_extra s1) = ?f s (ex_statements (db_extra s))"
    using q by (auto simp: put_statements_def split: option.splits if_splits)
  from j(2) obtain b where b: "b \<in> set (ex_statements (db_extra s1))" "bs_id b = j" "acs_status m = bs_status b"
    by (rule GetByID_Inr) (metis FromRow_simps(1))
  from b(1) obtain c where "b = (if bs_id c = i then patch_statement (db_now s) (status_patch st) c else c)"
    unfolding e(2) set_map by (rule imageE)
  then show ?thesis using b(2,3) e(1) by (simp add: patch_statement_def status_patch_def or_else_def split: if_splits)
qed

section \<open>What reconciling proves\<close>

definition reconciled_rows :: "db \<Rightarrow> statement_row \<Rightarrow> bool" where
  "reconciled_rows s b \<longleftrightarrow> (\<forall>r\<in>set (statement_lines s b). ir_status r = ''posted'') \<and>
     bs_ending b = bs_starting b + word_of_int (row_sum (\<lambda>r. ir_direction r = ''inflow'') (statement_lines s b)) -
       word_of_int (row_sum (\<lambda>r. ir_direction r \<noteq> ''inflow'') (statement_lines s b))"

text \<open>
  C5.  A statement that \<open>POST /account-statements/:id/reconcile\<close> answers as reconciled was right when it was asked: every
  row of its import in its period was posted, and the opening balance plus the inflows minus the outflows was the closing
  balance.  (\<open>PATCH /account-statements/:id\<close> makes no such check: it stores the status it is given, as \<open>patch_unchecked\<close> shows.)
\<close>

theorem reconcile_sound:
  assumes "handleAccountStatementReconcile h i s = ((st, Inr m), s')" "acs_status m = ''reconciled''"
  shows "\<exists>b\<in>set (ex_statements (db_extra s)). bs_id b = i \<and> reconciled_rows s b"
proof -
  obtain s1 where r: "AccountStatementStore_Reconcile i s = (Inr m, s1)"
    using assms(1) unfolding handleAccountStatementReconcile_def by (auto simp: ecall_ok split: if_splits)
  obtain m0 s0 where g: "AccountStatementStore_GetByID i s = (Inr m0, s0)"
    and u: "AccountStatementStore_Update i (status_patch
         (if acs_difference m0 \<noteq> 0 \<or> 0 < i64 (acs_unposted m0) then ''needs_review'' else ''reconciled'')) s0 = (Inr m, s1)"
    using r unfolding AccountStatementStore_Reconcile_def by (auto simp: dbind_Inr)
  have ok: "acs_difference m0 = 0" "\<not> 0 < i64 (acs_unposted m0)"
    using Update_status [OF u] assms(2) by (auto split: if_splits)
  from g show ?thesis
  proof (rule GetByID_Inr)
    fix b a assume b: "b \<in> set (ex_statements (db_extra s))" "bs_id b = i" "in_int64 (jn_unposted (join_statement s b a))"
      and m0: "m0 = accountStatementFromRow b a (jn_name (join_statement s b a)) (word_of_int (jn_in (join_statement s b a)))
       (word_of_int (jn_out (join_statement s b a))) (word_of_int (jn_posted_in (join_statement s b a)))
       (word_of_int (jn_posted_out (join_statement s b a))) (word_of_int (jn_unposted (join_statement s b a)))"
    have "filter (\<lambda>r. ir_status r \<noteq> ''posted'') (statement_lines s b) = []"
      using ok(2) i64_of_int [OF b(3)] m0 by (simp add: jn_sums del: of_int_of_nat_eq)
    then have "\<forall>r\<in>set (statement_lines s b). ir_status r = ''posted''" by (simp add: filter_empty_conv)
    moreover have "bs_ending b = bs_starting b + word_of_int (row_sum (\<lambda>r. ir_direction r = ''inflow'') (statement_lines s b)) -
       word_of_int (row_sum (\<lambda>r. ir_direction r \<noteq> ''inflow'') (statement_lines s b))"
      using ok(1) m0 by (simp add: jn_sums)
    ultimately show ?thesis using b by (auto simp: reconciled_rows_def)
  qed
qed

section \<open>Statements stay in their entity\<close>

definition statement_bound :: "db \<Rightarrow> statement_row \<Rightarrow> bool" where
  "statement_bound s b \<longleftrightarrow> account_entity_of s (bs_account b) = Some (bs_entity b) \<and>
     (case bs_receipt b of None \<Rightarrow> True
      | Some r \<Rightarrow> \<exists>c. find (\<lambda>c. rc_id c = r) (db_receipts s) = Some c \<and> rc_entity c = bs_entity b \<and> rc_kind c = ''import'')"

definition statements_bound :: "db \<Rightarrow> bool" where
  "statements_bound s \<longleftrightarrow> distinct (map bs_id (ex_statements (db_extra s))) \<and> (\<forall>b\<in>set (ex_statements (db_extra s)). statement_bound s b)"

lemma statement_bound_tables: "same_tables s s' \<Longrightarrow> statement_bound s' b = statement_bound s b"
  by (simp add: statement_bound_def account_entity_of_def same_tables_fields [of s s'] split: option.splits)

interpretation bound: table_invariant statements_bound
  by unfold_locales (simp add: statements_bound_def statement_bound_tables [of s s' for s s'] same_tables_fields cong: ball_cong)

text \<open>A passed guard is a fact about the tables.\<close>

lemma validateStatementAccount_cases:
  assumes "validateStatementAccount ent acc k s = r"
  obtains c s1 where "r = ((400, Inl c), s1)" "same_tables s s1"
  | s1 where "same_tables s s1" "account_entity_of s acc = Some ent" "k s1 = r"
proof -
  obtain x s1 where g: "AccountStore_GetEntityID acc s = (x, s1)" by fastforce
  then have t: "same_tables s s1" by (rule GetEntityID_tables(1))
  show thesis
  proof (cases x)
    case (Inl e)
    then show ?thesis using assms g t that(1) by (auto simp: validateStatementAccount_def ecall_def fails_def)
  next
    case (Inr e)
    then have "account_entity_of s acc = Some e"
      using g by (auto simp: AccountStore_GetEntityID_def db_simps get_row_Inr account_entity_of_def)
    then show ?thesis using assms g t that Inr
      by (cases "e = ent") (auto simp: validateStatementAccount_def ecall_def fails_def)
  qed
qed

lemma validateStatementReceipt_cases:
  assumes "validateStatementReceipt h ent rid k s = r"
  obtains st c s1 where "r = ((st, Inl c), s1)" "same_tables s s1"
  | s1 where "same_tables s s1" "k s1 = r" "rid = [] \<or> (\<exists>c. find (\<lambda>c. rc_id c = rid) (db_receipts s) = Some c \<and> rc_entity c = ent \<and> rc_kind c = ''import'')"
proof -
  consider "rid = []" | "rid \<noteq> []" "\<not> sh_receipts h" | "rid \<noteq> []" "sh_receipts h" by blast
  then show thesis
  proof cases
    case 1
    then show ?thesis using assms that(2) [of s] by (simp add: validateStatementReceipt_def)
  next
    case 2
    then show ?thesis using assms that(1) [of 501 _ s] by (auto simp: validateStatementReceipt_def notConfigured_def fails_def)
  next
    case 3
    obtain x s1 where g: "ReceiptStore_GetByID rid s = (x, s1)" by fastforce
    then have t: "same_tables s s1" by (auto simp: ReceiptStore_GetByID_def dbind_def dret_def dest!: get_row_tables split: prod.splits sum.splits)
    show ?thesis
    proof (cases x)
      case (Inl e)
      then show ?thesis using assms g t that(1) 3 by (auto simp: validateStatementReceipt_def ecall_def fails_def)
    next
      case (Inr m)
      then obtain c where c: "find (\<lambda>c. rc_id c = rid) (db_receipts s) = Some c" "m = receiptFromRow c"
        using g by (auto simp: ReceiptStore_GetByID_def db_simps get_row_Inr)
      show ?thesis
      proof (cases "r_entity m \<noteq> ent \<or> r_kind m \<noteq> ''import''")
        case True
        then show ?thesis using assms g t that(1) 3 Inr by (auto simp: validateStatementReceipt_def ecall_def fails_def)
      next
        case False
        then show ?thesis using assms g t that(2) [OF t] 3 Inr c
          by (auto simp: validateStatementReceipt_def ecall_def receiptFromRow_def)
      qed
    qed
  qed
qed

text \<open>An endpoint that keeps the invariant where a fact about the tables holds.\<close>

definition guarded :: "(db \<Rightarrow> bool) \<Rightarrow> 'b endpoint \<Rightarrow> bool" where
  "guarded P k \<longleftrightarrow> (\<forall>s. statements_bound s \<and> P s \<longrightarrow> statements_bound (snd (k s)))"

definition on_tables :: "(db \<Rightarrow> bool) \<Rightarrow> bool" where
  "on_tables P \<longleftrightarrow> (\<forall>s s'. same_tables s s' \<longrightarrow> P s' = P s)"

definition import_of :: "string \<Rightarrow> string \<Rightarrow> db \<Rightarrow> bool" where
  "import_of ent rid s \<longleftrightarrow> rid = [] \<or> (\<exists>c. find (\<lambda>c. rc_id c = rid) (db_receipts s) = Some c \<and> rc_entity c = ent \<and> rc_kind c = ''import'')"

definition account_in :: "string \<Rightarrow> string \<Rightarrow> db \<Rightarrow> bool" where
  "account_in ent acc s \<longleftrightarrow> account_entity_of s acc = Some ent"

lemma on_tables_simps [intro]: "on_tables (import_of ent rid)" "on_tables (account_in ent acc)" "on_tables (\<lambda>_. c)"
  "on_tables P \<Longrightarrow> on_tables Q \<Longrightarrow> on_tables (\<lambda>s. P s \<and> Q s)"
  by (auto simp: on_tables_def import_of_def account_in_def account_entity_of_def same_tables_fields)

lemma on_tablesD: "on_tables P \<Longrightarrow> same_tables s s' \<Longrightarrow> P s' = P s"
  by (simp add: on_tables_def)

lemma guard_account:
  assumes "on_tables P" "guarded (\<lambda>s. P s \<and> account_in ent acc s) k"
  shows "guarded P (validateStatementAccount ent acc k)"
  unfolding guarded_def
proof (intro allI impI)
  fix s assume s: "statements_bound s \<and> P s"
  show "statements_bound (snd (validateStatementAccount ent acc k s))"
  proof (rule validateStatementAccount_cases [OF refl, of ent acc k s])
    fix s1 assume t: "same_tables s s1" "account_entity_of s acc = Some ent" and k: "k s1 = validateStatementAccount ent acc k s"
    have "statements_bound s1" "P s1" "account_in ent acc s1"
      using s t bound.tables_only on_tablesD [OF assms(1)] on_tablesD [OF on_tables_simps(2)] by (auto simp: account_in_def)
    then show ?thesis using assms(2) unfolding guarded_def k [symmetric] by blast
  qed (use s bound.tables_only in auto)
qed

lemma guard_receipt:
  assumes "on_tables P" "guarded (\<lambda>s. P s \<and> import_of ent rid s) k"
  shows "guarded P (validateStatementReceipt h ent rid k)"
  unfolding guarded_def
proof (intro allI impI)
  fix s assume s: "statements_bound s \<and> P s"
  show "statements_bound (snd (validateStatementReceipt h ent rid k s))"
  proof (rule validateStatementReceipt_cases [OF refl, of h ent rid k s])
    fix s1 assume t: "same_tables s s1" "rid = [] \<or> (\<exists>c. find (\<lambda>c. rc_id c = rid) (db_receipts s) = Some c \<and> rc_entity c = ent \<and> rc_kind c = ''import'')"
      and k: "k s1 = validateStatementReceipt h ent rid k s"
    then have "statements_bound s1" "P s1" "import_of ent rid s1"
      using s bound.tables_only on_tablesD [OF assms(1)] on_tablesD [OF on_tables_simps(1)] by (auto simp: import_of_def)
    then show ?thesis using assms(2) unfolding guarded_def k [symmetric] by blast
  qed (use s bound.tables_only in auto)
qed

lemma guarded_ecall:
  assumes "\<And>s. statements_bound s \<Longrightarrow> P s \<Longrightarrow> statements_bound (snd (m s))" "\<And>e. ekeeps statements_bound (f e)" "\<And>x. ekeeps statements_bound (k x)"
  shows "guarded P (ecall m f k)"
  unfolding guarded_def ecall_def using assms unfolding ekeeps_def by (fastforce split: prod.splits sum.splits)

lemma ekeeps_with_params: "(\<And>p. r = Inr p \<Longrightarrow> ekeeps I (k p)) \<Longrightarrow> ekeeps I (with_params r k)"
  by (auto simp: with_params_def split: sum.splits)

lemma guarded_fails [intro]: "guarded P (fails st c)"
  by (simp add: guarded_def fails_def)

lemma guarded_with_params: "(\<And>p. r = Inr p \<Longrightarrow> guarded P (k p)) \<Longrightarrow> guarded P (with_params r k)"
  by (auto simp: with_params_def split: sum.splits)

lemma ekeeps_guarded: "ekeeps statements_bound k = guarded (\<lambda>_. True) k"
  by (simp add: ekeeps_def guarded_def)

lemma keep_reindex: "keeps statements_bound (indexAccountStatement h m)"
  by (simp add: keeps_def indexAccountStatement_def dret_def send_def statements_bound_def statement_bound_def account_entity_of_def
      cong: option.case_cong)

lemma keep_GetByID: "keeps statements_bound (AccountStatementStore_GetByID i)"
  unfolding keeps_def using statement_GetByID_tables bound.tables_only by (metis prod.collapse)

lemma bound_write:
  assumes "statements_bound s" "\<And>x s'. q (s\<lparr>db_tick := db_tick s + 1\<rparr>) = (Inr x, s') \<Longrightarrow> statements_bound s'"
    "\<And>x. keeps statements_bound (f x)"
  shows "statements_bound (snd (dbind (stmt q) f s))"
proof -
  obtain r s1 where r: "stmt q s = (r, s1)" by fastforce
  show ?thesis
  proof (cases r)
    case (Inl e)
    then show ?thesis using r stmt_Inl_tables [of q s e s1] assms(1) bound.tables_only by (auto simp: dbind_def)
  next
    case (Inr x)
    then have "statements_bound s1" using assms(2) r by (simp add: stmt_Inr)
    then show ?thesis using assms(3) r Inr by (simp add: dbind_def keeps_def)
  qed
qed

lemma bound_put: "statements_bound (put_statements f s) \<longleftrightarrow> distinct (map bs_id (f (ex_statements (db_extra s)))) \<and>
    (\<forall>b\<in>set (f (ex_statements (db_extra s))). statement_bound s b)"
  by (simp add: statements_bound_def put_statements_def statement_bound_def account_entity_of_def cong: option.case_cong)

lemma statement_bound_counters [simp]: "statement_bound (s\<lparr>db_tick := n\<rparr>) = statement_bound s" "statement_bound (s\<lparr>db_seq := n\<rparr>) = statement_bound s"
  using statement_bound_tables same_tables_tick same_tables_seq by blast+

lemma Create_bound:
  assumes "statements_bound s" "account_in (acs_entity m) (acs_account m) s" "import_of (acs_entity m) (acs_receipt m) s"
  shows "statements_bound (snd (AccountStatementStore_Create m s))"
proof -
  have d: "distinct (map bs_id (ex_statements (db_extra s)))" "\<forall>b\<in>set (ex_statements (db_extra s)). statement_bound s b"
    using assms(1) by (simp_all add: statements_bound_def)
  have n: "statement_bound s b" if "bs_entity b = acs_entity m" "bs_account b = acs_account m" "bs_receipt b = nullString (acs_receipt m)" for b
    using that assms(2,3) by (auto simp: statement_bound_def account_in_def import_of_def nullString_def)
  show ?thesis
    unfolding AccountStatementStore_Create_def
    by (rule bound_write [OF assms(1) _ keep_GetByID]) (use d n in \<open>auto simp: Let_def bound_put split: if_splits\<close>)
qed

text \<open>What a patch must satisfy for the statement it changes.\<close>

definition patch_in :: "string \<Rightarrow> statement_patch \<Rightarrow> db \<Rightarrow> bool" where
  "patch_in ent p s \<longleftrightarrow> (case pt_account p of None \<Rightarrow> True | Some a \<Rightarrow> account_in ent a s) \<and>
     (case pt_receipt p of None \<Rightarrow> True | Some r \<Rightarrow> import_of ent r s)"

definition owned_by :: "string \<Rightarrow> string \<Rightarrow> db \<Rightarrow> bool" where
  "owned_by ent i s \<longleftrightarrow> (\<forall>b\<in>set (ex_statements (db_extra s)). bs_id b = i \<longrightarrow> bs_entity b = ent)"

lemma patch_bound: "statement_bound s b \<Longrightarrow> patch_in (bs_entity b) p s \<Longrightarrow> statement_bound s (patch_statement now p b)"
  by (auto simp: statement_bound_def patch_in_def patch_statement_def or_else_def or_null_def nullString_def account_in_def import_of_def
      split: option.splits)

lemma Update_bound:
  assumes "statements_bound s" "owned_by ent i s" "patch_in ent p s"
  shows "statements_bound (snd (AccountStatementStore_Update i p s))"
  unfolding AccountStatementStore_Update_def
proof (rule bound_write [OF assms(1)])
  fix x s'
  let ?s = "s\<lparr>db_tick := db_tick s + 1\<rparr>"
  let ?f = "map (\<lambda>c. if bs_id c = i then patch_statement (db_now ?s) p c else c)"
  assume "(case find (\<lambda>b. bs_id b = i) (ex_statements (db_extra ?s)) of None \<Rightarrow> (Inr None, ?s)
       | Some b \<Rightarrow> if \<not> statement_ok ?s (patch_statement (db_now ?s) p b) then (Inl ErrConstraint, ?s)
           else (Inr (Some i), put_statements (map (\<lambda>c. if bs_id c = i then patch_statement (db_now ?s) p c else c)) ?s)) = (Inr x, s')"
  then consider "s' = ?s" | "s' = put_statements ?f ?s" by (auto split: option.splits if_splits)
  then show "statements_bound s'"
  proof cases
    case 1
    then show ?thesis using assms(1) bound.tables_only same_tables_tick by blast
  next
    case 2
    have "map bs_id (?f xs) = map bs_id xs" for xs by (simp add: patch_statement_def)
    then have "distinct (map bs_id (?f (ex_statements (db_extra s))))" using assms(1) by (simp only: statements_bound_def)
    moreover have "statement_bound s b" if "b \<in> set (?f (ex_statements (db_extra s)))" for b
      using that assms patch_bound [of s] by (auto simp: statements_bound_def owned_by_def)
    ultimately show ?thesis unfolding 2 bound_put by simp
  qed
qed (auto intro: keep_GetByID split: option.split)

lemma on_tables_owned [intro]: "on_tables (owned_by ent i)"
  by (auto simp: on_tables_def owned_by_def same_tables_fields)

lemma guarded_index: "guarded P (ecall m internalError (\<lambda>x. ethen (indexAccountStatement h x) (answer st x)))"
  "guarded P (ecall m notFoundOr500 (\<lambda>x. ethen (indexAccountStatement h x) (answer st x)))"
  if "\<And>s. statements_bound s \<Longrightarrow> P s \<Longrightarrow> statements_bound (snd (m s))"
  by (rule guarded_ecall, rule that; (assumption | intro ekeeps_ethen ekeeps_answer keep_reindex))+

lemma guarded_flow:
  "(P \<Longrightarrow> guarded Q a) \<Longrightarrow> (\<not> P \<Longrightarrow> guarded Q b) \<Longrightarrow> guarded Q (if P then a else b)"
  "(r = None \<Longrightarrow> guarded Q c) \<Longrightarrow> (\<And>x. r = Some x \<Longrightarrow> guarded Q (f x)) \<Longrightarrow> guarded Q (case r of None \<Rightarrow> c | Some x \<Rightarrow> f x)"
  "(\<And>x y. guarded Q (g x y)) \<Longrightarrow> guarded Q (case p of (x, y) \<Rightarrow> g x y)"
  "guarded Q notConfigured"
  by (auto simp: notConfigured_def split: option.split prod.split)

lemma create_keeps: "ekeeps statements_bound (handleAccountStatementCreate h body)"
  unfolding handleAccountStatementCreate_def ekeeps_guarded Let_def
  by (intro guarded_flow guarded_fails guarded_with_params guard_account guard_receipt guarded_index on_tables_simps Create_bound)
    (simp_all add: new_statement_def)

lemma GetByID_owned:
  assumes "statements_bound s" "AccountStatementStore_GetByID i s = (Inr m, s')"
  shows "owned_by (acs_entity m) i s' \<and> statements_bound s'"
proof -
  obtain b a where b: "b \<in> set (ex_statements (db_extra s))" "bs_id b = i" "acs_entity m = bs_entity b"
    using assms(2) by (rule GetByID_Inr) (auto simp: accountStatementFromRow_def Let_def)
  have "owned_by (acs_entity m) i s"
    using assms(1) b unfolding owned_by_def statements_bound_def by (metis distinct_map inj_onD)
  then show ?thesis
    using statement_GetByID_tables [OF assms(2)] on_tablesD [OF on_tables_owned] bound.tables_only assms(1) by blast
qed

lemma guarded_state: "(\<And>s. statements_bound s \<Longrightarrow> P s \<Longrightarrow> guarded (\<lambda>u. same_tables s u) k) \<Longrightarrow> guarded P k"
  by (force simp: guarded_def)

lemma guarded_mono: "guarded Q k \<Longrightarrow> (\<And>s. P s \<Longrightarrow> Q s) \<Longrightarrow> guarded P k"
  by (auto simp: guarded_def)

lemma guarded_bind:
  assumes "\<And>s x s'. statements_bound s \<Longrightarrow> P s \<Longrightarrow> m s = (Inr x, s') \<Longrightarrow> Q x s' \<and> statements_bound s'"
    "keeps statements_bound m" "\<And>e. ekeeps statements_bound (f e)" "\<And>x. guarded (Q x) (k x)"
  shows "guarded P (ecall m f k)"
  unfolding guarded_def
proof (intro allI impI)
  fix s assume s: "statements_bound s \<and> P s"
  obtain r s1 where r: "m s = (r, s1)" by fastforce
  show "statements_bound (snd (ecall m f k s))"
  proof (cases r)
    case (Inl e)
    have "statements_bound s1" using assms(2) s r unfolding keeps_def by (metis snd_conv)
    then show ?thesis using assms(3) r Inl by (simp add: ecall_def ekeeps_def)
  next
    case (Inr x)
    then show ?thesis using assms(1) [of s x s1] assms(4) [of x] s r by (simp add: ecall_def guarded_def)
  qed
qed

lemma update_keeps: "ekeeps statements_bound (handleAccountStatementUpdate h i body)"
proof -
  have u: "guarded (\<lambda>s. P s \<and> owned_by ent i s \<and> patch_in ent p s)
      (ecall (AccountStatementStore_Update i (p\<lparr>pt_from := a, pt_to := b\<rparr>)) notFoundOr500
        (\<lambda>m. ethen (indexAccountStatement h m) (answer 200 m)))" for P ent p a b
    by (rule guarded_index(2)) (auto simp: patch_in_def intro!: Update_bound [where ent = ent])
  have r: "guarded Q (case pt_receipt p of None \<Rightarrow> k | Some rid \<Rightarrow> validateStatementReceipt h ent rid k)"
    if "guarded (\<lambda>s. Q s \<and> (case pt_receipt p of None \<Rightarrow> True | Some rid \<Rightarrow> import_of ent rid s)) k" "on_tables Q" for Q p ent and k :: "statement endpoint"
    using that by (cases "pt_receipt p") (auto intro: guard_receipt)
  have ac: "guarded Q (case pt_account p of None \<Rightarrow> k | Some acc \<Rightarrow> validateStatementAccount ent acc k)"
    if "guarded (\<lambda>s. Q s \<and> (case pt_account p of None \<Rightarrow> True | Some acc \<Rightarrow> account_in ent acc s)) k" "on_tables Q" for Q p ent and k :: "statement endpoint"
    using that by (cases "pt_account p") (auto intro: guard_account)
  have ot: "on_tables (\<lambda>s. case pt_account p of None \<Rightarrow> True | Some acc \<Rightarrow> account_in ent acc s)" for p ent
    by (cases "pt_account p") auto
  show ?thesis
    unfolding handleAccountStatementUpdate_def ekeeps_guarded
    apply (intro guarded_flow)
     apply (rule guarded_bind [where Q = "\<lambda>m. owned_by (acs_entity m) i"])
        apply (simp add: GetByID_owned)
       apply (rule keep_GetByID)
      apply (rule ekeeps_answer)
    apply (intro guarded_flow guarded_fails)
    unfolding Let_def
    apply (rule ac [OF r])
      apply (intro guarded_flow guarded_fails guarded_with_params)
      apply (rule guarded_mono [OF u])
      apply (simp add: patch_in_def)
     apply (intro on_tables_simps(4) on_tables_owned ot)+
    done
qed

lemma keep_Reconcile: "keeps statements_bound (AccountStatementStore_Reconcile i)"
  unfolding keeps_def
proof (intro allI impI)
  fix s assume s: "statements_bound s"
  obtain r s1 where g: "AccountStatementStore_GetByID i s = (r, s1)" by fastforce
  show "statements_bound (snd (AccountStatementStore_Reconcile i s))"
  proof (cases r)
    case (Inl e)
    then show ?thesis using g s statement_GetByID_tables [OF g] bound.tables_only by (auto simp: AccountStatementStore_Reconcile_def dbind_def)
  next
    case (Inr m)
    have "statements_bound (snd (AccountStatementStore_Update i (status_patch st) s1))" for st
      using Update_bound [of s1 "acs_entity m" i "status_patch st"] GetByID_owned [OF s g [unfolded Inr]]
      by (simp add: patch_in_def status_patch_def)
    then show ?thesis using g Inr by (simp add: AccountStatementStore_Reconcile_def dbind_def)
  qed
qed

text \<open>
  C6.  Statements stay in their entity: whatever a request holds and whichever statements of the database fail, the three
  handlers that write statements keep every statement on an account of its own entity and, where it has a source, on an
  import of its own entity.
\<close>

theorem statement_handlers_keep_entity:
  "ekeeps statements_bound (handleAccountStatementCreate h body) \<and> ekeeps statements_bound (handleAccountStatementUpdate h i patch) \<and>
   ekeeps statements_bound (handleAccountStatementReconcile h i)"
proof (intro conjI create_keeps update_keeps)
  show "ekeeps statements_bound (handleAccountStatementReconcile h i)"
    unfolding handleAccountStatementReconcile_def ekeeps_guarded
    by (intro guarded_flow guarded_index) (simp_all add: keep_Reconcile [unfolded keeps_def])
qed

section \<open>Creating a statement\<close>

text \<open>
  C7.  \<open>POST /account-statements\<close> never creates a statement when gin binds bodies as it documents: the middleware that
  finds the entity in the body reads the stream to its end, and the handler then meets the end of the stream.  Every request,
  authorized or not, whatever its body decodes to, is answered with an error and leaves the tables as they were.
\<close>

theorem statement_post_never_creates:
  assumes "gin_documented g" "post_account_statements g h decodeMap decode rq stream s = (resp, s')"
  shows "refused resp \<and> same_tables s s'"
proof -
  let ?rq = "rq\<lparr>rq_json := decodeMap stream\<rparr>"
  let ?h = "\<lambda>_::cx. encoded (\<lambda>m. BObj (accountStatementResponse m)) (handleAccountStatementCreate h None)"
  have run: "run_route (entity_route adminRoles (entityIDFromJSON ''entity_id'')) ?rq empty_cx ?h s = (resp, s')"
    using assms by (simp add: post_account_statements_def gin_documented_def)
  show ?thesis
  proof (rule entity_route_cases [OF json.entity_resolver_axioms run])
    fix c' s1 assume t: "same_tables s s1" and r: "?h c' s1 = (resp, s')"
    have "?h c' s1 = ((if \<not> sh_statements h \<or> \<not> sh_accounts h then (501, BError ''NOT_IMPLEMENTED'') else (400, BError ''BAD_REQUEST'')), s1)"
      by (simp add: encoded_def handleAccountStatementCreate_def notConfigured_def fails_def)
    then show ?thesis using t r by (auto simp: refused_def split: if_splits)
  qed simp
qed

text \<open>An administrator's well-formed request for an account of the entity: the handler alone would create the statement.\<close>

definition sample_sh :: statement_hc where
  "sample_sh = \<lparr>sh_statements = True, sh_accounts = True, sh_receipts = True, sh_search = False, sh_tenant = ''T''\<rparr>"

definition sample_statement_req :: statement_req where
  "sample_statement_req = \<lparr>sq_entity = ''E'', sq_account = ''k'', sq_receipt = ''i'', sq_from = ''2024-03-01'', sq_to = ''2024-03-31'',
     sq_starting = 100, sq_ending = 150, sq_status = [], sq_notes = []\<rparr>"

definition sample_statement_db :: db where
  "sample_statement_db = sample_org_db\<lparr>
     db_accounts := [\<lparr>ac_id = ''k'', ac_entity = ''E'', ac_name = ''Checking'', ac_type = ''asset'', ac_code = None, ac_created = 0\<rparr>],
     db_receipts := [\<lparr>rc_id = ''i'', rc_entity = ''E'', rc_storage_key = [], rc_content_type = ''text/csv'', rc_size = 1, rc_status = ''posted'',
       rc_kind = ''import'', rc_total = None, rc_uploaded = 0, rc_attached = None, rc_original = Some ''march.csv'', rc_vendor_id = None,
       rc_vendor_raw = None\<rparr>],
     db_import_rows := [\<lparr>ir_id = ''r'', ir_receipt = ''i'', ir_entity = ''E'', ir_index = 1, ir_date = \<lparr>d_year = 2024, d_month = 3, d_day = 5\<rparr>,
       ir_vendor = ''ACME'', ir_memo = None, ir_amount = 50, ir_direction = ''inflow'', ir_account = Some ''k'', ir_fingerprint = ''f'',
       ir_status = ''posted'', ir_tx = None, ir_raw = ''[]''\<rparr>]\<rparr>"

text \<open>A gin that behaves as documented.\<close>

definition sample_gin :: gin where
  "sample_gin = \<lparr>gin_body_with = (\<lambda>b. (b, [])), gin_json = (\<lambda>b. if b = [] then None else Some b)\<rparr>"

theorem statement_post_never_creates_witness:
  "refused (fst (post_account_statements sample_gin sample_sh (\<lambda>_. Some [(''entity_id'', JStr ''E'')]) (\<lambda>_. Some sample_statement_req)
     (sample_rq [] None) ''{...}'' sample_statement_db)) \<and>
   fst (fst (post_account_statements sample_gin sample_sh (\<lambda>_. Some [(''entity_id'', JStr ''E'')]) (\<lambda>_. Some sample_statement_req)
     (sample_rq [] None) ''{...}'' sample_statement_db)) = 400 \<and>
   fst (fst (handleAccountStatementCreate sample_sh (Some sample_statement_req) sample_statement_db)) = 201"
proof (intro conjI)
  have "gin_documented sample_gin" by (simp add: gin_documented_def sample_gin_def)
  from statement_post_never_creates [OF this prod.collapse [symmetric]]
  show "refused (fst (post_account_statements sample_gin sample_sh (\<lambda>_. Some [(''entity_id'', JStr ''E'')]) (\<lambda>_. Some sample_statement_req)
     (sample_rq [] None) ''{...}'' sample_statement_db))" by blast
qed code_simp+

text \<open>The statement of this request, reconciled: its one row is posted and 100 + 50 = 150.\<close>

definition sample_stored_db :: db where
  "sample_stored_db = snd (handleAccountStatementCreate sample_sh (Some sample_statement_req) sample_statement_db)"

theorem reconcile_sound_witness:
  "(\<exists>b\<in>set (ex_statements (db_extra sample_stored_db)). bs_id b = ''u'' \<and> reconciled_rows sample_stored_db b) \<and>
   map bs_status (ex_statements (db_extra sample_stored_db)) = [''draft'']"
proof
  have a: "\<not> isl (snd (fst (handleAccountStatementReconcile sample_sh ''u'' sample_stored_db)))" by code_simp
  have b: "acs_status (projr (snd (fst (handleAccountStatementReconcile sample_sh ''u'' sample_stored_db)))) = ''reconciled''" by code_simp
  show "\<exists>b\<in>set (ex_statements (db_extra sample_stored_db)). bs_id b = ''u'' \<and> reconciled_rows sample_stored_db b"
    by (rule reconcile_sound [OF answered [OF a] b])
  show "map bs_status (ex_statements (db_extra sample_stored_db)) = [''draft'']" by code_simp
qed

text \<open>
  A patch of the status alone is answered as reconciled although the row of the statement's period is not posted.
\<close>

definition sample_unposted_db :: db where
  "sample_unposted_db = sample_stored_db\<lparr>db_import_rows := map (ir_status_update (\<lambda>_. ''ready'')) (db_import_rows sample_stored_db)\<rparr>"

definition sample_patch_req :: statement_patch_req where
  "sample_patch_req = \<lparr>su_account = None, su_receipt = None, su_from = None, su_to = None, su_starting = None, su_ending = None,
     su_status = Some ''reconciled'', su_notes = None\<rparr>"

theorem patch_unchecked:
  "(case fst (handleAccountStatementUpdate sample_sh ''u'' (Some sample_patch_req) sample_unposted_db) of (st, r) \<Rightarrow>
     st = 200 \<and> acs_status (projr r) = ''reconciled'') \<and>
   list_all (\<lambda>b. bs_id b = ''u'' \<and> \<not> reconciled_rows sample_unposted_db b) (ex_statements (db_extra sample_unposted_db)) \<and>
   length (ex_statements (db_extra sample_unposted_db)) = 1"
  by code_simp

end
