(* ===== verification/Go_Ftoa.thy ===== *)
theory Go_Ftoa
  imports Go_Strconv Go_Time
begin

text \<open>
  \<open>strconv.FormatFloat\<close> with precision \<open>-1\<close>: the shortest decimal that reads back as the same \<open>float64\<close>, the closest such
  where two are as short.  \<open>decimal_of\<close> is the digit string and the position of the point; the formats \<open>f\<close>, \<open>e\<close> and \<open>g\<close>
  lay it out.  Seventeen digits always suffice, which bounds the search.  \<open>json_float\<close> is the number \<open>encoding/json\<close> writes.
\<close>

definition flog10 :: "rat \<Rightarrow> int" where
  "flog10 q =
     (if 1 \<le> q then int (length (nat_str \<lfloor>q\<rfloor>)) - 1
      else let k = int (length (nat_str \<lceil>1 / q\<rceil>)) - 1 in if 1 \<le> q * pow10 k then - k else - k - 1)"

text \<open>The digits with \<open>p\<close> places, rounded down, up, or to the nearer one when both read back.\<close>

fun shortest_from :: "nat \<Rightarrow> int \<Rightarrow> rat \<Rightarrow> int \<times> int" where
  "shortest_from fuel p q =
     (let e = flog10 q - (p - 1); x = q / pow10 e; lo = \<lfloor>x\<rfloor>;
          down = (fl64 (of_int lo * pow10 e) = q); up = (fl64 (of_int (lo + 1) * pow10 e) = q) in
      if down \<and> up then (round_half_even x, e)
      else if down then (lo, e)
      else if up then (lo + 1, e)
      else case fuel of 0 \<Rightarrow> (round_half_even x, e) | Suc f \<Rightarrow> shortest_from f (p + 1) q)"

declare shortest_from.simps [simp del]

text \<open>The value is \<open>0.d\<^sub>1d\<^sub>2\<dots>\<close> times ten to the second component; zero has no digits.\<close>

definition decimal_of :: "rat \<Rightarrow> string \<times> int" where
  "decimal_of q =
     (if q = 0 then ([], 0)
      else case shortest_from 17 1 \<bar>q\<bar> of (n, e) \<Rightarrow>
        (rev (dropWhile (\<lambda>c. c = CHR ''0'') (rev (nat_str n))), int (length (nat_str n)) + e))"

definition sign_of :: "rat \<Rightarrow> string" where
  "sign_of q = (if q < 0 then ''-'' else [])"

definition digit_at :: "string \<Rightarrow> int \<Rightarrow> char" where
  "digit_at ds j = (if 0 \<le> j \<and> j < int (length ds) then ds ! nat j else CHR ''0'')"

definition format_f :: "rat \<Rightarrow> string" where
  "format_f q =
     (case decimal_of q of (ds, dp) \<Rightarrow>
        let prec = max (int (length ds) - dp) 0 in
        sign_of q @ (if 0 < dp then map (digit_at ds) [0 .. dp - 1] else ''0'') @
        (if 0 < prec then ''.'' @ map (\<lambda>i. digit_at ds (dp + i)) [0 .. prec - 1] else []))"

definition format_e :: "rat \<Rightarrow> string" where
  "format_e q =
     (case decimal_of q of (ds, dp) \<Rightarrow>
        let ex = (if ds = [] then 0 else dp - 1) in
        sign_of q @ [digit_at ds 0] @ (if 1 < length ds then ''.'' @ tl ds else []) @ ''e'' @ (if ex < 0 then ''-'' else ''+'') @
        pad_left 2 (nat_str \<bar>ex\<bar>))"

text \<open>The format \<open>g\<close>, which is also that of \<open>fmt\<close>'s \<open>%v\<close>.\<close>

definition format_g :: "rat \<Rightarrow> string" where
  "format_g q = (case decimal_of q of (ds, dp) \<Rightarrow>
     if dp - 1 < - 4 \<or> 6 \<le> dp - 1 then format_e q else format_f q)"

definition json_float :: "rat \<Rightarrow> string" where
  "json_float q =
     (if q \<noteq> 0 \<and> (\<bar>q\<bar> < fl64 (1 / 10 ^ 6) \<or> 10 ^ 21 \<le> \<bar>q\<bar>)
      then let s = format_e q; n = length s in
        if 4 \<le> n \<and> take 3 (drop (n - 4) s) = ''e-0'' then take (n - 2) s @ drop (n - 1) s else s
      else format_f q)"

end
