(* ===== verification/Mileage.thy ===== *)
theory Mileage
  imports Statements Go_Ftoa
begin

text \<open>
  Mileage: the stores of \<open>internal/db/mileage.go\<close>, \<open>mileage_report.go\<close>, \<open>mileage_rates.go\<close> and the mileage part of
  \<open>metadata.go\<close>, with the handlers of \<open>internal/http/mileage.go\<close> and \<open>mileage_rates.go\<close>.  A distance is a
  \<open>NUMERIC(10,3)\<close>: \<open>mh_numeric\<close> is PostgreSQL's conversion of the request's float (\<open>None\<close> when it overflows), and a stored
  distance is read back as the nearest \<open>float64\<close>.  \<open>mileage_summary_exact\<close> says that the monthly summary misses no trip.
\<close>

section \<open>The stores\<close>

record trip =
  mi_id :: string
  mi_entity :: string
  mi_user :: string
  mi_receipt :: string
  mi_date :: date
  mi_miles :: rat
  mi_from :: string
  mi_to :: string
  mi_purpose :: string
  mi_created :: int
  mi_updated :: int

definition mileageFromRow :: "mileage_row \<Rightarrow> trip" where
  "mileageFromRow r = \<lparr>mi_id = mg_id r, mi_entity = mg_entity r, mi_user = strOf (mg_user r), mi_receipt = strOf (mg_receipt r),
     mi_date = mg_date r, mi_miles = fl64 (mg_miles r), mi_from = strOf (mg_from r), mi_to = strOf (mg_to r),
     mi_purpose = strOf (mg_purpose r), mi_created = mg_created r, mi_updated = mg_updated r\<rparr>"

definition mileage_table :: "db \<Rightarrow> mileage_row list" where
  "mileage_table s = ex_mileage (db_extra s)"

definition put_mileage :: "(mileage_row list \<Rightarrow> mileage_row list) \<Rightarrow> db \<Rightarrow> db" where
  "put_mileage f s = s\<lparr>db_extra := (db_extra s)\<lparr>ex_mileage := f (ex_mileage (db_extra s))\<rparr>\<rparr>"

definition MileageStore_GetByID :: "string \<Rightarrow> trip dbm" where
  "MileageStore_GetByID i = dbind (get_row mileage_table (\<lambda>r. mg_id r = i)) (\<lambda>r. dret (mileageFromRow r))"

definition MileageStore_GetEntityID :: "string \<Rightarrow> string dbm" where
  "MileageStore_GetEntityID i = dbind (get_row mileage_table (\<lambda>r. mg_id r = i)) (\<lambda>r. dret (mg_entity r))"

definition receipt_fk :: "string option \<Rightarrow> db \<Rightarrow> bool" where
  "receipt_fk r s \<longleftrightarrow> (case r of None \<Rightarrow> True | Some i \<Rightarrow> i \<in> rc_id ` set (db_receipts s))"

definition MileageStore_Create :: "(rat \<Rightarrow> rat option) \<Rightarrow> trip \<Rightarrow> trip dbm" where
  "MileageStore_Create numeric t =
     dbind (stmt (\<lambda>s.
       let i = next_uuid s; s' = s\<lparr>db_seq := db_seq s + 1\<rparr> in
       case numeric (mi_miles t) of
         None \<Rightarrow> (Inl ErrDriver, s')
       | Some miles \<Rightarrow>
           let r = \<lparr>mg_id = i, mg_entity = mi_entity t, mg_user = nullString (mi_user t), mg_receipt = nullString (mi_receipt t),
                    mg_date = mi_date t, mg_miles = miles, mg_from = nullString (mi_from t), mg_to = nullString (mi_to t),
                    mg_purpose = nullString (mi_purpose t), mg_created = db_now s, mg_updated = db_now s\<rparr> in
           if i \<in> mg_id ` set (mileage_table s) \<or> mi_entity t \<notin> ent_id ` set (db_entities s) \<or> \<not> receipt_fk (mg_receipt r) s \<or>
              (mi_user t \<noteq> [] \<and> mi_user t \<notin> us_id ` set (og_users (db_org s)))
           then (Inl ErrConstraint, s')
           else (Inr i, put_mileage (\<lambda>rs. rs @ [r]) s')))
     MileageStore_GetByID"

definition change_trip :: "int \<Rightarrow> trip \<Rightarrow> rat \<Rightarrow> mileage_row \<Rightarrow> mileage_row" where
  "change_trip now t miles r = r\<lparr>mg_date := mi_date t, mg_miles := miles, mg_from := nullString (mi_from t),
     mg_to := nullString (mi_to t), mg_purpose := nullString (mi_purpose t), mg_receipt := nullString (mi_receipt t), mg_updated := now\<rparr>"

definition MileageStore_Update :: "(rat \<Rightarrow> rat option) \<Rightarrow> string \<Rightarrow> trip \<Rightarrow> trip dbm" where
  "MileageStore_Update numeric i t =
     dbind (stmt (\<lambda>s.
       if i \<notin> mg_id ` set (mileage_table s) then (Inr None, s)
       else case numeric (mi_miles t) of
         None \<Rightarrow> (Inl ErrDriver, s)
       | Some miles \<Rightarrow>
           if \<not> receipt_fk (nullString (mi_receipt t)) s then (Inl ErrConstraint, s)
           else (Inr (Some i), put_mileage (map (\<lambda>r. if mg_id r = i then change_trip (db_now s) t miles r else r)) s)))
       (\<lambda>r. case r of None \<Rightarrow> dthrow ErrNotFound | Some j \<Rightarrow> MileageStore_GetByID j)"

text \<open>Deleting a trip cascades to its metadata and to the processing errors that name it.\<close>

definition MileageStore_Delete :: "string \<Rightarrow> unit dbm" where
  "MileageStore_Delete i =
     dbind (stmt (\<lambda>s. (Inr (length (filter (\<lambda>r. mg_id r = i) (mileage_table s))),
       (put_mileage (filter (\<lambda>r. mg_id r \<noteq> i)) s)\<lparr>
         db_extra := (db_extra s)\<lparr>ex_mileage := filter (\<lambda>r. mg_id r \<noteq> i) (mileage_table s),
                                  ex_mileage_ctx := filter (\<lambda>p. fst p \<noteq> i) (ex_mileage_ctx (db_extra s))\<rparr>,
         db_art := (db_art s)\<lparr>art_errors := filter (\<lambda>e. er_mileage e \<noteq> Some i) (art_errors (db_art s))\<rparr>\<rparr>)))
       (\<lambda>n. if n = 0 then dthrow ErrNotFound else dret ())"

definition MileageStore_List :: "string \<Rightarrow> date option \<Rightarrow> date option \<Rightarrow> int \<Rightarrow> trip list dbm" where
  "MileageStore_List ent start en limit0 =
     (let limit = (if limit0 \<le> 0 then 100 else limit0) in
      dbind (select_all (\<lambda>s. take (nat limit)
          (sort_by (\<lambda>a b. \<not> date_le (mg_date a) (mg_date b) \<or> mg_date a = mg_date b \<and> mg_created b < mg_created a)
            (filter (\<lambda>r. mg_entity r = ent \<and> in_period start en (mg_date r)) (mileage_table s)))))
        (\<lambda>rows. dret (map mileageFromRow rows)))"

definition MileageStore_Export :: "string \<Rightarrow> date option \<Rightarrow> date option \<Rightarrow> trip list dbm" where
  "MileageStore_Export ent start en = MileageStore_List ent start en 10000"

text \<open>The suggestion context of a trip, one text per row of \<open>mileage_metadata\<close>.\<close>

definition MileageMetadata_UpsertSuggestionContext :: "string \<Rightarrow> string \<Rightarrow> unit dbm" where
  "MileageMetadata_UpsertSuggestionContext i txt = stmt (\<lambda>s.
     if i \<notin> mg_id ` set (mileage_table s) then (Inl ErrConstraint, s)
     else (Inr (), s\<lparr>db_extra := (db_extra s)\<lparr>ex_mileage_ctx :=
         filter (\<lambda>p. fst p \<noteq> i) (ex_mileage_ctx (db_extra s)) @ [(i, txt)]\<rparr>\<rparr>))"

definition MileageMetadata_GetSuggestionContext :: "string \<Rightarrow> string dbm" where
  "MileageMetadata_GetSuggestionContext i =
     dbind (get_row (\<lambda>s. ex_mileage_ctx (db_extra s)) (\<lambda>p. fst p = i)) (\<lambda>p. dret (snd p))"

section \<open>Rates and the monthly summary\<close>

record rate =
  rt_year :: int
  rt_cents :: int
  rt_created_at :: int
  rt_updated_at :: int

definition mileageRateFromRow :: "rate_row \<Rightarrow> rate" where
  "mileageRateFromRow r = \<lparr>rt_year = ra_year r, rt_cents = ra_cents r, rt_created_at = ra_created r, rt_updated_at = ra_updated r\<rparr>"

definition MileageRateStore_Get :: "int \<Rightarrow> rate dbm" where
  "MileageRateStore_Get year = dbind (get_row (\<lambda>s. ex_rates (db_extra s)) (\<lambda>r. ra_year r = year)) (\<lambda>r. dret (mileageRateFromRow r))"

text \<open>Year and rate are \<open>INT\<close> columns: a value outside 32 bits is refused.\<close>

definition in_int32 :: "int \<Rightarrow> bool" where
  "in_int32 n \<longleftrightarrow> - (2 ^ 31) \<le> n \<and> n < 2 ^ 31"

definition MileageRateStore_Upsert :: "int \<Rightarrow> int \<Rightarrow> rate dbm" where
  "MileageRateStore_Upsert year c =
     dbind (stmt (\<lambda>s.
       let rates = ex_rates (db_extra s) in
       if \<not> in_int32 year \<or> \<not> in_int32 c then (Inl ErrDriver, s)
       else (Inr year, s\<lparr>db_extra := (db_extra s)\<lparr>ex_rates :=
         (if list_ex (\<lambda>r. ra_year r = year) rates
          then map (\<lambda>r. if ra_year r = year then r\<lparr>ra_cents := c, ra_updated := db_now s\<rparr> else r) rates
          else rates @ [\<lparr>ra_year = year, ra_cents = c, ra_created = db_now s, ra_updated = db_now s\<rparr>])\<rparr>\<rparr>)))
     MileageRateStore_Get"

definition MileageRateStore_List :: "rate list dbm" where
  "MileageRateStore_List =
     dbind (select_all (\<lambda>s. sort_by (\<lambda>a b. ra_year b < ra_year a) (ex_rates (db_extra s)))) (\<lambda>rows. dret (map mileageRateFromRow rows))"

record month_row =
  ms_month :: date
  ms_miles :: rat
  ms_trips :: int
  ms_year :: int
  ms_rate :: int
  ms_reimbursed :: int64
  ms_has_rate :: bool

definition month_of :: "date \<Rightarrow> date" where
  "month_of d = d\<lparr>d_day := 1\<rparr>"

definition trips_in :: "string \<Rightarrow> date \<Rightarrow> date \<Rightarrow> db \<Rightarrow> mileage_row list" where
  "trips_in ent start en s = filter (\<lambda>r. mg_entity r = ent \<and> in_period (Some start) (Some en) (mg_date r)) (mileage_table s)"

definition month_rows :: "string \<Rightarrow> date \<Rightarrow> date \<Rightarrow> db \<Rightarrow> month_row list" where
  "month_rows ent start en s =
     (let rows = trips_in ent start en s in
      map (\<lambda>m. \<lparr>ms_month = m, ms_miles = fl64 (\<Sum>r\<leftarrow>filter (\<lambda>r. month_of (mg_date r) = m) rows. mg_miles r),
                 ms_trips = int (length (filter (\<lambda>r. month_of (mg_date r) = m) rows)), ms_year = 0, ms_rate = 0, ms_reimbursed = 0,
                 ms_has_rate = False\<rparr>)
        (sort_by (\<lambda>a b. \<not> date_le b a) (dedup_from [] (map (\<lambda>r. month_of (mg_date r)) rows))))"

text \<open>\<open>int64(miles * float64(rate) + 0.5)\<close>.\<close>

definition reimbursement :: "rat \<Rightarrow> int \<Rightarrow> int64" where
  "reimbursement miles c = float_to_int64 (fl64 (fl64 (miles * fl64 (of_int c)) + 1 / 2))"

fun rate_months :: "month_row list \<Rightarrow> month_row list dbm" where
  "rate_months [] = dret []"
| "rate_months (m # ms) =
     dbind (dtry (MileageRateStore_Get (d_year (ms_month m)))) (\<lambda>r.
     dbind (rate_months ms) (\<lambda>rest.
       dret ((case r of
           Inl _ \<Rightarrow> m\<lparr>ms_year := d_year (ms_month m)\<rparr>
         | Inr x \<Rightarrow> m\<lparr>ms_year := d_year (ms_month m), ms_rate := rt_cents x, ms_reimbursed := reimbursement (ms_miles m) (rt_cents x),
                      ms_has_rate := True\<rparr>) # rest)))"

definition MileageStore_SummaryByMonth :: "string \<Rightarrow> date \<Rightarrow> date \<Rightarrow> bool \<Rightarrow> month_row list dbm" where
  "MileageStore_SummaryByMonth ent start en rates =
     dbind (select_all (month_rows ent start en)) (\<lambda>rows. if \<not> rates then dret rows else rate_months rows)"

section \<open>The handlers\<close>

record mileage_hc =
  mh_mileage :: bool
  mh_entities :: bool
  mh_meta :: bool
  mh_rates :: bool
  mh_admin :: bool
  mh_search :: bool
  mh_hc :: hc
  mh_numeric :: "rat \<Rightarrow> rat option"

record mileage_req =
  mq_entity_id :: string
  mq_date :: string
  mq_miles :: rat
  mq_from :: string
  mq_to :: string
  mq_purpose :: string
  mq_receipt :: string
  mq_context :: string
  mq_suggestion :: string

definition formSuggestionContext :: "string \<Rightarrow> string \<Rightarrow> string" where
  "formSuggestionContext v legacy = (if trim_space v \<noteq> [] then trim_space v else trim_space legacy)"

definition mileageResponse :: "trip \<Rightarrow> string \<Rightarrow> (string \<times> string) list" where
  "mileageResponse t ctx =
     [(''id'', mi_id t), (''entity_id'', mi_entity t), (''user_id'', mi_user t), (''receipt_id'', mi_receipt t),
      (''date'', format_iso (mi_date t)), (''distance_miles'', json_float (mi_miles t)), (''start_location'', mi_from t),
      (''end_location'', mi_to t), (''purpose'', mi_purpose t), (''created_at'', format_rfc3339 (mi_created t)),
      (''updated_at'', format_rfc3339 (mi_updated t))] @
     (if trim_space ctx \<noteq> [] then [(''suggestion_context'', ctx), (''context'', ctx)] else [])"

definition indexMileage :: "mileage_hc \<Rightarrow> trip \<Rightarrow> string \<Rightarrow> unit dbm" where
  "indexMileage h t ctx s =
     (if \<not> mh_search h then dret () s
      else send (UpsertDocument (SearchDocumentFromMileage (db_now s) (hc_tenant (mh_hc h))
        \<lparr>md_id = mi_id t, md_entity = mi_entity t, md_date = Some (mi_date t), md_start = mi_from t, md_end = mi_to t,
         md_purpose = mi_purpose t, md_context = ctx, md_created = mi_created t, md_updated = mi_updated t\<rparr>)) s)"

text \<open>What follows a stored trip: the context, the audit event in the entity of the request, the search index.\<close>

definition trip_stored :: "mileage_hc \<Rightarrow> mileage_req \<Rightarrow> string \<Rightarrow> int \<Rightarrow> trip \<Rightarrow> (string \<times> string) list endpoint" where
  "trip_stored h req action status t =
     (let ctx = formSuggestionContext (mq_suggestion req) (mq_context req) in
      ethen (if mh_meta h \<and> ctx \<noteq> [] then best_effort (MileageMetadata_UpsertSuggestionContext (mi_id t) ctx) else dret ())
      (ethen (auditEvent (mh_hc h) (mq_entity_id req) (hc_user (mh_hc h)) ''mileage'' (mi_id t) action
          [(''id'', mi_id t), (''date'', format_iso (mi_date t)), (''distance_miles'', json_float (mi_miles t))])
      (ethen (indexMileage h t ctx) (answer status (mileageResponse t ctx)))))"

definition trip_of :: "mileage_req \<Rightarrow> string \<Rightarrow> date \<Rightarrow> trip" where
  "trip_of req user d = \<lparr>mi_id = [], mi_entity = mq_entity_id req, mi_user = user, mi_receipt = mq_receipt req, mi_date = d,
     mi_miles = mq_miles req, mi_from = mq_from req, mi_to = mq_to req, mi_purpose = mq_purpose req, mi_created = zero_time,
     mi_updated = zero_time\<rparr>"

text \<open>The checks shared by the create and the update handler.\<close>

definition with_trip :: "mileage_hc \<Rightarrow> mileage_req option \<Rightarrow> (mileage_req \<Rightarrow> date \<Rightarrow> 'b endpoint) \<Rightarrow> 'b endpoint" where
  "with_trip h body k =
     (if \<not> mh_mileage h \<or> \<not> mh_entities h then notConfigured
      else case body of
        None \<Rightarrow> fails 400 ''BAD_REQUEST''
      | Some req \<Rightarrow>
          if mq_entity_id req = [] \<or> mq_date req = [] \<or> mq_miles req \<le> 0 then fails 400 ''MISSING_FIELDS''
          else case parse_iso (mq_date req) of None \<Rightarrow> fails 400 ''INVALID_DATE'' | Some d \<Rightarrow> k req d)"

definition handleMileageCreate :: "mileage_hc \<Rightarrow> mileage_req option \<Rightarrow> (string \<times> string) list endpoint" where
  "handleMileageCreate h body = with_trip h body (\<lambda>req d.
     ecall (MileageStore_Create (mh_numeric h) (trip_of req (hc_user (mh_hc h)) d)) internalError
       (trip_stored h req ''mileage.created'' 201))"

definition handleMileageUpdate :: "mileage_hc \<Rightarrow> string \<Rightarrow> mileage_req option \<Rightarrow> (string \<times> string) list endpoint" where
  "handleMileageUpdate h i body = with_trip h body (\<lambda>req d.
     ecall (MileageStore_Update (mh_numeric h) i (trip_of req [] d)) notFoundOr500 (trip_stored h req ''mileage.updated'' 200))"

definition handleMileageDelete :: "mileage_hc \<Rightarrow> string \<Rightarrow> unit endpoint" where
  "handleMileageDelete h i =
     (if \<not> mh_mileage h then notConfigured
      else ecall (if mh_entities h then dtry (MileageStore_GetByID i) else dret (Inl ErrNotFound)) internalError (\<lambda>known.
        let entityID = (case known of Inl _ \<Rightarrow> [] | Inr t \<Rightarrow> mi_entity t) in
        ecall (MileageStore_Delete i) notFoundOr500 (\<lambda>_.
          ethen (if entityID \<noteq> [] then auditEvent (mh_hc h) entityID (hc_user (mh_hc h)) ''mileage'' i ''mileage.deleted'' [(''id'', i)]
                 else dret ())
          (ethen (if mh_search h then send (DeleteDocument (''mileage_'' @ i)) else dret ()) (answer 204 ())))))"

definition optional_day :: "string \<Rightarrow> (int \<times> string) + date option" where
  "optional_day v = (if v = [] then Inr None else case parse_iso v of None \<Rightarrow> Inl (400, ''INVALID_DATE'') | Some d \<Rightarrow> Inr (Some d))"

text \<open>The parameters of the list and of the export.\<close>

definition with_range :: "mileage_hc \<Rightarrow> string \<Rightarrow> string \<Rightarrow> string \<Rightarrow> (date option \<Rightarrow> date option \<Rightarrow> 'b endpoint) \<Rightarrow> 'b endpoint" where
  "with_range h ent start_date end_date k =
     (if \<not> mh_mileage h \<or> \<not> mh_entities h then notConfigured
      else if ent = [] then fails 400 ''MISSING_FIELDS''
      else with_params (optional_day start_date) (\<lambda>start. with_params (optional_day end_date) (\<lambda>en. k start en)))"

fun trip_contexts :: "mileage_hc \<Rightarrow> trip list \<Rightarrow> (trip \<times> string) list dbm" where
  "trip_contexts h [] = dret []"
| "trip_contexts h (t # ts) =
     dbind (if mh_meta h then dtry (MileageMetadata_GetSuggestionContext (mi_id t)) else dret (Inl ErrNotFound)) (\<lambda>r.
     dbind (trip_contexts h ts) (\<lambda>rest. dret ((t, (case r of Inl _ \<Rightarrow> [] | Inr c \<Rightarrow> c)) # rest)))"

definition handleMileageList ::
  "mileage_hc \<Rightarrow> string \<Rightarrow> string \<Rightarrow> string \<Rightarrow> int option \<Rightarrow> (string \<times> (string \<times> string) list list) endpoint" where
  "handleMileageList h ent start_date end_date limit = with_range h ent start_date end_date (\<lambda>start en.
     ecall (MileageStore_List ent start en (queryLimit limit 100 1000)) internalError (\<lambda>logs.
     ecall (trip_contexts h logs) internalError (\<lambda>rows. answer 200 (ent, map (\<lambda>(t, c). mileageResponse t c) rows))))"

text \<open>\<open>strconv.FormatFloat(x, 'f', 3, 64)\<close>: the exact binary value, rounded to three decimals.\<close>

definition fmt_f3 :: "rat \<Rightarrow> string" where
  "fmt_f3 q =
     (let n = round_half_even (\<bar>q\<bar> * 1000)
      in (if q < 0 then ''-'' else []) @ nat_str (n div 1000) @ ''.'' @
         [digit_char (n mod 1000 div 100), digit_char (n mod 100 div 10), digit_char (n mod 10)])"

definition mileage_csv_header :: "string list" where
  "mileage_csv_header = [''date'', ''distance_miles'', ''start_location'', ''end_location'', ''purpose'', ''receipt_id'', ''user_id'']"

definition mileage_csv_row :: "trip \<Rightarrow> string list" where
  "mileage_csv_row t = [format_iso (mi_date t), fmt_f3 (mi_miles t), mi_from t, mi_to t, mi_purpose t, mi_receipt t, mi_user t]"

definition handleMileageExport :: "mileage_hc \<Rightarrow> string \<Rightarrow> string \<Rightarrow> string \<Rightarrow> string list list endpoint" where
  "handleMileageExport h ent start_date end_date = with_range h ent start_date end_date (\<lambda>start en.
     ecall (MileageStore_Export ent start en) internalError (\<lambda>logs. answer 200 (mileage_csv_header # map mileage_csv_row logs)))"

text \<open>A month of the summary; the rate and the reimbursement are null without a rate.\<close>

record month_item =
  mo_month :: string
  mo_miles :: rat
  mo_trips :: int
  mo_rate :: "(int \<times> int64) option"

definition month_item_of :: "month_row \<Rightarrow> month_item" where
  "month_item_of m = \<lparr>mo_month = format_month (ms_month m), mo_miles = ms_miles m, mo_trips = ms_trips m,
     mo_rate = (if ms_has_rate m then Some (ms_rate m, ms_reimbursed m) else None)\<rparr>"

definition handleMileageSummary :: "mileage_hc \<Rightarrow> report_query \<Rightarrow> month_item list report endpoint" where
  "handleMileageSummary h q =
     (if \<not> mh_mileage h \<or> \<not> mh_entities h then notConfigured
      else if qp_entity q = [] \<or> qp_start q = [] \<or> qp_end q = [] then fails 400 ''MISSING_FIELDS''
      else case parse_iso (qp_start q) of
        None \<Rightarrow> fails 400 ''INVALID_DATE''
      | Some start \<Rightarrow>
          (case parse_iso (qp_end q) of
             None \<Rightarrow> fails 400 ''INVALID_DATE''
           | Some en \<Rightarrow>
               ecall (MileageStore_SummaryByMonth (qp_entity q) start en (mh_rates h)) internalError (\<lambda>rows.
                 answer 200 \<lparr>rp_entity = qp_entity q, rp_start = qp_start q, rp_end = qp_end q, rp_body = map month_item_of rows\<rparr>)))"

section \<open>Rates\<close>

definition rateResponse :: "rate \<Rightarrow> (string \<times> string) list" where
  "rateResponse r = [(''year'', int_str (rt_year r)), (''rate_cents_per_mile'', int_str (rt_cents r)),
     (''created_at'', format_rfc3339 (rt_created_at r)), (''updated_at'', format_rfc3339 (rt_updated_at r))]"

definition handleMileageRatesList :: "mileage_hc \<Rightarrow> (string \<times> string) list list endpoint" where
  "handleMileageRatesList h =
     (if \<not> mh_rates h then notConfigured
      else ecall MileageRateStore_List internalError (\<lambda>rs. answer 200 (map rateResponse rs)))"

text \<open>The body's year and rate; a zero year is taken from the path.\<close>

definition handleMileageRatesUpsert :: "mileage_hc \<Rightarrow> string \<Rightarrow> (int \<times> int) option \<Rightarrow> (string \<times> string) list endpoint" where
  "handleMileageRatesUpsert h yearStr body =
     (if \<not> mh_rates h \<or> \<not> mh_admin h then notConfigured
      else case body of
        None \<Rightarrow> fails 400 ''BAD_REQUEST''
      | Some (y, c) \<Rightarrow>
          (case (if y = 0 then parse_int yearStr else Some y) of
             None \<Rightarrow> fails 400 ''INVALID_YEAR''
           | Some year \<Rightarrow>
               if year \<le> 0 \<or> c \<le> 0 then fails 400 ''MISSING_FIELDS''
               else if year < 2000 \<or> 2100 < year then fails 400 ''INVALID_YEAR''
               else ecall (MileageRateStore_Upsert year c) internalError (\<lambda>r. answer 200 (rateResponse r))))"

definition handleMileageRatesGet :: "mileage_hc \<Rightarrow> string \<Rightarrow> (string \<times> string) list endpoint" where
  "handleMileageRatesGet h yearStr =
     (if \<not> mh_rates h then notConfigured
      else case parse_int yearStr of
        None \<Rightarrow> fails 400 ''INVALID_YEAR''
      | Some year \<Rightarrow> ecall (MileageRateStore_Get year) notFoundOr500 (\<lambda>r. answer 200 (rateResponse r)))"

section \<open>The summary accounts for every trip once\<close>

lemma strict_weak_date: "strict_weak (\<lambda>a b. \<not> date_le b a)"
  unfolding strict_weak_def using date_le_total date_le_trans by blast

text \<open>Distinct months in order, each after the one before it.\<close>

lemma sorted_months: "distinct xs \<Longrightarrow> sorted_wrt (\<lambda>a b. \<not> date_le b a) (sort_by (\<lambda>a b. \<not> date_le b a) xs)"
  (is "_ \<Longrightarrow> sorted_wrt ?lt (?sort xs)")
proof -
  assume d: "distinct xs"
  have "sorted_wrt (\<lambda>a b. \<not> \<not> date_le a b) (?sort xs)"
    by (rule sorted_sort_by [OF strict_weak_date])
  moreover have "distinct (?sort xs)" using d by simp
  ultimately have "sorted_wrt (\<lambda>a b. date_le a b \<and> a \<noteq> b) (?sort xs)"
    by (simp add: sorted_wrt_iff_nth_less distinct_conv_nth)
  then show ?thesis by (rule sorted_wrt_mono_rel [rotated]) (auto dest: date_le_antisym)
qed

lemma count_partition: "distinct ms \<Longrightarrow> f ` set xs \<subseteq> set ms \<Longrightarrow> (\<Sum>m\<leftarrow>ms. length (filter (\<lambda>x. f x = m) xs)) = length xs"
proof (induction xs)
  case (Cons x xs)
  have "(\<Sum>m\<leftarrow>ms. length (filter (\<lambda>y. f y = m) (x # xs))) = (\<Sum>m\<leftarrow>ms. (if f x = m then 1 else 0) + length (filter (\<lambda>y. f y = m) xs))"
    by (rule arg_cong [where f = sum_list]) auto
  also have "\<dots> = (\<Sum>m\<leftarrow>ms. if f x = m then 1 else 0) + length xs"
    using Cons by (simp add: sum_list_addf)
  also have "(\<Sum>m\<leftarrow>ms. if f x = m then 1 else 0) = (1::nat)"
    using Cons.prems by (simp add: sum_list_distinct_conv_sum_set)
  finally show ?case by simp
qed simp

text \<open>The rates: a month without a readable rate stays without one.\<close>

definition rated :: "rate_row list \<Rightarrow> month_row \<Rightarrow> month_row \<Rightarrow> bool" where
  "rated rates m n \<longleftrightarrow> ms_month n = ms_month m \<and> ms_miles n = ms_miles m \<and> ms_trips n = ms_trips m \<and>
     (ms_has_rate n \<longrightarrow> (\<exists>r\<in>set rates. ra_year r = d_year (ms_month m) \<and> ra_cents r = ms_rate n \<and>
        ms_reimbursed n = reimbursement (ms_miles m) (ra_cents r)))"

lemma rate_months_rated:
  "rate_months ms s = (Inr ns, s') \<Longrightarrow> list_all (\<lambda>m. \<not> ms_has_rate m) ms \<Longrightarrow> list_all2 (rated (ex_rates (db_extra s))) ms ns"
proof (induction ms arbitrary: s ns)
  case (Cons m ms)
  obtain r s1 rest where r: "MileageRateStore_Get (d_year (ms_month m)) s = (r, s1)" and rest: "rate_months ms s1 = (Inr rest, s')"
    and ns: "ns = (case r of Inl _ \<Rightarrow> m\<lparr>ms_year := d_year (ms_month m)\<rparr>
         | Inr x \<Rightarrow> m\<lparr>ms_year := d_year (ms_month m), ms_rate := rt_cents x, ms_reimbursed := reimbursement (ms_miles m) (rt_cents x),
                      ms_has_rate := True\<rparr>) # rest"
    using Cons.prems by (auto simp: dbind_Inr dret_eq dtry_eq)
  have t: "same_tables s s1" using r by (auto simp: MileageRateStore_Get_def dbind_def dret_def dest: get_row_tables split: prod.splits sum.splits)
  have "list_all2 (rated (ex_rates (db_extra s))) ms rest"
    using Cons.IH [OF rest] Cons.prems t by (simp add: same_tables_fields)
  moreover have "rated (ex_rates (db_extra s)) m (hd ns)"
    using r Cons.prems unfolding ns
    by (auto simp: rated_def MileageRateStore_Get_def dbind_Inr dret_eq get_row_Inr mileageRateFromRow_def find_Some_iff
        split: sum.splits)
  ultimately show ?case by (simp add: ns)
qed (simp add: dret_eq)

text \<open>
  C36.  The mileage summary accounts for every trip once: its months are the months of the entity's trips in the period, each
  after the one before it; a month's miles are the exact sum of its trips rounded to a float, the trip counts add up to the
  number of trips, and a shown reimbursement is that of the month's miles at the stored rate of the month's own year.
\<close>

theorem mileage_summary_exact:
  assumes "handleMileageSummary h q s = ((st, Inr rep), s')"
  shows "\<exists>start en months. parse_iso (qp_start q) = Some start \<and> parse_iso (qp_end q) = Some en \<and>
    sorted_wrt (\<lambda>a b. \<not> date_le b a) months \<and>
    set months = (\<lambda>r. month_of (mg_date r)) ` set (trips_in (qp_entity q) start en s) \<and>
    (\<Sum>o'\<leftarrow>rp_body rep. mo_trips o') = int (length (trips_in (qp_entity q) start en s)) \<and>
    list_all2 (\<lambda>m o'. mo_month o' = format_month m \<and>
        mo_miles o' = fl64 (\<Sum>r\<leftarrow>filter (\<lambda>r. month_of (mg_date r) = m) (trips_in (qp_entity q) start en s). mg_miles r) \<and>
        (case mo_rate o' of None \<Rightarrow> True
         | Some (c, paid) \<Rightarrow> \<exists>r\<in>set (ex_rates (db_extra s)). ra_year r = d_year m \<and> ra_cents r = c \<and> paid = reimbursement (mo_miles o') c))
      months (rp_body rep)"
proof -
  obtain start en rows where p: "parse_iso (qp_start q) = Some start" "parse_iso (qp_end q) = Some en"
    and rows: "MileageStore_SummaryByMonth (qp_entity q) start en (mh_rates h) s = (Inr rows, s')"
    and rep: "rp_body rep = map month_item_of rows"
    using assms by (auto simp: handleMileageSummary_def ecall_ok split: if_splits option.splits)
  define ts where "ts = trips_in (qp_entity q) start en s"
  define months where "months = sort_by (\<lambda>a b. \<not> date_le b a) (dedup_from [] (map (\<lambda>r. month_of (mg_date r)) ts))"
  define plain where "plain = month_rows (qp_entity q) start en s"
  have plain: "plain = map (\<lambda>m. \<lparr>ms_month = m, ms_miles = fl64 (\<Sum>r\<leftarrow>filter (\<lambda>r. month_of (mg_date r) = m) ts. mg_miles r),
      ms_trips = int (length (filter (\<lambda>r. month_of (mg_date r) = m) ts)), ms_year = 0, ms_rate = 0, ms_reimbursed = 0,
      ms_has_rate = False\<rparr>) months"
    by (simp add: plain_def month_rows_def months_def ts_def Let_def)
  have rated: "list_all2 (rated (ex_rates (db_extra s))) plain rows"
  proof -
    have tick: "month_rows ent a b (s\<lparr>db_tick := n\<rparr>) = month_rows ent a b s" for ent a b n
      by (simp add: month_rows_def trips_in_def mileage_table_def)
    have nr: "list_all (\<lambda>m. \<not> ms_has_rate m) plain" by (auto simp: plain list_all_iff)
    show ?thesis
      using rows rate_months_rated [OF _ nr, of "s\<lparr>db_tick := db_tick s + 1\<rparr>"] nr
      by (auto simp: MileageStore_SummaryByMonth_def dbind_Inr dret_eq select_all_Inr tick plain_def [symmetric] rated_def
          list.rel_refl list_all2_same list_all_iff split: if_splits)
  qed
  have ms: "distinct months" "set months = (\<lambda>r. month_of (mg_date r)) ` set ts"
    by (auto simp: months_def distinct_dedup_from set_dedup_from)
  have same: "map ms_trips rows = map ms_trips plain"
    using rated by (auto simp: list_all2_conv_all_nth rated_def intro: nth_equalityI)
  have "(\<Sum>o'\<leftarrow>rp_body rep. mo_trips o') = (\<Sum>m\<leftarrow>months. int (length (filter (\<lambda>r. month_of (mg_date r) = m) ts)))"
    using same by (simp add: rep month_item_of_def comp_def plain)
  also have "\<dots> = int (\<Sum>m\<leftarrow>months. length (filter (\<lambda>r. month_of (mg_date r) = m) ts))"
    by (induction months) simp_all
  also have "\<dots> = int (length ts)" using count_partition [OF ms(1), of "\<lambda>r. month_of (mg_date r)" ts] ms(2) by simp
  finally have n: "(\<Sum>o'\<leftarrow>rp_body rep. mo_trips o') = int (length ts)" .
  have "list_all2 (\<lambda>m o'. mo_month o' = format_month m \<and> mo_miles o' = fl64 (\<Sum>r\<leftarrow>filter (\<lambda>r. month_of (mg_date r) = m) ts. mg_miles r) \<and>
      (case mo_rate o' of None \<Rightarrow> True
       | Some (c, paid) \<Rightarrow> \<exists>r\<in>set (ex_rates (db_extra s)). ra_year r = d_year m \<and> ra_cents r = c \<and> paid = reimbursement (mo_miles o') c))
      months (rp_body rep)"
    using rated unfolding rep plain
    by (simp add: list_all2_map1 list_all2_map2) (erule list_all2_mono, auto simp: rated_def month_item_of_def)
  moreover have "sorted_wrt (\<lambda>a b. \<not> date_le b a) months"
    unfolding months_def by (rule sorted_months) (rule distinct_dedup_from)
  ultimately show ?thesis using p ms(2) n unfolding ts_def by blast
qed

text \<open>Two trips of March and one of April, with a rate of 67 cents for the year.\<close>

definition sample_mh :: mileage_hc where
  "sample_mh = \<lparr>mh_mileage = True, mh_entities = True, mh_meta = True, mh_rates = True, mh_admin = True, mh_search = False,
     mh_hc = sample_hc, mh_numeric = Some\<rparr>"

definition sample_trip :: "string \<Rightarrow> int \<Rightarrow> int \<Rightarrow> rat \<Rightarrow> mileage_row" where
  "sample_trip i m d q = \<lparr>mg_id = i, mg_entity = ''E'', mg_user = None, mg_receipt = None, mg_date = \<lparr>d_year = 2024, d_month = m, d_day = d\<rparr>,
     mg_miles = q, mg_from = None, mg_to = None, mg_purpose = None, mg_created = 0, mg_updated = 0\<rparr>"

definition sample_mileage_db :: db where
  "sample_mileage_db = put_mileage (\<lambda>_. [sample_trip ''a'' 4 2 10, sample_trip ''b'' 3 1 (5 / 2), sample_trip ''c'' 3 31 (1 / 2)])
     (sample_org_db\<lparr>db_extra := (db_extra sample_org_db)\<lparr>ex_rates := [\<lparr>ra_year = 2024, ra_cents = 67, ra_created = 0, ra_updated = 0\<rparr>]\<rparr>\<rparr>)"

definition sample_mileage_query :: report_query where
  "sample_mileage_query = sample_query\<lparr>qp_entity := ''E'', qp_start := ''2024-01-01'', qp_end := ''2024-12-31''\<rparr>"

theorem mileage_summary_exact_witness:
  "(\<Sum>o'\<leftarrow>rp_body (projr (snd (fst (handleMileageSummary sample_mh sample_mileage_query sample_mileage_db)))). mo_trips o') = 3 \<and>
   map mo_rate (rp_body (projr (snd (fst (handleMileageSummary sample_mh sample_mileage_query sample_mileage_db))))) = [Some (67, 201), Some (67, 670)]"
proof
  have a: "\<not> isl (snd (fst (handleMileageSummary sample_mh sample_mileage_query sample_mileage_db)))" by code_simp
  have b: "parse_iso (qp_start sample_mileage_query) = Some \<lparr>d_year = 2024, d_month = 1, d_day = 1\<rparr>"
    "parse_iso (qp_end sample_mileage_query) = Some \<lparr>d_year = 2024, d_month = 12, d_day = 31\<rparr>" by code_simp+
  have c: "length (trips_in (qp_entity sample_mileage_query) \<lparr>d_year = 2024, d_month = 1, d_day = 1\<rparr>
      \<lparr>d_year = 2024, d_month = 12, d_day = 31\<rparr> sample_mileage_db) = 3" by code_simp
  show "(\<Sum>o'\<leftarrow>rp_body (projr (snd (fst (handleMileageSummary sample_mh sample_mileage_query sample_mileage_db)))). mo_trips o') = 3"
    using mileage_summary_exact [OF answered [OF a]] b c by auto
  show "map mo_rate (rp_body (projr (snd (fst (handleMileageSummary sample_mh sample_mileage_query sample_mileage_db))))) =
      [Some (67, 201), Some (67, 670)]" by code_simp
qed

end
