(* ===== verification/Entity_Settings.thy ===== *)
theory Entity_Settings
  imports Mileage
begin

text \<open>
  Settings by entity and year and by user: the stores \<open>internal/db/entity_tax_settings.go\<close> and \<open>preferences.go\<close> with the
  handlers of \<open>internal/http/entity_tax_settings.go\<close> and \<open>preferences.go\<close>.  The columns of \<open>entity_tax_settings\<close> are
  \<open>INT\<close>s with checks, which the upsert enforces; the year of a query without one is the year of the clock.

  \<open>utilities_percent_range\<close> bounds the derived percentage, which is computed in floats.
\<close>

section \<open>The home-use profile\<close>

record tax_settings =
  ts_entity :: string
  ts_year :: int
  ts_office :: "int option"
  ts_total :: "int option"
  ts_cell :: "int option"
  ts_internet :: "int option"
  ts_created :: int
  ts_updated :: int

definition entityTaxSettingsFromRow :: "tax_row \<Rightarrow> tax_settings" where
  "entityTaxSettingsFromRow r = \<lparr>ts_entity = tz_entity r, ts_year = tz_year r, ts_office = tz_office r, ts_total = tz_total r,
     ts_cell = tz_cell r, ts_internet = tz_internet r, ts_created = tz_created r, ts_updated = tz_updated r\<rparr>"

definition no_settings :: "string \<Rightarrow> int \<Rightarrow> tax_settings" where
  "no_settings ent year = \<lparr>ts_entity = ent, ts_year = year, ts_office = None, ts_total = None, ts_cell = None, ts_internet = None,
     ts_created = zero_time, ts_updated = zero_time\<rparr>"

text \<open>A year without a row reads as empty settings.\<close>

definition EntityTaxSettingsStore_Get :: "string \<Rightarrow> int \<Rightarrow> tax_settings dbm" where
  "EntityTaxSettingsStore_Get ent year =
     dbind (select_one (\<lambda>s. ex_tax (db_extra s)) (\<lambda>r. tz_entity r = ent \<and> tz_year r = year)) (\<lambda>r.
       dret (case r of None \<Rightarrow> no_settings ent year | Some row \<Rightarrow> entityTaxSettingsFromRow row))"

definition percent_ok :: "int option \<Rightarrow> bool" where
  "percent_ok v \<longleftrightarrow> (case v of None \<Rightarrow> True | Some p \<Rightarrow> 0 \<le> p \<and> p \<le> 100)"

definition sqft_ok :: "int option \<Rightarrow> bool" where
  "sqft_ok v \<longleftrightarrow> (case v of None \<Rightarrow> True | Some n \<Rightarrow> 0 \<le> n)"

definition ratio_ok :: "int option \<Rightarrow> int option \<Rightarrow> bool" where
  "ratio_ok office tot \<longleftrightarrow> (case (office, tot) of (Some a, Some b) \<Rightarrow> a \<le> b | _ \<Rightarrow> True)"

text \<open>The \<open>CHECK\<close>s of the table.\<close>

definition tax_row_ok :: "tax_row \<Rightarrow> bool" where
  "tax_row_ok r \<longleftrightarrow> 1900 \<le> tz_year r \<and> sqft_ok (tz_office r) \<and> sqft_ok (tz_total r) \<and> percent_ok (tz_cell r) \<and>
     percent_ok (tz_internet r) \<and> ratio_ok (tz_office r) (tz_total r)"

definition int32_opt :: "int option \<Rightarrow> bool" where
  "int32_opt v \<longleftrightarrow> (case v of None \<Rightarrow> True | Some n \<Rightarrow> in_int32 n)"

definition EntityTaxSettingsStore_Upsert ::
  "string \<Rightarrow> int \<Rightarrow> int option \<Rightarrow> int option \<Rightarrow> int option \<Rightarrow> int option \<Rightarrow> tax_settings dbm" where
  "EntityTaxSettingsStore_Upsert ent year office tot cell internet = stmt (\<lambda>s.
     let rows = ex_tax (db_extra s); hit = (\<lambda>r. tz_entity r = ent \<and> tz_year r = year);
         new = \<lparr>tz_entity = ent, tz_year = year, tz_office = office, tz_total = tot, tz_cell = cell, tz_internet = internet,
                tz_created = db_now s, tz_updated = db_now s\<rparr>;
         put = (\<lambda>rows. s\<lparr>db_extra := (db_extra s)\<lparr>ex_tax := rows\<rparr>\<rparr>) in
     if \<not> (in_int32 year \<and> int32_opt office \<and> int32_opt tot \<and> int32_opt cell \<and> int32_opt internet) then (Inl ErrDriver, s)
     else if ent \<notin> ent_id ` set (db_entities s) \<or> \<not> tax_row_ok new then (Inl ErrConstraint, s)
     else case find hit rows of
       None \<Rightarrow> (Inr (entityTaxSettingsFromRow new), put (rows @ [new]))
     | Some old \<Rightarrow> (let upd = new\<lparr>tz_created := tz_created old\<rparr> in
         (Inr (entityTaxSettingsFromRow upd), put (map (\<lambda>r. if hit r then upd else r) rows))))"

text \<open>\<open>math.Round((float64(office) / float64(total)) * 100)\<close>.\<close>

definition UtilitiesBusinessUsePercent :: "int option \<Rightarrow> int option \<Rightarrow> int option" where
  "UtilitiesBusinessUsePercent office tot =
     (case (office, tot) of
        (Some a, Some b) \<Rightarrow>
          if b \<le> 0 then None else if a < 0 \<or> b < 0 then None
          else let percent = math_round (fl64 (fl64 (fl64 (of_int a) / fl64 (of_int b)) * 100)) in
            if percent < 0 then None else Some percent
      | _ \<Rightarrow> None)"

section \<open>The handlers of the profile\<close>

record settings_hc =
  th_tax :: bool
  th_prefs :: bool
  th_hc :: hc

record tax_response =
  tp_year :: int
  tp_office :: "int option"
  tp_total :: "int option"
  tp_utilities :: "int option"
  tp_cell :: "int option"
  tp_internet :: "int option"
  tp_updated :: string

definition entityTaxSettingsResponseFromDB :: "tax_settings \<Rightarrow> tax_response" where
  "entityTaxSettingsResponseFromDB t = \<lparr>tp_year = ts_year t, tp_office = ts_office t, tp_total = ts_total t,
     tp_utilities = UtilitiesBusinessUsePercent (ts_office t) (ts_total t), tp_cell = ts_cell t, tp_internet = ts_internet t,
     tp_updated = (if ts_updated t = zero_time then [] else format_rfc3339 (ts_updated t))\<rparr>"

definition entityTaxYearFromQuery :: "int \<Rightarrow> string \<Rightarrow> int option" where
  "entityTaxYearFromQuery now v =
     (if v = [] then Some (d_year (instant_date now))
      else case parse_int v of None \<Rightarrow> None | Some year \<Rightarrow> if year < 1900 \<or> 9999 < year then None else Some year)"

definition handleGetEntityTaxSettings :: "settings_hc \<Rightarrow> string \<Rightarrow> string \<Rightarrow> tax_response endpoint" where
  "handleGetEntityTaxSettings h entityID year s =
     (if \<not> th_tax h then notConfigured s
      else case entityTaxYearFromQuery (db_now s) year of
        None \<Rightarrow> fails 400 ''BAD_REQUEST'' s
      | Some y \<Rightarrow> ecall (EntityTaxSettingsStore_Get entityID y) internalError
          (\<lambda>t. answer 200 (entityTaxSettingsResponseFromDB t)) s)"

record tax_req =
  xq_year :: "int option"
  xq_office :: "int option"
  xq_total :: "int option"
  xq_cell :: "int option"
  xq_internet :: "int option"

definition validateHomeUseSettings :: "int option \<Rightarrow> int option \<Rightarrow> int option \<Rightarrow> int option \<Rightarrow> string option" where
  "validateHomeUseSettings office tot cell internet =
     (if \<not> sqft_ok office then Some ''INVALID_HOME_OFFICE_SQFT''
      else if \<not> sqft_ok tot then Some ''INVALID_HOME_TOTAL_SQFT''
      else if \<not> ratio_ok office tot then Some ''INVALID_HOME_OFFICE_RATIO''
      else if \<not> percent_ok cell then Some ''INVALID_CELL_PHONE_PERCENT''
      else if \<not> percent_ok internet then Some ''INVALID_HOME_INTERNET_PERCENT''
      else None)"

definition handleUpdateEntityTaxSettings :: "settings_hc \<Rightarrow> string \<Rightarrow> tax_req option \<Rightarrow> tax_response endpoint" where
  "handleUpdateEntityTaxSettings h entityID body =
     (if \<not> th_tax h then notConfigured
      else case body of
        None \<Rightarrow> fails 400 ''BAD_REQUEST''
      | Some req \<Rightarrow>
          (case xq_year req of
             None \<Rightarrow> fails 400 ''MISSING_FIELDS''
           | Some taxYear \<Rightarrow>
               if taxYear < 1900 \<or> 9999 < taxYear then fails 400 ''INVALID_TAX_YEAR''
               else case validateHomeUseSettings (xq_office req) (xq_total req) (xq_cell req) (xq_internet req) of
                 Some code \<Rightarrow> fails 400 code
               | None \<Rightarrow>
                   ecall (EntityTaxSettingsStore_Upsert entityID taxYear (xq_office req) (xq_total req) (xq_cell req) (xq_internet req))
                     internalError (\<lambda>t. answer 200 (entityTaxSettingsResponseFromDB t))))"

section \<open>Preferences\<close>

record preferences =
  up_user :: string
  up_entity :: string
  up_theme :: string
  up_created :: int
  up_updated :: int

definition preferencesFromRow :: "prefs_row \<Rightarrow> preferences" where
  "preferencesFromRow r = \<lparr>up_user = pf_user r, up_entity = strOf (pf_entity r), up_theme = pf_theme r, up_created = pf_created r,
     up_updated = pf_updated r\<rparr>"

definition PreferencesStore_Get :: "string \<Rightarrow> preferences dbm" where
  "PreferencesStore_Get userID = dbind (get_row (\<lambda>s. ex_prefs (db_extra s)) (\<lambda>r. pf_user r = userID)) (\<lambda>r. dret (preferencesFromRow r))"

definition PreferencesStore_Upsert :: "string \<Rightarrow> string \<Rightarrow> string \<Rightarrow> preferences dbm" where
  "PreferencesStore_Upsert userID entityID theme =
     dbind (stmt (\<lambda>s.
       let rows = ex_prefs (db_extra s) in
       if userID \<notin> us_id ` set (og_users (db_org s)) \<or> (entityID \<noteq> [] \<and> entityID \<notin> ent_id ` set (db_entities s))
       then (Inl ErrConstraint, s)
       else (Inr userID, s\<lparr>db_extra := (db_extra s)\<lparr>ex_prefs :=
         (if list_ex (\<lambda>r. pf_user r = userID) rows
          then map (\<lambda>r. if pf_user r = userID then r\<lparr>pf_entity := nullString entityID, pf_theme := theme, pf_updated := db_now s\<rparr> else r) rows
          else rows @ [\<lparr>pf_user = userID, pf_entity = nullString entityID, pf_theme = theme, pf_created = db_now s,
                        pf_updated = db_now s\<rparr>])\<rparr>\<rparr>)))
     PreferencesStore_Get"

definition preferencesResponse :: "preferences \<Rightarrow> (string \<times> string) list" where
  "preferencesResponse p = [(''user_id'', up_user p), (''default_entity_id'', up_entity p), (''theme'', up_theme p),
     (''created_at'', format_rfc3339 (up_created p)), (''updated_at'', format_rfc3339 (up_updated p))]"

definition handlePreferencesGet :: "settings_hc \<Rightarrow> (string \<times> string) list endpoint" where
  "handlePreferencesGet h =
     (if \<not> th_prefs h then notConfigured
      else ecall (PreferencesStore_Get (hc_user (th_hc h)))
        (\<lambda>e. if e = ErrNotFound
             then answer 200 [(''user_id'', hc_user (th_hc h)), (''default_entity_id'', []), (''theme'', ''system'')]
             else internalError e)
        (\<lambda>p. answer 200 (preferencesResponse p)))"

text \<open>The body's default entity and theme; the audit event goes to the entity of the body.\<close>

definition handlePreferencesUpdate :: "settings_hc \<Rightarrow> (string \<times> string) option \<Rightarrow> (string \<times> string) list endpoint" where
  "handlePreferencesUpdate h body =
     (if \<not> th_prefs h then notConfigured
      else case body of
        None \<Rightarrow> fails 400 ''BAD_REQUEST''
      | Some (entityID, theme0) \<Rightarrow>
          let theme = (if theme0 = [] then ''system'' else theme0); user = hc_user (th_hc h) in
          if theme \<notin> {''light'', ''dark'', ''system''} then fails 400 ''INVALID_THEME''
          else ecall (PreferencesStore_Upsert user entityID theme) internalError (\<lambda>p.
            ethen (if entityID \<noteq> [] then auditEvent (th_hc h) entityID user ''preferences'' (up_user p) ''preferences.updated''
                     [(''default_entity_id'', up_entity p), (''theme'', up_theme p)]
                   else dret ())
              (answer 200 (preferencesResponse p))))"

section \<open>The derived percentage\<close>

text \<open>Integers below \<open>2 ^ 53\<close> are floats, and rounding does not cross them.\<close>

lemma flog2_of_int: "0 < q \<Longrightarrow> q \<le> of_int n \<Longrightarrow> n < 2 ^ 53 \<Longrightarrow> flog2 q \<le> 52"
proof -
  assume q: "0 < q" "q \<le> of_int n" and n: "n < 2 ^ 53"
  have "of_int n < (2 ^ 53 :: rat)" using n by (metis of_int_less_iff of_int_numeral of_int_power)
  then have "pow2 (flog2 q) < pow2 53" using flog2_bounds [OF q(1)] q by (simp add: pow2_def [of 53])
  then have "\<not> 53 \<le> flog2 q" using pow2_mono [of 53 "flog2 q"] by (auto simp: not_le [symmetric])
  then show ?thesis by simp
qed

lemma round_half_even_of_int [simp]: "round_half_even (of_int n) = n"
  by (simp add: round_half_even_def)

lemma integral_ulp:
  assumes "0 < q" "q \<le> of_int n" "n < 2 ^ 53"
  obtains k where "of_int n / pow2 (ulp_exp q) = of_int (n * 2 ^ k)"
proof -
  have u: "ulp_exp q \<le> 0" using flog2_of_int [OF assms] assms(1) by (simp add: ulp_exp_def)
  have "pow2 (ulp_exp q) = 1 / 2 ^ nat (- ulp_exp q)" using u by (cases "ulp_exp q = 0") (auto simp: pow2_def)
  then show ?thesis by (intro that [of "nat (- ulp_exp q)"]) simp
qed

lemma fl64_le_int:
  assumes "0 \<le> q" "q \<le> of_int n" "n < 2 ^ 53"
  shows "fl64 q \<le> of_int n"
proof (cases "q = 0")
  case True
  then show ?thesis using assms by simp
next
  case False
  then have q: "0 < q" using assms by simp
  obtain k where k: "of_int n / pow2 (ulp_exp q) = of_int (n * 2 ^ k)" using integral_ulp [OF q assms(2,3)] .
  have "q / pow2 (ulp_exp q) \<le> of_int (n * 2 ^ k)"
    unfolding k [symmetric] by (rule divide_right_mono) (use assms in \<open>simp_all add: less_imp_le\<close>)
  then have "of_int (round_half_even (q / pow2 (ulp_exp q))) \<le> (of_int (n * 2 ^ k) :: rat)"
    by (simp only: of_int_le_iff round_half_even_le)
  then have "of_int (round_half_even (q / pow2 (ulp_exp q))) * pow2 (ulp_exp q) \<le> of_int (n * 2 ^ k) * pow2 (ulp_exp q)"
    by (rule mult_right_mono) (simp add: less_imp_le)
  also have "\<dots> = of_int n" using k by (simp add: field_simps)
  finally show ?thesis using q by (simp add: fl64_def)
qed

lemma fl64_of_int: "0 \<le> n \<Longrightarrow> n < 2 ^ 53 \<Longrightarrow> fl64 (of_int n) = of_int n"
proof (cases "n = 0")
  case False
  assume n: "0 \<le> n" "n < 2 ^ 53"
  then have q: "0 < (of_int n :: rat)" using False by simp
  obtain k where k: "of_int n / pow2 (ulp_exp (of_int n)) = of_int (n * 2 ^ k)" using integral_ulp [OF q _ n(2)] by auto
  have "of_int (n * 2 ^ k) * pow2 (ulp_exp (of_int n)) = (of_int n :: rat)" unfolding k [symmetric] by simp
  then show ?thesis using q n k by (simp add: fl64_def del: of_int_mult of_int_power)
qed simp

lemma utilities_percent_range:
  assumes "UtilitiesBusinessUsePercent (Some a) (Some b) = Some p" "a \<le> b" "b < 2 ^ 53"
  shows "0 \<le> p \<and> p \<le> 100"
proof -
  let ?r = "fl64 (of_int a / of_int b)"
  have ab: "0 \<le> a" "0 < b" "a < 2 ^ 53" using assms by (auto simp: UtilitiesBusinessUsePercent_def split: if_splits)
  have p: "p = math_round (fl64 (?r * 100))" and p0: "0 \<le> p"
    using assms ab fl64_of_int [of a] fl64_of_int [of b] by (auto simp: UtilitiesBusinessUsePercent_def Let_def split: if_splits)
  have q: "0 \<le> of_int a / (of_int b :: rat)" "of_int a / (of_int b :: rat) \<le> 1"
    using ab assms(2) by (simp_all add: divide_le_eq_1)
  have r: "0 \<le> ?r" "?r \<le> 1" using fl64_nonneg [OF q(1)] fl64_le_one [OF q] by auto
  have "fl64 (?r * 100) \<le> of_int 100" by (rule fl64_le_int) (use r in simp_all)
  moreover have "0 \<le> fl64 (?r * 100)" by (rule fl64_nonneg) (use r in simp)
  ultimately have "math_round (fl64 (?r * 100)) \<le> 100" by (simp add: math_round_def)
  then show ?thesis using p p0 by simp
qed

text \<open>
  Every answer about the home-use profile, of \<open>GET\<close> and of \<open>PATCH\<close>, holds percentages between 0 and 100, as long as
  the stored rows pass the checks of the table; and the upsert keeps them so.
\<close>

definition tax_table_ok :: "db \<Rightarrow> bool" where
  "tax_table_ok s \<longleftrightarrow> (\<forall>r\<in>set (ex_tax (db_extra s)). tax_row_ok r \<and> int32_opt (tz_total r))"

lemma Upsert_Inr:
  assumes "EntityTaxSettingsStore_Upsert ent year office tot cell internet s = (Inr t, s')" "tax_table_ok s"
  shows "ts_office t = office \<and> ts_total t = tot \<and> ts_cell t = cell \<and> ts_internet t = internet \<and> ts_year t = year \<and>
    tax_row_ok \<lparr>tz_entity = ent, tz_year = year, tz_office = office, tz_total = tot, tz_cell = cell, tz_internet = internet,
      tz_created = 0, tz_updated = 0\<rparr> \<and> int32_opt tot \<and> tax_table_ok s'"
  using assms unfolding EntityTaxSettingsStore_Upsert_def stmt_Inr
  by (auto simp: Let_def entityTaxSettingsFromRow_def tax_table_ok_def tax_row_ok_def split: if_splits option.splits)

lemma Get_Inr:
  assumes "EntityTaxSettingsStore_Get ent year s = (Inr t, s')"
  shows "t = no_settings ent year \<or> (\<exists>r\<in>set (ex_tax (db_extra s)). t = entityTaxSettingsFromRow r)"
  using assms by (auto simp: EntityTaxSettingsStore_Get_def dbind_Inr dret_eq select_one_Inr find_Some_iff split: option.splits)

definition response_ok :: "tax_response \<Rightarrow> bool" where
  "response_ok r \<longleftrightarrow> percent_ok (tp_utilities r) \<and> percent_ok (tp_cell r) \<and> percent_ok (tp_internet r)"

lemma utilities_percent_ok:
  assumes "ratio_ok office tot" "int32_opt tot"
  shows "percent_ok (UtilitiesBusinessUsePercent office tot)"
proof (cases "UtilitiesBusinessUsePercent office tot")
  case (Some p)
  then obtain a b where ab: "office = Some a" "tot = Some b"
    by (auto simp: UtilitiesBusinessUsePercent_def split: option.splits)
  have "b < 2 ^ 53" using assms ab by (simp add: int32_opt_def in_int32_def)
  then show ?thesis
    using utilities_percent_range [of a b p] Some assms(1) unfolding ab by (simp add: percent_ok_def ratio_ok_def)
qed (simp add: percent_ok_def)

lemma response_percentages:
  assumes "ratio_ok (ts_office t) (ts_total t)" "int32_opt (ts_total t)" "percent_ok (ts_cell t)" "percent_ok (ts_internet t)"
  shows "response_ok (entityTaxSettingsResponseFromDB t)"
  using assms utilities_percent_ok by (simp add: response_ok_def entityTaxSettingsResponseFromDB_def)

text \<open>
  The home-use profile stays in its bounds: a PATCH keeps the checks of the table, and every answer of GET and of PATCH
  shows percentages between 0 and 100, the one derived in floats from the square feet included.
\<close>

theorem tax_profile_bounds:
  assumes "tax_table_ok s"
    "handleUpdateEntityTaxSettings h ent body s = ((st, Inr r), s') \<or> handleGetEntityTaxSettings h ent year s = ((st, Inr r), s')"
  shows "response_ok r \<and> tax_table_ok s'"
  using assms(2)
proof
  assume "handleUpdateEntityTaxSettings h ent body s = ((st, Inr r), s')"
  then obtain req :: tax_req and y t where "EntityTaxSettingsStore_Upsert ent y (xq_office req) (xq_total req) (xq_cell req) (xq_internet req) s = (Inr t, s')"
    and r: "r = entityTaxSettingsResponseFromDB t"
    by (auto simp: handleUpdateEntityTaxSettings_def ecall_ok split: if_splits option.splits)
  from Upsert_Inr [OF this(1) assms(1)] show ?thesis
    unfolding r using response_percentages [of t] by (auto simp: tax_row_ok_def)
next
  assume "handleGetEntityTaxSettings h ent year s = ((st, Inr r), s')"
  then obtain y t where g: "EntityTaxSettingsStore_Get ent y s = (Inr t, s')" and r: "r = entityTaxSettingsResponseFromDB t"
    by (auto simp: handleGetEntityTaxSettings_def ecall_ok split: if_splits option.splits)
  have "response_ok r" unfolding r
  proof (rule response_percentages)
    have "t = no_settings ent y \<or> (\<exists>row\<in>set (ex_tax (db_extra s)). t = entityTaxSettingsFromRow row \<and> tax_row_ok row \<and> int32_opt (tz_total row))"
      using Get_Inr [OF g] assms(1) by (auto simp: tax_table_ok_def)
    then show "ratio_ok (ts_office t) (ts_total t)" "int32_opt (ts_total t)" "percent_ok (ts_cell t)" "percent_ok (ts_internet t)"
      by (auto simp: tax_row_ok_def entityTaxSettingsFromRow_def no_settings_def) (simp_all add: ratio_ok_def int32_opt_def percent_ok_def)
  qed
  moreover have "same_tables s s'"
    using g by (auto simp: EntityTaxSettingsStore_Get_def dbind_Inr dret_eq select_one_Inr)
  ultimately show ?thesis using assms(1) by (simp add: tax_table_ok_def same_tables_fields)
qed

definition sample_th :: settings_hc where
  "sample_th = \<lparr>th_tax = True, th_prefs = True, th_hc = sample_hc\<rparr>"

definition sample_tax_req :: tax_req where
  "sample_tax_req = \<lparr>xq_year = Some 2024, xq_office = Some 150, xq_total = Some 1200, xq_cell = Some 80, xq_internet = None\<rparr>"

theorem tax_profile_bounds_witness:
  "response_ok (projr (snd (fst (handleUpdateEntityTaxSettings sample_th ''E'' (Some sample_tax_req) sample_org_db)))) \<and>
   tp_utilities (projr (snd (fst (handleUpdateEntityTaxSettings sample_th ''E'' (Some sample_tax_req) sample_org_db)))) = Some 13"
proof
  have a: "\<not> isl (snd (fst (handleUpdateEntityTaxSettings sample_th ''E'' (Some sample_tax_req) sample_org_db)))" by code_simp
  have b: "tax_table_ok sample_org_db" by code_simp
  show "response_ok (projr (snd (fst (handleUpdateEntityTaxSettings sample_th ''E'' (Some sample_tax_req) sample_org_db))))"
    using tax_profile_bounds [OF b disjI1 [OF answered [OF a]]] by blast
qed code_simp

end
