(* ===== verification/Fiscal_Year.thy ===== *)
theory Fiscal_Year
  imports Entity_Settings
begin

text \<open>
  The period of a tax report: \<open>fiscalYearRange\<close> and \<open>validFiscalYearStart\<close> of \<open>internal/http/tax_pack.go\<close>.  The loop that
  looks for the last valid day of a month is a partial function, so that its end is a theorem:
  \<open>fiscal_start_returns\<close>.  \<open>fiscal_years_partition\<close> says for which starts the fiscal years cover every day once.
\<close>

section \<open>The start and the range\<close>

partial_function (option) validFiscalYearStart :: "int \<Rightarrow> int \<Rightarrow> int \<Rightarrow> date option" where
  [code]: "validFiscalYearStart year month day =
     (if 28 < day
      then let start = norm_date year month day in
        if d_month start = month \<and> d_day start = day then Some start else validFiscalYearStart year month (day - 1)
      else Some (norm_date year month day))"

text \<open>The month and the day of an entity, where they are in range, and 1 otherwise.\<close>

definition fiscal_setting :: "entity \<Rightarrow> int \<times> int" where
  "fiscal_setting e = (if 1 \<le> y_month e \<and> y_month e \<le> 12 then y_month e else 1,
     if 1 \<le> y_day e \<and> y_day e \<le> 31 then y_day e else 1)"

definition fiscal_range :: "int \<Rightarrow> int \<Rightarrow> int \<Rightarrow> (date \<times> date) option" where
  "fiscal_range year month day = map_option (\<lambda>start. (start, AddDate start 1 (- 1))) (validFiscalYearStart year month day)"

text \<open>\<open>None\<close>: the search for the start does not end.\<close>

definition fiscalYearRange :: "string \<Rightarrow> int \<Rightarrow> (date \<times> date) option dbm" where
  "fiscalYearRange entityID year =
     dbind (dtry (EntityStore_GetByID entityID)) (\<lambda>r.
       case (case r of Inl _ \<Rightarrow> (1, 1) | Inr e \<Rightarrow> fiscal_setting e) of (month, day) \<Rightarrow> dret (fiscal_range year month day))"

section \<open>The search ends\<close>

lemma norm_overflow: "1 \<le> m \<Longrightarrow> m \<le> 12 \<Longrightarrow> days_in m y < d \<Longrightarrow> d \<le> 31 \<Longrightarrow> d_month (norm_date y m d) \<noteq> m"
  using days_in_range [of m y] days_in_range [of "m + 1" y]
  by (subst norm_date.simps) (auto simp: norm_date_valid days_in_def)

lemma start_search:
  assumes "1 \<le> m" "m \<le> 12" "1 \<le> d" "d \<le> 31"
  shows "validFiscalYearStart y m d = Some \<lparr>d_year = y, d_month = m, d_day = min d (days_in m y)\<rparr>"
proof -
  have "validFiscalYearStart y m (28 + int n) = Some \<lparr>d_year = y, d_month = m, d_day = min (28 + int n) (days_in m y)\<rparr>"
    if "n \<le> 3" for n
    using that
  proof (induction n)
    case 0
    then show ?case using days_in_range [of m y] by (simp add: validFiscalYearStart.simps norm_date_valid min_def)
  next
    case (Suc n)
    then have ih: "validFiscalYearStart y m (28 + int n) = Some \<lparr>d_year = y, d_month = m, d_day = min (28 + int n) (days_in m y)\<rparr>"
      by simp
    show ?case
    proof (cases "28 + int (Suc n) \<le> days_in m y")
      case True
      then show ?thesis by (subst validFiscalYearStart.simps) (simp add: norm_date_valid Let_def min_def)
    next
      case False
      then have "d_month (norm_date y m (28 + int (Suc n))) \<noteq> m" by (intro norm_overflow) (use assms Suc.prems in auto)
      then show ?thesis using ih False
        by (subst validFiscalYearStart.simps) (simp add: Let_def min_def algebra_simps)
    qed
  qed
  from this [of "nat (d - 28)"] show ?thesis
  proof (cases "28 < d")
    case False
    then show ?thesis using assms days_in_range [of m y] by (subst validFiscalYearStart.simps) (simp add: norm_date_valid min_def)
  qed (use assms in simp)
qed

text \<open>
  C37. The search for the start of a fiscal year ends, for every year, month and day of the settings: with the day itself where the
  month has it, and with the last day of the month otherwise.
\<close>

theorem fiscal_start_returns:
  assumes "1 \<le> m" "m \<le> 12" "1 \<le> d" "d \<le> 31"
  shows "\<exists>start. validFiscalYearStart y m d = Some start \<and> valid_date start \<and> d_year start = y \<and> d_month start = m \<and>
    d_day start = min d (days_in m y)"
  using start_search [OF assms] assms days_in_range [of m y] by (simp add: valid_date_def min_def)

theorem fiscal_start_returns_witness:
  "(\<exists>start. validFiscalYearStart 2023 2 31 = Some start \<and> d_day start = 28) \<and> (\<exists>start. validFiscalYearStart 2024 2 31 = Some start \<and> d_day start = 29)"
  using fiscal_start_returns [of 2 31 2023] fiscal_start_returns [of 2 31 2024]
  by (fastforce simp: days_in_def is_leap_def)

section \<open>Fiscal years\<close>

definition in_fiscal_year :: "int \<Rightarrow> int \<Rightarrow> date \<Rightarrow> int \<Rightarrow> bool" where
  "in_fiscal_year month day d year \<longleftrightarrow> (case fiscal_range year month day of None \<Rightarrow> False | Some (start, en) \<Rightarrow> date_le start d \<and> date_le d en)"

lemma range_next:
  assumes "1 \<le> m" "m \<le> 12" "1 \<le> d" "d \<le> 31" "m = 2 \<longrightarrow> d \<le> 28" "valid_date x"
  shows "in_fiscal_year m d x y \<longleftrightarrow> date_le \<lparr>d_year = y, d_month = m, d_day = min d (days_in m y)\<rparr> x \<and>
    \<not> date_le \<lparr>d_year = y + 1, d_month = m, d_day = min d (days_in m y)\<rparr> x"
proof -
  let ?d = "min d (days_in m y)"
  let ?n = "\<lparr>d_year = y + 1, d_month = m, d_day = ?d\<rparr>"
  have same: "days_in m y = days_in m (y + 1) \<or> d \<le> 28" using assms by (auto simp: days_in_def)
  have n: "valid_date ?n" using assms same days_in_range [of m y] days_in_range [of m "y + 1"] by (auto simp: valid_date_def min_def)
  have e: "AddDate \<lparr>d_year = y, d_month = m, d_day = ?d\<rparr> 1 (- 1) = AddDate ?n 0 (- 1)" by (simp add: AddDate_def)
  have v: "valid_date (AddDate ?n 0 (- 1))" unfolding AddDate_def using assms by (intro valid_norm_date) auto
  have "date_le x (AddDate ?n 0 (- 1)) \<longleftrightarrow> \<not> date_le ?n x"
    using next_day_gap [OF assms(6) v] next_day_AddDate [OF n] by simp
  then show ?thesis using start_search [OF assms(1-4), of y] by (simp add: in_fiscal_year_def fiscal_range_def e)
qed

text \<open>
  C38. The fiscal years of a start partition the calendar: every day lies in exactly one of them, unless the start is the 29th of
  February (or later in that month), which is moved by a day in ordinary years.  For that start the last day of February is
  missed in leap years and counted twice a year later.
\<close>

theorem fiscal_years_partition:
  assumes "1 \<le> m" "m \<le> 12" "1 \<le> d" "d \<le> 31" "m = 2 \<longrightarrow> d \<le> 28" "valid_date x"
  shows "\<exists>!year. in_fiscal_year m d x year"
proof -
  obtain D where D: "\<And>y. min d (days_in m y) = D"
  proof (rule that)
    show "min d (days_in m y) = (if m = 2 then d else min d (days_in m 1))" for y
      using assms days_in_range [of m y] by (auto simp: days_in_def)
  qed
  define start where "start y = \<lparr>d_year = y, d_month = m, d_day = D\<rparr>" for y
  have in_iff: "in_fiscal_year m d x y \<longleftrightarrow> date_le (start y) x \<and> \<not> date_le (start (y + 1)) x" for y
    using range_next [OF assms, of y] by (simp add: D start_def)
  have le: "date_le (start y) x \<longleftrightarrow> y < d_year x \<or> y = d_year x \<and> date_le (start (d_year x)) x" for y
    by (cases "y = d_year x") (simp_all add: date_le_def start_def)
  show ?thesis
  proof (cases "date_le (start (d_year x)) x")
    case True
    then show ?thesis by (intro ex1I [of _ "d_year x"]) (auto simp: in_iff le [of "_ + 1"] dest: le [THEN iffD1])
  next
    case False
    then show ?thesis by (intro ex1I [of _ "d_year x - 1"]) (auto simp: in_iff le [of "_ + 1"] le [of "d_year x - 1"] dest: le [THEN iffD1])
  qed
qed

theorem fiscal_years_partition_witness:
  "(\<exists>!year. in_fiscal_year 7 1 \<lparr>d_year = 2024, d_month = 2, d_day = 29\<rparr> year) \<and>
   \<not> in_fiscal_year 2 29 \<lparr>d_year = 2024, d_month = 2, d_day = 28\<rparr> 2023 \<and> \<not> in_fiscal_year 2 29 \<lparr>d_year = 2024, d_month = 2, d_day = 28\<rparr> 2024 \<and>
   in_fiscal_year 2 29 \<lparr>d_year = 2025, d_month = 2, d_day = 28\<rparr> 2024 \<and> in_fiscal_year 2 29 \<lparr>d_year = 2025, d_month = 2, d_day = 28\<rparr> 2025"
proof (intro conjI)
  show "\<exists>!year. in_fiscal_year 7 1 \<lparr>d_year = 2024, d_month = 2, d_day = 29\<rparr> year"
    by (rule fiscal_years_partition) (simp_all add: valid_date_def days_in_def is_leap_def)
qed (simp_all add: in_fiscal_year_def fiscal_range_def start_search days_in_def is_leap_def AddDate_def norm_date_valid date_le_def)

end
