(* ===== verification/Tax_Readiness.thy ===== *)
theory Tax_Readiness
  imports Fiscal_Year Suggest_Entries
begin

text \<open>
  Tax readiness, the first half of \<open>internal/http/tax_pack.go\<close>: what is still open in a tax period (\<open>taxImportDiagnostics\<close>,
  the home-use profile, the account roles, the statements), the grouped action items and blocking summaries, and
  \<open>GET /reports/tax-readiness\<close>.  \<open>kh_decode\<close> is \<open>json.Unmarshal\<close> into a map, \<open>kh_order\<close> the order in which Go iterates a
  map: any permutation of its keys.  Times are in UTC.
\<close>

section \<open>Context, parameters and exceptions\<close>

record tax_hc =
  kh_reports :: bool
  kh_entities :: bool
  kh_receipts :: bool
  kh_import_rows :: bool
  kh_suggestions :: bool
  kh_statements :: bool
  kh_accounts :: bool
  kh_settings :: bool
  kh_mileage :: bool
  kh_rates :: bool
  kh_decode :: "string \<Rightarrow> payload option"
  kh_order :: "string list \<Rightarrow> string list"

record tax_query =
  kq_entity :: string
  kq_year :: string
  kq_start :: string
  kq_end :: string

record tax_exception =
  xe_source :: string
  xe_name :: string
  xe_kind :: string
  xe_status :: string
  xe_issue :: string
  xe_row :: string
  xe_vendor :: string
  xe_amount :: string

text \<open>Status 0 stands for no answer: the search for the fiscal year does not end.\<close>

definition no_answer :: "'b endpoint" where
  "no_answer = fails 0 ''NO_ANSWER''"

record tax_scope =
  sc_entity :: string
  sc_start :: date
  sc_end :: date
  sc_label :: string

definition parseTaxPackParams :: "tax_hc \<Rightarrow> tax_query \<Rightarrow> (tax_scope \<Rightarrow> 'b endpoint) \<Rightarrow> 'b endpoint" where
  "parseTaxPackParams h q k =
     (if \<not> kh_reports h \<or> \<not> kh_entities h then notConfigured
      else if kq_entity q = [] then fails 400 ''MISSING_FIELDS''
      else let yearStr = trim_space (kq_year q) in
        if yearStr \<noteq> [] then
          (case parse_int yearStr of
             None \<Rightarrow> fails 400 ''INVALID_YEAR''
           | Some year \<Rightarrow>
               if year < 1900 \<or> 3000 < year then fails 400 ''INVALID_YEAR''
               else ecall (fiscalYearRange (kq_entity q) year) internalError (\<lambda>r. case r of
                   None \<Rightarrow> no_answer
                 | Some (start, en) \<Rightarrow> k \<lparr>sc_entity = kq_entity q, sc_start = start, sc_end = en, sc_label = yearStr\<rparr>))
        else if kq_start q = [] \<or> kq_end q = [] then fails 400 ''MISSING_FIELDS''
        else case parse_iso (kq_start q) of
          None \<Rightarrow> fails 400 ''INVALID_DATE''
        | Some start \<Rightarrow>
            (case parse_iso (kq_end q) of
               None \<Rightarrow> fails 400 ''INVALID_DATE''
             | Some en \<Rightarrow> k \<lparr>sc_entity = kq_entity q, sc_start = start, sc_end = en, sc_label = kq_start q @ ''-to-'' @ kq_end q\<rparr>))"

definition timeInTaxScope :: "bool \<Rightarrow> date \<Rightarrow> tax_scope \<Rightarrow> bool" where
  "timeInTaxScope isZero d sc \<longleftrightarrow> isZero \<or> date_le (sc_start sc) d \<and> date_le d (sc_end sc)"

definition date_in_scope :: "date \<Rightarrow> tax_scope \<Rightarrow> bool" where
  "date_in_scope d = timeInTaxScope (d = \<lparr>d_year = 1, d_month = 1, d_day = 1\<rparr>) d"

definition instant_in_scope :: "int \<Rightarrow> tax_scope \<Rightarrow> bool" where
  "instant_in_scope t = timeInTaxScope (t = zero_time) (instant_date t)"

section \<open>Reading a suggestion\<close>

text \<open>\<open>fmt.Sprint\<close> of a decoded JSON value; the keys of a map are sorted.\<close>

fun sprint :: "json \<Rightarrow> string" where
  "sprint (VString s) = s"
| "sprint (VNumber s) = s"
| "sprint (VFloat f) = (case f of Fin q \<Rightarrow> format_g q | NonFin \<Rightarrow> ''+Inf'')"
| "sprint (VBool b) = (if b then ''true'' else ''false'')"
| "sprint VNull = ''<nil>''"
| "sprint (VArray vs) = ''['' @ join (map sprint vs) '' '' @ '']''"
| "sprint (VObject kvs) = ''map['' @ join (map (\<lambda>(k, v). k @ '':'' @ v)
     (sort_by (\<lambda>a b. str_less (fst a) (fst b)) (map (\<lambda>(k, v). (k, sprint v)) kvs))) '' '' @ '']''"

definition stringValue :: "payload \<Rightarrow> string \<Rightarrow> string" where
  "stringValue values key =
     (case map_of values key of
        None \<Rightarrow> []
      | Some VNull \<Rightarrow> []
      | Some (VString s) \<Rightarrow> s
      | Some (VFloat (Fin q)) \<Rightarrow>
          (let n = float_to_int64 q in if q = fl64 (of_int (i64 n)) then cents n else format_f q)
      | Some (VArray vs) \<Rightarrow> join (map sprint vs) '' ''
      | Some v \<Rightarrow> sprint v)"

definition objectSlice :: "json option \<Rightarrow> payload list" where
  "objectSlice raw = (case raw of
      Some (VArray items) \<Rightarrow> concat (map (\<lambda>i. case i of VObject row \<Rightarrow> [row] | _ \<Rightarrow> []) items)
    | _ \<Rightarrow> [])"

definition parseImportSuggestionPayload :: "tax_hc \<Rightarrow> string \<Rightarrow> payload \<times> payload list \<times> payload list" where
  "parseImportSuggestionPayload h raw =
     (case (if raw = [] then None else kh_decode h raw) of
        None \<Rightarrow> ([], [], [])
      | Some payload \<Rightarrow>
          (case map_of payload ''import_summary'' of Some (VObject m) \<Rightarrow> m | _ \<Rightarrow> [],
           objectSlice (map_of payload ''import_rows''), objectSlice (map_of payload ''import_errors'')))"

definition mapDateInTaxScope :: "payload \<Rightarrow> tax_scope \<Rightarrow> bool" where
  "mapDateInTaxScope values sc =
     (let raw = trim_space (stringValue values ''date'') in
      if raw = [] then True
      else case parse_iso raw of None \<Rightarrow> True | Some d \<Rightarrow> date_in_scope d sc)"

section \<open>The imports and receipts of a period\<close>

definition import_summary_header :: "string list" where
  "import_summary_header = [''import_id'', ''file'', ''status'', ''row_count'', ''parsed_rows'', ''error_rows'', ''outflow_cents'',
     ''inflow_cents'', ''posted_outflow_cents'', ''posted_inflow_cents'', ''mapped_rows'', ''posted_rows'', ''unposted_rows'', ''duplicate_rows'']"

definition importRowsInScope :: "import_model list \<Rightarrow> tax_scope \<Rightarrow> import_model list" where
  "importRowsInScope rows sc = filter (\<lambda>r. date_in_scope (im_date r) sc) rows"

text \<open>The rows whose fingerprint occurs for the second time.\<close>

fun second_rows :: "string list \<Rightarrow> import_model list \<Rightarrow> import_model list" where
  "second_rows seen [] = []"
| "second_rows seen (r # rs) =
     (if length (filter (\<lambda>f. f = im_fingerprint r) seen) = 1 then [r] else []) @ second_rows (im_fingerprint r # seen) rs"

definition importRowsSummary :: "string \<Rightarrow> string \<Rightarrow> string \<Rightarrow> import_model list \<Rightarrow> string list" where
  "importRowsSummary receiptID fileName status rows =
     (let inflow = (\<lambda>r. im_direction r = ''inflow''); posted = (\<lambda>r. im_status r = ''posted'');
          amount = (\<lambda>P. cents (sum64 im_amount (filter P rows))); number = (\<lambda>P. nat_str (int (length (filter P rows)))) in
      [receiptID, fileName, status, nat_str (int (length rows)), nat_str (int (length rows)), ''0'',
       amount (\<lambda>r. \<not> inflow r), amount inflow, amount (\<lambda>r. \<not> inflow r \<and> posted r), amount (\<lambda>r. inflow r \<and> posted r),
       number (\<lambda>r. im_account r \<noteq> []), number posted, number (\<lambda>r. \<not> posted r),
       join (map (\<lambda>r. int_str (im_index r)) (second_rows [] rows)) '' ''])"

record diag =
  dg_exceptions :: "tax_exception list"
  dg_summary :: "string list list"
  dg_refs :: "(string \<times> tax_exception) list"

definition row_exception :: "receipt \<Rightarrow> import_model \<Rightarrow> string \<Rightarrow> tax_exception" where
  "row_exception rc row issue = \<lparr>xe_source = r_id rc, xe_name = r_original rc, xe_kind = ''import_row'', xe_status = im_status row,
     xe_issue = issue, xe_row = int_str (im_index row), xe_vendor = im_vendor row, xe_amount = cents (im_amount row)\<rparr>"

definition receipt_exception :: "receipt \<Rightarrow> string \<Rightarrow> tax_exception" where
  "receipt_exception rc issue = \<lparr>xe_source = r_id rc, xe_name = r_original rc, xe_kind = r_kind rc, xe_status = r_status rc,
     xe_issue = issue, xe_row = [], xe_vendor = [], xe_amount = []\<rparr>"

text \<open>One import row: its fingerprint is remembered (\<open>dg_refs\<close> is the map of lists, in the order of the appends).\<close>

definition diag_row :: "receipt \<Rightarrow> diag \<Rightarrow> import_model \<Rightarrow> diag" where
  "diag_row rc d row =
     (let d = (if im_fingerprint row \<noteq> []
               then d\<lparr>dg_refs := dg_refs d @ [(im_fingerprint row, row_exception rc row ''duplicate import row fingerprint'')]\<rparr> else d) in
      if im_account row = [] then d\<lparr>dg_exceptions := dg_exceptions d @ [row_exception rc row ''unmapped import row'']\<rparr>
      else if im_status row \<noteq> ''posted'' then d\<lparr>dg_exceptions := dg_exceptions d @ [row_exception rc row ''import row not posted'']\<rparr>
      else d)"

definition noted :: "receipt \<Rightarrow> string \<Rightarrow> diag \<Rightarrow> diag" where
  "noted rc issue d = d\<lparr>dg_exceptions := dg_exceptions d @ [receipt_exception rc issue]\<rparr>"

text \<open>The rows and errors of a suggestion.\<close>

definition parsed_row :: "receipt \<Rightarrow> tax_scope \<Rightarrow> payload \<Rightarrow> tax_exception list" where
  "parsed_row rc sc row =
     (if mapDateInTaxScope row sc \<and> stringValue row ''account_id'' = []
      then [(receipt_exception rc ''unmapped import row'')\<lparr>xe_kind := ''import_row'', xe_row := stringValue row ''row_index'',
              xe_vendor := stringValue row ''vendor'', xe_amount := stringValue row ''amount_cents''\<rparr>] else [])"

definition parsed_error :: "receipt \<Rightarrow> tax_scope \<Rightarrow> payload \<Rightarrow> tax_exception list" where
  "parsed_error rc sc row =
     (if mapDateInTaxScope row sc
      then [(receipt_exception rc (''parse error: '' @ stringValue row ''error''))\<lparr>xe_kind := ''import_row'', xe_row := stringValue row ''row_index''\<rparr>]
      else [])"

definition diag_suggestion :: "tax_hc \<Rightarrow> tax_scope \<Rightarrow> receipt \<Rightarrow> suggestion \<Rightarrow> diag \<Rightarrow> diag" where
  "diag_suggestion h sc rc sg d =
     (case parseImportSuggestionPayload h (s_parsed sg) of (summary, rows, errors) \<Rightarrow>
        d\<lparr>dg_summary := dg_summary d @ [[r_id rc, r_original rc, r_status rc, stringValue summary ''row_count'',
             stringValue summary ''parsed_rows'', stringValue summary ''error_rows'', stringValue summary ''outflow_cents'',
             stringValue summary ''inflow_cents'', [], [], [], [], [], stringValue summary ''duplicate_rows'']],
          dg_exceptions := dg_exceptions d @ concat (map (parsed_row rc sc) rows) @ concat (map (parsed_error rc sc) errors)\<rparr>)"

text \<open>A receipt, or an import without stored rows.\<close>

definition diag_other :: "tax_hc \<Rightarrow> tax_scope \<Rightarrow> receipt \<Rightarrow> diag \<Rightarrow> diag dbm" where
  "diag_other h sc rc d =
     (if \<not> instant_in_scope (r_uploaded rc) sc then dret d
      else let d = (if r_status rc \<noteq> ''posted'' then noted rc ''not posted'' d else d) in
        if r_kind rc \<noteq> ''import'' \<or> \<not> kh_suggestions h then dret d
        else dbind (dtry (ReceiptSuggestionStore_LatestByReceiptID (r_id rc))) (\<lambda>r. case r of
            Inl _ \<Rightarrow> dret (noted rc ''missing import suggestion/row mapping''
              (d\<lparr>dg_summary := dg_summary d @ [[r_id rc, r_original rc, r_status rc] @ replicate 11 []]\<rparr>))
          | Inr sg \<Rightarrow> dret (diag_suggestion h sc rc sg d)))"

definition diag_receipt :: "tax_hc \<Rightarrow> tax_scope \<Rightarrow> receipt \<Rightarrow> diag \<Rightarrow> diag dbm" where
  "diag_receipt h sc rc d =
     dbind (if r_kind rc = ''import'' \<and> kh_import_rows h then dtry (ImportRowStore_ListByReceiptID (r_id rc)) else dret (Inr []))
       (\<lambda>r. case r of
            Inr (row0 # rest) \<Rightarrow>
              (let rows = importRowsInScope (row0 # rest) sc in
               dret (if rows = [] then d
                     else foldl (diag_row rc) (d\<lparr>dg_summary := dg_summary d @ [importRowsSummary (r_id rc) (r_original rc) (r_status rc) rows]\<rparr>) rows))
          | _ \<Rightarrow> diag_other h sc rc d)"

fun diag_receipts :: "tax_hc \<Rightarrow> tax_scope \<Rightarrow> receipt list \<Rightarrow> diag \<Rightarrow> diag dbm" where
  "diag_receipts h sc [] d = dret d"
| "diag_receipts h sc (rc # rcs) d = dbind (diag_receipt h sc rc d) (diag_receipts h sc rcs)"

text \<open>The lists of the map \<open>duplicateRefs\<close> that have more than one element, in the order of its iteration.\<close>

definition refs_of :: "string \<Rightarrow> diag \<Rightarrow> tax_exception list" where
  "refs_of key d = map snd (filter (\<lambda>p. fst p = key) (dg_refs d))"

definition duplicates :: "tax_hc \<Rightarrow> diag \<Rightarrow> tax_exception list" where
  "duplicates h d = concat (map (\<lambda>key. if 1 < length (refs_of key d) then refs_of key d else [])
     (kh_order h (dedup_from [] (map fst (dg_refs d)))))"

definition taxImportDiagnostics :: "tax_hc \<Rightarrow> tax_scope \<Rightarrow> (tax_exception list \<times> string list list) dbm" where
  "taxImportDiagnostics h sc =
     (let d0 = \<lparr>dg_exceptions = [], dg_summary = [import_summary_header], dg_refs = []\<rparr> in
      if \<not> kh_receipts h then dret (dg_exceptions d0, dg_summary d0)
      else dbind (ReceiptStore_List (sc_entity sc) [] 10000) (\<lambda>rcs.
           dbind (diag_receipts h sc rcs d0) (\<lambda>d. dret (dg_exceptions d @ duplicates h d, dg_summary d))))"

section \<open>Profile, account roles and statements\<close>

record use_profile =
  fp_year :: int
  fp_status :: string
  fp_office :: "int option"
  fp_total :: "int option"
  fp_utilities :: "int option"
  fp_cell :: "int option"
  fp_internet :: "int option"
  fp_href :: string

definition loadTaxUseProfile :: "tax_hc \<Rightarrow> string \<Rightarrow> int \<Rightarrow> use_profile dbm" where
  "loadTaxUseProfile h ent year =
     (let missing = \<lparr>fp_year = year, fp_status = ''missing'', fp_office = None, fp_total = None, fp_utilities = None, fp_cell = None,
                     fp_internet = None, fp_href = ''/settings/entity''\<rparr> in
      if \<not> kh_settings h then dret missing
      else dbind (dtry (EntityTaxSettingsStore_Get ent year)) (\<lambda>r. case r of
          Inl _ \<Rightarrow> dret missing
        | Inr t \<Rightarrow> dret (missing\<lparr>fp_office := ts_office t, fp_total := ts_total t, fp_cell := ts_cell t, fp_internet := ts_internet t,
            fp_utilities := UtilitiesBusinessUsePercent (ts_office t) (ts_total t),
            fp_status := (if ts_created t = zero_time then ''missing''
              else if ts_office t \<noteq> None \<and> ts_total t \<noteq> None \<and> ts_cell t \<noteq> None \<and> ts_internet t \<noteq> None then ''complete''
              else ''partial'')\<rparr>)))"

definition entity_exception :: "string \<Rightarrow> string \<Rightarrow> string \<Rightarrow> tax_exception" where
  "entity_exception ent status issue = \<lparr>xe_source = ent, xe_name = ''Entity settings'', xe_kind = ''entity'', xe_status = status,
     xe_issue = issue, xe_row = [], xe_vendor = [], xe_amount = []\<rparr>"

definition taxUseProfileExceptions :: "tax_hc \<Rightarrow> string \<Rightarrow> int \<Rightarrow> tax_exception list dbm" where
  "taxUseProfileExceptions h ent year =
     dbind (loadTaxUseProfile h ent year) (\<lambda>p. dret
       (if fp_status p = ''complete'' then []
        else [entity_exception ent (fp_status p)
               (if fp_status p = ''partial'' then ''partial home-use allocation'' else ''missing home-use allocation'')]))"

record role_coverage =
  cv_utilities :: int
  cv_cell :: int
  cv_internet :: int
  cv_href :: string

definition loadAccountRoleCoverage :: "tax_hc \<Rightarrow> string \<Rightarrow> role_coverage dbm" where
  "loadAccountRoleCoverage h ent =
     (let none = \<lparr>cv_utilities = 0, cv_cell = 0, cv_internet = 0, cv_href = ''/accounts''\<rparr> in
      if \<not> kh_accounts h then dret none
      else dbind (dtry (AccountStore_ListForEntity ent 1000)) (\<lambda>r. case r of
          Inl _ \<Rightarrow> dret none
        | Inr accounts \<Rightarrow>
            (let tagged = (\<lambda>t. int (length (filter (\<lambda>x. x = t) (concat (map a_tags accounts))))) in
             dret (none\<lparr>cv_utilities := tagged ''utilities'', cv_cell := tagged ''cell_phone'', cv_internet := tagged ''internet''\<rparr>))))"

definition taxAccountRoleExceptions :: "tax_hc \<Rightarrow> string \<Rightarrow> int \<Rightarrow> tax_exception list dbm" where
  "taxAccountRoleExceptions h ent year =
     dbind (loadTaxUseProfile h ent year) (\<lambda>p.
       if fp_status p = ''missing'' then dret []
       else dbind (loadAccountRoleCoverage h ent) (\<lambda>c. dret
         ((if fp_utilities p \<noteq> None \<and> cv_utilities c = 0 then [entity_exception ent (fp_status p) ''missing utilities tagged account''] else []) @
          (if fp_cell p \<noteq> None \<and> cv_cell c = 0 then [entity_exception ent (fp_status p) ''missing cell phone tagged account''] else []) @
          (if fp_internet p \<noteq> None \<and> cv_internet c = 0 then [entity_exception ent (fp_status p) ''missing internet tagged account''] else []))))"

definition statement_exceptions :: "statement \<Rightarrow> tax_exception list" where
  "statement_exceptions m =
     (let base = \<lparr>xe_source = acs_id m, xe_name = (if acs_receipt_name m \<noteq> [] then acs_receipt_name m else acs_account_name m),
                  xe_kind = ''account_statement'', xe_status = acs_status m, xe_issue = [], xe_row = [], xe_vendor = [], xe_amount = []\<rparr> in
      (if acs_difference m \<noteq> 0 then [base\<lparr>xe_issue := ''statement balance difference'', xe_amount := cents (acs_difference m)\<rparr>] else []) @
      (if 0 < i64 (acs_unposted m) then [base\<lparr>xe_issue := ''statement import rows not posted'', xe_amount := cents (acs_unposted m)\<rparr>] else []) @
      (if acs_status m \<noteq> ''reconciled'' \<and> acs_status m \<noteq> ''locked'' then [base\<lparr>xe_issue := ''statement not reconciled''\<rparr>] else []))"

text \<open>A failing statement query counts as no exception.\<close>

definition taxStatementExceptions :: "tax_hc \<Rightarrow> tax_scope \<Rightarrow> tax_exception list dbm" where
  "taxStatementExceptions h sc =
     (if \<not> kh_statements h then dret []
      else dbind (dtry (AccountStatementStore_List (sc_entity sc) [] (Some (sc_start sc)) (Some (sc_end sc)) 1000)) (\<lambda>r. case r of
          Inl _ \<Rightarrow> dret []
        | Inr ms \<Rightarrow> dret (concat (map statement_exceptions ms))))"

text \<open>All exceptions of a period, in the order of the two handlers.\<close>

definition tax_exceptions :: "tax_hc \<Rightarrow> tax_scope \<Rightarrow> (tax_exception list \<times> string list list) dbm" where
  "tax_exceptions h sc =
     dbind (taxImportDiagnostics h sc) (\<lambda>(imports, summary).
     dbind (taxUseProfileExceptions h (sc_entity sc) (d_year (sc_start sc))) (\<lambda>profile.
     dbind (taxAccountRoleExceptions h (sc_entity sc) (d_year (sc_start sc))) (\<lambda>roles.
     dbind (taxStatementExceptions h sc) (\<lambda>statements.
       dret (imports @ profile @ roles @ statements, summary)))))"

section \<open>Actions and blocking summaries\<close>

record tax_action =
  tn_kind :: string
  tn_label :: string
  tn_count :: int
  tn_href :: string
  tn_priority :: int

definition taxExceptionHref :: "tax_exception \<Rightarrow> string" where
  "taxExceptionHref x =
     (if xe_source x = [] then []
      else if xe_kind x = ''entity'' then ''/settings/entity''
      else if xe_kind x = ''account_statement'' then ''/statements''
      else if xe_kind x = ''receipt'' \<or> xe_issue x = ''not posted'' then ''/receipts/'' @ xe_source x
      else if xe_row x \<noteq> [] then ''/imports/'' @ xe_source x @ ''#row-'' @ xe_row x
      else ''/imports/'' @ xe_source x)"

definition taxActionForException :: "tax_exception \<Rightarrow> tax_action" where
  "taxActionForException x =
     (let source = (if xe_name x = [] then xe_source x else xe_name x);
          action = (\<lambda>kind label priority href. \<lparr>tn_kind = kind, tn_label = label, tn_count = 0, tn_href = href, tn_priority = priority\<rparr>);
          imports = ''/imports/'' @ xe_source x;
          a = (if xe_issue x = ''unmapped import row'' then action ''map_import_rows'' (''Map uncategorized rows in '' @ source) 10 imports
               else if xe_issue x = ''import row not posted'' then action ''post_import_rows'' (''Post mapped rows in '' @ source) 20 imports
               else if xe_issue x = ''duplicate import row fingerprint''
                    then action ''review_duplicates'' (''Review duplicate-suspect rows in '' @ source) 30 imports
               else if has_prefix (xe_issue x) ''parse error:''
                    then action ''fix_parse_errors'' (''Fix import parse errors in '' @ source) 40 imports
               else if xe_issue x = ''missing import suggestion/row mapping''
                    then action ''reprocess_import'' (''Reprocess import mapping for '' @ source) 45 imports
               else if xe_issue x = ''missing home-use allocation'' \<or> xe_issue x = ''partial home-use allocation''
                    then action ''configure_home_use_allocation'' ''Configure home-use allocation in entity settings'' 5 ''/settings/entity''
               else if xe_kind x = ''account_statement'' then action ''reconcile_statement'' (''Reconcile statement '' @ source) 15 ''/statements''
               else if xe_issue x = ''not posted'' then action ''post_receipt'' (''Post receipt '' @ source) 60 imports
               else action ''review'' (''Review '' @ source) 50 imports);
          a = (if xe_kind x \<noteq> ''import_row'' \<and> xe_source x \<noteq> [] then a\<lparr>tn_href := ''/receipts/'' @ xe_source x\<rparr> else a);
          a = (if xe_kind x = ''entity'' then a\<lparr>tn_href := ''/settings/entity''\<rparr> else a) in
      if xe_kind x = ''account_statement'' then a\<lparr>tn_href := ''/statements''\<rparr> else a)"

text \<open>The map of the groups, in the order of their first exception.\<close>

definition action_key :: "tax_exception \<Rightarrow> string \<times> string" where
  "action_key x = (tn_kind (taxActionForException x), xe_source x)"

fun group_action :: "tax_exception \<Rightarrow> ((string \<times> string) \<times> tax_action) list \<Rightarrow> ((string \<times> string) \<times> tax_action) list" where
  "group_action x [] = [(action_key x, (taxActionForException x)\<lparr>tn_count := 1\<rparr>)]"
| "group_action x ((k, a) # gs) = (if k = action_key x then (k, a\<lparr>tn_count := tn_count a + 1\<rparr>) # gs else (k, a) # group_action x gs)"

definition taxActionItems :: "tax_exception list \<Rightarrow> tax_action list" where
  "taxActionItems xs = sort_by (\<lambda>a b. tn_priority a < tn_priority b) (map snd (foldl (\<lambda>gs x. group_action x gs) [] xs))"

record tax_blocking =
  bk_source :: string
  bk_name :: string
  bk_kind :: string
  bk_status :: string
  bk_issues :: int
  bk_unmapped :: int
  bk_duplicates :: int
  bk_not_posted :: int
  bk_parse_errors :: int
  bk_first_row :: string
  bk_href :: string

definition blocking_key :: "tax_exception \<Rightarrow> string" where
  "blocking_key x = (if xe_source x = [] then xe_name x else xe_source x)"

definition new_blocking :: "tax_exception \<Rightarrow> tax_blocking" where
  "new_blocking x = \<lparr>bk_source = xe_source x, bk_name = xe_name x, bk_kind = xe_kind x, bk_status = xe_status x, bk_issues = 0,
     bk_unmapped = 0, bk_duplicates = 0, bk_not_posted = 0, bk_parse_errors = 0, bk_first_row = [], bk_href = []\<rparr>"

definition count_issue :: "string \<Rightarrow> tax_blocking \<Rightarrow> tax_blocking" where
  "count_issue issue b =
     (if issue = ''unmapped import row'' then b\<lparr>bk_unmapped := bk_unmapped b + 1\<rparr>
      else if issue = ''duplicate import row fingerprint'' then b\<lparr>bk_duplicates := bk_duplicates b + 1\<rparr>
      else if issue = ''import row not posted'' \<or> issue = ''not posted'' then b\<lparr>bk_not_posted := bk_not_posted b + 1\<rparr>
      else if has_prefix issue ''parse error:'' then b\<lparr>bk_parse_errors := bk_parse_errors b + 1\<rparr>
      else b)"

definition add_blocking :: "tax_exception \<Rightarrow> tax_blocking \<Rightarrow> tax_blocking" where
  "add_blocking x b =
     (let b = b\<lparr>bk_issues := bk_issues b + 1\<rparr>;
          b = (if bk_name b = [] then b\<lparr>bk_name := xe_name x\<rparr> else b);
          b = (if bk_status b = [] then b\<lparr>bk_status := xe_status x\<rparr> else b);
          b = (if bk_kind b \<noteq> ''receipt'' \<and> xe_kind x = ''receipt'' then b\<lparr>bk_kind := ''receipt''\<rparr> else b);
          b = (if xe_row x \<noteq> [] \<and> bk_first_row b = [] then b\<lparr>bk_first_row := xe_row x\<rparr> else b);
          b = (if xe_row x \<noteq> [] then b\<lparr>bk_href := taxExceptionHref x\<rparr>
               else if bk_href b = [] then b\<lparr>bk_href := taxExceptionHref x\<rparr> else b);
          b = count_issue (xe_issue x) b in
      if bk_href b = [] then b\<lparr>bk_href := taxExceptionHref x\<rparr> else b)"

fun group_blocking :: "tax_exception \<Rightarrow> (string \<times> tax_blocking) list \<Rightarrow> (string \<times> tax_blocking) list" where
  "group_blocking x [] = [(blocking_key x, add_blocking x (new_blocking x))]"
| "group_blocking x ((k, b) # gs) = (if k = blocking_key x then (k, add_blocking x b) # gs else (k, b) # group_blocking x gs)"

definition blockingSummaryRows :: "tax_exception list \<Rightarrow> tax_blocking list" where
  "blockingSummaryRows xs =
     sort_by (\<lambda>a b. if bk_issues a = bk_issues b then str_less (bk_name a) (bk_name b) else bk_issues b < bk_issues a)
       (map snd (foldl (\<lambda>gs x. group_blocking x gs) [] xs))"

section \<open>\<open>GET /reports/tax-readiness\<close>\<close>

definition importSummaryRows :: "string list list \<Rightarrow> (string \<times> string) list list" where
  "importSummaryRows rows = map (\<lambda>row. zip import_summary_header (row @ replicate (14 - length row) [])) (tl rows)"

record readiness =
  rd_scope :: tax_scope
  rd_ready :: bool
  rd_count :: int
  rd_lines :: int
  rd_imports :: "(string \<times> string) list list"
  rd_blocking :: "tax_blocking list"
  rd_profile :: use_profile
  rd_coverage :: role_coverage
  rd_actions :: "tax_action list"
  rd_exceptions :: "tax_exception list"

definition handleReportTaxReadiness :: "tax_hc \<Rightarrow> tax_query \<Rightarrow> readiness endpoint" where
  "handleReportTaxReadiness h q = parseTaxPackParams h q (\<lambda>sc.
     ecall (tax_exceptions h sc) internalError (\<lambda>(xs, summary).
     ecall (TransactionsForExport (sc_entity sc) (sc_start sc) (sc_end sc)) internalError (\<lambda>rows.
     ecall (loadTaxUseProfile h (sc_entity sc) (d_year (sc_start sc))) internalError (\<lambda>profile.
     ecall (loadAccountRoleCoverage h (sc_entity sc)) internalError (\<lambda>coverage.
       answer 200 \<lparr>rd_scope = sc, rd_ready = (xs = []), rd_count = int (length xs), rd_lines = int (length rows),
         rd_imports = importSummaryRows summary, rd_blocking = blockingSummaryRows xs, rd_profile = profile,
         rd_coverage = coverage, rd_actions = taxActionItems xs, rd_exceptions = xs\<rparr>)))))"

end
