(* ===== verification/Tax_Pack.thy ===== *)
theory Tax_Pack
  imports Tax_Readiness
begin

text \<open>
  The tax pack, the second half of \<open>internal/http/tax_pack.go\<close>: the CSV files, the checklists and
  \<open>GET /exports/tax-pack.zip\<close>.  An archive is the list of its files, a CSV file the list of the rows given to the writer;
  the bytes of \<open>archive/zip\<close> and of \<open>encoding/csv\<close> are not modelled.
\<close>

datatype tax_file = Sheet "string list list" | Page string

section \<open>The reports as sheets\<close>

definition section_cells :: "string \<Rightarrow> trial_row \<Rightarrow> string list" where
  "section_cells name row = [name, tb_account row, tb_name row, tb_type row, cents (balance_of row)]"

definition statement_header :: "string list" where
  "statement_header = [''section'', ''account_id'', ''account_name'', ''account_type'', ''amount_cents'']"

definition total_cells :: "string \<Rightarrow> int64 \<Rightarrow> string list" where
  "total_cells name n = [name, [], [], [], cents n]"

fun profit_loss_sheet :: "trial_row list \<Rightarrow> string list list \<times> int64 \<times> int64 \<Rightarrow> string list list \<times> int64 \<times> int64" where
  "profit_loss_sheet [] acc = acc"
| "profit_loss_sheet (row # rows) (out, incomeTotal, expenseTotal) =
     profit_loss_sheet rows
       (if NormalizeType (tb_type row) = ''income'' then (out @ [section_cells ''income'' row], incomeTotal + balance_of row, expenseTotal)
        else if NormalizeType (tb_type row) = ''expense'' then (out @ [section_cells ''expense'' row], incomeTotal, expenseTotal + balance_of row)
        else (out, incomeTotal, expenseTotal))"

definition writeProfitLossCSV :: "tax_scope \<Rightarrow> string list list dbm" where
  "writeProfitLossCSV sc =
     dbind (TrialBalance (sc_entity sc) (sc_start sc) (sc_end sc)) (\<lambda>rows.
       case profit_loss_sheet rows ([statement_header], 0, 0) of (out, incomeTotal, expenseTotal) \<Rightarrow>
         dret (out @ [total_cells ''net_income'' (incomeTotal - expenseTotal)]))"

fun balance_sheet_sheet ::
  "trial_row list \<Rightarrow> string list list \<times> int64 \<times> int64 \<times> int64 \<Rightarrow> string list list \<times> int64 \<times> int64 \<times> int64" where
  "balance_sheet_sheet [] acc = acc"
| "balance_sheet_sheet (row # rows) (out, assets, liabilities, equity) =
     balance_sheet_sheet rows
       (if NormalizeType (tb_type row) = ''asset'' then (out @ [section_cells ''asset'' row], assets + balance_of row, liabilities, equity)
        else if NormalizeType (tb_type row) = ''liability''
          then (out @ [section_cells ''liability'' row], assets, liabilities + balance_of row, equity)
        else if NormalizeType (tb_type row) = ''equity'' then (out @ [section_cells ''equity'' row], assets, liabilities, equity + balance_of row)
        else (out, assets, liabilities, equity))"

definition writeBalanceSheetCSV :: "tax_scope \<Rightarrow> string list list dbm" where
  "writeBalanceSheetCSV sc =
     dbind (TrialBalance (sc_entity sc) (sc_start sc) (sc_end sc)) (\<lambda>rows.
       case balance_sheet_sheet rows ([statement_header], 0, 0, 0) of (out, assets, liabilities, equity) \<Rightarrow>
         dret (out @ [total_cells ''total_assets'' assets, total_cells ''total_liabilities'' liabilities, total_cells ''total_equity'' equity]))"

fun trial_sheet :: "trial_row list \<Rightarrow> string list list \<times> int64 \<times> int64 \<Rightarrow> string list list \<times> int64 \<times> int64" where
  "trial_sheet [] acc = acc"
| "trial_sheet (row # rows) (out, totalDebit, totalCredit) =
     (let net = tb_debit row - tb_credit row in
      if net = 0 then trial_sheet rows (out, totalDebit, totalCredit)
      else case SplitDebitCredit net of (debit, credit) \<Rightarrow>
        trial_sheet rows (out @ [[tb_account row, tb_name row, tb_type row, cents debit, cents credit]], totalDebit + debit, totalCredit + credit))"

definition writeTrialBalanceCSV :: "tax_scope \<Rightarrow> string list list dbm" where
  "writeTrialBalanceCSV sc =
     dbind (TrialBalance (sc_entity sc) (sc_start sc) (sc_end sc)) (\<lambda>rows.
       case trial_sheet rows ([[''account_id'', ''account_name'', ''account_type'', ''debit_cents'', ''credit_cents'']], 0, 0) of
         (out, totalDebit, totalCredit) \<Rightarrow> dret (out @ [[''total'', [], [], cents totalDebit, cents totalCredit]]))"

definition writeVendorPaymentsCSV :: "tax_scope \<Rightarrow> string list list dbm" where
  "writeVendorPaymentsCSV sc =
     dbind (VendorPayments (sc_entity sc) (sc_start sc) (sc_end sc)) (\<lambda>rows.
       dret ([''vendor_name'', ''tax_id'', ''total_cents'', ''needs_1099''] #
         map (\<lambda>r. [vp_name r, vp_tax_id r, cents (vp_total r), if 60000 \<le> i64 (vp_total r) then ''true'' else ''false'']) rows))"

definition writeGeneralLedgerCSV :: "tax_scope \<Rightarrow> string list list dbm" where
  "writeGeneralLedgerCSV sc = dbind (GeneralLedger (sc_entity sc) (sc_start sc) (sc_end sc))
     (\<lambda>rows. dret (transactionExportHeader # map transactionExportRow rows))"

definition writeTransactionsCSV :: "tax_scope \<Rightarrow> string list list dbm" where
  "writeTransactionsCSV sc = dbind (TransactionsForExport (sc_entity sc) (sc_start sc) (sc_end sc))
     (\<lambda>rows. dret (transactionExportHeader # map transactionExportRow rows))"

definition writeMileageCSV :: "tax_hc \<Rightarrow> tax_scope \<Rightarrow> string list list dbm" where
  "writeMileageCSV h sc =
     (if \<not> kh_mileage h then dret [mileage_csv_header]
      else dbind (MileageStore_Export (sc_entity sc) (Some (sc_start sc)) (Some (sc_end sc)))
        (\<lambda>logs. dret (mileage_csv_header # map mileage_csv_row logs)))"

section \<open>Exceptions, actions and statements as sheets\<close>

definition taxExceptionsRows :: "tax_exception list \<Rightarrow> string list list" where
  "taxExceptionsRows xs =
     [''source_id'', ''source_name'', ''kind'', ''status'', ''issue'', ''row_index'', ''vendor'', ''amount_cents'', ''href''] #
     map (\<lambda>x. [xe_source x, xe_name x, xe_kind x, xe_status x, xe_issue x, xe_row x, xe_vendor x, xe_amount x, taxExceptionHref x]) xs"

definition taxActionRows :: "tax_action list \<Rightarrow> string list list" where
  "taxActionRows actions = [''kind'', ''label'', ''count'', ''href'', ''priority''] #
     map (\<lambda>a. [tn_kind a, tn_label a, int_str (tn_count a), tn_href a, int_str (tn_priority a)]) actions"

definition taxBlockingSummaryRows :: "tax_exception list \<Rightarrow> string list list" where
  "taxBlockingSummaryRows xs =
     [''source_id'', ''source_name'', ''kind'', ''status'', ''issue_count'', ''unmapped_rows'', ''duplicate_rows'', ''not_posted'',
      ''parse_errors'', ''first_row_index'', ''href''] #
     map (\<lambda>b. [bk_source b, bk_name b, bk_kind b, bk_status b, int_str (bk_issues b), int_str (bk_unmapped b), int_str (bk_duplicates b),
       int_str (bk_not_posted b), int_str (bk_parse_errors b), bk_first_row b, bk_href b]) (blockingSummaryRows xs)"

definition taxUseAllocationRow :: "int \<Rightarrow> string \<Rightarrow> string \<Rightarrow> int option \<Rightarrow> string \<Rightarrow> string \<Rightarrow> int option \<Rightarrow> int option \<Rightarrow> string list" where
  "taxUseAllocationRow taxYear section' item percent status href office tot =
     (let (rowStatus, val, details) = (case percent of
            None \<Rightarrow> (''needs attention'', [], ''Not configured for this tax year.'')
          | Some p \<Rightarrow> (''ready'', int_str p @ ''%'', ''Business-use percentage recorded for the selected tax year.''));
          details = (if section' = ''utilities'' then
              (case (office, tot) of
                 (Some a, Some b) \<Rightarrow> int_str a @ '' / '' @ int_str b @ '' sqft of the home used for business.''
               | _ \<Rightarrow> if percent \<noteq> None then ''Utilities allocation is derived from the stored home-office square-foot ratio.'' else details)
            else details);
          rowStatus = (if status \<noteq> ''complete'' then ''needs attention'' else rowStatus) in
      [int_str taxYear, item, rowStatus, val, details, href])"

definition taxUseAllocationRows :: "tax_hc \<Rightarrow> tax_scope \<Rightarrow> string list list dbm" where
  "taxUseAllocationRows h sc =
     (let year = d_year (sc_start sc) in
      dbind (loadTaxUseProfile h (sc_entity sc) year) (\<lambda>p. dret
        [[''tax_year'', ''item'', ''status'', ''value'', ''details'', ''href''],
         taxUseAllocationRow year ''utilities'' ''Home utilities allocation'' (fp_utilities p) (fp_status p) (fp_href p) (fp_office p) (fp_total p),
         taxUseAllocationRow year ''cell_phone'' ''Cell phone allocation'' (fp_cell p) (fp_status p) (fp_href p) None None,
         taxUseAllocationRow year ''internet'' ''Home internet allocation'' (fp_internet p) (fp_status p) (fp_href p) None None]))"

definition accountRoleTagRows :: "tax_hc \<Rightarrow> tax_scope \<Rightarrow> string list list dbm" where
  "accountRoleTagRows h sc =
     (let header = [''account_id'', ''account_name'', ''account_type'', ''role_tags'', ''href''] in
      if \<not> kh_accounts h then dret [header]
      else dbind (dtry (AccountStore_ListForEntity (sc_entity sc) 1000)) (\<lambda>r. dret (header # (case r of
          Inl _ \<Rightarrow> []
        | Inr as \<Rightarrow> map (\<lambda>a. [a_id a, a_name a, a_type a, join (a_tags a) '','', ''/accounts'']) as))))"

definition taxStatementRows :: "tax_hc \<Rightarrow> tax_scope \<Rightarrow> string list list dbm" where
  "taxStatementRows h sc =
     (let header = [''statement_id'', ''account_id'', ''account_name'', ''source_import_id'', ''source_import_name'', ''period_start'',
            ''period_end'', ''starting_balance_cents'', ''ending_balance_cents'', ''imported_inflow_cents'', ''imported_outflow_cents'',
            ''posted_inflow_cents'', ''posted_outflow_cents'', ''expected_ending_balance_cents'', ''difference_cents'', ''unposted_rows'', ''status''] in
      if \<not> kh_statements h then dret [header]
      else dbind (dtry (AccountStatementStore_List (sc_entity sc) [] (Some (sc_start sc)) (Some (sc_end sc)) 1000)) (\<lambda>r. dret (header # (case r of
          Inl _ \<Rightarrow> []
        | Inr ms \<Rightarrow> map (\<lambda>m. [acs_id m, acs_account m, acs_account_name m, acs_receipt m, acs_receipt_name m, format_iso (acs_from m),
            format_iso (acs_to m), cents (acs_starting m), cents (acs_ending m), cents (acs_in m), cents (acs_out m), cents (acs_posted_in m),
            cents (acs_posted_out m), cents (acs_expected m), cents (acs_difference m), cents (acs_unposted m), acs_status m]) ms))))"

section \<open>The checklists\<close>

definition checklistStatus :: "bool \<Rightarrow> string" where
  "checklistStatus ok = (if ok then ''ready'' else ''needs attention'')"

definition allocateCount :: "bool \<Rightarrow> int" where
  "allocateCount ok = (if ok then 0 else 1)"

definition utilitiesDetails :: "use_profile \<Rightarrow> string" where
  "utilitiesDetails p =
     (case fp_utilities p of
        None \<Rightarrow> ''Set home-office square feet and total home square feet for the tax year.''
      | Some n \<Rightarrow>
          (case (fp_office p, fp_total p) of
             (Some a, Some b) \<Rightarrow> int_str n @ ''% based on '' @ int_str a @ '' of '' @ int_str b @ '' sqft.''
           | _ \<Rightarrow> int_str n @ ''% utilities allocation.''))"

definition percentageDetails :: "string \<Rightarrow> int option \<Rightarrow> string" where
  "percentageDetails label percent =
     (case percent of
        None \<Rightarrow> label @ '' business-use percentage is not configured for this tax year.''
      | Some n \<Rightarrow> int_str n @ ''% business use recorded for this tax year.'')"

text \<open>Label, done, count and details of the three allocation lines.\<close>

definition allocationChecklist :: "use_profile \<Rightarrow> (string \<times> bool \<times> int \<times> string) list" where
  "allocationChecklist p =
     [(''Home utilities allocation'', fp_utilities p \<noteq> None, allocateCount (fp_utilities p \<noteq> None), utilitiesDetails p),
      (''Cell phone allocation'', fp_cell p \<noteq> None, allocateCount (fp_cell p \<noteq> None), percentageDetails ''Cell phone'' (fp_cell p)),
      (''Home internet allocation'', fp_internet p \<noteq> None, allocateCount (fp_internet p \<noteq> None), percentageDetails ''Home internet'' (fp_internet p))]"

text \<open>The months of the mileage summary; a failing store counts as no months.\<close>

definition pack_months :: "tax_hc \<Rightarrow> tax_scope \<Rightarrow> month_row list dbm" where
  "pack_months h sc =
     (if \<not> kh_mileage h then dret []
      else dbind (dtry (MileageStore_SummaryByMonth (sc_entity sc) (sc_start sc) (sc_end sc) (kh_rates h)))
        (\<lambda>r. dret (case r of Inl _ \<Rightarrow> [] | Inr ms \<Rightarrow> ms)))"

definition checklist_line :: "string \<Rightarrow> string \<Rightarrow> bool \<Rightarrow> int \<Rightarrow> string \<Rightarrow> string \<Rightarrow> string list" where
  "checklist_line section' item ok n details href = [section', item, checklistStatus ok, int_str n, details, href]"

text \<open>\<open>int(floatValue(row, "trip_count"))\<close>.\<close>

definition float_trips :: "month_row \<Rightarrow> int" where
  "float_trips m = i64 (float_to_int64 (fl64 (of_int (ms_trips m))))"

definition taxPrepChecklistRows :: "tax_hc \<Rightarrow> tax_scope \<Rightarrow> tax_exception list \<Rightarrow> string list list dbm" where
  "taxPrepChecklistRows h sc xs =
     dbind (loadTaxUseProfile h (sc_entity sc) (d_year (sc_start sc))) (\<lambda>p.
     dbind (pack_months h sc) (\<lambda>months.
     let num = (\<lambda>P. int (length (filter P xs)));
         unmapped = num (\<lambda>x. xe_issue x = ''unmapped import row'');
         duplicateRows = num (\<lambda>x. xe_issue x = ''duplicate import row fingerprint'');
         notPosted = num (\<lambda>x. xe_issue x = ''import row not posted'');
         parseErrors = num (\<lambda>x. has_prefix (xe_issue x) ''parse error:'');
         receiptMissing = num (\<lambda>x. xe_issue x = ''not posted'' \<and> xe_kind x = ''receipt'');
         trips = sum_list (map float_trips months);
         missingRate = int (length (filter (\<lambda>m. \<not> ms_has_rate m) months)) in
     dbind (loadAccountRoleCoverage h (sc_entity sc)) (\<lambda>c. dret
       ([[''section'', ''item'', ''status'', ''count'', ''details'', ''href'']] @
        map (\<lambda>(label, ok, n, details). checklist_line ''allocations'' label ok n details ''/settings/entity'') (allocationChecklist p) @
        [checklist_line ''allocations'' ''Utilities tagged accounts'' (fp_utilities p = None \<or> 0 < cv_utilities c) (cv_utilities c)
           ''Accounts tagged as utilities for tax allocation.'' ''/accounts'',
         checklist_line ''allocations'' ''Cell phone tagged accounts'' (fp_cell p = None \<or> 0 < cv_cell c) (cv_cell c)
           ''Accounts tagged as cell phone for tax allocation.'' ''/accounts'',
         checklist_line ''allocations'' ''Internet tagged accounts'' (fp_internet p = None \<or> 0 < cv_internet c) (cv_internet c)
           ''Accounts tagged as internet for tax allocation.'' ''/accounts'',
         checklist_line ''imports'' ''Unmapped rows'' (unmapped = 0) unmapped ''Import rows without a mapped account.'' ''/review'',
         checklist_line ''imports'' ''Duplicate-suspect rows'' (duplicateRows = 0) duplicateRows
           ''Rows with repeated fingerprints that deserve a manual pass.'' ''/exports'',
         checklist_line ''imports'' ''Unposted import rows'' (notPosted = 0) notPosted ''Mapped rows that have not been posted yet.'' ''/review'',
         checklist_line ''imports'' ''Parse errors'' (parseErrors = 0) parseErrors ''Import rows that could not be parsed cleanly.'' ''/review'',
         checklist_line ''receipts'' ''Unposted receipts'' (receiptMissing = 0) receiptMissing ''Receipts still waiting for posting.'' ''/receipts'',
         checklist_line ''mileage'' ''Mileage trips'' True trips ''Trips found in the selected scope.'' ''/mileage'',
         checklist_line ''mileage'' ''Missing mileage rates'' (missingRate = 0) missingRate
           ''Months in scope without a reimbursement rate.'' ''/mileage-rates'']))))"

definition sumBlockingCount :: "(tax_blocking \<Rightarrow> int) \<Rightarrow> tax_blocking list \<Rightarrow> int" where
  "sumBlockingCount f bs = sum_list (map f bs)"

definition package_line :: "string \<Rightarrow> bool \<Rightarrow> int \<Rightarrow> string \<Rightarrow> string \<Rightarrow> string list" where
  "package_line item ok n details href = [item, checklistStatus ok, int_str n, details, href]"

definition taxPreparedPackageRows :: "tax_hc \<Rightarrow> tax_scope \<Rightarrow> tax_exception list \<Rightarrow> string list list \<Rightarrow> string list list dbm" where
  "taxPreparedPackageRows h sc xs importSummary =
     (let blockers = blockingSummaryRows xs in
      dbind (loadTaxUseProfile h (sc_entity sc) (d_year (sc_start sc))) (\<lambda>p.
      dbind (pack_months h sc) (\<lambda>months.
      let trips = sum_list (map ms_trips months);
          missingRates = int (length (filter (\<lambda>m. \<not> ms_has_rate m) months));
          blocked = (\<lambda>f. sumBlockingCount f blockers) in
      dbind (loadAccountRoleCoverage h (sc_entity sc)) (\<lambda>c. dret
        ([[''item'', ''status'', ''count'', ''details'', ''href'']] @
         map (\<lambda>(label, ok, n, details). package_line label ok n details ''/settings/entity'') (allocationChecklist p) @
         [[''Tagged accounts'', ''Utilities'', checklistStatus (fp_utilities p = None \<or> 0 < cv_utilities c), int_str (cv_utilities c),
             ''Accounts tagged for utilities allocations.'', ''/accounts''],
          [''Tagged accounts'', ''Cell phone'', checklistStatus (fp_cell p = None \<or> 0 < cv_cell c), int_str (cv_cell c),
             ''Accounts tagged for cell phone allocations.'', ''/accounts''],
          [''Tagged accounts'', ''Internet'', checklistStatus (fp_internet p = None \<or> 0 < cv_internet c), int_str (cv_internet c),
             ''Accounts tagged for internet allocations.'', ''/accounts''],
          package_line ''Tax pack'' (xs = [] \<and> missingRates = 0) (int (length xs)) ''Ready to hand off when blockers are clear.'' ''/exports'',
          package_line ''Import sources'' (1 < length importSummary) (max 0 (int (length importSummary) - 1)) ''Imports in the selected tax scope.'' ''/imports'',
          package_line ''Open blockers'' (blockers = []) (int (length blockers)) ''Sources that still need review.'' ''/review'',
          package_line ''Unmapped rows'' (blocked bk_unmapped = 0) (blocked bk_unmapped) ''Rows still missing an account.'' ''/review'',
          package_line ''Duplicate suspects'' (blocked bk_duplicates = 0) (blocked bk_duplicates)
            ''Rows that should be checked for repeated fingerprints.'' ''/imports'',
          package_line ''Unposted rows'' (blocked bk_not_posted = 0) (blocked bk_not_posted) ''Mapped rows that still need posting.'' ''/review'',
          package_line ''Mileage trips'' True trips ''Mileage logs in the selected filing scope.'' ''/mileage'',
          package_line ''Mileage rate gaps'' (missingRates = 0) missingRates ''Months without a mileage reimbursement rate.'' ''/mileage-rates''])))))"

section \<open>The archive\<close>

definition text_lines :: "string list \<Rightarrow> string" where
  "text_lines ls = concat (map (\<lambda>l. l @ [CHR 0x0A]) ls)"

definition taxPackReadme :: "tax_scope \<Rightarrow> nat \<Rightarrow> string" where
  "taxPackReadme sc n = text_lines
     [''# Open B00KS Tax Pack'', [], ''Entity ID: '' @ sc_entity sc,
      ''Scope: '' @ format_iso (sc_start sc) @ '' through '' @ format_iso (sc_end sc), ''Label: '' @ sc_label sc, [], ''Files:'',
      ''- profit-loss.csv: income and expense totals by account.'',
      ''- balance-sheet.csv: assets, liabilities, and equity with section totals.'',
      ''- trial-balance.csv: every account as a debit or credit balance with column totals.'',
      ''- general-ledger.csv: posted journal-entry lines.'',
      ''- transactions.csv: same posted transaction-line export, provided for spreadsheet workflows.'',
      ''- mileage.csv: mileage logs in the selected scope.'',
      ''- vendor-payments-1099.csv: total expense paid per matched vendor, with 1099-NEC candidates flagged.'',
      ''- import-summary.csv: import-level row counts, totals, and duplicate flags.'',
      ''- review-actions.csv: grouped follow-up items derived from tax readiness exceptions.'',
      ''- blocking-summary.csv: grouped issue counts by source with direct fix links.'',
      ''- home-use-allocation.csv: entity home-office, cell phone, and internet allocation profile.'',
      ''- account-role-tags.csv: tagged accounts used for utilities, cell phone, and internet allocation coverage.'',
      ''- statement-reconciliation.csv: statement starting/ending balances, imported totals, posted totals, differences, and status.'',
      ''- prep-checklist.csv: filing checklist with import, receipt, and mileage readiness items.'',
      ''- exceptions.csv: unposted items, unmapped rows, parse errors, and missing import mappings.'', [], ''Review checklist:'',
      ''- exceptions.csv should be empty, or every item should be explained before filing.'',
      ''- Reconcile import-summary.csv totals to bank and card statements.'',
      ''- Reconcile statement-reconciliation.csv differences and unposted rows before filing.'',
      ''- Confirm expense categories match your tax treatment.'',
      ''- Review vendor-payments-1099.csv: confirm payment method (cash/check) and contractor status for flagged vendors.'',
      ''- Confirm income, owner draws/contributions, assets, loans, and payroll outside this export when applicable.'', [],
      ''Exception count: '' @ int_str (int n)]"

definition writeTaxPackFiles ::
  "tax_hc \<Rightarrow> tax_scope \<Rightarrow> tax_exception list \<Rightarrow> string list list \<Rightarrow> (string \<times> tax_file) list dbm" where
  "writeTaxPackFiles h sc xs importSummary =
     dbind (writeProfitLossCSV sc) (\<lambda>pl.
     dbind (writeBalanceSheetCSV sc) (\<lambda>bs.
     dbind (writeTrialBalanceCSV sc) (\<lambda>tb.
     dbind (writeGeneralLedgerCSV sc) (\<lambda>gl.
     dbind (writeTransactionsCSV sc) (\<lambda>txs.
     dbind (writeMileageCSV h sc) (\<lambda>mileage.
     dbind (writeVendorPaymentsCSV sc) (\<lambda>payments.
     dbind (taxUseAllocationRows h sc) (\<lambda>allocation.
     dbind (accountRoleTagRows h sc) (\<lambda>tags.
     dbind (taxStatementRows h sc) (\<lambda>statements.
     dbind (taxPrepChecklistRows h sc xs) (\<lambda>prep.
     dbind (taxPreparedPackageRows h sc xs importSummary) (\<lambda>package.
       dret [(''profit-loss.csv'', Sheet pl), (''balance-sheet.csv'', Sheet bs), (''trial-balance.csv'', Sheet tb),
         (''general-ledger.csv'', Sheet gl), (''transactions.csv'', Sheet txs), (''mileage.csv'', Sheet mileage),
         (''vendor-payments-1099.csv'', Sheet payments), (''import-summary.csv'', Sheet importSummary),
         (''exceptions.csv'', Sheet (taxExceptionsRows xs)), (''review-actions.csv'', Sheet (taxActionRows (taxActionItems xs))),
         (''blocking-summary.csv'', Sheet (taxBlockingSummaryRows xs)), (''home-use-allocation.csv'', Sheet allocation),
         (''account-role-tags.csv'', Sheet tags), (''statement-reconciliation.csv'', Sheet statements), (''prep-checklist.csv'', Sheet prep),
         (''prepared-package.csv'', Sheet package), (''README.md'', Page (taxPackReadme sc (length xs)))]))))))))))))"

definition handleExportTaxPack :: "tax_hc \<Rightarrow> tax_query \<Rightarrow> (string \<times> (string \<times> tax_file) list) endpoint" where
  "handleExportTaxPack h q = parseTaxPackParams h q (\<lambda>sc.
     ecall (tax_exceptions h sc) internalError (\<lambda>(xs, summary).
     ecall (writeTaxPackFiles h sc xs summary) internalError (\<lambda>files s.
       answer 200 (''tax-pack-'' @ sc_label sc @ ''-'' @ format_compact (instant_date (db_now s)) @ ''.zip'', files) s)))"

end
