(* ===== verification/Tax_Safety.thy ===== *)
theory Tax_Safety
  imports Tax_Pack
begin

section \<open>The groups account for every exception\<close>

lemma group_action_sum: "(\<Sum>g\<leftarrow>group_action x gs. tn_count (snd g)) = (\<Sum>g\<leftarrow>gs. tn_count (snd g)) + 1"
  by (induction x gs rule: group_action.induct) auto

lemma foldl_group_action:
  "(\<Sum>g\<leftarrow>foldl (\<lambda>gs x. group_action x gs) gs xs. tn_count (snd g)) = (\<Sum>g\<leftarrow>gs. tn_count (snd g)) + int (length xs)"
  by (induction xs arbitrary: gs) (auto simp: group_action_sum)

lemma count_issue_counts:
  "bk_issues (count_issue i b) = bk_issues b" "bk_href (count_issue i b) = bk_href b"
  "bk_unmapped (count_issue i b) = bk_unmapped b + (if i = ''unmapped import row'' then 1 else 0)"
  "bk_duplicates (count_issue i b) = bk_duplicates b + (if i = ''duplicate import row fingerprint'' then 1 else 0)"
  "bk_not_posted (count_issue i b) = bk_not_posted b + (if i = ''import row not posted'' \<or> i = ''not posted'' then 1 else 0)"
  by (simp_all add: count_issue_def)

lemmas blocking_selectors = if_distrib [where f = bk_issues] if_distrib [where f = bk_unmapped] if_distrib [where f = bk_duplicates]
  if_distrib [where f = bk_not_posted]

lemma add_blocking_counts:
  "bk_issues (add_blocking x b) = bk_issues b + 1"
  "bk_unmapped (add_blocking x b) = bk_unmapped b + (if xe_issue x = ''unmapped import row'' then 1 else 0)"
  "bk_duplicates (add_blocking x b) = bk_duplicates b + (if xe_issue x = ''duplicate import row fingerprint'' then 1 else 0)"
  "bk_not_posted (add_blocking x b) = bk_not_posted b + (if xe_issue x = ''import row not posted'' \<or> xe_issue x = ''not posted'' then 1 else 0)"
  unfolding add_blocking_def Let_def
  by (simp_all add: blocking_selectors count_issue_counts cong: if_cong split del: if_split)

lemma new_blocking_counts [simp]: "bk_issues (new_blocking x) = 0" "bk_unmapped (new_blocking x) = 0" "bk_duplicates (new_blocking x) = 0"
  "bk_not_posted (new_blocking x) = 0"
  by (simp_all add: new_blocking_def)

text \<open>A count that \<open>add_blocking\<close> raises by \<open>w x\<close> sums up over the groups.\<close>

lemma group_blocking_sum:
  assumes "\<And>x b. f (add_blocking x b) = f b + w x" "\<And>x. f (new_blocking x) = (0 :: int)"
  shows "(\<Sum>g\<leftarrow>group_blocking x gs. f (snd g)) = (\<Sum>g\<leftarrow>gs. f (snd g)) + w x"
  by (induction x gs rule: group_blocking.induct) (auto simp: assms)

lemma blocking_sum:
  assumes "\<And>x b. f (add_blocking x b) = f b + w x" "\<And>x. f (new_blocking x) = (0 :: int)"
  shows "(\<Sum>b\<leftarrow>blockingSummaryRows xs. f b) = (\<Sum>x\<leftarrow>xs. w x)"
proof -
  have "(\<Sum>g\<leftarrow>foldl (\<lambda>gs x. group_blocking x gs) gs xs. f (snd g)) = (\<Sum>g\<leftarrow>gs. f (snd g)) + (\<Sum>x\<leftarrow>xs. w x)" for gs
    by (induction xs arbitrary: gs) (auto simp: group_blocking_sum [OF assms])
  from this [of "[]"] show ?thesis by (simp add: blockingSummaryRows_def sum_list_sort_by comp_def)
qed

lemma sum_if_count: "(\<Sum>x\<leftarrow>xs. if P x then 1 else 0) = int (length (filter P xs))"
  by (induction xs) auto

text \<open>
  C39.  The grouped views of a tax period lose nothing: the counts of the action items add up to the number of exceptions, in
  the order of their priorities, and so do the issue counts of the blocking summaries; the summaries' unmapped, duplicate and
  unposted rows add up to the exceptions of that kind.
\<close>

theorem tax_groups_complete:
  "(\<Sum>a\<leftarrow>taxActionItems xs. tn_count a) = int (length xs) \<and>
   sorted_wrt (\<lambda>a b. tn_priority a \<le> tn_priority b) (taxActionItems xs) \<and>
   (\<Sum>b\<leftarrow>blockingSummaryRows xs. bk_issues b) = int (length xs) \<and>
   (\<Sum>b\<leftarrow>blockingSummaryRows xs. bk_unmapped b) = int (length (filter (\<lambda>x. xe_issue x = ''unmapped import row'') xs)) \<and>
   (\<Sum>b\<leftarrow>blockingSummaryRows xs. bk_duplicates b) = int (length (filter (\<lambda>x. xe_issue x = ''duplicate import row fingerprint'') xs)) \<and>
   (\<Sum>b\<leftarrow>blockingSummaryRows xs. bk_not_posted b) =
     int (length (filter (\<lambda>x. xe_issue x = ''import row not posted'' \<or> xe_issue x = ''not posted'') xs))"
proof (intro conjI)
  show "(\<Sum>a\<leftarrow>taxActionItems xs. tn_count a) = int (length xs)"
    using foldl_group_action [of "[]" xs] by (simp add: taxActionItems_def sum_list_sort_by comp_def)
  have "strict_weak (\<lambda>a b. tn_priority a < tn_priority b)" by (auto simp: strict_weak_def)
  from sorted_sort_by [OF this] show "sorted_wrt (\<lambda>a b. tn_priority a \<le> tn_priority b) (taxActionItems xs)"
    by (simp add: taxActionItems_def not_less)
  show "(\<Sum>b\<leftarrow>blockingSummaryRows xs. bk_issues b) = int (length xs)"
    using blocking_sum [of bk_issues "\<lambda>_. 1", OF add_blocking_counts(1)] by (simp add: sum_list_triv)
qed (subst blocking_sum [OF add_blocking_counts(2)] blocking_sum [OF add_blocking_counts(3)] blocking_sum [OF add_blocking_counts(4)],
     simp, rule sum_if_count)+

section \<open>What a ready period has\<close>

text \<open>No statement of the database fails.\<close>

definition calm :: "db \<Rightarrow> bool" where
  "calm s \<longleftrightarrow> (\<forall>n. \<not> db_fail s n)"

lemma calm_tables: "same_tables s s' \<Longrightarrow> calm s' = calm s"
  by (simp add: calm_def same_tables_fields)

text \<open>The stored rows of an import, and what the diagnostics ask of a row and of any other receipt.\<close>

definition import_rows_of :: "db \<Rightarrow> string \<Rightarrow> import_row list" where
  "import_rows_of s i = filter (\<lambda>r. ir_receipt r = i) (db_import_rows s)"

lemma import_rows_of_tables: "same_tables s s' \<Longrightarrow> import_rows_of s' = import_rows_of s"
  by (simp add: import_rows_of_def same_tables_fields fun_eq_iff)

lemma diag_rows_clear:
  "dg_exceptions (foldl (diag_row rc) d rows) = [] \<longleftrightarrow>
     dg_exceptions d = [] \<and> (\<forall>r\<in>set rows. im_account r \<noteq> [] \<and> im_status r = ''posted'')"
  by (induction rows arbitrary: d) (auto simp: diag_row_def Let_def)

lemma diag_rows_refs:
  "dg_refs (foldl (diag_row rc) d rows) =
     dg_refs d @ map (\<lambda>r. (im_fingerprint r, row_exception rc r ''duplicate import row fingerprint'')) (filter (\<lambda>r. im_fingerprint r \<noteq> []) rows)"
  by (induction rows arbitrary: d) (auto simp: diag_row_def Let_def)

text \<open>The fingerprints a receipt adds to the map, one for each stored row in scope.\<close>

definition scoped_rows :: "tax_scope \<Rightarrow> db \<Rightarrow> receipt \<Rightarrow> import_row list" where
  "scoped_rows sc s rc = (if r_kind rc = ''import''
     then filter (\<lambda>r. date_in_scope (ir_date r) sc) (sort_by (\<lambda>a b. ir_index a < ir_index b) (import_rows_of s (r_id rc))) else [])"

definition receipt_clear :: "tax_scope \<Rightarrow> db \<Rightarrow> receipt \<Rightarrow> bool" where
  "receipt_clear sc s rc \<longleftrightarrow>
     (\<forall>r\<in>set (scoped_rows sc s rc). strOf (ir_account r) \<noteq> [] \<and> ir_status r = ''posted'') \<and>
     ((r_kind rc \<noteq> ''import'' \<or> import_rows_of s (r_id rc) = []) \<and> instant_in_scope (r_uploaded rc) sc \<longrightarrow> r_status rc = ''posted'')"

lemma diag_other_clear:
  assumes "diag_other h sc rc d s = (Inr d', s')"
  shows "same_tables s s' \<and> dg_refs d' = dg_refs d \<and>
    (dg_exceptions d' = [] \<longrightarrow> dg_exceptions d = [] \<and> (instant_in_scope (r_uploaded rc) sc \<longrightarrow> r_status rc = ''posted''))"
proof (cases "instant_in_scope (r_uploaded rc) sc")
  case False
  then show ?thesis using assms by (simp add: diag_other_def dret_eq)
next
  case True
  define e where "e = (if r_status rc \<noteq> ''posted'' then noted rc ''not posted'' d else d)"
  have e: "dg_refs e = dg_refs d" "dg_exceptions e = [] \<Longrightarrow> dg_exceptions d = [] \<and> r_status rc = ''posted''"
    by (auto simp: e_def noted_def split: if_splits)
  have eq: "diag_other h sc rc d = (if r_kind rc \<noteq> ''import'' \<or> \<not> kh_suggestions h then dret e
      else dbind (dtry (ReceiptSuggestionStore_LatestByReceiptID (r_id rc))) (\<lambda>r. case r of
          Inl _ \<Rightarrow> dret (noted rc ''missing import suggestion/row mapping''
            (e\<lparr>dg_summary := dg_summary e @ [[r_id rc, r_original rc, r_status rc] @ replicate 11 []]\<rparr>))
        | Inr sg \<Rightarrow> dret (diag_suggestion h sc rc sg e)))"
    using True unfolding diag_other_def Let_def e_def [symmetric] by (simp only: if_False not_True_eq_False)
  show ?thesis
  proof (cases "r_kind rc \<noteq> ''import'' \<or> \<not> kh_suggestions h")
    case True
    then have "d' = e \<and> s' = s" using assms unfolding eq by (simp only: if_True dret_eq sum.inject)
    then show ?thesis using e by auto
  next
    case False
    then obtain r where r: "ReceiptSuggestionStore_LatestByReceiptID (r_id rc) s = (r, s')"
      and d': "d' = (case r of Inl _ \<Rightarrow> noted rc ''missing import suggestion/row mapping''
              (e\<lparr>dg_summary := dg_summary e @ [[r_id rc, r_original rc, r_status rc] @ replicate 11 []]\<rparr>)
          | Inr sg \<Rightarrow> diag_suggestion h sc rc sg e)"
    proof -
      obtain r s1 where "ReceiptSuggestionStore_LatestByReceiptID (r_id rc) s = (r, s1)" by fastforce
      then show ?thesis
        using assms that [of r] unfolding eq if_not_P [OF False] by (cases r) (auto simp: dret_eq dbind_Inr dtry_eq)
    qed
    have "same_tables s s'"
      using r by (auto simp: ReceiptSuggestionStore_LatestByReceiptID_def dbind_def dthrow_def dret_def dest: select_tables
          split: prod.splits sum.splits list.splits)
    moreover have "dg_refs d' = dg_refs e" "dg_exceptions d' = [] \<Longrightarrow> dg_exceptions e = []"
      unfolding d' by (auto simp: noted_def diag_suggestion_def split: sum.splits prod.splits)
    ultimately show ?thesis using e by auto
  qed
qed

lemma diag_receipt_clear:
  assumes "diag_receipt h sc rc d s = (Inr d', s')" "calm s" "kh_import_rows h"
  shows "same_tables s s' \<and> (dg_exceptions d' = [] \<longrightarrow> dg_exceptions d = [] \<and> receipt_clear sc s rc) \<and>
    dg_refs d' = dg_refs d @ map (\<lambda>r. (ir_fingerprint r, row_exception rc (importRowFromRow r) ''duplicate import row fingerprint''))
      (filter (\<lambda>r. ir_fingerprint r \<noteq> []) (scoped_rows sc s rc))"
proof (cases "r_kind rc = ''import''")
  case False
  then have "diag_other h sc rc d s = (Inr d', s')" using assms by (simp add: diag_receipt_def dbind_def dret_def)
  from diag_other_clear [OF this] show ?thesis using False by (simp add: receipt_clear_def scoped_rows_def)
next
  case True
  let ?sorted = "sort_by (\<lambda>a b. ir_index a < ir_index b) (import_rows_of s (r_id rc))"
  define s1 where "s1 = s\<lparr>db_tick := db_tick s + 1\<rparr>"
  have q: "ImportRowStore_ListByReceiptID (r_id rc) s = (Inr (map importRowFromRow ?sorted), s1)"
    using assms(2) by (simp add: ImportRowStore_ListByReceiptID_def dbind_def select_all_def stmt_def calm_def dret_def s1_def import_rows_of_def)
  have t: "same_tables s s1" by (simp add: s1_def)
  show ?thesis
  proof (cases "import_rows_of s (r_id rc) = []")
    case True
    then have "?sorted = []" by (simp add: sort_by_def)
    then have "diag_other h sc rc d s1 = (Inr d', s')"
      using assms \<open>r_kind rc = _\<close> q by (simp add: diag_receipt_def dbind_def dtry_def)
    from diag_other_clear [OF this] show ?thesis
      using True t \<open>?sorted = []\<close> by (auto simp: receipt_clear_def scoped_rows_def intro: same_tables_trans)
  next
    case False
    then have ne: "?sorted \<noteq> []" by (metis length_0_conv length_sort_by)
    have scoped: "importRowsInScope (map importRowFromRow ?sorted) sc = map importRowFromRow (scoped_rows sc s rc)"
      using True by (simp add: importRowsInScope_def scoped_rows_def filter_map comp_def importRowFromRow_def)
    obtain r0 rest where rr: "map importRowFromRow ?sorted = r0 # rest" using ne by (cases "map importRowFromRow ?sorted") auto
    have d': "d' = (if scoped_rows sc s rc = [] then d
        else foldl (diag_row rc) (d\<lparr>dg_summary := dg_summary d @ [importRowsSummary (r_id rc) (r_original rc) (r_status rc)
          (map importRowFromRow (scoped_rows sc s rc))]\<rparr>) (map importRowFromRow (scoped_rows sc s rc)))" "s' = s1"
      using assms True q scoped unfolding rr by (auto simp: diag_receipt_def dbind_def dtry_def dret_def Let_def)
    show ?thesis
      using False True t unfolding d'
      by (auto simp: receipt_clear_def diag_rows_clear diag_rows_refs filter_map comp_def importRowFromRow_def)
  qed
qed

lemma diag_receipts_clear:
  assumes "diag_receipts h sc rcs d s = (Inr d', s')" "calm s" "kh_import_rows h"
  shows "same_tables s s' \<and> (dg_exceptions d' = [] \<longrightarrow> dg_exceptions d = [] \<and> (\<forall>rc\<in>set rcs. receipt_clear sc s rc)) \<and>
    map fst (dg_refs d') = map fst (dg_refs d) @ filter (\<lambda>f. f \<noteq> []) (map ir_fingerprint (concat (map (scoped_rows sc s) rcs)))"
  using assms(1,2)
proof (induction rcs arbitrary: d s)
  case (Cons rc rcs)
  obtain d1 s1 where 1: "diag_receipt h sc rc d s = (Inr d1, s1)" "diag_receipts h sc rcs d1 s1 = (Inr d', s')"
    using Cons.prems by (auto simp: dbind_Inr)
  note c = diag_receipt_clear [OF 1(1) Cons.prems(2) assms(3)]
  have calm1: "calm s1" using c Cons.prems(2) calm_tables by blast
  have "import_rows_of s1 = import_rows_of s" using c import_rows_of_tables by blast
  then have eq: "receipt_clear sc s1 = receipt_clear sc s" "scoped_rows sc s1 = scoped_rows sc s"
    by (simp_all add: receipt_clear_def [abs_def] scoped_rows_def [abs_def] cong: if_cong)
  show ?case
    using Cons.IH [OF 1(2) calm1] c unfolding eq by (auto simp: filter_map comp_def intro: same_tables_trans)
qed (simp add: dret_eq)

lemma length_filter_one: "length (filter P xs) \<le> 1 \<Longrightarrow> x \<in> set xs \<Longrightarrow> y \<in> set xs \<Longrightarrow> P x \<Longrightarrow> P y \<Longrightarrow> x = y"
proof -
  assume a: "length (filter P xs) \<le> 1" "x \<in> set xs" "y \<in> set xs" "P x" "P y"
  define ys where "ys = filter P xs"
  have "x \<in> set ys" "y \<in> set ys" "length ys \<le> 1" using a by (auto simp: ys_def)
  then show "x = y" by (cases ys) auto
qed

lemma duplicates_unique:
  assumes "duplicates h d = []" "\<And>xs. set (kh_order h xs) = set xs" "f \<in> set (map fst (dg_refs d))"
  shows "length (filter (\<lambda>x. x = f) (map fst (dg_refs d))) \<le> 1"
proof -
  have "f \<in> set (kh_order h (dedup_from [] (map fst (dg_refs d))))" using assms(2,3) by (simp add: set_dedup_from)
  then have "\<not> 1 < length (refs_of f d) \<or> refs_of f d = []" using assms(1) by (auto simp: duplicates_def split: if_splits)
  then have "length (refs_of f d) \<le> 1" by auto
  then show ?thesis by (simp add: refs_of_def filter_map comp_def)
qed

text \<open>The statement query, when no sum overflows.\<close>

definition sums_fit :: "db \<Rightarrow> bool" where
  "sums_fit s \<longleftrightarrow> (\<forall>j\<in>set (joined_rows s). in_int64 (jn_in j) \<and> in_int64 (jn_out j) \<and> in_int64 (jn_posted_in j) \<and>
     in_int64 (jn_posted_out j) \<and> in_int64 (jn_unposted j))"

definition joined_model :: "joined_row \<Rightarrow> statement" where
  "joined_model j = accountStatementFromRow (jn_row j) (jn_account j) (jn_name j) (word_of_int (jn_in j)) (word_of_int (jn_out j))
     (word_of_int (jn_posted_in j)) (word_of_int (jn_posted_out j)) (word_of_int (jn_unposted j))"

lemma scan_statements_fit:
  "(\<And>j. j \<in> set js \<Longrightarrow> in_int64 (jn_in j) \<and> in_int64 (jn_out j) \<and> in_int64 (jn_posted_in j) \<and>
     in_int64 (jn_posted_out j) \<and> in_int64 (jn_unposted j)) \<Longrightarrow> scan_statements js s = (Inr (map joined_model js), s)"
  by (induction js) (auto simp: scan_statement_def scan_int64_def dbind_def dret_def joined_model_def)

definition overlapping :: "tax_scope \<Rightarrow> db \<Rightarrow> joined_row list" where
  "overlapping sc s = filter (\<lambda>j. bs_entity (jn_row j) = sc_entity sc \<and> date_le (sc_start sc) (bs_to (jn_row j)) \<and>
     date_le (bs_from (jn_row j)) (sc_end sc)) (joined_rows s)"

lemma joined_rows_tables: "same_tables s s' \<Longrightarrow> joined_rows s' = joined_rows s"
  by (simp add: joined_rows_def join_statement_def statement_lines_def Let_def same_tables_fields cong: map_cong)

lemma statements_clear:
  assumes "taxStatementExceptions h sc s = (Inr [], s')" "calm s" "kh_statements h" "sums_fit s" "length (overlapping sc s) \<le> 1000"
    "j \<in> set (overlapping sc s)"
  shows "statement_exceptions (joined_model j) = []"
proof -
  define js where "js = take (nat 1000) (sort_by (\<lambda>j k. \<not> date_le (bs_from (jn_row j)) (bs_from (jn_row k)) \<or>
      bs_from (jn_row j) = bs_from (jn_row k) \<and> bs_created (jn_row k) < bs_created (jn_row j)) (overlapping sc s))"
  have set_js: "set js = set (overlapping sc s)" using assms(5) by (simp add: js_def)
  have "AccountStatementStore_List (sc_entity sc) [] (Some (sc_start sc)) (Some (sc_end sc)) 1000 s =
      (Inr (map joined_model js), s\<lparr>db_tick := db_tick s + 1\<rparr>)"
  proof -
    have "scan_statements js (s\<lparr>db_tick := db_tick s + 1\<rparr>) = (Inr (map joined_model js), s\<lparr>db_tick := db_tick s + 1\<rparr>)"
      by (rule scan_statements_fit) (use assms(4) set_js in \<open>auto simp: sums_fit_def overlapping_def\<close>)
    then show ?thesis
      using assms(2) by (simp add: AccountStatementStore_List_def dbind_def select_all_def stmt_def calm_def Let_def js_def overlapping_def)
  qed
  then have "concat (map statement_exceptions (map joined_model js)) = []"
    using assms(1,3) by (simp add: taxStatementExceptions_def dbind_def dtry_def dret_def)
  then show ?thesis using assms(6) set_js by auto
qed

lemma profile_clear:
  assumes "taxUseProfileExceptions h ent year s = (Inr [], s')" "calm s"
  shows "\<exists>r\<in>set (ex_tax (db_extra s)). tz_entity r = ent \<and> tz_year r = year \<and> tz_office r \<noteq> None \<and> tz_total r \<noteq> None \<and>
    tz_cell r \<noteq> None \<and> tz_internet r \<noteq> None"
proof -
  obtain p where p: "loadTaxUseProfile h ent year s = (Inr p, s')" "fp_status p = ''complete''"
    using assms(1) by (auto simp: taxUseProfileExceptions_def dbind_Inr dret_eq split: if_splits)
  have k: "kh_settings h" using p by (auto simp: loadTaxUseProfile_def dret_eq Let_def split: if_splits)
  obtain t where g: "EntityTaxSettingsStore_Get ent year s = (Inr t, s')" and c: "ts_created t \<noteq> zero_time"
    "ts_office t \<noteq> None" "ts_total t \<noteq> None" "ts_cell t \<noteq> None" "ts_internet t \<noteq> None"
  proof -
    obtain r s1 where r: "EntityTaxSettingsStore_Get ent year s = (r, s1)" by fastforce
    show ?thesis
    proof (cases r)
      case (Inl e)
      then show ?thesis using p k r by (auto simp: loadTaxUseProfile_def dbind_Inr dret_eq dtry_eq Let_def)
    next
      case (Inr t)
      then show ?thesis
        using p k r that [of t] by (auto simp: loadTaxUseProfile_def dbind_Inr dret_eq dtry_eq Let_def split: if_splits)
    qed
  qed
  obtain r where "find (\<lambda>r. tz_entity r = ent \<and> tz_year r = year) (ex_tax (db_extra s)) = Some r" "t = entityTaxSettingsFromRow r"
    using g c by (auto simp: EntityTaxSettingsStore_Get_def dbind_Inr dret_eq select_one_Inr no_settings_def split: option.splits)
  then show ?thesis using c by (auto simp: find_Some_iff entityTaxSettingsFromRow_def intro!: bexI [of _ r])
qed

lemma readiness_reads:
  "keeps (same_tables s) (taxUseProfileExceptions h ent y)" "keeps (same_tables s) (taxAccountRoleExceptions h ent y)"
proof -
  have p: "keeps (same_tables s) (loadTaxUseProfile h ent y)"
    unfolding loadTaxUseProfile_def EntityTaxSettingsStore_Get_def Let_def by (intro reads.keep_flow)
  have as: "keeps (same_tables s) (accountsFromRows rows)" for rows
    by (induction rows) (auto simp: accountFromRow_def ListByAccountID_def intro!: reads.keep_flow)
  have c: "keeps (same_tables s) (loadAccountRoleCoverage h ent)"
    unfolding loadAccountRoleCoverage_def AccountStore_ListForEntity_def Let_def by (intro reads.keep_flow as)
  show "keeps (same_tables s) (taxUseProfileExceptions h ent y)" "keeps (same_tables s) (taxAccountRoleExceptions h ent y)"
    unfolding taxUseProfileExceptions_def taxAccountRoleExceptions_def by (intro reads.keep_flow p c)+
qed

text \<open>What a period is asked for: its import rows, its receipts, its statements and the profile of its year.\<close>

definition tax_rows :: "tax_scope \<Rightarrow> db \<Rightarrow> import_row list" where
  "tax_rows sc s = filter (\<lambda>r. date_in_scope (ir_date r) sc \<and>
     (\<exists>rc\<in>set (db_receipts s). rc_id rc = ir_receipt r \<and> rc_entity rc = sc_entity sc \<and> rc_kind rc = ''import'')) (db_import_rows s)"

definition period_clear :: "tax_scope \<Rightarrow> db \<Rightarrow> bool" where
  "period_clear sc s \<longleftrightarrow>
     (\<forall>r\<in>set (tax_rows sc s). strOf (ir_account r) \<noteq> [] \<and> ir_status r = ''posted'') \<and>
     (\<forall>r\<in>set (tax_rows sc s). \<forall>q\<in>set (tax_rows sc s). ir_fingerprint r = ir_fingerprint q \<and> ir_fingerprint r \<noteq> [] \<longrightarrow> r = q) \<and>
     (\<forall>rc\<in>set (db_receipts s). rc_entity rc = sc_entity sc \<and> (rc_kind rc \<noteq> ''import'' \<or> import_rows_of s (rc_id rc) = []) \<and>
        instant_in_scope (rc_uploaded rc) sc \<longrightarrow> rc_status rc = ''posted'') \<and>
     (\<forall>j\<in>set (overlapping sc s). bs_status (jn_row j) \<in> {''reconciled'', ''locked''} \<and> jn_unposted j = 0 \<and>
        bs_ending (jn_row j) = bs_starting (jn_row j) + word_of_int (jn_in j) - word_of_int (jn_out j)) \<and>
     (\<exists>r\<in>set (ex_tax (db_extra s)). tz_entity r = sc_entity sc \<and> tz_year r = d_year (sc_start sc) \<and> tz_office r \<noteq> None \<and>
        tz_total r \<noteq> None \<and> tz_cell r \<noteq> None \<and> tz_internet r \<noteq> None)"

lemma period_clear_tables: "same_tables s s' \<Longrightarrow> period_clear sc s' = period_clear sc s"
  by (simp add: period_clear_def tax_rows_def overlapping_def same_tables_fields joined_rows_tables import_rows_of_tables)

lemma statement_exceptions_Nil:
  "statement_exceptions m = [] \<longleftrightarrow> acs_difference m = 0 \<and> \<not> 0 < i64 (acs_unposted m) \<and> acs_status m \<in> {''reconciled'', ''locked''}"
  unfolding statement_exceptions_def Let_def append_is_Nil_conv by (simp only: insert_iff empty_iff if_split_eq1 list.distinct) blast

lemma statement_exceptions_clear:
  assumes "statement_exceptions (joined_model j) = []" "in_int64 (jn_unposted j)" "0 \<le> jn_unposted j"
  shows "bs_status (jn_row j) \<in> {''reconciled'', ''locked''} \<and> jn_unposted j = 0 \<and>
    bs_ending (jn_row j) = bs_starting (jn_row j) + word_of_int (jn_in j) - word_of_int (jn_out j)"
proof -
  have "acs_difference (joined_model j) = 0" "\<not> 0 < i64 (acs_unposted (joined_model j))" "acs_status (joined_model j) \<in> {''reconciled'', ''locked''}"
    using assms(1) unfolding statement_exceptions_Nil by blast+
  then show ?thesis
    using assms(2,3) by (simp add: joined_model_def accountStatementFromRow_def Let_def StatementDifference_def
        StatementExpectedEndingBalance_def i64_of_int del: insert_iff)
qed

lemma imports_clear:
  assumes "taxImportDiagnostics h sc s = (Inr ([], summary), s')" "calm s" "kh_receipts h" "kh_import_rows h"
    "\<And>xs. set (kh_order h xs) = set xs" "length (filter (\<lambda>rc. rc_entity rc = sc_entity sc) (db_receipts s)) \<le> 10000"
  shows "same_tables s s' \<and> (\<forall>rc\<in>set (db_receipts s). rc_entity rc = sc_entity sc \<longrightarrow> receipt_clear sc s (receiptFromRow rc)) \<and>
    (\<forall>r\<in>set (tax_rows sc s). \<forall>q\<in>set (tax_rows sc s). ir_fingerprint r = ir_fingerprint q \<and> ir_fingerprint r \<noteq> [] \<longrightarrow> r = q)"
proof -
  let ?d0 = "\<lparr>dg_exceptions = [], dg_summary = [import_summary_header], dg_refs = []\<rparr>"
  define rcs where "rcs = map receiptFromRow (select_receipts (\<lambda>r. rc_entity r = sc_entity sc) 10000 s)"
  define s1 where "s1 = s\<lparr>db_tick := db_tick s + 1\<rparr>"
  have t1: "same_tables s s1" by (simp add: s1_def)
  have set_rcs: "set rcs = receiptFromRow ` {rc \<in> set (db_receipts s). rc_entity rc = sc_entity sc}"
    using assms(6) by (simp add: rcs_def select_receipts_def)
  have "ReceiptStore_List (sc_entity sc) [] 10000 s = (Inr rcs, s1)"
    using assms(2) by (simp add: ReceiptStore_List_def dbind_def select_all_def stmt_def calm_def dret_def rcs_def s1_def select_receipts_def)
  then obtain d where d: "diag_receipts h sc rcs ?d0 s1 = (Inr d, s')" "dg_exceptions d = []" "duplicates h d = []"
    using assms(1,3) by (auto simp: taxImportDiagnostics_def dbind_Inr dret_eq Let_def)
  have c: "same_tables s1 s'" "\<forall>rc\<in>set rcs. receipt_clear sc s rc"
    "map fst (dg_refs d) = filter (\<lambda>f. f \<noteq> []) (map ir_fingerprint (concat (map (scoped_rows sc s) rcs)))"
  proof -
    have "import_rows_of s1 = import_rows_of s" using t1 by (rule import_rows_of_tables)
    then have eq: "receipt_clear sc s1 = receipt_clear sc s" "scoped_rows sc s1 = scoped_rows sc s"
      by (simp_all add: receipt_clear_def [abs_def] scoped_rows_def [abs_def] cong: if_cong)
    have "calm s1" using assms(2) calm_tables [OF t1] by simp
    from diag_receipts_clear [OF d(1) this assms(4)] d(2) show "same_tables s1 s'" "\<forall>rc\<in>set rcs. receipt_clear sc s rc"
      "map fst (dg_refs d) = filter (\<lambda>f. f \<noteq> []) (map ir_fingerprint (concat (map (scoped_rows sc s) rcs)))"
      unfolding eq by auto
  qed
  have mem: "r \<in> set (concat (map (scoped_rows sc s) rcs))" if m: "r \<in> set (tax_rows sc s)" for r
  proof -
    obtain rc where rc: "rc \<in> set (db_receipts s)" "rc_id rc = ir_receipt r" "rc_entity rc = sc_entity sc" "rc_kind rc = ''import''"
      and r: "date_in_scope (ir_date r) sc" "r \<in> set (db_import_rows s)"
      using m by (auto simp: tax_rows_def)
    have "receiptFromRow rc \<in> set rcs" using rc unfolding set_rcs by blast
    moreover have "r \<in> set (scoped_rows sc s (receiptFromRow rc))"
      using rc r by (simp add: scoped_rows_def import_rows_of_def receiptFromRow_def)
    ultimately show ?thesis by auto
  qed
  have unique: "r = q" if rq: "r \<in> set (tax_rows sc s)" "q \<in> set (tax_rows sc s)" "ir_fingerprint r = ir_fingerprint q" "ir_fingerprint r \<noteq> []" for r q
  proof (rule length_filter_one)
    have "ir_fingerprint r \<in> set (map fst (dg_refs d))" using mem [OF rq(1)] rq(4) unfolding c(3) by auto
    from duplicates_unique [OF d(3) assms(5) this]
    show "length (filter (\<lambda>x. ir_fingerprint x = ir_fingerprint r) (concat (map (scoped_rows sc s) rcs))) \<le> 1"
      using rq(4) unfolding c(3) by (simp add: filter_map comp_def cong: conj_cong) (metis (mono_tags, lifting) filter_cong)
  qed (use mem rq in auto)
  show ?thesis using c(1,2) t1 set_rcs unique by (auto intro: same_tables_trans)
qed

lemma parseTaxPackParams_Inr:
  assumes "parseTaxPackParams h q k s = ((st, Inr b), s')"
  obtains sc s0 where "same_tables s s0" "sc_entity sc = kq_entity q" "k sc s0 = ((st, Inr b), s')"
proof (cases "trim_space (kq_year q) = []")
  case True
  then obtain start en where "k \<lparr>sc_entity = kq_entity q, sc_start = start, sc_end = en, sc_label = kq_start q @ ''-to-'' @ kq_end q\<rparr> s =
      ((st, Inr b), s')"
    using assms unfolding parseTaxPackParams_def by (auto simp: Let_def split: if_splits option.splits)
  then show ?thesis by (intro that [OF same_tables_refl]) simp_all
next
  case False
  then obtain year r s1 where r: "fiscalYearRange (kq_entity q) year s = (Inr r, s1)"
    and k: "(case r of None \<Rightarrow> no_answer
      | Some (start, en) \<Rightarrow> k \<lparr>sc_entity = kq_entity q, sc_start = start, sc_end = en, sc_label = trim_space (kq_year q)\<rparr>) s1 = ((st, Inr b), s')"
    using assms unfolding parseTaxPackParams_def by (auto simp: Let_def ecall_ok split: if_splits option.splits)
  have t: "same_tables s s1"
  proof (rule readsD)
    show "keeps (same_tables s) (fiscalYearRange (kq_entity q) year)"
      by (auto simp: fiscalYearRange_def EntityStore_GetByID_def intro!: reads.keep_flow split: prod.split)
  qed (rule r)
  obtain start en where "r = Some (start, en)" using k by (cases r) (auto simp: no_answer_def)
  then show ?thesis using k by (intro that [OF t, of "\<lparr>sc_entity = kq_entity q, sc_start = start, sc_end = en, sc_label = trim_space (kq_year q)\<rparr>"]) simp_all
qed

lemma exceptions_clear:
  assumes "tax_exceptions h sc s = (Inr ([], summary), s')" "calm s" "kh_receipts h \<and> kh_import_rows h \<and> kh_statements h"
    "\<And>xs. set (kh_order h xs) = set xs" "length (filter (\<lambda>rc. rc_entity rc = sc_entity sc) (db_receipts s)) \<le> 10000"
    "length (overlapping sc s) \<le> 1000" "sums_fit s"
  shows "period_clear sc s"
proof -
  let ?y = "d_year (sc_start sc)"
  obtain s1 s2 s3 where i: "taxImportDiagnostics h sc s = (Inr ([], summary), s1)"
    and p: "taxUseProfileExceptions h (sc_entity sc) ?y s1 = (Inr [], s2)"
    and a: "taxAccountRoleExceptions h (sc_entity sc) ?y s2 = (Inr [], s3)"
    and m: "taxStatementExceptions h sc s3 = (Inr [], s')"
    using assms(1) by (auto simp: tax_exceptions_def dbind_Inr dret_eq split: prod.splits)
  have c: "same_tables s s1" "\<forall>rc\<in>set (db_receipts s). rc_entity rc = sc_entity sc \<longrightarrow> receipt_clear sc s (receiptFromRow rc)"
    "\<forall>r\<in>set (tax_rows sc s). \<forall>q\<in>set (tax_rows sc s). ir_fingerprint r = ir_fingerprint q \<and> ir_fingerprint r \<noteq> [] \<longrightarrow> r = q"
    using imports_clear [OF i assms(2) _ _ assms(4,5)] assms(3) by blast+
  have t3: "same_tables s s3"
    using c(1) readsD [OF readiness_reads(1) p] readsD [OF readiness_reads(2) a] by (blast intro: same_tables_trans)
  have rows: "strOf (ir_account r) \<noteq> [] \<and> ir_status r = ''posted''" if r: "r \<in> set (tax_rows sc s)" for r
  proof -
    obtain rc where rc: "rc \<in> set (db_receipts s)" "rc_id rc = ir_receipt r" "rc_entity rc = sc_entity sc" "rc_kind rc = ''import''"
      and d: "date_in_scope (ir_date r) sc" "r \<in> set (db_import_rows s)"
      using r by (auto simp: tax_rows_def)
    have "r \<in> set (scoped_rows sc s (receiptFromRow rc))"
      using rc d by (simp add: scoped_rows_def import_rows_of_def receiptFromRow_def)
    then show ?thesis using c(2) rc unfolding receipt_clear_def by blast
  qed
  have receipts: "rc_status rc = ''posted''"
    if "rc \<in> set (db_receipts s)" "rc_entity rc = sc_entity sc" "rc_kind rc \<noteq> ''import'' \<or> import_rows_of s (rc_id rc) = []"
      "instant_in_scope (rc_uploaded rc) sc" for rc
    using that c(2) unfolding receipt_clear_def by (fastforce simp: receiptFromRow_def)
  have statements: "bs_status (jn_row j) \<in> {''reconciled'', ''locked''} \<and> jn_unposted j = 0 \<and>
        bs_ending (jn_row j) = bs_starting (jn_row j) + word_of_int (jn_in j) - word_of_int (jn_out j)" if j: "j \<in> set (overlapping sc s)" for j
  proof (rule statement_exceptions_clear)
    have eq: "overlapping sc s3 = overlapping sc s" "sums_fit s3 = sums_fit s"
      using joined_rows_tables [OF t3] by (simp_all add: overlapping_def sums_fit_def)
    show "statement_exceptions (joined_model j) = []"
      using statements_clear [OF m, of j] assms calm_tables [OF t3] j unfolding eq by simp
    show "in_int64 (jn_unposted j)" using assms(7) j by (simp add: sums_fit_def overlapping_def)
    show "0 \<le> jn_unposted j" using j by (auto simp: overlapping_def dest!: joined_rows_mem simp: join_statement_def Let_def)
  qed
  have profile: "\<exists>r\<in>set (ex_tax (db_extra s)). tz_entity r = sc_entity sc \<and> tz_year r = ?y \<and> tz_office r \<noteq> None \<and>
        tz_total r \<noteq> None \<and> tz_cell r \<noteq> None \<and> tz_internet r \<noteq> None"
    using profile_clear [OF p] assms(2) calm_tables [OF c(1)] by (simp add: same_tables_fields [OF c(1)])
  show ?thesis unfolding period_clear_def using rows c(3) receipts statements profile by blast
qed

text \<open>
  C9.  A period that \<open>GET /reports/tax-readiness\<close> reports as ready has nothing open, while the database answers and no more
  than 10000 receipts and 1000 statements are to be looked at: every import row of the period has an account and is posted,
  no fingerprint occurs twice, every other receipt of the period is posted, every statement that overlaps it is reconciled and
  adds up without unposted rows, and the home-use profile of the year is complete.
\<close>

theorem tax_ready_sound:
  assumes "handleReportTaxReadiness h q s = ((st, Inr rd), s')" "rd_ready rd" "calm s"
    "kh_receipts h \<and> kh_import_rows h \<and> kh_statements h" "\<And>xs. set (kh_order h xs) = set xs"
    "length (filter (\<lambda>rc. rc_entity rc = kq_entity q) (db_receipts s)) \<le> 10000"
    "length (overlapping (rd_scope rd) s) \<le> 1000" "sums_fit s"
  shows "period_clear (rd_scope rd) s"
proof -
  obtain sc s0 where sc: "same_tables s s0" "sc_entity sc = kq_entity q"
    and k: "ecall (tax_exceptions h sc) internalError (\<lambda>(xs, summary).
     ecall (TransactionsForExport (sc_entity sc) (sc_start sc) (sc_end sc)) internalError (\<lambda>rows.
     ecall (loadTaxUseProfile h (sc_entity sc) (d_year (sc_start sc))) internalError (\<lambda>profile.
     ecall (loadAccountRoleCoverage h (sc_entity sc)) internalError (\<lambda>coverage.
       answer 200 \<lparr>rd_scope = sc, rd_ready = (xs = []), rd_count = int (length xs), rd_lines = int (length rows),
         rd_imports = importSummaryRows summary, rd_blocking = blockingSummaryRows xs, rd_profile = profile,
         rd_coverage = coverage, rd_actions = taxActionItems xs, rd_exceptions = xs\<rparr>)))) s0 = ((st, Inr rd), s')"
    using assms(1) unfolding handleReportTaxReadiness_def by (rule parseTaxPackParams_Inr)
  obtain xs summary s1 where x: "tax_exceptions h sc s0 = (Inr (xs, summary), s1)" "rd_scope rd = sc" "rd_ready rd = (xs = [])"
    using k by (auto simp: ecall_ok split: prod.splits)
  have "sums_fit s0" "length (overlapping sc s0) \<le> 1000"
    using assms(7,8) x(2) joined_rows_tables [OF sc(1)] by (simp_all add: sums_fit_def overlapping_def)
  moreover have "length (filter (\<lambda>rc. rc_entity rc = sc_entity sc) (db_receipts s0)) \<le> 10000"
    using assms(6) sc by (simp add: same_tables_fields)
  ultimately have "period_clear sc s0"
    using exceptions_clear [of h sc s0 summary s1] x assms(2-5) calm_tables [OF sc(1)] by auto
  then show ?thesis using x(2) period_clear_tables [OF sc(1)] by simp
qed

text \<open>A complete year: one import with a posted row and a reconciled statement, and the profile of 2024.\<close>

definition sample_kh :: tax_hc where
  "sample_kh = \<lparr>kh_reports = True, kh_entities = True, kh_receipts = True, kh_import_rows = True, kh_suggestions = True, kh_statements = True,
     kh_accounts = True, kh_settings = True, kh_mileage = True, kh_rates = True, kh_decode = (\<lambda>_. None), kh_order = (\<lambda>xs. xs)\<rparr>"

definition sample_tax_query :: tax_query where
  "sample_tax_query = \<lparr>kq_entity = ''E'', kq_year = ''2024'', kq_start = [], kq_end = []\<rparr>"

definition sample_tax_db :: db where
  "sample_tax_db = sample_statement_db\<lparr>
     db_role_tags := [(''k'', ''utilities''), (''k'', ''cell_phone''), (''k'', ''internet'')],
     db_extra := (db_extra sample_statement_db)\<lparr>
       ex_statements := [\<lparr>bs_id = ''b'', bs_entity = ''E'', bs_account = ''k'', bs_receipt = Some ''i'',
         bs_from = \<lparr>d_year = 2024, d_month = 3, d_day = 1\<rparr>, bs_to = \<lparr>d_year = 2024, d_month = 3, d_day = 31\<rparr>,
         bs_starting = 100, bs_ending = 150, bs_status = ''reconciled'', bs_notes = None, bs_created = 0, bs_updated = 0\<rparr>],
       ex_tax :=
       [\<lparr>tz_entity = ''E'', tz_year = 2024, tz_office = Some 150, tz_total = Some 1200, tz_cell = Some 80, tz_internet = Some 50,
         tz_created = 1, tz_updated = 1\<rparr>]\<rparr>\<rparr>"

definition sample_scope :: tax_scope where
  "sample_scope = \<lparr>sc_entity = ''E'', sc_start = \<lparr>d_year = 2024, d_month = 1, d_day = 1\<rparr>, sc_end = \<lparr>d_year = 2024, d_month = 12, d_day = 31\<rparr>,
     sc_label = ''2024''\<rparr>"

lemma sample_ready:
  obtains st rd s' where "handleReportTaxReadiness sample_kh sample_tax_query sample_tax_db = ((st, Inr rd), s')" "rd_ready rd" "rd_scope rd = sample_scope"
proof -
  have "case snd (fst (handleReportTaxReadiness sample_kh sample_tax_query sample_tax_db)) of Inl _ \<Rightarrow> False
      | Inr rd \<Rightarrow> rd_ready rd \<and> rd_scope rd = sample_scope"
    by code_simp
  then show ?thesis
    by (cases "handleReportTaxReadiness sample_kh sample_tax_query sample_tax_db") (auto intro: that split: sum.splits)
qed

theorem tax_ready_sound_witness:
  "period_clear sample_scope sample_tax_db \<and> length (tax_rows sample_scope sample_tax_db) = 1 \<and>
   (\<exists>st rd s'. handleReportTaxReadiness sample_kh sample_tax_query sample_tax_db = ((st, Inr rd), s') \<and> rd_ready rd \<and> rd_scope rd = sample_scope)"
proof -
  obtain st rd s' where r: "handleReportTaxReadiness sample_kh sample_tax_query sample_tax_db = ((st, Inr rd), s')" "rd_ready rd"
      "rd_scope rd = sample_scope" by (rule sample_ready)
  have "db_fail sample_tax_db = (\<lambda>_. False)"
    by (simp add: sample_tax_db_def sample_statement_db_def sample_org_db_def empty_db_def)
  then have c: "calm sample_tax_db" by (simp add: calm_def)
  have k: "kh_receipts sample_kh \<and> kh_import_rows sample_kh \<and> kh_statements sample_kh" "set (kh_order sample_kh xs) = set xs" for xs
    by (simp_all add: sample_kh_def)
  have "length (filter (\<lambda>rc. rc_entity rc = kq_entity sample_tax_query) (db_receipts sample_tax_db)) \<le> 10000"
    "length (overlapping (rd_scope rd) sample_tax_db) \<le> 1000" "sums_fit sample_tax_db" unfolding r(3) by code_simp+
  then have "period_clear (rd_scope rd) sample_tax_db" by (rule tax_ready_sound [OF r(1,2) c k])
  moreover have "length (tax_rows sample_scope sample_tax_db) = 1" by code_simp
  ultimately show ?thesis using r by auto
qed

end
