(* ===== verification/Tax_Sheets.thy ===== *)
theory Tax_Sheets
  imports Tax_Safety
begin

text \<open>
  The tax pack: the shape of its sheets, and that they repeat the reports.
\<close>

section \<open>The sheets of the pack\<close>

text \<open>Every row of a sheet has the given number of cells.\<close>

definition wide :: "nat \<Rightarrow> string list list \<Rightarrow> bool" where
  "wide n rows \<longleftrightarrow> (\<forall>r\<in>set rows. length r = n)"

lemma wide_simps [simp]: "wide n []" "wide n (r # rs) \<longleftrightarrow> length r = n \<and> wide n rs" "wide n (xs @ ys) \<longleftrightarrow> wide n xs \<and> wide n ys"
  "wide n (map f zs) \<longleftrightarrow> (\<forall>z\<in>set zs. length (f z) = n)"
  by (auto simp: wide_def)

lemma diag_row_summary [simp]: "dg_summary (diag_row rc d row) = dg_summary d"
  by (simp add: diag_row_def Let_def)

lemma diag_rows_summary: "dg_summary (foldl (diag_row rc) d rows) = dg_summary d"
  by (induction rows arbitrary: d) simp_all

lemma diag_other_summary: "diag_other h sc rc d s = (Inr d', s') \<Longrightarrow> wide 14 (dg_summary d) \<Longrightarrow> wide 14 (dg_summary d')"
proof -
  assume a: "diag_other h sc rc d s = (Inr d', s')" "wide 14 (dg_summary d)"
  obtain r s1 where "ReceiptSuggestionStore_LatestByReceiptID (r_id rc) s = (r, s1)" by fastforce
  then show ?thesis using a
    by (cases r) (auto simp: diag_other_def dbind_Inr dret_eq dtry_eq noted_def diag_suggestion_def Let_def split: if_splits prod.splits)
qed

lemma diag_receipt_summary: "diag_receipt h sc rc d s = (Inr d', s') \<Longrightarrow> wide 14 (dg_summary d) \<Longrightarrow> wide 14 (dg_summary d')"
proof -
  assume a: "diag_receipt h sc rc d s = (Inr d', s')" "wide 14 (dg_summary d)"
  obtain r s1 where r: "(if r_kind rc = ''import'' \<and> kh_import_rows h then dtry (ImportRowStore_ListByReceiptID (r_id rc)) else dret (Inr [])) s =
      (Inr r, s1)" using a(1) by (auto simp: diag_receipt_def dbind_Inr)
  have k: "(case r of Inr (row0 # rest) \<Rightarrow>
              (let rows = importRowsInScope (row0 # rest) sc in
               dret (if rows = [] then d
                     else foldl (diag_row rc) (d\<lparr>dg_summary := dg_summary d @ [importRowsSummary (r_id rc) (r_original rc) (r_status rc) rows]\<rparr>) rows))
          | _ \<Rightarrow> diag_other h sc rc d) s1 = (Inr d', s')"
    using a(1) r by (simp only: diag_receipt_def dbind_def) simp
  show ?thesis
  proof (cases "\<exists>row0 rest. r = Inr (row0 # rest)")
    case True
    then show ?thesis using k a(2) by (auto simp: dret_eq Let_def diag_rows_summary importRowsSummary_def split: if_splits)
  next
    case False
    then have "diag_other h sc rc d s1 = (Inr d', s')" using k by (auto split: sum.splits list.splits)
    then show ?thesis using a(2) diag_other_summary by blast
  qed
qed

lemma diag_receipts_summary: "diag_receipts h sc rcs d s = (Inr d', s') \<Longrightarrow> wide 14 (dg_summary d) \<Longrightarrow> wide 14 (dg_summary d')"
  by (induction rcs arbitrary: d s) (auto simp: dret_eq dbind_Inr dest: diag_receipt_summary)

lemma tax_exceptions_summary: "tax_exceptions h sc s = (Inr (xs, summary), s') \<Longrightarrow> wide 14 summary"
  by (auto simp: tax_exceptions_def taxImportDiagnostics_def dbind_Inr dret_eq Let_def import_summary_header_def
      split: if_splits prod.splits dest!: diag_receipts_summary)

lemma profit_loss_sheet_eq:
  "profit_loss_sheet rows (out, i, e) =
     (out @ map (\<lambda>r. section_cells (NormalizeType (tb_type r)) r) (filter (\<lambda>r. NormalizeType (tb_type r) \<in> {''income'', ''expense''}) rows),
      i + snd (section_of ''income'' rows), e + snd (section_of ''expense'' rows))"
  by (induction rows arbitrary: out i e) (auto simp: section_of_eq)

lemma balance_sheet_sheet_eq:
  "balance_sheet_sheet rows (out, a, l, e) =
     (out @ map (\<lambda>r. section_cells (NormalizeType (tb_type r)) r)
        (filter (\<lambda>r. NormalizeType (tb_type r) \<in> {''asset'', ''liability'', ''equity''}) rows),
      a + snd (section_of ''asset'' rows), l + snd (section_of ''liability'' rows), e + snd (section_of ''equity'' rows))"
  by (induction rows arbitrary: out a l e) (auto simp: section_of_eq)

definition trial_cells :: "trial_row \<Rightarrow> string list" where
  "trial_cells r = [tb_account r, tb_name r, tb_type r, cents (tb_debit r), cents (tb_credit r)]"

lemma trial_sheet_eq:
  "trial_loop rows (ls, d, c) = (ls', d', c') \<Longrightarrow> trial_sheet rows (out @ map trial_cells ls, d, c) = (out @ map trial_cells ls', d', c')"
proof (induction rows arbitrary: ls d c)
  case (Cons r rows)
  obtain x y where xy: "SplitDebitCredit (tb_debit r - tb_credit r) = (x, y)" by fastforce
  show ?case
  proof (cases "tb_debit r - tb_credit r = 0")
    case True
    then show ?thesis using Cons by (simp add: Let_def)
  next
    case False
    then have "trial_loop rows (ls @ [r\<lparr>tb_debit := x, tb_credit := y\<rparr>], d + x, c + y) = (ls', d', c')"
      using Cons.prems xy by (simp add: Let_def)
    from Cons.IH [OF this] show ?thesis using False xy by (simp add: Let_def trial_cells_def)
  qed
qed simp

lemma wide_case [simp]: "(\<And>a. length (f a) = n) \<Longrightarrow> wide n (case r of Inl _ \<Rightarrow> [] | Inr as \<Rightarrow> map f as)"
  by (cases r) simp_all

lemma allocation_row_cells: "length (taxUseAllocationRow y sec item p st href a b) = 6"
  by (simp add: taxUseAllocationRow_def Let_def split: prod.split)

text \<open>The sheets of a successful export.\<close>

lemma sheets_wide:
  "writeProfitLossCSV sc s = (Inr rows, s') \<Longrightarrow> wide 5 rows"
  "writeBalanceSheetCSV sc s = (Inr rows, s') \<Longrightarrow> wide 5 rows"
  "writeTrialBalanceCSV sc s = (Inr rows, s') \<Longrightarrow> wide 5 rows"
  "writeVendorPaymentsCSV sc s = (Inr rows, s') \<Longrightarrow> wide 4 rows"
  "writeGeneralLedgerCSV sc s = (Inr rows, s') \<Longrightarrow> wide 14 rows"
  "writeTransactionsCSV sc s = (Inr rows, s') \<Longrightarrow> wide 14 rows"
  "writeMileageCSV h sc s = (Inr rows, s') \<Longrightarrow> wide 7 rows"
  "taxUseAllocationRows h sc s = (Inr rows, s') \<Longrightarrow> wide 6 rows"
  "accountRoleTagRows h sc s = (Inr rows, s') \<Longrightarrow> wide 5 rows"
  "taxStatementRows h sc s = (Inr rows, s') \<Longrightarrow> wide 17 rows"
  "taxPrepChecklistRows h sc xs s = (Inr rows, s') \<Longrightarrow> wide 6 rows"
proof -
  show "writeProfitLossCSV sc s = (Inr rows, s') \<Longrightarrow> wide 5 rows"
    by (auto simp: writeProfitLossCSV_def dbind_Inr dret_eq profit_loss_sheet_eq section_cells_def statement_header_def total_cells_def)
  show "writeBalanceSheetCSV sc s = (Inr rows, s') \<Longrightarrow> wide 5 rows"
    by (auto simp: writeBalanceSheetCSV_def dbind_Inr dret_eq balance_sheet_sheet_eq section_cells_def statement_header_def total_cells_def)
  show "wide 5 rows" if a: "writeTrialBalanceCSV sc s = (Inr rows, s')"
  proof -
    obtain tbs s1 where t: "TrialBalance (sc_entity sc) (sc_start sc) (sc_end sc) s = (Inr tbs, s1)"
      using a by (auto simp: writeTrialBalanceCSV_def dbind_Inr)
    obtain ls d c where l: "trial_loop tbs ([], 0, 0) = (ls, d, c)" by (metis prod_cases3)
    show ?thesis
      using a t trial_sheet_eq [OF l, of "[[''account_id'', ''account_name'', ''account_type'', ''debit_cents'', ''credit_cents'']]"]
      by (auto simp: writeTrialBalanceCSV_def dbind_def dret_def trial_cells_def)
  qed
  show "writeVendorPaymentsCSV sc s = (Inr rows, s') \<Longrightarrow> wide 4 rows"
    by (auto simp: writeVendorPaymentsCSV_def dbind_Inr dret_eq)
  show "writeGeneralLedgerCSV sc s = (Inr rows, s') \<Longrightarrow> wide 14 rows"
    by (auto simp: writeGeneralLedgerCSV_def dbind_Inr dret_eq transactionExportHeader_def transactionExportRow_def)
  show "writeTransactionsCSV sc s = (Inr rows, s') \<Longrightarrow> wide 14 rows"
    by (auto simp: writeTransactionsCSV_def dbind_Inr dret_eq transactionExportHeader_def transactionExportRow_def)
  show "writeMileageCSV h sc s = (Inr rows, s') \<Longrightarrow> wide 7 rows"
    by (auto simp: writeMileageCSV_def dbind_Inr dret_eq mileage_csv_header_def mileage_csv_row_def split: if_splits)
  show "taxUseAllocationRows h sc s = (Inr rows, s') \<Longrightarrow> wide 6 rows"
    by (auto simp: taxUseAllocationRows_def allocation_row_cells dbind_Inr dret_eq Let_def)
  show "accountRoleTagRows h sc s = (Inr rows, s') \<Longrightarrow> wide 5 rows"
    by (auto simp: accountRoleTagRows_def dbind_Inr dret_eq Let_def split: if_splits)
  show "taxStatementRows h sc s = (Inr rows, s') \<Longrightarrow> wide 17 rows"
    by (auto simp: taxStatementRows_def dbind_Inr dret_eq Let_def split: if_splits)
  show "taxPrepChecklistRows h sc xs s = (Inr rows, s') \<Longrightarrow> wide 6 rows"
    by (auto simp: taxPrepChecklistRows_def dbind_Inr dret_eq Let_def checklist_line_def)
qed

definition ragged :: "string list list \<Rightarrow> string list list" where
  "ragged rows = filter (\<lambda>r. length r \<noteq> length (hd rows)) rows"

lemma wide_ragged: "wide n rows \<Longrightarrow> ragged rows = []"
  by (cases rows) (auto simp: wide_def ragged_def filter_empty_conv)

lemma package_ragged: "taxPreparedPackageRows h sc xs summary s = (Inr rows, s') \<Longrightarrow>
    map length (ragged rows) = [6, 6, 6] \<and> map hd (ragged rows) = replicate 3 ''Tagged accounts''"
  by (auto simp: taxPreparedPackageRows_def dbind_Inr dret_eq Let_def package_line_def allocationChecklist_def ragged_def numeral_3_eq_3)

text \<open>The sheets of an archive by name, and where each of them comes from.\<close>

type_synonym sheets =
  "string list list \<times> string list list \<times> string list list \<times> string list list \<times> string list list \<times> string list list \<times> string list list \<times> string list list \<times> string list list \<times> string list list \<times> string list list \<times> string list list"

fun pack_sheets :: "tax_exception list \<Rightarrow> string list list \<Rightarrow> sheets \<Rightarrow> (string \<times> string list list) list" where
  "pack_sheets xs summary (pl, bs, tb, gl, txs, mileage, payments, allocation, tags, statements, prep, package) =
     [(''profit-loss.csv'', pl), (''balance-sheet.csv'', bs), (''trial-balance.csv'', tb), (''general-ledger.csv'', gl),
      (''transactions.csv'', txs), (''mileage.csv'', mileage), (''vendor-payments-1099.csv'', payments), (''import-summary.csv'', summary),
      (''exceptions.csv'', taxExceptionsRows xs), (''review-actions.csv'', taxActionRows (taxActionItems xs)),
      (''blocking-summary.csv'', taxBlockingSummaryRows xs), (''home-use-allocation.csv'', allocation), (''account-role-tags.csv'', tags),
      (''statement-reconciliation.csv'', statements), (''prep-checklist.csv'', prep), (''prepared-package.csv'', package)]"

lemma pack_files:
  assumes "writeTaxPackFiles h sc xs summary s = (Inr files, s')"
  obtains pl bs tb gl txs mileage payments allocation tags statements prep package s1 s2 s3 s4 s5 s6 s7 s8 s9 s10 s11 where
    "writeProfitLossCSV sc s = (Inr pl, s1)"
    "writeBalanceSheetCSV sc s1 = (Inr bs, s2)"
    "writeTrialBalanceCSV sc s2 = (Inr tb, s3)"
    "writeGeneralLedgerCSV sc s3 = (Inr gl, s4)"
    "writeTransactionsCSV sc s4 = (Inr txs, s5)"
    "writeMileageCSV h sc s5 = (Inr mileage, s6)"
    "writeVendorPaymentsCSV sc s6 = (Inr payments, s7)"
    "taxUseAllocationRows h sc s7 = (Inr allocation, s8)"
    "accountRoleTagRows h sc s8 = (Inr tags, s9)"
    "taxStatementRows h sc s9 = (Inr statements, s10)"
    "taxPrepChecklistRows h sc xs s10 = (Inr prep, s11)"
    "taxPreparedPackageRows h sc xs summary s11 = (Inr package, s')"
    "files = map (\<lambda>(n, rows). (n, Sheet rows))
       (pack_sheets xs summary (pl, bs, tb, gl, txs, mileage, payments, allocation, tags, statements, prep, package)) @
       [(''README.md'', Page (taxPackReadme sc (length xs)))]"
  using assms [unfolded writeTaxPackFiles_def dbind_Inr dret_eq sum.inject]
  by (elim exE conjE) (rule that, assumption+, simp_all (no_asm_simp))

definition good_sheet :: "string \<times> string list list \<Rightarrow> bool" where
  "good_sheet f \<longleftrightarrow> (if fst f = ''prepared-package.csv''
     then map length (ragged (snd f)) = [6, 6, 6] \<and> map hd (ragged (snd f)) = replicate 3 ''Tagged accounts'' else ragged (snd f) = [])"

lemma pack_run:
  assumes "handleExportTaxPack h q s = ((st, Inr (name, files)), s')"
  obtains sc s0 xs summary s1 s2 where "tax_exceptions h sc s0 = (Inr (xs, summary), s1)" "writeTaxPackFiles h sc xs summary s1 = (Inr files, s2)"
proof -
  obtain sc s0 where k: "ecall (tax_exceptions h sc) internalError (\<lambda>(xs, summary).
     ecall (writeTaxPackFiles h sc xs summary) internalError (\<lambda>files s.
       answer 200 (''tax-pack-'' @ sc_label sc @ ''-'' @ format_compact (instant_date (db_now s)) @ ''.zip'', files) s)) s0 =
         ((st, Inr (name, files)), s')"
    using assms(1) unfolding handleExportTaxPack_def by (rule parseTaxPackParams_Inr)
  then show ?thesis by (auto simp: ecall_ok intro: that split: prod.splits)
qed

lemma pack_has_package:
  assumes "handleExportTaxPack h q s = ((st, Inr (name, files)), s')"
  obtains rows where "(''prepared-package.csv'', Sheet rows) \<in> set files"
proof -
  obtain sc s0 xs summary s1 s2 where "tax_exceptions h sc s0 = (Inr (xs, summary), s1)" "writeTaxPackFiles h sc xs summary s1 = (Inr files, s2)"
    by (rule pack_run [OF assms])
  from this(2) show ?thesis by (rule pack_files) (auto intro: that)
qed

text \<open>
  C40.  Every CSV file of the tax pack is rectangular, each row as wide as the header, but for one: in
  \<open>prepared-package.csv\<close>, whose header has five columns, the three lines of tagged accounts have six cells, in every pack.
\<close>

theorem tax_pack_rectangular:
  assumes "handleExportTaxPack h q s = ((st, Inr (name, files)), s')" "(n, Sheet rows) \<in> set files"
  shows "if n = ''prepared-package.csv'' then map length (ragged rows) = [6, 6, 6] \<and> map hd (ragged rows) = replicate 3 ''Tagged accounts''
    else ragged rows = []"
proof -
  obtain sc s0 xs summary s1 s2 where x: "tax_exceptions h sc s0 = (Inr (xs, summary), s1)" "writeTaxPackFiles h sc xs summary s1 = (Inr files, s2)"
    by (rule pack_run [OF assms(1)])
  show ?thesis using x(2)
  proof (rule pack_files)
    fix pl bs tb gl txs mileage payments allocation tags statements prep package t1 t2 t3 t4 t5 t6 t7 t8 t9 t10 t11
    assume p: "writeProfitLossCSV sc s1 = (Inr pl, t1)"
      "writeBalanceSheetCSV sc t1 = (Inr bs, t2)"
      "writeTrialBalanceCSV sc t2 = (Inr tb, t3)"
      "writeGeneralLedgerCSV sc t3 = (Inr gl, t4)"
      "writeTransactionsCSV sc t4 = (Inr txs, t5)"
      "writeMileageCSV h sc t5 = (Inr mileage, t6)"
      "writeVendorPaymentsCSV sc t6 = (Inr payments, t7)"
      "taxUseAllocationRows h sc t7 = (Inr allocation, t8)"
      "accountRoleTagRows h sc t8 = (Inr tags, t9)"
      "taxStatementRows h sc t9 = (Inr statements, t10)"
      "taxPrepChecklistRows h sc xs t10 = (Inr prep, t11)"
      "taxPreparedPackageRows h sc xs summary t11 = (Inr package, s2)"
      and f: "files = map (\<lambda>(n, rows). (n, Sheet rows))
       (pack_sheets xs summary (pl, bs, tb, gl, txs, mileage, payments, allocation, tags, statements, prep, package)) @
       [(''README.md'', Page (taxPackReadme sc (length xs)))]"
    have r: "ragged pl = []" "ragged bs = []" "ragged tb = []" "ragged gl = []" "ragged txs = []" "ragged mileage = []"
        "ragged payments = []" "ragged allocation = []" "ragged tags = []" "ragged statements = []" "ragged prep = []"
      using p(1-11) by (auto dest!: sheets_wide intro: wide_ragged)
    have "wide 14 summary" by (rule tax_exceptions_summary [OF x(1)])
    moreover have "wide 9 (taxExceptionsRows xs)" "wide 5 (taxActionRows (taxActionItems xs))" "wide 11 (taxBlockingSummaryRows xs)"
      by (simp_all add: taxExceptionsRows_def taxActionRows_def taxBlockingSummaryRows_def)
    ultimately have r2: "ragged summary = []" "ragged (taxExceptionsRows xs) = []" "ragged (taxActionRows (taxActionItems xs)) = []"
        "ragged (taxBlockingSummaryRows xs) = []"
      by (auto intro: wide_ragged)
    have "list_all good_sheet (pack_sheets xs summary (pl, bs, tb, gl, txs, mileage, payments, allocation, tags, statements, prep, package))"
      by (simp add: good_sheet_def r r2 package_ragged [OF p(12)] del: replicate.simps)
    then have "\<forall>f\<in>set (pack_sheets xs summary (pl, bs, tb, gl, txs, mileage, payments, allocation, tags, statements, prep, package)). good_sheet f" by (simp only: list_all_iff)
    moreover have "(n, rows) \<in> set (pack_sheets xs summary (pl, bs, tb, gl, txs, mileage, payments, allocation, tags, statements, prep, package))"
      using assms(2) unfolding f by (auto simp del: pack_sheets.simps)
    ultimately have "good_sheet (n, rows)" by (rule bspec)
    then show ?thesis unfolding good_sheet_def fst_conv snd_conv .
  qed
qed

text \<open>A pack of the books of \<open>Reports\<close>, on a server with only the reports and the entities configured.\<close>

definition bare_kh :: tax_hc where
  "bare_kh = \<lparr>kh_reports = True, kh_entities = True, kh_receipts = False, kh_import_rows = False, kh_suggestions = False, kh_statements = False,
     kh_accounts = False, kh_settings = False, kh_mileage = False, kh_rates = False, kh_decode = (\<lambda>_. None), kh_order = (\<lambda>xs. xs)\<rparr>"

definition dates_query :: tax_query where
  "dates_query = \<lparr>kq_entity = ''E'', kq_year = [], kq_start = ''2024-01-01'', kq_end = ''2024-12-31''\<rparr>"

definition bare_scope :: tax_scope where
  "bare_scope = \<lparr>sc_entity = ''E'', sc_start = \<lparr>d_year = 2024, d_month = 1, d_day = 1\<rparr>, sc_end = \<lparr>d_year = 2024, d_month = 12, d_day = 31\<rparr>,
     sc_label = ''2024-01-01-to-2024-12-31''\<rparr>"

lemma sample_pack:
  obtains name files s' where "handleExportTaxPack bare_kh dates_query sample_bank_db = ((200, Inr (name, files)), s')"
proof -
  define r where "r = tax_exceptions bare_kh bare_scope sample_bank_db"
  define w where "w = writeTaxPackFiles bare_kh bare_scope (fst (projr (fst r))) (snd (projr (fst r))) (snd r)"
  have "\<not> isl (fst r)" unfolding r_def by code_simp
  then have r: "tax_exceptions bare_kh bare_scope sample_bank_db = (Inr (fst (projr (fst r)), snd (projr (fst r))), snd r)"
    using result_Inr [of r] by (simp add: r_def)
  have "\<not> isl (fst w)" unfolding w_def r_def by code_simp
  then have w: "writeTaxPackFiles bare_kh bare_scope (fst (projr (fst r))) (snd (projr (fst r))) (snd r) = (Inr (projr (fst w)), snd w)"
    using result_Inr [of w] by (simp add: w_def)
  have p: "trim_space (kq_year dates_query) = []" "parse_iso (kq_start dates_query) = Some (sc_start bare_scope)"
      "parse_iso (kq_end dates_query) = Some (sc_end bare_scope)" "kq_start dates_query \<noteq> []" "kq_end dates_query \<noteq> []" "kq_entity dates_query \<noteq> []"
      "kh_reports bare_kh" "kh_entities bare_kh"
    by code_simp+
  have sc: "\<lparr>sc_entity = kq_entity dates_query, sc_start = sc_start bare_scope, sc_end = sc_end bare_scope,
      sc_label = kq_start dates_query @ ''-to-'' @ kq_end dates_query\<rparr> = bare_scope"
    by (simp add: bare_scope_def dates_query_def)
  show ?thesis
  proof (rule that)
    show "handleExportTaxPack bare_kh dates_query sample_bank_db = ((200, Inr (''tax-pack-'' @ sc_label bare_scope @ ''-'' @
        format_compact (instant_date (db_now (snd w))) @ ''.zip'', projr (fst w))), snd w)"
      unfolding handleExportTaxPack_def parseTaxPackParams_def
      by (simp add: p sc Let_def ecall_def r w answer_def case_prod_unfold del: append_Cons)
  qed
qed

theorem tax_pack_rectangular_witness:
  "\<exists>name files s' rows. handleExportTaxPack bare_kh dates_query sample_bank_db = ((200, Inr (name, files)), s') \<and>
     (''prepared-package.csv'', Sheet rows) \<in> set files \<and> map length (ragged rows) = [6, 6, 6]"
proof -
  obtain name files s' where p: "handleExportTaxPack bare_kh dates_query sample_bank_db = ((200, Inr (name, files)), s')"
    by (rule sample_pack)
  obtain rows where rows: "(''prepared-package.csv'', Sheet rows) \<in> set files" by (rule pack_has_package [OF p])
  show ?thesis using p rows tax_pack_rectangular [OF p rows] by auto
qed

section \<open>The pack and the reports\<close>

definition trial_rows_of :: "string \<Rightarrow> date \<Rightarrow> date \<Rightarrow> db \<Rightarrow> trial_row list" where
  "trial_rows_of ent start en s =
     map (\<lambda>(a, d, c). trial_row_of (a, word_of_int d, word_of_int c)) (account_groups (period_lines ent start en s) s)"

lemma trial_rows_tables: "same_tables s s' \<Longrightarrow> trial_rows_of ent start en s' = trial_rows_of ent start en s"
  by (simp add: trial_rows_of_def account_groups_def period_lines_def same_tables_fields)

lemma TrialBalance_rows: "TrialBalance ent start en s = (Inr rows, s') \<Longrightarrow> rows = trial_rows_of ent start en s \<and> same_tables s s'"
  using TrialBalance_Inr [of ent start en s rows s'] by (simp add: trial_rows_of_def)

lemma diagnostics_reads: "keeps (same_tables s) (tax_exceptions h sc)"
proof -
  have o1: "keeps (same_tables s) (diag_other h sc rc d)" for rc d
    unfolding diag_other_def ReceiptSuggestionStore_LatestByReceiptID_def Let_def
    by (intro reads.keep_flow) (auto split: list.split intro!: reads.keep_flow)
  have o2: "keeps (same_tables s) (diag_receipt h sc rc d)" for rc d
    unfolding diag_receipt_def ImportRowStore_ListByReceiptID_def Let_def
    by (intro reads.keep_flow o1) (auto split: list.split intro!: reads.keep_flow o1)
  have o3: "keeps (same_tables s) (diag_receipts h sc rcs d)" for rcs d
    by (induction rcs arbitrary: d) (auto intro!: reads.keep_flow o2)
  have o4: "keeps (same_tables s) (taxImportDiagnostics h sc)"
    unfolding taxImportDiagnostics_def ReceiptStore_List_def Let_def by (intro reads.keep_flow o3)
  have o5: "keeps (same_tables s) (scan_statements js)" for js
    by (induction js) (auto simp: scan_statement_def scan_int64_def intro!: reads.keep_flow)
  have o6: "keeps (same_tables s) (taxStatementExceptions h sc)"
    unfolding taxStatementExceptions_def AccountStatementStore_List_def Let_def by (intro reads.keep_flow o5)
  show ?thesis unfolding tax_exceptions_def
    by (intro reads.keep_flow o4 o6 readiness_reads) (auto split: prod.split intro!: reads.keep_flow o6 readiness_reads)
qed

definition line_cells :: "string \<Rightarrow> report_line \<Rightarrow> string list" where
  "line_cells name l = [name, rl_account l, rl_name l, rl_type l, cents (rl_amount l)]"

text \<open>The rows of one section of a sheet are the lines of that section of the report.\<close>

lemma section_rows:
  assumes "ty \<in> T" "ty \<noteq> ''section''" "\<And>t. t \<in> set tots \<Longrightarrow> hd t \<noteq> ty"
  shows "filter (\<lambda>r. hd r = ty) ((statement_header # map (\<lambda>r. section_cells (NormalizeType (tb_type r)) r)
      (filter (\<lambda>r. NormalizeType (tb_type r) \<in> T) rows)) @ tots) = map (line_cells ty) (fst (section_of ty rows))"
proof -
  have "filter (\<lambda>r. hd r = ty) tots = []" using assms(3) by (auto simp: filter_empty_conv)
  moreover have "filter (\<lambda>r. hd r = ty) (map (\<lambda>r. section_cells (NormalizeType (tb_type r)) r) (filter (\<lambda>r. NormalizeType (tb_type r) \<in> T) rows)) =
      map (line_cells ty) (fst (section_of ty rows))"
    using assms(1) by (induction rows) (auto simp: section_of_eq section_cells_def line_cells_def reportLine_def)
  ultimately show ?thesis using assms(2) by (simp add: statement_header_def)
qed

text \<open>The three sheets, from the rows of the trial balance.\<close>

lemma profit_loss_csv:
  assumes "writeProfitLossCSV sc s = (Inr sheet, s')"
  shows "(let rows = trial_rows_of (sc_entity sc) (sc_start sc) (sc_end sc) s in
    filter (\<lambda>r. hd r = ''income'') sheet = map (line_cells ''income'') (pl_income (profit_loss_of rows)) \<and>
    filter (\<lambda>r. hd r = ''expense'') sheet = map (line_cells ''expense'') (pl_expenses (profit_loss_of rows)) \<and>
    last sheet = total_cells ''net_income'' (pl_net (profit_loss_of rows))) \<and> same_tables s s'"
proof -
  let ?rows = "trial_rows_of (sc_entity sc) (sc_start sc) (sc_end sc) s"
  obtain rows s1 where t: "TrialBalance (sc_entity sc) (sc_start sc) (sc_end sc) s = (Inr rows, s1)"
    using assms by (auto simp: writeProfitLossCSV_def dbind_Inr)
  have r: "rows = ?rows" "same_tables s s1" using TrialBalance_rows [OF t] by auto
  define tot where "tot = total_cells ''net_income'' (snd (section_of ''income'' ?rows) - snd (section_of ''expense'' ?rows))"
  have sheet: "sheet = (statement_header # map (\<lambda>r. section_cells (NormalizeType (tb_type r)) r)
      (filter (\<lambda>r. NormalizeType (tb_type r) \<in> {''income'', ''expense''}) ?rows)) @ [tot]" "s' = s1"
    using assms t r(1) by (simp_all add: writeProfitLossCSV_def dbind_def dret_def profit_loss_sheet_eq tot_def)
  have h: "hd tot = ''net_income''" by (simp add: tot_def total_cells_def)
  have "filter (\<lambda>r. hd r = ''income'') sheet = map (line_cells ''income'') (fst (section_of ''income'' ?rows))"
    "filter (\<lambda>r. hd r = ''expense'') sheet = map (line_cells ''expense'') (fst (section_of ''expense'' ?rows))"
    unfolding sheet by (intro section_rows; simp add: h)+
  moreover have "last sheet = tot" by (simp add: sheet)
  ultimately show ?thesis using r(2) sheet(2) by (simp add: Let_def profit_loss_of_def tot_def split: prod.split)
qed

lemma balance_sheet_csv:
  assumes "writeBalanceSheetCSV sc s = (Inr sheet, s')"
  shows "(let b = balance_sheet_of (trial_rows_of (sc_entity sc) (sc_start sc) (sc_end sc) s) in
    filter (\<lambda>r. hd r = ''asset'') sheet = map (line_cells ''asset'') (bl_assets b) \<and>
    filter (\<lambda>r. hd r = ''liability'') sheet = map (line_cells ''liability'') (bl_liabilities b) \<and>
    filter (\<lambda>r. hd r = ''equity'') sheet = map (line_cells ''equity'') (bl_equity b) \<and>
    drop (length sheet - 3) sheet = [total_cells ''total_assets'' (bl_total_assets b),
      total_cells ''total_liabilities'' (bl_total_liabilities b), total_cells ''total_equity'' (bl_total_equity b)]) \<and> same_tables s s'"
proof -
  let ?rows = "trial_rows_of (sc_entity sc) (sc_start sc) (sc_end sc) s"
  obtain rows s1 where t: "TrialBalance (sc_entity sc) (sc_start sc) (sc_end sc) s = (Inr rows, s1)"
    using assms by (auto simp: writeBalanceSheetCSV_def dbind_Inr)
  have r: "rows = ?rows" "same_tables s s1" using TrialBalance_rows [OF t] by auto
  define tots where "tots = [total_cells ''total_assets'' (snd (section_of ''asset'' ?rows)),
    total_cells ''total_liabilities'' (snd (section_of ''liability'' ?rows)), total_cells ''total_equity'' (snd (section_of ''equity'' ?rows))]"
  define body where "body = statement_header # map (\<lambda>r. section_cells (NormalizeType (tb_type r)) r)
      (filter (\<lambda>r. NormalizeType (tb_type r) \<in> {''asset'', ''liability'', ''equity''}) ?rows)"
  have sheet: "sheet = body @ tots" "s' = s1"
    using assms t r(1) by (simp_all add: writeBalanceSheetCSV_def dbind_def dret_def balance_sheet_sheet_eq tots_def body_def)
  have h: "hd t \<in> {''total_assets'', ''total_liabilities'', ''total_equity''}" if "t \<in> set tots" for t
    using that by (auto simp: tots_def total_cells_def)
  have "filter (\<lambda>r. hd r = ty) sheet = map (line_cells ty) (fst (section_of ty ?rows))" if "ty \<in> {''asset'', ''liability'', ''equity''}" for ty
    unfolding sheet body_def using that h by (intro section_rows) fastforce+
  moreover have "drop (length sheet - 3) sheet = tots" by (simp add: sheet tots_def)
  ultimately show ?thesis using r(2) sheet(2) by (simp add: Let_def balance_sheet_of_def tots_def split: prod.split)
qed

lemma trial_balance_csv:
  assumes "writeTrialBalanceCSV sc s = (Inr sheet, s')"
  shows "(let b = trial_report_of (trial_rows_of (sc_entity sc) (sc_start sc) (sc_end sc) s) in
    tl sheet = map trial_cells (tr_lines b) @ [[''total'', [], [], cents (tr_debit b), cents (tr_credit b)]]) \<and> same_tables s s'"
proof -
  obtain rows s1 where t: "TrialBalance (sc_entity sc) (sc_start sc) (sc_end sc) s = (Inr rows, s1)"
    using assms by (auto simp: writeTrialBalanceCSV_def dbind_Inr)
  have r: "rows = trial_rows_of (sc_entity sc) (sc_start sc) (sc_end sc) s" "same_tables s s1" using TrialBalance_rows [OF t] by auto
  obtain ls d c where l: "trial_loop rows ([], 0, 0) = (ls, d, c)" by (metis prod_cases3)
  show ?thesis
    using assms t r l trial_sheet_eq [OF l, of "[[''account_id'', ''account_name'', ''account_type'', ''debit_cents'', ''credit_cents'']]"]
    by (auto simp: writeTrialBalanceCSV_def dbind_def dret_def Let_def trial_report_of_def)
qed

text \<open>
  C10.  The tax pack repeats the reports: for the same entity and dates \<open>profit-loss.csv\<close>, \<open>balance-sheet.csv\<close> and
  \<open>trial-balance.csv\<close> hold the lines of the three report handlers in their order, section by section, and their totals.
\<close>

theorem tax_pack_agrees:
  assumes "handleExportTaxPack h q s = ((st, Inr (name, files)), s1)" "trim_space (kq_year q) = []"
    "handleReportProfitLoss rh \<lparr>qp_entity = kq_entity q, qp_start = kq_start q, qp_end = kq_end q\<rparr> s = ((st2, Inr pl), s2)"
    "handleReportBalanceSheet rh \<lparr>qp_entity = kq_entity q, qp_start = kq_start q, qp_end = kq_end q\<rparr> s = ((st3, Inr bs), s3)"
    "handleReportTrialBalance rh \<lparr>qp_entity = kq_entity q, qp_start = kq_start q, qp_end = kq_end q\<rparr> s = ((st4, Inr tb), s4)"
  shows "\<exists>P B T. (''profit-loss.csv'', Sheet P) \<in> set files \<and> (''balance-sheet.csv'', Sheet B) \<in> set files \<and>
    (''trial-balance.csv'', Sheet T) \<in> set files \<and>
    filter (\<lambda>r. hd r = ''income'') P = map (line_cells ''income'') (pl_income (rp_body pl)) \<and>
    filter (\<lambda>r. hd r = ''expense'') P = map (line_cells ''expense'') (pl_expenses (rp_body pl)) \<and>
    last P = total_cells ''net_income'' (pl_net (rp_body pl)) \<and>
    filter (\<lambda>r. hd r = ''asset'') B = map (line_cells ''asset'') (bl_assets (rp_body bs)) \<and>
    filter (\<lambda>r. hd r = ''liability'') B = map (line_cells ''liability'') (bl_liabilities (rp_body bs)) \<and>
    filter (\<lambda>r. hd r = ''equity'') B = map (line_cells ''equity'') (bl_equity (rp_body bs)) \<and>
    drop (length B - 3) B = [total_cells ''total_assets'' (bl_total_assets (rp_body bs)),
      total_cells ''total_liabilities'' (bl_total_liabilities (rp_body bs)), total_cells ''total_equity'' (bl_total_equity (rp_body bs))] \<and>
    tl T = map trial_cells (tr_lines (rp_body tb)) @ [[''total'', [], [], cents (tr_debit (rp_body tb)), cents (tr_credit (rp_body tb))]]"
proof -
  obtain start en where d: "parse_iso (kq_start q) = Some start" "parse_iso (kq_end q) = Some en"
    using assms(3) by (auto simp: handleReportProfitLoss_def with_params_ok parseReportParams_def split: if_splits option.splits)
  let ?rows = "trial_rows_of (kq_entity q) start en s"
  define sc where "sc = \<lparr>sc_entity = kq_entity q, sc_start = start, sc_end = en, sc_label = kq_start q @ ''-to-'' @ kq_end q\<rparr>"
  have b: "rp_body pl = profit_loss_of ?rows" "rp_body bs = balance_sheet_of ?rows" "rp_body tb = trial_report_of ?rows"
    using assms(3-5) d
    by (auto simp: handleReportProfitLoss_def handleReportBalanceSheet_def handleReportTrialBalance_def with_params_ok parseReportParams_def
        ecall_ok report_for_def split: if_splits option.splits dest!: TrialBalance_rows)
  have "ecall (tax_exceptions h sc) internalError (\<lambda>(xs, summary).
     ecall (writeTaxPackFiles h sc xs summary) internalError (\<lambda>files s.
       answer 200 (''tax-pack-'' @ sc_label sc @ ''-'' @ format_compact (instant_date (db_now s)) @ ''.zip'', files) s)) s =
         ((st, Inr (name, files)), s1)"
    using assms(1,2) d unfolding handleExportTaxPack_def parseTaxPackParams_def sc_def by (auto simp: Let_def split: if_splits)
  then obtain xs summary u v where x: "tax_exceptions h sc s = (Inr (xs, summary), u)" "writeTaxPackFiles h sc xs summary u = (Inr files, v)"
    by (auto simp: ecall_ok split: prod.splits)
  obtain P B T u1 u2 u3 where w: "writeProfitLossCSV sc u = (Inr P, u1)" "writeBalanceSheetCSV sc u1 = (Inr B, u2)"
      "writeTrialBalanceCSV sc u2 = (Inr T, u3)"
    and files: "(''profit-loss.csv'', Sheet P) \<in> set files" "(''balance-sheet.csv'', Sheet B) \<in> set files" "(''trial-balance.csv'', Sheet T) \<in> set files"
    by (rule pack_files [OF x(2)]) (auto intro: that)
  have t0: "same_tables s u" by (rule readsD [OF diagnostics_reads x(1)])
  note p = profit_loss_csv [OF w(1)] and bc = balance_sheet_csv [OF w(2)] and tc = trial_balance_csv [OF w(3)]
  have t1: "same_tables s u1" using t0 p by (auto intro: same_tables_trans)
  then have t2: "same_tables s u2" using bc by (auto intro: same_tables_trans)
  have rows: "trial_rows_of (sc_entity sc) (sc_start sc) (sc_end sc) u = ?rows" "trial_rows_of (sc_entity sc) (sc_start sc) (sc_end sc) u1 = ?rows"
    "trial_rows_of (sc_entity sc) (sc_start sc) (sc_end sc) u2 = ?rows"
    using trial_rows_tables t0 t1 t2 by (auto simp: sc_def)
  show ?thesis
    using files p bc tc unfolding rows b Let_def by blast
qed


lemma dates_query_reports: "\<lparr>qp_entity = kq_entity dates_query, qp_start = kq_start dates_query, qp_end = kq_end dates_query\<rparr> = sample_query"
  by (simp add: dates_query_def sample_query_def)

theorem tax_pack_agrees_witness:
  "\<exists>name files s' P. handleExportTaxPack bare_kh dates_query sample_bank_db = ((200, Inr (name, files)), s') \<and>
     (''profit-loss.csv'', Sheet P) \<in> set files \<and> filter (\<lambda>r. hd r = ''expense'') P = [[''expense'', ''u1'', ''Meals'', ''expense'', ''1250'']]"
proof -
  obtain name files s' where p: "handleExportTaxPack bare_kh dates_query sample_bank_db = ((200, Inr (name, files)), s')"
    by (rule sample_pack)
  have y: "trim_space (kq_year dates_query) = []" by code_simp
  have a: "\<not> isl (snd (fst (handleReportProfitLoss sample_rh sample_query sample_bank_db)))"
    "\<not> isl (snd (fst (handleReportBalanceSheet sample_rh sample_query sample_bank_db)))"
    "\<not> isl (snd (fst (handleReportTrialBalance sample_rh sample_query sample_bank_db)))" by code_simp+
  have e: "map (line_cells ''expense'') (pl_expenses (rp_body (projr (snd (fst (handleReportProfitLoss sample_rh sample_query sample_bank_db)))))) =
      [[''expense'', ''u1'', ''Meals'', ''expense'', ''1250'']]" by code_simp
  from tax_pack_agrees [OF p y, unfolded dates_query_reports, OF answered [OF a(1)] answered [OF a(2)] answered [OF a(3)]]
  show ?thesis using p e by auto
qed

end
