(* ===== verification/Receipt_Http.thy ===== *)
theory Receipt_Http
  imports Mileage Worker Authz
begin

text \<open>
  Receipts and imports over HTTP: \<open>internal/http/receipts.go\<close>, the upload and the reads of \<open>imports.go\<close>, the tags of a
  receipt (\<open>internal/db/tags.go\<close>) and its suggestion context (\<open>metadata.go\<close>).  The object store is a pair of functions
  (\<open>None\<close>: the call fails), \<open>upload.Validate\<close> of the upload library is \<open>ph_validate\<close>.  Metrics are left out.
\<close>

section \<open>Tags\<close>

definition normalizeTag :: "string \<Rightarrow> string" where
  "normalizeTag name = join (str_fields (trim_space (to_lower name))) '' ''"

definition tag_table :: "db \<Rightarrow> tag_row list" where
  "tag_table s = ex_tags (db_extra s)"

text \<open>The column list of \<open>tags\<close> is the model's own row; like \<open>processing_errors\<close>, a missing row is \<open>sql.ErrNoRows\<close>.\<close>

definition TagStore_GetByID :: "string \<Rightarrow> tag_row dbm" where
  "TagStore_GetByID i = dbind (select_one tag_table (\<lambda>t. tg_id t = i))
     (\<lambda>r. case r of None \<Rightarrow> dthrow sql_no_rows | Some t \<Rightarrow> dret t)"

text \<open>\<open>INSERT ... ON CONFLICT (entity_id, name) DO UPDATE\<close>: the row of that name, or a new one.\<close>

definition TagStore_Ensure :: "string \<Rightarrow> string \<Rightarrow> tag_row dbm" where
  "TagStore_Ensure ent name0 =
     (let name = normalizeTag name0 in
      dbind (stmt (\<lambda>s.
        let i = next_uuid s; s' = s\<lparr>db_seq := db_seq s + 1\<rparr> in
        case find (\<lambda>t. tg_entity t = ent \<and> tg_name t = name) (tag_table s) of
          Some t \<Rightarrow> (Inr (tg_id t), s')
        | None \<Rightarrow>
            if i \<in> tg_id ` set (tag_table s) \<or> ent \<notin> ent_id ` set (db_entities s) then (Inl ErrConstraint, s')
            else (Inr i, s'\<lparr>db_extra := (db_extra s)\<lparr>ex_tags :=
              tag_table s @ [\<lparr>tg_id = i, tg_entity = ent, tg_name = name, tg_created = db_now s\<rparr>]\<rparr>\<rparr>)))
      TagStore_GetByID)"

definition receipt_tag_rows :: "string \<Rightarrow> db \<Rightarrow> tag_row list" where
  "receipt_tag_rows i s = sort_by (\<lambda>a b. db_text_less s (tg_name a) (tg_name b))
     (concat (map (\<lambda>(r, t). if r = i then filter (\<lambda>row. tg_id row = t) (tag_table s) else []) (ex_receipt_tags (db_extra s))))"

definition TagStore_ListByReceiptID :: "string \<Rightarrow> tag_row list dbm" where
  "TagStore_ListByReceiptID i = select_all (receipt_tag_rows i)"

definition put_receipt_tags :: "((string \<times> string) list \<Rightarrow> (string \<times> string) list) \<Rightarrow> db \<Rightarrow> db" where
  "put_receipt_tags f s = s\<lparr>db_extra := (db_extra s)\<lparr>ex_receipt_tags := f (ex_receipt_tags (db_extra s))\<rparr>\<rparr>"

text \<open>The primary key of \<open>receipt_tags\<close> is the pair.\<close>

definition insert_receipt_tag :: "string \<Rightarrow> tag_row \<Rightarrow> unit dbm" where
  "insert_receipt_tag i t = stmt (\<lambda>s.
     if (i, tg_id t) \<in> set (ex_receipt_tags (db_extra s)) \<or> i \<notin> rc_id ` set (db_receipts s) \<or> tg_id t \<notin> tg_id ` set (tag_table s)
     then (Inl ErrConstraint, s) else (Inr (), put_receipt_tags (\<lambda>ps. ps @ [(i, tg_id t)]) s))"

definition TagStore_SetReceiptTags :: "string \<Rightarrow> tag_row list \<Rightarrow> unit dbm" where
  "TagStore_SetReceiptTags i tags = transact
     (dbind (stmt (\<lambda>s. (Inr (), put_receipt_tags (filter (\<lambda>p. fst p \<noteq> i)) s))) (\<lambda>_. dfor tags (insert_receipt_tag i)))"

section \<open>The suggestion context of a receipt\<close>

definition ReceiptMetadata_UpsertSuggestionContext :: "string \<Rightarrow> string \<Rightarrow> unit dbm" where
  "ReceiptMetadata_UpsertSuggestionContext i txt = stmt (\<lambda>s.
     if i \<notin> rc_id ` set (db_receipts s) then (Inl ErrConstraint, s)
     else (Inr (), s\<lparr>db_extra := (db_extra s)\<lparr>ex_receipt_ctx :=
         filter (\<lambda>p. fst p \<noteq> i) (ex_receipt_ctx (db_extra s)) @ [(i, txt)]\<rparr>\<rparr>))"

definition ReceiptMetadata_GetSuggestionContext :: "string \<Rightarrow> string dbm" where
  "ReceiptMetadata_GetSuggestionContext i =
     dbind (select_one (\<lambda>s. ex_receipt_ctx (db_extra s)) (\<lambda>p. fst p = i))
       (\<lambda>r. case r of None \<Rightarrow> dthrow sql_no_rows | Some p \<Rightarrow> dret (snd p))"

section \<open>Context and forms\<close>

record file_header =
  fh_name :: string
  fh_size :: int64
  fh_ctype :: string
  fh_body :: "string option"

record objects =
  ob_put :: "string \<Rightarrow> string \<Rightarrow> int64 \<Rightarrow> string option \<Rightarrow> string option"
  ob_url :: "string \<Rightarrow> string option"

text \<open>\<open>ph_max\<close> is \<open>receiptCfg\<close>, reduced to \<open>maxBytes\<close>.\<close>

record receipt_hc =
  ph_max :: "int64 option"
  ph_objects :: "objects option"
  ph_validate :: "file_header \<Rightarrow> string list \<Rightarrow> bool"
  ph_receipts :: bool
  ph_entities :: bool
  ph_queue :: bool
  ph_jobs :: bool
  ph_meta :: bool
  ph_tags :: bool
  ph_drafts :: bool
  ph_errors :: bool
  ph_ocr :: bool
  ph_suggestions :: bool
  ph_search :: bool
  ph_price_in :: int64
  ph_price_out :: int64
  ph_hc :: hc

text \<open>The multipart form: \<open>fm_tags\<close> holds every value of the field \<open>tags\<close>, \<open>fm_tags_list\<close> those of \<open>tags[]\<close>.\<close>

record form =
  fm_entity :: string
  fm_file :: "file_header option"
  fm_total :: string
  fm_ctx :: string
  fm_context :: string
  fm_tags :: "string list"
  fm_tags_list :: "string list"
  fm_text :: string
  fm_ctype :: string
  fm_name :: string

text \<open>\<open>filepath.Base\<close>: trailing slashes are dropped, then all but the last element.\<close>

definition path_base :: "string \<Rightarrow> string" where
  "path_base p =
     (if p = [] then ''.''
      else let q = rev (dropWhile (\<lambda>c. c = CHR ''/'') (rev p));
               b = rev (takeWhile (\<lambda>c. c \<noteq> CHR ''/'') (rev q))
           in if b = [] then ''/'' else b)"

definition sanitizeFilename :: "string \<Rightarrow> string" where
  "sanitizeFilename name = map (\<lambda>c. if c = CHR '' '' then CHR ''_'' else c) (path_base name)"

text \<open>\<open>strings.Split(v, ",")\<close>.\<close>

fun split_commas :: "string \<Rightarrow> string list" where
  "split_commas [] = [[]]"
| "split_commas (c # s) =
     (if c = CHR '','' then [] # split_commas s
      else (case split_commas s of [] \<Rightarrow> [[c]] | w # ws \<Rightarrow> (c # w) # ws))"

text \<open>\<open>PostForm\<close> is the first of the values of the field.\<close>

definition parseTags :: "form \<Rightarrow> string list" where
  "parseTags q =
     fm_tags q @ fm_tags_list q @ (case fm_tags q of [] \<Rightarrow> [] | v # _ \<Rightarrow> if v = [] then [] else split_commas v)"

fun ensureTags :: "string \<Rightarrow> string list \<Rightarrow> string list \<Rightarrow> tag_row list dbm" where
  "ensureTags ent seen [] = dret []"
| "ensureTags ent seen (raw # rest) =
     (let name = trim_space raw; key = to_lower name in
      if name = [] \<or> key \<in> set seen then ensureTags ent seen rest
      else dbind (TagStore_Ensure ent name) (\<lambda>t. dbind (ensureTags ent (key # seen) rest) (\<lambda>ts. dret (t # ts))))"

text \<open>A read whose error is dropped.\<close>

definition fetched :: "bool \<Rightarrow> 'a dbm \<Rightarrow> 'a option dbm" where
  "fetched configured m =
     (if \<not> configured then dret None else dbind (dtry m) (\<lambda>r. dret (case r of Inl _ \<Rightarrow> None | Inr x \<Rightarrow> Some x)))"

definition indexReceipt :: "receipt_hc \<Rightarrow> receipt \<Rightarrow> unit dbm" where
  "indexReceipt h rc =
     (if \<not> ph_search h then dret ()
      else dbind (fetched (ph_tags h) (TagStore_ListByReceiptID (r_id rc))) (\<lambda>tags s.
        send (UpsertDocument (SearchDocumentFromReceipt (db_now s) (hc_tenant (ph_hc h))
          \<lparr>rd_id = r_id rc, rd_entity = r_entity rc, rd_kind = r_kind rc, rd_status = r_status rc, rd_content_type = r_content_type rc,
           rd_original = r_original rc, rd_total = r_total rc, rd_tags = map tg_name (case tags of None \<Rightarrow> [] | Some ts \<Rightarrow> ts),
           rd_uploaded = r_uploaded rc\<rparr>)) s))"

section \<open>Receipts\<close>

definition form_total :: "form \<Rightarrow> int64" where
  "form_total q = (case parse_int (fm_total q) of Some n \<Rightarrow> if 0 < n then word_of_int n else 0 | None \<Rightarrow> 0)"

definition store_context :: "receipt_hc \<Rightarrow> form \<Rightarrow> string \<Rightarrow> unit dbm" where
  "store_context h q i =
     (let ctx = formSuggestionContext (fm_ctx q) (fm_context q) in
      if ph_meta h \<and> ctx \<noteq> [] then best_effort (ReceiptMetadata_UpsertSuggestionContext i ctx) else dret ())"

definition upload_tags :: "receipt_hc \<Rightarrow> form \<Rightarrow> receipt \<Rightarrow> unit dbm" where
  "upload_tags h q rc =
     (if \<not> ph_tags h \<or> parseTags q = [] then dret ()
      else dbind (ensureTags (r_entity rc) [] (parseTags q)) (TagStore_SetReceiptTags (r_id rc)))"

definition handleReceiptUpload :: "receipt_hc \<Rightarrow> form \<Rightarrow> receipt endpoint" where
  "handleReceiptUpload h q =
     (case (ph_max h, ph_objects h) of
        (Some maxBytes, Some ob) \<Rightarrow>
          if \<not> ph_receipts h then notConfigured
          else if fm_entity q = [] then fails 400 ''MISSING_FIELDS''
          else (case fm_file q of
            None \<Rightarrow> fails 400 ''BAD_REQUEST''
          | Some f \<Rightarrow>
              if 0 < i64 maxBytes \<and> i64 maxBytes < i64 (fh_size f) then fails 413 ''FILE_TOO_LARGE''
              else if \<not> ph_validate h f [''image/jpeg'', ''image/png'', ''application/pdf''] then fails 400 ''INVALID_FILE_TYPE''
              else (case ob_put ob (sanitizeFilename (fh_name f)) (fh_ctype f) (fh_size f) (fh_body f) of
                None \<Rightarrow> fails 500 ''INTERNAL_ERROR''
              | Some key \<Rightarrow>
                  ecall (ReceiptStore_Create (fm_entity q) key (fh_ctype f) ''uploaded'' ''receipt'' (fh_name f) (fh_size f) (form_total q))
                    internalError (\<lambda>rc.
                  ethen (auditEvent (ph_hc h) (r_entity rc) (hc_user (ph_hc h)) ''receipt'' (r_id rc) ''receipt.created''
                    [(''status'', r_status rc), (''storage_key'', r_storage_key rc), (''content_type'', r_content_type rc),
                     (''size_bytes'', cents (r_size rc)), (''total_cents'', cents (r_total rc)), (''original_name'', r_original rc)])
                  (ethen (if ph_queue h then best_effort (Enqueue (r_id rc) ''ocr'') else dret ())
                  (ethen (store_context h q (r_id rc))
                  (ecall (upload_tags h q rc) internalError (\<lambda>_.
                   ethen (indexReceipt h rc) (answer 201 rc))))))))
      | _ \<Rightarrow> notConfigured)"

text \<open>The answers that carry more than the receipt.\<close>

record receipt_answer =
  an_receipt :: receipt
  an_url :: string
  an_summary :: "ai_summary option"
  an_draft :: "draft_tx option"
  an_tags :: "tag_row list option"
  an_context :: string
  an_errors :: "proc_error list option"

text \<open>\<open>ReceiptModel.AISummary\<close> is read with the row.\<close>

definition summary_of :: "string \<Rightarrow> db \<Rightarrow> ai_summary option" where
  "summary_of i s = map_of (art_summaries (db_art s)) i"

definition handleReceiptGet :: "receipt_hc \<Rightarrow> string \<Rightarrow> receipt_answer endpoint" where
  "handleReceiptGet h i =
     (case ph_objects h of
        None \<Rightarrow> notConfigured
      | Some ob \<Rightarrow>
          if \<not> ph_receipts h then notConfigured
          else ecall (ReceiptStore_GetEntityID i) notFoundOr500 (\<lambda>_.
               ecall (ReceiptStore_GetByID i) notFoundOr500 (\<lambda>rc s.
               (let summary = summary_of i s in
                case ob_url ob (r_storage_key rc) of
                  None \<Rightarrow> fails 500 ''INTERNAL_ERROR''
                | Some url \<Rightarrow>
                    ecall (fetched (ph_drafts h) (DraftStore_GetByReceiptID (r_id rc))) internalError (\<lambda>draft.
                    ecall (fetched (ph_tags h) (TagStore_ListByReceiptID (r_id rc))) internalError (\<lambda>tags.
                    ecall (fetched (ph_meta h) (ReceiptMetadata_GetSuggestionContext (r_id rc))) internalError (\<lambda>ctx.
                    ecall (fetched (ph_errors h) (ProcessingErrorStore_ListByReceiptID (r_id rc) 50)) internalError (\<lambda>errs.
                      answer 200 \<lparr>an_receipt = rc, an_url = url, an_summary = summary, an_draft = draft, an_tags = tags,
                        an_context = (case ctx of None \<Rightarrow> [] | Some c \<Rightarrow> c), an_errors = errs\<rparr>))))) s)))"

definition handleReceiptStatus :: "receipt_hc \<Rightarrow> string \<Rightarrow> (receipt \<times> receipt_job option \<times> receipt_job list \<times> proc_error list) endpoint" where
  "handleReceiptStatus h i =
     (if \<not> ph_receipts h \<or> \<not> ph_jobs h \<or> \<not> ph_entities h then notConfigured
      else ecall (ReceiptStore_GetByID i) notFoundOr500 (\<lambda>rc.
           ecall (ReceiptJobStore_ListByReceiptID i 20) internalError (\<lambda>jobs.
           ecall (fetched (ph_errors h) (ProcessingErrorStore_ListByReceiptID i 10)) internalError (\<lambda>errs.
             answer 200 (rc, (case jobs of [] \<Rightarrow> None | j # _ \<Rightarrow> Some j), jobs, (case errs of None \<Rightarrow> [] | Some es \<Rightarrow> es))))))"

definition handleReceiptTagsUpdate :: "receipt_hc \<Rightarrow> string \<Rightarrow> string list option \<Rightarrow> tag_row list endpoint" where
  "handleReceiptTagsUpdate h i body =
     (if \<not> ph_receipts h \<or> \<not> ph_tags h \<or> \<not> ph_entities h then notConfigured
      else ecall (ReceiptStore_GetEntityID i) notFoundOr500 (\<lambda>ent.
        case body of
          None \<Rightarrow> fails 400 ''BAD_REQUEST''
        | Some raw \<Rightarrow>
            ecall (ensureTags ent [] raw) internalError (\<lambda>tags.
            ecall (TagStore_SetReceiptTags i tags) internalError (\<lambda>_.
            ecall (fetched True (ReceiptStore_GetByID i)) internalError (\<lambda>rc.
              ethen (case rc of None \<Rightarrow> dret () | Some r \<Rightarrow> indexReceipt h r) (answer 200 tags))))))"

definition handleReceiptList :: "receipt_hc \<Rightarrow> string \<Rightarrow> string \<Rightarrow> int option \<Rightarrow> (string \<times> receipt list) endpoint" where
  "handleReceiptList h ent status limit =
     (if \<not> ph_receipts h then notConfigured
      else if ent = [] then fails 400 ''MISSING_FIELDS''
      else ecall (ReceiptStore_List ent status (queryLimit limit 100 1000)) internalError (\<lambda>rs. answer 200 (ent, rs)))"

definition handleReceiptRequeue :: "receipt_hc \<Rightarrow> string \<Rightarrow> string endpoint" where
  "handleReceiptRequeue h i =
     (if \<not> ph_receipts h \<or> \<not> ph_queue h \<or> \<not> ph_jobs h then notConfigured
      else ecall (ReceiptStore_GetEntityID i) notFoundOr500 (\<lambda>_.
           ecall (ReceiptJobStore_GetIDByReceiptID i) notFoundOr500 (\<lambda>jobID.
           ecall (Requeue jobID) internalError (\<lambda>_. answer 200 jobID))))"

definition handleReceiptOCR :: "receipt_hc \<Rightarrow> string \<Rightarrow> ocr list endpoint" where
  "handleReceiptOCR h i =
     (if \<not> ph_receipts h \<or> \<not> ph_ocr h then notConfigured
      else ecall (ReceiptStore_GetEntityID i) notFoundOr500 (\<lambda>_.
           ecall (ReceiptOCRStore_ListByReceiptID i 20) internalError (\<lambda>rows. answer 200 rows)))"

definition projectedCostCents :: "receipt_hc \<Rightarrow> suggestion \<Rightarrow> int64" where
  "projectedCostCents h sg =
     (if 0 < i64 (s_cost sg) then s_cost sg
      else if s_prompt_tokens sg = 0 \<and> s_completion_tokens sg = 0 then 0
      else EstimateCostCents (s_prompt_tokens sg) (s_completion_tokens sg) (ph_price_in h) (ph_price_out h))"

text \<open>The source URL of a receipt's file, empty when the object store or the receipt is not available.\<close>

definition source_url :: "receipt_hc \<Rightarrow> receipt option \<Rightarrow> string" where
  "source_url h rc =
     (case (ph_objects h, rc) of (Some ob, Some r) \<Rightarrow> strOf (ob_url ob (r_storage_key r)) | _ \<Rightarrow> [])"

definition suggestion_rows :: "receipt_hc \<Rightarrow> string \<Rightarrow> suggestion list \<Rightarrow> (suggestion \<times> int64 \<times> string) list" where
  "suggestion_rows h url sgs = map (\<lambda>sg. (sg, projectedCostCents h sg, url)) sgs"

definition handleReceiptSuggestion :: "receipt_hc \<Rightarrow> string \<Rightarrow> (suggestion \<times> int64 \<times> string) list endpoint" where
  "handleReceiptSuggestion h i =
     (if \<not> ph_receipts h \<or> \<not> ph_suggestions h then notConfigured
      else ecall (ReceiptStore_GetEntityID i) notFoundOr500 (\<lambda>_.
           ecall (ReceiptSuggestionStore_ListByReceiptID i 20) internalError (\<lambda>history.
           ecall (fetched (ph_objects h \<noteq> None) (ReceiptStore_GetByID i)) internalError (\<lambda>rc.
             answer 200 (suggestion_rows h (source_url h rc) history)))))"

text \<open>The rows of \<open>POST /receipts/suggestions/batch\<close>: the middleware leaves the receipts the user may see in the request
  context; without it (\<open>None\<close>) every receipt is served.\<close>

fun batch_rows :: "receipt_hc \<Rightarrow> string list option \<Rightarrow> string list \<Rightarrow> (string \<times> suggestion \<times> int64) list dbm" where
  "batch_rows h allowed [] = dret []"
| "batch_rows h allowed (i # is) =
     (if (case allowed of None \<Rightarrow> False | Some ok \<Rightarrow> i \<notin> set ok) then batch_rows h allowed is
      else dbind (dtry (ReceiptSuggestionStore_LatestByReceiptID i)) (\<lambda>r.
        case r of
          Inl e \<Rightarrow> if e = ErrNotFound then batch_rows h allowed is else dthrow e
        | Inr sg \<Rightarrow> dbind (batch_rows h allowed is) (\<lambda>rows. dret ((i, sg, projectedCostCents h sg) # rows))))"

definition handleReceiptSuggestionsBatch ::
  "receipt_hc \<Rightarrow> string list option \<Rightarrow> string list option \<Rightarrow> (string \<times> suggestion \<times> int64) list endpoint" where
  "handleReceiptSuggestionsBatch h allowed body =
     (if \<not> ph_receipts h \<or> \<not> ph_suggestions h \<or> \<not> ph_entities h then notConfigured
      else case body of
        None \<Rightarrow> fails 400 ''BAD_REQUEST''
      | Some ids \<Rightarrow>
          if ids = [] then fails 400 ''MISSING_FIELDS''
          else ecall (batch_rows h allowed ids) internalError (\<lambda>rows. answer 200 rows))"

text \<open>A rerun of a stage, for receipts and imports, whatever their status.\<close>

definition rerunStage :: "receipt_hc \<Rightarrow> string \<Rightarrow> string \<Rightarrow> job endpoint" where
  "rerunStage h stage i =
     (if \<not> ph_receipts h \<or> \<not> ph_queue h then notConfigured
      else ecall (ReceiptStore_GetEntityID i) notFoundOr500 (\<lambda>ent.
           ecall (ReceiptStore_UpdateStatus i ''queued'') internalError (\<lambda>_.
           ecall (Enqueue i stage) internalError (\<lambda>job.
           ethen (auditEvent (ph_hc h) ent (hc_user (ph_hc h)) ''receipt'' i ''receipt.rerun'' [(''stage'', stage), (''job_id'', j_id job)])
             (answer 200 job)))))"

definition handleReceiptOCRRerun :: "receipt_hc \<Rightarrow> string \<Rightarrow> job endpoint" where
  "handleReceiptOCRRerun h i = rerunStage h ''ocr'' i"

definition handleReceiptSuggestionRerun :: "receipt_hc \<Rightarrow> string \<Rightarrow> job endpoint" where
  "handleReceiptSuggestionRerun h i = rerunStage h ''suggest'' i"

definition handleReceiptDraftRerun :: "receipt_hc \<Rightarrow> string \<Rightarrow> job endpoint" where
  "handleReceiptDraftRerun h i = rerunStage h ''draft'' i"

section \<open>Imports\<close>

definition isAllowedImportType :: "string \<Rightarrow> bool" where
  "isAllowedImportType t \<longleftrightarrow> to_lower t \<in> {''image/jpeg'', ''image/png'', ''application/pdf'', ''text/csv'', ''text/plain''}"

definition is_text :: "string \<Rightarrow> bool" where
  "is_text t \<longleftrightarrow> t = ''text/csv'' \<or> t = ''text/plain''"

text \<open>What an upload brings: name, content type, size, text and the body for the object store; or the error that ends it.\<close>

record import_source =
  is_name :: string
  is_ctype :: string
  is_size :: int64
  is_content :: string
  is_body :: "string option"

definition import_file :: "int64 \<Rightarrow> file_header \<Rightarrow> (int \<times> string) + import_source" where
  "import_file maxBytes f =
     (if 0 < i64 maxBytes \<and> i64 maxBytes < i64 (fh_size f) then Inl (413, ''FILE_TOO_LARGE'')
      else let ct = (if fh_ctype f = [] \<and> has_suffix (to_lower (fh_name f)) ''.csv'' then ''text/csv'' else fh_ctype f) in
        if is_text ct then
          (case fh_body f of
             None \<Rightarrow> Inl (500, ''INTERNAL_ERROR'')
           | Some body \<Rightarrow> Inr \<lparr>is_name = fh_name f, is_ctype = ct, is_size = word_of_int (int (length body)), is_content = body,
               is_body = Some body\<rparr>)
        else Inr \<lparr>is_name = fh_name f, is_ctype = ct, is_size = fh_size f, is_content = [], is_body = fh_body f\<rparr>)"

definition import_text :: "int64 \<Rightarrow> form \<Rightarrow> (int \<times> string) + import_source" where
  "import_text maxBytes q =
     (let txt = trim_space (fm_text q); size = word_of_int (int (length txt)) in
      if txt = [] then Inl (400, ''MISSING_FIELDS'')
      else if 0 < i64 maxBytes \<and> i64 maxBytes < i64 size then Inl (413, ''FILE_TOO_LARGE'')
      else Inr \<lparr>is_name = (if fm_name q = [] then ''import.csv'' else fm_name q),
        is_ctype = (if fm_ctype q = [] then ''text/csv'' else fm_ctype q), is_size = size, is_content = txt, is_body = Some txt\<rparr>)"

definition import_source_of :: "int64 \<Rightarrow> form \<Rightarrow> (int \<times> string) + import_source" where
  "import_source_of maxBytes q = (case fm_file q of Some f \<Rightarrow> import_file maxBytes f | None \<Rightarrow> import_text maxBytes q)"

text \<open>The text of an import is kept as its first OCR run.\<close>

definition store_text :: "receipt_hc \<Rightarrow> string \<Rightarrow> string \<Rightarrow> unit dbm" where
  "store_text h i txt =
     (if txt = [] \<or> \<not> ph_ocr h then dret ()
      else dbind (dtry (ReceiptOCRStore_LatestByReceiptID i)) (\<lambda>r.
        best_effort (ReceiptOCRStore_Create \<lparr>o_id = [], o_receipt = i, o_provider = ''import'', o_status = ''provided'', o_text = txt,
          o_data = ''{}'', o_error = [], o_hash = [], o_version = (case r of Inl _ \<Rightarrow> 1 | Inr l \<Rightarrow> o_version l + 1), o_created = 0\<rparr>)))"

definition handleImportUpload :: "receipt_hc \<Rightarrow> form \<Rightarrow> receipt endpoint" where
  "handleImportUpload h q =
     (case (ph_max h, ph_objects h) of
        (Some maxBytes, Some ob) \<Rightarrow>
          if \<not> ph_receipts h then notConfigured
          else if fm_entity q = [] then fails 400 ''MISSING_FIELDS''
          else (case import_source_of maxBytes q of
            Inl (st, code) \<Rightarrow> fails st code
          | Inr src \<Rightarrow>
              if \<not> isAllowedImportType (is_ctype src) then fails 400 ''INVALID_FILE_TYPE''
              else (case ob_put ob (sanitizeFilename (is_name src)) (is_ctype src) (is_size src) (is_body src) of
                None \<Rightarrow> fails 500 ''INTERNAL_ERROR''
              | Some key \<Rightarrow>
                  ecall (ReceiptStore_Create (fm_entity q) key (is_ctype src) ''uploaded'' ''import'' (is_name src) (is_size src) 0)
                    internalError (\<lambda>rc.
                  ethen (auditEvent (ph_hc h) (r_entity rc) (hc_user (ph_hc h)) ''import'' (r_id rc) ''import.created''
                    [(''status'', r_status rc), (''storage_key'', r_storage_key rc), (''content_type'', r_content_type rc),
                     (''size_bytes'', cents (r_size rc)), (''original_name'', r_original rc)])
                  (ethen (if ph_queue h then best_effort (Enqueue (r_id rc) (if is_text (is_ctype src) then ''suggest'' else ''ocr''))
                          else dret ())
                  (ethen (indexReceipt h rc)
                  (ethen (store_text h (r_id rc) (is_content src))
                  (ethen (store_context h q (r_id rc)) (answer 201 rc))))))))
      | _ \<Rightarrow> notConfigured)"

definition handleImportList :: "receipt_hc \<Rightarrow> string \<Rightarrow> string \<Rightarrow> int option \<Rightarrow> (string \<times> receipt list) endpoint" where
  "handleImportList h ent status limit =
     (if \<not> ph_receipts h \<or> \<not> ph_entities h then notConfigured
      else if ent = [] then fails 400 ''MISSING_FIELDS''
      else ecall (ReceiptStore_ListByKind ent ''import'' status (queryLimit limit 100 1000)) internalError (\<lambda>rs. answer 200 (ent, rs)))"

text \<open>A receipt of another kind is not found under \<open>/imports\<close>.\<close>

definition an_import :: "string \<Rightarrow> (receipt \<Rightarrow> 'b endpoint) \<Rightarrow> 'b endpoint" where
  "an_import i k = ecall (ReceiptStore_GetByID i) notFoundOr500
     (\<lambda>rc. if r_kind rc \<noteq> ''import'' then fails 404 ''NOT_FOUND'' else k rc)"

definition handleImportGet :: "receipt_hc \<Rightarrow> string \<Rightarrow> (receipt \<times> string \<times> string) endpoint" where
  "handleImportGet h i =
     (case ph_objects h of
        None \<Rightarrow> notConfigured
      | Some ob \<Rightarrow>
          if \<not> ph_receipts h then notConfigured
          else an_import i (\<lambda>rc.
            case ob_url ob (r_storage_key rc) of
              None \<Rightarrow> fails 500 ''INTERNAL_ERROR''
            | Some url \<Rightarrow>
                ecall (fetched (ph_meta h) (ReceiptMetadata_GetSuggestionContext (r_id rc))) internalError (\<lambda>ctx.
                  answer 200 (rc, url, (case ctx of None \<Rightarrow> [] | Some c \<Rightarrow> c)))))"

definition handleImportSuggestion :: "receipt_hc \<Rightarrow> string \<Rightarrow> (suggestion \<times> int64 \<times> string) list endpoint" where
  "handleImportSuggestion h i =
     (if \<not> ph_receipts h \<or> \<not> ph_suggestions h then notConfigured
      else an_import i (\<lambda>rc.
        ecall (ReceiptSuggestionStore_ListByReceiptID i 20) internalError (\<lambda>history.
          answer 200 (suggestion_rows h (source_url h (Some rc)) history))))"

definition handleImportSuggestionRerun :: "receipt_hc \<Rightarrow> string \<Rightarrow> job endpoint" where
  "handleImportSuggestionRerun h i = rerunStage h ''suggest'' i"

end
