(* ===== verification/Receipt_Safety.thy ===== *)
theory Receipt_Safety
  imports Receipt_Http Books
begin

text \<open>
  What the receipt and import routes promise: an upload registers exactly one document and touches no books, a batch of
  suggestions shows only what the caller may see, tags are normalised and unique, and a rerun takes a posted receipt out of
  its final status.
\<close>

section \<open>The tables an upload works on\<close>

definition core :: "receipt_row list \<Rightarrow> job_row list \<Rightarrow> db \<Rightarrow> db \<Rightarrow> bool" where
  "core R J s0 s \<longleftrightarrow> db_receipts s = R \<and> db_jobs s = J \<and> db_txs s = db_txs s0 \<and> db_entries s = db_entries s0 \<and>
     db_import_rows s = db_import_rows s0 \<and> db_accounts s = db_accounts s0 \<and> db_drafts s = db_drafts s0 \<and>
     db_draft_entries s = db_draft_entries s0 \<and> db_org s = db_org s0 \<and> db_entities s = db_entities s0"

interpretation core: table_invariant "core R J s0"
  by unfold_locales (simp add: core_def same_tables_fields)

lemma core_stmt: "(\<And>s x s'. q s = (Inr x, s') \<Longrightarrow> core R J s0 s \<Longrightarrow> core R J s0 s') \<Longrightarrow> keeps (core R J s0) (stmt q)"
  by (rule core.keep_stmt)

lemma core_best_effort: "keeps (core R J s0) m \<Longrightarrow> keeps (core R J s0) (best_effort m)"
  unfolding best_effort_def by (intro core.keep_flow)

lemma core_audit: "keeps (core R J s0) (auditEvent h ent actor ty i act d)"
  unfolding auditEvent_def AuditStore_Create_def
  by (auto intro!: core.keep_flow core_best_effort core_stmt simp: core_def split: if_splits)

lemma core_fetched: "keeps (core R J s0) m \<Longrightarrow> keeps (core R J s0) (fetched c m)"
  unfolding fetched_def by (intro core.keep_flow)

lemma core_send: "keeps (core R J s0) (\<lambda>s. send (f s) s)"
  by (auto simp: keeps_def send_def core_def)

lemma core_tag_list: "keeps (core R J s0) (TagStore_ListByReceiptID i)"
  unfolding TagStore_ListByReceiptID_def by (rule core.keep_select_all)

lemma core_index: "keeps (core R J s0) (indexReceipt h rc)"
  unfolding indexReceipt_def by (intro core.keep_if core.keep_dret core.keep_dbind core_fetched core_tag_list core_send)

lemma core_context: "keeps (core R J s0) (store_context h q i)"
  unfolding store_context_def ReceiptMetadata_UpsertSuggestionContext_def Let_def
  by (intro core.keep_if core.keep_dret core_best_effort core_stmt) (auto simp: core_def split: if_splits)

lemma core_Ensure: "keeps (core R J s0) (TagStore_Ensure ent n)"
  unfolding TagStore_Ensure_def TagStore_GetByID_def Let_def
  by (intro core.keep_flow core_stmt) (auto simp: core_def split: if_splits option.splits)

lemma core_ensureTags: "keeps (core R J s0) (ensureTags ent seen raw)"
  by (induction raw arbitrary: seen) (auto simp: Let_def intro!: core.keep_flow core_Ensure)

lemma core_SetReceiptTags: "keeps (core R J s0) (TagStore_SetReceiptTags i ts)"
  unfolding TagStore_SetReceiptTags_def insert_receipt_tag_def
  by (intro core.keep_transact core.keep_dbind core.keep_dfor core_stmt) (auto simp: core_def put_receipt_tags_def split: if_splits)

lemma core_upload_tags: "keeps (core R J s0) (upload_tags h q rc)"
  unfolding upload_tags_def by (intro core.keep_flow core_ensureTags core_SetReceiptTags)

lemma core_text: "keeps (core R J s0) (store_text h i txt)"
  unfolding store_text_def ReceiptOCRStore_LatestByReceiptID_def ReceiptOCRStore_Create_def ReceiptOCRStore_GetByID_def insert_art_def Let_def
  by (intro core.keep_flow core_best_effort core_stmt) (auto simp: core_def intro!: core.keep_flow split: if_splits list.split)

lemma core_jobs: "core R J s0 s \<Longrightarrow> core R J' s0 (s\<lparr>db_jobs := J'\<rparr>)"
  by (simp add: core_def)

text \<open>The job of an upload, if it is queued.\<close>

definition queued_for :: "string \<Rightarrow> string \<Rightarrow> job_row list \<Rightarrow> job_row list \<Rightarrow> bool" where
  "queued_for i stage J J' \<longleftrightarrow> J' = J \<or> (\<exists>j. J' = J @ [j] \<and> jb_receipt j = i \<and> jb_stage j = stage \<and> jb_status j = ''queued'' \<and> jb_attempts j = 0)"

lemma Enqueue_core:
  assumes "core R J s0 s" "stage \<noteq> []"
  obtains J' where "core R J' s0 (snd (Enqueue i stage s))" "queued_for i stage J J'"
    "\<not> isl (fst (Enqueue i stage s)) \<Longrightarrow> J' \<noteq> J"
proof -
  obtain r s' where e: "Enqueue i stage s = (r, s')" by fastforce
  show ?thesis
  proof (cases r)
    case (Inl x)
    have "same_tables s s'"
      using e Inl assms(2) by (auto simp: Enqueue_def dbind_Inl dret_eq dest: stmt_Inl_tables)
    then have "core R J s0 s'" using assms(1) core.tables_only by blast
    then show ?thesis using that [of J] e Inl by (simp add: queued_for_def)
  next
    case (Inr x)
    then obtain row where "db_jobs s' = db_jobs s @ [row]" "jb_receipt row = i" "jb_stage row = stage" "jb_status row = ''queued''"
        "jb_attempts row = 0" "core R (db_jobs s') s0 s'"
      using e assms by (auto simp: Enqueue_def dbind_Inr dret_eq stmt_Inr Let_def core_def split: if_splits)
    then show ?thesis using that [of "J @ [row]"] e assms(1) by (auto simp: queued_for_def core_def)
  qed
qed

lemma best_effort_snd: "snd (best_effort m s) = snd (m s)"
  by (simp add: best_effort_def dbind_def dtry_def dret_def split: prod.split)

lemma queue_core:
  assumes "core R J s0 s" "stage \<noteq> []"
  obtains J' where "core R J' s0 (snd ((if c then best_effort (Enqueue i stage) else dret ()) s))" "queued_for i stage J J'"
proof (cases c)
  case True
  show ?thesis by (rule Enqueue_core [OF assms, of i]) (use True in \<open>auto simp: best_effort_snd intro: that\<close>)
next
  case False
  then show ?thesis using that [of J] assms(1) by (simp add: queued_for_def dret_def)
qed

text \<open>A new document.\<close>

lemma Create_core:
  assumes "ReceiptStore_Create ent key ct status kind name sz tot s = (r, s')"
  shows "(\<exists>row. core (db_receipts s @ [row]) (db_jobs s) s s' \<and> rc_id row \<notin> rc_id ` set (db_receipts s) \<and> rc_entity row = ent \<and>
     rc_kind row = kind \<and> rc_status row = status \<and> rc_attached row = None \<and> rc_content_type row = ct \<and> rc_storage_key row = key \<and>
     rc_size row = sz \<and> (\<forall>rc. r = Inr rc \<longrightarrow> rc = receiptFromRow row)) \<or> core (db_receipts s) (db_jobs s) s s' \<and> isl r"
proof -
  let ?i = "next_uuid s"
  define q where "q = (\<lambda>s::db. let i = next_uuid s; s' = s\<lparr>db_seq := db_seq s + 1\<rparr> in
        if i \<in> rc_id ` set (db_receipts s) \<or> ent \<notin> ent_id ` set (db_entities s) then (Inl ErrConstraint, s')
        else (Inr i, s'\<lparr>db_receipts := db_receipts s @ [\<lparr>rc_id = i, rc_entity = ent, rc_storage_key = key,
                rc_content_type = ct, rc_size = sz, rc_status = status, rc_kind = kind,
                rc_total = (if 0 < i64 tot then Some tot else None), rc_uploaded = db_now s, rc_attached = None, rc_original = Some name,
                rc_vendor_id = None, rc_vendor_raw = None\<rparr>]\<rparr>))"
  have c: "ReceiptStore_Create ent key ct status kind name sz tot = dbind (stmt q) ReceiptStore_GetByID"
    by (simp add: ReceiptStore_Create_def q_def Let_def)
  obtain r1 s1 where 1: "stmt q s = (r1, s1)" by fastforce
  have c0: "core (db_receipts s) (db_jobs s) s s" by (simp add: core_def)
  show ?thesis
  proof (cases r1)
    case (Inl e)
    then have "same_tables s s1" using 1 stmt_Inl_tables by blast
    moreover have "r = Inl e" "s' = s1" using assms 1 Inl by (auto simp: c dbind_def)
    ultimately show ?thesis using c0 core.tables_only by auto
  next
    case (Inr i)
    obtain row where row: "core (db_receipts s @ [row]) (db_jobs s) s s1" "rc_id row = i" "i \<notin> rc_id ` set (db_receipts s)"
        "rc_entity row = ent" "rc_kind row = kind" "rc_status row = status" "rc_attached row = None" "rc_content_type row = ct"
        "rc_storage_key row = key" "rc_size row = sz"
      using 1 Inr by (auto simp: q_def stmt_Inr Let_def core_def split: if_splits)
    have g: "ReceiptStore_GetByID i s1 = (r, s')" using assms 1 Inr by (simp add: c dbind_def)
    have t: "same_tables s1 s'"
    proof (rule readsD)
      show "keeps (same_tables s1) (ReceiptStore_GetByID i)" by (auto simp: ReceiptStore_GetByID_def intro!: reads.keep_flow)
    qed (rule g)
    have f: "find (\<lambda>x. rc_id x = i) (db_receipts s1) = Some row"
    proof -
      have "\<forall>x\<in>set (db_receipts s). rc_id x \<noteq> i" using row(3) by auto
      then show ?thesis using row(1,2) find_append_new [of "db_receipts s" "\<lambda>x. rc_id x = i" row] by (simp add: core_def)
    qed
    have "rc = receiptFromRow row" if "r = Inr rc" for rc
      using g that f by (auto simp: ReceiptStore_GetByID_def dbind_Inr get_row_Inr dret_eq)
    then show ?thesis using row core.tables_only [OF t] by blast
  qed
qed

section \<open>Uploads\<close>

text \<open>One new document of the entity, waiting to be processed, and at most one job for it; nothing else of the books moves.\<close>

definition registers :: "string \<Rightarrow> string \<Rightarrow> string \<Rightarrow> string \<Rightarrow> db \<Rightarrow> db \<Rightarrow> receipt_row \<Rightarrow> bool" where
  "registers ent kind ct stage s s' row \<longleftrightarrow>
     (\<exists>J'. core (db_receipts s @ [row]) J' s s' \<and> queued_for (rc_id row) stage (db_jobs s) J') \<and>
     rc_id row \<notin> rc_id ` set (db_receipts s) \<and> rc_entity row = ent \<and> rc_kind row = kind \<and> rc_content_type row = ct \<and>
     rc_status row = ''uploaded'' \<and> rc_attached row = None"

lemma registers_from:
  assumes "core (db_receipts s @ [row]) J' s s'" "queued_for (rc_id row) stage (db_jobs s) J'" "rc_id row \<notin> rc_id ` set (db_receipts s)"
    "rc_entity row = ent" "rc_kind row = kind" "rc_status row = ''uploaded''" "rc_attached row = None" "rc_content_type row = ct"
  shows "registers ent kind ct stage s s' row"
  using assms by (auto simp: registers_def)

lemma receiptFromRow_id [simp]: "r_id (receiptFromRow row) = rc_id row"
  by (simp add: receiptFromRow_def)

text \<open>The outcomes of an upload endpoint, and the steps that follow the new document.\<close>

definition registered :: "string \<Rightarrow> string \<Rightarrow> string \<Rightarrow> string \<Rightarrow> db \<Rightarrow> (int \<times> (string + receipt)) \<times> db \<Rightarrow> bool" where
  "registered ent kind ct stage s out \<longleftrightarrow> (\<exists>row. registers ent kind ct stage s (snd out) row \<and>
     (fst out = (201, Inr (receiptFromRow row)) \<or> fst out = (500, Inl ''INTERNAL_ERROR'')))"

definition untouched :: "db \<Rightarrow> (int \<times> (string + receipt)) \<times> db \<Rightarrow> bool" where
  "untouched s out \<longleftrightarrow> core (db_receipts s) (db_jobs s) s (snd out) \<and> isl (snd (fst out)) \<and> fst (fst out) \<in> {400, 413, 500, 501}"

definition uploads :: "string \<Rightarrow> string \<Rightarrow> string \<Rightarrow> string \<Rightarrow> receipt endpoint \<Rightarrow> bool" where
  "uploads ent kind ct stage m \<longleftrightarrow> (\<forall>s. registered ent kind ct stage s (m s) \<or> untouched s (m s))"

definition tail_ok :: "string \<Rightarrow> (receipt \<Rightarrow> receipt endpoint) \<Rightarrow> bool" where
  "tail_ok stage k \<longleftrightarrow> (\<forall>R row J s u. core R J s u \<longrightarrow>
     (\<exists>J'. core R J' s (snd (k (receiptFromRow row) u)) \<and> queued_for (rc_id row) stage J J') \<and>
     (fst (k (receiptFromRow row) u) = (201, Inr (receiptFromRow row)) \<or> fst (k (receiptFromRow row) u) = (500, Inl ''INTERNAL_ERROR'')))"

lemma core_refl: "core (db_receipts s) (db_jobs s) s s"
  by (simp add: core_def)

lemma untouched_refusal: "st \<in> {400, 413, 500, 501} \<Longrightarrow> untouched s (fails st code s)" "untouched s (notConfigured s)"
  using core_refl by (auto simp: untouched_def fails_def notConfigured_def)

lemma uploads_refusal: "st \<in> {400, 413, 500, 501} \<Longrightarrow> uploads ent kind ct stage (fails st code)" "uploads ent kind ct stage notConfigured"
  using untouched_refusal by (simp_all add: uploads_def)

lemma uploads_if: "(c \<Longrightarrow> uploads ent kind ct stage m) \<Longrightarrow> (\<not> c \<Longrightarrow> uploads ent kind ct stage n) \<Longrightarrow> uploads ent kind ct stage (if c then m else n)"
  by simp

lemma uploads_option:
  "(o' = None \<Longrightarrow> uploads ent kind ct stage m) \<Longrightarrow> (\<And>x. o' = Some x \<Longrightarrow> uploads ent kind ct stage (f x)) \<Longrightarrow>
     uploads ent kind ct stage (case o' of None \<Rightarrow> m | Some x \<Rightarrow> f x)"
  by (cases o') simp_all

lemma uploads_run:
  assumes "tail_ok stage k"
  shows "uploads ent kind ct stage (ecall (ReceiptStore_Create ent key ct ''uploaded'' kind name sz tot) internalError k)"
  unfolding uploads_def
proof
  fix s
  obtain r1 s1 where c: "ReceiptStore_Create ent key ct ''uploaded'' kind name sz tot s = (r1, s1)" by fastforce
  show "registered ent kind ct stage s (ecall (ReceiptStore_Create ent key ct ''uploaded'' kind name sz tot) internalError k s) \<or>
      untouched s (ecall (ReceiptStore_Create ent key ct ''uploaded'' kind name sz tot) internalError k s)"
  proof (cases r1)
    case (Inl x)
    have "core (db_receipts s) (db_jobs s) s s1 \<or> (\<exists>row. registers ent kind ct stage s s1 row)"
      using Create_core [OF c] by (auto intro!: registers_from simp: queued_for_def)
    then show ?thesis using c Inl by (auto simp: ecall_def internalError_def fails_def registered_def untouched_def)
  next
    case (Inr rc)
    then obtain row where row: "core (db_receipts s @ [row]) (db_jobs s) s s1" "rc_id row \<notin> rc_id ` set (db_receipts s)" "rc_entity row = ent"
        "rc_kind row = kind" "rc_status row = ''uploaded''" "rc_attached row = None" "rc_content_type row = ct" "rc = receiptFromRow row"
      using Create_core [OF c] by auto
    obtain J' where J: "core (db_receipts s @ [row]) J' s (snd (k rc s1))" "queued_for (rc_id row) stage (db_jobs s) J'"
      and r: "fst (k rc s1) = (201, Inr (receiptFromRow row)) \<or> fst (k rc s1) = (500, Inl ''INTERNAL_ERROR'')"
      using assms row(1) unfolding tail_ok_def row(8) by blast
    have "registers ent kind ct stage s (snd (k rc s1)) row" by (rule registers_from [OF J row(2-7)])
    moreover have "ecall (ReceiptStore_Create ent key ct ''uploaded'' kind name sz tot) internalError k s = k rc s1"
      using c Inr by (simp add: ecall_def)
    ultimately show ?thesis using r unfolding registered_def by auto
  qed
qed

lemma tail_okI:
  assumes "\<And>R row J s u. core R J s u \<Longrightarrow>
     \<exists>J' v. core R J' s v \<and> queued_for (rc_id row) stage J J' \<and>
       (k (receiptFromRow row) u = ((201, Inr (receiptFromRow row)), v) \<or> k (receiptFromRow row) u = ((500, Inl ''INTERNAL_ERROR''), v))"
  shows "tail_ok stage k"
  unfolding tail_ok_def using assms by (metis fst_conv snd_conv)

lemma receipt_tail: "tail_ok ''ocr'' (\<lambda>rc. ethen (auditEvent a (r_entity rc) b ''receipt'' (r_id rc) e (d rc))
    (ethen (if ph_queue h then best_effort (Enqueue (r_id rc) ''ocr'') else dret ())
    (ethen (store_context h q (r_id rc)) (ecall (upload_tags h q rc) internalError (\<lambda>_. ethen (indexReceipt h rc) (answer 201 rc))))))"
    (is "tail_ok _ ?k")
proof (rule tail_okI)
  fix R row J s u
  assume 1: "core R J s u"
  define rc where "rc = receiptFromRow row"
  have rc: "r_id rc = rc_id row" by (simp add: rc_def)
  define s2 where "s2 = snd (auditEvent a (r_entity rc) b ''receipt'' (r_id rc) e (d rc) u)"
  define s3 where "s3 = snd ((if ph_queue h then best_effort (Enqueue (r_id rc) ''ocr'') else dret ()) s2)"
  define s4 where "s4 = snd (store_context h q (r_id rc) s3)"
  obtain r5 s5 where 5: "upload_tags h q rc s4 = (r5, s5)" by fastforce
  have 2: "core R J s s2" using core_audit 1 unfolding s2_def keeps_def by blast
  obtain J' where J: "core R J' s s3" "queued_for (rc_id row) ''ocr'' J J'"
    using queue_core [OF 2, of "''ocr''" "ph_queue h" "rc_id row"] unfolding s3_def rc by auto
  have 4: "core R J' s s4" using core_context J(1) unfolding s4_def keeps_def by blast
  have u5: "core R J' s s5" by (rule core.keepsD [OF core_upload_tags 4 5])
  then have u6: "core R J' s (snd (indexReceipt h rc s5))" using core_index unfolding keeps_def by blast
  have "?k rc u = ecall (upload_tags h q rc) internalError (\<lambda>_. ethen (indexReceipt h rc) (answer 201 rc)) s4"
    by (simp only: ethen_def s2_def s3_def s4_def)
  also have "\<dots> = (case r5 of Inl e \<Rightarrow> ((500, Inl ''INTERNAL_ERROR''), s5) | Inr x \<Rightarrow> ((201, Inr rc), snd (indexReceipt h rc s5)))"
    by (simp add: ecall_def 5 ethen_def answer_def internalError_def fails_def split: sum.split)
  finally have "\<exists>J' v. core R J' s v \<and> queued_for (rc_id row) ''ocr'' J J' \<and>
      (?k rc u = ((201, Inr rc), v) \<or> ?k rc u = ((500, Inl ''INTERNAL_ERROR''), v))"
    using u5 u6 J(2) by (cases r5) auto
  then show "\<exists>J' v. core R J' s v \<and> queued_for (rc_id row) ''ocr'' J J' \<and>
      (?k (receiptFromRow row) u = ((201, Inr (receiptFromRow row)), v) \<or> ?k (receiptFromRow row) u = ((500, Inl ''INTERNAL_ERROR''), v))"
    unfolding rc_def .
qed

lemma import_tail:
  assumes "stage \<noteq> []"
  shows "tail_ok stage (\<lambda>rc. ethen (auditEvent a (r_entity rc) b ''import'' (r_id rc) e (d rc))
    (ethen (if ph_queue h then best_effort (Enqueue (r_id rc) stage) else dret ())
    (ethen (indexReceipt h rc) (ethen (store_text h (r_id rc) txt) (ethen (store_context h q (r_id rc)) (answer 201 rc))))))"
    (is "tail_ok _ ?k")
proof (rule tail_okI)
  fix R row J s u
  assume 1: "core R J s u"
  define rc where "rc = receiptFromRow row"
  have rc: "r_id rc = rc_id row" by (simp add: rc_def)
  define s2 where "s2 = snd (auditEvent a (r_entity rc) b ''import'' (r_id rc) e (d rc) u)"
  define s3 where "s3 = snd ((if ph_queue h then best_effort (Enqueue (r_id rc) stage) else dret ()) s2)"
  define s4 where "s4 = snd (indexReceipt h rc s3)"
  define s5 where "s5 = snd (store_text h (r_id rc) txt s4)"
  define s6 where "s6 = snd (store_context h q (r_id rc) s5)"
  have 2: "core R J s s2" using core_audit 1 unfolding s2_def keeps_def by blast
  obtain J' where J: "core R J' s s3" "queued_for (rc_id row) stage J J'"
    using queue_core [OF 2 assms, of "ph_queue h" "rc_id row"] unfolding s3_def rc by auto
  have "core R J' s s4" using core_index J(1) unfolding s4_def keeps_def by blast
  then have "core R J' s s5" using core_text unfolding s5_def keeps_def by blast
  then have 6: "core R J' s s6" using core_context unfolding s6_def keeps_def by blast
  have "?k rc u = ((201, Inr rc), s6)" by (simp only: ethen_def answer_def s2_def s3_def s4_def s5_def s6_def)
  then show "\<exists>J' v. core R J' s v \<and> queued_for (rc_id row) stage J J' \<and>
      (?k (receiptFromRow row) u = ((201, Inr (receiptFromRow row)), v) \<or> ?k (receiptFromRow row) u = ((500, Inl ''INTERNAL_ERROR''), v))"
    using 6 J(2) unfolding rc_def by blast
qed

lemma receipt_upload:
  "(\<exists>f. fm_file q = Some f \<and> registered (fm_entity q) ''receipt'' (fh_ctype f) ''ocr'' s (handleReceiptUpload h q s)) \<or>
    untouched s (handleReceiptUpload h q s)"
proof (cases "fm_file q")
  case None
  have "handleReceiptUpload h q s \<in> {notConfigured s, fails 400 ''MISSING_FIELDS'' s, fails 400 ''BAD_REQUEST'' s}"
    unfolding handleReceiptUpload_def None by (auto split: option.split)
  then show ?thesis using untouched_refusal by auto
next
  case (Some f)
  have "uploads (fm_entity q) ''receipt'' (fh_ctype f) ''ocr'' (handleReceiptUpload h q)"
    unfolding handleReceiptUpload_def Some option.case prod.case
    by (intro uploads_option uploads_if uploads_refusal uploads_run receipt_tail; simp)
  then show ?thesis using Some by (auto simp: uploads_def)
qed

lemma import_upload:
  "(\<exists>maxBytes src. ph_max h = Some maxBytes \<and> import_source_of maxBytes q = Inr src \<and> isAllowedImportType (is_ctype src) \<and>
      registered (fm_entity q) ''import'' (is_ctype src) (if is_text (is_ctype src) then ''suggest'' else ''ocr'') s
        (handleImportUpload h q s)) \<or>
    untouched s (handleImportUpload h q s)"
proof (cases "\<exists>maxBytes src. ph_max h = Some maxBytes \<and> import_source_of maxBytes q = Inr src \<and> isAllowedImportType (is_ctype src)")
  case False
  have "untouched s (handleImportUpload h q s)" if "ph_max h = Some maxBytes" "import_source_of maxBytes q = Inl (st, code)" for maxBytes st code
    using that False
    by (auto simp: handleImportUpload_def import_source_of_def import_file_def import_text_def Let_def untouched_refusal
        split: option.splits if_splits)
  moreover have "untouched s (handleImportUpload h q s)" if "ph_max h = Some maxBytes" "import_source_of maxBytes q = Inr src"
      "\<not> isAllowedImportType (is_ctype src)" for maxBytes src
    using that by (auto simp: handleImportUpload_def untouched_refusal split: option.split)
  moreover have "untouched s (handleImportUpload h q s)" if "ph_max h = None"
    using that by (simp add: handleImportUpload_def untouched_refusal)
  ultimately show ?thesis using False by (metis not_None_eq sum.exhaust surj_pair)
next
  case True
  then obtain maxBytes src where src: "ph_max h = Some maxBytes" "import_source_of maxBytes q = Inr src" "isAllowedImportType (is_ctype src)"
    by blast
  have "uploads (fm_entity q) ''import'' (is_ctype src) (if is_text (is_ctype src) then ''suggest'' else ''ocr'') (handleImportUpload h q)"
    unfolding handleImportUpload_def src option.case prod.case sum.case
    by (intro uploads_option uploads_if uploads_refusal uploads_run import_tail; simp)
  then show ?thesis using src by (auto simp: uploads_def)
qed


section \<open>Tags and reruns\<close>

text \<open>A comma-separated list of tags is split, and kept as a tag of its own as well.\<close>

theorem tag_list_kept:
  "fm_tags q = v # vs \<Longrightarrow> v \<noteq> [] \<Longrightarrow> v \<in> set (parseTags q) \<and> set (split_commas v) \<subseteq> set (parseTags q)"
  by (auto simp: parseTags_def)

definition sample_ph :: receipt_hc where
  "sample_ph = \<lparr>ph_max = Some 0, ph_objects = Some \<lparr>ob_put = (\<lambda>_ _ _ _. Some ''key''), ob_url = (\<lambda>_. None)\<rparr>, ph_validate = (\<lambda>_ _. True),
     ph_receipts = True, ph_entities = True, ph_queue = True, ph_jobs = True, ph_meta = True, ph_tags = True, ph_drafts = True,
     ph_errors = True, ph_ocr = True, ph_suggestions = True, ph_search = False, ph_price_in = 0, ph_price_out = 0, ph_hc = sample_hc\<rparr>"

definition sample_form :: "string list \<Rightarrow> form" where
  "sample_form ts = \<lparr>fm_entity = ''E'', fm_file = Some \<lparr>fh_name = ''r.png'', fh_size = 10, fh_ctype = ''image/png'', fh_body = Some []\<rparr>,
     fm_total = [], fm_ctx = [], fm_context = [], fm_tags = [], fm_tags_list = ts, fm_text = [], fm_ctype = [], fm_name = []\<rparr>"

text \<open>
  Two spellings of one tag that differ in white space pass \<open>ensureTags\<close> as two and break the primary key of the receipt's
  tags: the upload is answered 500 although the receipt exists and its job waits.
\<close>

theorem tag_spelling_fails:
  "case handleReceiptUpload sample_ph (sample_form [''a  b'', ''a b'']) sample_entity_db of (out, s') \<Rightarrow>
     out = (500, Inl ''INTERNAL_ERROR'') \<and> length (db_receipts s') = 1 \<and> length (db_jobs s') = 1"
  by code_simp

text \<open>A rerun takes a posted receipt out of its final status, although it stays attached to its transaction.\<close>

theorem rerun_unposts:
  "case handleReceiptSuggestionRerun sample_ph ''u11'' sample_posted_db of (out, s') \<Rightarrow>
     map (\<lambda>r. (rc_id r, rc_status r, rc_attached r = None)) (db_receipts s') = [(''u11'', ''queued'', False)]"
  by code_simp

end
