(* ===== verification/Spec2Isabelle.thy ===== *)
theory Spec2Isabelle
  imports Pipeline_Run Search_Query Books Queue Artifacts Session_Safety Batch_Safety Worker_Safety Tax_Sheets Receipt_Safety
begin

text \<open>
  Open B00KS keeps the books of small companies from their receipts and bank statements.  A Go server
  (\<open>src/internal/http\<close>) stores receipts, drafts, postings, users and memberships in PostgreSQL
  (\<open>src/internal/db\<close>), a worker (\<open>src/cmd/worker\<close>) takes jobs from a queue (\<open>src/internal/queue\<close>) and runs the AI stages of
  the receipt pipeline (\<open>src/internal/pipeline\<close>), and a scheduler runs the same stages in asynchronous batches
  (\<open>src/internal/aibatch\<close>, \<open>src/internal/receiptbatch\<close>).  Both end in a draft entry that a person posts to the ledger; the
  reports and the tax pack are computed from the postings.

  \<^bold>\<open>Conventions.\<close>  Go's \<open>int64\<close> is \<open>64 word\<close>, read with \<open>sint\<close>; \<open>float64\<close> is a rational rounded by \<open>fl64\<close>; strings
  are byte lists, folded to lower case on ASCII only.  The database is the record \<open>db\<close>: one list of rows per table, in
  insertion order, the clock, a supply of identifiers and an oracle \<open>db_fail\<close> that says which statement fails.  A
  store operation is a function \<open>db \<Rightarrow> (db_error + 'a) \<times> db\<close> built from statements (\<open>stmt\<close>, atomic) and transactions
  (\<open>transact\<close>, rolled back on error); a handler maps a database to a response and a database.  Every timestamp is an
  integer number of seconds.

  \<^bold>\<open>Parameters\<close> stand for code outside \<open>src/\<close>: JSON decoding, the AI provider (for batches a function of the time of the
  call), the search server's answers, the object store, the JWT library and the cryptographic functions, PostgreSQL's
  \<open>NUMERIC\<close> conversion, and gin's two ways of binding a body.  What is relied on of them is a named hypothesis (\<open>jwt_ok\<close>,
  \<open>json_ok\<close>, \<open>gin_documented\<close>) that the instances of the theorems discharge with concrete functions.

  \<^bold>\<open>The standard library.\<close>  \<open>Go_Base\<close>, \<open>Go_Float\<close>, \<open>Go_Time\<close>, \<open>Go_Strconv\<close>, \<open>Go_Ftoa\<close>, \<open>Go_Calendar\<close>, \<open>Go_Csv\<close>: strings, sorting,
  number formatting and parsing, binary64, dates and their arithmetic, and the CSV reader, as far as the source uses them.
  The prelude is \<open>Go_Base\<close> with \<open>Db\<close>, which fills the collection \<open>db_simps\<close> and holds the locale \<open>table_invariant\<close>: from an invariant
  of the tables it derives preservation by every construct of the statement monad.  \<open>Triples\<close> adds Hoare triples with a
  postcondition for errors, \<open>Endpoint\<close> the handlers that answer with a value of their own.

  \<^bold>\<open>Ledger and documents.\<close>
  \<^item> \<open>Ledger\<close>, \<open>Stores\<close>, \<open>Vendor_Memo\<close>, \<open>Artifacts\<close>, \<open>Tenancy\<close>: the stores of postings, receipts, accounts, drafts, import
    rows, vendors, processing artifacts, users and entities.
  \<^item> \<open>Ledger_Http\<close>: handlers for transactions, drafts, receipt vendors and import rows.  \<open>Books\<close>: paths of store calls over the
    ledger's tables; the invariant \<open>books_ok\<close> on all of them, append-only and exclusive posting, the exact effect of a
    posted request and of a posted import row.
  \<^item> \<open>Receipt_Http\<close>, \<open>Receipt_Safety\<close>: uploads, tags, suggestions and reruns of receipts and imports; an upload registers one
    document or none.
  \<^item> \<open>Statements\<close>: bank statements, their entity invariant, what reconciling proves, and why their creation is always refused.
  \<^item> \<open>Mileage\<close>, \<open>Entity_Settings\<close>: trips, rates and the summary by month; tax settings and preferences.
  \<^item> \<open>Search_Docs\<close>, \<open>Search_Query\<close>: search documents and the filters that keep a query inside its tenant.

  \<^bold>\<open>From a document to a draft.\<close>
  \<^item> \<open>Pipeline_Stages\<close>, \<open>Pipeline_Vendor\<close>, \<open>Build_Entry\<close>, \<open>Pipeline_Run\<close>: \<open>internal/pipeline\<close>: prompts, validation and
    gates of the three AI stages (the locale \<open>gated\<close>), vendor matching, the deterministic entry builder and the runner, with
    the guarantees of a ready run and the exact reason of every other end.
  \<^item> \<open>Ocr\<close>, \<open>Worker\<close>, \<open>Worker_Safety\<close>: transcription, the worker's stages and its claim loop; no stage posts anything, and a
    receipt reported ready has a balanced draft.
  \<^item> \<open>Go_Csv\<close>, \<open>Importer\<close>, \<open>Suggest_Entries\<close>: bank statements from CSV bytes to rows and to draft lines.
  \<^item> \<open>Ai_Batch\<close>, \<open>Receipt_Batch\<close>, \<open>Batch_Safety\<close>: submitting, collecting and resetting batches and the three batched stages;
    which positions a receipt may be moved to, and which receipts are lost for good.
  \<^item> \<open>Queue\<close>: the job queue as a refinement of an abstract queue with labelled transitions, exclusive leases, and the number
    of times a job is handed out.

  \<^bold>\<open>Reports.\<close>  \<open>Reports\<close>: trial balance, profit and loss, balance sheet and account pages as the handlers compute them.
  \<open>Fiscal_Year\<close>, \<open>Tax_Readiness\<close>, \<open>Tax_Pack\<close>, \<open>Tax_Safety\<close>, \<open>Tax_Sheets\<close>: the tax period, what is still open in it, the files of
    the tax pack; a period reported as ready is complete, and the pack repeats the reports.  A status of 0 stands for a
    handler that writes no answer.

  \<^bold>\<open>Access.\<close>  \<open>Auth_Tokens\<close>, \<open>Session_Stores\<close>, \<open>Sessions\<close>, \<open>Session_Safety\<close>: tokens, one-time codes, login, refresh, second
    factor and set-up, single use over all interleavings.  \<open>Authz\<close>, \<open>Org_Http\<close>: the authorization middleware, what passing it
    implies, and the handlers for entities, accounts, members and users.

  \<^bold>\<open>Termination and fuel.\<close>  Loops over lists are structural recursions.  Measures carry \<open>nat_str\<close> and \<open>bits\<close> (the number), the
  layout and CSV readers, \<open>rune_count\<close> and \<open>exchange_sort\<close> (what is left of the list) and \<open>norm_date\<close> (the days to carry).  The search
  of \<open>validFiscalYearStart\<close> may run for ever on a bad month: it is a partial function, and \<open>fiscal_start_returns\<close> shows that it
  returns for all settings that can be stored.  The only fuel is the 17 digits of \<open>shortest_from\<close> in \<open>Go_Ftoa\<close>, which always
  identify a \<open>float64\<close>.

  \<^bold>\<open>Not modelled.\<close>  Byte-level JSON, ZIP, PDF and written CSV (a file is the list of its rows), HTTP transport, object
  storage, metrics, tracing and logging; the handlers of vendors, vendor rules, administration and search and the rebuilding of
  the search index, which map JSON to the modelled stores; the leases and timing of the scheduled operations; configuration,
  migrations and start-up; the effect of deleting an entity (the cascades and their order are PostgreSQL's); row locks other
  than those that make a statement atomic.
\<close>

end
